(* ===== verification/Prelude.thy ===== *)
theory Prelude
  imports Main "HOL-Library.AList" "HOL-Library.Sublist"
begin

section \<open>Prelude: JavaScript strings, ordered maps, results and transition systems\<close>

text \<open>
  What every component of the model shares.

  \<^item> Strings are \<open>char list\<close>. The source's strings are UTF-16; the model covers the code
    units below 256, and every test the code makes (separators, quotes, white space, ASCII
    letters and digits) is on such units.
  \<^item> A JavaScript \<open>Map\<close> iterates in insertion order and a \<open>set\<close> on a present key keeps the
    key's place. That is an association list with distinct keys under \<open>AList.update\<close> and
    \<open>AList.delete\<close>.
  \<^item> A call that may throw returns a sum, \<open>Inl\<close> for the thrown value.
  \<^item> \<open>transition_system\<close> is the interface under which the stateful components prove their
    invariants once for all runs.
\<close>

named_theorems js_simps \<open>unfolding of the string helpers\<close>

subsection \<open>Strings\<close>

abbreviation NUL :: char where "NUL \<equiv> CHR 0x00"
abbreviation LF :: char where "LF \<equiv> CHR 0x0A"
abbreviation CR :: char where "CR \<equiv> CHR 0x0D"
abbreviation BSLASH :: char where "BSLASH \<equiv> CHR 0x5C"
abbreviation SQUOTE :: char where "SQUOTE \<equiv> CHR 0x27"
abbreviation DQUOTE :: char where "DQUOTE \<equiv> CHR 0x22"

definition is_ws :: "char \<Rightarrow> bool" where
  "is_ws c \<longleftrightarrow> c \<in> {CHR 0x09, CHR 0x0A, CHR 0x0B, CHR 0x0C, CHR 0x0D, CHR 0x20, CHR 0xA0}"

definition char_between :: "char \<Rightarrow> char \<Rightarrow> char \<Rightarrow> bool" where
  "char_between lo hi c \<longleftrightarrow> of_char lo \<le> (of_char c :: nat) \<and> (of_char c :: nat) \<le> of_char hi"

definition is_digit :: "char \<Rightarrow> bool" where
  "is_digit c \<longleftrightarrow> char_between CHR ''0'' CHR ''9'' c"

definition is_upper :: "char \<Rightarrow> bool" where
  "is_upper c \<longleftrightarrow> char_between CHR ''A'' CHR ''Z'' c"

definition is_lower :: "char \<Rightarrow> bool" where
  "is_lower c \<longleftrightarrow> char_between CHR ''a'' CHR ''z'' c"

definition is_alpha :: "char \<Rightarrow> bool" where
  "is_alpha c \<longleftrightarrow> is_upper c \<or> is_lower c"

definition is_word_char :: "char \<Rightarrow> bool" where
  "is_word_char c \<longleftrightarrow> is_alpha c \<or> is_digit c \<or> c = CHR ''_''"

text \<open>Lower case over Latin-1: ASCII capitals and the accented capitals (0xD7 is the times sign).\<close>

definition lower_char :: "char \<Rightarrow> char" where
  "lower_char c =
     (if is_upper c \<or> (char_between CHR 0xC0 CHR 0xDE c \<and> c \<noteq> CHR 0xD7)
      then char_of ((of_char c :: nat) + 32) else c)"

definition to_lower :: "string \<Rightarrow> string" where
  "to_lower s = map lower_char s"

fun str_includes :: "string \<Rightarrow> string \<Rightarrow> bool" where
  "str_includes [] p = (p = [])"
| "str_includes (c # s) p = (prefix p (c # s) \<or> str_includes s p)"

definition ends_with :: "string \<Rightarrow> string \<Rightarrow> bool" where
  "ends_with s p = prefix (rev p) (rev s)"

definition trim_start :: "string \<Rightarrow> string" where
  "trim_start s = dropWhile is_ws s"

definition trim_end :: "string \<Rightarrow> string" where
  "trim_end s = rev (dropWhile is_ws (rev s))"

definition trim :: "string \<Rightarrow> string" where
  "trim s = trim_end (trim_start s)"

text \<open>\<open>s.replaceAll(c, r)\<close> for a one-character pattern, and \<open>s.split(c)\<close>.\<close>

definition replace_char :: "char \<Rightarrow> string \<Rightarrow> string \<Rightarrow> string" where
  "replace_char c r s = concat (map (\<lambda>x. if x = c then r else [x]) s)"

fun split_on :: "('a \<Rightarrow> bool) \<Rightarrow> 'a list \<Rightarrow> 'a list list" where
  "split_on p [] = [[]]"
| "split_on p (x # xs) =
     (if p x then [] # split_on p xs
      else case split_on p xs of [] \<Rightarrow> [[x]] | y # ys \<Rightarrow> (x # y) # ys)"

fun join :: "'a list \<Rightarrow> 'a list list \<Rightarrow> 'a list" where
  "join sep [] = []"
| "join sep [x] = x"
| "join sep (x # y # zs) = x @ sep @ join sep (y # zs)"

text \<open>Decimal numbers of ASCII digits, as \<open>Number(...)\<close> reads them.\<close>

definition digit_val :: "char \<Rightarrow> nat" where
  "digit_val c = of_char c - 48"

definition num_of_digits :: "string \<Rightarrow> nat" where
  "num_of_digits s = foldl (\<lambda>n c. 10 * n + digit_val c) 0 s"

fun show_nat :: "nat \<Rightarrow> string" where
  "show_nat n = (if n < 10 then [char_of (48 + n)] else show_nat (n div 10) @ [char_of (48 + n mod 10)])"

declare show_nat.simps [simp del]

definition show_int :: "int \<Rightarrow> string" where
  "show_int i = (if i < 0 then CHR ''-'' # show_nat (nat (- i)) else show_nat (nat i))"

text \<open>A value that is absent or an empty string is falsy.\<close>

definition truthy :: "string option \<Rightarrow> bool" where
  "truthy v = (case v of None \<Rightarrow> False | Some s \<Rightarrow> s \<noteq> [])"

lemma truthy_simps [simp]: "\<not> truthy None" "truthy (Some s) \<longleftrightarrow> s \<noteq> []"
  by (simp_all add: truthy_def)

lemma truthy_Some: "truthy v \<longleftrightarrow> (\<exists>s. v = Some s \<and> s \<noteq> [])"
  by (cases v) auto

lemma ends_with_iff: "ends_with s p \<longleftrightarrow> (\<exists>t. s = t @ p)"
proof -
  have "(\<exists>t. rev s = rev p @ t) \<longleftrightarrow> (\<exists>t. s = t @ p)"
    by (metis rev_append rev_rev_ident)
  then show ?thesis by (simp add: ends_with_def prefix_def)
qed

lemma str_includes_iff: "str_includes s p \<longleftrightarrow> (\<exists>u v. s = u @ p @ v)"
proof (induction s)
  case Nil
  then show ?case by auto
next
  case (Cons c s)
  have "(\<exists>u v. c # s = u @ p @ v) \<longleftrightarrow> prefix p (c # s) \<or> (\<exists>u v. s = u @ p @ v)"
  proof
    assume "\<exists>u v. c # s = u @ p @ v"
    then obtain u v where e: "c # s = u @ p @ v" by blast
    show "prefix p (c # s) \<or> (\<exists>u v. s = u @ p @ v)"
    proof (cases u)
      case Nil
      with e show ?thesis by (auto simp: prefix_def)
    next
      case (Cons a u')
      with e show ?thesis by auto
    qed
  next
    assume "prefix p (c # s) \<or> (\<exists>u v. s = u @ p @ v)"
    then show "\<exists>u v. c # s = u @ p @ v"
      by (metis append_Cons append_Nil prefixE)
  qed
  with Cons.IH show ?case by simp
qed

lemma split_on_nonempty [simp]: "split_on p xs \<noteq> []"
  by (induction xs) (auto split: list.splits)

lemma split_on_parts: "y \<in> set (split_on p xs) \<Longrightarrow> x \<in> set y \<Longrightarrow> \<not> p x"
  by (induction xs arbitrary: y) (fastforce split: list.splits if_splits)+

lemma split_on_no_sep: "\<forall>x \<in> set xs. \<not> p x \<Longrightarrow> split_on p xs = [xs]"
  by (induction xs) auto

lemma split_on_append_sep:
  assumes "\<forall>x \<in> set xs. \<not> p x" and "p c"
  shows "split_on p (xs @ c # ys) = xs # split_on p ys"
  using assms by (induction xs) auto

lemma join_Cons: "ys \<noteq> [] \<Longrightarrow> join sep (x # ys) = x @ sep @ join sep ys"
  by (cases ys) auto

lemma join_split_on: "join [c] (split_on (\<lambda>x. x = c) xs) = xs"
proof (induction xs)
  case (Cons x xs)
  obtain y ys where e: "split_on (\<lambda>x. x = c) xs = y # ys"
    by (cases "split_on (\<lambda>x. x = c) xs") auto
  with Cons.IH show ?case by (cases ys) (auto simp: join_Cons)
qed simp

lemma split_on_join:
  assumes "\<forall>x \<in> set parts. c \<notin> set x" and "parts \<noteq> []"
  shows "split_on (\<lambda>x. x = c) (join [c] parts) = parts"
  using assms
proof (induction parts)
  case (Cons x parts)
  show ?case
  proof (cases parts)
    case Nil
    with Cons.prems show ?thesis by (auto intro: split_on_no_sep)
  next
    case (Cons y ys)
    have "split_on (\<lambda>x. x = c) (x @ c # join [c] parts) = x # split_on (\<lambda>x. x = c) (join [c] parts)"
      using Cons.prems by (intro split_on_append_sep) auto
    with Cons Cons.IH Cons.prems show ?thesis by (simp add: join_Cons)
  qed
qed simp

lemma trim_Nil [simp]: "trim [] = []"
  by (simp add: trim_def trim_start_def trim_end_def)

subsection \<open>Decimal numbers\<close>

lemma digit_cases:
  assumes "n < 10"
  shows "is_digit (char_of (48 + n :: nat))" and "digit_val (char_of (48 + n)) = n"
proof -
  have "(of_char (char_of (48 + n :: nat) :: char) :: nat) = 48 + n"
    using assms by (simp add: of_char_of)
  then show "is_digit (char_of (48 + n :: nat))" and "digit_val (char_of (48 + n)) = n"
    using assms by (simp_all add: is_digit_def char_between_def digit_val_def)
qed

lemma show_nat_digits: "c \<in> set (show_nat n) \<Longrightarrow> is_digit c"
proof (induction n arbitrary: c rule: show_nat.induct)
  case (1 n)
  show ?case
  proof (cases "n < 10")
    case True
    with "1.prems" show ?thesis by (simp add: show_nat.simps [of n] digit_cases)
  next
    case False
    with "1.prems" "1.IH" digit_cases(1) [of "n mod 10"] show ?thesis
      by (auto simp: show_nat.simps [of n])
  qed
qed

lemma num_of_digits_snoc: "num_of_digits (s @ [c]) = 10 * num_of_digits s + digit_val c"
  by (simp add: num_of_digits_def)

lemma num_of_show [simp]: "num_of_digits (show_nat n) = n"
proof (induction n rule: show_nat.induct)
  case (1 n)
  show ?case
  proof (cases "n < 10")
    case True
    then show ?thesis by (simp add: show_nat.simps [of n] num_of_digits_def digit_cases)
  next
    case False
    with "1.IH" show ?thesis
      by (simp add: show_nat.simps [of n] num_of_digits_snoc digit_cases)
  qed
qed

lemma show_nat_nonempty [simp]: "show_nat n \<noteq> []"
  by (subst show_nat.simps) simp

lemma length_show_nat: "n < 10 ^ Suc k \<Longrightarrow> length (show_nat n) \<le> Suc k"
proof (induction k arbitrary: n)
  case 0
  then show ?case by (simp add: show_nat.simps [of n])
next
  case (Suc k)
  show ?case
  proof (cases "n < 10")
    case True
    then show ?thesis by (simp add: show_nat.simps [of n])
  next
    case False
    from Suc.prems have "n div 10 < 10 ^ Suc k" by (simp add: less_mult_imp_div_less)
    with False Suc.IH [of "n div 10"] show ?thesis by (simp add: show_nat.simps [of n])
  qed
qed

lemma is_digit_not_ws: "is_digit c \<Longrightarrow> \<not> is_ws c"
  by (auto simp: is_digit_def is_ws_def char_between_def)

lemma trim_no_ws: "\<forall>c \<in> set s. \<not> is_ws c \<Longrightarrow> trim s = s"
proof -
  have drop: "dropWhile is_ws t = t" if "\<forall>c \<in> set t. \<not> is_ws c" for t
    using that by (cases t) auto
  show "\<forall>c \<in> set s. \<not> is_ws c \<Longrightarrow> trim s = s"
    by (simp add: trim_def trim_start_def trim_end_def drop)
qed

subsection \<open>JavaScript maps\<close>

type_synonym ('k, 'v) jsmap = "('k \<times> 'v) list"

definition jsmap_ok :: "('k, 'v) jsmap \<Rightarrow> bool" where
  "jsmap_ok m \<longleftrightarrow> distinct (map fst m)"

abbreviation map_get :: "('k, 'v) jsmap \<Rightarrow> 'k \<Rightarrow> 'v option" where
  "map_get m k \<equiv> map_of m k"

abbreviation map_set :: "'k \<Rightarrow> 'v \<Rightarrow> ('k, 'v) jsmap \<Rightarrow> ('k, 'v) jsmap" where
  "map_set k v m \<equiv> AList.update k v m"

abbreviation map_delete :: "'k \<Rightarrow> ('k, 'v) jsmap \<Rightarrow> ('k, 'v) jsmap" where
  "map_delete k m \<equiv> AList.delete k m"

text \<open>The contract of a \<open>Map\<close> that the components use.\<close>

locale keyed_store =
  fixes empty :: "'m"
    and get :: "'m \<Rightarrow> 'k \<Rightarrow> 'v option"
    and put :: "'k \<Rightarrow> 'v \<Rightarrow> 'm \<Rightarrow> 'm"
    and remove :: "'k \<Rightarrow> 'm \<Rightarrow> 'm"
    and card_of :: "'m \<Rightarrow> nat"
    and ok :: "'m \<Rightarrow> bool"
  assumes get_empty: "get empty k = None"
    and get_put: "get (put k v m) k' = (if k' = k then Some v else get m k')"
    and get_remove: "get (remove k m) k' = (if k' = k then None else get m k')"
    and card_empty: "card_of empty = 0"
    and card_put: "ok m \<Longrightarrow> card_of (put k v m) = (if get m k = None then Suc (card_of m) else card_of m)"
    and card_remove: "ok m \<Longrightarrow> card_of (remove k m) = (if get m k = None then card_of m else card_of m - 1)"
    and ok_empty: "ok empty"
    and ok_put: "ok m \<Longrightarrow> ok (put k v m)"
    and ok_remove: "ok m \<Longrightarrow> ok (remove k m)"
begin

lemma put_remove_fresh: "get m k = None \<Longrightarrow> ok m \<Longrightarrow> card_of (remove k (put k v m)) = card_of m"
  by (simp add: card_put card_remove ok_put get_put)

lemma card_put_le: "ok m \<Longrightarrow> card_of (put k v m) \<le> Suc (card_of m)"
  by (simp add: card_put)

lemma card_remove_le: "ok m \<Longrightarrow> card_of (remove k m) \<le> card_of m"
  by (simp add: card_remove)

lemma card_remove_present: "ok m \<Longrightarrow> get m k = Some v \<Longrightarrow> card_of (remove k m) = card_of m - 1"
  by (simp add: card_remove)

end

lemma length_alist_update:
  "length (AList.update k v m) = (if map_of m k = None then Suc (length m) else length m)"
  by (induction m) auto

lemma length_alist_delete:
  "distinct (map fst m) \<Longrightarrow>
   length (AList.delete k m) = (if map_of m k = None then length m else length m - 1)"
proof (induction m)
  case (Cons p m)
  show ?case
  proof (cases "fst p = k")
    case True
    with Cons.prems have "k \<notin> fst ` set m" by simp
    then have "AList.delete k m = m"
      by (force simp: AList.delete_eq filter_id_conv)
    with True show ?thesis by (cases p) (simp add: AList.delete_eq)
  next
    case False
    with Cons show ?thesis
      by (cases p) (auto simp: AList.delete_eq map_of_eq_None_iff Suc_diff_Suc
          dest: length_pos_if_in_set)
  qed
qed simp

interpretation jsm: keyed_store "[]" map_of AList.update AList.delete length jsmap_ok
proof unfold_locales
  show "map_of (AList.update k v m) k' = (if k' = k then Some v else map_of m k')"
    for k k' :: 'a and v :: 'b and m
    by (simp add: update_conv')
  show "map_of (AList.delete k m) k' = (if k' = k then None else map_of m k')"
    for k k' :: 'a and m :: "('a \<times> 'b) list"
    by (simp add: delete_conv')
  show "jsmap_ok (AList.update k v m)" if "jsmap_ok m" for k :: 'a and v :: 'b and m
    using that by (simp add: jsmap_ok_def distinct_update)
  show "jsmap_ok (AList.delete k m)" if "jsmap_ok m" for k :: 'a and m :: "('a \<times> 'b) list"
    using that by (simp add: jsmap_ok_def distinct_delete)
qed (simp_all add: jsmap_ok_def length_alist_update length_alist_delete)

lemmas jsmap_simps = jsm.get_put jsm.get_remove jsm.card_put jsm.card_remove
lemmas jsmap_intros [intro, simp] = jsm.ok_put jsm.ok_remove jsm.ok_empty

lemma jsmap_get_mem: "jsmap_ok m \<Longrightarrow> (k, v) \<in> set m \<longleftrightarrow> map_of m k = Some v"
  by (auto simp: jsmap_ok_def dest: map_of_SomeD)

subsection \<open>Results\<close>

definition bind_res :: "'e + 'a \<Rightarrow> ('a \<Rightarrow> 'e + 'b) \<Rightarrow> 'e + 'b" where
  "bind_res m f = (case m of Inl e \<Rightarrow> Inl e | Inr x \<Rightarrow> f x)"

lemma bind_res_simps [simp]:
  "bind_res (Inl e) f = Inl e"
  "bind_res (Inr x) f = f x"
  by (simp_all add: bind_res_def)

lemma bind_res_Inr: "bind_res m f = Inr y \<longleftrightarrow> (\<exists>x. m = Inr x \<and> f x = Inr y)"
  by (cases m) simp_all

subsection \<open>First refusal in a chain of checks\<close>

text \<open>
  Much of the code is a chain of guards, each of which may return a refusal; the first
  refusal is the answer.
\<close>

fun first_refusal :: "'d option list \<Rightarrow> 'd option" where
  "first_refusal [] = None"
| "first_refusal (Some d # cs) = Some d"
| "first_refusal (None # cs) = first_refusal cs"

lemma first_refusal_None: "first_refusal cs = None \<longleftrightarrow> (\<forall>c \<in> set cs. c = None)"
  by (induction cs rule: first_refusal.induct) auto

lemma case_first_None [simp]:
  "(case x of None \<Rightarrow> y | Some d \<Rightarrow> Some d) = None \<longleftrightarrow> x = None \<and> y = None"
  by (cases x) auto

lemma first_refusal_Some: "first_refusal cs = Some d \<Longrightarrow> Some d \<in> set cs"
  by (induction cs rule: first_refusal.induct) auto

subsection \<open>Transition systems\<close>

locale transition_system =
  fixes init :: "'s \<Rightarrow> bool"
    and step :: "'s \<Rightarrow> 's \<Rightarrow> bool"
    and inv :: "'s \<Rightarrow> bool"
  assumes inv_init: "init s \<Longrightarrow> inv s"
    and inv_step: "inv s \<Longrightarrow> step s t \<Longrightarrow> inv t"
begin

lemma inv_run: "step\<^sup>*\<^sup>* s t \<Longrightarrow> inv s \<Longrightarrow> inv t"
  by (induction rule: rtranclp_induct) (auto intro: inv_step)

lemma inv_reachable: "init s \<Longrightarrow> step\<^sup>*\<^sup>* s t \<Longrightarrow> inv t"
  by (blast intro: inv_run inv_init)

end

end
