(* ===== verification/Regex.thy ===== *)
theory Regex
  imports Prelude
begin

section \<open>Regular expressions: the part of \<open>RegExp\<close> that the fixed patterns use\<close>

text \<open>
  The fixed patterns of \<open>src/safety.ts\<close> use character classes, sequences, alternatives,
  greedy and lazy repetition, look-ahead and the end anchor. \<open>rx_rests r s\<close> lists the rests
  of \<open>s\<close> after a match of \<open>r\<close> at its start, in the order a backtracking matcher tries them,
  so its head is the match that \<open>exec\<close> reports. As in ECMAScript, an iteration of a
  repetition that consumes nothing is refused. \<open>rx_match\<close> is the declarative meaning, without
  order and without that restriction; \<open>rx_rests_iff\<close> shows that they agree.
\<close>

datatype regex =
    RxEmpty
  | RxChar "char \<Rightarrow> bool"
  | RxSeq regex regex
  | RxAlt regex regex
  | RxStar regex
  | RxLazy regex
  | RxLook regex
  | RxEnd

function rx_rests :: "regex \<Rightarrow> string \<Rightarrow> string list" where
  "rx_rests RxEmpty s = [s]"
| "rx_rests (RxChar p) s = (case s of [] \<Rightarrow> [] | c # t \<Rightarrow> if p c then [t] else [])"
| "rx_rests (RxSeq q r) s = concat (map (rx_rests r) (rx_rests q s))"
| "rx_rests (RxAlt q r) s = rx_rests q s @ rx_rests r s"
| "rx_rests (RxStar r) s =
     concat (map (\<lambda>t. if length t < length s then rx_rests (RxStar r) t else []) (rx_rests r s)) @ [s]"
| "rx_rests (RxLazy r) s =
     [s] @ concat (map (\<lambda>t. if length t < length s then rx_rests (RxLazy r) t else []) (rx_rests r s))"
| "rx_rests (RxLook r) s = (if rx_rests r s = [] then [] else [s])"
| "rx_rests RxEnd s = (if s = [] then [[]] else [])"
  by pat_completeness auto
termination
  by (relation "measures [\<lambda>(r, s). size r, \<lambda>(r, s). length s]") auto

declare rx_rests.simps(5,6) [simp del]

text \<open>\<open>test\<close> looks for a match at every position, \<open>matchAll\<close> (with the \<open>g\<close> flag) for the
  successive non-overlapping ones; a match is given by the rests at its start and its end.\<close>

fun rx_test :: "regex \<Rightarrow> string \<Rightarrow> bool" where
  "rx_test r [] = (rx_rests r [] \<noteq> [])"
| "rx_test r (c # s) = (rx_rests r (c # s) \<noteq> [] \<or> rx_test r s)"

function rx_match_all :: "regex \<Rightarrow> string \<Rightarrow> (string \<times> string) list" where
  "rx_match_all r s =
     (case rx_rests r s of
        t # _ \<Rightarrow> (s, t) # (if length t < length s then rx_match_all r t
                          else if s = [] then [] else rx_match_all r (tl s))
      | [] \<Rightarrow> if s = [] then [] else rx_match_all r (tl s))"
  by pat_completeness auto
termination
  by (relation "measure (\<lambda>(r, s). length s)") auto

declare rx_match_all.simps [simp del]

subsection \<open>Shorthands for the source's notation\<close>

definition rx_plus :: "regex \<Rightarrow> regex" where
  "rx_plus r = RxSeq r (RxStar r)"

definition rx_opt :: "regex \<Rightarrow> regex" where
  "rx_opt r = RxAlt r RxEmpty"

definition rx_ws :: regex where
  "rx_ws = RxChar is_ws"

definition rx_nonws :: regex where
  "rx_nonws = RxChar (\<lambda>c. \<not> is_ws c)"

definition rx_dot :: regex where
  "rx_dot = RxChar (\<lambda>c. c \<noteq> LF \<and> c \<noteq> CR)"

text \<open>A literal under the \<open>i\<close> flag, given in lower case; and a list of alternatives.\<close>

fun rx_lit :: "string \<Rightarrow> regex" where
  "rx_lit [] = RxEmpty"
| "rx_lit (c # cs) = RxSeq (RxChar (\<lambda>x. lower_char x = c)) (rx_lit cs)"

fun rx_alts :: "regex list \<Rightarrow> regex" where
  "rx_alts [] = RxChar (\<lambda>_. False)"
| "rx_alts [r] = r"
| "rx_alts (r # q # rs) = RxAlt r (rx_alts (q # rs))"

fun rx_seqs :: "regex list \<Rightarrow> regex" where
  "rx_seqs [] = RxEmpty"
| "rx_seqs [r] = r"
| "rx_seqs (r # q # rs) = RxSeq r (rx_seqs (q # rs))"

subsection \<open>Declarative meaning\<close>

inductive rx_match :: "regex \<Rightarrow> string \<Rightarrow> string \<Rightarrow> bool" where
  m_empty: "rx_match RxEmpty s s"
| m_char: "p c \<Longrightarrow> rx_match (RxChar p) (c # s) s"
| m_seq: "rx_match q s t \<Longrightarrow> rx_match r t u \<Longrightarrow> rx_match (RxSeq q r) s u"
| m_alt1: "rx_match q s t \<Longrightarrow> rx_match (RxAlt q r) s t"
| m_alt2: "rx_match r s t \<Longrightarrow> rx_match (RxAlt q r) s t"
| m_star0: "rx_match (RxStar r) s s"
| m_star1: "rx_match r s t \<Longrightarrow> rx_match (RxStar r) t u \<Longrightarrow> rx_match (RxStar r) s u"
| m_lazy0: "rx_match (RxLazy r) s s"
| m_lazy1: "rx_match r s t \<Longrightarrow> rx_match (RxLazy r) t u \<Longrightarrow> rx_match (RxLazy r) s u"
| m_look: "rx_match r s t \<Longrightarrow> rx_match (RxLook r) s s"
| m_end: "rx_match RxEnd [] []"

inductive_cases rx_match_emptyE [elim!]: "rx_match RxEmpty s t"
inductive_cases rx_match_charE [elim!]: "rx_match (RxChar p) s t"
inductive_cases rx_match_seqE [elim!]: "rx_match (RxSeq q r) s t"
inductive_cases rx_match_altE [elim!]: "rx_match (RxAlt q r) s t"
inductive_cases rx_match_lookE [elim!]: "rx_match (RxLook r) s t"
inductive_cases rx_match_endE [elim!]: "rx_match RxEnd s t"

lemma rx_match_suffix: "rx_match r s t \<Longrightarrow> \<exists>u. s = u @ t"
  by (induction rule: rx_match.induct) auto

lemma rx_match_length: "rx_match r s t \<Longrightarrow> length t \<le> length s"
  by (auto dest: rx_match_suffix)

lemma rx_match_progress: "rx_match r s t \<Longrightarrow> \<not> length t < length s \<Longrightarrow> t = s"
  by (auto dest: rx_match_suffix)

lemma rx_rests_sound: "t \<in> set (rx_rests r s) \<Longrightarrow> rx_match r s t"
proof (induction r s arbitrary: t rule: rx_rests.induct)
  case (5 r s)
  from "5.prems" consider "t = s" |
    u where "u \<in> set (rx_rests r s)" "length u < length s" "t \<in> set (rx_rests (RxStar r) u)"
    by (auto simp: rx_rests.simps(5) [of r s] split: if_splits)
  then show ?case using "5.IH" by cases (auto intro: rx_match.intros)
next
  case (6 r s)
  from "6.prems" consider "t = s" |
    u where "u \<in> set (rx_rests r s)" "length u < length s" "t \<in> set (rx_rests (RxLazy r) u)"
    by (auto simp: rx_rests.simps(6) [of r s] split: if_splits)
  then show ?case using "6.IH" by cases (auto intro: rx_match.intros)
next
  case (7 r s)
  then show ?case by (cases "rx_rests r s") (auto intro: rx_match.intros split: if_splits)
qed (auto intro: rx_match.intros split: list.splits if_splits)

lemma rx_rests_complete: "rx_match r s t \<Longrightarrow> t \<in> set (rx_rests r s)"
proof (induction rule: rx_match.induct)
  case (m_star1 r s t u)
  then show ?case
    using rx_match_progress [of r s t]
    by (cases "length t < length s") (auto simp: rx_rests.simps(5) [of r s])
next
  case (m_lazy1 r s t u)
  then show ?case
    using rx_match_progress [of r s t]
    by (cases "length t < length s") (auto simp: rx_rests.simps(6) [of r s])
next
  case (m_look r s t)
  then show ?case by (auto split: if_splits)
next
  case (m_star0 r s)
  show ?case by (simp add: rx_rests.simps(5) [of r s])
next
  case (m_lazy0 r s)
  show ?case by (simp add: rx_rests.simps(6) [of r s])
qed auto

theorem rx_rests_iff: "t \<in> set (rx_rests r s) \<longleftrightarrow> rx_match r s t"
  by (blast intro: rx_rests_sound rx_rests_complete)

lemma rx_rests_nonempty: "rx_rests r s \<noteq> [] \<longleftrightarrow> (\<exists>t. rx_match r s t)"
  by (metis list.set_intros(1) neq_Nil_conv rx_rests_iff empty_iff list.set(1))

lemma rx_test_iff: "rx_test r s \<longleftrightarrow> (\<exists>u v t. s = u @ v \<and> rx_match r v t)"
proof (induction s)
  case Nil
  then show ?case by (simp add: rx_rests_nonempty)
next
  case (Cons c s)
  have "(\<exists>u v t. c # s = u @ v \<and> rx_match r v t)
      \<longleftrightarrow> (\<exists>t. rx_match r (c # s) t) \<or> (\<exists>u v t. s = u @ v \<and> rx_match r v t)"
    by (auto simp: Cons_eq_append_conv)
  with Cons.IH show ?case by (simp add: rx_rests_nonempty)
qed

subsection \<open>Matches of the shorthands\<close>

lemma rx_match_star_char:
  "rx_match (RxStar (RxChar p)) s t \<longleftrightarrow> (\<exists>u. s = u @ t \<and> (\<forall>c \<in> set u. p c))"
proof
  assume "rx_match (RxStar (RxChar p)) s t"
  then show "\<exists>u. s = u @ t \<and> (\<forall>c \<in> set u. p c)"
  proof (induction "RxStar (RxChar p)" s t rule: rx_match.induct)
    case (m_star1 s t u)
    then obtain v where v: "t = v @ u" "\<forall>c \<in> set v. p c" by blast
    from m_star1.hyps(1) obtain c where "s = c # t" "p c" by auto
    with v show ?case by (intro exI [of _ "c # v"]) auto
  qed auto
next
  assume "\<exists>u. s = u @ t \<and> (\<forall>c \<in> set u. p c)"
  then obtain u where "s = u @ t" "\<forall>c \<in> set u. p c" by blast
  then show "rx_match (RxStar (RxChar p)) s t"
    by (induction u arbitrary: s) (auto intro: rx_match.intros)
qed

lemma rx_match_seq_iff: "rx_match (RxSeq q r) s u \<longleftrightarrow> (\<exists>t. rx_match q s t \<and> rx_match r t u)"
  by (auto intro: rx_match.intros)

lemma rx_match_alt_iff: "rx_match (RxAlt q r) s t \<longleftrightarrow> rx_match q s t \<or> rx_match r s t"
  by (auto intro: rx_match.intros)

lemma rx_match_char_iff: "rx_match (RxChar p) s t \<longleftrightarrow> (\<exists>c. s = c # t \<and> p c)"
  by (auto intro: rx_match.intros)

lemma rx_match_plus_char:
  "rx_match (rx_plus (RxChar p)) s t \<longleftrightarrow> (\<exists>u. u \<noteq> [] \<and> s = u @ t \<and> (\<forall>c \<in> set u. p c))"
  unfolding rx_plus_def rx_match_seq_iff rx_match_char_iff rx_match_star_char
proof safe
  fix c u assume "p c" "\<forall>c \<in> set u. p c"
  then show "\<exists>ua. ua \<noteq> [] \<and> c # u @ t = ua @ t \<and> (\<forall>c \<in> set ua. p c)"
    by (intro exI [of _ "c # u"]) auto
next
  fix u assume "u \<noteq> []" "\<forall>c \<in> set u. p c"
  then show "\<exists>ta. (\<exists>c. u @ t = c # ta \<and> p c) \<and> (\<exists>v. ta = v @ t \<and> (\<forall>c \<in> set v. p c))"
    by (cases u) auto
qed

lemma rx_match_lit: "rx_match (rx_lit w) s t \<longleftrightarrow> (\<exists>u. s = u @ t \<and> map lower_char u = w)"
proof (induction w arbitrary: s)
  case Nil
  then show ?case by (auto intro: rx_match.intros)
next
  case (Cons c w)
  show ?case
  proof
    assume "rx_match (rx_lit (c # w)) s t"
    then obtain x u where "s = x # u @ t" "lower_char x = c" "map lower_char u = w"
      using Cons.IH by (auto simp: rx_match_seq_iff rx_match_char_iff)
    then show "\<exists>u. s = u @ t \<and> map lower_char u = c # w" by (intro exI [of _ "x # u"]) simp
  next
    assume "\<exists>u. s = u @ t \<and> map lower_char u = c # w"
    then obtain x u where "s = x # u @ t" "lower_char x = c" "map lower_char u = w" by auto
    then show "rx_match (rx_lit (c # w)) s t"
      using Cons.IH by (auto simp: rx_match_seq_iff rx_match_char_iff)
  qed
qed

lemma rx_rests_star_char_hd: "\<exists>ts. rx_rests (RxStar (RxChar p)) s = dropWhile p s # ts"
proof (induction s)
  case Nil
  then show ?case by (simp add: rx_rests.simps(5))
next
  case (Cons c s)
  then show ?case by (auto simp: rx_rests.simps(5) [of "RxChar p" "c # s"])
qed

lemma rx_rests_plus_char:
  "rx_rests (rx_plus (RxChar p)) s =
     (case s of [] \<Rightarrow> [] | c # t \<Rightarrow> if p c then rx_rests (RxStar (RxChar p)) t else [])"
  by (simp add: rx_plus_def split: list.splits)

lemma rx_rests_lit:
  "rx_rests (rx_lit w) s =
     (if map lower_char (take (length w) s) = w then [drop (length w) s] else [])"
proof (induction w arbitrary: s)
  case (Cons c w)
  then show ?case by (cases s) auto
qed simp

end
