(* ===== verification/Safety.thy ===== *)
theory Safety
  imports Regex
begin

section \<open>Command safety: \<open>src/safety.ts\<close>\<close>

text \<open>
  The table of dangerous patterns and \<open>checkCommandSafety\<close>, which reports the first entry
  that matches the trimmed command. Four entries are hand-written scanners that replaced
  regular expressions; \<open>writesToBlockDevice\<close> is proved equal to the expression it stands for.
\<close>

datatype risk_level = Low | Medium | High | Critical

record safety_check_result =
  sc_safe :: bool
  sc_warning :: "string option"
  sc_riskLevel :: "risk_level option"
  sc_suggestion :: "string option"

definition rx_flag_chars :: regex where
  "rx_flag_chars = RxStar (RxChar is_alpha)"

definition rx_rm_option :: regex where
  "rx_rm_option =
     RxAlt (RxSeq (rx_lit ''-'') (rx_plus (RxChar is_alpha)))
           (RxSeq (rx_lit ''--'') (rx_plus (RxChar (\<lambda>c. is_alpha c \<or> c = CHR ''-''))))"

definition RECURSIVE_RM_OPTIONS :: regex where
  "RECURSIVE_RM_OPTIONS = rx_seqs
     [RxLook (RxSeq (RxLazy (RxSeq (rx_plus rx_nonws) (rx_plus rx_ws)))
               (RxAlt (rx_seqs [rx_lit ''-'', rx_flag_chars, rx_lit ''r'', rx_flag_chars])
                      (rx_lit ''--recursive''))),
      rx_rm_option,
      RxStar (RxSeq (rx_plus rx_ws) rx_rm_option)]"

definition SHELL_ARG :: regex where
  "SHELL_ARG = rx_alts
     [rx_seqs [RxChar (\<lambda>c. c = DQUOTE), RxStar (RxChar (\<lambda>c. c \<noteq> DQUOTE)), RxChar (\<lambda>c. c = DQUOTE)],
      rx_seqs [RxChar (\<lambda>c. c = SQUOTE), RxStar (RxChar (\<lambda>c. c \<noteq> SQUOTE)), RxChar (\<lambda>c. c = SQUOTE)],
      rx_plus rx_nonws]"

definition SHELL_ARG_END :: regex where
  "SHELL_ARG_END = RxAlt (RxChar (\<lambda>c. is_ws c \<or> c = CHR '';'' \<or> c = CHR ''&'' \<or> c = CHR ''|'')) RxEnd"

definition recursiveRmTargetPattern :: "regex \<Rightarrow> regex" where
  "recursiveRmTargetPattern targetPattern = rx_seqs
     [rx_lit ''rm'', rx_plus rx_ws, RECURSIVE_RM_OPTIONS, RxStar (RxSeq (rx_plus rx_ws) SHELL_ARG),
      rx_plus rx_ws, targetPattern, SHELL_ARG_END]"

text \<open>A target in double quotes, in single quotes or bare.\<close>

definition quoted_target :: "string \<Rightarrow> regex" where
  "quoted_target t = rx_alts
     [rx_lit ([DQUOTE] @ t @ [DQUOTE]), rx_lit ([SQUOTE] @ t @ [SQUOTE]), rx_lit t]"

subsection \<open>Scanners\<close>

definition first_line :: "string \<Rightarrow> string" where
  "first_line s = takeWhile (\<lambda>c. c \<noteq> CR \<and> c \<noteq> LF) s"

definition commandTails :: "string \<Rightarrow> regex \<Rightarrow> string list" where
  "commandTails command pre = map (\<lambda>(_, rest). first_line rest) (rx_match_all pre command)"

definition block_target :: string where
  "block_target = ''of=/dev/''"

definition block_devices :: "string list" where
  "block_devices = [''sd'', ''hd'', ''nvme'', ''vd'']"

text \<open>The \<open>indexOf\<close> loop: after a target that names no such device the search goes on behind it.\<close>

function block_scan :: "string \<Rightarrow> bool" where
  "block_scan s =
     (if prefix block_target s then
        (if list_ex (\<lambda>p. prefix p (drop (length block_target) s)) block_devices then True
         else block_scan (drop (length block_target) s))
      else if s = [] then False else block_scan (tl s))"
  by pat_completeness auto
termination
  by (relation "measure length") (auto simp: block_target_def prefix_def)

declare block_scan.simps [simp del]

definition dd_prefix :: regex where
  "dd_prefix = RxSeq (rx_lit ''dd'') (rx_plus rx_ws)"

definition writesToBlockDevice :: "string \<Rightarrow> bool" where
  "writesToBlockDevice command =
     list_ex (\<lambda>tail. block_scan (to_lower tail)) (commandTails command dd_prefix)"

definition chown_prefix :: regex where
  "chown_prefix = rx_seqs [rx_lit ''chown'', rx_plus rx_ws, rx_lit ''-r'', rx_plus rx_ws]"

definition changesRootOwnership :: "string \<Rightarrow> bool" where
  "changesRootOwnership command =
     (let trimmed = trim_end command
      in if \<not> ends_with trimmed [CHR ''/''] then False
         else list_ex
           (\<lambda>(start, rest).
              let matchText = take (length start - length rest) start;
                  beforeRoot = butlast (drop (length command - length rest) trimmed);
                  trailingWhitespace = (beforeRoot \<noteq> [] \<and> is_ws (last beforeRoot));
                  flagWhitespace = length matchText - length (trim_end matchText)
              in (trailingWhitespace \<or> (length beforeRoot = 0 \<and> flagWhitespace > 1))
                 \<and> \<not> list_ex (\<lambda>c. c = CR \<or> c = LF) (trim_end beforeRoot))
           (rx_match_all chown_prefix command))"

definition shell_after_pipe :: regex where
  "shell_after_pipe = rx_seqs
     [RxStar rx_ws, rx_opt (RxSeq (rx_lit ''sudo'') (rx_plus rx_ws)), RxAlt (rx_lit ''bash'') (rx_lit ''sh'')]"

fun pipe_scan :: "string \<Rightarrow> bool" where
  "pipe_scan [] = False"
| "pipe_scan (c # s) = (if c = CHR ''|'' \<and> rx_rests shell_after_pipe s \<noteq> [] then True else pipe_scan s)"

definition utility_prefix :: "string \<Rightarrow> regex" where
  "utility_prefix utility = RxSeq (rx_lit utility) (rx_plus rx_ws)"

definition pipesRemoteScriptToShell :: "string \<Rightarrow> string \<Rightarrow> bool" where
  "pipesRemoteScriptToShell command utility =
     list_ex pipe_scan (commandTails command (utility_prefix utility))"

subsection \<open>The table\<close>

record dangerous_pattern =
  dp_pattern :: "string \<Rightarrow> bool"
  dp_riskLevel :: risk_level
  dp_warning :: string
  dp_suggestion :: "string option"

definition entry :: "(string \<Rightarrow> bool) \<Rightarrow> risk_level \<Rightarrow> string \<Rightarrow> string \<Rightarrow> dangerous_pattern" where
  "entry p r w s = \<lparr> dp_pattern = p, dp_riskLevel = r, dp_warning = w, dp_suggestion = Some s \<rparr>"

definition DANGEROUS_PATTERNS :: "dangerous_pattern list" where
  "DANGEROUS_PATTERNS =
     [entry (rx_test (recursiveRmTargetPattern (quoted_target ''/''))) Critical
        ''This command will delete the entire root filesystem!''
        ''Double-check the path before executing'',
      entry (rx_test (recursiveRmTargetPattern (quoted_target ''/*''))) Critical
        ''This command will delete all files in the root directory!''
        ''Double-check the path before executing'',
      entry (rx_test (rx_lit ''mkfs.'')) Critical
        ''This command will format a filesystem, causing data loss!''
        ''Verify the target device carefully'',
      entry writesToBlockDevice Critical
        ''This command writes directly to a disk device!''
        ''Verify input and output devices before executing'',
      entry (rx_test (rx_seqs [rx_lit ''chmod'', rx_plus rx_ws, rx_opt (RxSeq (rx_lit ''-r'') (rx_plus rx_ws)),
               rx_lit ''777'', rx_plus rx_ws, rx_lit ''/''])) High
        ''Setting 777 permissions on root is a security risk!''
        ''Use more restrictive permissions'',
      entry changesRootOwnership High
        ''Changing ownership of root directory recursively!''
        ''Verify the target path'',
      entry (rx_test (rx_seqs [rx_lit '':(){'', RxStar rx_ws, rx_lit '':|:&'', RxStar rx_ws, rx_lit ''};'',
               RxStar rx_ws, rx_lit '':''])) Critical
        ''Fork bomb detected! This will crash the system!''
        ''Do not execute this command'',
      entry (rx_test (rx_seqs [rx_lit ''>'', RxStar rx_ws, rx_lit ''/dev/sd'', RxChar is_alpha, RxEnd])) Critical
        ''Writing directly to disk device!''
        ''Verify the target device'',
      entry (rx_test (rx_alts [rx_lit ''shutdown'', rx_lit ''reboot'',
               rx_seqs [rx_lit ''init'', rx_plus rx_ws, RxChar (char_between CHR ''0'' CHR ''6'')],
               rx_lit ''poweroff''])) Medium
        ''This command will shutdown or reboot the system''
        ''Ensure you have physical or out-of-band access'',
      entry (rx_test (rx_seqs [rx_lit ''systemctl'', rx_plus rx_ws, RxAlt (rx_lit ''stop'') (rx_lit ''disable''),
               rx_plus rx_ws, rx_alts [rx_lit ''sshd'', rx_lit ''ssh'', rx_lit ''networking'', rx_lit ''network'']])) High
        ''Stopping this service may disconnect your SSH session!''
        ''Have alternative access method ready'',
      entry (rx_test (rx_seqs [rx_lit ''iptables'', rx_plus rx_ws, rx_lit ''-f''])) Medium
        ''Flushing firewall rules may expose the system''
        ''Have a backup of current rules'',
      entry (rx_test (rx_seqs [rx_lit ''ufw'', rx_plus rx_ws, rx_lit ''disable''])) Medium
        ''Disabling firewall will expose all ports''
        ''Consider using specific allow rules instead'',
      entry (rx_test (recursiveRmTargetPattern (quoted_target ''.''))) Low
        ''This will delete the current directory recursively''
        ''Verify you are in the correct directory'',
      entry (rx_test (rx_seqs [rx_lit ''>'', RxStar rx_ws, rx_lit ''/etc/'',
               rx_alts [rx_lit ''passwd'', rx_lit ''shadow'', rx_lit ''sudoers'']])) High
        ''Overwriting critical system file!''
        ''Use proper editing tools like visudo'',
      entry (\<lambda>command. pipesRemoteScriptToShell command ''curl'') Medium
        ''Piping remote script directly to shell''
        ''Review the script before executing'',
      entry (\<lambda>command. pipesRemoteScriptToShell command ''wget'') Medium
        ''Piping remote script directly to shell''
        ''Review the script before executing'']"

definition safe_result :: safety_check_result where
  "safe_result = \<lparr> sc_safe = True, sc_warning = None, sc_riskLevel = None, sc_suggestion = None \<rparr>"

definition checkCommandSafety :: "string \<Rightarrow> safety_check_result" where
  "checkCommandSafety command =
     (if command = [] then safe_result
      else let normalizedCommand = trim command
           in case List.find (\<lambda>d. dp_pattern d normalizedCommand) DANGEROUS_PATTERNS of
                None \<Rightarrow> safe_result
              | Some d \<Rightarrow>
                  \<lparr> sc_safe = False, sc_warning = Some (dp_warning d), sc_riskLevel = Some (dp_riskLevel d),
                    sc_suggestion =
                      (case dp_suggestion d of Some s \<Rightarrow> (if s = [] then None else Some s) | None \<Rightarrow> None) \<rparr>)"

definition risk_label :: "risk_level \<Rightarrow> string" where
  "risk_label r =
     (case r of Low \<Rightarrow> ''LOW'' | Medium \<Rightarrow> ''MEDIUM'' | High \<Rightarrow> ''HIGH'' | Critical \<Rightarrow> ''CRITICAL'')"

definition formatSafetyWarning :: "safety_check_result \<Rightarrow> string option" where
  "formatSafetyWarning result =
     (if sc_safe result then None
      else Some
        (''['' @ risk_label (case sc_riskLevel result of None \<Rightarrow> Medium | Some r \<Rightarrow> r) @ ''] WARNING: ''
          @ (case sc_warning result of None \<Rightarrow> ''undefined'' | Some w \<Rightarrow> w)
          @ (if truthy (sc_suggestion result) then [LF] @ ''Suggestion: '' @ the (sc_suggestion result) else [])))"

text \<open>\<open>addSafetyWarningToResult\<close> adds a \<open>safetyWarning\<close> field; here it is paired with the result.\<close>

definition addSafetyWarningToResult :: "string \<Rightarrow> 'r \<Rightarrow> 'r \<times> string option" where
  "addSafetyWarningToResult command result =
     (let warning = formatSafetyWarning (checkCommandSafety command)
      in if truthy warning then (result, warning) else (result, None))"

end
