(* ===== verification/SafetyProps.thy ===== *)
theory SafetyProps
  imports Safety
begin

section \<open>What the safety check detects\<close>

text \<open>
  The scanner for writes to block devices is equivalent to the regular expression it
  replaced; the check reports the first matching entry of its table; a recursive \<open>rm\<close> of the
  root directory is reported whatever precedes it; and two facts about its limits.
\<close>

subsection \<open>Matches of a literal followed by white space\<close>

definition head_match :: "string \<Rightarrow> string \<Rightarrow> bool" where
  "head_match w s \<longleftrightarrow>
     map lower_char (take (length w) s) = w \<and> (case drop (length w) s of [] \<Rightarrow> False | c # _ \<Rightarrow> is_ws c)"

lemma utility_rests:
  "(\<exists>ts. head_match w s \<and> rx_rests (utility_prefix w) s = dropWhile is_ws (drop (length w) s) # ts)
   \<or> (\<not> head_match w s \<and> rx_rests (utility_prefix w) s = [])"
proof (cases "map lower_char (take (length w) s) = w")
  case True
  then have e: "rx_rests (utility_prefix w) s = rx_rests (rx_plus rx_ws) (drop (length w) s)"
    by (simp add: utility_prefix_def rx_rests_lit)
  show ?thesis
  proof (cases "drop (length w) s")
    case Nil
    with e show ?thesis by (simp add: head_match_def rx_ws_def rx_rests_plus_char)
  next
    case (Cons c t)
    obtain ts where "rx_rests (RxStar (RxChar is_ws)) t = dropWhile is_ws t # ts"
      using rx_rests_star_char_hd by blast
    with e Cons True show ?thesis by (simp add: head_match_def rx_ws_def rx_rests_plus_char)
  qed
qed (simp add: utility_prefix_def rx_rests_lit head_match_def)

lemma utility_match_all:
  assumes "w \<noteq> []"
  shows "rx_match_all (utility_prefix w) s =
     (if head_match w s then (s, dropWhile is_ws (drop (length w) s)) #
        rx_match_all (utility_prefix w) (dropWhile is_ws (drop (length w) s))
      else if s = [] then [] else rx_match_all (utility_prefix w) (tl s))"
proof (cases "head_match w s")
  case True
  with utility_rests obtain ts where
    ts: "rx_rests (utility_prefix w) s = dropWhile is_ws (drop (length w) s) # ts" by blast
  have "drop (length w) s \<noteq> []" using True by (auto simp: head_match_def)
  moreover have "length (dropWhile is_ws (drop (length w) s)) \<le> length s - length w"
    by (metis length_drop length_dropWhile_le)
  ultimately have "length (dropWhile is_ws (drop (length w) s)) < length s"
    using assms by (cases w) auto
  with ts True show ?thesis by (subst rx_match_all.simps) simp
next
  case False
  with utility_rests have "rx_rests (utility_prefix w) s = []" by blast
  with False show ?thesis by (subst rx_match_all.simps) simp
qed

lemma is_ws_lower: "is_ws c \<Longrightarrow> lower_char c = c"
  by (auto simp: is_ws_def lower_char_def is_upper_def char_between_def)

lemma head_match_nth:
  assumes "head_match w s" and "i < length w"
  shows "i < length s" and "lower_char (s ! i) = w ! i"
proof -
  from assms have m: "map lower_char (take (length w) s) = w" by (simp add: head_match_def)
  then have "length (take (length w) s) = length w" by (metis length_map)
  with assms show l: "i < length s" by simp
  from m assms(2) have "map lower_char (take (length w) s) ! i = w ! i" by simp
  with l assms(2) show "lower_char (s ! i) = w ! i" by simp
qed

lemma head_match_no_overlap:
  assumes w: "\<forall>x \<in> set w. \<not> is_ws x" "w \<noteq> []"
    and s: "head_match w s" and v: "head_match w v" and suf: "s = u @ v" and u: "u \<noteq> []"
  shows "suffix v (dropWhile is_ws (drop (length w) s))"
proof -
  let ?n = "length w" let ?r = "drop (length w) s"
  let ?m = "length (takeWhile is_ws ?r)"
  have ws: "is_ws (s ! (?n + i))" if "i < ?m" for i
  proof -
    have "?r ! i = takeWhile is_ws ?r ! i" using that by (metis takeWhile_nth)
    moreover have "is_ws (takeWhile is_ws ?r ! i)" using that by (metis nth_mem set_takeWhileD)
    moreover have "?n \<le> length s"
      using s by (cases "length s < ?n") (auto simp: head_match_def)
    ultimately show ?thesis by simp
  qed
  have len0: "0 < ?m"
    using s by (auto simp: head_match_def split: list.splits)
  have at: "w ! i \<noteq> s ! (length u + i) \<or> \<not> is_ws (s ! (length u + i))"
    if "i < ?n" for i
    using w(1) that nth_mem by metis
  have eq: "lower_char (s ! (length u + i)) = w ! i" if "i < ?n" for i
    using head_match_nth [OF v that] suf by simp
  have "\<not> length u < ?n + ?m"
  proof
    assume lt: "length u < ?n + ?m"
    show False
    proof (cases "length u < ?n")
      case True
      moreover have "0 < length u" using u by simp
      ultimately have i: "?n - length u < ?n" by linarith
      have "is_ws (s ! ?n)" using ws [of 0] len0 by simp
      with eq [OF i] at [OF i] True show False by (simp add: is_ws_lower)
    next
      case False
      then have "is_ws (s ! length u)" using ws [of "length u - ?n"] lt by simp
      moreover have "0 < ?n" using w(2) by simp
      ultimately show False using eq [of 0] at [of 0] by (simp add: is_ws_lower)
    qed
  qed
  moreover define k where "k = ?m + ?n"
  ultimately have "dropWhile is_ws ?r = drop k s" and "k \<le> length u"
    by (simp_all add: dropWhile_eq_drop)
  moreover have "drop k s = drop k u @ v" using suf \<open>k \<le> length u\<close> by simp
  ultimately show ?thesis by (simp add: suffix_def)
qed

lemma utility_match_all_set:
  assumes w: "\<forall>x \<in> set w. \<not> is_ws x" "w \<noteq> []"
  shows "set (rx_match_all (utility_prefix w) s) =
     {(v, dropWhile is_ws (drop (length w) v)) | v. suffix v s \<and> head_match w v}"
proof (induction "length s" arbitrary: s rule: less_induct)
  case less
  let ?r = "dropWhile is_ws (drop (length w) s)"
  show ?case
  proof (cases "head_match w s")
    case True
    have "drop (length w) s \<noteq> []" using True by (auto simp: head_match_def)
    moreover have "length ?r \<le> length s - length w" by (metis length_drop length_dropWhile_le)
    ultimately have "length ?r < length s" using w(2) by (cases w) auto
    then have IH: "set (rx_match_all (utility_prefix w) ?r) =
        {(v, dropWhile is_ws (drop (length w) v)) | v. suffix v ?r \<and> head_match w v}"
      by (rule less)
    have "suffix ?r s" by (meson suffix_dropWhile suffix_drop suffix_order.trans)
    then have "suffix v s \<and> head_match w v \<longleftrightarrow> v = s \<or> (suffix v ?r \<and> head_match w v)" for v
      using head_match_no_overlap [OF w True, of v] True
      by (metis append_Nil suffix_def suffix_order.order_refl suffix_order.trans)
    with IH True w(2) show ?thesis by (subst utility_match_all) auto
  next
    case False
    show ?thesis
    proof (cases s)
      case Nil
      with False w(2) show ?thesis by (subst utility_match_all) auto
    next
      case (Cons c t)
      then have IH: "set (rx_match_all (utility_prefix w) t) =
          {(v, dropWhile is_ws (drop (length w) v)) | v. suffix v t \<and> head_match w v}"
        by (intro less) simp
      have "suffix v s \<and> head_match w v \<longleftrightarrow> suffix v t \<and> head_match w v" for v
        using False Cons by (auto simp: suffix_Cons)
      with IH False w(2) Cons show ?thesis by (subst utility_match_all) auto
    qed
  qed
qed

subsection \<open>The block-device scanner and its regular expression\<close>

text \<open>
  \<open>dd\s+.*of=/dev/(sd|hd|nvme|vd)\<close> under the \<open>i\<close> flag: the expression the scanner stands for.
\<close>

definition block_device_regex :: regex where
  "block_device_regex = rx_seqs
     [rx_lit ''dd'', rx_plus rx_ws, RxStar rx_dot, rx_lit block_target, rx_alts (map rx_lit block_devices)]"

lemma block_target_at:
  assumes "block_target @ r = a @ block_target @ q"
  shows "a = [] \<or> (\<exists>a'. a = block_target @ a' \<and> r = a' @ block_target @ q)"
proof -
  consider us where "block_target = a @ us" "us @ r = block_target @ q"
    | us where "block_target @ us = a" "r = us @ block_target @ q"
    using assms by (auto simp: append_eq_append_conv2)
  then show ?thesis
  proof cases
    case 1
    show ?thesis
    proof (cases us)
      case Nil
      with 1 show ?thesis by auto
    next
      case (Cons x xs)
      from 1(2) have "x = CHR ''o''"
        unfolding Cons block_target_def by (simp only: append_Cons list.inject)
      have "a = []"
      proof (rule ccontr)
        assume "a \<noteq> []"
        then have "tl block_target = tl a @ CHR ''o'' # xs"
          unfolding 1(1) Cons \<open>x = CHR ''o''\<close> by (cases a) simp_all
        then have "CHR ''o'' \<in> set (tl block_target)" by simp
        then show False by (simp add: block_target_def)
      qed
      then show ?thesis ..
    qed
  qed auto
qed

lemma block_scan_iff:
  "block_scan s \<longleftrightarrow> (\<exists>a p b. s = a @ block_target @ p @ b \<and> p \<in> set block_devices)"
proof (induction s rule: block_scan.induct)
  case (1 s)
  show ?case
  proof (cases "prefix block_target s")
    case True
    then obtain r where r: "s = block_target @ r" by (auto simp: prefix_def)
    have split: "(\<exists>a p b. s = a @ block_target @ p @ b \<and> p \<in> set block_devices) \<longleftrightarrow>
        (\<exists>p b. r = p @ b \<and> p \<in> set block_devices) \<or>
        (\<exists>a p b. r = a @ block_target @ p @ b \<and> p \<in> set block_devices)"
    proof
      assume "\<exists>a p b. s = a @ block_target @ p @ b \<and> p \<in> set block_devices"
      then obtain a p b where "block_target @ r = a @ block_target @ p @ b" and p: "p \<in> set block_devices"
        using r by auto
      then show "(\<exists>p b. r = p @ b \<and> p \<in> set block_devices) \<or>
          (\<exists>a p b. r = a @ block_target @ p @ b \<and> p \<in> set block_devices)"
        using block_target_at [of r a "p @ b"] p by fastforce
    next
      assume "(\<exists>p b. r = p @ b \<and> p \<in> set block_devices) \<or>
          (\<exists>a p b. r = a @ block_target @ p @ b \<and> p \<in> set block_devices)"
      then show "\<exists>a p b. s = a @ block_target @ p @ b \<and> p \<in> set block_devices"
        using r by (metis append.assoc append_Nil)
    qed
    have drop: "drop (length block_target) s = r" using r by simp
    have ex: "list_ex (\<lambda>p. prefix p r) block_devices \<longleftrightarrow> (\<exists>p b. r = p @ b \<and> p \<in> set block_devices)"
      by (auto simp: list_ex_iff prefix_def)
    show ?thesis
    proof (cases "list_ex (\<lambda>p. prefix p r) block_devices")
      case T: True
      then have "block_scan s" using True drop by (subst block_scan.simps) simp
      with T show ?thesis unfolding split ex by simp
    next
      case F: False
      then have "block_scan s = block_scan r" using True drop by (subst block_scan.simps) simp
      moreover from F have "\<not> (\<exists>p b. r = p @ b \<and> p \<in> set block_devices)" unfolding ex .
      moreover have "block_scan r \<longleftrightarrow> (\<exists>a p b. r = a @ block_target @ p @ b \<and> p \<in> set block_devices)"
        using "1.IH"(1) [OF True, unfolded drop] F by blast
      ultimately show ?thesis unfolding split by (simp only: simp_thms)
    qed
  next
    case False
    show ?thesis
    proof (cases s)
      case Nil
      then show ?thesis by (subst block_scan.simps) (simp add: block_target_def)
    next
      case (Cons c t)
      then have "block_scan s \<longleftrightarrow> block_scan t" using False by (subst block_scan.simps) simp
      moreover have "(\<exists>a p b. s = a @ block_target @ p @ b \<and> p \<in> set block_devices) \<longleftrightarrow>
          (\<exists>a p b. t = a @ block_target @ p @ b \<and> p \<in> set block_devices)"
      proof
        assume "\<exists>a p b. s = a @ block_target @ p @ b \<and> p \<in> set block_devices"
        then obtain a p b where e: "s = a @ block_target @ p @ b" and p: "p \<in> set block_devices" by blast
        have "a \<noteq> []" using False e by auto
        then have "t = tl a @ block_target @ p @ b" using e Cons by (cases a) simp_all
        with p show "\<exists>a p b. t = a @ block_target @ p @ b \<and> p \<in> set block_devices" by blast
      next
        assume "\<exists>a p b. t = a @ block_target @ p @ b \<and> p \<in> set block_devices"
        then show "\<exists>a p b. s = a @ block_target @ p @ b \<and> p \<in> set block_devices"
          using Cons by (metis append_Cons)
      qed
      ultimately show ?thesis using "1.IH"(2) [OF False] Cons by simp
    qed
  qed
qed

lemma rx_match_alts_lit:
  "ps \<noteq> [] \<Longrightarrow> rx_match (rx_alts (map rx_lit ps)) s t \<longleftrightarrow> (\<exists>u. s = u @ t \<and> map lower_char u \<in> set ps)"
proof (induction ps rule: induct_list012)
  case (3 p q ps)
  then show ?case by (simp add: rx_match_alt_iff rx_match_lit) blast
qed (simp_all add: rx_match_lit)

lemma block_device_regex_match:
  "rx_match block_device_regex v t \<longleftrightarrow>
     (\<exists>d ws x tg p. v = d @ ws @ x @ tg @ p @ t \<and> map lower_char d = ''dd'' \<and> ws \<noteq> [] \<and>
        (\<forall>c \<in> set ws. is_ws c) \<and> (\<forall>c \<in> set x. c \<noteq> LF \<and> c \<noteq> CR) \<and>
        map lower_char tg = block_target \<and> map lower_char p \<in> set block_devices)"
    (is "?l \<longleftrightarrow> ?r")
proof -
  have ne: "block_devices \<noteq> []" by (simp add: block_devices_def)
  note unf = block_device_regex_def rx_seqs.simps rx_match_seq_iff rx_match_lit rx_ws_def rx_dot_def
    rx_match_plus_char rx_match_star_char rx_match_alts_lit [OF ne]
  show ?thesis
  proof
    assume ?l
    then obtain d ws x tg p where h: "v = d @ ws @ x @ tg @ p @ t" "map lower_char d = ''dd''" "ws \<noteq> []"
        "\<forall>c \<in> set ws. is_ws c" "\<forall>c \<in> set x. c \<noteq> LF \<and> c \<noteq> CR"
        "map lower_char tg = block_target" "map lower_char p \<in> set block_devices"
      unfolding unf
      apply (elim exE conjE)
      apply (rule that)
            prefer 2 apply assumption
           prefer 2 apply assumption
          prefer 2 apply assumption
         prefer 2 apply assumption
        prefer 2 apply assumption
       prefer 2 apply assumption
      apply (simp only: append_assoc)
      done
    show ?r by (intro exI conjI) (rule h)+
  next
    assume ?r
    then obtain d ws x tg p where h: "v = d @ ws @ x @ tg @ p @ t" "map lower_char d = ''dd''" "ws \<noteq> []"
        "\<forall>c \<in> set ws. is_ws c" "\<forall>c \<in> set x. c \<noteq> LF \<and> c \<noteq> CR"
        "map lower_char tg = block_target" "map lower_char p \<in> set block_devices"
    by (elim exE conjE) (rule that; assumption)
    have "rx_match (rx_lit ''dd'') v (ws @ x @ tg @ p @ t)"
      unfolding rx_match_lit by (intro exI conjI) (rule h)+
    moreover have "rx_match (rx_plus rx_ws) (ws @ x @ tg @ p @ t) (x @ tg @ p @ t)"
      unfolding rx_ws_def rx_match_plus_char by (intro exI conjI) (rule h refl)+
    moreover have "rx_match (RxStar rx_dot) (x @ tg @ p @ t) (tg @ p @ t)"
      unfolding rx_dot_def rx_match_star_char by (intro exI conjI) (rule refl, rule h)
    moreover have "rx_match (rx_lit block_target) (tg @ p @ t) (p @ t)"
      unfolding rx_match_lit by (intro exI conjI) (rule refl, rule h)
    moreover have "rx_match (rx_alts (map rx_lit block_devices)) (p @ t) t"
      unfolding rx_match_alts_lit [OF ne] by (intro exI conjI) (rule refl, rule h)
    ultimately show ?l
      unfolding block_device_regex_def rx_seqs.simps by (intro rx_match.m_seq)
  qed
qed

lemma lower_no_newline: "lower_char c \<noteq> LF \<Longrightarrow> lower_char c \<noteq> CR \<Longrightarrow> c \<noteq> LF \<and> c \<noteq> CR"
  by (auto simp: is_ws_lower is_ws_def)

lemma map_lower_no_newline:
  assumes "map lower_char u = w" and "LF \<notin> set w" and "CR \<notin> set w"
  shows "\<forall>c \<in> set u. c \<noteq> LF \<and> c \<noteq> CR"
  using assms lower_no_newline by force

lemma first_line_append:
  "\<forall>c \<in> set u. c \<noteq> LF \<and> c \<noteq> CR \<Longrightarrow> first_line (u @ v) = u @ first_line v"
  by (induction u) (auto simp: first_line_def)

lemma first_line_prefix: "\<exists>v. s = first_line s @ v"
  unfolding first_line_def by (metis takeWhile_dropWhile_id)

lemma first_line_no_newline: "c \<in> set (first_line s) \<Longrightarrow> c \<noteq> LF \<and> c \<noteq> CR"
  unfolding first_line_def by (auto dest: set_takeWhileD)

lemma block_scan_lower_iff:
  "block_scan (to_lower (first_line r)) \<longleftrightarrow>
     (\<exists>x tg p b. r = x @ tg @ p @ b \<and> (\<forall>c \<in> set x. c \<noteq> LF \<and> c \<noteq> CR) \<and>
        map lower_char tg = block_target \<and> map lower_char p \<in> set block_devices)"
proof
  assume "block_scan (to_lower (first_line r))"
  then obtain a p b where e: "map lower_char (first_line r) = a @ block_target @ p @ b"
      and p: "p \<in> set block_devices" by (auto simp: block_scan_iff to_lower_def)
  then obtain x r1 where x: "first_line r = x @ r1" "map lower_char x = a"
      "map lower_char r1 = block_target @ p @ b" by (metis map_eq_append_conv)
  then obtain tg r2 where tg: "r1 = tg @ r2" "map lower_char tg = block_target"
      "map lower_char r2 = p @ b" by (metis map_eq_append_conv)
  then obtain pp bb where "r2 = pp @ bb" "map lower_char pp = p" by (metis map_eq_append_conv)
  with x tg have s: "first_line r = x @ tg @ pp @ bb"
      "map lower_char x = a" "map lower_char tg = block_target" "map lower_char pp = p" by simp_all
  obtain v where "r = first_line r @ v" using first_line_prefix by blast
  then have "r = x @ tg @ pp @ (bb @ v)" using s(1) by simp
  moreover have "\<forall>c \<in> set x. c \<noteq> LF \<and> c \<noteq> CR"
    using s(1) first_line_no_newline [of _ r] by simp
  ultimately show "\<exists>x tg p b. r = x @ tg @ p @ b \<and> (\<forall>c \<in> set x. c \<noteq> LF \<and> c \<noteq> CR) \<and>
        map lower_char tg = block_target \<and> map lower_char p \<in> set block_devices"
    using s p by blast
next
  assume "\<exists>x tg p b. r = x @ tg @ p @ b \<and> (\<forall>c \<in> set x. c \<noteq> LF \<and> c \<noteq> CR) \<and>
        map lower_char tg = block_target \<and> map lower_char p \<in> set block_devices"
  then obtain x tg p b where h: "r = x @ tg @ p @ b" "\<forall>c \<in> set x. c \<noteq> LF \<and> c \<noteq> CR"
      "map lower_char tg = block_target" "map lower_char p \<in> set block_devices"
    by (elim exE conjE) (rule that; assumption)
  have "\<forall>c \<in> set tg. c \<noteq> LF \<and> c \<noteq> CR"
    by (rule map_lower_no_newline [OF h(3)]) (simp_all add: block_target_def)
  moreover have "\<forall>c \<in> set p. c \<noteq> LF \<and> c \<noteq> CR"
    by (rule map_lower_no_newline [OF refl]) (use h(4) in \<open>auto simp: block_devices_def\<close>)
  ultimately have "first_line r = x @ tg @ p @ first_line b"
    using h(1,2) by (simp add: first_line_append)
  then show "block_scan (to_lower (first_line r))"
    using h(3,4) by (auto simp: block_scan_iff to_lower_def)
qed

lemma dropWhile_ws_target:
  assumes "\<forall>c \<in> set ws. is_ws c" and "map lower_char tg = block_target"
  shows "dropWhile is_ws (ws @ x @ tg @ z) = dropWhile is_ws x @ tg @ z"
proof -
  from assms(2) obtain c tg' where c: "tg = c # tg'" "lower_char c = CHR ''o''"
    by (auto simp: block_target_def)
  then have "\<not> is_ws c" using is_ws_lower [of c] by (auto simp: is_ws_def)
  with assms(1) c(1) show ?thesis
    by (simp add: dropWhile_append2) (metis append_Cons dropWhile.simps(2) dropWhile_append1
        dropWhile_append3 dropWhile_eq_Nil_conv append_Nil)
qed

lemma dd_split:
  "head_match ''dd'' v \<and>
     (\<exists>x tg p b. dropWhile is_ws (drop 2 v) = x @ tg @ p @ b \<and> (\<forall>c \<in> set x. c \<noteq> LF \<and> c \<noteq> CR) \<and>
        map lower_char tg = block_target \<and> map lower_char p \<in> set block_devices) \<longleftrightarrow>
   (\<exists>t d ws x tg p. v = d @ ws @ x @ tg @ p @ t \<and> map lower_char d = ''dd'' \<and> ws \<noteq> [] \<and>
        (\<forall>c \<in> set ws. is_ws c) \<and> (\<forall>c \<in> set x. c \<noteq> LF \<and> c \<noteq> CR) \<and>
        map lower_char tg = block_target \<and> map lower_char p \<in> set block_devices)" (is "?l \<longleftrightarrow> ?r")
proof
  assume ?l
  then obtain x tg p b where h: "head_match ''dd'' v" "dropWhile is_ws (drop 2 v) = x @ tg @ p @ b"
      "\<forall>c \<in> set x. c \<noteq> LF \<and> c \<noteq> CR" "map lower_char tg = block_target"
      "map lower_char p \<in> set block_devices"
    by (elim exE conjE) (rule that; assumption)
  have g1: "v = take 2 v @ takeWhile is_ws (drop 2 v) @ x @ tg @ p @ b"
    using h(2) by (metis append_take_drop_id takeWhile_dropWhile_id)
  have g2: "map lower_char (take 2 v) = ''dd''" "takeWhile is_ws (drop 2 v) \<noteq> []"
    using h(1) by (auto simp: head_match_def numeral_2_eq_2 split: list.splits)
  have g3: "\<forall>c \<in> set (takeWhile is_ws (drop 2 v)). is_ws c" by (auto dest: set_takeWhileD)
  show ?r by (intro exI conjI) (rule g1 g2 g3 h)+
next
  assume ?r
  then obtain t d ws x tg p where h: "v = d @ ws @ x @ tg @ p @ t" "map lower_char d = ''dd''" "ws \<noteq> []"
      "\<forall>c \<in> set ws. is_ws c" "\<forall>c \<in> set x. c \<noteq> LF \<and> c \<noteq> CR"
      "map lower_char tg = block_target" "map lower_char p \<in> set block_devices"
    by (elim exE conjE) (rule that; assumption)
  from h(2) have "length d = 2" by (metis length_map length_Cons list.size(3) numeral_2_eq_2)
  then have d: "take 2 v = d" "drop 2 v = ws @ x @ tg @ (p @ t)" using h(1) by simp_all
  have k1: "head_match ''dd'' v"
    using d h(2-4) by (cases ws) (auto simp: head_match_def numeral_2_eq_2)
  have k2: "dropWhile is_ws (drop 2 v) = dropWhile is_ws x @ tg @ p @ t"
    unfolding d by (rule dropWhile_ws_target [OF h(4,6)])
  have k3: "\<forall>c \<in> set (dropWhile is_ws x). c \<noteq> LF \<and> c \<noteq> CR"
    using h(5) by (meson set_dropWhileD)
  show ?l by (intro exI conjI) (rule k1 k2 k3 h(6,7))+
qed

text \<open>
  The scanner for writes to a block device flags exactly the commands that the regular
  expression \<open>dd\s+.*of=/dev/(sd|hd|nvme|vd)\<close> (ignoring case) matches somewhere, although it
  looks at successive non-overlapping \<open>dd\<close> occurrences, one line each.
\<close>

theorem writesToBlockDevice_regex:
  "writesToBlockDevice command \<longleftrightarrow> rx_test block_device_regex command"
proof -
  have dd: "dd_prefix = utility_prefix ''dd''" by (simp add: dd_prefix_def utility_prefix_def)
  have all: "set (rx_match_all (utility_prefix ''dd'') command) =
      {(v, dropWhile is_ws (drop 2 v)) | v. suffix v command \<and> head_match ''dd'' v}"
    by (subst utility_match_all_set) (simp_all add: is_ws_def numeral_2_eq_2)
  have "writesToBlockDevice command \<longleftrightarrow>
      (\<exists>v. suffix v command \<and> head_match ''dd'' v \<and>
         block_scan (to_lower (first_line (dropWhile is_ws (drop 2 v)))))"
    unfolding writesToBlockDevice_def commandTails_def dd list_ex_iff set_map all
    by (auto simp: numeral_2_eq_2)
  also have "\<dots> \<longleftrightarrow> (\<exists>v t. suffix v command \<and> rx_match block_device_regex v t)"
  proof -
    have "head_match ''dd'' v \<and> block_scan (to_lower (first_line (dropWhile is_ws (drop 2 v))))
        \<longleftrightarrow> (\<exists>t. rx_match block_device_regex v t)" for v
      unfolding block_scan_lower_iff block_device_regex_match by (rule dd_split)
    then show ?thesis by blast
  qed
  also have "\<dots> \<longleftrightarrow> rx_test block_device_regex command"
    by (auto simp: rx_test_iff suffix_def)
  finally show ?thesis .
qed

subsection \<open>The table is scanned in order\<close>

lemma check_unsafe_iff:
  "\<not> sc_safe (checkCommandSafety command) \<longleftrightarrow>
     command \<noteq> [] \<and> (\<exists>d \<in> set DANGEROUS_PATTERNS. dp_pattern d (trim command))"
  by (auto simp: checkCommandSafety_def safe_result_def find_None_iff find_Some_iff Let_def
      split: option.splits)

lemma check_first_entry:
  assumes "command \<noteq> []" and "dp_pattern d (trim command)" and "DANGEROUS_PATTERNS = d # ds"
  shows "checkCommandSafety command =
    \<lparr> sc_safe = False, sc_warning = Some (dp_warning d), sc_riskLevel = Some (dp_riskLevel d),
      sc_suggestion = (case dp_suggestion d of Some s \<Rightarrow> (if s = [] then None else Some s) | None \<Rightarrow> None) \<rparr>"
  using assms(1,2) unfolding checkCommandSafety_def assms(3) by simp

subsection \<open>Recursive removal of the root directory\<close>

definition space_args :: "string list \<Rightarrow> string" where
  "space_args args = concat (map (\<lambda>a. CHR '' '' # a) args)"

lemma rx_match_lit_lower: "map lower_char w = w \<Longrightarrow> rx_match (rx_lit w) (w @ t) t"
  by (auto simp: rx_match_lit)

lemma rx_match_space: "rx_match (rx_plus rx_ws) (CHR '' '' # t) t"
  unfolding rx_ws_def rx_match_plus_char by (intro exI [of _ "'' ''"]) (simp add: is_ws_def)

lemma rx_match_args:
  assumes "\<forall>a \<in> set args. a \<noteq> [] \<and> (\<forall>c \<in> set a. \<not> is_ws c)"
  shows "rx_match (RxStar (RxSeq (rx_plus rx_ws) SHELL_ARG)) (space_args args @ t) t"
  using assms
proof (induction args)
  case Nil
  then show ?case by (simp add: space_args_def rx_match.m_star0)
next
  case (Cons a args)
  then have "\<exists>u. u \<noteq> [] \<and> a @ space_args args @ t = u @ space_args args @ t \<and> (\<forall>c \<in> set u. \<not> is_ws c)"
    by (intro exI [of _ a]) simp
  then have "rx_match SHELL_ARG (a @ space_args args @ t) (space_args args @ t)"
    unfolding SHELL_ARG_def rx_alts.simps rx_nonws_def
    by (intro rx_match.m_alt2) (simp only: rx_match_plus_char)
  then have step: "rx_match (RxSeq (rx_plus rx_ws) SHELL_ARG) (CHR '' '' # a @ space_args args @ t)
      (space_args args @ t)"
    by (rule rx_match.m_seq [OF rx_match_space])
  have "rx_match (RxStar (RxSeq (rx_plus rx_ws) SHELL_ARG)) (CHR '' '' # a @ space_args args @ t) t"
    using Cons by (intro rx_match.m_star1 [OF step] Cons.IH) simp
  then show ?case by (simp add: space_args_def)
qed

lemma lower_ascii: "map lower_char ''rm'' = ''rm''" "map lower_char ''-'' = ''-''"
    "map lower_char ''r'' = ''r''" "map lower_char ''/'' = ''/''"
  by (simp_all add: lower_char_def is_upper_def char_between_def)

lemma rx_match_root_rm:
  assumes f: "\<forall>c \<in> set f. is_alpha c" and g: "\<forall>c \<in> set g. is_alpha c"
    and args: "\<forall>a \<in> set args. a \<noteq> [] \<and> (\<forall>c \<in> set a. \<not> is_ws c)"
  shows "rx_match (recursiveRmTargetPattern (quoted_target ''/''))
     (''rm -'' @ f @ ''r'' @ g @ space_args args @ '' /'') []"
proof -
  let ?rest = "space_args args @ '' /''"
  have alpha_r: "is_alpha CHR ''r''" by (simp add: is_alpha_def is_lower_def char_between_def)
  have flags: "rx_match (RxStar (RxChar is_alpha)) (h @ t) t" if "\<forall>c \<in> set h. is_alpha c" for h t
    using that by (auto simp: rx_match_star_char)
  have seqs: "rx_match (rx_seqs [rx_lit ''-'', rx_flag_chars, rx_lit ''r'', rx_flag_chars])
      (''-'' @ f @ ''r'' @ g @ ?rest) ?rest"
    unfolding rx_seqs.simps rx_flag_chars_def
    by (intro rx_match.m_seq [OF rx_match_lit_lower] rx_match.m_seq [OF flags] flags lower_ascii f g)
  have look: "rx_match (RxLook (RxSeq (RxLazy (RxSeq (rx_plus rx_nonws) (rx_plus rx_ws)))
               (RxAlt (rx_seqs [rx_lit ''-'', rx_flag_chars, rx_lit ''r'', rx_flag_chars])
                      (rx_lit ''--recursive'')))) (''-'' @ f @ ''r'' @ g @ ?rest) (''-'' @ f @ ''r'' @ g @ ?rest)"
    by (rule rx_match.m_look, rule rx_match.m_seq [OF rx_match.m_lazy0], rule rx_match.m_alt1, rule seqs)
  have "\<exists>u. u \<noteq> [] \<and> f @ ''r'' @ g @ ?rest = u @ ?rest \<and> (\<forall>c \<in> set u. is_alpha c)"
    using f g alpha_r by (intro exI [of _ "f @ ''r'' @ g"]) auto
  then have opt: "rx_match rx_rm_option (''-'' @ f @ ''r'' @ g @ ?rest) ?rest"
    unfolding rx_rm_option_def
    by (intro rx_match.m_alt1 rx_match.m_seq [OF rx_match_lit_lower] lower_ascii)
      (simp only: rx_match_plus_char)
  have options: "rx_match RECURSIVE_RM_OPTIONS (''-'' @ f @ ''r'' @ g @ ?rest) ?rest"
    unfolding RECURSIVE_RM_OPTIONS_def rx_seqs.simps
    by (rule rx_match.m_seq [OF look [unfolded rx_seqs.simps] rx_match.m_seq [OF opt rx_match.m_star0]])
  have target: "rx_match (quoted_target ''/'') ''/'' []"
    unfolding quoted_target_def rx_alts.simps
    using rx_match_lit_lower [of "''/''" "[]"] lower_ascii by (intro rx_match.m_alt2) simp
  have "rx_match SHELL_ARG_END [] []"
    unfolding SHELL_ARG_END_def by (intro rx_match.m_alt2 rx_match.m_end)
  then have tail: "rx_match (rx_seqs [quoted_target ''/'', SHELL_ARG_END]) ''/'' []"
    unfolding rx_seqs.simps by (rule rx_match.m_seq [OF target])
  have "rx_match (recursiveRmTargetPattern (quoted_target ''/''))
      (''rm'' @ CHR '' '' # ''-'' @ f @ ''r'' @ g @ ?rest) []"
    unfolding recursiveRmTargetPattern_def rx_seqs.simps
    using tail unfolding rx_seqs.simps
    by (intro rx_match.m_seq [OF rx_match_lit_lower] lower_ascii rx_match.m_seq [OF rx_match_space]
        rx_match.m_seq [OF options] rx_match.m_seq [OF rx_match_args [OF args]])
  then show ?thesis by simp
qed

lemma trim_core:
  assumes "\<not> is_ws x" and "\<not> is_ws y"
  shows "trim (a @ x # s @ [y]) = dropWhile is_ws a @ x # s @ [y]"
proof (cases "\<forall>c \<in> set a. is_ws c")
  case True
  then have "dropWhile is_ws a = []" by simp
  with True assms show ?thesis by (simp add: trim_def trim_start_def trim_end_def dropWhile_append2)
next
  case False
  then have "dropWhile is_ws (a @ x # s @ [y]) = dropWhile is_ws a @ x # s @ [y]"
    by (auto simp: dropWhile_append1)
  with assms show ?thesis by (simp add: trim_def trim_start_def trim_end_def)
qed

text \<open>
  A recursive removal of the root directory is reported at the critical level, whatever text
  precedes it, whatever letters are given with the \<open>r\<close> in its option and whatever plain
  arguments come before the slash.
\<close>

theorem root_removal_is_critical:
  assumes "\<forall>c \<in> set f. is_alpha c" and "\<forall>c \<in> set g. is_alpha c"
    and "\<forall>a \<in> set args. a \<noteq> [] \<and> (\<forall>c \<in> set a. \<not> is_ws c)"
  shows "sc_riskLevel (checkCommandSafety (before @ ''rm -'' @ f @ ''r'' @ g @ space_args args @ '' /''))
    = Some Critical"
proof -
  let ?rm = "''rm -'' @ f @ ''r'' @ g @ space_args args @ '' /''"
  have e: "?rm = CHR ''r'' # (''m -'' @ f @ ''r'' @ g @ space_args args @ '' '') @ [CHR ''/'']" by simp
  have t: "trim (before @ ?rm) = dropWhile is_ws before @ ?rm"
    unfolding e by (rule trim_core) (simp_all add: is_ws_def)
  have "rx_test (recursiveRmTargetPattern (quoted_target ''/'')) (trim (before @ ?rm))"
    unfolding t rx_test_iff using rx_match_root_rm [OF assms] by blast
  then show ?thesis
    by (subst check_first_entry [OF _ _ DANGEROUS_PATTERNS_def]) (simp_all add: entry_def)
qed

theorem root_removal_is_critical_witness:
  "sc_riskLevel (checkCommandSafety (''sudo '' @ ''rm -'' @ '''' @ ''r'' @ ''f'' @ space_args [''x''] @ '' /''))
    = Some Critical"
  by (rule root_removal_is_critical)
    (simp_all add: is_alpha_def is_lower_def char_between_def is_ws_def)

text \<open>
  the check reports a non-empty command exactly when some entry of the table matches the
  trimmed command, and a reported command always carries a warning and a risk level.
\<close>

theorem checkCommandSafety_complete:
  "(sc_safe (checkCommandSafety command) \<longleftrightarrow>
      command = [] \<or> (\<forall>d \<in> set DANGEROUS_PATTERNS. \<not> dp_pattern d (trim command)))
   \<and> (sc_safe (checkCommandSafety command) =
      (sc_warning (checkCommandSafety command) = None \<and> sc_riskLevel (checkCommandSafety command) = None))"
  using check_unsafe_iff [of command]
  by (auto simp: checkCommandSafety_def safe_result_def Let_def split: option.splits)

end
