(* ===== verification/Paths.thy ===== *)
theory Paths
  imports Prelude
begin

section \<open>POSIX paths: the \<open>node:path\<close> functions and \<open>normalizeRemotePosixPath\<close>\<close>

text \<open>
  The functions of Node's \<open>path.posix\<close> that the policy code calls (\<open>normalize\<close>, \<open>join\<close>,
  \<open>resolve\<close>, \<open>dirname\<close>, \<open>basename\<close>), and the path functions of \<open>src/policy.ts\<close> built on
  them. The server is modelled on a POSIX host, where \<open>path\<close> is \<open>path.posix\<close> and \<open>path.sep\<close>
  is a slash. The main lemmas give a canonical form: a normalised absolute path is the
  rendering of a list of proper segments, and lying under a prefix is being an extension of
  its segment list.
\<close>

abbreviation SLASH :: char where "SLASH \<equiv> CHR ''/''"

subsection \<open>Node's \<open>path.posix\<close>\<close>

text \<open>\<open>normalizeString\<close>: the segments kept so far are a stack, last segment first.\<close>

fun normalize_segments :: "bool \<Rightarrow> string list \<Rightarrow> string list \<Rightarrow> string list" where
  "normalize_segments aboveRoot stack [] = rev stack"
| "normalize_segments aboveRoot stack (seg # segs) =
     (if seg = '''' \<or> seg = ''.'' then normalize_segments aboveRoot stack segs
      else if seg = ''..'' then
        (case stack of
           [] \<Rightarrow> normalize_segments aboveRoot (if aboveRoot then [''..''] else []) segs
         | lastSeg # rest \<Rightarrow>
             if lastSeg = ''..'' then normalize_segments aboveRoot (if aboveRoot then ''..'' # stack else stack) segs
             else normalize_segments aboveRoot rest segs)
      else normalize_segments aboveRoot (seg # stack) segs)"

definition path_segments :: "string \<Rightarrow> string list" where
  "path_segments s = split_on (\<lambda>c. c = SLASH) s"

definition is_absolute :: "string \<Rightarrow> bool" where
  "is_absolute s \<longleftrightarrow> prefix [SLASH] s"

definition posix_normalize :: "string \<Rightarrow> string" where
  "posix_normalize s =
     (if s = [] then ''.''
      else let body = join [SLASH] (normalize_segments (\<not> is_absolute s) [] (path_segments s));
               trailing = (last s = SLASH)
           in if body = [] then (if is_absolute s then [SLASH] else if trailing then ''./'' else ''.'')
              else (if is_absolute s then [SLASH] else []) @ body @ (if trailing then [SLASH] else []))"

definition posix_join :: "string list \<Rightarrow> string" where
  "posix_join parts =
     (let joined = join [SLASH] (filter (\<lambda>p. p \<noteq> []) parts)
      in if joined = [] then ''.'' else posix_normalize joined)"

text \<open>\<open>path.resolve\<close> of one argument; \<open>cwd\<close> is the absolute working directory.\<close>

definition posix_resolve :: "string \<Rightarrow> string \<Rightarrow> string" where
  "posix_resolve cwd p =
     (let full = (if is_absolute p then p else cwd @ [SLASH] @ p)
      in [SLASH] @ join [SLASH] (normalize_segments False [] (path_segments full)))"

definition posix_dirname :: "string \<Rightarrow> string" where
  "posix_dirname p =
     (if p = [] then ''.''
      else let body = dropWhile (\<lambda>c. c = SLASH) (rev (tl p));
               up = dropWhile (\<lambda>c. c \<noteq> SLASH) body
           in if up = [] then (if is_absolute p then [SLASH] else ''.'')
              else if is_absolute p \<and> length up = 1 then [SLASH, SLASH]
              else hd p # rev (tl up))"

definition posix_basename :: "string \<Rightarrow> string" where
  "posix_basename p =
     rev (takeWhile (\<lambda>c. c \<noteq> SLASH) (dropWhile (\<lambda>c. c = SLASH) (rev p)))"

subsection \<open>Path functions of \<open>src/policy.ts\<close>\<close>

definition isSegmentBoundaryPathMatch :: "string \<Rightarrow> string \<Rightarrow> char \<Rightarrow> bool" where
  "isSegmentBoundaryPathMatch candidate pre separator \<longleftrightarrow>
     candidate = pre \<or> prefix (pre @ [separator]) candidate"

function stripTrailingSeparators :: "string \<Rightarrow> char \<Rightarrow> string \<Rightarrow> string" where
  "stripTrailingSeparators value separator root =
     (if length root < length value \<and> last value = separator
      then stripTrailingSeparators (butlast value) separator root else value)"
  by pat_completeness auto
termination
  by (relation "measure (\<lambda>(value, _, _). length value)") auto

declare stripTrailingSeparators.simps [simp del]

datatype path_error = NulByte

definition normalizeRemotePosixPath :: "string \<Rightarrow> path_error + string" where
  "normalizeRemotePosixPath pathValue =
     (if NUL \<in> set pathValue then Inl NulByte
      else let unixSeparators = replace_char BSLASH [SLASH] pathValue;
               absolutePath = (if prefix [SLASH] unixSeparators then unixSeparators
                               else SLASH # unixSeparators);
               normalized = posix_normalize absolutePath
           in Inr (stripTrailingSeparators normalized SLASH [SLASH]))"

text \<open>
  \<open>resolveLocalExistingPrefix\<close> asks the file system (\<open>fs.realpathSync.native\<close>) for the
  longest existing prefix; \<open>realpath\<close> stands for it and is \<open>None\<close> where the call throws.
\<close>

definition dirname_measure :: "string \<Rightarrow> nat" where
  "dirname_measure p = (if p = ''.'' then 0 else Suc (length p))"

lemma dirname_decreases: "posix_dirname p \<noteq> p \<Longrightarrow> dirname_measure (posix_dirname p) < dirname_measure p"
proof (cases p)
  case (Cons c p')
  assume ne: "posix_dirname p \<noteq> p"
  define body where "body = dropWhile (\<lambda>c. c = SLASH) (rev p')"
  define up where "up = dropWhile (\<lambda>c. c \<noteq> SLASH) body"
  have lb: "length body \<le> length p'" unfolding body_def
    by (metis length_dropWhile_le length_rev)
  have lu: "length up \<le> length body" unfolding up_def by (rule length_dropWhile_le)
  have strict: "length up < length body" if "up \<noteq> []"
  proof -
    have "body \<noteq> []" using that by (auto simp: up_def)
    then have "hd body \<noteq> SLASH" unfolding body_def using hd_dropWhile by blast
    with \<open>body \<noteq> []\<close> have "up = dropWhile (\<lambda>c. c \<noteq> SLASH) (tl body)"
      unfolding up_def by (cases body) auto
    then have "length up \<le> length (tl body)" using length_dropWhile_le by metis
    with \<open>body \<noteq> []\<close> show ?thesis by (cases body) auto
  qed
  have e: "posix_dirname p =
      (if up = [] then (if is_absolute p then [SLASH] else ''.'')
       else if is_absolute p \<and> length up = 1 then [SLASH, SLASH] else hd p # rev (tl up))"
    unfolding posix_dirname_def body_def up_def Let_def Cons list.sel by (simp only: list.distinct if_False)
  show ?thesis
  proof (cases "up = []")
    case True
    show ?thesis
    proof (cases "is_absolute p")
      case abs: True
      then have d: "posix_dirname p = [SLASH]" using e True by simp
      have "p' \<noteq> []" using ne d abs Cons by (auto simp: is_absolute_def)
      then have "2 \<le> length p" using Cons by (cases p') simp_all
      then show ?thesis unfolding d dirname_measure_def by auto
    next
      case rel: False
      then have d: "posix_dirname p = ''.''" using e True by simp
      then have "p \<noteq> ''.''" using ne by metis
      then show ?thesis unfolding d dirname_measure_def by simp
    qed
  next
    case False
    then have "length up < length p'" using strict lb by linarith
    moreover from False have "1 \<le> length up" by (cases up) simp_all
    ultimately have big: "2 < length p" "length up < length p - 1" "1 \<le> length up"
      using Cons by simp_all
    have "length (posix_dirname p) < length p"
      using e False big by auto
    moreover have "p \<noteq> ''.''" using big by auto
    ultimately show ?thesis by (simp add: dirname_measure_def)
  qed
qed (simp add: posix_dirname_def dirname_measure_def)

function resolveLocalExistingPrefix ::
    "(string \<Rightarrow> string option) \<Rightarrow> string \<Rightarrow> string \<Rightarrow> string list \<Rightarrow> string" where
  "resolveLocalExistingPrefix realpath normalizedPath candidate pending =
     (case realpath candidate of
        Some resolvedPrefix \<Rightarrow> posix_join (resolvedPrefix # pending)
      | None \<Rightarrow>
          let parent = posix_dirname candidate
          in if parent = candidate then normalizedPath
             else resolveLocalExistingPrefix realpath normalizedPath parent
                    (posix_basename candidate # pending))"
  by pat_completeness auto
termination
  by (relation "measure (\<lambda>(_, _, candidate, _). dirname_measure candidate)")
    (auto intro: dirname_decreases)

declare resolveLocalExistingPrefix.simps [simp del]

definition normalizeLocalPolicyPath ::
    "string \<Rightarrow> (string \<Rightarrow> string option) \<Rightarrow> string \<Rightarrow> path_error + string" where
  "normalizeLocalPolicyPath cwd realpath pathValue =
     (if NUL \<in> set pathValue then Inl NulByte
      else let absolutePath = posix_resolve cwd pathValue;
               norm0 = posix_normalize absolutePath;
               normalized = resolveLocalExistingPrefix realpath norm0 norm0 []
           in Inr (stripTrailingSeparators normalized SLASH [SLASH]))"

text \<open>\<open>path.parse(p).root\<close>.\<close>

definition posix_root :: "string \<Rightarrow> string" where
  "posix_root p = (if is_absolute p then [SLASH] else [])"

definition isPathUnder :: "string \<Rightarrow> string \<Rightarrow> char \<Rightarrow> bool" where
  "isPathUnder pathValue pre separator \<longleftrightarrow>
     pre = [SLASH] \<or> pre = posix_root pre \<or> isSegmentBoundaryPathMatch pathValue pre separator"

subsection \<open>Canonical form\<close>

definition proper_segment :: "string \<Rightarrow> bool" where
  "proper_segment s \<longleftrightarrow> s \<noteq> '''' \<and> s \<noteq> ''.'' \<and> s \<noteq> ''..'' \<and> SLASH \<notin> set s"

definition render_path :: "string list \<Rightarrow> string" where
  "render_path segs = SLASH # join [SLASH] segs"

text \<open>The reference: the segment list a remote path denotes, backslashes read as slashes.\<close>

definition canonical_segments :: "string \<Rightarrow> string list" where
  "canonical_segments pathValue =
     normalize_segments False [] (path_segments (replace_char BSLASH [SLASH] pathValue))"

lemma proper_segment_nonempty [simp]: "proper_segment s \<Longrightarrow> s \<noteq> []"
  by (simp add: proper_segment_def)

lemma normalize_segments_push:
  "proper_segment seg \<Longrightarrow>
   normalize_segments aboveRoot stack (seg # segs) = normalize_segments aboveRoot (seg # stack) segs"
  by (simp add: proper_segment_def)

lemma normalize_segments_cases:
  assumes "SLASH \<notin> set seg"
  obtains "proper_segment seg" | "seg = '''' \<or> seg = ''.''" | "seg = ''..''"
  using assms unfolding proper_segment_def by blast

declare normalize_segments.simps(2) [simp del]

lemma normalize_segments_skip:
  "seg = '''' \<or> seg = ''.'' \<Longrightarrow>
   normalize_segments aboveRoot stack (seg # segs) = normalize_segments aboveRoot stack segs"
  by (simp only: normalize_segments.simps(2) if_True)

lemma normalize_segments_pop:
  assumes "\<forall>s \<in> set stack. proper_segment s"
  shows "normalize_segments False stack (''..'' # segs) = normalize_segments False (tl stack) segs"
proof (cases stack)
  case (Cons x xs)
  with assms have "x \<noteq> ''..''" by (auto simp: proper_segment_def)
  with Cons show ?thesis by (simp add: normalize_segments.simps(2))
qed (simp add: normalize_segments.simps(2))

lemma normalize_segments_proper:
  assumes "\<forall>s \<in> set stack. proper_segment s" and "\<forall>s \<in> set segs. SLASH \<notin> set s"
  shows "\<forall>s \<in> set (normalize_segments False stack segs). proper_segment s"
  using assms
proof (induction segs arbitrary: stack)
  case (Cons seg segs)
  from Cons.prems(2) have "SLASH \<notin> set seg" by simp
  then show ?case
  proof (cases rule: normalize_segments_cases)
    case 1
    with Cons.prems Cons.IH [of "seg # stack"] show ?thesis by (simp add: normalize_segments_push)
  next
    case 2
    with Cons.prems Cons.IH [of stack] show ?thesis by (simp add: normalize_segments_skip)
  next
    case 3
    have "\<forall>s \<in> set (tl stack). proper_segment s"
      using Cons.prems(1) by (cases stack) auto
    with 3 Cons.prems Cons.IH [of "tl stack"] show ?thesis by (simp add: normalize_segments_pop)
  qed
qed simp

lemma normalize_segments_id:
  assumes "\<forall>s \<in> set segs. proper_segment s"
  shows "normalize_segments aboveRoot stack segs = rev stack @ segs"
  using assms by (induction segs arbitrary: stack) (simp_all add: normalize_segments_push)

lemma path_segments_no_slash: "s \<in> set (path_segments p) \<Longrightarrow> SLASH \<notin> set s"
  using split_on_parts [of s "\<lambda>c. c = SLASH" p SLASH] unfolding path_segments_def by blast

lemma canonical_segments_proper: "\<forall>s \<in> set (canonical_segments p). proper_segment s"
  unfolding canonical_segments_def
  by (rule normalize_segments_proper) (simp, use path_segments_no_slash in blast)

lemma join_nonempty: "\<forall>s \<in> set segs. proper_segment s \<Longrightarrow> join [SLASH] segs = [] \<longleftrightarrow> segs = []"
proof (cases segs)
  case (Cons x xs)
  assume "\<forall>s \<in> set segs. proper_segment s"
  with Cons show ?thesis by (cases xs) auto
qed simp

lemma last_join_proper:
  "\<forall>s \<in> set segs. proper_segment s \<Longrightarrow> segs \<noteq> [] \<Longrightarrow> last (join [SLASH] segs) \<noteq> SLASH"
proof (induction segs)
  case (Cons x xs)
  show ?case
  proof (cases xs)
    case Nil
    from Cons.prems have "x \<noteq> []" "SLASH \<notin> set x" by (auto simp: proper_segment_def)
    then have "last x \<noteq> SLASH" by (metis last_in_set)
    with Nil show ?thesis by simp
  next
    case (Cons y ys)
    with Cons.prems have "join [SLASH] xs \<noteq> []" using join_nonempty by fastforce
    with Cons Cons.IH Cons.prems show ?thesis by (simp add: join_Cons)
  qed
qed simp

lemma strip_render:
  assumes "\<forall>s \<in> set segs. proper_segment s"
  shows "stripTrailingSeparators (render_path segs) SLASH [SLASH] = render_path segs"
proof (cases "segs = []")
  case True
  then show ?thesis by (simp add: render_path_def stripTrailingSeparators.simps)
next
  case False
  with assms have "join [SLASH] segs \<noteq> []" by (simp add: join_nonempty)
  then have "last (render_path segs) \<noteq> SLASH"
    using last_join_proper [OF assms False] by (simp add: render_path_def)
  then show ?thesis by (simp add: stripTrailingSeparators.simps)
qed

lemma strip_render_trailing:
  assumes "\<forall>s \<in> set segs. proper_segment s"
  shows "stripTrailingSeparators (render_path segs @ [SLASH]) SLASH [SLASH] = render_path segs"
  using strip_render [OF assms]
  by (subst stripTrailingSeparators.simps) (simp add: render_path_def)

lemma normalize_absolute:
  "posix_normalize (SLASH # s) =
     (let segs = normalize_segments False [] (path_segments (SLASH # s))
      in if segs \<noteq> [] \<and> last (SLASH # s) = SLASH then render_path segs @ [SLASH]
         else render_path segs)"
proof -
  let ?segs = "normalize_segments False [] (path_segments (SLASH # s))"
  have "\<forall>x \<in> set ?segs. proper_segment x"
    by (rule normalize_segments_proper) (simp, use path_segments_no_slash in blast)
  then have "join [SLASH] ?segs = [] \<longleftrightarrow> ?segs = []" by (rule join_nonempty)
  then show ?thesis
    by (auto simp: posix_normalize_def is_absolute_def render_path_def Let_def)
qed

lemma strip_normalize_absolute:
  "stripTrailingSeparators (posix_normalize (SLASH # s)) SLASH [SLASH] =
     render_path (normalize_segments False [] (path_segments (SLASH # s)))"
proof -
  let ?segs = "normalize_segments False [] (path_segments (SLASH # s))"
  have p: "\<forall>x \<in> set ?segs. proper_segment x"
    by (rule normalize_segments_proper) (simp, use path_segments_no_slash in blast)
  show ?thesis
    by (auto simp: normalize_absolute Let_def strip_render [OF p] strip_render_trailing [OF p])
qed

lemma path_segments_slash: "path_segments (SLASH # s) = [] # path_segments s"
  by (simp add: path_segments_def)

theorem normalizeRemotePosixPath_canonical:
  "normalizeRemotePosixPath p =
     (if NUL \<in> set p then Inl NulByte else Inr (render_path (canonical_segments p)))"
proof (cases "prefix [SLASH] (replace_char BSLASH [SLASH] p)")
  case True
  then obtain q where q: "replace_char BSLASH [SLASH] p = SLASH # q" by (auto simp: prefix_def)
  show ?thesis
    by (simp add: normalizeRemotePosixPath_def canonical_segments_def q strip_normalize_absolute Let_def)
next
  case False
  then show ?thesis
    by (simp add: normalizeRemotePosixPath_def canonical_segments_def strip_normalize_absolute Let_def
        path_segments_slash normalize_segments_skip)
qed

lemma render_path_no_backslash:
  "BSLASH \<notin> set (render_path segs) \<Longrightarrow> replace_char BSLASH [SLASH] (render_path segs) = render_path segs"
proof -
  have "replace_char BSLASH [SLASH] s = s" if "BSLASH \<notin> set s" for s
    using that by (induction s) (auto simp: replace_char_def)
  then show "BSLASH \<notin> set (render_path segs) \<Longrightarrow> ?thesis" by simp
qed

lemma path_segments_render:
  assumes "\<forall>s \<in> set segs. proper_segment s"
  shows "normalize_segments aboveRoot [] (path_segments (render_path segs)) = segs"
proof (cases "segs = []")
  case True
  then show ?thesis by (simp add: render_path_def path_segments_def normalize_segments_skip)
next
  case False
  from assms have "\<forall>x \<in> set segs. SLASH \<notin> set x" by (auto simp: proper_segment_def)
  then have "path_segments (join [SLASH] segs) = segs"
    using False by (simp add: path_segments_def split_on_join)
  with assms show ?thesis
    by (simp add: render_path_def path_segments_slash normalize_segments_skip normalize_segments_id)
qed

lemma render_path_inj:
  "\<forall>s \<in> set a. proper_segment s \<Longrightarrow> \<forall>s \<in> set b. proper_segment s \<Longrightarrow>
   render_path a = render_path b \<longleftrightarrow> a = b"
  by (metis path_segments_render)

subsection \<open>Idempotence and prefixes\<close>

lemma normalize_segments_subset:
  assumes "\<forall>s \<in> set stack. proper_segment s" and "\<forall>s \<in> set segs. SLASH \<notin> set s"
  shows "set (normalize_segments False stack segs) \<subseteq> set stack \<union> set segs"
  using assms
proof (induction segs arbitrary: stack)
  case (Cons seg segs)
  from Cons.prems(2) have "SLASH \<notin> set seg" by simp
  then show ?case
  proof (cases rule: normalize_segments_cases)
    case 1
    with Cons.prems Cons.IH [of "seg # stack"] show ?thesis
      by (auto simp: normalize_segments_push)
  next
    case 2
    with Cons.prems Cons.IH [of stack] show ?thesis
      by (auto simp: normalize_segments_skip)
  next
    case 3
    have sub: "set (tl stack) \<subseteq> set stack" by (cases stack) auto
    then have "\<forall>s \<in> set (tl stack). proper_segment s" using Cons.prems(1) by blast
    with 3 Cons.prems Cons.IH [of "tl stack"] sub show ?thesis
      by (auto simp: normalize_segments_pop)
  qed
qed simp

lemma split_on_chars: "y \<in> set (split_on q xs) \<Longrightarrow> set y \<subseteq> set xs"
  by (induction xs arbitrary: y) (fastforce split: list.splits if_splits)+

lemma replace_char_gone: "c \<notin> set r \<Longrightarrow> c \<notin> set (replace_char c r s)"
  by (induction s) (auto simp: replace_char_def)

lemma replace_char_absent: "c \<notin> set s \<Longrightarrow> replace_char c r s = s"
  by (induction s) (auto simp: replace_char_def)

lemma canonical_segments_no_backslash:
  assumes "s \<in> set (canonical_segments p)"
  shows "BSLASH \<notin> set s"
proof -
  let ?q = "replace_char BSLASH [SLASH] p"
  have "set (canonical_segments p) \<subseteq> set [] \<union> set (path_segments ?q)"
    unfolding canonical_segments_def
    by (rule normalize_segments_subset) (simp, use path_segments_no_slash in blast)
  with assms have "s \<in> set (path_segments ?q)" by auto
  then have "set s \<subseteq> set ?q" by (auto simp: path_segments_def dest: split_on_chars)
  moreover have "BSLASH \<notin> set ?q" by (rule replace_char_gone) simp
  ultimately show ?thesis by blast
qed

lemma set_join: "set (join sep segs) \<subseteq> set sep \<union> \<Union> (set ` set segs)"
  by (induction sep segs rule: join.induct) auto

lemma canonical_segments_render:
  "canonical_segments (render_path (canonical_segments p)) = canonical_segments p"
proof -
  have "BSLASH \<notin> set (render_path (canonical_segments p))"
    using set_join [of "[SLASH]" "canonical_segments p"] canonical_segments_no_backslash
    by (auto simp: render_path_def)
  then have e: "replace_char BSLASH [SLASH] (render_path (canonical_segments p)) =
      render_path (canonical_segments p)"
    by (rule replace_char_absent)
  show ?thesis
    unfolding canonical_segments_def [of "render_path (canonical_segments p)"] e
    by (rule path_segments_render [OF canonical_segments_proper])
qed

lemma join_prefix_iff:
  assumes "\<forall>s \<in> set a. proper_segment s" and "\<forall>s \<in> set b. proper_segment s" and "b \<noteq> []"
  shows "(join [SLASH] a = join [SLASH] b \<or> prefix (join [SLASH] b @ [SLASH]) (join [SLASH] a))
         \<longleftrightarrow> prefix b a"
proof
  assume "prefix b a"
  then obtain r where r: "a = b @ r" by (auto simp: prefix_def)
  have "join [SLASH] (b @ r) = join [SLASH] b @ [SLASH] @ join [SLASH] r" if "r \<noteq> []"
    using \<open>b \<noteq> []\<close> that
  proof (induction b)
    case (Cons x xs)
    then show ?case by (cases xs) (auto simp: join_Cons)
  qed simp
  with r show "join [SLASH] a = join [SLASH] b \<or> prefix (join [SLASH] b @ [SLASH]) (join [SLASH] a)"
    by (cases "r = []") (auto simp: prefix_def)
next
  have segs: "path_segments (join [SLASH] c) = c"
    if "\<forall>s \<in> set c. proper_segment s" "c \<noteq> []" for c
    using that by (auto simp: path_segments_def proper_segment_def intro!: split_on_join)
  have append: "path_segments (u @ SLASH # v) = path_segments u @ path_segments v" for u v
    by (induction u) (auto simp: path_segments_def split: list.splits)
  assume "join [SLASH] a = join [SLASH] b \<or> prefix (join [SLASH] b @ [SLASH]) (join [SLASH] a)"
  then show "prefix b a"
  proof
    assume e: "join [SLASH] a = join [SLASH] b"
    then have "a \<noteq> []" using join_nonempty [OF assms(1)] join_nonempty [OF assms(2)] assms(3) by auto
    with segs [OF assms(1)] segs [OF assms(2,3)] e have "a = b" by metis
    then show ?thesis by simp
  next
    assume "prefix (join [SLASH] b @ [SLASH]) (join [SLASH] a)"
    then obtain v where v: "join [SLASH] a = join [SLASH] b @ SLASH # v" by (auto simp: prefix_def)
    then have "a \<noteq> []" by auto
    have "a = path_segments (join [SLASH] b @ SLASH # v)"
      using segs [OF assms(1) \<open>a \<noteq> []\<close>] v by simp
    then have "a = b @ path_segments v" using segs [OF assms(2,3)] by (simp add: append)
    then show ?thesis by simp
  qed
qed

lemma isPathUnder_render:
  assumes a: "\<forall>s \<in> set a. proper_segment s" and b: "\<forall>s \<in> set b. proper_segment s"
  shows "isPathUnder (render_path a) (render_path b) SLASH \<longleftrightarrow> prefix b a"
proof (cases "b = []")
  case True
  then show ?thesis by (simp add: isPathUnder_def render_path_def)
next
  case False
  then have "join [SLASH] b \<noteq> []" using join_nonempty [OF b] by simp
  then show ?thesis
    using join_prefix_iff [OF a b False]
    by (simp add: isPathUnder_def isSegmentBoundaryPathMatch_def render_path_def posix_root_def)
qed

end
