(* ===== verification/Errors.thy ===== *)
theory Errors
  imports Prelude
begin

section \<open>Structured errors: \<open>src/types.ts\<close> and \<open>src/errors.ts\<close>\<close>

text \<open>
  The error codes, the error class and its constructors. A JavaScript error that is caught
  by the code is one of three things: an \<open>SSHMCPError\<close>, another \<open>Error\<close> with a message, or
  a thrown value that is no \<open>Error\<close> at all (\<open>String(error)\<close> is then its text).
\<close>

datatype error_code =
    EAUTH | ECONN | ETIMEOUT | ENOSUDO | EPMGR | EFS | EPATCH | EBADREQ
  | EPOLICY | EHOSTKEY | ELIMIT | EUNSUPPORTED

record ssh_mcp_error =
  err_code :: error_code
  err_message :: string
  err_hint :: "string option"
  err_userFriendlyMessage :: "string option"
  err_recoverable :: bool
  err_suggestedAction :: "string option"

datatype thrown =
    MCPError ssh_mcp_error
  | JSError string
  | Thrown string

definition createAuthError :: "string \<Rightarrow> string option \<Rightarrow> ssh_mcp_error" where
  "createAuthError message hint =
     \<lparr> err_code = EAUTH, err_message = message, err_hint = hint,
       err_userFriendlyMessage = Some ''SSH authentication failed. Please check your credentials or SSH key.'',
       err_recoverable = True,
       err_suggestedAction = Some ''Use ssh_open_session with different auth method (password, key, or agent)'' \<rparr>"

definition createConnectionError :: "string \<Rightarrow> string option \<Rightarrow> ssh_mcp_error" where
  "createConnectionError message hint =
     \<lparr> err_code = ECONN, err_message = message, err_hint = hint,
       err_userFriendlyMessage = Some ''Unable to connect to the SSH server. The server may be down or unreachable.'',
       err_recoverable = True,
       err_suggestedAction = Some ''Check network connectivity and verify host/port are correct'' \<rparr>"

definition createTimeoutError :: "string \<Rightarrow> string option \<Rightarrow> ssh_mcp_error" where
  "createTimeoutError message hint =
     \<lparr> err_code = ETIMEOUT, err_message = message, err_hint = hint,
       err_userFriendlyMessage = Some ''The operation timed out. The server may be slow or unresponsive.'',
       err_recoverable = True,
       err_suggestedAction = Some ''Try increasing timeout or check server load'' \<rparr>"

definition createSudoError :: "string \<Rightarrow> string option \<Rightarrow> ssh_mcp_error" where
  "createSudoError message hint =
     \<lparr> err_code = ENOSUDO, err_message = message, err_hint = hint,
       err_userFriendlyMessage = Some ''Root/sudo privileges are required but not available.'',
       err_recoverable = True,
       err_suggestedAction = Some ''Configure a restricted NOPASSWD sudoers profile for approved commands'' \<rparr>"

definition createPackageManagerError :: "string \<Rightarrow> string option \<Rightarrow> ssh_mcp_error" where
  "createPackageManagerError message hint =
     \<lparr> err_code = EPMGR, err_message = message, err_hint = hint,
       err_userFriendlyMessage = Some ''Package manager operation failed. Check if the package name is correct.'',
       err_recoverable = True,
       err_suggestedAction = Some ''Verify package name and try ensure_package with correct packageName'' \<rparr>"

definition createFilesystemError :: "string \<Rightarrow> string option \<Rightarrow> ssh_mcp_error" where
  "createFilesystemError message hint =
     \<lparr> err_code = EFS, err_message = message, err_hint = hint,
       err_userFriendlyMessage = Some ''File system operation failed. Check path and permissions.'',
       err_recoverable = True,
       err_suggestedAction = Some ''Verify the path exists and you have proper permissions'' \<rparr>"

definition createPatchError :: "string \<Rightarrow> string option \<Rightarrow> ssh_mcp_error" where
  "createPatchError message hint =
     \<lparr> err_code = EPATCH, err_message = message, err_hint = hint,
       err_userFriendlyMessage = Some ''Failed to apply text patch. The file content may have changed.'',
       err_recoverable = True,
       err_suggestedAction = Some ''Re-read the file with fs_read and try again with updated content'' \<rparr>"

definition createBadRequestError :: "string \<Rightarrow> string option \<Rightarrow> ssh_mcp_error" where
  "createBadRequestError message hint =
     \<lparr> err_code = EBADREQ, err_message = message, err_hint = hint,
       err_userFriendlyMessage = Some ''Invalid request parameters.'',
       err_recoverable = False,
       err_suggestedAction = Some ''Check the parameter format and values'' \<rparr>"

definition createPolicyError :: "string \<Rightarrow> string option \<Rightarrow> ssh_mcp_error" where
  "createPolicyError message hint =
     \<lparr> err_code = EPOLICY, err_message = message, err_hint = hint,
       err_userFriendlyMessage = Some ''The operation was denied by the configured safety policy.'',
       err_recoverable = False,
       err_suggestedAction = Some ''Review the policy or run the request in explain mode before changing guardrails'' \<rparr>"

definition createHostKeyError :: "string \<Rightarrow> string option \<Rightarrow> ssh_mcp_error" where
  "createHostKeyError message hint =
     \<lparr> err_code = EHOSTKEY, err_message = message, err_hint = hint,
       err_userFriendlyMessage = Some ''SSH host key verification failed.'',
       err_recoverable = True,
       err_suggestedAction = Some ''Verify known_hosts or expectedHostKeySha256 before reconnecting'' \<rparr>"

definition createLimitError :: "string \<Rightarrow> string option \<Rightarrow> ssh_mcp_error" where
  "createLimitError message hint =
     \<lparr> err_code = ELIMIT, err_message = message, err_hint = hint,
       err_userFriendlyMessage = Some ''The operation exceeded a configured safety limit.'',
       err_recoverable = False,
       err_suggestedAction = Some ''Use a smaller request, transfer the file, or raise the configured limit intentionally'' \<rparr>"

definition createUnsupportedError :: "string \<Rightarrow> string option \<Rightarrow> ssh_mcp_error" where
  "createUnsupportedError message hint =
     \<lparr> err_code = EUNSUPPORTED, err_message = message, err_hint = hint,
       err_userFriendlyMessage = Some ''The requested operation is not supported for this host or transport.'',
       err_recoverable = False,
       err_suggestedAction = Some ''Use a supported tool for this platform or check the capability resource'' \<rparr>"

definition wrapError :: "thrown \<Rightarrow> error_code \<Rightarrow> string option \<Rightarrow> ssh_mcp_error" where
  "wrapError error code hint =
     (case error of
        MCPError e \<Rightarrow> e
      | JSError message \<Rightarrow>
          \<lparr> err_code = code, err_message = message, err_hint = hint,
            err_userFriendlyMessage = Some ''An unexpected error occurred.'',
            err_recoverable = True,
            err_suggestedAction = Some ''Try the operation again or check server status'' \<rparr>
      | Thrown text \<Rightarrow>
          \<lparr> err_code = code, err_message = text, err_hint = hint,
            err_userFriendlyMessage = Some ''An unexpected error occurred.'',
            err_recoverable = True,
            err_suggestedAction = Some ''Try the operation again or check server status'' \<rparr>)"

text \<open>What the constructors agree on, as rewrite rules for the components.\<close>

lemma create_error_fields [simp]:
  "err_code (createAuthError m h) = EAUTH" "err_message (createAuthError m h) = m" "err_hint (createAuthError m h) = h"
  "err_recoverable (createAuthError m h) = True"
  "err_code (createConnectionError m h) = ECONN" "err_message (createConnectionError m h) = m" "err_hint (createConnectionError m h) = h"
  "err_recoverable (createConnectionError m h) = True"
  "err_code (createTimeoutError m h) = ETIMEOUT" "err_message (createTimeoutError m h) = m" "err_hint (createTimeoutError m h) = h"
  "err_recoverable (createTimeoutError m h) = True"
  "err_code (createSudoError m h) = ENOSUDO" "err_message (createSudoError m h) = m" "err_hint (createSudoError m h) = h"
  "err_recoverable (createSudoError m h) = True"
  "err_code (createPackageManagerError m h) = EPMGR" "err_message (createPackageManagerError m h) = m" "err_hint (createPackageManagerError m h) = h"
  "err_recoverable (createPackageManagerError m h) = True"
  "err_code (createFilesystemError m h) = EFS" "err_message (createFilesystemError m h) = m" "err_hint (createFilesystemError m h) = h"
  "err_recoverable (createFilesystemError m h) = True"
  "err_code (createPatchError m h) = EPATCH" "err_message (createPatchError m h) = m" "err_hint (createPatchError m h) = h"
  "err_recoverable (createPatchError m h) = True"
  "err_code (createBadRequestError m h) = EBADREQ" "err_message (createBadRequestError m h) = m" "err_hint (createBadRequestError m h) = h"
  "err_recoverable (createBadRequestError m h) = False"
  "err_code (createPolicyError m h) = EPOLICY" "err_message (createPolicyError m h) = m" "err_hint (createPolicyError m h) = h"
  "err_recoverable (createPolicyError m h) = False"
  "err_code (createHostKeyError m h) = EHOSTKEY" "err_message (createHostKeyError m h) = m" "err_hint (createHostKeyError m h) = h"
  "err_recoverable (createHostKeyError m h) = True"
  "err_code (createLimitError m h) = ELIMIT" "err_message (createLimitError m h) = m" "err_hint (createLimitError m h) = h"
  "err_recoverable (createLimitError m h) = False"
  "err_code (createUnsupportedError m h) = EUNSUPPORTED" "err_message (createUnsupportedError m h) = m" "err_hint (createUnsupportedError m h) = h"
  "err_recoverable (createUnsupportedError m h) = False"
  by (simp_all add: createAuthError_def createConnectionError_def createTimeoutError_def createSudoError_def createPackageManagerError_def createFilesystemError_def createPatchError_def createBadRequestError_def createPolicyError_def createHostKeyError_def createLimitError_def createUnsupportedError_def)

lemma wrapError_idem: "wrapError (MCPError (wrapError e c h)) c' h' = wrapError e c h"
  by (simp add: wrapError_def)

end
