(* ===== verification/Policy.thy ===== *)
theory Policy
  imports Paths Safety Errors
begin

section \<open>The policy engine: \<open>src/policy.ts\<close>\<close>

text \<open>
  The engine and its decision procedure, check by check. What the code asks of its
  surroundings is one record: \<open>env_regexp\<close> is \<open>new RegExp(pattern).test\<close> for the patterns of
  the configuration (\<open>None\<close> where the constructor throws), \<open>env_cwd\<close> the working directory and
  \<open>env_realpath\<close> the file system's \<open>realpath\<close>. The observer is modelled by the list of its
  calls.
\<close>

datatype policy_mode = Enforce | Explain

datatype policy_action =
    SshOpen | ProcExec | ProcSudo | FsRead | FsStat | FsList | FsWrite | FsRemove | FsMkdir | FsRename
  | EnsurePackage | EnsureService | EnsureLines | PatchApply | TransferUpload | TransferDownload
  | TransferLocalRead | TransferLocalWrite | TransferLocalCreate | TransferLocalOverwrite
  | TunnelLocal | TunnelRemote

record policy_config =
  pc_mode :: policy_mode
  pc_allowRootLogin :: bool
  pc_allowRawSudo :: bool
  pc_allowDestructiveCommands :: bool
  pc_allowDestructiveFs :: bool
  pc_allowedHosts :: "string list"
  pc_commandAllow :: "string list"
  pc_commandDeny :: "string list"
  pc_pathAllowPrefixes :: "string list"
  pc_pathDenyPrefixes :: "string list"
  pc_localPathAllowPrefixes :: "string list"
  pc_localPathDenyPrefixes :: "string list"
  pc_tunnelAllowBindHosts :: "string list"
  pc_tunnelDenyBindHosts :: "string list"
  pc_tunnelAllowRemoteHosts :: "string list"
  pc_tunnelDenyRemoteHosts :: "string list"
  pc_tunnelAllowPorts :: "string list"
  pc_tunnelDenyPorts :: "string list"

record policy_context =
  px_action :: policy_action
  px_host :: "string option"
  px_username :: "string option"
  px_command :: "string option"
  px_path :: "string option"
  px_secondaryPath :: "string option"
  px_localBindHost :: "string option"
  px_localPort :: "int option"
  px_remoteHost :: "string option"
  px_remotePort :: "int option"
  px_mode :: "policy_mode option"
  px_rawSudo :: bool
  px_destructive :: bool

record policy_decision =
  pd_allowed :: bool
  pd_mode :: policy_mode
  pd_action :: policy_action
  pd_reason :: "string option"
  pd_hint :: "string option"
  pd_riskLevel :: "risk_level option"

record policy_env =
  env_regexp :: "string \<Rightarrow> (string \<Rightarrow> bool) option"
  env_cwd :: string
  env_realpath :: "string \<Rightarrow> string option"

definition DEFAULT_ALLOWED_MUTATION_PREFIXES :: "string list" where
  "DEFAULT_ALLOWED_MUTATION_PREFIXES = [''/tmp'', ''/var/tmp'', ''/home'', ''/Users'']"

definition LOCAL_TRANSFER_ACTIONS :: "policy_action list" where
  "LOCAL_TRANSFER_ACTIONS =
     [TransferLocalRead, TransferLocalWrite, TransferLocalCreate, TransferLocalOverwrite]"

subsection \<open>Matching values, hosts and ports\<close>

definition matchesAny :: "policy_env \<Rightarrow> string \<Rightarrow> string list \<Rightarrow> bool" where
  "matchesAny env value patterns =
     list_ex (\<lambda>pattern. case env_regexp env pattern of None \<Rightarrow> False | Some test \<Rightarrow> test value) patterns"

definition matchesPolicyValue :: "policy_env \<Rightarrow> string \<Rightarrow> string list \<Rightarrow> bool" where
  "matchesPolicyValue env value policies =
     list_ex (\<lambda>policy. policy = value \<or> matchesAny env value [policy]) policies"

text \<open>The expression \<open>^(\d{1,5})(?:-(\d{1,5}))?$\<close> on the trimmed policy.\<close>

definition port_digits :: "string \<Rightarrow> bool" where
  "port_digits s \<longleftrightarrow> 1 \<le> length s \<and> length s \<le> 5 \<and> list_all is_digit s"

definition parsePortRange :: "string \<Rightarrow> (int \<times> int) option" where
  "parsePortRange policy =
     (let trimmed = trim policy;
          first = takeWhile is_digit trimmed;
          rest = dropWhile is_digit trimmed;
          last = (case rest of [] \<Rightarrow> Some first
                  | c # ds \<Rightarrow> if c = CHR ''-'' \<and> port_digits ds then Some ds else None)
      in if \<not> port_digits first then None
         else case last of None \<Rightarrow> None
              | Some ds \<Rightarrow>
                  let start = int (num_of_digits first); stop = int (num_of_digits ds)
                  in if start < 0 \<or> stop > 65535 \<or> start > stop then None else Some (start, stop))"

definition matchesPortPolicy :: "int \<Rightarrow> string list \<Rightarrow> bool" where
  "matchesPortPolicy port policies =
     list_ex (\<lambda>policy. case parsePortRange policy of None \<Rightarrow> False
                       | Some (start, stop) \<Rightarrow> start \<le> port \<and> port \<le> stop) policies"

subsection \<open>The engine\<close>

record policy_engine =
  pe_config :: policy_config
  pe_pathAllowPrefixes :: "string list"
  pe_pathDenyPrefixes :: "string list"
  pe_defaultPathAllowPrefixes :: "string list"
  pe_localPathAllowPrefixes :: "string list"
  pe_localPathDenyPrefixes :: "string list"

fun map_res :: "('a \<Rightarrow> 'e + 'b) \<Rightarrow> 'a list \<Rightarrow> 'e + 'b list" where
  "map_res f [] = Inr []"
| "map_res f (x # xs) = bind_res (f x) (\<lambda>y. bind_res (map_res f xs) (\<lambda>ys. Inr (y # ys)))"

text \<open>\<open>[...new Set(xs)]\<close> keeps the first of equal elements.\<close>

definition unique_first :: "'a list \<Rightarrow> 'a list" where
  "unique_first xs = rev (remdups (rev xs))"

definition normalizePolicyPaths ::
    "string list \<Rightarrow> (string \<Rightarrow> path_error + string) \<Rightarrow> path_error + string list" where
  "normalizePolicyPaths paths normalizer = bind_res (map_res normalizer paths) (\<lambda>ps. Inr (unique_first ps))"

definition newPolicyEngine :: "policy_env \<Rightarrow> policy_config \<Rightarrow> path_error + policy_engine" where
  "newPolicyEngine env config =
     bind_res (normalizePolicyPaths (pc_pathAllowPrefixes config) normalizeRemotePosixPath) (\<lambda>allow.
     bind_res (normalizePolicyPaths (pc_pathDenyPrefixes config) normalizeRemotePosixPath) (\<lambda>deny.
     bind_res (normalizePolicyPaths DEFAULT_ALLOWED_MUTATION_PREFIXES normalizeRemotePosixPath) (\<lambda>dflt.
     bind_res (normalizePolicyPaths (pc_localPathAllowPrefixes config)
                 (normalizeLocalPolicyPath (env_cwd env) (env_realpath env))) (\<lambda>lallow.
     bind_res (normalizePolicyPaths (pc_localPathDenyPrefixes config)
                 (normalizeLocalPolicyPath (env_cwd env) (env_realpath env))) (\<lambda>ldeny.
       Inr \<lparr> pe_config = config, pe_pathAllowPrefixes = allow, pe_pathDenyPrefixes = deny,
             pe_defaultPathAllowPrefixes = dflt, pe_localPathAllowPrefixes = lallow,
             pe_localPathDenyPrefixes = ldeny \<rparr>)))))"

definition getEffectivePolicy :: "policy_engine \<Rightarrow> policy_config" where
  "getEffectivePolicy engine = pe_config engine"

definition denied :: "policy_mode \<Rightarrow> policy_action \<Rightarrow> string \<Rightarrow> string \<Rightarrow> policy_decision" where
  "denied mode action reason hint =
     \<lparr> pd_allowed = False, pd_mode = mode, pd_action = action, pd_reason = Some reason,
       pd_hint = Some hint, pd_riskLevel = None \<rparr>"

definition allowed :: "policy_mode \<Rightarrow> policy_action \<Rightarrow> policy_decision" where
  "allowed mode action =
     \<lparr> pd_allowed = True, pd_mode = mode, pd_action = action, pd_reason = None,
       pd_hint = None, pd_riskLevel = None \<rparr>"

subsection \<open>The checks, each returning a refusal or nothing\<close>

definition checkHost :: "policy_env \<Rightarrow> policy_config \<Rightarrow> policy_context \<Rightarrow> policy_mode \<Rightarrow> policy_decision option" where
  "checkHost env config ctx mode =
     (if truthy (px_host ctx) \<and> length (pc_allowedHosts config) > 0 then
        let host = the (px_host ctx);
            hostAllowed = list_ex (\<lambda>h. h = host \<or> matchesAny env host [h]) (pc_allowedHosts config)
        in if \<not> hostAllowed then
             Some (denied mode (px_action ctx) (''Host '' @ host @ '' is not allowed by policy'')
               ''Add the host to allowedHosts or use an SSH config alias that is allowed.'')
           else None
      else None)"

definition checkTunnelBindHost :: "policy_env \<Rightarrow> policy_config \<Rightarrow> policy_context \<Rightarrow> policy_mode \<Rightarrow> policy_decision option" where
  "checkTunnelBindHost env config ctx mode =
     (let bindHost = the (px_localBindHost ctx) in
      if truthy (px_localBindHost ctx) \<and> length (pc_tunnelDenyBindHosts config) > 0
         \<and> matchesPolicyValue env bindHost (pc_tunnelDenyBindHosts config) then
        Some (denied mode (px_action ctx) (''Tunnel bind host '' @ bindHost @ '' is denied by policy'')
          ''Choose an allowed bind host or adjust tunnelDenyBindHosts.'')
      else if truthy (px_localBindHost ctx) \<and> length (pc_tunnelAllowBindHosts config) > 0
         \<and> \<not> matchesPolicyValue env bindHost (pc_tunnelAllowBindHosts config) then
        Some (denied mode (px_action ctx) (''Tunnel bind host '' @ bindHost @ '' is outside allowed policy'')
          ''Choose an allowed bind host or adjust tunnelAllowBindHosts.'')
      else None)"

definition checkTunnelRemoteHost :: "policy_env \<Rightarrow> policy_config \<Rightarrow> policy_context \<Rightarrow> policy_mode \<Rightarrow> policy_decision option" where
  "checkTunnelRemoteHost env config ctx mode =
     (let remoteHost = the (px_remoteHost ctx) in
      if truthy (px_remoteHost ctx) \<and> length (pc_tunnelDenyRemoteHosts config) > 0
         \<and> matchesPolicyValue env remoteHost (pc_tunnelDenyRemoteHosts config) then
        Some (denied mode (px_action ctx) (''Tunnel remote host '' @ remoteHost @ '' is denied by policy'')
          ''Choose an allowed remote host or adjust tunnelDenyRemoteHosts.'')
      else if truthy (px_remoteHost ctx) \<and> length (pc_tunnelAllowRemoteHosts config) > 0
         \<and> \<not> matchesPolicyValue env remoteHost (pc_tunnelAllowRemoteHosts config) then
        Some (denied mode (px_action ctx) (''Tunnel remote host '' @ remoteHost @ '' is outside allowed policy'')
          ''Choose an allowed remote host or adjust tunnelAllowRemoteHosts.'')
      else None)"

definition tunnel_ports :: "policy_context \<Rightarrow> int list" where
  "tunnel_ports ctx = List.map_filter id [px_localPort ctx, px_remotePort ctx]"

fun check_ports :: "policy_config \<Rightarrow> policy_context \<Rightarrow> policy_mode \<Rightarrow> int list \<Rightarrow> policy_decision option" where
  "check_ports config ctx mode [] = None"
| "check_ports config ctx mode (port # ports) =
     (if length (pc_tunnelDenyPorts config) > 0 \<and> matchesPortPolicy port (pc_tunnelDenyPorts config) then
        Some (denied mode (px_action ctx) (''Tunnel port '' @ show_int port @ '' is denied by policy'')
          ''Choose a different port or adjust tunnelDenyPorts.'')
      else if length (pc_tunnelAllowPorts config) > 0 \<and> \<not> matchesPortPolicy port (pc_tunnelAllowPorts config) then
        Some (denied mode (px_action ctx) (''Tunnel port '' @ show_int port @ '' is outside allowed policy'')
          ''Choose an allowed port or adjust tunnelAllowPorts.'')
      else check_ports config ctx mode ports)"

definition checkTunnelPorts :: "policy_config \<Rightarrow> policy_context \<Rightarrow> policy_mode \<Rightarrow> policy_decision option" where
  "checkTunnelPorts config ctx mode = check_ports config ctx mode (tunnel_ports ctx)"

definition checkTunnelPolicy :: "policy_env \<Rightarrow> policy_config \<Rightarrow> policy_context \<Rightarrow> policy_mode \<Rightarrow> policy_decision option" where
  "checkTunnelPolicy env config ctx mode =
     (if px_action ctx = TunnelLocal \<or> px_action ctx = TunnelRemote then
        case checkTunnelBindHost env config ctx mode of
          Some d \<Rightarrow> Some d
        | None \<Rightarrow> (case checkTunnelRemoteHost env config ctx mode of
              Some d \<Rightarrow> Some d
            | None \<Rightarrow> checkTunnelPorts config ctx mode)
      else None)"

definition checkCommandPolicy :: "policy_env \<Rightarrow> policy_config \<Rightarrow> policy_context \<Rightarrow> policy_mode \<Rightarrow> policy_decision option" where
  "checkCommandPolicy env config ctx mode =
     (if truthy (px_command ctx) then
        let command = the (px_command ctx) in
        if length (pc_commandDeny config) > 0 \<and> matchesAny env command (pc_commandDeny config) then
          Some (denied mode (px_action ctx) ''Command matched commandDeny policy''
            ''Review the command or adjust the policy.'')
        else if length (pc_commandAllow config) > 0 \<and> \<not> matchesAny env command (pc_commandAllow config) then
          Some (denied mode (px_action ctx) ''Command does not match commandAllow policy''
            ''Use an allowed command or update commandAllow.'')
        else let safety = checkCommandSafety command in
          if \<not> sc_safe safety \<and> \<not> pc_allowDestructiveCommands config then
            Some ((denied mode (px_action ctx)
                (case sc_warning safety of None \<Rightarrow> ''Command is considered unsafe'' | Some w \<Rightarrow> w)
                (case sc_suggestion safety of
                   None \<Rightarrow> ''Review the command before enabling destructive command policy.'' | Some s \<Rightarrow> s))
              \<lparr> pd_riskLevel := sc_riskLevel safety \<rparr>)
          else None
      else None)"

fun checkLocalPaths :: "policy_env \<Rightarrow> policy_engine \<Rightarrow> policy_context \<Rightarrow> policy_mode \<Rightarrow> string list \<Rightarrow> policy_decision" where
  "checkLocalPaths env engine ctx mode [] = allowed mode (px_action ctx)"
| "checkLocalPaths env engine ctx mode (pathValue # paths) =
     (case normalizeLocalPolicyPath (env_cwd env) (env_realpath env) pathValue of
        Inl _ \<Rightarrow> denied mode (px_action ctx) ''Local path contains NUL byte''
                   ''Choose a valid local path without NUL bytes.''
      | Inr normalizedPath \<Rightarrow>
          if list_ex (\<lambda>pre. isPathUnder normalizedPath pre SLASH) (pe_localPathDenyPrefixes engine) then
            denied mode (px_action ctx) (''Local path '' @ pathValue @ '' is denied by policy'')
              ''Choose a different local path or adjust localPathDenyPrefixes.''
          else if length (pe_localPathAllowPrefixes engine) = 0 then
            denied mode (px_action ctx) ''Local transfer path policy has no allowed prefixes''
              ''Set localPathAllowPrefixes for MCP-server-host transfer paths.''
          else if \<not> list_ex (\<lambda>pre. isPathUnder normalizedPath pre SLASH) (pe_localPathAllowPrefixes engine) then
            denied mode (px_action ctx) (''Local path '' @ pathValue @ '' is outside allowed prefixes'')
              (''Allowed local transfer prefixes: '' @ join '', '' (pe_localPathAllowPrefixes engine))
          else checkLocalPaths env engine ctx mode paths)"

definition effective_allow_prefixes :: "policy_engine \<Rightarrow> string list" where
  "effective_allow_prefixes engine =
     (if length (pe_pathAllowPrefixes engine) > 0 then pe_pathAllowPrefixes engine
      else pe_defaultPathAllowPrefixes engine)"

fun checkRemotePaths :: "policy_engine \<Rightarrow> policy_context \<Rightarrow> policy_mode \<Rightarrow> string list \<Rightarrow> policy_decision" where
  "checkRemotePaths engine ctx mode [] = allowed mode (px_action ctx)"
| "checkRemotePaths engine ctx mode (pathValue # paths) =
     (case normalizeRemotePosixPath pathValue of
        Inl _ \<Rightarrow> denied mode (px_action ctx) ''Path contains NUL byte''
                   ''Choose a valid remote path without NUL bytes.''
      | Inr normalizedPath \<Rightarrow>
          if list_ex (\<lambda>pre. isPathUnder normalizedPath pre SLASH) (pe_pathDenyPrefixes engine) then
            denied mode (px_action ctx) (''Path '' @ pathValue @ '' is denied by policy'')
              ''Choose a different path or adjust pathDenyPrefixes.''
          else let isDestructiveFs = (px_destructive ctx \<or> px_action ctx = FsRemove);
                   allowPrefixes = effective_allow_prefixes engine in
            if isDestructiveFs \<and> \<not> pc_allowDestructiveFs (pe_config engine)
               \<and> \<not> list_ex (\<lambda>pre. isPathUnder normalizedPath pre SLASH) allowPrefixes then
              denied mode (px_action ctx)
                (''Destructive filesystem operation on '' @ pathValue @ '' is outside allowed prefixes'')
                (''Allowed destructive prefixes: '' @ join '', '' allowPrefixes)
            else checkRemotePaths engine ctx mode paths)"

definition context_paths :: "policy_context \<Rightarrow> string list" where
  "context_paths ctx = List.map_filter (\<lambda>p. if truthy p then p else None) [px_path ctx, px_secondaryPath ctx]"

definition checkPathPolicy :: "policy_env \<Rightarrow> policy_engine \<Rightarrow> policy_context \<Rightarrow> policy_mode \<Rightarrow> policy_decision" where
  "checkPathPolicy env engine ctx mode =
     (if px_action ctx \<in> set LOCAL_TRANSFER_ACTIONS
      then checkLocalPaths env engine ctx mode (context_paths ctx)
      else checkRemotePaths engine ctx mode (context_paths ctx))"

subsection \<open>Decisions\<close>

definition evaluate :: "policy_env \<Rightarrow> policy_engine \<Rightarrow> policy_context \<Rightarrow> policy_decision" where
  "evaluate env engine ctx =
     (let config = pe_config engine;
          mode = (case px_mode ctx of Some m \<Rightarrow> m | None \<Rightarrow> pc_mode config)
      in case checkHost env config ctx mode of Some d \<Rightarrow> d | None \<Rightarrow>
        (case checkTunnelPolicy env config ctx mode of Some d \<Rightarrow> d | None \<Rightarrow>
          (if px_username ctx = Some ''root'' \<and> \<not> pc_allowRootLogin config then
             denied mode (px_action ctx) ''Root SSH login is disabled by policy''
               ''Connect as an unprivileged user and use approved ensure tools where possible.''
           else if px_rawSudo ctx \<and> \<not> pc_allowRawSudo config then
             denied mode (px_action ctx) ''Raw sudo command execution is disabled by policy''
               ''Use an idempotent ensure_* tool or enable allowRawSudo explicitly.''
           else case checkCommandPolicy env config ctx mode of Some d \<Rightarrow> d | None \<Rightarrow>
             checkPathPolicy env engine ctx mode)))"

type_synonym observer_calls = "(policy_decision \<times> policy_context) list"

definition assertAllowed ::
    "policy_env \<Rightarrow> policy_engine \<Rightarrow> policy_context \<Rightarrow> observer_calls \<times> (ssh_mcp_error + policy_decision)" where
  "assertAllowed env engine ctx =
     (let decision = evaluate env engine ctx in
      ([(decision, ctx)],
       if \<not> pd_allowed decision \<and> pd_mode decision = Enforce then
         Inl (createPolicyError
                (case pd_reason decision of None \<Rightarrow> ''Operation denied by policy'' | Some r \<Rightarrow> r)
                (pd_hint decision))
       else Inr decision))"

definition policy_check :: "policy_env \<Rightarrow> policy_engine \<Rightarrow> policy_context \<Rightarrow> observer_calls \<times> policy_decision" where
  "policy_check env engine ctx =
     (let decision = evaluate env engine ctx in ([(decision, ctx)], decision))"

definition policy_explain :: "policy_env \<Rightarrow> policy_engine \<Rightarrow> policy_context \<Rightarrow> observer_calls \<times> policy_decision" where
  "policy_explain env engine ctx =
     (let decision = evaluate env engine (ctx\<lparr>px_mode := Some Explain\<rparr>)
      in ([(decision, ctx\<lparr>px_mode := Some Explain\<rparr>)], decision))"

end
