(* ===== verification/PolicyProps.thy ===== *)
theory PolicyProps
  imports Policy
begin

section \<open>The policy engine against its specification\<close>

text \<open>
  \<open>permitted\<close> states over the configuration alone, and over canonical segment lists instead of
  path strings, when a request is allowed. The engine built by the constructor decides
  exactly that; the other properties of the engine follow.
\<close>

subsection \<open>The specification\<close>

definition regexp_hits :: "policy_env \<Rightarrow> string \<Rightarrow> string \<Rightarrow> bool" where
  "regexp_hits env pattern value \<longleftrightarrow> (\<exists>test. env_regexp env pattern = Some test \<and> test value)"

definition value_hits :: "policy_env \<Rightarrow> string \<Rightarrow> string list \<Rightarrow> bool" where
  "value_hits env value policies \<longleftrightarrow> (\<exists>p \<in> set policies. p = value \<or> regexp_hits env p value)"

definition port_hits :: "int \<Rightarrow> string list \<Rightarrow> bool" where
  "port_hits port policies \<longleftrightarrow>
     (\<exists>p \<in> set policies. \<exists>a b. parsePortRange p = Some (a, b) \<and> a \<le> port \<and> port \<le> b)"

text \<open>A deny list wins; an allow list that is not empty must hit.\<close>

definition lists_permit :: "('a \<Rightarrow> string list \<Rightarrow> bool) \<Rightarrow> 'a \<Rightarrow> string list \<Rightarrow> string list \<Rightarrow> bool" where
  "lists_permit hits v deny allow \<longleftrightarrow> \<not> hits v deny \<and> (allow \<noteq> [] \<longrightarrow> hits v allow)"

definition host_permitted :: "policy_env \<Rightarrow> policy_config \<Rightarrow> policy_context \<Rightarrow> bool" where
  "host_permitted env config ctx \<longleftrightarrow>
     (\<forall>h. px_host ctx = Some h \<longrightarrow> h \<noteq> [] \<longrightarrow> pc_allowedHosts config \<noteq> [] \<longrightarrow>
        value_hits env h (pc_allowedHosts config))"

definition tunnel_permitted :: "policy_env \<Rightarrow> policy_config \<Rightarrow> policy_context \<Rightarrow> bool" where
  "tunnel_permitted env config ctx \<longleftrightarrow>
     (px_action ctx \<in> {TunnelLocal, TunnelRemote} \<longrightarrow>
        (\<forall>h. px_localBindHost ctx = Some h \<longrightarrow> h \<noteq> [] \<longrightarrow>
           lists_permit (value_hits env) h (pc_tunnelDenyBindHosts config) (pc_tunnelAllowBindHosts config)) \<and>
        (\<forall>h. px_remoteHost ctx = Some h \<longrightarrow> h \<noteq> [] \<longrightarrow>
           lists_permit (value_hits env) h (pc_tunnelDenyRemoteHosts config) (pc_tunnelAllowRemoteHosts config)) \<and>
        (\<forall>p. px_localPort ctx = Some p \<or> px_remotePort ctx = Some p \<longrightarrow>
           lists_permit port_hits p (pc_tunnelDenyPorts config) (pc_tunnelAllowPorts config)))"

definition command_permitted :: "policy_env \<Rightarrow> policy_config \<Rightarrow> policy_context \<Rightarrow> bool" where
  "command_permitted env config ctx \<longleftrightarrow>
     (\<forall>c. px_command ctx = Some c \<longrightarrow> c \<noteq> [] \<longrightarrow>
        \<not> (\<exists>p \<in> set (pc_commandDeny config). regexp_hits env p c) \<and>
        (pc_commandAllow config \<noteq> [] \<longrightarrow> (\<exists>p \<in> set (pc_commandAllow config). regexp_hits env p c)) \<and>
        (sc_safe (checkCommandSafety c) \<or> pc_allowDestructiveCommands config))"

definition under_any :: "string list \<Rightarrow> string \<Rightarrow> bool" where
  "under_any pres p \<longleftrightarrow>
     (\<exists>pre \<in> set pres. prefix (canonical_segments pre) (canonical_segments p))"

definition remote_permitted :: "policy_config \<Rightarrow> policy_context \<Rightarrow> bool" where
  "remote_permitted config ctx \<longleftrightarrow>
     (\<forall>p \<in> set (context_paths ctx).
        NUL \<notin> set p \<and> \<not> under_any (pc_pathDenyPrefixes config) p \<and>
        ((px_destructive ctx \<or> px_action ctx = FsRemove) \<longrightarrow> \<not> pc_allowDestructiveFs config \<longrightarrow>
           under_any (if pc_pathAllowPrefixes config = [] then DEFAULT_ALLOWED_MUTATION_PREFIXES
                      else pc_pathAllowPrefixes config) p))"

definition local_under_any :: "policy_env \<Rightarrow> string list \<Rightarrow> string \<Rightarrow> bool" where
  "local_under_any env pres n \<longleftrightarrow>
     (\<exists>pre \<in> set pres. \<exists>q. normalizeLocalPolicyPath (env_cwd env) (env_realpath env) pre = Inr q \<and>
        isPathUnder n q SLASH)"

definition local_permitted :: "policy_env \<Rightarrow> policy_config \<Rightarrow> policy_context \<Rightarrow> bool" where
  "local_permitted env config ctx \<longleftrightarrow>
     (\<forall>p \<in> set (context_paths ctx). \<exists>n.
        normalizeLocalPolicyPath (env_cwd env) (env_realpath env) p = Inr n \<and>
        \<not> local_under_any env (pc_localPathDenyPrefixes config) n \<and>
        local_under_any env (pc_localPathAllowPrefixes config) n)"

definition permitted :: "policy_env \<Rightarrow> policy_config \<Rightarrow> policy_context \<Rightarrow> bool" where
  "permitted env config ctx \<longleftrightarrow>
     host_permitted env config ctx \<and> tunnel_permitted env config ctx \<and>
     (px_username ctx = Some ''root'' \<longrightarrow> pc_allowRootLogin config) \<and>
     (px_rawSudo ctx \<longrightarrow> pc_allowRawSudo config) \<and>
     command_permitted env config ctx \<and>
     (if px_action ctx \<in> set LOCAL_TRANSFER_ACTIONS then local_permitted env config ctx
      else remote_permitted config ctx)"

subsection \<open>Each check against its part of the specification\<close>

lemma pd_allowed_simps [simp]:
  "pd_allowed (denied m a r h) = False" "pd_allowed (allowed m a) = True"
  "pd_mode (denied m a r h) = m" "pd_mode (allowed m a) = m"
  by (simp_all add: denied_def allowed_def)

lemma matchesAny_iff: "matchesAny env v ps \<longleftrightarrow> (\<exists>p \<in> set ps. regexp_hits env p v)"
  by (auto simp: matchesAny_def list_ex_iff regexp_hits_def split: option.splits)

lemma matchesPolicyValue_iff: "matchesPolicyValue env v ps \<longleftrightarrow> value_hits env v ps"
  by (auto simp: matchesPolicyValue_def value_hits_def list_ex_iff matchesAny_iff)

lemma matchesPortPolicy_iff: "matchesPortPolicy port ps \<longleftrightarrow> port_hits port ps"
proof -
  have "(case parsePortRange p of None \<Rightarrow> False | Some (start, stop) \<Rightarrow> start \<le> port \<and> port \<le> stop)
      \<longleftrightarrow> (\<exists>a b. parsePortRange p = Some (a, b) \<and> a \<le> port \<and> port \<le> b)" for p
    by (cases "parsePortRange p") auto
  then show ?thesis by (simp add: matchesPortPolicy_def port_hits_def list_ex_iff)
qed

lemma checkHost_None: "checkHost env config ctx m = None \<longleftrightarrow> host_permitted env config ctx"
  by (auto simp: checkHost_def host_permitted_def value_hits_def list_ex_iff matchesAny_iff Let_def
      truthy_Some split: if_splits)

lemma checkTunnelBindHost_None:
  "checkTunnelBindHost env config ctx m = None \<longleftrightarrow>
     (\<forall>h. px_localBindHost ctx = Some h \<longrightarrow> h \<noteq> [] \<longrightarrow>
        lists_permit (value_hits env) h (pc_tunnelDenyBindHosts config) (pc_tunnelAllowBindHosts config))"
  by (cases "px_localBindHost ctx")
    (auto simp: checkTunnelBindHost_def lists_permit_def matchesPolicyValue_iff Let_def value_hits_def)

lemma checkTunnelRemoteHost_None:
  "checkTunnelRemoteHost env config ctx m = None \<longleftrightarrow>
     (\<forall>h. px_remoteHost ctx = Some h \<longrightarrow> h \<noteq> [] \<longrightarrow>
        lists_permit (value_hits env) h (pc_tunnelDenyRemoteHosts config) (pc_tunnelAllowRemoteHosts config))"
  by (cases "px_remoteHost ctx")
    (auto simp: checkTunnelRemoteHost_def lists_permit_def matchesPolicyValue_iff Let_def value_hits_def)

lemma check_ports_None:
  "check_ports config ctx m ports = None \<longleftrightarrow>
     (\<forall>p \<in> set ports. lists_permit port_hits p (pc_tunnelDenyPorts config) (pc_tunnelAllowPorts config))"
proof (induction ports)
  case (Cons p ports)
  have "\<not> port_hits p []" by (simp add: port_hits_def)
  then have "(length (pc_tunnelDenyPorts config) > 0 \<and> matchesPortPolicy p (pc_tunnelDenyPorts config))
      \<longleftrightarrow> port_hits p (pc_tunnelDenyPorts config)"
    by (auto simp: matchesPortPolicy_iff)
  with Cons.IH show ?case
    unfolding check_ports.simps by (simp add: lists_permit_def matchesPortPolicy_iff)
qed simp

lemma set_tunnel_ports: "set (tunnel_ports ctx) = {p. px_localPort ctx = Some p \<or> px_remotePort ctx = Some p}"
  by (auto simp: tunnel_ports_def List.map_filter_def split: if_splits)

lemma checkTunnelPolicy_None: "checkTunnelPolicy env config ctx m = None \<longleftrightarrow> tunnel_permitted env config ctx"
  unfolding checkTunnelPolicy_def tunnel_permitted_def
  by (simp add: checkTunnelBindHost_None checkTunnelRemoteHost_None checkTunnelPorts_def
      check_ports_None set_tunnel_ports)

lemma checkCommandPolicy_None: "checkCommandPolicy env config ctx m = None \<longleftrightarrow> command_permitted env config ctx"
  by (cases "px_command ctx")
    (auto simp: checkCommandPolicy_def command_permitted_def matchesAny_iff Let_def)

lemma checks_refuse:
  "checkHost env config ctx m = Some d \<Longrightarrow> \<not> pd_allowed d \<and> pd_mode d = m"
  "checkTunnelPolicy env config ctx m = Some d \<Longrightarrow> \<not> pd_allowed d \<and> pd_mode d = m"
  "checkCommandPolicy env config ctx m = Some d \<Longrightarrow> \<not> pd_allowed d \<and> pd_mode d = m"
proof -
  have ports: "check_ports config ctx m ports = Some d \<Longrightarrow> \<not> pd_allowed d \<and> pd_mode d = m" for ports
    by (induction ports) (auto split: if_splits)
  show "checkHost env config ctx m = Some d \<Longrightarrow> \<not> pd_allowed d \<and> pd_mode d = m"
    by (auto simp: checkHost_def Let_def split: if_splits)
  show "checkTunnelPolicy env config ctx m = Some d \<Longrightarrow> \<not> pd_allowed d \<and> pd_mode d = m"
    by (auto simp: checkTunnelPolicy_def checkTunnelBindHost_def checkTunnelRemoteHost_def Let_def
        checkTunnelPorts_def dest: ports split: if_splits option.splits)
  show "checkCommandPolicy env config ctx m = Some d \<Longrightarrow> \<not> pd_allowed d \<and> pd_mode d = m"
    by (auto simp: checkCommandPolicy_def Let_def denied_def split: if_splits)
qed

lemma checkRemotePaths_mode: "pd_mode (checkRemotePaths engine ctx m paths) = m"
  by (induction paths) (auto simp: Let_def split: sum.splits)

lemma checkLocalPaths_mode: "pd_mode (checkLocalPaths env engine ctx m paths) = m"
  by (induction paths) (auto simp: Let_def split: sum.splits)

lemma checkRemotePaths_allowed:
  "pd_allowed (checkRemotePaths engine ctx m paths) \<longleftrightarrow>
     (\<forall>p \<in> set paths. \<exists>n. normalizeRemotePosixPath p = Inr n \<and>
        \<not> (\<exists>pre \<in> set (pe_pathDenyPrefixes engine). isPathUnder n pre SLASH) \<and>
        ((px_destructive ctx \<or> px_action ctx = FsRemove) \<longrightarrow> \<not> pc_allowDestructiveFs (pe_config engine) \<longrightarrow>
           (\<exists>pre \<in> set (effective_allow_prefixes engine). isPathUnder n pre SLASH)))"
  by (induction paths) (auto simp: Let_def list_ex_iff split: sum.splits)

lemma checkLocalPaths_allowed:
  "pd_allowed (checkLocalPaths env engine ctx m paths) \<longleftrightarrow>
     (\<forall>p \<in> set paths. \<exists>n. normalizeLocalPolicyPath (env_cwd env) (env_realpath env) p = Inr n \<and>
        \<not> (\<exists>pre \<in> set (pe_localPathDenyPrefixes engine). isPathUnder n pre SLASH) \<and>
        (\<exists>pre \<in> set (pe_localPathAllowPrefixes engine). isPathUnder n pre SLASH))"
  by (induction paths) (auto simp: list_ex_iff split: sum.splits)

subsection \<open>The constructor\<close>

lemma set_unique_first [simp]: "set (unique_first xs) = set xs"
  by (simp add: unique_first_def)

lemma map_res_Inr:
  "map_res f xs = Inr ys \<Longrightarrow> set ys = {y. \<exists>x \<in> set xs. f x = Inr y} \<and> (\<forall>x \<in> set xs. \<exists>y. f x = Inr y) \<and> length ys = length xs"
proof (induction xs arbitrary: ys)
  case (Cons x xs)
  then obtain y ys' where "f x = Inr y" "map_res f xs = Inr ys'" "ys = y # ys'"
    by (auto simp: bind_res_Inr)
  with Cons.IH [of ys'] show ?case by auto
qed simp

lemma normalizePolicyPaths_Inr:
  assumes "normalizePolicyPaths ps f = Inr qs"
  shows "set qs = {q. \<exists>p \<in> set ps. f p = Inr q}" and "\<forall>p \<in> set ps. \<exists>q. f p = Inr q"
    and "qs = [] \<longleftrightarrow> ps = []"
proof -
  from assms obtain ys where ys: "map_res f ps = Inr ys" "qs = unique_first ys"
    by (auto simp: normalizePolicyPaths_def bind_res_Inr)
  note m = map_res_Inr [OF ys(1)]
  show "set qs = {q. \<exists>p \<in> set ps. f p = Inr q}" and "\<forall>p \<in> set ps. \<exists>q. f p = Inr q"
    using m ys(2) by auto
  have "set qs = {} \<longleftrightarrow> ps = []" using m ys(2) by (metis length_0_conv set_empty set_unique_first)
  then show "qs = [] \<longleftrightarrow> ps = []" by simp
qed

lemma newPolicyEngine_Inr:
  assumes "newPolicyEngine env config = Inr engine"
  shows "pe_config engine = config"
    and "normalizePolicyPaths (pc_pathAllowPrefixes config) normalizeRemotePosixPath = Inr (pe_pathAllowPrefixes engine)"
    and "normalizePolicyPaths (pc_pathDenyPrefixes config) normalizeRemotePosixPath = Inr (pe_pathDenyPrefixes engine)"
    and "normalizePolicyPaths DEFAULT_ALLOWED_MUTATION_PREFIXES normalizeRemotePosixPath = Inr (pe_defaultPathAllowPrefixes engine)"
    and "normalizePolicyPaths (pc_localPathAllowPrefixes config) (normalizeLocalPolicyPath (env_cwd env) (env_realpath env)) = Inr (pe_localPathAllowPrefixes engine)"
    and "normalizePolicyPaths (pc_localPathDenyPrefixes config) (normalizeLocalPolicyPath (env_cwd env) (env_realpath env)) = Inr (pe_localPathDenyPrefixes engine)"
  using assms by (auto simp: newPolicyEngine_def bind_res_Inr)

lemma remote_under_iff:
  assumes "normalizePolicyPaths ps normalizeRemotePosixPath = Inr qs"
  shows "(\<exists>pre \<in> set qs. isPathUnder (render_path (canonical_segments p)) pre SLASH) \<longleftrightarrow> under_any ps p"
proof -
  note n = normalizePolicyPaths_Inr [OF assms]
  have img: "set qs = (\<lambda>r. render_path (canonical_segments r)) ` set ps"
    unfolding n(1) using n(2) by (auto simp: normalizeRemotePosixPath_canonical split: if_splits)
  show ?thesis
    unfolding img under_any_def by (simp add: isPathUnder_render canonical_segments_proper)
qed

lemma remote_refines:
  assumes "newPolicyEngine env config = Inr engine"
  shows "pd_allowed (checkRemotePaths engine ctx m (context_paths ctx)) \<longleftrightarrow> remote_permitted config ctx"
proof -
  note n = newPolicyEngine_Inr [OF assms]
  have allow: "effective_allow_prefixes engine =
      (if pc_pathAllowPrefixes config = [] then pe_defaultPathAllowPrefixes engine else pe_pathAllowPrefixes engine)"
    using normalizePolicyPaths_Inr(3) [OF n(2)] by (simp add: effective_allow_prefixes_def)
  have under: "(\<exists>pre \<in> set (effective_allow_prefixes engine).
        isPathUnder (render_path (canonical_segments p)) pre SLASH) \<longleftrightarrow>
      under_any (if pc_pathAllowPrefixes config = [] then DEFAULT_ALLOWED_MUTATION_PREFIXES
        else pc_pathAllowPrefixes config) p" for p
    unfolding allow using remote_under_iff [OF n(2)] remote_under_iff [OF n(4)] by simp
  have "(\<exists>k. normalizeRemotePosixPath p = Inr k \<and>
        \<not> (\<exists>pre \<in> set (pe_pathDenyPrefixes engine). isPathUnder k pre SLASH) \<and>
        ((px_destructive ctx \<or> px_action ctx = FsRemove) \<longrightarrow> \<not> pc_allowDestructiveFs config \<longrightarrow>
           (\<exists>pre \<in> set (effective_allow_prefixes engine). isPathUnder k pre SLASH)))
      \<longleftrightarrow> (NUL \<notin> set p \<and> \<not> under_any (pc_pathDenyPrefixes config) p \<and>
        ((px_destructive ctx \<or> px_action ctx = FsRemove) \<longrightarrow> \<not> pc_allowDestructiveFs config \<longrightarrow>
           under_any (if pc_pathAllowPrefixes config = [] then DEFAULT_ALLOWED_MUTATION_PREFIXES
                      else pc_pathAllowPrefixes config) p))" for p
    by (simp only: normalizeRemotePosixPath_canonical under [symmetric] remote_under_iff [OF n(3), symmetric]
        split: if_split) simp
  then show ?thesis
    unfolding checkRemotePaths_allowed remote_permitted_def n(1) by simp
qed

lemma local_refines:
  assumes "newPolicyEngine env config = Inr engine"
  shows "pd_allowed (checkLocalPaths env engine ctx m (context_paths ctx)) \<longleftrightarrow> local_permitted env config ctx"
proof -
  note n = newPolicyEngine_Inr [OF assms]
  show ?thesis
    unfolding checkLocalPaths_allowed local_permitted_def local_under_any_def
      normalizePolicyPaths_Inr(1) [OF n(5)] normalizePolicyPaths_Inr(1) [OF n(6)] by blast
qed

lemma evaluate_mode:
  "pd_mode (evaluate env engine ctx) = (case px_mode ctx of Some m \<Rightarrow> m | None \<Rightarrow> pc_mode (pe_config engine))"
  by (auto simp: evaluate_def Let_def checkPathPolicy_def checkRemotePaths_mode checkLocalPaths_mode
      dest: checks_refuse split: option.splits)

subsection \<open>Properties\<close>

lemma policy_refines:
  assumes "newPolicyEngine env config = Inr engine"
  shows "pd_allowed (evaluate env engine ctx) \<longleftrightarrow> permitted env config ctx"
proof -
  note n = newPolicyEngine_Inr [OF assms]
  define m where "m = (case px_mode ctx of Some m \<Rightarrow> m | None \<Rightarrow> pc_mode config)"
  note refuse = checks_refuse [of env config ctx m]
  note none = checkHost_None [of env config ctx m] checkTunnelPolicy_None [of env config ctx m]
    checkCommandPolicy_None [of env config ctx m]
  have path: "pd_allowed (checkPathPolicy env engine ctx m) \<longleftrightarrow>
      (if px_action ctx \<in> set LOCAL_TRANSFER_ACTIONS then local_permitted env config ctx
       else remote_permitted config ctx)"
    using remote_refines [OF assms] local_refines [OF assms] by (simp add: checkPathPolicy_def)
  have eval: "evaluate env engine ctx =
      (case checkHost env config ctx m of Some d \<Rightarrow> d | None \<Rightarrow>
        (case checkTunnelPolicy env config ctx m of Some d \<Rightarrow> d | None \<Rightarrow>
          (if px_username ctx = Some ''root'' \<and> \<not> pc_allowRootLogin config then
             denied m (px_action ctx) ''Root SSH login is disabled by policy''
               ''Connect as an unprivileged user and use approved ensure tools where possible.''
           else if px_rawSudo ctx \<and> \<not> pc_allowRawSudo config then
             denied m (px_action ctx) ''Raw sudo command execution is disabled by policy''
               ''Use an idempotent ensure_* tool or enable allowRawSudo explicitly.''
           else case checkCommandPolicy env config ctx m of Some d \<Rightarrow> d | None \<Rightarrow>
             checkPathPolicy env engine ctx m)))"
    unfolding evaluate_def Let_def n(1) m_def by (rule refl)
  show ?thesis
  proof (cases "host_permitted env config ctx \<and> tunnel_permitted env config ctx")
    case True
    then have "checkHost env config ctx m = None" "checkTunnelPolicy env config ctx m = None"
      using none by simp_all
    then show ?thesis
      using True path none(3) refuse(3)
      by (cases "checkCommandPolicy env config ctx m") (simp_all add: eval permitted_def)
  next
    case False
    have "\<not> pd_allowed (evaluate env engine ctx)"
    proof (cases "checkHost env config ctx m")
      case (Some d)
      with refuse(1) show ?thesis unfolding eval by simp
    next
      case None
      with False none(1,2) obtain d where "checkTunnelPolicy env config ctx m = Some d" by auto
      with None refuse(2) show ?thesis unfolding eval by simp
    qed
    with False show ?thesis unfolding permitted_def by blast
  qed
qed

text \<open>A concrete surrounding and configuration, for the witnesses.\<close>

definition demo_env :: policy_env where
  "demo_env = \<lparr> env_regexp = (\<lambda>p. Some (\<lambda>v. p = v)), env_cwd = ''/srv'', env_realpath = (\<lambda>p. Some p) \<rparr>"

definition demo_config :: policy_config where
  "demo_config =
     \<lparr> pc_mode = Enforce, pc_allowRootLogin = False, pc_allowRawSudo = False,
       pc_allowDestructiveCommands = False, pc_allowDestructiveFs = False, pc_allowedHosts = [],
       pc_commandAllow = [], pc_commandDeny = [], pc_pathAllowPrefixes = [''/tmp''],
       pc_pathDenyPrefixes = [''/var/../etc/''], pc_localPathAllowPrefixes = [''/tmp''],
       pc_localPathDenyPrefixes = [], pc_tunnelAllowBindHosts = [], pc_tunnelDenyBindHosts = [],
       pc_tunnelAllowRemoteHosts = [], pc_tunnelDenyRemoteHosts = [], pc_tunnelAllowPorts = [],
       pc_tunnelDenyPorts = [] \<rparr>"

definition demo_engine :: policy_engine where
  "demo_engine =
     \<lparr> pe_config = demo_config, pe_pathAllowPrefixes = [''/tmp''], pe_pathDenyPrefixes = [''/etc''],
       pe_defaultPathAllowPrefixes = [''/tmp'', ''/var/tmp'', ''/home'', ''/Users''],
       pe_localPathAllowPrefixes = [''/tmp''], pe_localPathDenyPrefixes = [] \<rparr>"

definition demo_context :: "policy_action \<Rightarrow> string \<Rightarrow> policy_context" where
  "demo_context action p =
     \<lparr> px_action = action, px_host = None, px_username = None, px_command = None, px_path = Some p,
       px_secondaryPath = None, px_localBindHost = None, px_localPort = None, px_remoteHost = None,
       px_remotePort = None, px_mode = None, px_rawSudo = False, px_destructive = False \<rparr>"

lemma demo_engine_new: "newPolicyEngine demo_env demo_config = Inr demo_engine"
  by code_simp

text \<open>
  C1: the engine built from a configuration allows a request exactly when the specification
  permits it: host, tunnel, root, raw sudo, command and path rules all pass, the path rules being
  read on the segments of the normalised paths.
\<close>

theorem policy_refines_specification:
  assumes "newPolicyEngine env config = Inr engine"
  shows "pd_allowed (evaluate env engine ctx) \<longleftrightarrow> permitted env config ctx"
  using assms by (rule policy_refines)

theorem policy_refines_specification_witness:
  "pd_allowed (evaluate demo_env demo_engine (demo_context FsRemove ''/tmp/a/../b''))
     \<longleftrightarrow> permitted demo_env demo_config (demo_context FsRemove ''/tmp/a/../b'')"
  by (rule policy_refines_specification [OF demo_engine_new])

lemma assertAllowed_Inr:
  assumes "newPolicyEngine env config = Inr engine" and "snd (assertAllowed env engine ctx) = Inr d"
  shows "d = evaluate env engine ctx" and "px_mode ctx = Some Enforce \<Longrightarrow> permitted env config ctx"
  using assms policy_refines [OF assms(1), of ctx] evaluate_mode [of env engine ctx]
  by (auto simp: assertAllowed_def Let_def split: if_splits option.splits)

text \<open>
  \<open>assertAllowed\<close> throws exactly when the specification does not permit the request and the
  mode in force is enforce; what it throws is a non-recoverable policy error, and the observer
  is told of the decision once, thrown or not.
\<close>

theorem assertAllowed_enforces:
  assumes "newPolicyEngine env config = Inr engine"
  shows "fst (assertAllowed env engine ctx) = [(evaluate env engine ctx, ctx)] \<and>
    (if \<not> permitted env config ctx \<and>
        (case px_mode ctx of Some m \<Rightarrow> m | None \<Rightarrow> pc_mode config) = Enforce
     then \<exists>err. snd (assertAllowed env engine ctx) = Inl err \<and> err_code err = EPOLICY \<and> \<not> err_recoverable err
     else snd (assertAllowed env engine ctx) = Inr (evaluate env engine ctx))"
  using policy_refines [OF assms, of ctx] evaluate_mode [of env engine ctx]
    newPolicyEngine_Inr(1) [OF assms]
  by (auto simp: assertAllowed_def Let_def)

theorem assertAllowed_enforces_witness:
  "fst (assertAllowed demo_env demo_engine (demo_context FsRead ''/etc/passwd'')) =
      [(evaluate demo_env demo_engine (demo_context FsRead ''/etc/passwd''), demo_context FsRead ''/etc/passwd'')] \<and>
   (if \<not> permitted demo_env demo_config (demo_context FsRead ''/etc/passwd'') \<and>
       (case px_mode (demo_context FsRead ''/etc/passwd'') of Some m \<Rightarrow> m | None \<Rightarrow> pc_mode demo_config) = Enforce
    then \<exists>err. snd (assertAllowed demo_env demo_engine (demo_context FsRead ''/etc/passwd'')) = Inl err \<and>
           err_code err = EPOLICY \<and> \<not> err_recoverable err
    else snd (assertAllowed demo_env demo_engine (demo_context FsRead ''/etc/passwd'')) =
           Inr (evaluate demo_env demo_engine (demo_context FsRead ''/etc/passwd'')))"
  by (rule assertAllowed_enforces [OF demo_engine_new])

text \<open>
  C32: a deny prefix cannot be escaped by spelling. A remote request for a path whose segments,
  after backslashes, dots, repeated slashes and parent steps are resolved, extend those of a deny
  prefix is refused, whatever the other settings are.
\<close>

theorem deny_prefix_wins:
  assumes "newPolicyEngine env config = Inr engine"
    and "deny \<in> set (pc_pathDenyPrefixes config)" and "p \<in> set (context_paths ctx)"
    and "px_action ctx \<notin> set LOCAL_TRANSFER_ACTIONS"
    and "canonical_segments p = canonical_segments deny @ rest"
  shows "\<not> pd_allowed (evaluate env engine ctx)"
proof -
  have "under_any (pc_pathDenyPrefixes config) p"
    using assms(2,5) unfolding under_any_def prefix_def by blast
  then have "\<not> permitted env config ctx"
    using assms(3,4) by (auto simp: permitted_def remote_permitted_def)
  with policy_refines [OF assms(1)] show ?thesis by blast
qed

theorem deny_prefix_wins_witness:
  "\<not> pd_allowed (evaluate demo_env demo_engine (demo_context FsStat ''/tmp/x/..//../etc/./shadow''))"
  by (rule deny_prefix_wins [OF demo_engine_new, where deny = "''/var/../etc/''"
        and p = "''/tmp/x/..//../etc/./shadow''" and rest = "[''shadow'']"])
    (code_simp, code_simp, code_simp, code_simp)

text \<open>
  Normalisation of a remote path rejects NUL bytes and otherwise yields an absolute path made
  of proper segments (none empty, dot, dot-dot or holding a slash or backslash), and applying it
  again changes nothing.
\<close>

theorem normalizeRemotePosixPath_normal_form:
  "(NUL \<in> set p \<longrightarrow> normalizeRemotePosixPath p = Inl NulByte) \<and>
   (NUL \<notin> set p \<longrightarrow>
      (\<exists>segs. normalizeRemotePosixPath p = Inr (render_path segs) \<and>
         (\<forall>s \<in> set segs. proper_segment s \<and> BSLASH \<notin> set s) \<and>
         normalizeRemotePosixPath (render_path segs) = Inr (render_path segs)))"
proof -
  let ?segs = "canonical_segments p"
  have "NUL \<notin> set (render_path ?segs)" if "NUL \<notin> set p"
  proof -
    let ?q = "replace_char BSLASH [SLASH] p"
    have q: "NUL \<notin> set ?q" using that by (auto simp: replace_char_def)
    have "set ?segs \<subseteq> set [] \<union> set (path_segments ?q)"
      unfolding canonical_segments_def
      by (rule normalize_segments_subset) (simp, use path_segments_no_slash in blast)
    then have "NUL \<notin> set s" if "s \<in> set ?segs" for s
      using q that split_on_chars [of s _ ?q] by (auto simp: path_segments_def)
    then show ?thesis
      using set_join [of "[SLASH]" ?segs] by (auto simp: render_path_def)
  qed
  then show ?thesis
    using canonical_segments_proper canonical_segments_no_backslash
    by (auto simp: normalizeRemotePosixPath_canonical canonical_segments_render intro!: exI [of _ ?segs])
qed

theorem normalizeRemotePosixPath_normal_form_witness:
  "\<exists>segs. normalizeRemotePosixPath ''/a/../b'' = Inr (render_path segs) \<and>
     normalizeRemotePosixPath (render_path segs) = Inr (render_path segs)"
proof -
  have "NUL \<notin> set ''/a/../b''" by simp
  then show ?thesis using normalizeRemotePosixPath_normal_form [of "''/a/../b''"] by blast
qed

lemma parse_port_digits:
  assumes "\<forall>c \<in> set a. is_digit c" and "\<forall>c \<in> set b. is_digit c"
  shows "parsePortRange (a @ CHR ''-'' # b) =
     (if port_digits a \<and> port_digits b \<and> num_of_digits b \<le> 65535 \<and> num_of_digits a \<le> num_of_digits b
      then Some (int (num_of_digits a), int (num_of_digits b)) else None)"
proof -
  have "\<not> is_ws CHR ''-''" by (simp add: is_ws_def)
  with assms have "\<forall>c \<in> set (a @ CHR ''-'' # b). \<not> is_ws c" by (auto dest: is_digit_not_ws)
  then have "trim (a @ CHR ''-'' # b) = a @ CHR ''-'' # b" by (rule trim_no_ws)
  moreover have "\<not> is_digit CHR ''-''" by (simp add: is_digit_def char_between_def)
  then have "takeWhile is_digit (a @ CHR ''-'' # b) = a" "dropWhile is_digit (a @ CHR ''-'' # b) = CHR ''-'' # b"
    using assms(1) by (simp_all add: takeWhile_append2 dropWhile_append2)
  ultimately show ?thesis by (auto simp: parsePortRange_def Let_def)
qed

text \<open>
  A port policy written as one number or as two numbers joined by a dash reads back as that
  range when it is in order and within the 16-bit ports, and is ignored otherwise.
\<close>

theorem port_range_roundtrip:
  "parsePortRange (show_nat a @ ''-'' @ show_nat b) =
     (if a \<le> b \<and> b \<le> 65535 then Some (int a, int b) else None)"
proof -
  have digits: "\<forall>c \<in> set (show_nat n). is_digit c" for n by (auto dest: show_nat_digits)
  have small: "port_digits (show_nat n)" if "n \<le> 65535" for n
  proof -
    have "length (show_nat n) \<le> Suc 4" by (rule length_show_nat) (use that in simp)
    moreover have "length (show_nat n) \<noteq> 0" by simp
    ultimately show ?thesis using digits by (simp add: port_digits_def list_all_iff Suc_le_eq)
  qed
  show ?thesis
    using parse_port_digits [OF digits digits, of a b] small by auto
qed

lemma checkRemotePaths_cong:
  "px_action ctx' = px_action ctx \<Longrightarrow> px_destructive ctx' = px_destructive ctx \<Longrightarrow>
   checkRemotePaths engine ctx' m ps = (checkRemotePaths engine ctx m' ps)\<lparr>pd_mode := m\<rparr>"
  by (induction ps) (auto simp: denied_def allowed_def Let_def split: sum.splits)

lemma checkLocalPaths_cong:
  "px_action ctx' = px_action ctx \<Longrightarrow>
   checkLocalPaths env engine ctx' m ps = (checkLocalPaths env engine ctx m' ps)\<lparr>pd_mode := m\<rparr>"
  by (induction ps) (auto simp: denied_def allowed_def Let_def split: sum.splits)

lemma check_ports_cong:
  "px_action ctx' = px_action ctx \<Longrightarrow>
   check_ports config ctx' m ps = map_option (pd_mode_update (\<lambda>_. m)) (check_ports config ctx m' ps)"
  by (induction ps) (auto simp: denied_def)

definition with_mode :: "policy_mode \<Rightarrow> policy_context \<Rightarrow> policy_context" where
  "with_mode m ctx = ctx\<lparr>px_mode := Some m\<rparr>"

lemma checks_with_mode:
  "checkHost env config (with_mode m ctx) m = map_option (pd_mode_update (\<lambda>_. m)) (checkHost env config ctx m')"
  "checkTunnelPolicy env config (with_mode m ctx) m = map_option (pd_mode_update (\<lambda>_. m)) (checkTunnelPolicy env config ctx m')"
  "checkCommandPolicy env config (with_mode m ctx) m = map_option (pd_mode_update (\<lambda>_. m)) (checkCommandPolicy env config ctx m')"
  "checkPathPolicy env engine (with_mode m ctx) m = (checkPathPolicy env engine ctx m')\<lparr>pd_mode := m\<rparr>"
proof -
  have paths: "context_paths (with_mode m ctx) = context_paths ctx"
    and ports: "tunnel_ports (with_mode m ctx) = tunnel_ports ctx"
    by (simp_all add: context_paths_def tunnel_ports_def with_mode_def)
  show "checkHost env config (with_mode m ctx) m = map_option (pd_mode_update (\<lambda>_. m)) (checkHost env config ctx m')"
    by (simp add: checkHost_def with_mode_def denied_def Let_def)
  have "checkTunnelBindHost env config (with_mode m ctx) m = map_option (pd_mode_update (\<lambda>_. m)) (checkTunnelBindHost env config ctx m')"
    "checkTunnelRemoteHost env config (with_mode m ctx) m = map_option (pd_mode_update (\<lambda>_. m)) (checkTunnelRemoteHost env config ctx m')"
    "checkTunnelPorts config (with_mode m ctx) m = map_option (pd_mode_update (\<lambda>_. m)) (checkTunnelPorts config ctx m')"
    unfolding checkTunnelPorts_def ports
    by (simp_all add: checkTunnelBindHost_def checkTunnelRemoteHost_def denied_def Let_def with_mode_def
        check_ports_cong [of "with_mode m ctx" ctx _ _ _ m', unfolded with_mode_def])
  then show "checkTunnelPolicy env config (with_mode m ctx) m = map_option (pd_mode_update (\<lambda>_. m)) (checkTunnelPolicy env config ctx m')"
    by (simp add: checkTunnelPolicy_def with_mode_def split: option.split)
  show "checkCommandPolicy env config (with_mode m ctx) m = map_option (pd_mode_update (\<lambda>_. m)) (checkCommandPolicy env config ctx m')"
    by (simp add: checkCommandPolicy_def with_mode_def denied_def Let_def)
  show "checkPathPolicy env engine (with_mode m ctx) m = (checkPathPolicy env engine ctx m')\<lparr>pd_mode := m\<rparr>"
    unfolding checkPathPolicy_def paths
    using checkRemotePaths_cong [of "with_mode m ctx" ctx engine m _ m']
      checkLocalPaths_cong [of "with_mode m ctx" ctx env engine m _ m']
    by (simp add: with_mode_def)
qed

text \<open>
  Explain mode changes nothing but the mode: the decision, its reason, hint and risk level are
  those of the same request in any other mode.
\<close>

theorem explain_agrees_with_evaluate:
  "policy_explain env engine ctx =
     ([((evaluate env engine ctx)\<lparr>pd_mode := Explain\<rparr>, with_mode Explain ctx)],
      (evaluate env engine ctx)\<lparr>pd_mode := Explain\<rparr>)"
proof -
  define m where "m = (case px_mode ctx of Some m \<Rightarrow> m | None \<Rightarrow> pc_mode (pe_config engine))"
  note sim = checks_with_mode(1-3) [of env "pe_config engine" Explain ctx m]
    checks_with_mode(4) [of env engine Explain ctx m]
  have "evaluate env engine (with_mode Explain ctx) = (evaluate env engine ctx)\<lparr>pd_mode := Explain\<rparr>"
    unfolding evaluate_def Let_def m_def [symmetric]
    by (simp add: sim [unfolded with_mode_def] with_mode_def denied_def split: option.split)
  then show ?thesis by (simp add: policy_explain_def with_mode_def Let_def)
qed

text \<open>
  Contrary to the header of \<open>src/safety.ts\<close>, the safety table does block: a command that no
  pattern list concerns but that the table matches is refused in enforce mode unless
  destructive commands are enabled.
\<close>

theorem unsafe_command_is_blocked:
  assumes "newPolicyEngine env config = Inr engine"
    and "px_command ctx = Some command" and "\<not> sc_safe (checkCommandSafety command)"
    and "\<not> pc_allowDestructiveCommands config"
  shows "\<not> pd_allowed (evaluate env engine ctx)"
proof -
  have "command \<noteq> []" using assms(3) by (auto simp: checkCommandSafety_def safe_result_def)
  then have "\<not> command_permitted env config ctx" using assms(2-4) by (simp add: command_permitted_def)
  then show ?thesis using policy_refines [OF assms(1)] by (simp add: permitted_def)
qed

theorem unsafe_command_is_blocked_witness:
  "\<not> pd_allowed (evaluate demo_env demo_engine ((demo_context ProcExec ''/tmp'')\<lparr>px_command := Some ''ufw disable''\<rparr>))"
  by (rule unsafe_command_is_blocked [OF demo_engine_new, where command = "''ufw disable''"])
    (simp add: demo_context_def, code_simp, simp add: demo_config_def)

end
