(* ===== verification/RateLimiter.thy ===== *)
theory RateLimiter
  imports Prelude
begin

section \<open>The sliding-window rate limiter: \<open>src/rate-limiter.ts\<close>\<close>

text \<open>
  The limiter keeps, for each key, the times of the requests it counted. \<open>Date.now()\<close> is the
  argument \<open>now\<close> of each operation; times are whole milliseconds. \<open>rl_timer\<close> says whether the
  interval that runs \<open>pruneExpiredLogs\<close> is armed.
\<close>

record rate_limiter_config =
  rlc_maxRequests :: int
  rlc_windowMs :: int
  rlc_blockOnLimit :: bool

record rate_limit_result =
  rr_allowed :: bool
  rr_remaining :: int
  rr_resetIn :: int
  rr_blocked :: bool

record rate_limit_options =
  ro_maxRequests :: "int option"
  ro_windowMs :: "int option"

record rate_usage =
  ru_count :: int
  ru_remaining :: int
  ru_resetIn :: int

record rate_limiter =
  rl_logs :: "(string, int list) jsmap"
  rl_keyWindowMs :: "(string, int) jsmap"
  rl_config :: rate_limiter_config
  rl_timer :: bool
  rl_destroyed :: bool

definition or_default :: "'a option \<Rightarrow> 'a \<Rightarrow> 'a" where
  "or_default v d = (case v of None \<Rightarrow> d | Some x \<Rightarrow> x)"

lemma or_default_simps [simp]: "or_default None d = d" "or_default (Some x) d = x"
  by (simp_all add: or_default_def)

definition newRateLimiter :: "int option \<Rightarrow> int option \<Rightarrow> bool option \<Rightarrow> rate_limiter" where
  "newRateLimiter maxRequests windowMs blockOnLimit =
     \<lparr> rl_logs = [], rl_keyWindowMs = [],
       rl_config = \<lparr> rlc_maxRequests = or_default maxRequests 100, rlc_windowMs = or_default windowMs 60000,
                    rlc_blockOnLimit = or_default blockOnLimit True \<rparr>,
       rl_timer = True, rl_destroyed = False \<rparr>"

definition rl_check ::
    "int \<Rightarrow> string \<Rightarrow> rate_limit_options \<Rightarrow> rate_limiter \<Rightarrow> rate_limit_result \<times> rate_limiter" where
  "rl_check now key options st =
     (if rl_destroyed st then
        (\<lparr> rr_allowed = False, rr_remaining = 0, rr_resetIn = 0, rr_blocked = True \<rparr>, st)
      else
        let maxRequests = or_default (ro_maxRequests options) (rlc_maxRequests (rl_config st));
            windowMs = or_default (ro_windowMs options) (rlc_windowMs (rl_config st));
            cutoff = now - windowMs;
            log0 = or_default (map_get (rl_logs st) key) [];
            log = dropWhile (\<lambda>t. t \<le> cutoff) log0;
            st' = st\<lparr> rl_keyWindowMs := map_set key windowMs (rl_keyWindowMs st),
                      rl_logs := map_set key log (rl_logs st) \<rparr>;
            count = int (length log)
        in if count \<ge> maxRequests then
             let oldestInWindow = (case log of [] \<Rightarrow> now | t # _ \<Rightarrow> t);
                 resetIn = oldestInWindow + windowMs - now
             in (\<lparr> rr_allowed = \<not> rlc_blockOnLimit (rl_config st), rr_remaining = 0, rr_resetIn = resetIn,
                   rr_blocked = rlc_blockOnLimit (rl_config st) \<rparr>, st')
           else
             let log' = log @ [now]
             in (\<lparr> rr_allowed = True, rr_remaining = max 0 (maxRequests - int (length log')),
                   rr_resetIn = windowMs, rr_blocked = False \<rparr>,
                 st'\<lparr> rl_logs := map_set key log' (rl_logs st') \<rparr>))"

definition rl_reset :: "string \<Rightarrow> rate_limiter \<Rightarrow> rate_limiter" where
  "rl_reset key st =
     st\<lparr> rl_logs := map_delete key (rl_logs st), rl_keyWindowMs := map_delete key (rl_keyWindowMs st) \<rparr>"

definition getUsage :: "int \<Rightarrow> string \<Rightarrow> rate_limit_options \<Rightarrow> rate_limiter \<Rightarrow> rate_usage option" where
  "getUsage now key options st =
     (let maxRequests = or_default (ro_maxRequests options) (rlc_maxRequests (rl_config st));
          windowMs = or_default (ro_windowMs options)
                       (or_default (map_get (rl_keyWindowMs st) key) (rlc_windowMs (rl_config st)));
          cutoff = now - windowMs
      in case map_get (rl_logs st) key of
           None \<Rightarrow> None
         | Some log \<Rightarrow>
             (case filter (\<lambda>t. cutoff < t) log of
                [] \<Rightarrow> None
              | oldest # rest \<Rightarrow>
                  Some \<lparr> ru_count = int (length (oldest # rest)),
                         ru_remaining = max 0 (maxRequests - int (length (oldest # rest))),
                         ru_resetIn = oldest + windowMs - now \<rparr>))"

text \<open>The loop of \<open>pruneExpiredLogs\<close> runs over the entries present when it starts.\<close>

fun prune_entries :: "int \<Rightarrow> (string \<times> int list) list \<Rightarrow> rate_limiter \<Rightarrow> rate_limiter" where
  "prune_entries now [] st = st"
| "prune_entries now ((key, log) # rest) st =
     (let windowMs = or_default (map_get (rl_keyWindowMs st) key) (rlc_windowMs (rl_config st));
          activeLog = filter (\<lambda>t. now - windowMs < t) log
      in prune_entries now rest
           (if activeLog = [] then
              st\<lparr> rl_logs := map_delete key (rl_logs st), rl_keyWindowMs := map_delete key (rl_keyWindowMs st) \<rparr>
            else st\<lparr> rl_logs := map_set key activeLog (rl_logs st) \<rparr>))"

definition pruneExpiredLogs :: "int \<Rightarrow> rate_limiter \<Rightarrow> rate_limiter" where
  "pruneExpiredLogs now st = prune_entries now (rl_logs st) st"

definition rl_destroy :: "rate_limiter \<Rightarrow> rate_limiter" where
  "rl_destroy st = st\<lparr> rl_timer := False, rl_logs := [], rl_keyWindowMs := [], rl_destroyed := True \<rparr>"

subsection \<open>Runs\<close>

text \<open>
  A run of one limiter: checks of any key at given times, ticks of the cleanup timer and resets of keys. Each
  key is checked with its own fixed options, as the server does; \<open>accepted\<close> collects the times
  at which a key's checks were allowed.
\<close>

datatype rl_event = RlCheck int string | RlPrune int | RlReset int string

fun event_time :: "rl_event \<Rightarrow> int" where
  "event_time (RlCheck t k) = t"
| "event_time (RlPrune t) = t"
| "event_time (RlReset t k) = t"

fun rl_run :: "(string \<Rightarrow> rate_limit_options) \<Rightarrow> rl_event list \<Rightarrow> rate_limiter \<Rightarrow> rate_limiter" where
  "rl_run opts [] st = st"
| "rl_run opts (RlCheck t k # es) st = rl_run opts es (snd (rl_check t k (opts k) st))"
| "rl_run opts (RlPrune t # es) st = rl_run opts es (pruneExpiredLogs t st)"
| "rl_run opts (RlReset t k # es) st = rl_run opts es (rl_reset k st)"

fun accepted :: "(string \<Rightarrow> rate_limit_options) \<Rightarrow> string \<Rightarrow> rl_event list \<Rightarrow> rate_limiter \<Rightarrow> int list" where
  "accepted opts key [] st = []"
| "accepted opts key (RlCheck t k # es) st =
     (let (r, st') = rl_check t k (opts k) st
      in (if k = key \<and> rr_allowed r then [t] else []) @ accepted opts key es st')"
| "accepted opts key (RlPrune t # es) st = accepted opts key es (pruneExpiredLogs t st)"
| "accepted opts key (RlReset t k # es) st = accepted opts key es (rl_reset k st)"

definition window_of :: "(string \<Rightarrow> rate_limit_options) \<Rightarrow> rate_limiter \<Rightarrow> string \<Rightarrow> int" where
  "window_of opts st key = or_default (ro_windowMs (opts key)) (rlc_windowMs (rl_config st))"

definition limit_of :: "(string \<Rightarrow> rate_limit_options) \<Rightarrow> rate_limiter \<Rightarrow> string \<Rightarrow> int" where
  "limit_of opts st key = or_default (ro_maxRequests (opts key)) (rlc_maxRequests (rl_config st))"

definition log_of :: "rate_limiter \<Rightarrow> string \<Rightarrow> int list" where
  "log_of st key = or_default (map_get (rl_logs st) key) []"

subsection \<open>The log against the history\<close>

text \<open>
  The invariant ties the stored log of a key to its history \<open>hist\<close> of accepted times: the part
  of both inside the window that ends now is the same, the history is in order, and no window
  holds more than the limit. Every stored window length is the key's own.
\<close>

definition in_window :: "int \<Rightarrow> int \<Rightarrow> int list \<Rightarrow> int list" where
  "in_window w t xs = filter (\<lambda>x. t - w < x \<and> x \<le> t) xs"

definition limiter_ok :: "(string \<Rightarrow> rate_limit_options) \<Rightarrow> rate_limiter \<Rightarrow> bool" where
  "limiter_ok opts st \<longleftrightarrow>
     \<not> rl_destroyed st \<and> rlc_blockOnLimit (rl_config st) \<and> jsmap_ok (rl_logs st) \<and>
     (\<forall>k. map_get (rl_keyWindowMs st) k \<in> {None, Some (window_of opts st k)}) \<and>
     (\<forall>k. map_get (rl_logs st) k \<noteq> None \<longrightarrow> map_get (rl_keyWindowMs st) k \<noteq> None)"

definition log_inv ::
    "(string \<Rightarrow> rate_limit_options) \<Rightarrow> string \<Rightarrow> int \<Rightarrow> int list \<Rightarrow> rate_limiter \<Rightarrow> bool" where
  "log_inv opts key now hist st \<longleftrightarrow>
     limiter_ok opts st \<and> sorted hist \<and> sorted (log_of st key) \<and>
     (\<forall>x \<in> set hist. x \<le> now) \<and> (\<forall>x \<in> set (log_of st key). x \<le> now) \<and>
     filter (\<lambda>x. now - window_of opts st key < x) (log_of st key) =
       filter (\<lambda>x. now - window_of opts st key < x) hist \<and>
     (\<forall>t. int (length (in_window (window_of opts st key) t hist)) \<le> max 0 (limit_of opts st key))"

lemma sorted_dropWhile_filter:
  "sorted xs \<Longrightarrow> dropWhile (\<lambda>t. t \<le> (c::int)) xs = filter (\<lambda>t. c < t) xs"
proof (induction xs)
  case (Cons x xs)
  show ?case
  proof (cases "x \<le> c")
    case False
    with Cons.prems have "filter (\<lambda>t. c < t) xs = xs" by (intro filter_True) auto
    with False show ?thesis by simp
  qed (use Cons in simp)
qed simp

lemma filter_later:
  fixes xs :: "int list"
  assumes "filter (\<lambda>x. c < x) xs = filter (\<lambda>x. c < x) ys" and "c \<le> c'"
  shows "filter (\<lambda>x. c' < x) xs = filter (\<lambda>x. c' < x) ys"
proof -
  have "filter (\<lambda>x. c' < x) zs = filter (\<lambda>x. c' < x) (filter (\<lambda>x. c < x) zs)" for zs :: "int list"
    using assms(2) by (auto intro: filter_cong)
  with assms(1) show ?thesis by metis
qed

lemma window_config:
  "rl_config st = rl_config st' \<Longrightarrow> window_of opts st k = window_of opts st' k"
  "rl_config st = rl_config st' \<Longrightarrow> limit_of opts st k = limit_of opts st' k"
  by (simp_all add: window_of_def limit_of_def)

lemma window_simps [simp]:
  "window_of opts (st\<lparr>rl_logs := l\<rparr>) k = window_of opts st k"
  "limit_of opts (st\<lparr>rl_logs := l\<rparr>) k = limit_of opts st k"
  "window_of opts (st\<lparr>rl_keyWindowMs := m\<rparr>) k = window_of opts st k"
  "limit_of opts (st\<lparr>rl_keyWindowMs := m\<rparr>) k = limit_of opts st k"
  by (simp_all add: window_of_def limit_of_def)

lemma log_inv_later:
  assumes "log_inv opts key now hist st" and "now \<le> now'"
  shows "log_inv opts key now' hist st"
proof -
  have "filter (\<lambda>x. now' - window_of opts st key < x) (log_of st key) =
      filter (\<lambda>x. now' - window_of opts st key < x) hist"
    by (rule filter_later [of "now - window_of opts st key"]) (use assms in \<open>simp_all add: log_inv_def\<close>)
  with assms show ?thesis unfolding log_inv_def by force
qed

lemma limiter_ok_check:
  assumes "limiter_ok opts st"
  shows "limiter_ok opts (snd (rl_check now k (opts k) st))"
  using assms unfolding limiter_ok_def
  by (auto simp: rl_check_def Let_def jsmap_simps window_of_def)

lemma limiter_ok_prune_one:
  assumes "limiter_ok opts st" and "map_get (rl_logs st) k = Some l"
  shows "limiter_ok opts (prune_entries now [(k, l)] st)"
  using assms unfolding limiter_ok_def by (auto simp: Let_def jsmap_simps)

lemma log_of_simps [simp]:
  "log_of (st\<lparr>rl_keyWindowMs := m\<rparr>) k = log_of st k"
  "log_of (st\<lparr>rl_logs := map_set k' l (rl_logs st)\<rparr>) k = (if k = k' then l else log_of st k)"
  "log_of (st\<lparr>rl_logs := map_delete k' (rl_logs st)\<rparr>) k = (if k = k' then [] else log_of st k)"
  by (simp_all add: log_of_def jsmap_simps)

lemma check_config: "rl_config (snd (rl_check now k opt st)) = rl_config st"
  by (simp add: rl_check_def Let_def)

lemma in_window_snoc:
  assumes "\<forall>t. int (length (in_window w t hist)) \<le> max 0 m"
    and "int (length (filter (\<lambda>x. now - w < x) hist)) < m"
  shows "int (length (in_window w t (hist @ [now]))) \<le> max 0 m"
proof (cases "t - w < now \<and> now \<le> t")
  case True
  then have sub: "in_window w t hist = filter (\<lambda>x. t - w < x \<and> x \<le> t) (filter (\<lambda>x. now - w < x) hist)"
    by (auto simp: in_window_def intro: filter_cong)
  have "length (in_window w t hist) \<le> length (filter (\<lambda>x. now - w < x) hist)"
    unfolding sub by (rule length_filter_le)
  with assms(2) True show ?thesis by (simp add: in_window_def)
next
  case False
  then have "in_window w t (hist @ [now]) = in_window w t hist" by (auto simp: in_window_def)
  with assms(1) show ?thesis by simp
qed

lemma log_inv_check:
  assumes inv: "log_inv opts key now hist st" and le: "now \<le> now'"
  shows "log_inv opts key now'
     (hist @ (if k = key \<and> rr_allowed (fst (rl_check now' k (opts k) st)) then [now'] else []))
     (snd (rl_check now' k (opts k) st))"
proof -
  let ?w = "window_of opts st key" and ?m = "limit_of opts st key"
  from log_inv_later [OF inv le] have I: "log_inv opts key now' hist st" .
  define log where "log = dropWhile (\<lambda>t. t \<le> now' - window_of opts st k) (log_of st k)"
  define full where "full \<longleftrightarrow> limit_of opts st k \<le> int (length log)"
  define st1 where "st1 = st\<lparr> rl_keyWindowMs := map_set k (window_of opts st k) (rl_keyWindowMs st),
      rl_logs := map_set k log (rl_logs st) \<rparr>"
  have step: "snd (rl_check now' k (opts k) st) =
        (if full then st1 else st1\<lparr> rl_logs := map_set k (log @ [now']) (rl_logs st1) \<rparr>)"
      "rr_allowed (fst (rl_check now' k (opts k) st)) \<longleftrightarrow> \<not> full"
    using I by (auto simp: rl_check_def log_inv_def limiter_ok_def Let_def log_def full_def st1_def log_of_def
        window_of_def limit_of_def)
  let ?st' = "snd (rl_check now' k (opts k) st)"
  have ok: "limiter_ok opts ?st'" using I by (simp add: log_inv_def limiter_ok_check)
  have win: "window_of opts ?st' key = ?w" "limit_of opts ?st' key = ?m"
    by (rule window_config [OF check_config])+
  show ?thesis
  proof (cases "k = key")
    case False
    then have "log_of ?st' key = log_of st key" by (simp add: step st1_def log_of_def jsmap_simps)
    with I False show ?thesis
      using ok win by (simp add: log_inv_def)
  next
    case True
    have "log = filter (\<lambda>t. now' - ?w < t) (log_of st key)"
      using I True by (simp add: log_def log_inv_def sorted_dropWhile_filter)
    then have log: "log = filter (\<lambda>t. now' - ?w < t) hist" using I by (simp add: log_inv_def)
    show ?thesis
    proof (cases full)
      case full: True
      then have "log_of ?st' key = log"
        using True unfolding step(1) by (simp add: st1_def log_of_def jsmap_simps)
      moreover have "\<not> rr_allowed (fst (rl_check now' key (opts key) st))"
        using full step(2) True by simp
      ultimately show ?thesis
        using I True log ok win by (auto simp: log_inv_def sorted_wrt_filter)
    next
      case nfull: False
      then have lg: "log_of ?st' key = log @ [now']"
        using True unfolding step(1) by (simp add: st1_def log_of_def jsmap_simps)
      have "int (length (filter (\<lambda>x. now' - ?w < x) hist)) < ?m"
        using nfull True log by (simp add: full_def)
      then have bound: "\<forall>t. int (length (in_window ?w t (hist @ [now']))) \<le> max 0 ?m"
        using in_window_snoc [of ?w hist ?m now'] I by (simp add: log_inv_def)
      have "sorted log" "\<forall>x \<in> set log. x \<le> now'"
        using I log by (simp_all add: log_inv_def sorted_wrt_filter)
      moreover have "filter (\<lambda>x. now' - ?w < x) log = filter (\<lambda>x. now' - ?w < x) hist"
        unfolding log by simp
      moreover have "rr_allowed (fst (rl_check now' key (opts key) st))"
        using nfull step(2) True by simp
      ultimately show ?thesis
        using I True bound lg ok win by (simp add: log_inv_def sorted_append)
    qed
  qed
qed

lemma log_inv_prune_one:
  assumes I: "log_inv opts key now hist st" and l: "map_get (rl_logs st) k = Some l"
  shows "log_inv opts key now hist (prune_entries now [(k, l)] st)"
proof -
  let ?active = "filter (\<lambda>t. now - window_of opts st k < t) l"
  have ok: "limiter_ok opts st" using I by (simp add: log_inv_def)
  then have "map_get (rl_keyWindowMs st) k \<in> {None, Some (window_of opts st k)}"
    and "map_get (rl_keyWindowMs st) k \<noteq> None" using l unfolding limiter_ok_def by auto
  then have kw: "map_get (rl_keyWindowMs st) k = Some (window_of opts st k)" by blast
  let ?st' = "prune_entries now [(k, l)] st"
  have st': "?st' = (if ?active = [] then
       st\<lparr> rl_logs := map_delete k (rl_logs st), rl_keyWindowMs := map_delete k (rl_keyWindowMs st) \<rparr>
     else st\<lparr> rl_logs := map_set k ?active (rl_logs st) \<rparr>)"
    by (simp add: Let_def kw)
  have lk: "log_of st k = l" using l by (simp add: log_of_def)
  have lg: "log_of ?st' key = (if key = k then ?active else log_of st key)"
    unfolding st' by (simp add: log_of_def jsmap_simps)
  have win: "window_of opts ?st' key = window_of opts st key" "limit_of opts ?st' key = limit_of opts st key"
    unfolding st' by simp_all
  show ?thesis
    using I lk limiter_ok_prune_one [OF ok l, of now] unfolding log_inv_def lg win
    by (auto simp: sorted_wrt_filter)
qed

lemma prune_entries_Cons:
  "prune_entries now ((k, l) # es) st = prune_entries now es (prune_entries now [(k, l)] st)"
  by (simp add: Let_def)

lemma prune_one_frame:
  "k' \<noteq> k \<Longrightarrow> map_get (rl_logs (prune_entries now [(k, l)] st)) k' = map_get (rl_logs st) k'"
  by (simp add: Let_def jsmap_simps)

declare prune_entries.simps(2) [simp del]

lemma log_inv_prune_entries:
  assumes "log_inv opts key now hist st" and "distinct (map fst es)"
    and "\<forall>(k, l) \<in> set es. map_get (rl_logs st) k = Some l"
  shows "log_inv opts key now hist (prune_entries now es st)"
  using assms
proof (induction es arbitrary: st)
  case (Cons e es)
  obtain k l where e: "e = (k, l)" by (cases e)
  have "\<forall>(k', l') \<in> set es. map_get (rl_logs (prune_entries now [(k, l)] st)) k' = Some l'"
  proof safe
    fix k' l' assume m: "(k', l') \<in> set es"
    then have "k' \<in> set (map fst es)" by force
    with Cons.prems(2) have "k' \<noteq> k" by (auto simp: e)
    with m Cons.prems(3) show "map_get (rl_logs (prune_entries now [(k, l)] st)) k' = Some l'"
      by (auto simp: prune_one_frame)
  qed
  with Cons show ?case
    unfolding e prune_entries_Cons [of now k l es] by (auto intro!: Cons.IH log_inv_prune_one)
qed simp

lemma log_inv_prune:
  assumes "log_inv opts key now hist st" and "now \<le> now'"
  shows "log_inv opts key now' hist (pruneExpiredLogs now' st)"
proof -
  have I: "log_inv opts key now' hist st" using assms by (rule log_inv_later)
  then have "distinct (map fst (rl_logs st))" by (simp add: log_inv_def limiter_ok_def jsmap_ok_def)
  moreover from this have "\<forall>(k, l) \<in> set (rl_logs st). map_get (rl_logs st) k = Some l" by auto
  ultimately show ?thesis using I unfolding pruneExpiredLogs_def by (intro log_inv_prune_entries)
qed

lemma log_inv_reset:
  assumes "log_inv opts key now hist st" and "now \<le> now'"
  shows "log_inv opts key now' (if k = key then [] else hist) (rl_reset k st)"
proof -
  have I: "log_inv opts key now' hist st" using assms by (rule log_inv_later)
  then have "limiter_ok opts (rl_reset k st)"
    unfolding log_inv_def limiter_ok_def rl_reset_def by (auto simp: jsmap_simps)
  moreover have "log_of (rl_reset k st) key = (if key = k then [] else log_of st key)"
    by (simp add: rl_reset_def log_of_def jsmap_simps)
  moreover have "window_of opts (rl_reset k st) key = window_of opts st key" "limit_of opts (rl_reset k st) key = limit_of opts st key"
    by (simp_all add: rl_reset_def)
  ultimately show ?thesis using I by (auto simp: log_inv_def in_window_def)
qed

text \<open>The history of a key since its last reset.\<close>

fun since_reset :: "(string \<Rightarrow> rate_limit_options) \<Rightarrow> string \<Rightarrow> int list \<Rightarrow> rl_event list \<Rightarrow> rate_limiter \<Rightarrow> int list" where
  "since_reset opts key hist [] st = hist"
| "since_reset opts key hist (e # es) st =
     since_reset opts key (case e of RlReset t k \<Rightarrow> if k = key then [] else hist | _ \<Rightarrow> hist @ accepted opts key [e] st) es
       (rl_run opts [e] st)"


lemma log_inv_run:
  assumes "log_inv opts key now hist st" and "sorted (now # map event_time es)"
  shows "log_inv opts key (last (now # map event_time es)) (since_reset opts key hist es st) (rl_run opts es st)"
  using assms
proof (induction es arbitrary: now hist st)
  case (Cons e es)
  let ?hist = "case e of RlReset t k \<Rightarrow> if k = key then [] else hist | _ \<Rightarrow> hist @ accepted opts key [e] st"
  from Cons.prems have le: "now \<le> event_time e" and so: "sorted (event_time e # map event_time es)" by auto
  have "log_inv opts key (event_time e) ?hist (rl_run opts [e] st)"
  proof (cases e)
    case (RlCheck t k)
    then show ?thesis using log_inv_check [OF Cons.prems(1), of t k] le by (simp add: case_prod_unfold Let_def)
  next
    case (RlPrune t)
    then show ?thesis using log_inv_prune [OF Cons.prems(1)] le by simp
  next
    case (RlReset t k)
    then show ?thesis using log_inv_reset [OF Cons.prems(1), of t k] le by simp
  qed
  from Cons.IH [OF this so] have "log_inv opts key (last (event_time e # map event_time es))
      (since_reset opts key ?hist es (rl_run opts [e] st)) (rl_run opts es (rl_run opts [e] st))" .
  moreover have "rl_run opts es (rl_run opts [e] st) = rl_run opts (e # es) st" by (cases e) simp_all
  ultimately show ?case by simp
qed simp

lemma log_inv_new: "log_inv opts key now [] (newRateLimiter m w (Some True))"
  by (simp add: log_inv_def limiter_ok_def newRateLimiter_def log_of_def in_window_def)

subsection \<open>Properties\<close>

lemma log_inv_reached:
  assumes "sorted (map event_time es)"
  shows "\<exists>now. log_inv opts key now (since_reset opts key [] es (newRateLimiter m w (Some True)))
      (rl_run opts es (newRateLimiter m w (Some True))) \<and> (\<forall>e \<in> set es. event_time e \<le> now) \<and>
      (es \<noteq> [] \<longrightarrow> now = event_time (last es))"
proof (cases es)
  case Nil
  then show ?thesis using log_inv_new by auto
next
  case (Cons e es')
  then have so: "sorted (event_time e # map event_time es)" using assms by auto
  have last: "last (event_time e # map event_time es) = event_time (last es)"
    using Cons by (simp add: last_map)
  have "es \<noteq> []" using Cons by simp
  then obtain ys y where "es = ys @ [y]" by (metis append_butlast_last_id)
  then have "\<forall>e' \<in> set es. event_time e' \<le> event_time (last es)"
    using assms by (auto simp: sorted_append)
  with log_inv_run [OF log_inv_new so] last show ?thesis by fastforce
qed


text \<open>Options for the witnesses: one request in ten milliseconds.\<close>

definition demo_opts :: "string \<Rightarrow> rate_limit_options" where
  "demo_opts = (\<lambda>_. \<lparr>ro_maxRequests = Some 1, ro_windowMs = Some 10\<rparr>)"











text \<open>
  The \<open>resetIn\<close> of a refused request is exact. If nothing else happens to the limiter, a
  later request for the key is accepted from that many milliseconds on and refused before, and
  the wait is positive and at most the window.
\<close>

theorem reset_hint_exact:
  assumes "sorted (map event_time es)" and "\<forall>e \<in> set es. event_time e \<le> now"
    and "st = rl_run opts es (newRateLimiter m w (Some True))"
    and "1 \<le> limit_of opts st key"
    and "rl_check now key (opts key) st = (r, st')" and "\<not> rr_allowed r" and "now \<le> t"
  shows "(rr_allowed (fst (rl_check t key (opts key) st')) \<longleftrightarrow> now + rr_resetIn r \<le> t) \<and>
     0 < rr_resetIn r \<and> rr_resetIn r \<le> window_of opts st key"
proof -
  let ?w = "window_of opts st key" and ?m = "limit_of opts st key"
  define hist where "hist = since_reset opts key [] es (newRateLimiter m w (Some True))"
  obtain n where n: "log_inv opts key n hist st" "es \<noteq> [] \<Longrightarrow> n = event_time (last es)"
    using log_inv_reached [OF assms(1)] unfolding hist_def assms(3) by blast
  have inv: "log_inv opts key now hist st"
  proof (cases "es = []")
    case True
    then show ?thesis using log_inv_new unfolding hist_def assms(3) by simp
  next
    case False
    then show ?thesis using log_inv_later [OF n(1)] n(2) assms(2) by simp
  qed
  define log where "log = dropWhile (\<lambda>t. t \<le> now - ?w) (log_of st key)"
  have ok: "\<not> rl_destroyed st" "rlc_blockOnLimit (rl_config st)"
    using inv by (simp_all add: log_inv_def limiter_ok_def)
  have log: "log = filter (\<lambda>t. now - ?w < t) hist"
    using inv by (simp add: log_def log_inv_def sorted_dropWhile_filter)
  have full: "?m \<le> int (length log)"
    using assms(5,6) ok by (auto simp: rl_check_def Let_def log_def log_of_def window_of_def limit_of_def
        split: if_splits)
  have "in_window ?w now hist = log"
    using inv unfolding in_window_def log by (intro filter_cong) (auto simp: log_inv_def)
  moreover have "int (length (in_window ?w now hist)) \<le> max 0 ?m" using inv by (simp add: log_inv_def)
  ultimately have len: "int (length log) = ?m" using full assms(4) by simp
  then obtain x xs where x: "log = x # xs" using assms(4) by (cases log) auto
  have rx: "now - ?w < x" "x \<le> now"
    using x log inv by (auto simp: log_inv_def filter_eq_Cons_iff)
  have r: "rr_resetIn r = x + ?w - now" and st': "log_of st' key = log" "rl_config st' = rl_config st"
      "rl_destroyed st' = rl_destroyed st"
    using assms(5) ok full x by (auto simp: rl_check_def Let_def log_def log_of_def window_of_def
        limit_of_def jsmap_simps split: if_splits)
  have win: "window_of opts st' key = ?w" "limit_of opts st' key = ?m"
    using st'(2) by (rule window_config)+
  have "rr_allowed (fst (rl_check t key (opts key) st')) \<longleftrightarrow>
      int (length (dropWhile (\<lambda>u. u \<le> t - ?w) log)) < ?m"
    using st' ok win by (auto simp: rl_check_def Let_def log_of_def window_of_def limit_of_def)
  also have "\<dots> \<longleftrightarrow> x \<le> t - ?w"
    using len x length_dropWhile_le [of "\<lambda>u. u \<le> t - ?w" xs] by auto
  finally show ?thesis using r rx by auto
qed

theorem reset_hint_exact_witness:
  "(rr_allowed (fst (rl_check 10 ''a'' (demo_opts ''a'') (snd (rl_check 4 ''a'' (demo_opts ''a'')
        (rl_run demo_opts [RlCheck 0 ''a''] (newRateLimiter None None (Some True)))))))
      \<longleftrightarrow> 4 + rr_resetIn (fst (rl_check 4 ''a'' (demo_opts ''a'')
        (rl_run demo_opts [RlCheck 0 ''a''] (newRateLimiter None None (Some True))))) \<le> 10) \<and>
   0 < rr_resetIn (fst (rl_check 4 ''a'' (demo_opts ''a'')
        (rl_run demo_opts [RlCheck 0 ''a''] (newRateLimiter None None (Some True))))) \<and>
   rr_resetIn (fst (rl_check 4 ''a'' (demo_opts ''a'')
        (rl_run demo_opts [RlCheck 0 ''a''] (newRateLimiter None None (Some True)))))
     \<le> window_of demo_opts (rl_run demo_opts [RlCheck 0 ''a''] (newRateLimiter None None (Some True))) ''a''"
proof (rule reset_hint_exact [OF _ _ refl _ surjective_pairing])
  show "1 \<le> limit_of demo_opts (rl_run demo_opts [RlCheck 0 ''a''] (newRateLimiter None None (Some True))) ''a''"
    by code_simp
  show "\<not> rr_allowed (fst (rl_check 4 ''a'' (demo_opts ''a'')
      (rl_run demo_opts [RlCheck 0 ''a''] (newRateLimiter None None (Some True)))))"
    by code_simp
qed simp_all

end
