(* ===== verification/HttpRateLimit.thy ===== *)
theory HttpRateLimit
  imports RateLimiter
begin

section \<open>Rate-limit response headers: \<open>src/http-rate-limit.ts\<close>\<close>

text \<open>
  The header builder sees the limiter only through \<open>getUsage\<close> (the type
  \<open>RateLimitUsageSource\<close>). That interface is the locale \<open>usage_source\<close>, which the limiter
  interprets; what the headers say is proved from it.
\<close>

record rate_limit_response_config =
  rc_enabled :: bool
  rc_maxRequests :: int
  rc_windowMs :: int

definition ceil_div1000 :: "int \<Rightarrow> int" where
  "ceil_div1000 x = - ((- x) div 1000)"

definition buildRateLimitHeaders ::
    "(string \<Rightarrow> rate_limit_options \<Rightarrow> rate_usage option) \<Rightarrow> rate_limit_response_config \<Rightarrow> string \<Rightarrow> int
      \<Rightarrow> (string, string) jsmap" where
  "buildRateLimitHeaders usage cfg key now =
     (if \<not> rc_enabled cfg then []
      else let u = usage key \<lparr> ro_maxRequests = Some (rc_maxRequests cfg), ro_windowMs = Some (rc_windowMs cfg) \<rparr>;
               resetIn = max 0 (case u of None \<Rightarrow> rc_windowMs cfg | Some v \<Rightarrow> ru_resetIn v)
           in [(''X-RateLimit-Limit'', show_int (rc_maxRequests cfg)),
               (''X-RateLimit-Remaining'',
                  show_int (case u of None \<Rightarrow> rc_maxRequests cfg | Some v \<Rightarrow> ru_remaining v)),
               (''X-RateLimit-Reset'', show_int (ceil_div1000 (now + resetIn)))])"

text \<open>
  \<open>attachRateLimitHeaders\<close> wraps the response's \<open>writeHead\<close> and \<open>end\<close>: each applies the headers
  while none have been sent and then runs the original, which is an argument here.
\<close>

record server_response =
  sr_headersSent :: bool
  sr_headers :: "(string, string) jsmap"

fun set_headers :: "(string \<times> string) list \<Rightarrow> server_response \<Rightarrow> server_response" where
  "set_headers [] res = res"
| "set_headers ((name, v) # hs) res = set_headers hs (res\<lparr> sr_headers := map_set name v (sr_headers res) \<rparr>)"

definition applyHeaders :: "(unit \<Rightarrow> (string, string) jsmap) \<Rightarrow> server_response \<Rightarrow> server_response" where
  "applyHeaders buildHeaders res = (if sr_headersSent res then res else set_headers (buildHeaders ()) res)"

definition attachRateLimitHeaders ::
    "(unit \<Rightarrow> (string, string) jsmap) \<Rightarrow> (server_response \<Rightarrow> server_response)
      \<Rightarrow> (server_response \<Rightarrow> server_response)" where
  "attachRateLimitHeaders buildHeaders original = (\<lambda>res. original (applyHeaders buildHeaders res))"

subsection \<open>The interface and its client\<close>

locale usage_source =
  fixes usage :: "'s \<Rightarrow> string \<Rightarrow> rate_limit_options \<Rightarrow> rate_usage option"
    and ok :: "'s \<Rightarrow> bool"
  assumes remaining_nonneg: "usage s key opt = Some u \<Longrightarrow> 0 \<le> ru_remaining u"
    and remaining_le: "usage s key opt = Some u \<Longrightarrow> ro_maxRequests opt = Some m \<Longrightarrow> 0 \<le> m \<Longrightarrow>
          ru_remaining u \<le> m"
    and reset_pos: "usage s key opt = Some u \<Longrightarrow> ro_windowMs opt = Some w \<Longrightarrow> 0 < ru_resetIn u"
    and reset_le: "ok s \<Longrightarrow> usage s key opt = Some u \<Longrightarrow> ro_windowMs opt = Some w \<Longrightarrow> ru_resetIn u \<le> w"
begin

lemma ceil_mono: "x \<le> y \<Longrightarrow> ceil_div1000 x \<le> ceil_div1000 y"
  by (simp add: ceil_div1000_def zdiv_mono1)

lemma header_bounds:
  assumes "ok s" and "rc_enabled cfg" and "0 \<le> rc_maxRequests cfg" and "0 \<le> rc_windowMs cfg"
  shows "\<exists>remaining reset.
     buildRateLimitHeaders (usage s) cfg key now =
       [(''X-RateLimit-Limit'', show_int (rc_maxRequests cfg)),
        (''X-RateLimit-Remaining'', show_int remaining), (''X-RateLimit-Reset'', show_int reset)] \<and>
     0 \<le> remaining \<and> remaining \<le> rc_maxRequests cfg \<and>
     ceil_div1000 now \<le> reset \<and> reset \<le> ceil_div1000 (now + rc_windowMs cfg)"
proof -
  let ?opt = "\<lparr> ro_maxRequests = Some (rc_maxRequests cfg), ro_windowMs = Some (rc_windowMs cfg) \<rparr>"
  show ?thesis
  proof (cases "usage s key ?opt")
    case None
    show ?thesis
      by (rule exI [of _ "rc_maxRequests cfg"], rule exI [of _ "ceil_div1000 (now + rc_windowMs cfg)"])
        (use None assms in \<open>simp add: buildRateLimitHeaders_def Let_def ceil_mono\<close>)
  next
    case (Some u)
    then have "0 \<le> ru_remaining u" "ru_remaining u \<le> rc_maxRequests cfg" "ru_resetIn u \<le> rc_windowMs cfg"
      using remaining_nonneg remaining_le reset_le assms by fastforce+
    with Some assms show ?thesis
      by (intro exI [of _ "ru_remaining u"] exI [of _ "ceil_div1000 (now + max 0 (ru_resetIn u))"])
        (simp add: buildRateLimitHeaders_def Let_def ceil_mono)
  qed
qed

end

text \<open>The limiter, seen at a time no earlier than the requests it has logged.\<close>

definition logged_before :: "int \<times> rate_limiter \<Rightarrow> bool" where
  "logged_before s = (\<forall>k l. map_get (rl_logs (snd s)) k = Some l \<longrightarrow> (\<forall>x \<in> set l. x \<le> fst s))"

lemma getUsage_Some:
  assumes "getUsage now key opt st = Some u"
  obtains log oldest rest where "map_get (rl_logs st) key = Some log"
    and "filter (\<lambda>t. now - or_default (ro_windowMs opt)
           (or_default (map_get (rl_keyWindowMs st) key) (rlc_windowMs (rl_config st))) < t) log = oldest # rest"
    and "u = \<lparr> ru_count = int (length (oldest # rest)),
              ru_remaining = max 0 (or_default (ro_maxRequests opt) (rlc_maxRequests (rl_config st))
                 - int (length (oldest # rest))),
              ru_resetIn = oldest + or_default (ro_windowMs opt)
                 (or_default (map_get (rl_keyWindowMs st) key) (rlc_windowMs (rl_config st))) - now \<rparr>"
  using assms by (auto simp: getUsage_def Let_def split: option.splits list.splits)

interpretation rlu: usage_source "\<lambda>s key opt. getUsage (fst s) key opt (snd s)" logged_before
proof unfold_locales
  fix s :: "int \<times> rate_limiter" and key opt u and m w :: int
  assume u: "getUsage (fst s) key opt (snd s) = Some u"
  from u obtain log oldest rest where h: "map_get (rl_logs (snd s)) key = Some log"
    "filter (\<lambda>t. fst s - or_default (ro_windowMs opt)
       (or_default (map_get (rl_keyWindowMs (snd s)) key) (rlc_windowMs (rl_config (snd s)))) < t) log = oldest # rest"
    "u = \<lparr> ru_count = int (length (oldest # rest)),
              ru_remaining = max 0 (or_default (ro_maxRequests opt) (rlc_maxRequests (rl_config (snd s)))
                 - int (length (oldest # rest))),
              ru_resetIn = oldest + or_default (ro_windowMs opt)
                 (or_default (map_get (rl_keyWindowMs (snd s)) key) (rlc_windowMs (rl_config (snd s)))) - fst s \<rparr>"
    by (rule getUsage_Some)
  then have old: "oldest \<in> set log" "fst s - or_default (ro_windowMs opt)
       (or_default (map_get (rl_keyWindowMs (snd s)) key) (rlc_windowMs (rl_config (snd s)))) < oldest"
    by (auto simp: filter_eq_Cons_iff)
  show "0 \<le> ru_remaining u" using h by simp
  show "ru_remaining u \<le> m" if "ro_maxRequests opt = Some m" "0 \<le> m" using h that by simp
  show "0 < ru_resetIn u" using h old by simp
  show "ru_resetIn u \<le> w" if "logged_before s" "ro_windowMs opt = Some w"
    using that h old by (auto simp: logged_before_def)
qed

text \<open>
  The headers built from the limiter always name the limit, a remaining count between zero
  and the limit, and a reset second between now and one window from now.
\<close>

theorem rate_limit_headers_in_bounds:
  assumes "logged_before (t, st)" and "rc_enabled cfg" and "0 \<le> rc_maxRequests cfg" and "0 \<le> rc_windowMs cfg"
  shows "\<exists>remaining reset.
     buildRateLimitHeaders (\<lambda>key opt. getUsage t key opt st) cfg key now =
       [(''X-RateLimit-Limit'', show_int (rc_maxRequests cfg)),
        (''X-RateLimit-Remaining'', show_int remaining), (''X-RateLimit-Reset'', show_int reset)] \<and>
     0 \<le> remaining \<and> remaining \<le> rc_maxRequests cfg \<and>
     ceil_div1000 now \<le> reset \<and> reset \<le> ceil_div1000 (now + rc_windowMs cfg)"
  using rlu.header_bounds [OF assms] by simp

theorem rate_limit_headers_in_bounds_witness:
  "\<exists>remaining reset.
     buildRateLimitHeaders (\<lambda>key opt. getUsage 7 key opt (snd (rl_check 5 ''global'' (demo_opts ''global'')
         (newRateLimiter None None None)))) \<lparr>rc_enabled = True, rc_maxRequests = 3, rc_windowMs = 10\<rparr> ''global'' 7 =
       [(''X-RateLimit-Limit'', show_int 3),
        (''X-RateLimit-Remaining'', show_int remaining), (''X-RateLimit-Reset'', show_int reset)] \<and>
     0 \<le> remaining \<and> remaining \<le> 3 \<and>
     ceil_div1000 7 \<le> reset \<and> reset \<le> ceil_div1000 17"
proof -
  have "logged_before (7, snd (rl_check 5 ''global'' (demo_opts ''global'') (newRateLimiter None None None)))"
    by (simp add: logged_before_def rl_check_def newRateLimiter_def demo_opts_def)
  from rate_limit_headers_in_bounds [OF this, of "\<lparr>rc_enabled = True, rc_maxRequests = 3, rc_windowMs = 10\<rparr>" "''global''" 7]
  show ?thesis by simp
qed

end
