(* ===== verification/Retry.thy ===== *)
theory Retry
  imports Complex_Main Errors
begin

section \<open>Retry with exponential backoff: \<open>src/retry.ts\<close>\<close>

text \<open>
  \<open>withRetry\<close> runs an operation until it succeeds, until an error is not retryable or until the
  attempts are used up. The operation's outcomes are the argument \<open>outcome\<close>, one per attempt;
  delays are rational (the code computes them in floating point), and the random unit of the
  jitter, an integer below 10001, is the argument \<open>unit_at\<close> per attempt. The model lists the
  delays slept, in order. The clock is not modelled, so \<open>totalTimeMs\<close> is left out.
\<close>

record retry_options =
  ro_maxAttempts :: int
  ro_initialDelayMs :: rat
  ro_maxDelayMs :: rat
  ro_backoffMultiplier :: rat
  ro_jitter :: bool

definition DEFAULT_OPTIONS :: retry_options where
  "DEFAULT_OPTIONS = \<lparr> ro_maxAttempts = 3, ro_initialDelayMs = 1000, ro_maxDelayMs = 30000,
     ro_backoffMultiplier = 2, ro_jitter = True \<rparr>"

definition error_message :: "thrown \<Rightarrow> string option" where
  "error_message e = (case e of MCPError m \<Rightarrow> Some (err_message m) | JSError m \<Rightarrow> Some m | Thrown _ \<Rightarrow> None)"

definition defaultIsRetryable :: "thrown \<Rightarrow> bool" where
  "defaultIsRetryable error =
     (case error_message error of
        None \<Rightarrow> False
      | Some m \<Rightarrow>
          let message = to_lower m in
          list_ex (str_includes message)
            [''timeout'', ''etimedout'', ''econnreset'', ''econnrefused'', ''epipe'', ''network'', ''socket hang up''])"

text \<open>\<open>attempt\<close> counts from one; \<open>k\<close> is \<open>attempt - 1\<close>.\<close>

definition calculateDelay :: "nat \<Rightarrow> int \<Rightarrow> retry_options \<Rightarrow> rat" where
  "calculateDelay k jitterUnit opts =
     (let exponentialDelay = ro_initialDelayMs opts * ro_backoffMultiplier opts ^ k;
          cappedDelay = min exponentialDelay (ro_maxDelayMs opts)
      in if ro_jitter opts then
           let jitterRange = cappedDelay * (1 / 4);
               jitter = ((rat_of_int jitterUnit / 10000) * 2 - 1) * jitterRange
           in max 0 (cappedDelay + jitter)
         else cappedDelay)"

datatype 'a retry_result = Succeeded 'a nat | Failed "thrown option" nat

text \<open>
  The loop, from attempt \<open>k + 1\<close>: \<open>lastErr\<close> is the last error, \<open>attempts\<close> the attempts made.
  The result carries the delays slept.
\<close>

function retry_loop ::
    "(nat \<Rightarrow> thrown + 'a) \<Rightarrow> (thrown \<Rightarrow> bool) \<Rightarrow> (nat \<Rightarrow> int) \<Rightarrow> retry_options \<Rightarrow> nat
      \<Rightarrow> thrown option \<Rightarrow> 'a retry_result \<times> rat list" where
  "retry_loop outcome isRetryable unit_at opts k lastErr =
     (if int k + 1 \<le> ro_maxAttempts opts then
        case outcome k of
          Inr r \<Rightarrow> (Succeeded r (Suc k), [])
        | Inl e \<Rightarrow>
            if int k + 1 \<ge> ro_maxAttempts opts \<or> \<not> isRetryable e then (Failed (Some e) (Suc k), [])
            else let d = calculateDelay k (unit_at k) opts;
                     (r, ds) = retry_loop outcome isRetryable unit_at opts (Suc k) (Some e)
                 in (r, d # ds)
      else (Failed lastErr k, []))"
  by pat_completeness auto
termination
  by (relation "measure (\<lambda>(_, _, _, opts, k, _). nat (ro_maxAttempts opts - int k))") auto

declare retry_loop.simps [simp del]

definition withRetry ::
    "(nat \<Rightarrow> thrown + 'a) \<Rightarrow> (thrown \<Rightarrow> bool) option \<Rightarrow> (nat \<Rightarrow> int) \<Rightarrow> retry_options
      \<Rightarrow> 'a retry_result \<times> rat list" where
  "withRetry outcome isRetryable unit_at opts =
     retry_loop outcome (case isRetryable of None \<Rightarrow> defaultIsRetryable | Some p \<Rightarrow> p) unit_at opts 0 None"

text \<open>\<open>retry\<close> and the method decorator throw the last error, which is absent when no attempt was allowed.\<close>

definition retry_or_throw ::
    "(nat \<Rightarrow> thrown + 'a) \<Rightarrow> (thrown \<Rightarrow> bool) option \<Rightarrow> (nat \<Rightarrow> int) \<Rightarrow> retry_options \<Rightarrow> thrown option + 'a" where
  "retry_or_throw outcome isRetryable unit_at opts =
     (case fst (withRetry outcome isRetryable unit_at opts) of
        Succeeded r _ \<Rightarrow> Inr r | Failed e _ \<Rightarrow> Inl e)"

subsection \<open>The first attempt that ends the loop\<close>

definition ends_loop :: "(nat \<Rightarrow> thrown + 'a) \<Rightarrow> (thrown \<Rightarrow> bool) \<Rightarrow> nat \<Rightarrow> nat \<Rightarrow> bool" where
  "ends_loop outcome isRetryable n i \<longleftrightarrow>
     Suc i = n \<or> (case outcome i of Inr _ \<Rightarrow> True | Inl e \<Rightarrow> \<not> isRetryable e)"

lemma retry_loop_result:
  assumes "k \<le> i" and "i < n" and "ends_loop outcome p n i"
    and "\<forall>j. k \<le> j \<and> j < i \<longrightarrow> \<not> ends_loop outcome p n j" and "ro_maxAttempts opts = int n"
  shows "retry_loop outcome p unit_at opts k lastErr =
     (case outcome i of Inr r \<Rightarrow> Succeeded r (Suc i) | Inl e \<Rightarrow> Failed (Some e) (Suc i),
      map (\<lambda>j. calculateDelay j (unit_at j) opts) [k..<i])"
  using assms(1,4)
proof (induction "i - k" arbitrary: k lastErr)
  case 0
  then have "k = i" by simp
  with assms(2,3,5) show ?case
    by (subst retry_loop.simps) (auto simp: ends_loop_def split: sum.splits)
next
  case (Suc d)
  then have lt: "k < i" by simp
  with Suc.prems have "\<not> ends_loop outcome p n k" by simp
  then obtain e where e: "outcome k = Inl e" "p e" "Suc k \<noteq> n" by (auto simp: ends_loop_def split: sum.splits)
  have "retry_loop outcome p unit_at opts (Suc k) (Some e) =
     (case outcome i of Inr r \<Rightarrow> Succeeded r (Suc i) | Inl e \<Rightarrow> Failed (Some e) (Suc i),
      map (\<lambda>j. calculateDelay j (unit_at j) opts) [Suc k..<i])"
    using Suc lt by (intro Suc.hyps) auto
  with e lt assms(2,5) show ?case
    by (subst retry_loop.simps) (auto simp: upt_conv_Cons)
qed

lemma ends_loop_exists: "0 < n \<Longrightarrow> \<exists>i < n. ends_loop outcome p n i \<and> (\<forall>j < i. \<not> ends_loop outcome p n j)"
proof -
  assume "0 < n"
  then have "ends_loop outcome p n (n - 1)" by (simp add: ends_loop_def)
  then have "ends_loop outcome p n (LEAST i. ends_loop outcome p n i)" by (rule LeastI)
  moreover have "(LEAST i. ends_loop outcome p n i) \<le> n - 1"
    using \<open>ends_loop outcome p n (n - 1)\<close> by (rule Least_le)
  ultimately show ?thesis using \<open>0 < n\<close> not_less_Least by (metis Suc_pred' le_imp_less_Suc)
qed

text \<open>
  With a positive number of attempts, \<open>withRetry\<close> stops at the first attempt that succeeds,
  fails with an error that is not retryable, or is the last one allowed; it reports that outcome
  and that attempt's number, and sleeps once, for the computed delay, after each attempt before it.
\<close>

theorem withRetry_stops_at_first:
  assumes "ro_maxAttempts opts = int n" and "0 < n"
  shows "\<exists>i < n. ends_loop outcome p n i \<and> (\<forall>j < i. \<not> ends_loop outcome p n j) \<and>
     withRetry outcome (Some p) unit_at opts =
       (case outcome i of Inr r \<Rightarrow> Succeeded r (Suc i) | Inl e \<Rightarrow> Failed (Some e) (Suc i),
        map (\<lambda>j. calculateDelay j (unit_at j) opts) [0..<i])"
proof -
  obtain i where i: "i < n" "ends_loop outcome p n i" "\<forall>j < i. \<not> ends_loop outcome p n j"
    using ends_loop_exists [OF assms(2)] by blast
  have "withRetry outcome (Some p) unit_at opts =
       (case outcome i of Inr r \<Rightarrow> Succeeded r (Suc i) | Inl e \<Rightarrow> Failed (Some e) (Suc i),
        map (\<lambda>j. calculateDelay j (unit_at j) opts) [0..<i])"
    unfolding withRetry_def option.case using i assms(1) by (intro retry_loop_result) auto
  with i show ?thesis by blast
qed

theorem withRetry_stops_at_first_witness:
  "\<exists>i < 3. ends_loop (\<lambda>k. if k = 1 then Inr True else Inl (JSError ''timeout'')) defaultIsRetryable 3 i \<and>
     (\<forall>j < i. \<not> ends_loop (\<lambda>k. if k = 1 then Inr True else Inl (JSError ''timeout'')) defaultIsRetryable 3 j) \<and>
     withRetry (\<lambda>k. if k = 1 then Inr True else Inl (JSError ''timeout'')) (Some defaultIsRetryable) (\<lambda>_. 0) DEFAULT_OPTIONS =
       (case (if i = 1 then Inr True else Inl (JSError ''timeout'')) of
          Inr r \<Rightarrow> Succeeded r (Suc i) | Inl e \<Rightarrow> Failed (Some e) (Suc i),
        map (\<lambda>j. calculateDelay j 0 DEFAULT_OPTIONS) [0..<i])"
  by (rule withRetry_stops_at_first) (simp_all add: DEFAULT_OPTIONS_def)

text \<open>
  A delay lies within a quarter of the capped exponential delay, so it is never negative and
  never more than five quarters of the configured maximum; without jitter it is the capped delay.
\<close>

theorem delay_bounds:
  assumes "0 \<le> ro_initialDelayMs opts" and "0 \<le> ro_backoffMultiplier opts" and "0 \<le> ro_maxDelayMs opts"
    and "0 \<le> jitterUnit" and "jitterUnit \<le> 10000"
  shows "let capped = min (ro_initialDelayMs opts * ro_backoffMultiplier opts ^ k) (ro_maxDelayMs opts)
     in 3 / 4 * capped \<le> calculateDelay k jitterUnit opts \<and> calculateDelay k jitterUnit opts \<le> 5 / 4 * capped
        \<and> 0 \<le> calculateDelay k jitterUnit opts \<and> calculateDelay k jitterUnit opts \<le> 5 / 4 * ro_maxDelayMs opts"
proof -
  define c where "c = min (ro_initialDelayMs opts * ro_backoffMultiplier opts ^ k) (ro_maxDelayMs opts)"
  have c: "0 \<le> c" "c \<le> ro_maxDelayMs opts" using assms by (simp_all add: c_def)
  define u where "u = rat_of_int jitterUnit / 10000 * 2 - 1"
  have "0 \<le> rat_of_int jitterUnit" "rat_of_int jitterUnit \<le> 10000"
    using assms(4,5) by (simp, metis of_int_le_iff of_int_numeral)
  then have u: "- 1 \<le> u" "u \<le> 1" by (simp_all add: u_def)
  have "(- 1) * (c * (1 / 4)) \<le> u * (c * (1 / 4))" using u(1) c(1) by (intro mult_right_mono) simp_all
  moreover have "u * (c * (1 / 4)) \<le> 1 * (c * (1 / 4))" using u(2) c(1) by (intro mult_right_mono) simp_all
  moreover have "calculateDelay k jitterUnit opts = (if ro_jitter opts then max 0 (c + u * (c * (1 / 4))) else c)"
    by (simp add: calculateDelay_def c_def u_def Let_def)
  ultimately have "3 / 4 * c \<le> calculateDelay k jitterUnit opts" "calculateDelay k jitterUnit opts \<le> 5 / 4 * c"
    using c(1) by (auto simp: max_def)
  with c show ?thesis unfolding Let_def c_def [symmetric] by linarith
qed

theorem delay_bounds_witness:
  "let capped = min (ro_initialDelayMs DEFAULT_OPTIONS * ro_backoffMultiplier DEFAULT_OPTIONS ^ 6) (ro_maxDelayMs DEFAULT_OPTIONS)
     in 3 / 4 * capped \<le> calculateDelay 6 10000 DEFAULT_OPTIONS \<and> calculateDelay 6 10000 DEFAULT_OPTIONS \<le> 5 / 4 * capped
        \<and> 0 \<le> calculateDelay 6 10000 DEFAULT_OPTIONS \<and> calculateDelay 6 10000 DEFAULT_OPTIONS \<le> 5 / 4 * ro_maxDelayMs DEFAULT_OPTIONS"
  by (rule delay_bounds) (simp_all add: DEFAULT_OPTIONS_def)

end
