(* ===== verification/HttpSessions.thy ===== *)
theory HttpSessions
  imports Prelude
begin

section \<open>The HTTP session registry: \<open>src/http-session-registry.ts\<close>\<close>

text \<open>
  The registry keeps the HTTP MCP sessions in a JavaScript \<open>Map\<close>, which iterates in insertion
  order. A session is any record with a \<open>lastSeenAt\<close> field, as in the code, so the model is
  polymorphic in the rest of it. \<open>onClose\<close> is a callback: the model appends its calls to
  \<open>reg_closed\<close>. The clock is an argument of every operation that reads it. A session id may be
  the empty string, which the code treats as absent in \<open>get\<close> and \<open>evictOldest\<close>.
\<close>

record http_session =
  lastSeenAt :: int

record 's http_registry =
  reg_sessions :: "(string, 's) jsmap"
  reg_maxSessions :: int
  reg_sessionIdleTtlMs :: int
  reg_closed :: "(string \<times> 's \<times> string) list"

record capacity_result =
  cap_allowed :: bool
  cap_evictedSessionId :: "string option"
  cap_reason :: "string option"

definition newHttpSessionRegistry :: "int \<Rightarrow> int \<Rightarrow> 's http_registry" where
  "newHttpSessionRegistry maxSessions ttl =
     \<lparr> reg_sessions = [], reg_maxSessions = maxSessions, reg_sessionIdleTtlMs = ttl, reg_closed = [] \<rparr>"

definition reg_size :: "'s http_registry \<Rightarrow> int" where
  "reg_size r = int (length (reg_sessions r))"

definition reg_set :: "string \<Rightarrow> 's \<Rightarrow> 's http_registry \<Rightarrow> 's http_registry" where
  "reg_set sessionId session r = r\<lparr> reg_sessions := map_set sessionId session (reg_sessions r) \<rparr>"

definition reg_get :: "string option \<Rightarrow> 's http_registry \<Rightarrow> 's option" where
  "reg_get sessionId r =
     (case sessionId of None \<Rightarrow> None | Some i \<Rightarrow> if i = [] then None else map_get (reg_sessions r) i)"

definition reg_delete :: "string \<Rightarrow> 's http_registry \<Rightarrow> bool \<times> 's http_registry" where
  "reg_delete sessionId r =
     (map_get (reg_sessions r) sessionId \<noteq> None,
      r\<lparr> reg_sessions := map_delete sessionId (reg_sessions r) \<rparr>)"

definition reg_clear :: "'s http_registry \<Rightarrow> 's http_registry" where
  "reg_clear r = r\<lparr> reg_sessions := [] \<rparr>"

definition isExpired :: "int \<Rightarrow> 'x http_session_scheme http_registry \<Rightarrow> 'x http_session_scheme \<Rightarrow> bool" where
  "isExpired now r session = (now - lastSeenAt session > reg_sessionIdleTtlMs r)"

definition reg_close :: "string \<Rightarrow> string \<Rightarrow> 's http_registry \<Rightarrow> bool \<times> 's http_registry" where
  "reg_close sessionId reason r =
     (case map_get (reg_sessions r) sessionId of
        None \<Rightarrow> (False, r)
      | Some session \<Rightarrow>
          (True, r\<lparr> reg_sessions := map_delete sessionId (reg_sessions r),
                    reg_closed := reg_closed r @ [(sessionId, session, reason)] \<rparr>))"

text \<open>\<open>now\<close> is the clock when the expiry is tested, \<open>now'\<close> when the session is touched.\<close>

definition getActive ::
    "int \<Rightarrow> int \<Rightarrow> string option \<Rightarrow> 'x http_session_scheme http_registry
      \<Rightarrow> 'x http_session_scheme option \<times> 'x http_session_scheme http_registry" where
  "getActive now now' sessionId r =
     (case reg_get sessionId r of
        None \<Rightarrow> (None, r)
      | Some session \<Rightarrow>
          if isExpired now r session then (None, snd (reg_close (the sessionId) ''idle-timeout'' r))
          else let touched = session\<lparr> lastSeenAt := now' \<rparr>
               in (Some touched, reg_set (the sessionId) touched r))"

text \<open>
  The loop of \<open>cleanupExpired\<close> over the entries; deleting the entry being visited does not
  disturb the iteration of a \<open>Map\<close>.
\<close>

fun cleanup_loop ::
    "int \<Rightarrow> (string \<times> 'x http_session_scheme) list \<Rightarrow> int \<times> 'x http_session_scheme http_registry
      \<Rightarrow> int \<times> 'x http_session_scheme http_registry" where
  "cleanup_loop now [] st = st"
| "cleanup_loop now ((sessionId, session) # es) (closed, r) =
     cleanup_loop now es
       (if isExpired now r session then (closed + 1, snd (reg_close sessionId ''idle-timeout'' r)) else (closed, r))"

definition cleanupExpired ::
    "int \<Rightarrow> 'x http_session_scheme http_registry \<Rightarrow> int \<times> 'x http_session_scheme http_registry" where
  "cleanupExpired now r = cleanup_loop now (reg_sessions r) (0, r)"

text \<open>The scan of \<open>evictOldest\<close>; \<open>None\<close> is the initial positive infinity.\<close>

fun oldest_loop ::
    "(string \<times> 'x http_session_scheme) list \<Rightarrow> (string \<times> int) option \<Rightarrow> (string \<times> int) option" where
  "oldest_loop [] best = best"
| "oldest_loop ((sessionId, session) # es) best =
     oldest_loop es
       (case best of
          None \<Rightarrow> Some (sessionId, lastSeenAt session)
        | Some (i, t) \<Rightarrow> if lastSeenAt session < t then Some (sessionId, lastSeenAt session) else Some (i, t))"

definition evictOldest ::
    "string \<Rightarrow> 'x http_session_scheme http_registry \<Rightarrow> string option \<times> 'x http_session_scheme http_registry" where
  "evictOldest reason r =
     (case oldest_loop (reg_sessions r) None of
        None \<Rightarrow> (None, r)
      | Some (i, _) \<Rightarrow> if i = [] then (None, r) else (Some i, snd (reg_close i reason r)))"

definition reserveCapacity ::
    "int \<Rightarrow> 'x http_session_scheme http_registry \<Rightarrow> capacity_result \<times> 'x http_session_scheme http_registry" where
  "reserveCapacity now r =
     (let r1 = snd (cleanupExpired now r)
      in if reg_size r1 < reg_maxSessions r1
         then (\<lparr> cap_allowed = True, cap_evictedSessionId = None, cap_reason = None \<rparr>, r1)
         else case evictOldest ''capacity-evict-oldest'' r1 of
           (Some i, r2) \<Rightarrow>
             (\<lparr> cap_allowed = True, cap_evictedSessionId = (if i = [] then None else Some i),
                cap_reason = Some ''capacity-evict-oldest'' \<rparr>, r2)
         | (None, r2) \<Rightarrow>
             (\<lparr> cap_allowed = False, cap_evictedSessionId = None, cap_reason = Some ''capacity-full'' \<rparr>, r2))"

subsection \<open>What the loops compute\<close>

definition reg_ok :: "'s http_registry \<Rightarrow> bool" where
  "reg_ok r \<longleftrightarrow> jsmap_ok (reg_sessions r) \<and> map_get (reg_sessions r) [] = None"

lemma map_delete_filter: "map_delete k m = filter (\<lambda>e. fst e \<noteq> k) m"
  by (auto simp: AList.delete_eq intro: filter_cong)

lemma cleanup_loop_filter:
  assumes "distinct (map fst es)" and "\<forall>e \<in> set es. map_get (reg_sessions r) (fst e) = Some (snd e)"
  shows "cleanup_loop now es (n, r) =
    (n + int (length (filter (\<lambda>e. isExpired now r (snd e)) es)),
     r\<lparr> reg_sessions := filter (\<lambda>e. \<not> (\<exists>e' \<in> set es. isExpired now r (snd e') \<and> fst e = fst e')) (reg_sessions r),
        reg_closed := reg_closed r @
          map (\<lambda>e. (fst e, snd e, ''idle-timeout'')) (filter (\<lambda>e. isExpired now r (snd e)) es) \<rparr>)"
  using assms
proof (induction es arbitrary: n r)
  case (Cons e es)
  obtain i s where e: "e = (i, s)" by (cases e)
  from Cons.prems e have i: "i \<notin> fst ` set es" and get: "map_get (reg_sessions r) i = Some s" by auto
  show ?case
  proof (cases "isExpired now r s")
    case True
    define r' where "r' = snd (reg_close i ''idle-timeout'' r)"
    have r': "r' = r\<lparr> reg_sessions := filter (\<lambda>e. fst e \<noteq> i) (reg_sessions r),
                      reg_closed := reg_closed r @ [(i, s, ''idle-timeout'')] \<rparr>"
      by (simp add: r'_def reg_close_def get map_delete_filter)
    have exp: "isExpired now r' = isExpired now r" by (simp add: isExpired_def r' fun_eq_iff)
    have "\<forall>e \<in> set es. map_get (reg_sessions r') (fst e) = Some (snd e)"
      using Cons.prems i by (auto simp: r' map_delete_filter [symmetric] jsm.get_remove image_iff)
    from Cons.IH [OF _ this, of "n + 1"] Cons.prems(1) show ?thesis
      using True by (auto simp: e r'_def [symmetric] exp) (simp_all add: r' conj_commute cong: conj_cong)
  next
    case False
    with Cons show ?thesis by (simp add: e)
  qed
qed simp

lemma cleanupExpired_spec:
  assumes "reg_ok r"
  shows "cleanupExpired now r =
    (int (length (filter (\<lambda>e. isExpired now r (snd e)) (reg_sessions r))),
     r\<lparr> reg_sessions := filter (\<lambda>e. \<not> isExpired now r (snd e)) (reg_sessions r),
        reg_closed := reg_closed r @
          map (\<lambda>e. (fst e, snd e, ''idle-timeout'')) (filter (\<lambda>e. isExpired now r (snd e)) (reg_sessions r)) \<rparr>)"
proof -
  have d: "distinct (map fst (reg_sessions r))" using assms by (simp add: reg_ok_def jsmap_ok_def)
  have "\<forall>e \<in> set (reg_sessions r). map_get (reg_sessions r) (fst e) = Some (snd e)" using d by simp
  note c = cleanup_loop_filter [OF d this, of now 0]
  have "filter (\<lambda>e. \<not> (\<exists>e' \<in> set (reg_sessions r). isExpired now r (snd e') \<and> fst e = fst e')) (reg_sessions r)
      = filter (\<lambda>e. \<not> isExpired now r (snd e)) (reg_sessions r)"
    using d by (auto intro!: filter_cong simp: distinct_map inj_on_def)
  with c show ?thesis by (simp add: cleanupExpired_def)
qed

lemma oldest_loop_min:
  "oldest_loop es best = Some (i, t) \<Longrightarrow>
     (best = Some (i, t) \<or> (\<exists>s. (i, s) \<in> set es \<and> lastSeenAt s = t)) \<and>
     (\<forall>e \<in> set es. t \<le> lastSeenAt (snd e)) \<and> (\<forall>j u. best = Some (j, u) \<longrightarrow> t \<le> u)"
proof (induction es arbitrary: best)
  case (Cons e es)
  obtain j s where e: "e = (j, s)" by (cases e)
  let ?b = "case best of None \<Rightarrow> Some (j, lastSeenAt s)
            | Some (k, u) \<Rightarrow> if lastSeenAt s < u then Some (j, lastSeenAt s) else Some (k, u)"
  have b: "?b = Some (j, lastSeenAt s) \<or> ?b = best" "\<exists>k u. ?b = Some (k, u) \<and> u \<le> lastSeenAt s"
    "\<forall>k u. best = Some (k, u) \<longrightarrow> (\<exists>k' u'. ?b = Some (k', u') \<and> u' \<le> u)"
    by (auto split: option.splits)
  from Cons.prems have "oldest_loop es ?b = Some (i, t)" by (simp add: e)
  note IH = Cons.IH [OF this]
  have "t \<le> lastSeenAt s" using IH b(2) by fastforce
  moreover have "\<forall>k u. best = Some (k, u) \<longrightarrow> t \<le> u" using IH b(3) by fastforce
  moreover have "best = Some (i, t) \<or> (\<exists>s'. (i, s') \<in> set (e # es) \<and> lastSeenAt s' = t)"
    using IH b(1) by (auto simp: e)
  ultimately show ?case using IH by (simp add: e)
qed auto

lemma oldest_loop_None: "oldest_loop es best = None \<longleftrightarrow> es = [] \<and> best = None"
  by (induction es best rule: oldest_loop.induct) (auto split: option.splits)

lemma map_get_filter: "jsmap_ok m \<Longrightarrow>
  map_get (filter P m) k = (case map_get m k of None \<Rightarrow> None | Some v \<Rightarrow> if P (k, v) then Some v else None)"
  by (induction m) (auto simp: jsmap_ok_def map_of_eq_None_iff split: option.splits)

lemma jsmap_ok_filter [intro, simp]: "jsmap_ok m \<Longrightarrow> jsmap_ok (filter P m)"
  by (simp add: jsmap_ok_def distinct_map_filter)

lemma reg_ok_filter: "reg_ok r \<Longrightarrow> reg_sessions r' = filter P (reg_sessions r) \<Longrightarrow> reg_ok r'"
  by (simp add: reg_ok_def map_get_filter)

subsection \<open>Reserving capacity\<close>

definition live_sessions :: "int \<Rightarrow> 'x http_session_scheme http_registry \<Rightarrow> (string \<times> 'x http_session_scheme) list" where
  "live_sessions now r = filter (\<lambda>e. \<not> isExpired now r (snd e)) (reg_sessions r)"

definition idle_closings :: "int \<Rightarrow> 'x http_session_scheme http_registry \<Rightarrow> (string \<times> 'x http_session_scheme \<times> string) list" where
  "idle_closings now r =
     map (\<lambda>e. (fst e, snd e, ''idle-timeout'')) (filter (\<lambda>e. isExpired now r (snd e)) (reg_sessions r))"

lemma cleanupExpired_live:
  "reg_ok r \<Longrightarrow> snd (cleanupExpired now r) =
     r\<lparr> reg_sessions := live_sessions now r, reg_closed := reg_closed r @ idle_closings now r \<rparr>"
  by (simp add: cleanupExpired_spec live_sessions_def idle_closings_def)

lemma evictOldest_spec:
  assumes "reg_ok r" and "reg_sessions r \<noteq> []"
  obtains i s where "(i, s) \<in> set (reg_sessions r)" and "\<forall>e \<in> set (reg_sessions r). lastSeenAt s \<le> lastSeenAt (snd e)"
    and "i \<noteq> []" and "evictOldest reason r =
      (Some i, r\<lparr> reg_sessions := filter (\<lambda>e. fst e \<noteq> i) (reg_sessions r),
                  reg_closed := reg_closed r @ [(i, s, reason)] \<rparr>)"
proof -
  from assms(2) obtain i t where o: "oldest_loop (reg_sessions r) None = Some (i, t)"
    using oldest_loop_None [of "reg_sessions r" None] by (cases "oldest_loop (reg_sessions r) None") auto
  with oldest_loop_min [OF o] obtain s where s: "(i, s) \<in> set (reg_sessions r)" "lastSeenAt s = t"
    "\<forall>e \<in> set (reg_sessions r). t \<le> lastSeenAt (snd e)" by auto
  from assms(1) s(1) have g: "map_get (reg_sessions r) i = Some s" by (simp add: reg_ok_def jsmap_get_mem)
  with assms(1) have "i \<noteq> []" by (auto simp: reg_ok_def)
  with s g o show ?thesis
    by (intro that [of i s]) (simp_all add: evictOldest_def reg_close_def map_delete_filter)
qed

text \<open>
  Reserving capacity closes exactly the expired sessions, notifying each once; if the live
  sessions fill the limit it also closes exactly one of them, the one least recently seen, and
  keeps every other session as it was; it refuses only when there is no session to evict.
\<close>

theorem reserveCapacity_evicts_least_recent:
  assumes "reg_ok r"
  shows "let live = live_sessions now r; (res, r') = reserveCapacity now r in
     if int (length live) < reg_maxSessions r then
       cap_allowed res \<and> cap_evictedSessionId res = None \<and>
       r' = r\<lparr> reg_sessions := live, reg_closed := reg_closed r @ idle_closings now r \<rparr>
     else if live = [] then \<not> cap_allowed res \<and> reg_sessions r' = []
     else \<exists>i s. (i, s) \<in> set live \<and> (\<forall>e \<in> set live. lastSeenAt s \<le> lastSeenAt (snd e)) \<and>
       cap_allowed res \<and> cap_evictedSessionId res = Some i \<and>
       r' = r\<lparr> reg_sessions := filter (\<lambda>e. fst e \<noteq> i) live,
               reg_closed := reg_closed r @ idle_closings now r @ [(i, s, ''capacity-evict-oldest'')] \<rparr>"
proof -
  define r1 where "r1 = snd (cleanupExpired now r)"
  have r1: "r1 = r\<lparr> reg_sessions := live_sessions now r, reg_closed := reg_closed r @ idle_closings now r \<rparr>"
    using cleanupExpired_live [OF assms] by (simp add: r1_def)
  have ok: "reg_ok r1" using assms by (rule reg_ok_filter) (simp add: r1 live_sessions_def)
  show ?thesis
  proof (cases "int (length (live_sessions now r)) < reg_maxSessions r \<or> live_sessions now r = []")
    case True
    then show ?thesis
      by (auto simp: reserveCapacity_def r1_def [symmetric] r1 reg_size_def Let_def evictOldest_def)
  next
    case False
    with r1 have "reg_sessions r1 \<noteq> []" by simp
    from evictOldest_spec [OF ok this] obtain i s where h: "(i, s) \<in> set (reg_sessions r1)"
      "\<forall>e \<in> set (reg_sessions r1). lastSeenAt s \<le> lastSeenAt (snd e)" "i \<noteq> []"
      "evictOldest ''capacity-evict-oldest'' r1 =
         (Some i, r1\<lparr> reg_sessions := filter (\<lambda>e. fst e \<noteq> i) (reg_sessions r1),
                    reg_closed := reg_closed r1 @ [(i, s, ''capacity-evict-oldest'')] \<rparr>)"
      by blast
    from False have "\<not> reg_size r1 < reg_maxSessions r1" by (simp add: r1 reg_size_def)
    with h have "reserveCapacity now r = (\<lparr> cap_allowed = True, cap_evictedSessionId = Some i,
        cap_reason = Some ''capacity-evict-oldest'' \<rparr>,
      r1\<lparr> reg_sessions := filter (\<lambda>e. fst e \<noteq> i) (reg_sessions r1),
          reg_closed := reg_closed r1 @ [(i, s, ''capacity-evict-oldest'')] \<rparr>)"
      by (simp add: reserveCapacity_def r1_def [symmetric])
    with False h(1,2) show ?thesis
      by (simp add: Let_def) (rule exI [of _ s], simp add: r1)
  qed
qed

theorem reserveCapacity_evicts_least_recent_witness:
  "let r = \<lparr> reg_sessions = [(''a'', \<lparr>lastSeenAt = 5\<rparr>), (''b'', \<lparr>lastSeenAt = 90\<rparr>), (''c'', \<lparr>lastSeenAt = 80\<rparr>)],
             reg_maxSessions = 2, reg_sessionIdleTtlMs = 50, reg_closed = [] \<rparr>
   in cap_evictedSessionId (fst (reserveCapacity 100 r)) = Some ''c'' \<and> length (reg_closed (snd (reserveCapacity 100 r))) = 2"
proof -
  define r where "r = \<lparr> reg_sessions = [(''a'', \<lparr>lastSeenAt = 5\<rparr>), (''b'', \<lparr>lastSeenAt = 90\<rparr>), (''c'', \<lparr>lastSeenAt = 80\<rparr>)],
             reg_maxSessions = 2, reg_sessionIdleTtlMs = 50, reg_closed = [] \<rparr>"
  have ok: "reg_ok r" by (simp add: r_def reg_ok_def jsmap_ok_def)
  have l: "live_sessions 100 r = [(''b'', \<lparr>lastSeenAt = 90\<rparr>), (''c'', \<lparr>lastSeenAt = 80\<rparr>)]"
    "idle_closings 100 r = [(''a'', \<lparr>lastSeenAt = 5\<rparr>, ''idle-timeout'')]" "reg_maxSessions r = 2"
    by (simp_all add: live_sessions_def idle_closings_def r_def isExpired_def)
  show ?thesis
    using reserveCapacity_evicts_least_recent [OF ok, of 100]
    by (auto simp: Let_def l r_def [symmetric] split: prod.splits) (simp_all add: r_def)
qed

subsection \<open>The bound on open sessions\<close>

text \<open>
  The operations of the HTTP server on the registry. A legacy SSE connection reserves capacity and
  stores its session in one go (\<open>handleLegacySseConnection\<close>), which is \<open>opens\<close>.
\<close>

inductive http_step :: "'x http_session_scheme http_registry \<Rightarrow> 'x http_session_scheme http_registry \<Rightarrow> bool" where
  opens: "reserveCapacity now r = (res, r1) \<Longrightarrow> cap_allowed res \<Longrightarrow> sessionId \<noteq> [] \<Longrightarrow>
     http_step r (reg_set sessionId session r1)"
| refused: "reserveCapacity now r = (res, r1) \<Longrightarrow> \<not> cap_allowed res \<Longrightarrow> http_step r r1"
| lookup: "http_step r (snd (getActive now now' sessionId r))"
| cleanup: "http_step r (snd (cleanupExpired now r))"
| removed: "http_step r (snd (reg_delete sessionId r))"
| cleared: "http_step r (reg_clear r)"

inductive_cases http_stepE: "http_step r r'"

definition http_bound :: "int \<Rightarrow> 'x http_session_scheme http_registry \<Rightarrow> bool" where
  "http_bound M r \<longleftrightarrow> reg_ok r \<and> reg_maxSessions r = M \<and> reg_size r \<le> max 0 M"

lemma http_bound_set_existing:
  "http_bound M r \<Longrightarrow> map_get (reg_sessions r) i = Some s \<Longrightarrow> http_bound M (reg_set i s' r)"
  by (auto simp: http_bound_def reg_set_def reg_ok_def reg_size_def jsm.card_put jsm.get_put)

lemma http_bound_smaller:
  "http_bound M r \<Longrightarrow> reg_sessions r' = filter P (reg_sessions r) \<Longrightarrow> reg_maxSessions r' = reg_maxSessions r \<Longrightarrow>
   http_bound M r'"
  by (auto simp: http_bound_def reg_size_def intro: reg_ok_filter order_trans [OF _ length_filter_le]
      order_trans [OF of_nat_mono [OF length_filter_le]])

lemma http_bound_close: "http_bound M r \<Longrightarrow> http_bound M (snd (reg_close i reason r))"
  by (rule http_bound_smaller [of M r _ "\<lambda>e. fst e \<noteq> i \<or> map_get (reg_sessions r) i = None"])
    (auto simp: reg_close_def map_delete_filter split: option.splits)

lemma http_bound_cleanup: "http_bound M r \<Longrightarrow> http_bound M (snd (cleanupExpired now r))"
  by (rule http_bound_smaller) (auto simp: http_bound_def cleanupExpired_live live_sessions_def)

lemma http_bound_reserve:
  assumes "http_bound M r" and "reserveCapacity now r = (res, r1)"
  shows "http_bound M r1" and "cap_allowed res \<Longrightarrow> reg_size r1 < M"
proof -
  define r0 where "r0 = snd (cleanupExpired now r)"
  have b: "http_bound M r0" using assms(1) by (simp add: r0_def http_bound_cleanup)
  have "http_bound M r1 \<and> (cap_allowed res \<longrightarrow> reg_size r1 < M)"
  proof (cases "reg_size r0 < M \<or> reg_sessions r0 = []")
    case True
    with assms(2) b show ?thesis
      by (auto simp: reserveCapacity_def r0_def [symmetric] Let_def http_bound_def evictOldest_def split: if_splits)
  next
    case False
    with b have "reg_ok r0" "reg_sessions r0 \<noteq> []" by (simp_all add: http_bound_def)
    from evictOldest_spec [OF this] obtain i s where h: "(i, s) \<in> set (reg_sessions r0)"
      "evictOldest ''capacity-evict-oldest'' r0 =
         (Some i, r0\<lparr> reg_sessions := filter (\<lambda>e. fst e \<noteq> i) (reg_sessions r0),
                    reg_closed := reg_closed r0 @ [(i, s, ''capacity-evict-oldest'')] \<rparr>)"
      by blast
    then have "length (filter (\<lambda>e. fst e \<noteq> i) (reg_sessions r0)) < length (reg_sessions r0)"
      by (auto intro: length_filter_less)
    moreover have "http_bound M (r0\<lparr> reg_sessions := filter (\<lambda>e. fst e \<noteq> i) (reg_sessions r0),
                    reg_closed := reg_closed r0 @ [(i, s, ''capacity-evict-oldest'')] \<rparr>)"
      using b by (rule http_bound_smaller) simp_all
    ultimately show ?thesis using False assms(2) h(2) b
      by (auto simp: reserveCapacity_def r0_def [symmetric] http_bound_def reg_size_def)
  qed
  then show "http_bound M r1" and "cap_allowed res \<Longrightarrow> reg_size r1 < M" by simp_all
qed

interpretation http_ts: transition_system "\<lambda>r. r = newHttpSessionRegistry M ttl" http_step "http_bound M" for M ttl
proof unfold_locales
  show "http_bound M r" if "r = newHttpSessionRegistry M ttl" for r :: "'a http_session_scheme http_registry"
    using that by (simp add: newHttpSessionRegistry_def http_bound_def reg_ok_def jsmap_ok_def reg_size_def)
  show "http_bound M r'" if "http_bound M r" "http_step r r'" for r r' :: "'a http_session_scheme http_registry"
    using that(2,1)
  proof cases
    case (opens now res r1 i s)
    with http_bound_reserve [OF that(1) opens(2)] show ?thesis
      by (auto simp: http_bound_def reg_set_def reg_ok_def reg_size_def jsm.card_put jsm.get_put)
  next
    case (refused now res)
    then show ?thesis using http_bound_reserve(1) that(1) by blast
  next
    case (lookup now now' i)
    then show ?thesis using that(1)
      by (auto simp: getActive_def reg_get_def Let_def http_bound_close http_bound_set_existing split: option.splits)
  next
    case (removed i)
    then show ?thesis using that(1) by (auto intro!: http_bound_smaller [of M r] simp: reg_delete_def map_delete_filter)
  next
    case cleared
    then show ?thesis using that(1) by (auto intro!: http_bound_smaller [of M r _ "\<lambda>_. False"] simp: reg_clear_def)
  qed (simp add: http_bound_cleanup)
qed

text \<open>
  While each connection stores its session in the step that reserved its place, the registry
  never holds more than the configured number of sessions, whatever the operations and the clock.
\<close>

theorem http_sessions_bounded:
  assumes "http_step\<^sup>*\<^sup>* (newHttpSessionRegistry M ttl) r"
  shows "reg_size r \<le> max 0 M"
  using http_ts.inv_reachable [OF refl assms] by (simp add: http_bound_def)

theorem http_sessions_bounded_witness:
  "reg_size (reg_set ''a'' \<lparr>lastSeenAt = 3\<rparr> (newHttpSessionRegistry 2 60)) \<le> max 0 2"
proof -
  let ?r = "newHttpSessionRegistry 2 60 :: http_session http_registry"
  have "reserveCapacity 3 ?r = (\<lparr> cap_allowed = True, cap_evictedSessionId = None, cap_reason = None \<rparr>, ?r)"
    by (simp add: reserveCapacity_def cleanupExpired_def newHttpSessionRegistry_def reg_size_def)
  then have "http_step ?r (reg_set ''a'' \<lparr>lastSeenAt = 3\<rparr> ?r)" by (rule http_step.opens) simp_all
  then show ?thesis by (intro http_sessions_bounded [where ttl = 60]) (rule r_into_rtranclp)
qed

text \<open>
  The streamable transport stores its session only after \<open>await server.connect\<close> and
  \<open>handleRequest\<close>, so a second connection can reserve in between: nothing was reserved by the
  first, and both are stored.
\<close>

lemma interleaved_reservations_exceed_limit:
  assumes "reg_ok r" and "int (length (live_sessions now r)) + 1 = reg_maxSessions r"
    and "map_get (reg_sessions r) i = None" and "map_get (reg_sessions r) j = None" and "i \<noteq> j"
  shows "let (res1, r1) = reserveCapacity now r; (res2, r2) = reserveCapacity now r1
     in cap_allowed res1 \<and> cap_allowed res2 \<and> reg_size (reg_set j t (reg_set i s r2)) = reg_maxSessions r + 1"
proof -
  define r1 where "r1 = r\<lparr> reg_sessions := live_sessions now r, reg_closed := reg_closed r @ idle_closings now r \<rparr>"
  have r1: "snd (cleanupExpired now r) = r1" using assms(1) by (simp add: cleanupExpired_live r1_def)
  have ok: "reg_ok r1" using assms(1) by (rule reg_ok_filter) (simp add: r1_def live_sessions_def)
  have exp: "isExpired now r1 = isExpired now r" by (simp add: isExpired_def r1_def fun_eq_iff)
  have "live_sessions now r1 = live_sessions now r" "idle_closings now r1 = []"
    by (simp_all add: live_sessions_def idle_closings_def exp) (simp_all add: r1_def live_sessions_def filter_empty_conv)
  with ok have r2: "snd (cleanupExpired now r1) = r1" by (simp add: cleanupExpired_live) (simp add: r1_def)
  have "map_get (reg_sessions r1) i = None" "map_get (reg_sessions r1) j = None" "jsmap_ok (reg_sessions r1)"
    using assms by (simp_all add: r1_def live_sessions_def map_get_filter reg_ok_def)
  with assms(2,5) r1 r2 show ?thesis
    by (simp add: reserveCapacity_def Let_def reg_size_def reg_set_def jsm.card_put jsm.get_put jsm.ok_put)
      (simp add: r1_def)
qed

text \<open>
  A lookup never hands out an expired session: it closes it, notifying once, and returns
  nothing; a live one is returned touched, and a lookup of another session leaves it as it was.
\<close>

theorem getActive_never_expired:
  assumes "map_get (reg_sessions r) i = Some s" and "i \<noteq> []"
  shows "getActive now now' (Some i) r =
     (if isExpired now r s
      then (None, r\<lparr> reg_sessions := map_delete i (reg_sessions r),
                     reg_closed := reg_closed r @ [(i, s, ''idle-timeout'')] \<rparr>)
      else (Some (s\<lparr> lastSeenAt := now' \<rparr>), r\<lparr> reg_sessions := map_set i (s\<lparr> lastSeenAt := now' \<rparr>) (reg_sessions r) \<rparr>))
   \<and> (\<forall>j. j \<noteq> i \<longrightarrow> map_get (reg_sessions (snd (getActive now now' (Some i) r))) j = map_get (reg_sessions r) j)"
  using assms by (auto simp: getActive_def reg_get_def reg_close_def reg_set_def Let_def jsmap_simps)

theorem getActive_never_expired_witness:
  "let r = reg_set ''a'' \<lparr>lastSeenAt = 3\<rparr> (newHttpSessionRegistry 2 60)
   in getActive 63 64 (Some ''a'') r = (Some \<lparr>lastSeenAt = 64\<rparr>, reg_set ''a'' \<lparr>lastSeenAt = 64\<rparr> r) \<and>
      fst (getActive 64 64 (Some ''a'') r) = None"
proof -
  define r where "r = reg_set ''a'' \<lparr>lastSeenAt = 3\<rparr> (newHttpSessionRegistry 2 60)"
  have "map_get (reg_sessions r) ''a'' = Some \<lparr>lastSeenAt = 3\<rparr>"
    by (simp add: r_def reg_set_def newHttpSessionRegistry_def)
  note g = getActive_never_expired [OF this, of _ 64, simplified]
  show ?thesis unfolding Let_def r_def [symmetric]
    using g [of 63] g [of 64] by (simp add: isExpired_def) (simp add: r_def reg_set_def newHttpSessionRegistry_def)
qed

end
