(* ===== verification/PolicyGate.thy ===== *)
theory PolicyGate
  imports PolicyProps
begin

section \<open>The policy engine as the services see it\<close>

text \<open>
  Every service holds the engine behind one method, \<open>assertAllowed\<close>. The locale is that contract: in
  enforce mode an answer means that the specification permits the request, and the decision is in the
  mode that was asked for. The session manager, the tunnels and the services of a session prove their
  lemmas from it; it is interpreted on the engine.
\<close>

locale policy_gate =
  fixes gate :: "policy_context \<Rightarrow> ssh_mcp_error + policy_decision"
    and permits :: "policy_context \<Rightarrow> bool"
  assumes enforced: "gate ctx = Inr d \<Longrightarrow> px_mode ctx = Some Enforce \<Longrightarrow> permits ctx"
    and mode_kept: "gate ctx = Inr d \<Longrightarrow> px_mode ctx = Some m \<Longrightarrow> pd_mode d = m"
begin

lemma passed_permitted: "gate ctx = Inr d \<Longrightarrow> px_mode ctx = Some m \<Longrightarrow> pd_mode d \<noteq> Explain \<Longrightarrow> m = Enforce \<and> permits ctx"
  using enforced [of ctx d] mode_kept [of ctx d m] by (cases m) simp_all

end

definition engine_gate :: "policy_env \<Rightarrow> policy_config \<Rightarrow> policy_context \<Rightarrow> ssh_mcp_error + policy_decision" where
  "engine_gate env config =
     (case newPolicyEngine env config of
        Inl _ \<Rightarrow> (\<lambda>_. Inl (createPolicyError ''Operation denied by policy'' None))
      | Inr engine \<Rightarrow> (\<lambda>ctx. snd (assertAllowed env engine ctx)))"

interpretation engine: policy_gate "engine_gate env config" "permitted env config" for env config
  by unfold_locales
    (auto simp: engine_gate_def evaluate_mode split: sum.splits dest: assertAllowed_Inr)

text \<open>Conversely an engine that could be built lets pass what the specification permits.\<close>

lemma engine_gate_passes:
  assumes "newPolicyEngine env config = Inr engine" and "permitted env config ctx"
  shows "\<exists>d. engine_gate env config ctx = Inr d \<and> (px_mode ctx = Some Enforce \<longrightarrow> pd_mode d = Enforce)"
  using assms policy_refines [OF assms(1), of ctx]
  by (simp add: engine_gate_def assertAllowed_def Let_def evaluate_mode)

lemma demo_gate_passes:
  assumes "permitted demo_env demo_config ctx" and "px_mode ctx = Some Enforce"
  obtains d where "engine_gate demo_env demo_config ctx = Inr d" "pd_mode d = Enforce"
  using engine_gate_passes [OF demo_engine_new assms(1)] assms(2) by blast

end
