(* ===== verification/SessionAuth.thy ===== *)
theory SessionAuth
  imports Regex Paths Errors
begin

section \<open>Host keys and credentials: \<open>src/session-auth.ts\<close>\<close>

text \<open>
  Fingerprints, the \<open>known_hosts\<close> reader and the builders of authentication settings. The
  cryptographic digests of \<open>node:crypto\<close>, the environment and the file system are one record of
  parameters: \<open>ae_sha256_base64\<close> and \<open>ae_sha256_hex\<close> are the SHA-256 of a decoded key blob
  in the two encodings, \<open>ae_hmac_sha1 salt text\<close> the base64 HMAC-SHA1 under a base64 salt, and
  \<open>ae_readFile\<close>, \<open>ae_readable\<close> read a file and test that it may be read.
\<close>

record auth_env =
  ae_sha256_base64 :: "string \<Rightarrow> string"
  ae_sha256_hex :: "string \<Rightarrow> string"
  ae_hmac_sha1 :: "string \<Rightarrow> string \<Rightarrow> string"
  ae_homedir :: string
  ae_sshAuthSock :: "string option"
  ae_sshDefaultKeyDir :: "string option"
  ae_readFile :: "string \<Rightarrow> string option"
  ae_readable :: "string \<Rightarrow> bool"

record ssh_auth_config =
  ac_password :: "string option"
  ac_privateKey :: "string option"
  ac_passphrase :: "string option"
  ac_agent :: "string option"

definition KNOWN_HOST_KEY_TYPES :: "string list" where
  "KNOWN_HOST_KEY_TYPES =
     [''ssh-ed25519'', ''ssh-ed25519-cert-v01@openssh.com'',
      ''ssh-rsa'', ''ssh-rsa-cert-v01@openssh.com'',
      ''rsa-sha2-256'', ''rsa-sha2-256-cert-v01@openssh.com'',
      ''rsa-sha2-512'', ''rsa-sha2-512-cert-v01@openssh.com'',
      ''ecdsa-sha2-nistp256'', ''ecdsa-sha2-nistp256-cert-v01@openssh.com'',
      ''ecdsa-sha2-nistp384'', ''ecdsa-sha2-nistp384-cert-v01@openssh.com'',
      ''ecdsa-sha2-nistp521'', ''ecdsa-sha2-nistp521-cert-v01@openssh.com'',
      ''sk-ssh-ed25519@openssh.com'', ''sk-ssh-ed25519-cert-v01@openssh.com'',
      ''sk-ecdsa-sha2-nistp256@openssh.com'', ''sk-ecdsa-sha2-nistp256-cert-v01@openssh.com'']"

definition normalizeSha256Fingerprint :: "string \<Rightarrow> string" where
  "normalizeSha256Fingerprint fingerprint =
     trim (if to_lower (take 7 fingerprint) = ''sha256:'' then drop 7 fingerprint else fingerprint)"

definition knownHostKeyFingerprints :: "auth_env \<Rightarrow> string \<Rightarrow> string list" where
  "knownHostKeyFingerprints env keyBlob =
     [filter (\<lambda>c. c \<noteq> CHR ''='') (ae_sha256_base64 env keyBlob), ae_sha256_hex env keyBlob]"

text \<open>The random UUID is an argument.\<close>

definition generateSessionId :: "string \<Rightarrow> string" where
  "generateSessionId uuid = ''ssh-'' @ uuid"

subsection \<open>Credentials\<close>

definition no_auth :: ssh_auth_config where
  "no_auth = \<lparr> ac_password = None, ac_privateKey = None, ac_passphrase = None, ac_agent = None \<rparr>"

definition buildAgentAuth :: "auth_env \<Rightarrow> thrown + ssh_auth_config" where
  "buildAgentAuth env =
     (if \<not> truthy (ae_sshAuthSock env) then
        Inl (MCPError (createAuthError ''SSH agent not available''
          (Some ''Set SSH_AUTH_SOCK environment variable or use a different auth method'')))
      else Inr (no_auth\<lparr> ac_agent := ae_sshAuthSock env \<rparr>))"

definition loadPrivateKeyFromPath :: "auth_env \<Rightarrow> string \<Rightarrow> string option \<Rightarrow> thrown + ssh_auth_config" where
  "loadPrivateKeyFromPath env keyPath passphrase =
     (case ae_readFile env keyPath of
        Some privateKey \<Rightarrow> Inr (no_auth\<lparr> ac_privateKey := Some privateKey, ac_passphrase := passphrase \<rparr>)
      | None \<Rightarrow>
          Inl (MCPError (createAuthError (''Failed to load private key from '' @ keyPath)
            (Some ''Check if the file exists and is readable''))))"

definition keyFiles :: "string list" where
  "keyFiles = [''id_ed25519'', ''id_ecdsa'', ''id_ed25519_sk'', ''id_ecdsa_sk'', ''id_rsa'']"

fun discover_loop :: "auth_env \<Rightarrow> string \<Rightarrow> string option \<Rightarrow> string list \<Rightarrow> ssh_auth_config option" where
  "discover_loop env keyDir passphrase [] = None"
| "discover_loop env keyDir passphrase (keyFile # rest) =
     (let keyPath = posix_join [keyDir, keyFile] in
      if ae_readable env keyPath then
        case loadPrivateKeyFromPath env keyPath passphrase of
          Inr cfg \<Rightarrow> Some cfg
        | Inl _ \<Rightarrow> discover_loop env keyDir passphrase rest
      else discover_loop env keyDir passphrase rest)"

definition discoverPrivateKeys :: "auth_env \<Rightarrow> string option \<Rightarrow> thrown + ssh_auth_config" where
  "discoverPrivateKeys env passphrase =
     (let keyDir = (case ae_sshDefaultKeyDir env of
                      Some d \<Rightarrow> d | None \<Rightarrow> posix_join [ae_homedir env, ''.ssh''])
      in case discover_loop env keyDir passphrase keyFiles of
           Some cfg \<Rightarrow> Inr cfg
         | None \<Rightarrow>
             Inl (MCPError (createAuthError ''No SSH private keys found in standard locations''
               (Some (''Checked: '' @ join '', '' (map (\<lambda>f. posix_join [keyDir, f]) keyFiles))))))"

subsection \<open>Reading \<open>known_hosts\<close>\<close>

text \<open>\<open>s.split(/\\s+/)\<close>: \<open>g\<close> says that the last character was white space, \<open>acc\<close> is the current piece.\<close>

fun split_ws :: "bool \<Rightarrow> string \<Rightarrow> string \<Rightarrow> string list" where
  "split_ws g acc [] = [rev acc]"
| "split_ws g acc (c # cs) =
     (if is_ws c then (if g then split_ws True acc cs else rev acc # split_ws True [] cs)
      else split_ws False (c # acc) cs)"

text \<open>\<open>s.split(/\\r?\\n/)\<close>.\<close>

fun split_lines :: "string \<Rightarrow> string \<Rightarrow> string list" where
  "split_lines acc [] = [rev acc]"
| "split_lines acc (c # cs) =
     (if c = LF then rev (case acc of d # ds \<Rightarrow> if d = CR then ds else acc | [] \<Rightarrow> []) # split_lines [] cs
      else split_lines (c # acc) cs)"

lemma split_ws_nonempty: "split_ws g acc s \<noteq> []"
  by (induction g acc s rule: split_ws.induct) auto

record known_host =
  kh_marker :: "string option"
  kh_hosts :: string
  kh_keyBlob :: string

definition parseKnownHostLine :: "string \<Rightarrow> known_host option" where
  "parseKnownHostLine line =
     (let trimmed = trim line in
      if trimmed = [] \<or> hd trimmed = CHR ''#'' then None
      else let parts = split_ws False [] trimmed in
        if prefix ''@'' (hd parts) then
          if length parts < 4 then None
          else if parts ! 2 \<notin> set KNOWN_HOST_KEY_TYPES then None
          else Some \<lparr> kh_marker = Some (parts ! 0), kh_hosts = parts ! 1, kh_keyBlob = parts ! 3 \<rparr>
        else if length parts < 3 then None
        else if parts ! 1 \<notin> set KNOWN_HOST_KEY_TYPES then None
        else Some \<lparr> kh_marker = None, kh_hosts = parts ! 0, kh_keyBlob = parts ! 2 \<rparr>)"

text \<open>\<open>/^\\|1\\|([^|]+)\\|([^|]+)$/u\<close> captures the salt and the digest.\<close>

definition hashed_parts :: "string \<Rightarrow> (string \<times> string) option" where
  "hashed_parts pattern =
     (case split_on (\<lambda>c. c = CHR ''|'') pattern of
        [a, b, salt, digest] \<Rightarrow> if a = [] \<and> b = ''1'' \<and> salt \<noteq> [] \<and> digest \<noteq> [] then Some (salt, digest) else None
      | _ \<Rightarrow> None)"

definition hashedKnownHostPatternMatches :: "auth_env \<Rightarrow> string \<Rightarrow> string list \<Rightarrow> bool" where
  "hashedKnownHostPatternMatches env pattern candidates =
     (case hashed_parts pattern of
        None \<Rightarrow> False
      | Some (salt, expected) \<Rightarrow> list_ex (\<lambda>candidate. ae_hmac_sha1 env salt candidate = expected) candidates)"

text \<open>
  The regular expression built from a pattern: every character but \<open>*\<close> and \<open>?\<close> is escaped;
  the result is anchored at both ends.
\<close>

fun glob_regex :: "string \<Rightarrow> regex" where
  "glob_regex [] = RxEnd"
| "glob_regex (c # cs) =
     RxSeq (if c = CHR ''*'' then RxStar rx_dot else if c = CHR ''?'' then rx_dot else RxChar (\<lambda>x. x = c))
           (glob_regex cs)"

definition host_candidates :: "string \<Rightarrow> int \<Rightarrow> string list" where
  "host_candidates host port = [host, ''['' @ host @ '']:'' @ show_int port]"

fun known_host_pattern_loop :: "auth_env \<Rightarrow> string \<Rightarrow> string list \<Rightarrow> string list \<Rightarrow> bool" where
  "known_host_pattern_loop env host candidates [] = False"
| "known_host_pattern_loop env host candidates (pattern # rest) =
     (if prefix ''|'' pattern then
        if hashedKnownHostPatternMatches env pattern candidates then True
        else known_host_pattern_loop env host candidates rest
      else if pattern \<in> set candidates then True
      else if rx_rests (glob_regex pattern) host \<noteq> [] then True
      else known_host_pattern_loop env host candidates rest)"

definition knownHostPatternMatches :: "auth_env \<Rightarrow> string \<Rightarrow> string \<Rightarrow> int \<Rightarrow> bool" where
  "knownHostPatternMatches env hosts host port =
     known_host_pattern_loop env host (host_candidates host port) (split_on (\<lambda>c. c = CHR '','') hosts)"

text \<open>\<open>SessionManager.verifyKnownHostKey\<close> of \<open>src/session.ts\<close>, which consumes the parsed lines.\<close>

fun known_hosts_loop :: "auth_env \<Rightarrow> string \<Rightarrow> int \<Rightarrow> string \<Rightarrow> string list \<Rightarrow> bool" where
  "known_hosts_loop env host port expected [] = False"
| "known_hosts_loop env host port expected (line # rest) =
     (case parseKnownHostLine line of
        None \<Rightarrow> known_hosts_loop env host port expected rest
      | Some parsed \<Rightarrow>
          if \<not> knownHostPatternMatches env (kh_hosts parsed) host port
          then known_hosts_loop env host port expected rest
          else if kh_marker parsed = Some ''@revoked'' then False
          else if list_ex (\<lambda>f. normalizeSha256Fingerprint f = expected)
                    (knownHostKeyFingerprints env (kh_keyBlob parsed)) then True
          else known_hosts_loop env host port expected rest)"

definition verifyKnownHostKey :: "auth_env \<Rightarrow> string \<Rightarrow> int \<Rightarrow> string \<Rightarrow> string \<Rightarrow> bool" where
  "verifyKnownHostKey env host port knownHostsPath hashedKey =
     (if knownHostsPath = [] then False
      else case ae_readFile env knownHostsPath of
        None \<Rightarrow> False
      | Some contents \<Rightarrow>
          known_hosts_loop env host port (normalizeSha256Fingerprint hashedKey) (split_lines [] contents))"

subsection \<open>Patterns\<close>

text \<open>A reference matcher for the glob patterns of \<open>known_hosts\<close>.\<close>

fun glob_matches :: "string \<Rightarrow> string \<Rightarrow> bool" where
  "glob_matches [] s = (s = [])"
| "glob_matches (c # cs) s =
     (if c = CHR ''*'' then list_ex (glob_matches cs)
           (map (\<lambda>n. drop n s) [0..<Suc (length (takeWhile (\<lambda>x. x \<noteq> LF \<and> x \<noteq> CR) s))])
      else case s of [] \<Rightarrow> False
        | x # xs \<Rightarrow> (if c = CHR ''?'' then x \<noteq> LF \<and> x \<noteq> CR else x = c) \<and> glob_matches cs xs)"

lemma rx_match_dots: "rx_match (RxStar rx_dot) s t \<longleftrightarrow>
  (\<exists>n \<le> length (takeWhile (\<lambda>x. x \<noteq> LF \<and> x \<noteq> CR) s). t = drop n s)"
proof
  assume "rx_match (RxStar rx_dot) s t"
  then obtain u where u: "s = u @ t" "\<forall>c \<in> set u. c \<noteq> LF \<and> c \<noteq> CR"
    unfolding rx_dot_def rx_match_star_char by blast
  then have "length u \<le> length (takeWhile (\<lambda>x. x \<noteq> LF \<and> x \<noteq> CR) s)" by simp
  with u(1) show "\<exists>n \<le> length (takeWhile (\<lambda>x. x \<noteq> LF \<and> x \<noteq> CR) s). t = drop n s" by auto
next
  assume "\<exists>n \<le> length (takeWhile (\<lambda>x. x \<noteq> LF \<and> x \<noteq> CR) s). t = drop n s"
  then obtain n where n: "n \<le> length (takeWhile (\<lambda>x. x \<noteq> LF \<and> x \<noteq> CR) s)" "t = drop n s" by blast
  have "take n (take (length (takeWhile (\<lambda>x. x \<noteq> LF \<and> x \<noteq> CR) s)) s) = take n s"
    using n(1) by (simp add: min_absorb1)
  then have "take n s = take n (takeWhile (\<lambda>x. x \<noteq> LF \<and> x \<noteq> CR) s)"
    by (simp only: takeWhile_eq_take [symmetric])
  then have "\<forall>c \<in> set (take n s). c \<noteq> LF \<and> c \<noteq> CR" by (auto dest: in_set_takeD set_takeWhileD)
  moreover have "s = take n s @ t" by (simp add: n(2))
  ultimately show "rx_match (RxStar rx_dot) s t" unfolding rx_dot_def rx_match_star_char by blast
qed

lemma rx_match_end_iff: "rx_match RxEnd s t \<longleftrightarrow> s = [] \<and> t = []"
  by (auto intro: rx_match.intros elim: rx_match.cases)

lemma glob_regex_match: "(\<exists>t. rx_match (glob_regex p) s t) \<longleftrightarrow> glob_matches p s"
proof (induction p arbitrary: s)
  case (Cons c cs)
  consider "c = CHR ''*''" | "c = CHR ''?''" | "c \<noteq> CHR ''*''" "c \<noteq> CHR ''?''" by blast
  then show ?case
  proof cases
    case 1
    have "(\<exists>t. rx_match (glob_regex (c # cs)) s t) \<longleftrightarrow>
        (\<exists>n \<le> length (takeWhile (\<lambda>x. x \<noteq> LF \<and> x \<noteq> CR) s). \<exists>t. rx_match (glob_regex cs) (drop n s) t)"
      by (auto simp: 1 rx_match_seq_iff rx_match_dots)
    then show ?thesis by (auto simp: 1 Cons.IH list_ex_iff less_Suc_eq_le simp del: upt_Suc)
  next
    case 2
    have "(\<exists>t. rx_match (glob_regex (c # cs)) s t) \<longleftrightarrow>
        (\<exists>x xs. s = x # xs \<and> x \<noteq> LF \<and> x \<noteq> CR \<and> (\<exists>t. rx_match (glob_regex cs) xs t))"
      by (auto simp: 2 rx_match_seq_iff rx_match_char_iff rx_dot_def)
    then show ?thesis by (cases s) (auto simp: 2 Cons.IH)
  next
    case 3
    have "(\<exists>t. rx_match (glob_regex (c # cs)) s t) \<longleftrightarrow>
        (\<exists>xs. s = c # xs \<and> (\<exists>t. rx_match (glob_regex cs) xs t))"
      using 3 by (auto simp: rx_match_seq_iff rx_match_char_iff)
    then show ?thesis using 3 by (cases s) (auto simp: Cons.IH)
  qed
next
  case Nil
  have "(\<exists>t. rx_match RxEnd s t) \<longleftrightarrow> s = []" by (simp only: rx_match_end_iff) blast
  then show ?case by simp
qed

lemma glob_regex_test: "rx_rests (glob_regex p) s \<noteq> [] \<longleftrightarrow> glob_matches p s"
  by (simp add: rx_rests_nonempty glob_regex_match)

text \<open>When one comma-separated pattern names the host.\<close>

definition pattern_names_host :: "auth_env \<Rightarrow> string \<Rightarrow> int \<Rightarrow> string \<Rightarrow> bool" where
  "pattern_names_host env host port pattern \<longleftrightarrow>
     (if prefix ''|'' pattern then
        (case hashed_parts pattern of None \<Rightarrow> False
         | Some (salt, digest) \<Rightarrow>
             digest = ae_hmac_sha1 env salt host \<or>
             digest = ae_hmac_sha1 env salt (''['' @ host @ '']:'' @ show_int port))
      else pattern = host \<or> pattern = ''['' @ host @ '']:'' @ show_int port \<or> glob_matches pattern host)"

lemma known_host_pattern_loop_iff:
  "known_host_pattern_loop env host (host_candidates host port) ps \<longleftrightarrow>
     (\<exists>p \<in> set ps. pattern_names_host env host port p)"
proof (induction ps)
  case (Cons p ps)
  have "known_host_pattern_loop env host (host_candidates host port) (p # ps) \<longleftrightarrow>
      pattern_names_host env host port p \<or> known_host_pattern_loop env host (host_candidates host port) ps"
    using glob_regex_test [of p host]
    by (cases "hashed_parts p")
      (auto simp: pattern_names_host_def hashedKnownHostPatternMatches_def host_candidates_def
        simp del: known_host_pattern_loop.simps(1) not_Cons_self)
  then show ?case by (simp add: Cons.IH)
qed simp

text \<open>
  A \<open>known_hosts\<close> host field names a host exactly when one of its comma-separated patterns does:
  a hashed one by its salted digest of the host or of the bracketed host and port, a plain one
  literally or as a glob in which \<open>*\<close> and \<open>?\<close> stand for any characters of one line.
\<close>

theorem knownHostPatternMatches_iff:
  "knownHostPatternMatches env hosts host port \<longleftrightarrow>
     (\<exists>p \<in> set (split_on (\<lambda>c. c = CHR '','') hosts). pattern_names_host env host port p)"
  by (simp add: knownHostPatternMatches_def known_host_pattern_loop_iff)

subsection \<open>Lines\<close>

text \<open>
  The entry a line is, by its white-space separated fields: the marker, if the first one starts with \<open>@\<close>,
  the hosts, one of the known key types, and the key. Every other line is no entry.
\<close>

definition line_fields :: "string \<Rightarrow> string list" where
  "line_fields line = split_ws False [] (trim line)"

definition entry_line :: "string \<Rightarrow> known_host \<Rightarrow> bool" where
  "entry_line line k \<longleftrightarrow>
     trim line \<noteq> [] \<and> hd (trim line) \<noteq> CHR ''#'' \<and>
     (\<exists>key_type \<in> set KNOWN_HOST_KEY_TYPES. \<exists>more.
        (case kh_marker k of
           Some m \<Rightarrow> prefix ''@'' m \<and> line_fields line = m # kh_hosts k # key_type # kh_keyBlob k # more
         | None \<Rightarrow> \<not> prefix ''@'' (kh_hosts k) \<and> line_fields line = kh_hosts k # key_type # kh_keyBlob k # more))"

lemma length_ge_Cons: "(Suc n \<le> length xs) = (\<exists>y ys. xs = y # ys \<and> n \<le> length ys)"
  by (cases xs) auto

lemma parseKnownHostLine_iff: "parseKnownHostLine line = Some k \<longleftrightarrow> entry_line line k"
proof (cases "trim line = [] \<or> hd (trim line) = CHR ''#''")
  case True
  then show ?thesis by (auto simp: parseKnownHostLine_def entry_line_def Let_def)
next
  case False
  obtain f fs where f: "split_ws False [] (trim line) = f # fs"
    using split_ws_nonempty by (metis neq_Nil_conv)
  show ?thesis
  proof (cases "prefix ''@'' f")
    case at: True
    have "parseKnownHostLine line = Some k \<longleftrightarrow> (\<exists>hosts t blob more. fs = hosts # t # blob # more \<and>
        t \<in> set KNOWN_HOST_KEY_TYPES \<and> k = \<lparr> kh_marker = Some f, kh_hosts = hosts, kh_keyBlob = blob \<rparr>)"
      using False at f by (auto simp: parseKnownHostLine_def Let_def not_less numeral_eq_Suc length_ge_Cons)
    then show ?thesis
      using False at f by (cases k) (auto simp: entry_line_def line_fields_def split: option.splits)
  next
    case plain: False
    have "parseKnownHostLine line = Some k \<longleftrightarrow> (\<exists>t blob more. fs = t # blob # more \<and>
        t \<in> set KNOWN_HOST_KEY_TYPES \<and> k = \<lparr> kh_marker = None, kh_hosts = f, kh_keyBlob = blob \<rparr>)"
      using False plain f by (auto simp: parseKnownHostLine_def Let_def not_less numeral_eq_Suc length_ge_Cons)
    then show ?thesis
      using False plain f by (cases k) (auto simp: entry_line_def line_fields_def split: option.splits)
  qed
qed

lemma unknown_key_type_ignored:
  "line_fields line ! 1 \<notin> set KNOWN_HOST_KEY_TYPES \<Longrightarrow> line_fields line ! 2 \<notin> set KNOWN_HOST_KEY_TYPES \<Longrightarrow>
   parseKnownHostLine line = None"
  by (cases "parseKnownHostLine line") (auto simp: parseKnownHostLine_iff entry_line_def split: option.splits)

subsection \<open>Which keys are accepted\<close>

definition line_for_host :: "auth_env \<Rightarrow> string \<Rightarrow> int \<Rightarrow> string \<Rightarrow> known_host option" where
  "line_for_host env host port line =
     (case parseKnownHostLine line of
        Some k \<Rightarrow> if knownHostPatternMatches env (kh_hosts k) host port then Some k else None
      | None \<Rightarrow> None)"

definition revokes :: "known_host option \<Rightarrow> bool" where
  "revokes k \<longleftrightarrow> (\<exists>r. k = Some r \<and> kh_marker r = Some ''@revoked'')"

definition vouches :: "auth_env \<Rightarrow> string \<Rightarrow> known_host option \<Rightarrow> bool" where
  "vouches env hashedKey k \<longleftrightarrow> (\<exists>r. k = Some r \<and> kh_marker r \<noteq> Some ''@revoked'' \<and>
     (\<exists>f \<in> set (knownHostKeyFingerprints env (kh_keyBlob r)).
        normalizeSha256Fingerprint f = normalizeSha256Fingerprint hashedKey))"

lemma vouches_not_revokes: "vouches env h k \<Longrightarrow> \<not> revokes k"
  by (auto simp: vouches_def revokes_def)

lemma known_hosts_loop_Cons:
  "known_hosts_loop env host port (normalizeSha256Fingerprint h) (l # ls) \<longleftrightarrow>
     vouches env h (line_for_host env host port l) \<or>
     \<not> revokes (line_for_host env host port l) \<and> known_hosts_loop env host port (normalizeSha256Fingerprint h) ls"
proof (cases "line_for_host env host port l")
  case None
  then show ?thesis by (auto simp: line_for_host_def vouches_def revokes_def split: option.splits if_splits)
next
  case (Some k)
  then have "parseKnownHostLine l = Some k" "knownHostPatternMatches env (kh_hosts k) host port"
    by (auto simp: line_for_host_def split: option.splits if_splits)
  with Some show ?thesis by (auto simp: vouches_def revokes_def list_ex_iff)
qed

lemma known_hosts_loop_iff:
  "known_hosts_loop env host port (normalizeSha256Fingerprint h) ls \<longleftrightarrow>
     (\<exists>n < length ls. vouches env h (line_for_host env host port (ls ! n)) \<and>
        (\<forall>m < n. \<not> revokes (line_for_host env host port (ls ! m))))"
proof (induction ls)
  case (Cons l ls)
  have shift: "(\<exists>n < length (l # ls). vouches env h (line_for_host env host port ((l # ls) ! n)) \<and>
        (\<forall>m < n. \<not> revokes (line_for_host env host port ((l # ls) ! m)))) \<longleftrightarrow>
     vouches env h (line_for_host env host port l) \<or>
     \<not> revokes (line_for_host env host port l) \<and>
       (\<exists>n < length ls. vouches env h (line_for_host env host port (ls ! n)) \<and>
        (\<forall>m < n. \<not> revokes (line_for_host env host port (ls ! m))))"
    by (auto simp: Ex_less_Suc2 All_less_Suc2)
  show ?case unfolding shift known_hosts_loop_Cons Cons.IH
    using vouches_not_revokes by blast
qed simp

text \<open>
  C37: a server key is accepted against a \<open>known_hosts\<close> file exactly when some line for the host, with
  a recognised key type and not marked revoked, has that key's fingerprint, and no line before it
  for the same host is marked revoked; without a readable file no key is accepted.
\<close>

theorem verifyKnownHostKey_iff:
  "verifyKnownHostKey env host port path hashedKey \<longleftrightarrow>
     path \<noteq> [] \<and> (\<exists>contents. ae_readFile env path = Some contents \<and>
       (\<exists>n < length (split_lines [] contents).
          vouches env hashedKey (line_for_host env host port (split_lines [] contents ! n)) \<and>
          (\<forall>m < n. \<not> revokes (line_for_host env host port (split_lines [] contents ! m)))))"
  by (simp add: verifyKnownHostKey_def known_hosts_loop_iff split: option.split)

definition demo_auth_env :: auth_env where
  "demo_auth_env = \<lparr> ae_sha256_base64 = (\<lambda>blob. blob @ ''=''), ae_sha256_hex = (\<lambda>blob. ''00''),
     ae_hmac_sha1 = (\<lambda>salt text. salt @ text), ae_homedir = ''/home/me'', ae_sshAuthSock = Some ''/run/agent'',
     ae_sshDefaultKeyDir = None,
     ae_readFile = (\<lambda>path. if path = ''/kh'' then Some ''# hosts\<newline>*.example ssh-ed25519 KEY'' else None),
     ae_readable = (\<lambda>path. path = ''/kh'') \<rparr>"

theorem verifyKnownHostKey_iff_witness:
  "verifyKnownHostKey demo_auth_env ''a.example'' 22 ''/kh'' ''SHA256:KEY''"
proof -
  have l: "split_lines [] ''# hosts\<newline>*.example ssh-ed25519 KEY'' = [''# hosts'', ''*.example ssh-ed25519 KEY'']"
    by code_simp
  have p: "parseKnownHostLine ''# hosts'' = None" "parseKnownHostLine ''*.example ssh-ed25519 KEY'' =
      Some \<lparr> kh_marker = None, kh_hosts = ''*.example'', kh_keyBlob = ''KEY'' \<rparr>" by code_simp+
  have m: "knownHostPatternMatches demo_auth_env ''*.example'' ''a.example'' 22"
    unfolding knownHostPatternMatches_def known_host_pattern_loop_iff by (simp add: pattern_names_host_def upt_rec)
  have n: "normalizeSha256Fingerprint ''SHA256:KEY'' = normalizeSha256Fingerprint ''KEY''" by code_simp
  have f: "vouches demo_auth_env ''SHA256:KEY'' (Some \<lparr> kh_marker = None, kh_hosts = ''*.example'', kh_keyBlob = ''KEY'' \<rparr>)"
    by (simp add: vouches_def knownHostKeyFingerprints_def)
      (simp add: demo_auth_env_def n)
  show ?thesis
    unfolding verifyKnownHostKey_iff
    by (intro conjI exI [of _ "''# hosts\<newline>*.example ssh-ed25519 KEY''"] exI [of _ 1])
      (simp_all add: demo_auth_env_def [THEN arg_cong [of _ _ ae_readFile]] l line_for_host_def p m f revokes_def)
qed

text \<open>
  A revocation that stands after a line with the key is never read, and a negated pattern is taken
  literally, so that the wildcard beside it still names the host.
\<close>

lemma later_revocation_ignored:
  "known_hosts_loop env host port expected ls \<Longrightarrow> known_hosts_loop env host port expected (ls @ revoked)"
  by (induction env host port expected ls rule: known_hosts_loop.induct) (auto split: option.splits if_splits)

lemma negated_pattern_ignored:
  "knownHostPatternMatches env ''!bad.example,*.example'' ''bad.example'' 22"
proof -
  have "pattern_names_host env ''bad.example'' 22 ''*.example''"
    by (simp add: pattern_names_host_def upt_rec)
  then show ?thesis
    unfolding knownHostPatternMatches_def known_host_pattern_loop_iff by simp
qed

subsection \<open>Writing a line and reading it back\<close>

lemma split_ws_word: "\<forall>c \<in> set w. \<not> is_ws c \<Longrightarrow> split_ws False acc (w @ s) = split_ws False (rev w @ acc) s"
  by (induction w arbitrary: acc) auto

lemma split_ws_gap: "w \<noteq> [] \<Longrightarrow> \<not> is_ws (hd w) \<Longrightarrow> split_ws True [] (w @ s) = split_ws False [] (w @ s)"
  by (cases w) auto

definition plain_word :: "string \<Rightarrow> bool" where
  "plain_word w \<longleftrightarrow> w \<noteq> [] \<and> (\<forall>c \<in> set w. \<not> is_ws c)"

lemma split_ws_join:
  assumes "\<forall>w \<in> set ws. plain_word w" and "ws \<noteq> []"
  shows "split_ws False [] (join '' '' ws) = ws"
  using assms
proof (induction ws)
  case (Cons w ws)
  then have w: "\<forall>c \<in> set w. \<not> is_ws c" by (simp add: plain_word_def)
  show ?case
  proof (cases ws)
    case Nil
    with split_ws_word [OF w, of "[]" "[]"] show ?thesis by simp
  next
    case (Cons v vs)
    with Cons.prems have v: "plain_word v" by simp
    have j: "join '' '' ws = v @ (if vs = [] then [] else '' '' @ join '' '' vs)" using Cons by (cases vs) auto
    have sp: "is_ws CHR '' ''" by (simp add: is_ws_def)
    have "split_ws False [] (w @ '' '' @ join '' '' ws) = w # split_ws True [] (join '' '' ws)"
      using split_ws_word [OF w, of "[]" "'' '' @ join '' '' ws"] sp by simp
    also have "split_ws True [] (join '' '' ws) = split_ws False [] (join '' '' ws)"
      unfolding j using v by (intro split_ws_gap) (auto simp: plain_word_def)
    finally show ?thesis using Cons Cons.IH Cons.prems by (simp add: Cons)
  qed
qed simp

lemma trim_join_words:
  assumes "\<forall>w \<in> set ws. plain_word w"
  shows "trim (join '' '' ws) = join '' '' ws"
proof (cases "ws = []")
  case False
  have h: "dropWhile is_ws (join '' '' ws) = join '' '' ws"
    using assms False by (cases ws rule: list.exhaust; cases "tl ws")
      (auto simp: plain_word_def dropWhile_eq_self_iff)
  have "dropWhile is_ws (rev (join '' '' ws)) = rev (join '' '' ws)"
    using assms False
  proof (induction ws rule: rev_induct)
    case (snoc w ws)
    then have "w \<noteq> []" "\<not> is_ws (last w)" by (auto simp: plain_word_def)
    moreover have "\<exists>u. join '' '' (ws @ [w]) = u @ w"
      by (induction ws rule: join.induct [of _ "'' ''"]) (auto simp: join_Cons)
    ultimately show ?case by (auto simp: dropWhile_eq_self_iff hd_rev)
  qed simp
  with h show ?thesis by (simp add: trim_def trim_start_def trim_end_def)
qed simp

text \<open>
  A line written as host field, key type and key blob, or with a marker before them, reads back
  as those fields when they are words, the type is a recognised one and an unmarked host field does
  not look like a comment or a marker.
\<close>

theorem parseKnownHostLine_roundtrip:
  assumes "plain_word hosts" and "keyType \<in> set KNOWN_HOST_KEY_TYPES" and "plain_word blob"
    and "marker = None \<and> hd hosts \<noteq> CHR ''#'' \<and> hd hosts \<noteq> CHR ''@'' \<or>
      (\<exists>m. marker = Some (CHR ''@'' # m) \<and> plain_word (CHR ''@'' # m))"
  shows "parseKnownHostLine (join '' '' ((case marker of None \<Rightarrow> [] | Some m \<Rightarrow> [m]) @ [hosts, keyType, blob])) =
     Some \<lparr> kh_marker = marker, kh_hosts = hosts, kh_keyBlob = blob \<rparr>"
proof -
  have t: "plain_word keyType" using assms(2)
    by (auto simp: KNOWN_HOST_KEY_TYPES_def plain_word_def is_ws_def)
  from assms(4) show ?thesis
  proof (elim disjE exE conjE)
    assume "marker = None" "hd hosts \<noteq> CHR ''#''" "hd hosts \<noteq> CHR ''@''"
    then show ?thesis
      using assms(1-3) t split_ws_join [of "[hosts, keyType, blob]"] trim_join_words [of "[hosts, keyType, blob]"]
      by (cases hosts) (auto simp: parseKnownHostLine_def Let_def plain_word_def)
  next
    fix m assume "marker = Some (CHR ''@'' # m)" "plain_word (CHR ''@'' # m)"
    then show ?thesis
      using assms(1-3) t split_ws_join [of "[CHR ''@'' # m, hosts, keyType, blob]"]
        trim_join_words [of "[CHR ''@'' # m, hosts, keyType, blob]"]
      by (auto simp: parseKnownHostLine_def Let_def plain_word_def)
  qed
qed

theorem parseKnownHostLine_roundtrip_witness:
  "parseKnownHostLine ''@revoked *.example ssh-ed25519 AAAA'' =
     Some \<lparr> kh_marker = Some ''@revoked'', kh_hosts = ''*.example'', kh_keyBlob = ''AAAA'' \<rparr>"
proof -
  have "plain_word ''*.example''" "plain_word ''AAAA''" "plain_word ''@revoked''"
    "''ssh-ed25519'' \<in> set KNOWN_HOST_KEY_TYPES"
    by (simp_all add: plain_word_def is_ws_def KNOWN_HOST_KEY_TYPES_def)
  with parseKnownHostLine_roundtrip [of "''*.example''" "''ssh-ed25519''" "''AAAA''" "Some ''@revoked''"]
  show ?thesis by simp
qed

end
