(* ===== verification/SessionManager.thy ===== *)
theory SessionManager
  imports PolicyProps SessionAuth
begin

section \<open>The session manager: \<open>src/session.ts\<close>\<close>

text \<open>
  The manager with its maps and counters, operation by operation. \<open>'c\<close> is a connection of
  \<open>node-ssh\<close>, \<open>'o\<close> the operating-system facts of \<open>detect.ts\<close>. An operation that awaits in the
  middle is split at the await (\<open>closeSession_begin\<close> / \<open>closeSession_end\<close>, \<open>reserve_first\<close> /
  \<open>reserve_second\<close>), so that \<open>sm_step\<close> below interleaves the parts as the event loop does, and
  composed for the run in which nothing intervenes. Clocks, the random UUID and the library's
  \<open>connect\<close> and \<open>requestSFTP\<close> are arguments. The close listeners are callbacks whose failures the
  code swallows: \<open>sm_notified\<close> logs the notifications. Log lines are left out.
\<close>

datatype host_key_policy = Strict | AcceptNew | Insecure

datatype auth_strategy = AuthAuto | AuthPassword | AuthKey | AuthAgent

record connection_params =
  cp_host :: string
  cp_policyHost :: "string option"
  cp_username :: string
  cp_port :: "int option"
  cp_auth :: "auth_strategy option"
  cp_password :: "string option"
  cp_privateKey :: "string option"
  cp_privateKeyPath :: "string option"
  cp_passphrase :: "string option"
  cp_readyTimeoutMs :: "int option"
  cp_ttlMs :: "int option"
  cp_strictHostKeyChecking :: "bool option"
  cp_hostKeyPolicy :: "host_key_policy option"
  cp_knownHostsPath :: "string option"
  cp_expectedHostKeySha256 :: "string option"
  cp_policyMode :: "policy_mode option"

record session_info =
  si_sessionId :: string
  si_host :: string
  si_username :: string
  si_port :: int
  si_createdAt :: int
  si_expiresAt :: int
  si_lastUsed :: int
  si_policyMode :: policy_mode
  si_hostKeyPolicy :: host_key_policy

record session_result =
  so_sessionId :: string
  so_host :: string
  so_username :: string
  so_sftpAvailable :: bool
  so_expiresInMs :: int
  so_policyMode :: policy_mode
  so_hostKeyPolicy :: host_key_policy
  so_wouldConnect :: "bool option"

record ('c, 'o) ssh_session =
  ss_ssh :: 'c
  ss_sftp :: bool
  ss_info :: session_info
  ss_connectionParams :: "connection_params option"
  ss_osInfo :: "'o option"

record security_config =
  sec_allowRootLogin :: bool
  sec_hostKeyPolicy :: host_key_policy
  sec_knownHostsPath :: string
  sec_allowedCiphers :: "string list"

record ('c, 'o) session_manager =
  sm_sessions :: "(string, ('c, 'o) ssh_session) jsmap"
  sm_pending :: int
  sm_maxSessions :: int
  sm_defaultTtlMs :: int
  sm_acceptedHostKeys :: "(string, string) jsmap"
  sm_closing :: "string list"
  sm_active :: "(string, int) jsmap"
  sm_notified :: "string list"
  sm_security :: security_config
  sm_policy :: "(policy_context \<Rightarrow> ssh_mcp_error + policy_decision) option"

definition newSessionManager ::
    "int \<Rightarrow> int \<Rightarrow> security_config \<Rightarrow> (policy_context \<Rightarrow> ssh_mcp_error + policy_decision) option
      \<Rightarrow> ('c, 'o) session_manager" where
  "newSessionManager maxSessions defaultTtlMs security policy =
     \<lparr> sm_sessions = [], sm_pending = 0, sm_maxSessions = maxSessions, sm_defaultTtlMs = defaultTtlMs,
       sm_acceptedHostKeys = [], sm_closing = [], sm_active = [], sm_notified = [],
       sm_security = security, sm_policy = policy \<rparr>"

subsection \<open>Error translation\<close>

definition translateSshConnectionError :: "thrown \<Rightarrow> ssh_mcp_error" where
  "translateSshConnectionError error =
     (case error of
        MCPError e \<Rightarrow> e
      | JSError message \<Rightarrow>
          if str_includes message ''authentication'' then
            createAuthError ''SSH authentication failed''
              (Some ''Check your username, password, or SSH key configuration'')
          else if str_includes message ''timeout'' \<or> str_includes message ''ETIMEDOUT'' then
            createTimeoutError ''SSH connection timeout''
              (Some ''Check if the host is reachable and the SSH service is running'')
          else if str_includes message ''ECONNREFUSED'' then
            createConnectionError ''SSH connection refused''
              (Some ''Check if the SSH service is running on the target port'')
          else if str_includes (to_lower message) ''host key'' \<or> str_includes (to_lower message) ''host denied'' then
            createHostKeyError ''SSH host key verification failed''
              (Some ''Check known_hosts, hostKeyPolicy, or expectedHostKeySha256'')
          else createConnectionError (''Failed to establish SSH connection: '' @ message)
              (Some ''Verify the host, port, and network connectivity'')
      | Thrown text \<Rightarrow>
          createConnectionError (''Failed to establish SSH connection: '' @ text)
            (Some ''Verify the host, port, and network connectivity''))"

subsection \<open>Operations in flight\<close>

definition op_count :: "('c, 'o) session_manager \<Rightarrow> string \<Rightarrow> int" where
  "op_count m sessionId = (case map_get (sm_active m) sessionId of None \<Rightarrow> 0 | Some n \<Rightarrow> n)"

definition hasActiveOperations :: "('c, 'o) session_manager \<Rightarrow> string \<Rightarrow> bool" where
  "hasActiveOperations m sessionId = (op_count m sessionId > 0)"

definition beginOperation :: "string \<Rightarrow> ('c, 'o) session_manager \<Rightarrow> ('c, 'o) session_manager" where
  "beginOperation sessionId m =
     m\<lparr> sm_active := map_set sessionId (op_count m sessionId + 1) (sm_active m) \<rparr>"

definition endOperation :: "string \<Rightarrow> ('c, 'o) session_manager \<Rightarrow> ('c, 'o) session_manager" where
  "endOperation sessionId m =
     (case map_get (sm_active m) sessionId of
        None \<Rightarrow> m\<lparr> sm_active := map_delete sessionId (sm_active m) \<rparr>
      | Some current \<Rightarrow>
          if current \<le> 0 then m\<lparr> sm_active := map_delete sessionId (sm_active m) \<rparr>
          else if current = 1 then m\<lparr> sm_active := map_delete sessionId (sm_active m) \<rparr>
          else m\<lparr> sm_active := map_set sessionId (current - 1) (sm_active m) \<rparr>)"

subsection \<open>Closing and looking up\<close>

text \<open>\<open>closeSession\<close> up to its await on the listeners, and from there to its end.\<close>

definition closeSession_begin :: "string \<Rightarrow> ('c, 'o) session_manager \<Rightarrow> bool \<times> ('c, 'o) session_manager" where
  "closeSession_begin sessionId m =
     (if sessionId \<in> set (sm_closing m) then (False, m)
      else if map_get (sm_sessions m) sessionId = None then (False, m)
      else (True, m\<lparr> sm_closing := sm_closing m @ [sessionId], sm_notified := sm_notified m @ [sessionId] \<rparr>))"

definition closeSession_end :: "string \<Rightarrow> ('c, 'o) session_manager \<Rightarrow> ('c, 'o) session_manager" where
  "closeSession_end sessionId m =
     m\<lparr> sm_sessions := map_delete sessionId (sm_sessions m),
        sm_closing := filter (\<lambda>i. i \<noteq> sessionId) (sm_closing m),
        sm_active := map_delete sessionId (sm_active m) \<rparr>"

definition closeSession :: "string \<Rightarrow> ('c, 'o) session_manager \<Rightarrow> bool \<times> ('c, 'o) session_manager" where
  "closeSession sessionId m =
     (let (closing, m1) = closeSession_begin sessionId m
      in if closing then (True, closeSession_end sessionId m1) else (False, m1))"

definition closeAllSessions :: "('c, 'o) session_manager \<Rightarrow> ('c, 'o) session_manager" where
  "closeAllSessions m = fold (\<lambda>i m. snd (closeSession i m)) (map fst (sm_sessions m)) m"

text \<open>
  \<open>now\<close> and \<open>now'\<close> are the two clock readings; the close that is started and not awaited has run
  to its first await when \<open>getSession\<close> returns.
\<close>

definition getSession ::
    "int \<Rightarrow> int \<Rightarrow> string \<Rightarrow> ('c, 'o) session_manager \<Rightarrow> ('c, 'o) ssh_session option \<times> ('c, 'o) session_manager" where
  "getSession now now' sessionId m =
     (case map_get (sm_sessions m) sessionId of
        None \<Rightarrow> (None, m)
      | Some session \<Rightarrow>
          if now \<ge> si_expiresAt (ss_info session) then
            if hasActiveOperations m sessionId then (Some session, m)
            else (None, snd (closeSession_begin sessionId m))
          else
            let session' = session\<lparr> ss_info := (ss_info session)\<lparr> si_lastUsed := now' \<rparr> \<rparr>
            in (Some session', m\<lparr> sm_sessions := map_set sessionId session' (sm_sessions m) \<rparr>))"

definition getOSInfo ::
    "('c \<Rightarrow> thrown + 'o) \<Rightarrow> int \<Rightarrow> int \<Rightarrow> string \<Rightarrow> ('c, 'o) session_manager
      \<Rightarrow> (thrown + 'o) \<times> ('c, 'o) session_manager" where
  "getOSInfo detectOS now now' sessionId m =
     (case getSession now now' sessionId m of
        (None, m1) \<Rightarrow> (Inl (JSError (''Session '' @ sessionId @ '' not found or expired'')), m1)
      | (Some session, m1) \<Rightarrow>
          (case ss_osInfo session of
             Some os \<Rightarrow> (Inr os, m1)
           | None \<Rightarrow>
               (case detectOS (ss_ssh session) of
                  Inl e \<Rightarrow> (Inl e, m1)
                | Inr os \<Rightarrow>
                    (Inr os, m1\<lparr> sm_sessions := map_set sessionId (session\<lparr> ss_osInfo := Some os \<rparr>) (sm_sessions m1) \<rparr>))))"

definition getActiveSessions :: "int \<Rightarrow> ('c, 'o) session_manager \<Rightarrow> session_info list" where
  "getActiveSessions now m =
     map (\<lambda>(i, s). ss_info s)
       (filter (\<lambda>(i, s). i \<notin> set (sm_closing m) \<and>
           (now \<ge> si_expiresAt (ss_info s) \<longrightarrow> hasActiveOperations m i))
         (sm_sessions m))"

subsection \<open>Expiry, eviction and admission\<close>

definition expired_sessions :: "int \<Rightarrow> ('c, 'o) session_manager \<Rightarrow> string list" where
  "expired_sessions now m =
     map fst (filter (\<lambda>(i, s). i \<notin> set (sm_closing m) \<and> \<not> hasActiveOperations m i \<and> now > si_expiresAt (ss_info s))
       (sm_sessions m))"

definition cleanupExpiredSessions :: "int \<Rightarrow> ('c, 'o) session_manager \<Rightarrow> ('c, 'o) session_manager" where
  "cleanupExpiredSessions now m = fold (\<lambda>i m. snd (closeSession_begin i m)) (expired_sessions now m) m"

text \<open>The scan of \<open>evictOldestSession\<close>; \<open>None\<close> stands for the initial infinity.\<close>

fun oldest_idle ::
    "('c, 'o) session_manager \<Rightarrow> (string \<times> ('c, 'o) ssh_session) list \<Rightarrow> (string \<times> int) option \<Rightarrow> (string \<times> int) option" where
  "oldest_idle m [] best = best"
| "oldest_idle m ((sessionId, session) # rest) best =
     (if sessionId \<in> set (sm_closing m) \<or> hasActiveOperations m sessionId then oldest_idle m rest best
      else oldest_idle m rest
        (case best of
           None \<Rightarrow> Some (sessionId, si_lastUsed (ss_info session))
         | Some (i, t) \<Rightarrow>
             if si_lastUsed (ss_info session) < t then Some (sessionId, si_lastUsed (ss_info session)) else Some (i, t)))"

definition evict_candidate :: "('c, 'o) session_manager \<Rightarrow> string option" where
  "evict_candidate m =
     (case oldest_idle m (sm_sessions m) None of
        None \<Rightarrow> None
      | Some (i, _) \<Rightarrow> if i = [] then None else Some i)"

definition session_limit_error :: ssh_mcp_error where
  "session_limit_error = createConnectionError ''SSH session limit reached'' (Some ''Close an idle session and retry'')"

definition at_capacity :: "('c, 'o) session_manager \<Rightarrow> bool" where
  "at_capacity m = (int (length (sm_sessions m)) + sm_pending m \<ge> sm_maxSessions m)"

text \<open>
  \<open>reserveConnectionSlot\<close>. The first part refuses, goes on, or starts closing the evicted session
  and awaits it; the second part checks again and takes the slot.
\<close>

datatype first_check = Refused | Evicting string | GoOn

definition reserve_first :: "('c, 'o) session_manager \<Rightarrow> first_check \<times> ('c, 'o) session_manager" where
  "reserve_first m =
     (if at_capacity m then
        if sm_pending m > 0 then (Refused, m)
        else case evict_candidate m of
          None \<Rightarrow> (Refused, m)
        | Some i \<Rightarrow> (case closeSession_begin i m of (True, m1) \<Rightarrow> (Evicting i, m1) | (False, m1) \<Rightarrow> (Refused, m1))
      else (GoOn, m))"

definition reserve_second :: "('c, 'o) session_manager \<Rightarrow> (ssh_mcp_error + unit) \<times> ('c, 'o) session_manager" where
  "reserve_second m =
     (if at_capacity m then (Inl session_limit_error, m)
      else (Inr (), m\<lparr> sm_pending := sm_pending m + 1 \<rparr>))"

definition reserveConnectionSlot :: "('c, 'o) session_manager \<Rightarrow> (ssh_mcp_error + unit) \<times> ('c, 'o) session_manager" where
  "reserveConnectionSlot m =
     (case reserve_first m of
        (Refused, m1) \<Rightarrow> (Inl session_limit_error, m1)
      | (Evicting i, m1) \<Rightarrow> reserve_second (closeSession_end i m1)
      | (GoOn, m1) \<Rightarrow> reserve_second m1)"

subsection \<open>Host keys\<close>

definition resolveHostKeyPolicy :: "security_config \<Rightarrow> connection_params \<Rightarrow> host_key_policy" where
  "resolveHostKeyPolicy security params =
     (case cp_hostKeyPolicy params of
        Some p \<Rightarrow> p
      | None \<Rightarrow>
          (case cp_strictHostKeyChecking params of
             Some strict \<Rightarrow> if strict then Strict else Insecure
           | None \<Rightarrow> sec_hostKeyPolicy security))"

definition host_port_key :: "string \<Rightarrow> int \<Rightarrow> string" where
  "host_port_key host port = host @ '':'' @ show_int port"

definition verifyAcceptNewHostKey ::
    "string \<Rightarrow> int \<Rightarrow> string \<Rightarrow> ('c, 'o) session_manager \<Rightarrow> bool \<times> ('c, 'o) session_manager" where
  "verifyAcceptNewHostKey host port hashedKey m =
     (let key = host_port_key host port;
          normalized = normalizeSha256Fingerprint hashedKey;
          accepted = map_get (sm_acceptedHostKeys m) key
      in if \<not> truthy accepted then
           (True, m\<lparr> sm_acceptedHostKeys := map_set key normalized (sm_acceptedHostKeys m) \<rparr>)
         else (accepted = Some normalized, m))"

datatype host_verifier =
    VerifyExpected string
  | VerifyNothing
  | VerifyAcceptNew string int
  | VerifyKnown string int string

record ssh_connect_config =
  cc_host :: string
  cc_username :: string
  cc_port :: int
  cc_readyTimeout :: int
  cc_auth :: ssh_auth_config
  cc_ciphers :: "string list option"
  cc_hostHash :: "string option"
  cc_hostVerifier :: "host_verifier option"

definition or_else :: "'a option \<Rightarrow> 'a \<Rightarrow> 'a" where
  "or_else v d = (case v of None \<Rightarrow> d | Some x \<Rightarrow> x)"

definition configureHostKeyVerification ::
    "ssh_connect_config \<Rightarrow> connection_params \<Rightarrow> host_key_policy \<Rightarrow> string \<Rightarrow> ssh_connect_config" where
  "configureHostKeyVerification cfg params hostKeyPolicy knownHostsPath =
     (if truthy (cp_expectedHostKeySha256 params) then
        cfg\<lparr> cc_hostHash := Some ''sha256'',
             cc_hostVerifier := Some (VerifyExpected (or_else (cp_expectedHostKeySha256 params) '''')) \<rparr>
      else if hostKeyPolicy = Insecure then cfg\<lparr> cc_hostVerifier := Some VerifyNothing \<rparr>
      else if hostKeyPolicy = AcceptNew then
        cfg\<lparr> cc_hostHash := Some ''sha256'',
             cc_hostVerifier := Some (VerifyAcceptNew (cp_host params) (or_else (cp_port params) 22)) \<rparr>
      else
        cfg\<lparr> cc_hostHash := Some ''sha256'',
             cc_hostVerifier := Some (VerifyKnown (cp_host params) (or_else (cp_port params) 22) knownHostsPath) \<rparr>)"

definition run_verifier ::
    "auth_env \<Rightarrow> host_verifier option \<Rightarrow> string \<Rightarrow> ('c, 'o) session_manager \<Rightarrow> bool \<times> ('c, 'o) session_manager" where
  "run_verifier env v hashedKey m =
     (case v of
        None \<Rightarrow> (True, m)
      | Some (VerifyExpected expected) \<Rightarrow>
          (normalizeSha256Fingerprint hashedKey = normalizeSha256Fingerprint expected, m)
      | Some VerifyNothing \<Rightarrow> (True, m)
      | Some (VerifyAcceptNew host port) \<Rightarrow> verifyAcceptNewHostKey host port hashedKey m
      | Some (VerifyKnown host port path) \<Rightarrow> (verifyKnownHostKey env host port path hashedKey, m))"

subsection \<open>Authentication settings\<close>

definition buildKeyAuth :: "auth_env \<Rightarrow> connection_params \<Rightarrow> thrown + ssh_auth_config" where
  "buildKeyAuth env params =
     (if truthy (cp_privateKey params) then
        Inr (no_auth\<lparr> ac_privateKey := cp_privateKey params, ac_passphrase := cp_passphrase params \<rparr>)
      else if truthy (cp_privateKeyPath params) then
        loadPrivateKeyFromPath env (or_else (cp_privateKeyPath params) '''') (cp_passphrase params)
      else discoverPrivateKeys env (cp_passphrase params))"

definition buildAutoAuth :: "auth_env \<Rightarrow> connection_params \<Rightarrow> thrown + ssh_auth_config" where
  "buildAutoAuth env params =
     (if truthy (cp_password params) then Inr (no_auth\<lparr> ac_password := cp_password params \<rparr>)
      else case buildKeyAuth env params of
        Inr cfg \<Rightarrow> Inr cfg
      | Inl _ \<Rightarrow>
          (case buildAgentAuth env of
             Inr cfg \<Rightarrow> Inr cfg
           | Inl _ \<Rightarrow>
               Inl (MCPError (createAuthError ''No suitable authentication method found''
                 (Some ''Provide a password, private key, or ensure SSH agent is running'')))))"

definition buildAuthConfig :: "auth_env \<Rightarrow> connection_params \<Rightarrow> thrown + ssh_auth_config" where
  "buildAuthConfig env params =
     (case or_else (cp_auth params) AuthAuto of
        AuthPassword \<Rightarrow>
          if \<not> truthy (cp_password params) then
            Inl (MCPError (createAuthError ''Password required for password authentication'' None))
          else Inr (no_auth\<lparr> ac_password := cp_password params \<rparr>)
      | AuthKey \<Rightarrow> buildKeyAuth env params
      | AuthAgent \<Rightarrow> buildAgentAuth env
      | AuthAuto \<Rightarrow> buildAutoAuth env params)"

subsection \<open>Opening a session\<close>

text \<open>
  The library's \<open>connect\<close> is a parameter: given the settings and the verifier it returns the key
  hash it showed to the verifier, if it came that far, and the connection or the error. What the
  code relies on is \<open>honours_verifier\<close>: a connection whose settings carry a verifier was shown a
  key that the verifier accepted. \<open>requestSFTP\<close> says whether the SFTP subsystem was available.
\<close>

type_synonym 'c ssh_connect = "ssh_connect_config \<Rightarrow> (string \<Rightarrow> bool) \<Rightarrow> string option \<times> (thrown + 'c)"

definition honours_verifier :: "'c ssh_connect \<Rightarrow> bool" where
  "honours_verifier connect \<longleftrightarrow>
     (\<forall>cfg verdict shown c. connect cfg verdict = (shown, Inr c) \<and> cc_hostVerifier cfg \<noteq> None \<longrightarrow>
        (\<exists>key. shown = Some key \<and> verdict key))"

definition open_context :: "connection_params \<Rightarrow> policy_context" where
  "open_context params =
     \<lparr> px_action = SshOpen, px_host = Some (or_else (cp_policyHost params) (cp_host params)),
       px_username = Some (cp_username params), px_command = None, px_path = None, px_secondaryPath = None,
       px_localBindHost = None, px_localPort = None, px_remoteHost = None, px_remotePort = None,
       px_mode = Some (or_else (cp_policyMode params) Enforce), px_rawSudo = False, px_destructive = False \<rparr>"

definition connect_config :: "security_config \<Rightarrow> connection_params \<Rightarrow> ssh_auth_config \<Rightarrow> ssh_connect_config" where
  "connect_config security params auth =
     configureHostKeyVerification
       \<lparr> cc_host = cp_host params, cc_username = cp_username params, cc_port = or_else (cp_port params) 22,
         cc_readyTimeout = or_else (cp_readyTimeoutMs params) 20000, cc_auth = auth,
         cc_ciphers = (if sec_allowedCiphers security \<noteq> [] then Some (sec_allowedCiphers security) else None),
         cc_hostHash = None, cc_hostVerifier = None \<rparr>
       params (resolveHostKeyPolicy security params)
       (or_else (cp_knownHostsPath params) (sec_knownHostsPath security))"

text \<open>From the credentials to the connection; the verifier may record a first-seen key.\<close>

definition establish ::
    "auth_env \<Rightarrow> 'c ssh_connect \<Rightarrow> connection_params \<Rightarrow> ('c, 'o) session_manager
      \<Rightarrow> (thrown + 'c) \<times> ('c, 'o) session_manager" where
  "establish env connect params m =
     (case buildAuthConfig env params of
        Inl e \<Rightarrow> (Inl e, m)
      | Inr auth \<Rightarrow>
          let cfg = connect_config (sm_security m) params auth;
              (shown, outcome) = connect cfg (\<lambda>key. fst (run_verifier env (cc_hostVerifier cfg) key m));
              m1 = (case shown of None \<Rightarrow> m | Some key \<Rightarrow> snd (run_verifier env (cc_hostVerifier cfg) key m))
          in (outcome, m1))"

definition root_denied :: "security_config \<Rightarrow> connection_params \<Rightarrow> bool" where
  "root_denied security params = (cp_username params = ''root'' \<and> \<not> sec_allowRootLogin security)"

definition open_result ::
    "string \<Rightarrow> int \<Rightarrow> security_config \<Rightarrow> connection_params \<Rightarrow> bool \<Rightarrow> bool option \<Rightarrow> session_result" where
  "open_result sessionId ttl security params sftp would =
     \<lparr> so_sessionId = sessionId, so_host = cp_host params, so_username = cp_username params,
       so_sftpAvailable = sftp, so_expiresInMs = ttl, so_policyMode = or_else (cp_policyMode params) Enforce,
       so_hostKeyPolicy = resolveHostKeyPolicy security params, so_wouldConnect = would \<rparr>"

definition new_session ::
    "string \<Rightarrow> int \<Rightarrow> int \<Rightarrow> security_config \<Rightarrow> connection_params \<Rightarrow> 'c \<Rightarrow> bool \<Rightarrow> ('c, 'o) ssh_session" where
  "new_session sessionId now ttl security params ssh sftp =
     \<lparr> ss_ssh = ssh, ss_sftp = sftp,
       ss_info = \<lparr> si_sessionId = sessionId, si_host = cp_host params, si_username = cp_username params,
                   si_port = or_else (cp_port params) 22, si_createdAt = now, si_expiresAt = now + ttl,
                   si_lastUsed = now, si_policyMode = or_else (cp_policyMode params) Enforce,
                   si_hostKeyPolicy = resolveHostKeyPolicy security params \<rparr>,
       ss_connectionParams = Some params, ss_osInfo = None \<rparr>"

text \<open>The two ways an admitted connection ends; both give the slot back.\<close>

definition open_connected ::
    "string \<Rightarrow> ('c, 'o) ssh_session \<Rightarrow> ('c, 'o) session_manager \<Rightarrow> ('c, 'o) session_manager" where
  "open_connected sessionId session m =
     m\<lparr> sm_sessions := map_set sessionId session (sm_sessions m), sm_pending := sm_pending m - 1 \<rparr>"

definition open_failed :: "('c, 'o) session_manager \<Rightarrow> ('c, 'o) session_manager" where
  "open_failed m = m\<lparr> sm_pending := sm_pending m - 1 \<rparr>"

definition openSession ::
    "auth_env \<Rightarrow> 'c ssh_connect \<Rightarrow> ('c \<Rightarrow> bool) \<Rightarrow> string \<Rightarrow> int \<Rightarrow> connection_params \<Rightarrow> ('c, 'o) session_manager
      \<Rightarrow> (ssh_mcp_error + session_result) \<times> ('c, 'o) session_manager" where
  "openSession env connect requestSFTP uuid now params m =
     (let sessionId = generateSessionId uuid;
          ttl = or_else (cp_ttlMs params) (sm_defaultTtlMs m);
          security = sm_security m
      in case (case sm_policy m of
                 None \<Rightarrow> Inr True
               | Some gate \<Rightarrow>
                   (case gate (open_context params) of Inl e \<Rightarrow> Inl e | Inr d \<Rightarrow> Inr (pd_allowed d))) of
           Inl e \<Rightarrow> (Inl e, m)
         | Inr policyAllowed \<Rightarrow>
             if or_else (cp_policyMode params) Enforce = Explain then
               (Inr (open_result sessionId ttl security params False
                       (Some (\<not> root_denied security params \<and> policyAllowed))), m)
             else if root_denied security params then
               (Inl (translateSshConnectionError (MCPError
                  (createPolicyError ''Root SSH login is disabled by policy''
                     (Some ''Connect as an unprivileged user and use approved privilege escalation workflows.'')))), m)
             else case reserveConnectionSlot m of
               (Inl e, m1) \<Rightarrow> (Inl (translateSshConnectionError (MCPError e)), m1)
             | (Inr _, m1) \<Rightarrow>
                 (case establish env connect params m1 of
                    (Inl e, m2) \<Rightarrow> (Inl (translateSshConnectionError e), open_failed m2)
                  | (Inr ssh, m2) \<Rightarrow>
                      (Inr (open_result sessionId ttl security params (requestSFTP ssh) None),
                       open_connected sessionId
                         (new_session sessionId now ttl security params ssh (requestSFTP ssh)) m2)))"

subsection \<open>Reconnecting\<close>

definition reconnectSession ::
    "auth_env \<Rightarrow> 'c ssh_connect \<Rightarrow> ('c \<Rightarrow> bool) \<Rightarrow> string \<Rightarrow> int \<Rightarrow> string \<Rightarrow> ('c, 'o) session_manager
      \<Rightarrow> (ssh_mcp_error + session_result option) \<times> ('c, 'o) session_manager" where
  "reconnectSession env connect requestSFTP uuid now sessionId m =
     (case map_get (sm_sessions m) sessionId of
        None \<Rightarrow> (Inr None, m)
      | Some session \<Rightarrow>
          (case ss_connectionParams session of
             None \<Rightarrow> (Inr None, m)
           | Some params \<Rightarrow>
               (case openSession env connect requestSFTP uuid now params (snd (closeSession sessionId m)) of
                  (Inl e, m1) \<Rightarrow> (Inl e, m1)
                | (Inr r, m1) \<Rightarrow> (Inr (Some r), m1))))"

text \<open>\<open>probe\<close> is the outcome of running \<open>echo 1\<close> on the connection: the exit code, or an error.\<close>

definition isSessionAlive :: "('c \<Rightarrow> thrown + int) \<Rightarrow> string \<Rightarrow> ('c, 'o) session_manager \<Rightarrow> bool" where
  "isSessionAlive probe sessionId m =
     (case map_get (sm_sessions m) sessionId of
        None \<Rightarrow> False
      | Some session \<Rightarrow> (case probe (ss_ssh session) of Inl _ \<Rightarrow> False | Inr code \<Rightarrow> code = 0))"

definition getSessionWithReconnect ::
    "auth_env \<Rightarrow> 'c ssh_connect \<Rightarrow> ('c \<Rightarrow> bool) \<Rightarrow> ('c \<Rightarrow> thrown + int) \<Rightarrow> string \<Rightarrow> int \<Rightarrow> int \<Rightarrow> string
      \<Rightarrow> ('c, 'o) session_manager \<Rightarrow> ('c, 'o) ssh_session option \<times> ('c, 'o) session_manager" where
  "getSessionWithReconnect env connect requestSFTP probe uuid now now' sessionId m =
     (case getSession now now' sessionId m of
        (None, m1) \<Rightarrow> (None, m1)
      | (Some session, m1) \<Rightarrow>
          if \<not> isSessionAlive probe sessionId m1 \<and> ss_connectionParams session \<noteq> None
          then (None, snd (reconnectSession env connect requestSFTP uuid now' sessionId m1))
          else (Some session, m1))"

end
