(* ===== verification/SessionManagerProps.thy ===== *)
theory SessionManagerProps
  imports PolicyGate SessionManager
begin

section \<open>Properties of the session manager\<close>

text \<open>
  The capacity bound under interleaving, what eviction and clean-up may touch, and what a
  successful \<open>openSession\<close> has established: policy, root rule and host key.
\<close>

subsection \<open>What the operations leave alone\<close>

lemma closeSession_begin_fields [simp]:
  "sm_sessions (snd (closeSession_begin i m)) = sm_sessions m"
  "sm_pending (snd (closeSession_begin i m)) = sm_pending m"
  "sm_maxSessions (snd (closeSession_begin i m)) = sm_maxSessions m"
  "sm_active (snd (closeSession_begin i m)) = sm_active m"
  "sm_security (snd (closeSession_begin i m)) = sm_security m"
  "sm_policy (snd (closeSession_begin i m)) = sm_policy m"
  "sm_acceptedHostKeys (snd (closeSession_begin i m)) = sm_acceptedHostKeys m"
  by (simp_all add: closeSession_begin_def)

lemma closeSession_begin_closing:
  "set (sm_closing (snd (closeSession_begin i m))) =
     (if map_get (sm_sessions m) i = None then set (sm_closing m) else insert i (set (sm_closing m)))"
  by (auto simp: closeSession_begin_def)

lemma closeSession_end_fields [simp]:
  "sm_pending (closeSession_end i m) = sm_pending m"
  "sm_maxSessions (closeSession_end i m) = sm_maxSessions m"
  "sm_sessions (closeSession_end i m) = map_delete i (sm_sessions m)"
  "set (sm_closing (closeSession_end i m)) = set (sm_closing m) - {i}"
  "sm_security (closeSession_end i m) = sm_security m"
  "sm_policy (closeSession_end i m) = sm_policy m"
  "sm_acceptedHostKeys (closeSession_end i m) = sm_acceptedHostKeys m"
  by (auto simp: closeSession_end_def)

lemma run_verifier_fields [simp]:
  "sm_sessions (snd (run_verifier env v k m)) = sm_sessions m"
  "sm_pending (snd (run_verifier env v k m)) = sm_pending m"
  "sm_maxSessions (snd (run_verifier env v k m)) = sm_maxSessions m"
  "sm_closing (snd (run_verifier env v k m)) = sm_closing m"
  "sm_active (snd (run_verifier env v k m)) = sm_active m"
  "sm_security (snd (run_verifier env v k m)) = sm_security m"
  by (auto simp: run_verifier_def verifyAcceptNewHostKey_def Let_def split: option.splits host_verifier.splits)

lemma fold_close_fields:
  "sm_sessions (fold (\<lambda>i m. snd (closeSession_begin i m)) is m) = sm_sessions m"
  "sm_pending (fold (\<lambda>i m. snd (closeSession_begin i m)) is m) = sm_pending m"
  "sm_maxSessions (fold (\<lambda>i m. snd (closeSession_begin i m)) is m) = sm_maxSessions m"
  "sm_active (fold (\<lambda>i m. snd (closeSession_begin i m)) is m) = sm_active m"
  by (induction "is" arbitrary: m) simp_all

lemma fold_close_closing:
  "set (sm_closing (fold (\<lambda>i m. snd (closeSession_begin i m)) is m)) =
     set (sm_closing m) \<union> {i \<in> set is. map_get (sm_sessions m) i \<noteq> None}"
  by (induction "is" arbitrary: m) (auto simp: closeSession_begin_closing)

lemma op_count_cong: "sm_active m' = sm_active m \<Longrightarrow> hasActiveOperations m' i = hasActiveOperations m i"
  by (simp add: hasActiveOperations_def op_count_def)

subsection \<open>Eviction\<close>

definition evictable :: "('c, 'o) session_manager \<Rightarrow> string \<Rightarrow> bool" where
  "evictable m i \<longleftrightarrow> i \<notin> set (sm_closing m) \<and> \<not> hasActiveOperations m i"

definition last_used :: "('c, 'o) ssh_session \<Rightarrow> int" where
  "last_used s = si_lastUsed (ss_info s)"

lemma oldest_idle_min:
  "oldest_idle m es best = Some (i, t) \<Longrightarrow>
     (best = Some (i, t) \<or> (\<exists>s. (i, s) \<in> set es \<and> last_used s = t \<and> evictable m i)) \<and>
     (\<forall>(j, s) \<in> set es. evictable m j \<longrightarrow> t \<le> last_used s) \<and> (\<forall>j u. best = Some (j, u) \<longrightarrow> t \<le> u)"
proof (induction es arbitrary: best)
  case (Cons e es)
  obtain j s where e: "e = (j, s)" by (cases e)
  show ?case
  proof (cases "evictable m j")
    case False
    with Cons.prems have "oldest_idle m es best = Some (i, t)" by (auto simp: e evictable_def)
    from Cons.IH [OF this] False show ?thesis by (auto simp: e)
  next
    case True
    let ?b = "case best of None \<Rightarrow> Some (j, last_used s)
              | Some (k, u) \<Rightarrow> if last_used s < u then Some (j, last_used s) else Some (k, u)"
    have b: "?b = Some (j, last_used s) \<or> ?b = best" "\<exists>k u. ?b = Some (k, u) \<and> u \<le> last_used s"
      "\<forall>k u. best = Some (k, u) \<longrightarrow> (\<exists>k' u'. ?b = Some (k', u') \<and> u' \<le> u)"
      by (auto split: option.splits)
    have "oldest_idle m es ?b = Some (i, t)"
      using Cons.prems True unfolding last_used_def by (simp add: e evictable_def)
    note IH = Cons.IH [OF this]
    have "t \<le> last_used s" using IH b(2) by fastforce
    moreover have "\<forall>k u. best = Some (k, u) \<longrightarrow> t \<le> u" using IH b(3) by fastforce
    moreover have "best = Some (i, t) \<or> (\<exists>s'. (i, s') \<in> set (e # es) \<and> last_used s' = t \<and> evictable m i)"
      using IH b(1) True by (auto simp: e)
    ultimately show ?thesis using IH by (simp add: e)
  qed
qed auto

lemma oldest_idle_None:
  "oldest_idle m es best = None \<longleftrightarrow> best = None \<and> (\<forall>e \<in> set es. \<not> evictable m (fst e))"
  by (induction m es best rule: oldest_idle.induct) (auto simp: evictable_def split: option.splits)

lemma evict_candidate_Some:
  assumes "evict_candidate m = Some i" and "jsmap_ok (sm_sessions m)"
  obtains s where "map_get (sm_sessions m) i = Some s" and "evictable m i" and "i \<noteq> []"
    and "\<forall>(j, u) \<in> set (sm_sessions m). evictable m j \<longrightarrow> last_used s \<le> last_used u"
proof -
  from assms(1) obtain t where o: "oldest_idle m (sm_sessions m) None = Some (i, t)" "i \<noteq> []"
    by (auto simp: evict_candidate_def split: option.splits if_splits)
  from oldest_idle_min [OF o(1)] obtain s where "(i, s) \<in> set (sm_sessions m)" "last_used s = t" "evictable m i"
    "\<forall>(j, u) \<in> set (sm_sessions m). evictable m j \<longrightarrow> t \<le> last_used u" by auto
  with o(2) assms(2) show ?thesis by (intro that [of s]) (auto simp: jsmap_get_mem)
qed

text \<open>
  The session chosen for eviction is present, idle and not closing, and no other idle session has
  been unused for longer; there is no choice only when no session is idle.
\<close>

theorem eviction_least_recently_used:
  assumes "jsmap_ok (sm_sessions m)" and "map_get (sm_sessions m) [] = None"
  shows "case evict_candidate m of
      None \<Rightarrow> \<forall>(j, u) \<in> set (sm_sessions m). j \<in> set (sm_closing m) \<or> hasActiveOperations m j
    | Some i \<Rightarrow> i \<notin> set (sm_closing m) \<and> \<not> hasActiveOperations m i \<and>
        (\<exists>s. map_get (sm_sessions m) i = Some s \<and>
           (\<forall>(j, u) \<in> set (sm_sessions m). j \<notin> set (sm_closing m) \<and> \<not> hasActiveOperations m j \<longrightarrow>
              si_lastUsed (ss_info s) \<le> si_lastUsed (ss_info u)))"
proof (cases "evict_candidate m")
  case None
  have "oldest_idle m (sm_sessions m) None = None"
  proof (rule ccontr)
    assume "oldest_idle m (sm_sessions m) None \<noteq> None"
    with None obtain t where "oldest_idle m (sm_sessions m) None = Some ([], t)"
      by (auto simp: evict_candidate_def split: option.splits if_splits)
    from oldest_idle_min [OF this] obtain s where "([], s) \<in> set (sm_sessions m)" by auto
    with assms show False by (simp add: jsmap_get_mem)
  qed
  with None show ?thesis by (auto simp: oldest_idle_None evictable_def)
next
  case (Some i)
  from evict_candidate_Some [OF this assms(1)] obtain s where "map_get (sm_sessions m) i = Some s" "evictable m i"
    "\<forall>(j, u) \<in> set (sm_sessions m). evictable m j \<longrightarrow> last_used s \<le> last_used u" by blast
  with Some show ?thesis by (auto simp: evictable_def last_used_def)
qed

text \<open>
  No clean-up, lookup or admission reclaims a session with an operation in flight: it is not
  put among the closing ones, it stays in the map, and a lookup finds it even past its expiry.
\<close>

theorem busy_sessions_not_reclaimed:
  assumes "jsmap_ok (sm_sessions m)" and "hasActiveOperations m i" and "map_get (sm_sessions m) i = Some s"
    and "i \<notin> set (sm_closing m)"
  shows "i \<notin> set (sm_closing (cleanupExpiredSessions now m)) \<and>
    map_get (sm_sessions (cleanupExpiredSessions now m)) i = Some s \<and>
    i \<notin> set (sm_closing (snd (getSession now now' j m))) \<and>
    map_get (sm_sessions (snd (getSession now now' j m))) i \<noteq> None \<and>
    fst (getSession now now' i m) \<noteq> None \<and>
    i \<notin> set (sm_closing (snd (reserveConnectionSlot m))) \<and>
    map_get (sm_sessions (snd (reserveConnectionSlot m))) i = Some s"
proof -
  have clean: "i \<notin> set (expired_sessions now m)" using assms(2) by (auto simp: expired_sessions_def)
  have look: "i \<notin> set (sm_closing (snd (getSession now now' j m))) \<and>
      map_get (sm_sessions (snd (getSession now now' j m))) i \<noteq> None"
    using assms by (cases "j = i") (auto simp: getSession_def Let_def closeSession_begin_closing jsm.get_put
        split: option.splits)
  have found: "fst (getSession now now' i m) \<noteq> None" using assms by (auto simp: getSession_def Let_def)
  have ev: "j \<noteq> i" if "evict_candidate m = Some j" for j
    using evict_candidate_Some [OF that assms(1)] assms(2) by (auto simp: evictable_def)
  have "i \<notin> set (sm_closing (snd (reserveConnectionSlot m))) \<and>
      map_get (sm_sessions (snd (reserveConnectionSlot m))) i = Some s"
    using assms(3,4) ev
    by (auto simp: reserveConnectionSlot_def reserve_first_def reserve_second_def closeSession_begin_def
        closeSession_end_def jsm.get_remove split: option.splits if_splits prod.splits bool.splits)
  with clean look found assms(3,4) show ?thesis
    by (simp add: cleanupExpiredSessions_def fold_close_fields fold_close_closing)
qed

subsection \<open>Capacity under interleaving\<close>

text \<open>
  A world is the manager, the connections in flight (admitted, not yet ended) and the admission
  lock: \<open>Some i\<close> while its holder awaits the closing of the evicted session \<open>i\<close>. Each rule is what
  one turn of the event loop does.
\<close>

record ('c, 'o) sm_world =
  w_manager :: "('c, 'o) session_manager"
  w_inflight :: "string list"
  w_admission :: "string option"

inductive sm_step :: "('c, 'o) sm_world \<Rightarrow> ('c, 'o) sm_world \<Rightarrow> bool" where
  admitted: "w_admission w = None \<Longrightarrow> reserve_first (w_manager w) = (GoOn, m1) \<Longrightarrow> reserve_second m1 = (Inr (), m2) \<Longrightarrow>
     sm_step w (w\<lparr> w_manager := m2, w_inflight := i # w_inflight w \<rparr>)"
| evicting: "w_admission w = None \<Longrightarrow> reserve_first (w_manager w) = (Evicting i, m1) \<Longrightarrow>
     sm_step w (w\<lparr> w_manager := m1, w_admission := Some i \<rparr>)"
| evicted: "w_admission w = Some i \<Longrightarrow> i \<notin> set (sm_closing (w_manager w)) \<Longrightarrow>
     reserve_second (w_manager w) = (res, m1) \<Longrightarrow>
     sm_step w (w\<lparr> w_manager := m1, w_admission := None,
                   w_inflight := (case res of Inr _ \<Rightarrow> j # w_inflight w | Inl _ \<Rightarrow> w_inflight w) \<rparr>)"
| connected: "i \<in> set (w_inflight w) \<Longrightarrow>
     sm_step w (w\<lparr> w_manager := open_connected i session (w_manager w), w_inflight := remove1 i (w_inflight w) \<rparr>)"
| failed: "i \<in> set (w_inflight w) \<Longrightarrow>
     sm_step w (w\<lparr> w_manager := open_failed (w_manager w), w_inflight := remove1 i (w_inflight w) \<rparr>)"
| verified: "sm_step w (w\<lparr> w_manager := snd (run_verifier env v key (w_manager w)) \<rparr>)"
| closing: "sm_step w (w\<lparr> w_manager := snd (closeSession_begin i (w_manager w)) \<rparr>)"
| closed: "i \<in> set (sm_closing (w_manager w)) \<Longrightarrow> sm_step w (w\<lparr> w_manager := closeSession_end i (w_manager w) \<rparr>)"
| looked_up: "sm_step w (w\<lparr> w_manager := snd (getSession now now' i (w_manager w)) \<rparr>)"
| cleaned: "sm_step w (w\<lparr> w_manager := cleanupExpiredSessions now (w_manager w) \<rparr>)"
| began: "sm_step w (w\<lparr> w_manager := beginOperation i (w_manager w) \<rparr>)"
| ended: "sm_step w (w\<lparr> w_manager := endOperation i (w_manager w) \<rparr>)"

inductive_cases sm_stepE: "sm_step w w'"

definition sm_inv :: "int \<Rightarrow> ('c, 'o) sm_world \<Rightarrow> bool" where
  "sm_inv M w \<longleftrightarrow>
     jsmap_ok (sm_sessions (w_manager w)) \<and> sm_maxSessions (w_manager w) = M \<and>
     sm_pending (w_manager w) = int (length (w_inflight w)) \<and>
     int (length (sm_sessions (w_manager w))) + sm_pending (w_manager w) \<le> max 0 M \<and>
     (\<forall>i \<in> set (sm_closing (w_manager w)). map_get (sm_sessions (w_manager w)) i \<noteq> None)"

lemma sm_inv_transfer:
  assumes "sm_inv M w" and "sm_sessions m = sm_sessions (w_manager w)" and "sm_pending m = sm_pending (w_manager w)"
    and "sm_maxSessions m = sm_maxSessions (w_manager w)"
    and "\<forall>i \<in> set (sm_closing m). map_get (sm_sessions (w_manager w)) i \<noteq> None"
  shows "sm_inv M (w\<lparr> w_manager := m \<rparr>)"
  using assms by (simp add: sm_inv_def)

lemma sm_inv_admission: "sm_inv M w \<Longrightarrow> sm_inv M (w\<lparr> w_admission := a \<rparr>)"
  by (simp add: sm_inv_def)

lemma reserve_second_inv:
  assumes "sm_inv M w" and "reserve_second (w_manager w) = (res, m1)"
  shows "sm_inv M (w\<lparr> w_manager := m1,
           w_inflight := (case res of Inr _ \<Rightarrow> j # w_inflight w | Inl _ \<Rightarrow> w_inflight w) \<rparr>)"
  using assms by (auto simp: reserve_second_def at_capacity_def sm_inv_def split: if_splits)

lemma length_remove1_int: "x \<in> set xs \<Longrightarrow> int (length (remove1 x xs)) = int (length xs) - 1"
  by (induction xs) auto

lemma sm_inv_step:
  assumes "sm_inv M w" and "sm_step w w'"
  shows "sm_inv M w'"
  using assms(2,1)
proof cases
  case (admitted m1 m2 i)
  then have "m1 = w_manager w" by (auto simp: reserve_first_def split: if_splits option.splits prod.splits bool.splits)
  with admitted have "reserve_second (w_manager w) = (Inr (), m2)" by simp
  from reserve_second_inv [OF assms(1) this, of i] show ?thesis by (simp add: admitted(1))
next
  case (evicting i m1)
  then have m1: "m1 = snd (closeSession_begin i (w_manager w))"
    by (auto simp: reserve_first_def split: if_splits option.splits prod.splits bool.splits)
  have "sm_inv M (w\<lparr> w_manager := m1 \<rparr>)"
    unfolding m1 using assms(1)
    by (intro sm_inv_transfer) (auto simp: sm_inv_def closeSession_begin_closing split: if_splits)
  from sm_inv_admission [OF this, of "Some i"] show ?thesis by (simp add: evicting(1))
next
  case (evicted i res m1 j)
  from sm_inv_admission [OF reserve_second_inv [OF assms(1) evicted(4), of j], of None]
  show ?thesis unfolding evicted(1) by (simp add: sm_inv_def)
next
  case (connected i session)
  note n = length_remove1_int [OF this(2)]
  with assms(1) connected show ?thesis
    by (auto simp: sm_inv_def open_connected_def jsm.card_put jsm.get_put jsm.ok_put n)
next
  case (failed i)
  note n = length_remove1_int [OF this(2)]
  with assms(1) failed show ?thesis by (auto simp: sm_inv_def open_failed_def n)
next
  case (verified env v key)
  with assms(1) show ?thesis by (auto intro!: sm_inv_transfer) (auto simp: sm_inv_def)
next
  case (closing i)
  with assms(1) show ?thesis
    by (auto intro!: sm_inv_transfer simp: closeSession_begin_closing split: if_splits) (auto simp: sm_inv_def)
next
  case (closed i)
  have "int (length (map_delete i (sm_sessions (w_manager w)))) \<le> int (length (sm_sessions (w_manager w)))"
    using assms(1) by (simp add: sm_inv_def jsm.card_remove_le)
  with assms(1) closed show ?thesis by (auto simp: sm_inv_def jsm.get_remove jsm.ok_remove)
next
  case (looked_up now now' i)
  show ?thesis
  proof (cases "map_get (sm_sessions (w_manager w)) i")
    case None
    with looked_up assms(1) show ?thesis by (simp add: getSession_def)
  next
    case (Some s)
    with assms(1) show ?thesis unfolding looked_up(1)
      by (auto simp: getSession_def sm_inv_def closeSession_begin_closing Let_def jsm.card_put jsm.get_put jsm.ok_put
          split: if_splits)
  qed
next
  case (cleaned now)
  with assms(1) show ?thesis
    by (auto intro!: sm_inv_transfer simp: cleanupExpiredSessions_def fold_close_fields fold_close_closing)
      (auto simp: sm_inv_def)
next
  case (began i)
  with assms(1) show ?thesis by (simp add: sm_inv_def beginOperation_def)
next
  case (ended i)
  with assms(1) show ?thesis by (simp add: sm_inv_def endOperation_def split: option.split)
qed

definition sm_start :: "int \<Rightarrow> int \<Rightarrow> security_config \<Rightarrow> (policy_context \<Rightarrow> ssh_mcp_error + policy_decision) option
    \<Rightarrow> ('c, 'o) sm_world" where
  "sm_start M ttl security policy =
     \<lparr> w_manager = newSessionManager M ttl security policy, w_inflight = [], w_admission = None \<rparr>"

interpretation sm_ts: transition_system "\<lambda>w. w = sm_start M ttl security policy" sm_step "sm_inv M"
  for M ttl security policy
proof unfold_locales
  show "sm_inv M w" if "w = sm_start M ttl security policy" for w :: "('a, 'b) sm_world"
    using that by (simp add: sm_start_def newSessionManager_def sm_inv_def jsmap_ok_def)
qed (rule sm_inv_step)

text \<open>
  C3: however openings, failures, evictions, closings, expiry and lookups interleave, the sessions
  and the connections in flight together never exceed the configured maximum, the counter of
  connections in flight is exact, and a session being closed is still one of the sessions.
\<close>

theorem session_capacity:
  assumes "sm_step\<^sup>*\<^sup>* (sm_start M ttl security policy) w"
  shows "int (length (sm_sessions (w_manager w))) + sm_pending (w_manager w) \<le> max 0 M \<and>
     sm_pending (w_manager w) = int (length (w_inflight w)) \<and>
     (\<forall>i. i \<in> set (sm_closing (w_manager w)) \<longrightarrow> map_get (sm_sessions (w_manager w)) i \<noteq> None)"
  using sm_ts.inv_reachable [OF refl assms] by (simp add: sm_inv_def)

subsection \<open>What an opened session has passed\<close>

text \<open>
  The manager asks a policy gate; what it relies on is that a gate which lets an enforced request
  through has found it permitted. The container hands it the engine it built.
\<close>

context policy_gate
begin

lemma opened_permitted:
  assumes "sm_policy m = Some gate" and "openSession env connect requestSFTP uuid now params m = (Inr r, m')"
    and "or_else (cp_policyMode params) Enforce = Enforce"
  shows "permits (open_context params)"
  using assms enforced [of "open_context params"]
  by (cases "gate (open_context params)") (auto simp: openSession_def open_context_def Let_def)

end

text \<open>What the policy has to be asked when a session is opened in enforce mode, field by field.\<close>

definition open_question :: "connection_params \<Rightarrow> policy_context" where
  "open_question params =
     \<lparr> px_action = SshOpen,
       px_host = Some (if cp_policyHost params = None then cp_host params else the (cp_policyHost params)),
       px_username = Some (cp_username params), px_command = None, px_path = None, px_secondaryPath = None,
       px_localBindHost = None, px_localPort = None, px_remoteHost = None, px_remotePort = None,
       px_mode = Some Enforce, px_rawSudo = False, px_destructive = False \<rparr>"

lemma open_asked: "or_else (cp_policyMode params) Enforce = Enforce \<Longrightarrow> open_context params = open_question params"
  by (cases "cp_policyHost params") (simp_all add: open_context_def open_question_def or_else_def)

text \<open>The host key policy that applies: the one of the request, its older flag, or the configured one.\<close>

definition host_key_policy_of :: "security_config \<Rightarrow> connection_params \<Rightarrow> host_key_policy" where
  "host_key_policy_of security params =
     (if cp_hostKeyPolicy params \<noteq> None then the (cp_hostKeyPolicy params)
      else if cp_strictHostKeyChecking params = Some True then Strict
      else if cp_strictHostKeyChecking params = Some False then Insecure
      else sec_hostKeyPolicy security)"

lemma host_key_policy_resolved: "resolveHostKeyPolicy security params = host_key_policy_of security params"
  by (auto simp: resolveHostKeyPolicy_def host_key_policy_of_def split: option.splits)

text \<open>When the key shown by the server is acceptable, by the parameters, the settings and the keys seen.\<close>

definition host_key_acceptable ::
    "auth_env \<Rightarrow> security_config \<Rightarrow> (string, string) jsmap \<Rightarrow> connection_params \<Rightarrow> string \<Rightarrow> bool" where
  "host_key_acceptable env security accepted params key =
     (let port = or_else (cp_port params) 22 in
      if truthy (cp_expectedHostKeySha256 params) then
        cp_expectedHostKeySha256 params \<noteq> None \<and>
        normalizeSha256Fingerprint key = normalizeSha256Fingerprint (the (cp_expectedHostKeySha256 params))
      else case host_key_policy_of security params of
        Insecure \<Rightarrow> True
      | AcceptNew \<Rightarrow> map_get accepted (host_port_key (cp_host params) port) \<in>
          {None, Some [], Some (normalizeSha256Fingerprint key)}
      | Strict \<Rightarrow> verifyKnownHostKey env (cp_host params) port
          (or_else (cp_knownHostsPath params) (sec_knownHostsPath security)) key)"

lemma connect_config_verifier:
  "cc_hostVerifier (connect_config security params auth) \<noteq> None"
  "(\<lambda>key. fst (run_verifier env (cc_hostVerifier (connect_config security params auth)) key m)) =
     host_key_acceptable env security (sm_acceptedHostKeys m) params"
  "cc_host (connect_config security params auth) = cp_host params"
  "cc_username (connect_config security params auth) = cp_username params"
  "cc_port (connect_config security params auth) = (if cp_port params = None then 22 else the (cp_port params))"
  "cc_auth (connect_config security params auth) = auth"
  "truthy (cp_expectedHostKeySha256 params) \<or> host_key_policy_of security params \<noteq> Insecure \<Longrightarrow>
     cc_hostHash (connect_config security params auth) = Some ''sha256''"
proof -
  show "cc_hostVerifier (connect_config security params auth) \<noteq> None"
    by (simp add: connect_config_def configureHostKeyVerification_def)
  show "(\<lambda>key. fst (run_verifier env (cc_hostVerifier (connect_config security params auth)) key m)) =
     host_key_acceptable env security (sm_acceptedHostKeys m) params"
    by (cases "host_key_policy_of security params")
      (auto simp: fun_eq_iff connect_config_def configureHostKeyVerification_def host_key_acceptable_def run_verifier_def
        host_key_policy_resolved verifyAcceptNewHostKey_def Let_def truthy_def or_else_def split: option.splits)
qed (auto simp: connect_config_def configureHostKeyVerification_def host_key_policy_resolved or_else_def split: option.splits)

lemma establish_Inr:
  assumes "honours_verifier connect" and "establish env connect params m = (Inr ssh, m1)"
  obtains auth key where "buildAuthConfig env params = Inr auth"
    "connect (connect_config (sm_security m) params auth)
       (host_key_acceptable env (sm_security m) (sm_acceptedHostKeys m) params) = (Some key, Inr ssh)"
    "host_key_acceptable env (sm_security m) (sm_acceptedHostKeys m) params key"
proof -
  from assms(2) obtain auth shown where h: "buildAuthConfig env params = Inr auth"
    "connect (connect_config (sm_security m) params auth)
       (\<lambda>key. fst (run_verifier env (cc_hostVerifier (connect_config (sm_security m) params auth)) key m)) = (shown, Inr ssh)"
    by (auto simp: establish_def Let_def split: sum.splits prod.splits)
  with assms(1) connect_config_verifier(1) that show ?thesis
    unfolding honours_verifier_def connect_config_verifier(2) by blast
qed

lemma establish_fields:
  "sm_sessions (snd (establish env connect params m)) = sm_sessions m"
  "sm_pending (snd (establish env connect params m)) = sm_pending m"
  "sm_security (snd (establish env connect params m)) = sm_security m"
  by (auto simp: establish_def Let_def split: sum.splits prod.splits option.splits)

lemma reserveConnectionSlot_fields:
  "sm_security (snd (reserveConnectionSlot m)) = sm_security m"
  "sm_acceptedHostKeys (snd (reserveConnectionSlot m)) = sm_acceptedHostKeys m"
  "sm_pending (snd (reserveConnectionSlot m)) =
     (case fst (reserveConnectionSlot m) of Inl _ \<Rightarrow> sm_pending m | Inr _ \<Rightarrow> sm_pending m + 1)"
  by (auto simp: reserveConnectionSlot_def reserve_first_def reserve_second_def closeSession_begin_def
      split: option.splits if_splits prod.splits bool.splits)

lemma openSession_Inr:
  assumes "openSession env connect requestSFTP uuid now params m = (Inr r, m')"
    and "or_else (cp_policyMode params) Enforce = Enforce"
  obtains m1 ssh m2 where "reserveConnectionSlot m = (Inr (), m1)" and "establish env connect params m1 = (Inr ssh, m2)"
    and "\<not> root_denied (sm_security m) params"
    and "r = open_result (generateSessionId uuid) (or_else (cp_ttlMs params) (sm_defaultTtlMs m)) (sm_security m)
           params (requestSFTP ssh) None"
    and "m' = open_connected (generateSessionId uuid)
           (new_session (generateSessionId uuid) now (or_else (cp_ttlMs params) (sm_defaultTtlMs m)) (sm_security m)
              params ssh (requestSFTP ssh)) m2"
  using assms by (auto simp: openSession_def Let_def split: sum.splits prod.splits if_splits)

lemma reserve_keeps_sessions:
  "map_get (sm_sessions (snd (reserveConnectionSlot m))) i = Some s \<Longrightarrow> map_get (sm_sessions m) i = Some s"
  by (auto simp: reserveConnectionSlot_def reserve_first_def reserve_second_def closeSession_begin_def jsm.get_remove
      split: option.splits if_splits prod.splits bool.splits)

text \<open>
  Explain mode stores nothing, so every session a request leaves behind was there or is in enforce
  mode: the operations on a session, which ask the policy in the session's mode, are enforced.
\<close>

lemma stored_sessions_enforce:
  assumes "openSession env connect requestSFTP uuid now params m = (res, m')" and "map_get (sm_sessions m') i = Some s"
  shows "map_get (sm_sessions m) i = Some s \<or> si_policyMode (ss_info s) = Enforce"
proof -
  obtain r1 m1 where rs: "reserveConnectionSlot m = (r1, m1)" by (cases "reserveConnectionSlot m")
  obtain c m2 where es: "establish env connect params m1 = (c, m2)" by (cases "establish env connect params m1")
  have kept: "map_get (sm_sessions m1) i = Some s \<Longrightarrow> map_get (sm_sessions m) i = Some s" "sm_sessions m2 = sm_sessions m1"
    using reserve_keeps_sessions [of m i s] establish_fields(1) [of env connect params m1] rs es by simp_all
  have mode: "or_else (cp_policyMode params) Enforce \<noteq> Explain \<Longrightarrow> or_else (cp_policyMode params) Enforce = Enforce"
    by (cases "or_else (cp_policyMode params) Enforce") simp_all
  show ?thesis
    using assms kept mode
    by (auto simp: openSession_def Let_def rs es open_connected_def open_failed_def new_session_def jsm.get_put
        split: sum.splits if_splits option.splits)
qed

text \<open>
  C2: a session that opens has passed every gate: the policy permits the host and user, root only
  where root is allowed, and its connection is the one the library made to that host, port and user
  with the credentials of the request, being handed exactly the host key rule that applies (the pinned
  fingerprint, the first-seen key, or \<open>known_hosts\<close>) as its verifier, together with the hash that rule
  is about; the key the server then showed satisfies the rule. That connection is stored under the id
  returned, for the time asked, and its admission slot is given back.
\<close>

theorem openSession_authorised:
  assumes "sm_policy m = Some (engine_gate penv config)" and "honours_verifier connect"
    and "cp_policyMode params \<noteq> Some Explain"
    and "openSession env connect requestSFTP uuid now params m = (Inr r, m')"
  shows "permitted penv config (open_question params) \<and>
    (cp_username params = ''root'' \<longrightarrow> sec_allowRootLogin (sm_security m)) \<and>
    (\<exists>cfg key s. connect cfg (host_key_acceptable env (sm_security m) (sm_acceptedHostKeys m) params) = (Some key, Inr (ss_ssh s)) \<and>
       host_key_acceptable env (sm_security m) (sm_acceptedHostKeys m) params key \<and>
       cc_host cfg = cp_host params \<and> cc_username cfg = cp_username params \<and>
       cc_port cfg = (if cp_port params = None then 22 else the (cp_port params)) \<and>
       buildAuthConfig env params = Inr (cc_auth cfg) \<and>
       (truthy (cp_expectedHostKeySha256 params) \<or> host_key_policy_of (sm_security m) params \<noteq> Insecure \<longrightarrow>
          cc_hostHash cfg = Some ''sha256'') \<and>
       map_get (sm_sessions m') (so_sessionId r) = Some s \<and>
       si_host (ss_info s) = cp_host params \<and> si_username (ss_info s) = cp_username params \<and>
       si_expiresAt (ss_info s) = now + so_expiresInMs r) \<and>
    sm_pending m' = sm_pending m"
proof -
  have mode: "or_else (cp_policyMode params) Enforce = Enforce"
    using assms(3) by (cases "cp_policyMode params"; cases "the (cp_policyMode params)") (auto simp: or_else_def)
  have permitted: "permitted penv config (open_question params)"
    using engine.opened_permitted [OF assms(1,4) mode] by (simp add: open_asked [OF mode])
  obtain m1 ssh m2 where h: "reserveConnectionSlot m = (Inr (), m1)" "establish env connect params m1 = (Inr ssh, m2)"
    "\<not> root_denied (sm_security m) params"
    "r = open_result (generateSessionId uuid) (or_else (cp_ttlMs params) (sm_defaultTtlMs m)) (sm_security m)
           params (requestSFTP ssh) None"
    "m' = open_connected (generateSessionId uuid)
           (new_session (generateSessionId uuid) now (or_else (cp_ttlMs params) (sm_defaultTtlMs m)) (sm_security m)
              params ssh (requestSFTP ssh)) m2"
    using openSession_Inr [OF assms(4) mode] .
  have same: "sm_security m1 = sm_security m" "sm_acceptedHostKeys m1 = sm_acceptedHostKeys m"
    using reserveConnectionSlot_fields(1,2) [of m] h(1) by simp_all
  obtain auth key where key: "buildAuthConfig env params = Inr auth"
    "connect (connect_config (sm_security m) params auth)
       (host_key_acceptable env (sm_security m) (sm_acceptedHostKeys m) params) = (Some key, Inr ssh)"
    "host_key_acceptable env (sm_security m) (sm_acceptedHostKeys m) params key"
    using establish_Inr [OF assms(2) h(2)] unfolding same by blast
  let ?s = "new_session (generateSessionId uuid) now (or_else (cp_ttlMs params) (sm_defaultTtlMs m)) (sm_security m)
              params ssh (requestSFTP ssh)"
  have s: "ss_ssh ?s = ssh" "map_get (sm_sessions m') (so_sessionId r) = Some ?s"
    "si_host (ss_info ?s) = cp_host params" "si_username (ss_info ?s) = cp_username params"
    "si_expiresAt (ss_info ?s) = now + so_expiresInMs r"
    by (simp_all add: h(4,5) open_connected_def open_result_def new_session_def jsm.get_put)
  have "sm_pending m2 = sm_pending m + 1"
    using establish_fields(2) [of env connect params m1] reserveConnectionSlot_fields(3) [of m] h(1,2) by simp
  then have "sm_pending m' = sm_pending m" by (simp add: h(5) open_connected_def)
  with permitted h(3) s(2-5) show ?thesis
    by (intro conjI exI [of _ "connect_config (sm_security m) params auth"] exI [of _ key] exI [of _ ?s])
      (auto simp: key s(1) connect_config_verifier root_denied_def)
qed

text \<open>
  Explain mode never connects and changes nothing, and it predicts the gates: it would connect
  exactly when the policy permits the request and the root rule does not forbid it.
\<close>

theorem explain_predicts_open:
  assumes "newPolicyEngine penv config = Inr pol" and "sm_policy m = Some (engine_gate penv config)"
    and "cp_policyMode params = Some Explain"
  shows "\<exists>r. openSession env connect requestSFTP uuid now params m = (Inr r, m) \<and>
    so_wouldConnect r = Some (permitted penv config (open_context params) \<and>
      (cp_username params = ''root'' \<longrightarrow> sec_allowRootLogin (sm_security m)))"
proof -
  have "evaluate penv pol (open_context params) = evaluate penv pol (open_context params) \<and>
      pd_mode (evaluate penv pol (open_context params)) = Explain"
    using evaluate_mode [of penv pol "open_context params"] newPolicyEngine_Inr(1) [OF assms(1)] assms(3)
    by (simp add: open_context_def or_else_def)
  then have "engine_gate penv config (open_context params) = Inr (evaluate penv pol (open_context params))"
    by (simp add: engine_gate_def assms(1) assertAllowed_def Let_def)
  with assms(2,3) policy_refines [OF assms(1), of "open_context params"] show ?thesis
    by (auto simp: openSession_def Let_def or_else_def open_result_def root_denied_def)
qed

subsection \<open>First-seen host keys\<close>

lemma accepted_fields:
  "sm_acceptedHostKeys (snd (getSession now now' i m)) = sm_acceptedHostKeys m"
  "sm_acceptedHostKeys (fold (\<lambda>i m. snd (closeSession_begin i m)) is m) = sm_acceptedHostKeys m"
  "sm_acceptedHostKeys (snd (reserve_first m)) = sm_acceptedHostKeys m"
  "sm_acceptedHostKeys (snd (reserve_second m)) = sm_acceptedHostKeys m"
  "sm_acceptedHostKeys (beginOperation i m) = sm_acceptedHostKeys m"
  "sm_acceptedHostKeys (endOperation i m) = sm_acceptedHostKeys m"
  "sm_acceptedHostKeys (open_connected i s m) = sm_acceptedHostKeys m"
  "sm_acceptedHostKeys (open_failed m) = sm_acceptedHostKeys m"
proof -
  show "sm_acceptedHostKeys (fold (\<lambda>i m. snd (closeSession_begin i m)) is m) = sm_acceptedHostKeys m"
    by (induction "is" arbitrary: m) simp_all
qed (auto simp: getSession_def reserve_first_def reserve_second_def beginOperation_def endOperation_def
    open_connected_def open_failed_def closeSession_begin_def Let_def split: option.splits prod.splits bool.splits)

lemma run_verifier_keeps_key:
  "map_get (sm_acceptedHostKeys m) k = Some a \<Longrightarrow> a \<noteq> [] \<Longrightarrow>
     map_get (sm_acceptedHostKeys (snd (run_verifier env v key m))) k = Some a"
  by (auto simp: run_verifier_def verifyAcceptNewHostKey_def Let_def jsm.get_put truthy_def
      split: option.splits host_verifier.splits)

lemma sm_step_keeps_key:
  assumes "sm_step w w'" and "map_get (sm_acceptedHostKeys (w_manager w)) k = Some a" and "a \<noteq> []"
  shows "map_get (sm_acceptedHostKeys (w_manager w')) k = Some a"
  using assms(1)
proof cases
  case (admitted m1 m2 i)
  with assms(2) accepted_fields(3) [of "w_manager w"] accepted_fields(4) [of m1] show ?thesis by simp
next
  case (evicting i m1)
  with assms(2) accepted_fields(3) [of "w_manager w"] show ?thesis by simp
next
  case (evicted i res m1 j)
  with assms(2) accepted_fields(4) [of "w_manager w"] show ?thesis by simp
qed (use assms(2,3) in \<open>simp_all add: accepted_fields cleanupExpiredSessions_def run_verifier_keeps_key\<close>)

lemma sm_steps_keep_key:
  "sm_step\<^sup>*\<^sup>* w w' \<Longrightarrow> map_get (sm_acceptedHostKeys (w_manager w)) k = Some a \<Longrightarrow> a \<noteq> [] \<Longrightarrow>
     map_get (sm_acceptedHostKeys (w_manager w')) k = Some a"
  by (induction rule: rtranclp_induct) (auto intro: sm_step_keeps_key)

text \<open>
  C38: under the accept-new policy a host and port are pinned to the first key accepted for them: from
  then on, whatever happens to the manager, exactly that key's fingerprint is accepted.
\<close>

theorem accept_new_pins_key:
  assumes "fst (verifyAcceptNewHostKey host port key (w_manager w))" and "normalizeSha256Fingerprint key \<noteq> []"
    and "sm_step\<^sup>*\<^sup>* (w\<lparr> w_manager := snd (verifyAcceptNewHostKey host port key (w_manager w)) \<rparr>) w'"
  shows "fst (verifyAcceptNewHostKey host port key' (w_manager w')) \<longleftrightarrow>
    normalizeSha256Fingerprint key' = normalizeSha256Fingerprint key"
proof -
  have "map_get (sm_acceptedHostKeys (snd (verifyAcceptNewHostKey host port key (w_manager w))))
      (host_port_key host port) = Some (normalizeSha256Fingerprint key)"
    using assms(1,2) by (auto simp: verifyAcceptNewHostKey_def Let_def jsm.get_put truthy_def split: option.splits)
  with sm_steps_keep_key [OF assms(3) _ assms(2)] show ?thesis
    using assms(2) by (auto simp: verifyAcceptNewHostKey_def Let_def)
qed

text \<open>
  A lookup returns a session exactly when it exists and is either within its time or busy, with
  its last use updated when within its time; an expired idle one is on its way to being closed.
\<close>

theorem getSession_live_or_busy:
  "fst (getSession now now' i m) =
     (case map_get (sm_sessions m) i of None \<Rightarrow> None
      | Some s \<Rightarrow>
          if now < si_expiresAt (ss_info s) then Some (s\<lparr> ss_info := (ss_info s)\<lparr> si_lastUsed := now' \<rparr> \<rparr>)
          else if hasActiveOperations m i then Some s else None) \<and>
   (i \<in> set (sm_closing (snd (getSession now now' i m))) \<longleftrightarrow>
      i \<in> set (sm_closing m) \<or>
      (\<exists>s. map_get (sm_sessions m) i = Some s \<and> si_expiresAt (ss_info s) \<le> now \<and> \<not> hasActiveOperations m i))"
  by (auto simp: getSession_def Let_def closeSession_begin_closing split: option.splits)

subsection \<open>A concrete manager\<close>

definition demo_security :: security_config where
  "demo_security = \<lparr> sec_allowRootLogin = False, sec_hostKeyPolicy = AcceptNew, sec_knownHostsPath = ''/kh'',
     sec_allowedCiphers = [] \<rparr>"

definition demo_params :: connection_params where
  "demo_params = \<lparr> cp_host = ''a.example'', cp_policyHost = None, cp_username = ''deploy'', cp_port = None,
     cp_auth = Some AuthPassword, cp_password = Some ''pw'', cp_privateKey = None, cp_privateKeyPath = None,
     cp_passphrase = None, cp_readyTimeoutMs = None, cp_ttlMs = Some 1000, cp_strictHostKeyChecking = None,
     cp_hostKeyPolicy = None, cp_knownHostsPath = None, cp_expectedHostKeySha256 = None, cp_policyMode = None \<rparr>"

definition demo_connect :: "nat ssh_connect" where
  "demo_connect cfg verdict =
     (Some ''KEY'', if verdict ''KEY'' then Inr 7 else Inl (JSError ''Host denied (verification failed)''))"

definition demo_manager :: "(nat, string) session_manager" where
  "demo_manager = newSessionManager 1 900000 demo_security (Some (engine_gate demo_env demo_config))"

definition demo_session :: "string \<Rightarrow> int \<Rightarrow> (nat, string) ssh_session" where
  "demo_session i t = (new_session i t 1000 demo_security demo_params 7 True)"

lemma demo_connect_honours: "honours_verifier demo_connect"
  by (auto simp: honours_verifier_def demo_connect_def split: if_splits)

lemma demo_gate: "\<exists>d. engine_gate demo_env demo_config (open_context demo_params) = Inr d"
proof -
  have "permitted demo_env demo_config (open_context demo_params)"
    by (simp add: permitted_def host_permitted_def tunnel_permitted_def command_permitted_def remote_permitted_def
        open_context_def demo_params_def demo_config_def or_else_def LOCAL_TRANSFER_ACTIONS_def context_paths_def)
  with policy_refines [OF demo_engine_new] show ?thesis
    by (simp add: engine_gate_def demo_engine_new assertAllowed_def Let_def)
qed

lemma demo_open:
  "\<exists>r m'. openSession demo_auth_env demo_connect (\<lambda>_. True) ''u'' 5 demo_params demo_manager = (Inr r, m')"
proof -
  obtain d where d: "engine_gate demo_env demo_config (open_context demo_params) = Inr d" using demo_gate by blast
  have r: "reserveConnectionSlot demo_manager = (Inr (), demo_manager\<lparr> sm_pending := 1 \<rparr>)"
    by (simp add: reserveConnectionSlot_def reserve_first_def reserve_second_def at_capacity_def demo_manager_def
        newSessionManager_def)
  have v: "host_key_acceptable demo_auth_env demo_security [] demo_params k" for k
    by (simp add: host_key_acceptable_def demo_params_def host_key_policy_of_def demo_security_def Let_def)
  have e: "\<exists>m1. establish demo_auth_env demo_connect demo_params (demo_manager\<lparr> sm_pending := 1 \<rparr>) = (Inr 7, m1)"
    using v by (simp add: fun_cong [OF connect_config_verifier(2)] establish_def buildAuthConfig_def demo_params_def [THEN arg_cong [of _ _ cp_auth]]
        demo_params_def [THEN arg_cong [of _ _ cp_password]] or_else_def Let_def demo_connect_def
        demo_manager_def newSessionManager_def)
  have "\<not> root_denied (sm_security demo_manager) demo_params" "or_else (cp_policyMode demo_params) Enforce = Enforce"
    by (simp_all add: root_denied_def demo_params_def or_else_def)
  with d r e show ?thesis
    by (auto simp: openSession_def Let_def demo_manager_def [THEN arg_cong [of _ _ sm_policy]] newSessionManager_def)
qed

theorem openSession_authorised_witness:
  "\<exists>r m'. openSession demo_auth_env demo_connect (\<lambda>_. True) ''u'' 5 demo_params demo_manager = (Inr r, m') \<and>
     permitted demo_env demo_config (open_question demo_params) \<and> sm_pending m' = 0"
proof -
  obtain r m' where o: "openSession demo_auth_env demo_connect (\<lambda>_. True) ''u'' 5 demo_params demo_manager = (Inr r, m')"
    using demo_open by blast
  have "sm_policy demo_manager = Some (engine_gate demo_env demo_config)" "cp_policyMode demo_params \<noteq> Some Explain"
    "sm_pending demo_manager = 0"
    by (simp_all add: demo_manager_def newSessionManager_def demo_params_def)
  with openSession_authorised [OF _ demo_connect_honours _ o] o show ?thesis by auto
qed

theorem explain_predicts_open_witness:
  "\<exists>r. openSession demo_auth_env demo_connect (\<lambda>_. True) ''u'' 5 (demo_params\<lparr> cp_policyMode := Some Explain \<rparr>)
      demo_manager = (Inr r, demo_manager) \<and>
    so_wouldConnect r = Some (permitted demo_env demo_config (open_context (demo_params\<lparr> cp_policyMode := Some Explain \<rparr>)) \<and>
      (cp_username (demo_params\<lparr> cp_policyMode := Some Explain \<rparr>) = ''root'' \<longrightarrow> sec_allowRootLogin (sm_security demo_manager)))"
  by (rule explain_predicts_open [OF demo_engine_new]) (simp_all add: demo_manager_def newSessionManager_def)

text \<open>A manager of one place, held by a session last used at time 5, another being at work.\<close>

definition demo_full :: "(nat, string) session_manager" where
  "demo_full = beginOperation ''busy''
     (demo_manager\<lparr> sm_sessions := [(''busy'', demo_session ''busy'' 1), (''idle'', demo_session ''idle'' 5)] \<rparr>)"

lemma demo_full_fields:
  "jsmap_ok (sm_sessions demo_full)" "map_get (sm_sessions demo_full) [] = None"
  "map_get (sm_sessions demo_full) ''busy'' = Some (demo_session ''busy'' 1)"
  "sm_closing demo_full = []" "hasActiveOperations demo_full ''busy''" "\<not> hasActiveOperations demo_full ''idle''"
  by (simp_all add: demo_full_def beginOperation_def jsmap_ok_def demo_manager_def newSessionManager_def
      hasActiveOperations_def op_count_def)

theorem eviction_least_recently_used_witness: "evict_candidate demo_full \<noteq> None"
  using eviction_least_recently_used [OF demo_full_fields(1,2)] demo_full_fields(4,6)
  by (auto split: option.splits simp: demo_full_def beginOperation_def)

theorem busy_sessions_not_reclaimed_witness:
  "fst (getSession 99999 99999 ''busy'' demo_full) \<noteq> None \<and>
   ''busy'' \<notin> set (sm_closing (cleanupExpiredSessions 99999 demo_full))"
  using busy_sessions_not_reclaimed [OF demo_full_fields(1,5,3)] demo_full_fields(4) by simp

theorem session_capacity_witness:
  "int (length (sm_sessions (open_connected ''i'' (demo_session ''i'' 5) (demo_manager\<lparr> sm_pending := 1 \<rparr>)))) +
     sm_pending (open_connected ''i'' (demo_session ''i'' 5) (demo_manager\<lparr> sm_pending := 1 \<rparr>)) \<le> 1"
proof -
  let ?w0 = "sm_start 1 900000 demo_security (Some (engine_gate demo_env demo_config)) :: (nat, string) sm_world"
  let ?w1 = "?w0\<lparr> w_manager := demo_manager\<lparr> sm_pending := 1 \<rparr>, w_inflight := ''i'' # w_inflight ?w0 \<rparr>"
  let ?w2 = "?w1\<lparr> w_manager := open_connected ''i'' (demo_session ''i'' 5) (w_manager ?w1),
                   w_inflight := remove1 ''i'' (w_inflight ?w1) \<rparr>"
  have "reserve_first (w_manager ?w0) = (GoOn, demo_manager)"
    "reserve_second demo_manager = (Inr (), demo_manager\<lparr> sm_pending := 1 \<rparr>)"
    by (simp_all add: sm_start_def reserve_first_def reserve_second_def at_capacity_def demo_manager_def newSessionManager_def)
  then have "sm_step ?w0 ?w1" by (intro sm_step.admitted) (simp add: sm_start_def)
  moreover have "sm_step ?w1 ?w2" by (rule sm_step.connected) simp
  ultimately have "sm_step\<^sup>*\<^sup>* ?w0 ?w2" by simp
  from session_capacity [OF this] show ?thesis by simp
qed

theorem accept_new_pins_key_witness:
  "\<not> fst (verifyAcceptNewHostKey ''h'' 22 ''OTHER''
      (beginOperation ''i'' (snd (verifyAcceptNewHostKey ''h'' 22 ''KEY'' demo_manager))))"
proof -
  let ?w = "\<lparr> w_manager = demo_manager, w_inflight = [], w_admission = None \<rparr>"
  let ?w1 = "?w\<lparr> w_manager := snd (verifyAcceptNewHostKey ''h'' 22 ''KEY'' (w_manager ?w)) \<rparr>"
  have a: "fst (verifyAcceptNewHostKey ''h'' 22 ''KEY'' (w_manager ?w))"
    by (simp add: verifyAcceptNewHostKey_def Let_def demo_manager_def newSessionManager_def)
  have k: "normalizeSha256Fingerprint ''KEY'' = ''KEY''" "normalizeSha256Fingerprint ''OTHER'' = ''OTHER''" by code_simp+
  have "sm_step\<^sup>*\<^sup>* ?w1 (?w1\<lparr> w_manager := beginOperation ''i'' (w_manager ?w1) \<rparr>)"
    by (rule r_into_rtranclp) (rule sm_step.began)
  from accept_new_pins_key [OF a _ this, of "''OTHER''"] show ?thesis by (simp add: k)
qed

end
