(* ===== verification/Shell.thy ===== *)
theory Shell
  imports Errors
begin

section \<open>Shell command construction: \<open>src/shell.ts\<close>\<close>

text \<open>
  Quoting, environment prefixes, working directory, time limit and sudo. What the text means to a
  POSIX shell is a reader of words (\<open>sh_word\<close>, \<open>sh_words\<close>) for the part of the quoting rules that
  needs no expansion: it refuses every character that would start one.
\<close>

datatype platform = Linux | Darwin | Windows | UnknownPlatform
datatype shell_type = Bash | Sh | PowerShell | Cmd | UnknownShell

record os_info =
  os_platform :: platform
  os_distro :: string
  os_version :: string
  os_arch :: string
  os_shell :: string
  os_packageManager :: string
  os_init :: string
  os_defaultShell :: "shell_type option"
  os_tempDir :: "string option"

type_synonym env_record = "(string \<times> string) list"

definition shellQuote :: "string \<Rightarrow> string" where
  "shellQuote v = [SQUOTE] @ replace_char SQUOTE [SQUOTE, DQUOTE, SQUOTE, DQUOTE, SQUOTE] v @ [SQUOTE]"

definition powerShellQuote :: "string \<Rightarrow> string" where
  "powerShellQuote v = [SQUOTE] @ replace_char SQUOTE [SQUOTE, SQUOTE] v @ [SQUOTE]"

definition valid_env_key :: "string \<Rightarrow> bool" where
  "valid_env_key key =
     (case key of [] \<Rightarrow> False | c # cs \<Rightarrow> (is_alpha c \<or> c = CHR ''_'') \<and> list_all is_word_char cs)"

definition invalid_env_message :: "string \<Rightarrow> string" where
  "invalid_env_message key =
     ''Invalid environment variable name: '' @ (if key = [] then ''<empty>'' else key) @
     ''. Expected ^[A-Za-z_]'' @ [BSLASH] @ ''w*$''"

fun assertValidEnvironment :: "env_record \<Rightarrow> thrown + unit" where
  "assertValidEnvironment [] = Inr ()"
| "assertValidEnvironment ((key, v) # rest) =
     (if \<not> valid_env_key key then Inl (JSError (invalid_env_message key)) else assertValidEnvironment rest)"

definition env_entries :: "env_record option \<Rightarrow> env_record" where
  "env_entries env = (case env of None \<Rightarrow> [] | Some e \<Rightarrow> e)"

definition posix_script :: "string \<Rightarrow> string option \<Rightarrow> env_record \<Rightarrow> string" where
  "posix_script command cwd env =
     (let withEnv = (if env \<noteq> [] then
                       join ''; '' (map (\<lambda>(key, v). ''export '' @ key @ ''='' @ shellQuote v) env) @ ''; '' @ command
                     else command)
      in case cwd of
           None \<Rightarrow> withEnv
         | Some d \<Rightarrow> if d = [] then withEnv else ''cd '' @ shellQuote d @ '' && '' @ withEnv)"

definition buildPosixCommand :: "string \<Rightarrow> string option \<Rightarrow> env_record option \<Rightarrow> string \<Rightarrow> thrown + string" where
  "buildPosixCommand command cwd env shellName =
     (case assertValidEnvironment (env_entries env) of
        Inl e \<Rightarrow> Inl e
      | Inr _ \<Rightarrow> Inr (shellName @ '' -lc '' @ shellQuote (posix_script command cwd (env_entries env))))"

definition powerShell_script :: "string \<Rightarrow> string option \<Rightarrow> env_record \<Rightarrow> string" where
  "powerShell_script command cwd env =
     (let envPrefix = (if env \<noteq> [] then
                         join ''; '' (map (\<lambda>(key, v). ''$env:'' @ key @ '' = '' @ powerShellQuote v) env) @ ''; ''
                       else []);
          cwdPrefix = (case cwd of None \<Rightarrow> []
                       | Some d \<Rightarrow> if d = [] then [] else ''Set-Location -Path '' @ powerShellQuote d @ ''; '')
      in envPrefix @ cwdPrefix @ command)"

definition buildPowerShellCommand :: "string \<Rightarrow> string option \<Rightarrow> env_record option \<Rightarrow> thrown + string" where
  "buildPowerShellCommand command cwd env =
     (case assertValidEnvironment (env_entries env) of
        Inl e \<Rightarrow> Inl e
      | Inr _ \<Rightarrow>
          Inr (''powershell -NoLogo -NoProfile -NonInteractive -ExecutionPolicy Bypass -Command '' @
               powerShellQuote (powerShell_script command cwd (env_entries env))))"

definition posix_shell_name :: "os_info \<Rightarrow> string" where
  "posix_shell_name os = (if os_defaultShell os = Some Bash then ''bash'' else ''sh'')"

definition buildRemoteCommand :: "string \<Rightarrow> os_info \<Rightarrow> string option \<Rightarrow> env_record option \<Rightarrow> thrown + string" where
  "buildRemoteCommand command os cwd env =
     (if os_platform os = Windows then buildPowerShellCommand command cwd env
      else buildPosixCommand command cwd env (posix_shell_name os))"

text \<open>\<open>Math.max(1, Math.ceil(timeoutMs / 1000))\<close>, for an integral \<open>timeoutMs\<close>.\<close>

definition timeout_seconds :: "int \<Rightarrow> int" where
  "timeout_seconds timeoutMs = max 1 (- ((- timeoutMs) div 1000))"

definition buildRemoteCommandWithTimeout ::
    "string \<Rightarrow> os_info \<Rightarrow> int \<Rightarrow> string option \<Rightarrow> env_record option \<Rightarrow> thrown + string" where
  "buildRemoteCommandWithTimeout command os timeoutMs cwd env =
     (case buildRemoteCommand command os cwd env of
        Inl e \<Rightarrow> Inl e
      | Inr remoteCommand \<Rightarrow>
          if os_platform os = Windows then Inr remoteCommand
          else Inr (join '' ''
            [''if command -v timeout >/dev/null 2>&1; then'',
             ''timeout -k '' @ show_int 2 @ ''s '' @ show_int (timeout_seconds timeoutMs) @ ''s '' @ remoteCommand @ '';'',
             ''else'',
             remoteCommand @ '';'',
             ''fi'']))"

definition sudo_script :: "string \<Rightarrow> string option \<Rightarrow> string" where
  "sudo_script command cwd =
     ''sudo -n '' @ (case cwd of None \<Rightarrow> command
                    | Some d \<Rightarrow> if d = [] then command else ''cd '' @ shellQuote d @ '' && '' @ command)"

definition buildSudoCommand :: "string \<Rightarrow> os_info \<Rightarrow> string option \<Rightarrow> thrown + string" where
  "buildSudoCommand command os cwd =
     (if os_platform os = Windows then Inl (JSError ''Sudo is not supported on Windows hosts'')
      else buildPosixCommand (sudo_script command cwd) None None (posix_shell_name os))"

text \<open>\<open>replaceAll\<close> of two backslashes, then of one.\<close>

fun replace_double_backslash :: "string \<Rightarrow> string" where
  "replace_double_backslash (a # b # cs) =
     (if a = BSLASH \<and> b = BSLASH then CHR ''/'' # replace_double_backslash cs
      else a # replace_double_backslash (b # cs))"
| "replace_double_backslash s = s"

definition resolveRemoteTempDir :: "os_info \<Rightarrow> string" where
  "resolveRemoteTempDir os =
     (if truthy (os_tempDir os) then
        replace_char BSLASH ''/'' (replace_double_backslash (the (os_tempDir os)))
      else if os_platform os = Windows then ''C:/Windows/Temp''
      else ''/tmp'')"

subsection \<open>How a POSIX shell reads words\<close>

definition sh_special :: "char \<Rightarrow> bool" where
  "sh_special c \<longleftrightarrow> c \<in> {CHR ''$'', CHR ''`'', BSLASH, CHR ''*'', CHR ''?'', CHR ''['', CHR ''#'', CHR ''~'',
     CHR ''('', CHR '')'', CHR ''<'', CHR ''>'', CHR ''{'', CHR ''}'', CHR ''!'', LF}"

definition sh_operator :: "char \<Rightarrow> bool" where
  "sh_operator c \<longleftrightarrow> c \<in> {CHR '' '', CHR '';'', CHR ''&'', CHR ''|''}"

datatype quote_state = Plain | InSingle | InDouble

text \<open>
  One word: its text, with the quotes removed, and the rest from the operator that ended it.
  \<open>None\<close> where a quote is not closed or an expansion would happen.
\<close>

fun sh_word :: "quote_state \<Rightarrow> string \<Rightarrow> (string \<times> string) option" where
  "sh_word Plain [] = Some ([], [])"
| "sh_word InSingle [] = None"
| "sh_word InDouble [] = None"
| "sh_word Plain (c # cs) =
     (if c = SQUOTE then sh_word InSingle cs
      else if c = DQUOTE then sh_word InDouble cs
      else if sh_operator c then Some ([], c # cs)
      else if sh_special c then None
      else map_option (\<lambda>(w, r). (c # w, r)) (sh_word Plain cs))"
| "sh_word InSingle (c # cs) =
     (if c = SQUOTE then sh_word Plain cs else map_option (\<lambda>(w, r). (c # w, r)) (sh_word InSingle cs))"
| "sh_word InDouble (c # cs) =
     (if c = DQUOTE then sh_word Plain cs
      else if c \<in> {CHR ''$'', CHR ''`'', BSLASH} then None
      else map_option (\<lambda>(w, r). (c # w, r)) (sh_word InDouble cs))"

lemma sh_word_length: "sh_word q s = Some (w, r) \<Longrightarrow> length r \<le> length s"
  by (induction q s arbitrary: w r rule: sh_word.induct) (force split: if_splits)+

text \<open>
  The words of a simple command, up to its end or to the operator that ends it, which starts the
  rest.
\<close>

definition skip_blanks :: "string \<Rightarrow> string" where
  "skip_blanks s = dropWhile (\<lambda>c. c = CHR '' '') s"

function sh_words :: "string \<Rightarrow> (string list \<times> string) option" where
  "sh_words s =
     (case sh_word Plain s of
        None \<Rightarrow> None
      | Some (w, r) \<Rightarrow>
          let r1 = skip_blanks r in
          if r1 = [] \<or> sh_operator (hd r1) then Some ([w], r1)
          else if length r1 < length s then
            (case sh_words r1 of None \<Rightarrow> None | Some (ws, r') \<Rightarrow> Some (w # ws, r'))
          else None)"
  by pat_completeness auto
termination
  by (relation "measure length") auto

declare sh_words.simps [simp del]

subsection \<open>Quoting\<close>

lemma sh_word_single:
  "sh_word InSingle (replace_char SQUOTE [SQUOTE, DQUOTE, SQUOTE, DQUOTE, SQUOTE] v @ SQUOTE # rest) =
     map_option (\<lambda>(w, r). (v @ w, r)) (sh_word Plain rest)"
proof (induction v)
  case Nil
  show ?case by (cases "sh_word Plain rest") (auto simp: replace_char_def)
next
  case (Cons c v)
  then show ?case
    by (cases "sh_word Plain rest"; cases "c = SQUOTE") (auto simp: replace_char_def)
qed

lemma sh_word_quote: "sh_word Plain (shellQuote v @ rest) = map_option (\<lambda>(w, r). (v @ w, r)) (sh_word Plain rest)"
  using sh_word_single [of v rest] by (simp add: shellQuote_def)

definition ends_word :: "string \<Rightarrow> bool" where
  "ends_word rest \<longleftrightarrow> rest = [] \<or> sh_operator (hd rest)"

lemma sh_word_end: "ends_word rest \<Longrightarrow> sh_word Plain rest = Some ([], rest)"
  by (cases rest) (auto simp: ends_word_def sh_operator_def)

definition bare_word :: "string \<Rightarrow> bool" where
  "bare_word w \<longleftrightarrow> (\<forall>c \<in> set w. \<not> sh_operator c \<and> \<not> sh_special c \<and> c \<noteq> SQUOTE \<and> c \<noteq> DQUOTE)"

lemma sh_word_bare: "bare_word b \<Longrightarrow> sh_word Plain (b @ rest) = map_option (\<lambda>(w, r). (b @ w, r)) (sh_word Plain rest)"
proof (induction b)
  case Nil
  show ?case by (cases "sh_word Plain rest") auto
next
  case (Cons c b)
  then show ?case by (cases "sh_word Plain rest") (auto simp: bare_word_def)
qed

lemma sh_words_Cons:
  assumes "sh_word Plain s = Some (w, CHR '' '' # c # r)" and "\<not> sh_operator c" and "sh_words (c # r) = Some (ws, r')"
  shows "sh_words s = Some (w # ws, r')"
proof -
  have "c \<noteq> CHR '' ''" using assms(2) by (auto simp: sh_operator_def)
  then have "skip_blanks (CHR '' '' # c # r) = c # r" by (simp add: skip_blanks_def)
  with assms sh_word_length [OF assms(1)] show ?thesis by (simp add: sh_words.simps [of s] Let_def)
qed

lemma sh_words_last:
  assumes "sh_word Plain s = Some (w, r)" and "skip_blanks r = [] \<or> sh_operator (hd (skip_blanks r))"
  shows "sh_words s = Some ([w], skip_blanks r)"
  using assms by (simp add: sh_words.simps [of s] Let_def)

lemma not_operator: "\<not> sh_operator SQUOTE" "\<not> sh_operator CHR ''-''"
  by (simp_all add: sh_operator_def)

text \<open>
  A quoted value reads back as that value, whatever characters it has: to a POSIX shell it is
  one word with nothing expanded, and the text after it is untouched.
\<close>

theorem shellQuote_roundtrip:
  assumes "rest = [] \<or> sh_operator (hd rest)"
  shows "sh_word Plain (shellQuote v @ rest) = Some (v, rest)"
  using assms by (simp add: sh_word_quote sh_word_end ends_word_def)

theorem shellQuote_roundtrip_witness:
  "sh_word Plain (shellQuote [CHR ''a'', SQUOTE, CHR '';''] @ '' && rm'') = Some ([CHR ''a'', SQUOTE, CHR '';''], '' && rm'')"
  by (rule shellQuote_roundtrip) (simp add: sh_operator_def)

subsection \<open>The whole command\<close>

lemma sh_words_bare:
  assumes "bare_word b" and "t \<noteq> []" and "\<not> sh_operator (hd t)" and "sh_words t = Some (ws, r)"
  shows "sh_words (b @ '' '' @ t) = Some (b # ws, r)"
proof -
  obtain c cs where t: "t = c # cs" using assms(2) by (cases t) auto
  have "sh_word Plain (b @ '' '' @ t) = Some (b, CHR '' '' # c # cs)"
    using sh_word_bare [OF assms(1), of "'' '' @ t"] by (simp add: t sh_operator_def)
  then show ?thesis using assms(3,4) by (intro sh_words_Cons) (simp_all add: t)
qed

lemma bare_then_quote:
  assumes "bare_word b" and "bare_word b'"
    and "skip_blanks rest = [] \<or> sh_operator (hd (skip_blanks rest))" and "ends_word rest"
  shows "sh_words (b @ '' '' @ b' @ shellQuote v @ rest) = Some ([b, b' @ v], skip_blanks rest)"
proof -
  have "sh_word Plain (b' @ shellQuote v @ rest) = Some (b' @ v, rest)"
    using sh_word_bare [OF assms(2)] sh_word_quote [of v rest] sh_word_end [OF assms(4)] by simp
  from sh_words_last [OF this assms(3)] have last: "sh_words (b' @ shellQuote v @ rest) = Some ([b' @ v], skip_blanks rest)" .
  obtain q where q: "shellQuote v = SQUOTE # q" by (simp add: shellQuote_def)
  have "\<not> sh_operator (hd (b' @ shellQuote v @ rest))" "b' @ shellQuote v @ rest \<noteq> []"
    using assms(2) not_operator(1) by (cases b'; simp add: q bare_word_def)+
  from sh_words_bare [OF assms(1) this(2,1) last] show ?thesis by simp
qed

lemma bare_words:
  "bare_word ''-lc''" "bare_word ''cd''" "bare_word ''export''" "bare_word []" "bare_word ''sh''" "bare_word ''bash''"
  "bare_word ''sudo''" "bare_word ''-n''"
  by (simp_all add: bare_word_def sh_operator_def sh_special_def)

lemma posix_command_words:
  assumes "buildPosixCommand command cwd env shellName = Inr s" and "bare_word shellName"
  shows "sh_words s = Some ([shellName, ''-lc'', posix_script command cwd (env_entries env)], [])"
proof -
  let ?q = "shellQuote (posix_script command cwd (env_entries env))"
  have s: "s = shellName @ '' '' @ ''-lc'' @ '' '' @ ?q"
    using assms(1) by (auto simp: buildPosixCommand_def split: sum.splits)
  have q: "sh_words (''-lc'' @ '' '' @ [] @ ?q @ []) = Some ([''-lc'', [] @ posix_script command cwd (env_entries env)], skip_blanks [])"
    by (rule bare_then_quote [OF bare_words(1,4)]) (simp_all add: skip_blanks_def ends_word_def)
  show ?thesis
    using sh_words_bare [OF assms(2) _ _ q] not_operator(2) by (simp add: s skip_blanks_def)
qed

lemma bare_word_append: "bare_word a \<Longrightarrow> bare_word b \<Longrightarrow> bare_word (a @ b)"
  by (auto simp: bare_word_def)

lemma valid_env_key_bare: "valid_env_key k \<Longrightarrow> bare_word k"
  by (cases k) (auto simp: valid_env_key_def bare_word_def is_word_char_def is_alpha_def is_upper_def is_lower_def
      is_digit_def char_between_def sh_operator_def sh_special_def list_all_iff)

lemma assertValidEnvironment_Inr: "assertValidEnvironment env = Inr () \<longleftrightarrow> (\<forall>e \<in> set env. valid_env_key (fst e))"
  by (induction env rule: assertValidEnvironment.induct) auto

lemma posix_script_Cons:
  "posix_script command None ((k, v) # env) = ''export '' @ k @ ''='' @ shellQuote v @ ''; '' @ posix_script command None env"
  by (cases env) (auto simp: posix_script_def)

text \<open>A script that runs the given simple commands, each ended by \<open>;\<close> or \<open>&&\<close>, and then a command.\<close>

fun sh_runs :: "string list list \<Rightarrow> string \<Rightarrow> string \<Rightarrow> bool" where
  "sh_runs [] script command = (script = command)"
| "sh_runs (ws # wss) script command =
     (\<exists>sep \<in> {''; '', ''&& ''}. \<exists>rest. sh_words script = Some (ws, sep @ rest) \<and> sh_runs wss rest command)"

definition script_steps :: "string option \<Rightarrow> env_record \<Rightarrow> string list list" where
  "script_steps cwd env =
     (case cwd of None \<Rightarrow> [] | Some d \<Rightarrow> if d = [] then [] else [[''cd'', d]]) @
     map (\<lambda>(k, v). [''export'', k @ ''='' @ v]) env"

lemma sh_runs_env:
  "\<forall>e \<in> set env. valid_env_key (fst e) \<Longrightarrow>
     sh_runs (map (\<lambda>(k, v). [''export'', k @ ''='' @ v]) env) (posix_script command None env) command"
proof (induction env)
  case Nil
  show ?case by (simp add: posix_script_def)
next
  case (Cons e env)
  obtain k v where e: "e = (k, v)" by (cases e)
  have "bare_word (k @ ''='')"
    using Cons.prems valid_env_key_bare [of k] by (intro bare_word_append) (auto simp: e bare_word_def sh_operator_def sh_special_def)
  from bare_then_quote [OF bare_words(3) this, of "''; '' @ posix_script command None env" v]
  have "sh_words (posix_script command None ((k, v) # env)) =
      Some ([''export'', k @ ''='' @ v], ''; '' @ posix_script command None env)"
    by (simp add: posix_script_Cons skip_blanks_def sh_operator_def ends_word_def)
  with Cons show ?case by (auto simp: e)
qed

lemma sh_runs_script:
  assumes "\<forall>e \<in> set env. valid_env_key (fst e)"
  shows "sh_runs (script_steps cwd env) (posix_script command cwd env) command"
proof (cases "truthy cwd")
  case False
  then have "posix_script command cwd env = posix_script command None env"
    by (auto simp: posix_script_def truthy_def split: option.splits)
  with False sh_runs_env [OF assms, of command] show ?thesis
    by (auto simp: script_steps_def truthy_def split: option.splits)
next
  case True
  then obtain d where d: "cwd = Some d" "d \<noteq> []" by (auto simp: truthy_Some)
  let ?rest = "posix_script command None env"
  have "posix_script command cwd env = ''cd'' @ '' '' @ [] @ shellQuote d @ '' && '' @ ?rest"
    by (simp add: posix_script_def d Let_def)
  moreover have "sh_words (''cd'' @ '' '' @ [] @ shellQuote d @ '' && '' @ ?rest) = Some ([''cd'', [] @ d], skip_blanks ('' && '' @ ?rest))"
    by (rule bare_then_quote [OF bare_words(2,4)]) (simp_all add: skip_blanks_def sh_operator_def ends_word_def)
  ultimately have "sh_words (posix_script command cwd env) = Some ([''cd'', d], ''&& '' @ ?rest)"
    by (simp add: skip_blanks_def)
  with sh_runs_env [OF assms, of command] d show ?thesis by (auto simp: script_steps_def)
qed

text \<open>
  C33: the command line built for a POSIX host is read as the shell, \<open>-lc\<close> and one script, and that
  script changes to the given directory, exports each variable with exactly its value and then runs
  exactly the given command: neither a directory nor a value can add to it. It is refused when a
  variable's name is not an identifier.
\<close>

theorem posix_command_injection_free:
  assumes "shellName \<in> {''sh'', ''bash''}"
  shows "case buildPosixCommand command cwd env shellName of
      Inl e \<Rightarrow> \<exists>k \<in> fst ` set (env_entries env). \<not> valid_env_key k
    | Inr s \<Rightarrow> (\<forall>k \<in> fst ` set (env_entries env). valid_env_key k) \<and>
        (\<exists>script. sh_words s = Some ([shellName, ''-lc'', script], []) \<and>
           sh_runs (script_steps cwd (env_entries env)) script command)"
proof (cases "assertValidEnvironment (env_entries env)")
  case (Inl e)
  with assertValidEnvironment_Inr [of "env_entries env"] show ?thesis by (auto simp: buildPosixCommand_def)
next
  case (Inr u)
  then have v: "\<forall>e \<in> set (env_entries env). valid_env_key (fst e)" using assertValidEnvironment_Inr by simp
  obtain s where s: "buildPosixCommand command cwd env shellName = Inr s" using Inr by (simp add: buildPosixCommand_def)
  have "bare_word shellName" using assms bare_words by auto
  from posix_command_words [OF s this] sh_runs_script [OF v, of cwd command] v s show ?thesis by auto
qed

theorem posix_command_injection_free_witness:
  "case buildPosixCommand ''ls'' (Some ''/a b'') (Some [(''K'', [SQUOTE, CHR '';''])]) ''sh'' of
      Inl e \<Rightarrow> \<exists>k \<in> fst ` set (env_entries (Some [(''K'', [SQUOTE, CHR '';''])])). \<not> valid_env_key k
    | Inr s \<Rightarrow> (\<forall>k \<in> fst ` set (env_entries (Some [(''K'', [SQUOTE, CHR '';''])])). valid_env_key k) \<and>
        (\<exists>script. sh_words s = Some ([''sh'', ''-lc'', script], []) \<and>
           sh_runs (script_steps (Some ''/a b'') (env_entries (Some [(''K'', [SQUOTE, CHR '';''])]))) script ''ls'')"
  by (rule posix_command_injection_free) simp

subsection \<open>Sudo with a working directory\<close>

text \<open>
  With a working directory, \<open>sudo\<close> is given the change of directory only: the script that
  \<open>buildSudoCommand\<close> passes to the shell reads as \<open>sudo -n cd\<close> into the directory, and the command
  itself follows after \<open>&&\<close> with no \<open>sudo\<close> before it.
\<close>

theorem sudo_elevates_only_cd:
  assumes "os_platform os \<noteq> Windows" and "d \<noteq> []"
  shows "\<exists>s script. buildSudoCommand command os (Some d) = Inr s \<and>
    sh_words s = Some ([posix_shell_name os, ''-lc'', script], []) \<and>
    sh_words script = Some ([''sudo'', ''-n'', ''cd'', d], ''&& '' @ command)"
proof -
  let ?script = "sudo_script command (Some d)"
  obtain s where s: "buildSudoCommand command os (Some d) = Inr s" "buildPosixCommand ?script None None (posix_shell_name os) = Inr s"
    using assms(1) by (simp add: buildSudoCommand_def buildPosixCommand_def env_entries_def)
  have "bare_word (posix_shell_name os)" by (simp add: posix_shell_name_def bare_words)
  from posix_command_words [OF s(2) this]
  have w: "sh_words s = Some ([posix_shell_name os, ''-lc'', ?script], [])"
    by (simp add: posix_script_def env_entries_def)
  have cd: "sh_words (''cd'' @ '' '' @ [] @ shellQuote d @ '' && '' @ command) = Some ([''cd'', [] @ d], skip_blanks ('' && '' @ command))"
    by (rule bare_then_quote [OF bare_words(2,4)]) (simp_all add: skip_blanks_def sh_operator_def ends_word_def)
  have n: "sh_words (''-n'' @ '' '' @ ''cd'' @ '' '' @ shellQuote d @ '' && '' @ command) = Some ([''-n'', ''cd'', d], ''&& '' @ command)"
    using sh_words_bare [OF bare_words(8) _ _ cd] by (simp add: sh_operator_def skip_blanks_def)
  have "sh_words ?script = Some ([''sudo'', ''-n'', ''cd'', d], ''&& '' @ command)"
    using sh_words_bare [OF bare_words(7) _ _ n] assms(2) by (simp add: sh_operator_def sudo_script_def)
  with s w show ?thesis by blast
qed

theorem sudo_elevates_only_cd_witness:
  "\<exists>s script. buildSudoCommand ''systemctl restart app''
       \<lparr> os_platform = Linux, os_distro = ''ubuntu'', os_version = ''22.04'', os_arch = ''x64'', os_shell = ''bash'',
         os_packageManager = ''apt'', os_init = ''systemd'', os_defaultShell = Some Bash, os_tempDir = None \<rparr>
       (Some ''/etc'') = Inr s \<and>
    sh_words s = Some ([''bash'', ''-lc'', script], []) \<and>
    sh_words script = Some ([''sudo'', ''-n'', ''cd'', ''/etc''], ''&& systemctl restart app'')"
  using sudo_elevates_only_cd [of "\<lparr> os_platform = Linux, os_distro = ''ubuntu'', os_version = ''22.04'',
      os_arch = ''x64'', os_shell = ''bash'', os_packageManager = ''apt'', os_init = ''systemd'',
      os_defaultShell = Some Bash, os_tempDir = None \<rparr>" "''/etc''" "''systemctl restart app''"]
  by (simp add: posix_shell_name_def)

end
