(* ===== verification/RemotePolicy.thy ===== *)
theory RemotePolicy
  imports Paths SessionAuth
begin

section \<open>Scopes, capabilities and agent policies: \<open>src/remote/{types,scopes,policy,util}.ts\<close>\<close>

text \<open>
  What a remote principal may ask of an agent: OAuth scopes give capabilities, each tool needs one,
  and an agent's policy says which capabilities, paths, services and containers it serves.
\<close>

datatype remote_capability =
    HostsRead | AgentsRead | AgentsAdmin | SystemRead | LogsRead | ServiceManage | DockerManage
  | FilesRead | FilesWrite | ShellExec | SudoExec | AgentAdmin | AuditRead

definition REMOTE_CAPABILITIES :: "remote_capability list" where
  "REMOTE_CAPABILITIES =
     [HostsRead, AgentsRead, AgentsAdmin, SystemRead, LogsRead, ServiceManage, DockerManage,
      FilesRead, FilesWrite, ShellExec, SudoExec, AgentAdmin, AuditRead]"

datatype remote_scope =
    ScHostsRead | ScAgentsRead | ScAgentsAdmin | ScStatusRead | ScLogsRead | ScServiceManage
  | ScDockerManage | ScFilesRead | ScFilesWrite | ScShellExec | ScSudoExec

definition REMOTE_SCOPES :: "remote_scope list" where
  "REMOTE_SCOPES =
     [ScHostsRead, ScAgentsRead, ScAgentsAdmin, ScStatusRead, ScLogsRead, ScServiceManage,
      ScDockerManage, ScFilesRead, ScFilesWrite, ScShellExec, ScSudoExec]"

fun scope_name :: "remote_scope \<Rightarrow> string" where
  "scope_name ScHostsRead = ''hosts:read''"
| "scope_name ScAgentsRead = ''agents:read''"
| "scope_name ScAgentsAdmin = ''agents:admin''"
| "scope_name ScStatusRead = ''status:read''"
| "scope_name ScLogsRead = ''logs:read''"
| "scope_name ScServiceManage = ''service:manage''"
| "scope_name ScDockerManage = ''docker:manage''"
| "scope_name ScFilesRead = ''files:read''"
| "scope_name ScFilesWrite = ''files:write''"
| "scope_name ScShellExec = ''shell:exec''"
| "scope_name ScSudoExec = ''sudo:exec''"

fun SCOPE_CAPABILITY_MAP :: "remote_scope \<Rightarrow> remote_capability list" where
  "SCOPE_CAPABILITY_MAP ScHostsRead = [HostsRead]"
| "SCOPE_CAPABILITY_MAP ScAgentsRead = [AgentsRead]"
| "SCOPE_CAPABILITY_MAP ScAgentsAdmin = [AgentsAdmin, AgentAdmin, AuditRead]"
| "SCOPE_CAPABILITY_MAP ScStatusRead = [SystemRead]"
| "SCOPE_CAPABILITY_MAP ScLogsRead = [LogsRead]"
| "SCOPE_CAPABILITY_MAP ScServiceManage = [ServiceManage]"
| "SCOPE_CAPABILITY_MAP ScDockerManage = [DockerManage]"
| "SCOPE_CAPABILITY_MAP ScFilesRead = [FilesRead]"
| "SCOPE_CAPABILITY_MAP ScFilesWrite = [FilesWrite]"
| "SCOPE_CAPABILITY_MAP ScShellExec = [ShellExec]"
| "SCOPE_CAPABILITY_MAP ScSudoExec = [SudoExec]"

datatype remote_tool =
    ListHosts | ListAgents | CreateEnrollmentToken | GetAgentInstallCommand | GetSystemStatus | TailLogs
  | RestartService | DockerPs | DockerLogs | DockerRestart | FileRead | FileWrite | RunShell
  | RunShellAsRoot | UpdateAgentPolicy | RevokeAgent | GetAuditEvents

fun TOOL_CAPABILITY_MAP :: "remote_tool \<Rightarrow> remote_capability" where
  "TOOL_CAPABILITY_MAP ListHosts = HostsRead"
| "TOOL_CAPABILITY_MAP ListAgents = AgentsRead"
| "TOOL_CAPABILITY_MAP CreateEnrollmentToken = AgentsAdmin"
| "TOOL_CAPABILITY_MAP GetAgentInstallCommand = AgentsAdmin"
| "TOOL_CAPABILITY_MAP GetSystemStatus = SystemRead"
| "TOOL_CAPABILITY_MAP TailLogs = LogsRead"
| "TOOL_CAPABILITY_MAP RestartService = ServiceManage"
| "TOOL_CAPABILITY_MAP DockerPs = DockerManage"
| "TOOL_CAPABILITY_MAP DockerLogs = DockerManage"
| "TOOL_CAPABILITY_MAP DockerRestart = DockerManage"
| "TOOL_CAPABILITY_MAP FileRead = FilesRead"
| "TOOL_CAPABILITY_MAP FileWrite = FilesWrite"
| "TOOL_CAPABILITY_MAP RunShell = ShellExec"
| "TOOL_CAPABILITY_MAP RunShellAsRoot = SudoExec"
| "TOOL_CAPABILITY_MAP UpdateAgentPolicy = AgentsAdmin"
| "TOOL_CAPABILITY_MAP RevokeAgent = AgentsAdmin"
| "TOOL_CAPABILITY_MAP GetAuditEvents = AuditRead"

datatype remote_error_code =
    UNAUTHORIZED | FORBIDDEN | INVALID_TOKEN | INVALID_SCOPE | INVALID_CLIENT | INVALID_REDIRECT_URI
  | PKCE_VALIDATION_FAILED | AGENT_NOT_FOUND | AGENT_OFFLINE | AGENT_REVOKED | AGENT_TIMEOUT
  | POLICY_DENIED | CAPABILITY_DENIED | ACTION_EXPIRED | ACTION_REPLAY_DETECTED | SIGNATURE_INVALID
  | COMMAND_TIMEOUT | OUTPUT_TRUNCATED | UNSUPPORTED_PLATFORM | UNSUPPORTED_PLATFORM_OR_PRIVILEGE
  | INTERNAL_ERROR

record safe_error =
  se_code :: remote_error_code
  se_message :: string
  se_status :: int

definition safeError :: "remote_error_code \<Rightarrow> string \<Rightarrow> int \<Rightarrow> safe_error" where
  "safeError code message status = \<lparr> se_code = code, se_message = message, se_status = status \<rparr>"

subsection \<open>Scopes\<close>

definition scope_of_name :: "string \<Rightarrow> remote_scope option" where
  "scope_of_name s = find (\<lambda>sc. scope_name sc = s) REMOTE_SCOPES"

text \<open>\<open>scope.split(/\\s+/u).filter(Boolean)\<close>.\<close>

definition scope_words :: "string \<Rightarrow> string list" where
  "scope_words s = filter (\<lambda>w. w \<noteq> []) (split_ws False [] s)"

definition parseScopes :: "string option \<Rightarrow> remote_scope list" where
  "parseScopes scope =
     (case scope of None \<Rightarrow> []
      | Some s \<Rightarrow> if s = [] then [] else List.map_filter scope_of_name (scope_words s))"

text \<open>A JavaScript \<open>Set\<close> keeps the first insertion of each element, in order.\<close>

fun set_insert_all :: "'a list \<Rightarrow> 'a list \<Rightarrow> 'a list" where
  "set_insert_all acc [] = acc"
| "set_insert_all acc (x # xs) = set_insert_all (if x \<in> set acc then acc else acc @ [x]) xs"

definition capabilitiesFromScopes :: "remote_scope list \<Rightarrow> remote_capability list" where
  "capabilitiesFromScopes scopes = set_insert_all [] (concat (map SCOPE_CAPABILITY_MAP scopes))"

definition hasCapability :: "remote_capability list \<Rightarrow> remote_capability \<Rightarrow> bool" where
  "hasCapability capabilities capability = (capability \<in> set capabilities)"

definition scopeList :: "string \<Rightarrow> safe_error + remote_scope list" where
  "scopeList scope =
     (if list_ex (\<lambda>entry. entry \<notin> set (map scope_name REMOTE_SCOPES)) (scope_words scope)
      then Inl (safeError INVALID_SCOPE ''Requested scope is not supported'' 400)
      else let scopes = parseScopes (Some scope)
           in Inr (if scopes \<noteq> [] then scopes else [ScHostsRead, ScAgentsRead, ScStatusRead, ScLogsRead]))"

definition parseList :: "string option \<Rightarrow> string list" where
  "parseList v =
     (if \<not> truthy v then []
      else filter (\<lambda>item. item \<noteq> []) (map trim (split_on (\<lambda>c. c = LF \<or> c = CHR '','') (the v))))"

subsection \<open>Agent policies\<close>

datatype agent_profile = ReadOnly | Operations | FullAdmin | Custom

record agent_policy =
  ap_profile :: agent_profile
  ap_capabilities :: "remote_capability \<Rightarrow> bool"
  ap_allowPaths :: "string list"
  ap_denyPaths :: "string list"
  ap_allowServices :: "string list"
  ap_allowContainers :: "string list"
  ap_maxOutputBytes :: int
  ap_maxActionTimeoutSeconds :: int
  ap_version :: int

definition createAgentPolicy :: "agent_profile \<Rightarrow> agent_policy" where
  "createAgentPolicy profile =
     (let granted = (case profile of
            ReadOnly \<Rightarrow> [HostsRead, AgentsRead, SystemRead, LogsRead, AuditRead]
          | Operations \<Rightarrow>
              [HostsRead, AgentsRead, SystemRead, LogsRead, ServiceManage, DockerManage, FilesRead, AuditRead]
          | FullAdmin \<Rightarrow> REMOTE_CAPABILITIES
          | Custom \<Rightarrow> [])
      in \<lparr> ap_profile = profile, ap_capabilities = (\<lambda>c. c \<in> set granted),
           ap_allowPaths = [''/tmp'', ''/var/tmp''],
           ap_denyPaths = [''/'', ''/etc'', ''/boot'', ''/dev'', ''/proc'', ''/sys''],
           ap_allowServices = (if profile = FullAdmin then [''*''] else []),
           ap_allowContainers = (if profile = FullAdmin then [''*''] else []),
           ap_maxOutputBytes = 200000, ap_maxActionTimeoutSeconds = 120, ap_version = 1 \<rparr>)"

text \<open>A patch: every field may be absent, and the capabilities name only some.\<close>

record agent_policy_patch =
  pp_profile :: "agent_profile option"
  pp_capabilities :: "(remote_capability, bool) jsmap"
  pp_allowPaths :: "string list option"
  pp_denyPaths :: "string list option"
  pp_allowServices :: "string list option"
  pp_allowContainers :: "string list option"
  pp_maxOutputBytes :: "int option"
  pp_maxActionTimeoutSeconds :: "int option"
  pp_version :: "int option"

definition patched :: "'a option \<Rightarrow> 'a \<Rightarrow> 'a" where
  "patched v d = (case v of None \<Rightarrow> d | Some x \<Rightarrow> x)"

definition mergeCustomPolicy :: "agent_policy_patch \<Rightarrow> agent_policy" where
  "mergeCustomPolicy policy =
     (let base = createAgentPolicy (patched (pp_profile policy) Custom)
      in \<lparr> ap_profile = patched (pp_profile policy) Custom,
           ap_capabilities = (\<lambda>c. patched (map_get (pp_capabilities policy) c) (ap_capabilities base c)),
           ap_allowPaths = patched (pp_allowPaths policy) (ap_allowPaths base),
           ap_denyPaths = patched (pp_denyPaths policy) (ap_denyPaths base),
           ap_allowServices = patched (pp_allowServices policy) (ap_allowServices base),
           ap_allowContainers = patched (pp_allowContainers policy) (ap_allowContainers base),
           ap_maxOutputBytes = patched (pp_maxOutputBytes policy) (ap_maxOutputBytes base),
           ap_maxActionTimeoutSeconds = patched (pp_maxActionTimeoutSeconds policy) (ap_maxActionTimeoutSeconds base),
           ap_version = patched (pp_version policy) (ap_version base) \<rparr>)"

definition isServiceAllowed :: "agent_policy \<Rightarrow> string \<Rightarrow> bool" where
  "isServiceAllowed policy service = (''*'' \<in> set (ap_allowServices policy) \<or> service \<in> set (ap_allowServices policy))"

definition isContainerAllowed :: "agent_policy \<Rightarrow> string \<Rightarrow> bool" where
  "isContainerAllowed policy container =
     (''*'' \<in> set (ap_allowContainers policy) \<or> container \<in> set (ap_allowContainers policy))"

subsection \<open>Paths of an agent policy\<close>

text \<open>
  \<open>path.win32.normalize\<close> for the two shapes the code gives it, a drive with an absolute path and
  a path that starts with two separators; every separator is a backslash here. The reserved device
  names (\<open>CON:\<close>, \<open>AUX:\<close> and the like) are not given their special treatment.
\<close>

definition win_segments :: "string \<Rightarrow> string" where
  "win_segments s = join [BSLASH] (normalize_segments False [] (split_on (\<lambda>c. c = BSLASH) s))"

definition win_tail :: "string \<Rightarrow> string \<Rightarrow> string" where
  "win_tail device rest =
     (let tail = win_segments rest
      in device @ [BSLASH] @ tail @ (if tail \<noteq> [] \<and> rest \<noteq> [] \<and> last rest = BSLASH then [BSLASH] else []))"

definition not_bslash :: "char \<Rightarrow> bool" where
  "not_bslash c \<longleftrightarrow> c \<noteq> BSLASH"

definition win32_normalize :: "string \<Rightarrow> string" where
  "win32_normalize p =
     (if prefix [BSLASH, BSLASH] p then
        let body = drop 2 p;
            firstPart = takeWhile not_bslash body;
            afterFirst = dropWhile not_bslash body;
            share = dropWhile (\<lambda>c. c = BSLASH) afterFirst;
            shareName = takeWhile not_bslash share;
            rest = dropWhile not_bslash share
        in if firstPart = [] \<or> share = [] then win_tail [] p
           else if firstPart = ''.'' \<or> firstPart = ''?'' then win_tail ([BSLASH, BSLASH] @ firstPart) (drop 4 p)
           else if rest = [] then [BSLASH, BSLASH] @ firstPart @ [BSLASH] @ shareName @ [BSLASH]
           else win_tail ([BSLASH, BSLASH] @ firstPart @ [BSLASH] @ shareName) rest
      else win_tail (take 2 p) (drop 3 p))"

text \<open>\<open>s.replace(/\\/$/u, "") || "/"\<close>.\<close>

definition drop_final_slash :: "string \<Rightarrow> string" where
  "drop_final_slash s =
     (let t = (if s \<noteq> [] \<and> last s = SLASH then butlast s else s) in if t = [] then [SLASH] else t)"

definition strip_device_prefix :: "string \<Rightarrow> string" where
  "strip_device_prefix s =
     (if to_lower (take 8 s) = ''//?/unc/'' then ''//'' @ drop 8 s
      else if take 4 s \<in> {''//?/'', ''//./''} then drop 4 s
      else s)"

definition windows_like :: "string \<Rightarrow> bool" where
  "windows_like s \<longleftrightarrow>
     (case s of c # d # e # _ \<Rightarrow> is_alpha c \<and> d = CHR '':'' \<and> e = SLASH | _ \<Rightarrow> False) \<or> prefix ''//'' s"

definition normalizePolicyPath :: "string \<Rightarrow> string" where
  "normalizePolicyPath v =
     (let slashPath = strip_device_prefix (replace_char BSLASH [SLASH] v)
      in if windows_like slashPath then
           to_lower (drop_final_slash
             (replace_char BSLASH [SLASH] (win32_normalize (replace_char SLASH [BSLASH] slashPath))))
         else drop_final_slash (posix_normalize slashPath))"

definition path_covered :: "string \<Rightarrow> string \<Rightarrow> bool" where
  "path_covered normalized rawPrefix =
     (let pre = normalizePolicyPath rawPrefix
      in if pre = ''/'' then normalized = ''/'' else normalized = pre \<or> prefix (pre @ ''/'') normalized)"

definition isPathAllowed :: "agent_policy \<Rightarrow> string \<Rightarrow> bool" where
  "isPathAllowed policy filePath =
     (let normalized = normalizePolicyPath filePath
      in if list_ex (path_covered normalized) (ap_denyPaths policy) then False
         else list_ex (path_covered normalized) (ap_allowPaths policy))"

subsection \<open>What scopes give\<close>

lemma set_insert_all_set [simp]: "set (set_insert_all acc xs) = set acc \<union> set xs"
  by (induction acc xs rule: set_insert_all.induct) auto

lemma set_insert_all_distinct: "distinct acc \<Longrightarrow> distinct (set_insert_all acc xs)"
  by (induction acc xs rule: set_insert_all.induct) auto

lemma all_scopes: "sc \<in> set REMOTE_SCOPES"
  by (cases sc) (simp_all add: REMOTE_SCOPES_def)

lemma scope_name_inj: "scope_name a = scope_name b \<longleftrightarrow> a = b"
  by (cases a; cases b) simp_all

lemma scope_of_name_Some: "scope_of_name s = Some sc \<longleftrightarrow> s = scope_name sc"
proof
  assume "scope_of_name s = Some sc"
  then show "s = scope_name sc" by (auto simp: scope_of_name_def find_Some_iff)
next
  assume s: "s = scope_name sc"
  then obtain sc' where "scope_of_name s = Some sc'"
    using all_scopes [of sc] by (cases "scope_of_name s") (auto simp: scope_of_name_def find_None_iff)
  moreover from this have "s = scope_name sc'" by (auto simp: scope_of_name_def find_Some_iff)
  ultimately show "scope_of_name s = Some sc" using s by (simp add: scope_name_inj)
qed

lemma parseScopes_set: "sc \<in> set (parseScopes (Some s)) \<longleftrightarrow> scope_name sc \<in> set (scope_words s)"
proof (cases "s = []")
  case True
  then show ?thesis by (simp add: parseScopes_def scope_words_def)
next
  case False
  have "sc \<in> set (List.map_filter scope_of_name ws) \<longleftrightarrow> scope_name sc \<in> set ws" for ws
  proof (induction ws)
    case (Cons w ws)
    show ?case
    proof (cases "scope_of_name w")
      case None
      then have "w \<noteq> scope_name sc" using scope_of_name_Some [of w sc] by auto
      with None Cons show ?thesis by (auto simp: map_filter_simps)
    next
      case (Some x)
      then have "w = scope_name x" by (simp add: scope_of_name_Some)
      with Some Cons show ?thesis by (auto simp: map_filter_simps scope_name_inj)
    qed
  qed (simp add: map_filter_simps)
  with False show ?thesis by (simp add: parseScopes_def)
qed

text \<open>
  A requested scope string is rejected when any of its words is no known scope; otherwise the
  scopes granted are exactly the words asked for, or the four read-only ones when none was asked,
  and the capabilities they give are exactly those of the granted scopes, without repetition.
\<close>

theorem scope_grant_exact:
  "case scopeList s of
     Inl e \<Rightarrow> se_code e = INVALID_SCOPE \<and> \<not> set (scope_words s) \<subseteq> range scope_name
   | Inr scopes \<Rightarrow>
       set (scope_words s) \<subseteq> range scope_name \<and>
       (if scope_words s = [] then set scopes = {ScHostsRead, ScAgentsRead, ScStatusRead, ScLogsRead}
        else scope_name ` set scopes = set (scope_words s)) \<and>
       distinct (capabilitiesFromScopes scopes) \<and>
       (\<forall>cap. hasCapability (capabilitiesFromScopes scopes) cap \<longleftrightarrow>
          (\<exists>sc \<in> set scopes. cap \<in> set (SCOPE_CAPABILITY_MAP sc)))"
proof (cases "set (scope_words s) \<subseteq> range scope_name")
  case False
  then obtain w where "w \<in> set (scope_words s)" "w \<notin> range scope_name" by blast
  then have "list_ex (\<lambda>entry. entry \<notin> set (map scope_name REMOTE_SCOPES)) (scope_words s)"
    by (auto simp: list_ex_iff)
  with False show ?thesis by (simp add: scopeList_def safeError_def)
next
  case True
  let ?p = "parseScopes (Some s)"
  have img: "scope_name ` set ?p = set (scope_words s)"
  proof (intro equalityI subsetI)
    fix w assume "w \<in> set (scope_words s)"
    with True obtain sc where "w = scope_name sc" "sc \<in> set ?p" using parseScopes_set [of _ s] by auto
    then show "w \<in> scope_name ` set ?p" by simp
  qed (use parseScopes_set [of _ s] in auto)
  then have nil: "?p = [] \<longleftrightarrow> scope_words s = []" by (metis image_is_empty set_empty)
  have "\<not> list_ex (\<lambda>entry. entry \<notin> set (map scope_name REMOTE_SCOPES)) (scope_words s)"
    using True all_scopes unfolding list_ex_iff by auto
  then have "scopeList s = Inr (if ?p \<noteq> [] then ?p else [ScHostsRead, ScAgentsRead, ScStatusRead, ScLogsRead])"
    by (simp add: scopeList_def Let_def)
  moreover have "hasCapability (capabilitiesFromScopes scopes) cap \<longleftrightarrow> (\<exists>sc \<in> set scopes. cap \<in> set (SCOPE_CAPABILITY_MAP sc))"
    for scopes cap by (simp add: hasCapability_def capabilitiesFromScopes_def)
  moreover have "distinct (capabilitiesFromScopes scopes)" for scopes
    by (simp add: capabilitiesFromScopes_def set_insert_all_distinct)
  ultimately show ?thesis using True img nil by auto
qed

subsection \<open>What a path policy admits\<close>

text \<open>A path that starts with exactly one slash, once backslashes are read as slashes.\<close>

definition plain_absolute :: "string \<Rightarrow> bool" where
  "plain_absolute v \<longleftrightarrow> prefix ''/'' (replace_char BSLASH [SLASH] v) \<and> \<not> prefix ''//'' (replace_char BSLASH [SLASH] v)"

lemma drop_final_slash_absolute:
  "drop_final_slash (posix_normalize (SLASH # t)) = render_path (normalize_segments False [] (path_segments (SLASH # t)))"
proof -
  let ?segs = "normalize_segments False [] (path_segments (SLASH # t))"
  have p: "\<forall>s \<in> set ?segs. proper_segment s"
    by (rule normalize_segments_proper) (use path_segments_no_slash in auto)
  have r: "render_path ?segs \<noteq> []" by (simp add: render_path_def)
  have "drop_final_slash (render_path ?segs) = render_path ?segs"
  proof (cases "?segs = []")
    case True
    then show ?thesis by (simp add: drop_final_slash_def render_path_def)
  next
    case False
    with last_join_proper [OF p] join_nonempty [OF p] show ?thesis by (simp add: drop_final_slash_def render_path_def)
  qed
  moreover have "drop_final_slash (render_path ?segs @ [SLASH]) = render_path ?segs"
    using r by (simp add: drop_final_slash_def)
  ultimately show ?thesis by (simp add: normalize_absolute Let_def)
qed

lemma lower_char_slash: "lower_char c = SLASH \<longleftrightarrow> c = SLASH"
proof
  assume l: "lower_char c = SLASH"
  show "c = SLASH"
  proof (cases "lower_char c = c")
    case False
    then have up: "65 \<le> (of_char c :: nat)" "(of_char c :: nat) \<le> 222" and "lower_char c = char_of ((of_char c :: nat) + 32)"
      by (auto simp: lower_char_def is_upper_def char_between_def split: if_splits)
    with l have "char_of ((of_char c :: nat) + 32) = SLASH" by simp
    then have "(of_char (char_of ((of_char c :: nat) + 32) :: char) :: nat) = of_char SLASH" by simp
    with up show ?thesis by (simp add: of_char_of)
  qed (use l in simp)
qed (simp add: lower_char_def is_upper_def char_between_def)

lemma normalizePolicyPath_plain:
  assumes "plain_absolute v"
  shows "normalizePolicyPath v = render_path (canonical_segments v)"
proof -
  obtain t where t: "replace_char BSLASH [SLASH] v = SLASH # t" "\<not> prefix ''/'' t"
    using assms by (auto simp: plain_absolute_def prefix_def)
  then have head: "take 1 t \<noteq> ''/''" by (cases t) auto
  have "take 4 (SLASH # t) \<notin> {''//?/'', ''//./''}" "to_lower (take 8 (SLASH # t)) \<noteq> ''//?/unc/''"
  proof -
    show "take 4 (SLASH # t) \<notin> {''//?/'', ''//./''}" using head by (cases t) auto
    show "to_lower (take 8 (SLASH # t)) \<noteq> ''//?/unc/''"
    proof (cases t)
      case (Cons c cs)
      have "lower_char c \<noteq> SLASH" using head Cons by (simp add: lower_char_slash)
      then show ?thesis by (simp add: Cons to_lower_def)
    qed (simp add: to_lower_def)
  qed
  then have "strip_device_prefix (SLASH # t) = SLASH # t" by (simp add: strip_device_prefix_def)
  moreover have "\<not> windows_like (SLASH # t)"
    using t(2) by (auto simp: windows_like_def is_alpha_def is_upper_def is_lower_def char_between_def split: list.splits)
  ultimately show ?thesis
    by (simp add: normalizePolicyPath_def t(1) drop_final_slash_absolute canonical_segments_def path_segments_slash)
qed

text \<open>When a prefix of the policy covers a path, on their segments; the root covers only itself.\<close>

definition segments_cover :: "string list \<Rightarrow> string list \<Rightarrow> bool" where
  "segments_cover pre segs \<longleftrightarrow> (if pre = [] then segs = [] else prefix pre segs)"

lemma path_covered_plain:
  assumes "plain_absolute p" and "plain_absolute pre"
  shows "path_covered (normalizePolicyPath p) pre \<longleftrightarrow> segments_cover (canonical_segments pre) (canonical_segments p)"
proof -
  let ?a = "canonical_segments p" and ?b = "canonical_segments pre"
  have a: "\<forall>s \<in> set ?a. proper_segment s" and b: "\<forall>s \<in> set ?b. proper_segment s"
    by (rule canonical_segments_proper)+
  have root: "render_path x = ''/'' \<longleftrightarrow> x = []" if "\<forall>s \<in> set x. proper_segment s" for x
    using join_nonempty [OF that] by (simp add: render_path_def)
  show ?thesis
  proof (cases "?b = []")
    case True
    then show ?thesis
      using root [OF a] by (simp add: path_covered_def normalizePolicyPath_plain assms segments_cover_def render_path_def)
  next
    case False
    then have nr: "render_path ?b \<noteq> ''/''" using root [OF b] by simp
    have "isPathUnder (render_path ?a) (render_path ?b) SLASH \<longleftrightarrow> prefix ?b ?a" by (rule isPathUnder_render [OF a b])
    with nr have "isSegmentBoundaryPathMatch (render_path ?a) (render_path ?b) SLASH \<longleftrightarrow> prefix ?b ?a"
      by (simp add: isPathUnder_def posix_root_def render_path_def is_absolute_def)
    with False nr show ?thesis
      by (simp add: path_covered_def normalizePolicyPath_plain assms segments_cover_def Let_def isSegmentBoundaryPathMatch_def)
  qed
qed

text \<open>
  C36: for absolute POSIX paths an agent's path policy is decided on segments: a path is allowed
  exactly when the segments it denotes, after dots, parent steps, repeated slashes and backslashes
  are resolved, extend those of an allowed prefix and of no denied one; the root prefix stands for
  the root alone.
\<close>

theorem agent_path_confined:
  assumes "plain_absolute p" and "list_all plain_absolute (ap_allowPaths policy)"
    and "list_all plain_absolute (ap_denyPaths policy)"
  shows "isPathAllowed policy p \<longleftrightarrow>
    (\<exists>a. a \<in> set (ap_allowPaths policy) \<and> segments_cover (canonical_segments a) (canonical_segments p)) \<and>
    \<not> (\<exists>d. d \<in> set (ap_denyPaths policy) \<and> segments_cover (canonical_segments d) (canonical_segments p))"
  using assms by (auto simp: isPathAllowed_def Let_def list_ex_iff list_all_iff path_covered_plain)

theorem agent_path_confined_witness:
  "isPathAllowed (createAgentPolicy ReadOnly) ''/tmp/x/../y'' \<and>
   \<not> isPathAllowed (createAgentPolicy ReadOnly) ''/tmp/../etc/passwd''"
proof -
  have allow: "ap_allowPaths (createAgentPolicy ReadOnly) = [''/tmp'', ''/var/tmp'']"
    and deny: "ap_denyPaths (createAgentPolicy ReadOnly) = [''/'', ''/etc'', ''/boot'', ''/dev'', ''/proc'', ''/sys'']"
    by (simp_all add: createAgentPolicy_def)
  have lists: "list_all plain_absolute (ap_allowPaths (createAgentPolicy ReadOnly))"
    "list_all plain_absolute (ap_denyPaths (createAgentPolicy ReadOnly))"
    unfolding allow deny by (simp_all add: plain_absolute_def replace_char_def)
  have p: "plain_absolute ''/tmp/x/../y''" "plain_absolute ''/tmp/../etc/passwd''"
    by (simp_all add: plain_absolute_def replace_char_def)
  have c: "canonical_segments ''/tmp/x/../y'' = [''tmp'', ''y'']" "canonical_segments ''/tmp/../etc/passwd'' = [''etc'', ''passwd'']"
    "canonical_segments ''/tmp'' = [''tmp'']" "canonical_segments ''/var/tmp'' = [''var'', ''tmp'']"
    "canonical_segments ''/'' = []" "canonical_segments ''/etc'' = [''etc'']" "canonical_segments ''/boot'' = [''boot'']"
    "canonical_segments ''/dev'' = [''dev'']" "canonical_segments ''/proc'' = [''proc'']" "canonical_segments ''/sys'' = [''sys'']"
    by code_simp+
  show ?thesis
    using agent_path_confined [OF p(1) lists] agent_path_confined [OF p(2) lists]
    by (simp add: allow deny c segments_cover_def ex_disj_distrib conj_disj_distribR)
qed

text \<open>
  Of the built-in profiles only full-admin can write files, run a shell or administer agents, the
  read-only one cannot even manage services, and a custom patch enables exactly the capabilities it
  names.
\<close>

theorem profile_capabilities:
  "(ap_capabilities (createAgentPolicy profile) cap \<and> cap \<in> {FilesWrite, ShellExec, SudoExec, AgentsAdmin, AgentAdmin}
      \<longleftrightarrow> profile = FullAdmin \<and> cap \<in> {FilesWrite, ShellExec, SudoExec, AgentsAdmin, AgentAdmin}) \<and>
   \<not> ap_capabilities (createAgentPolicy ReadOnly) ServiceManage \<and>
   \<not> ap_capabilities (createAgentPolicy ReadOnly) FilesRead \<and>
   ap_capabilities (mergeCustomPolicy (patch\<lparr> pp_profile := Some Custom \<rparr>)) cap =
     (map_get (pp_capabilities patch) cap = Some True)"
proof -
  have c: "ap_capabilities (createAgentPolicy Custom) cap = False" by (simp add: createAgentPolicy_def Let_def)
  have m: "ap_capabilities (mergeCustomPolicy (patch\<lparr> pp_profile := Some Custom \<rparr>)) cap =
      patched (map_get (pp_capabilities patch) cap) (ap_capabilities (createAgentPolicy Custom) cap)"
    by (simp add: mergeCustomPolicy_def Let_def patched_def)
  have "ap_capabilities (createAgentPolicy profile) cap \<and> cap \<in> {FilesWrite, ShellExec, SudoExec, AgentsAdmin, AgentAdmin}
      \<longleftrightarrow> profile = FullAdmin \<and> cap \<in> {FilesWrite, ShellExec, SudoExec, AgentsAdmin, AgentAdmin}"
    by (cases profile) (auto simp: createAgentPolicy_def Let_def REMOTE_CAPABILITIES_def)
  then show ?thesis
    unfolding m c by (simp add: createAgentPolicy_def Let_def patched_def split: option.split)
qed

end
