(* ===== verification/ReplayWindow.thy ===== *)
theory ReplayWindow
  imports Prelude
begin

section \<open>Bounded replay windows\<close>

text \<open>
  The code recognises replays with a \<open>Map\<close> from identifiers to expiry times that is pruned on use
  and bounded by dropping its oldest entries: nonces in \<open>src/remote/http-util.ts\<close>, action ids in
  \<open>src/remote/agent-cli.ts\<close>. This theory holds the common operations, the contract of such a
  window as a locale, and its proof for the common operations; the components interpret it.
\<close>

type_synonym replay_window = "(string, int) jsmap"

definition prune_window :: "int \<Rightarrow> replay_window \<Rightarrow> replay_window" where
  "prune_window now w = filter (\<lambda>(k, expiresAt). \<not> expiresAt \<le> now) w"

text \<open>Drop the oldest entries while there are more than \<open>cap\<close>, or until \<open>stop\<close> holds of the oldest key.\<close>

fun drop_oldest :: "nat \<Rightarrow> (string \<Rightarrow> bool) \<Rightarrow> replay_window \<Rightarrow> replay_window" where
  "drop_oldest cap stop [] = []"
| "drop_oldest cap stop (e # es) =
     (if length (e # es) > cap \<and> \<not> stop (fst e) then drop_oldest cap stop es else e # es)"

definition remember_until ::
    "nat \<Rightarrow> (string \<Rightarrow> bool) \<Rightarrow> string \<Rightarrow> int \<Rightarrow> int \<Rightarrow> replay_window \<Rightarrow> replay_window" where
  "remember_until cap stop k now expiresAt w =
     drop_oldest cap stop (map_set k expiresAt (prune_window now w))"

subsection \<open>The contract\<close>

text \<open>
  \<open>remember k now e\<close> holds \<open>k\<close> until \<open>e\<close>; \<open>held c k e j\<close> says that \<open>k\<close> is held until \<open>e\<close> even if up to
  \<open>j\<close> others are remembered. A client gets from it that what it remembered is recognised until it
  expires, as long as fewer than \<open>cap\<close> others are remembered meanwhile.
\<close>

locale replay_guard =
  fixes remember :: "string \<Rightarrow> int \<Rightarrow> int \<Rightarrow> 'c \<Rightarrow> 'c"
    and seen :: "string \<Rightarrow> int \<Rightarrow> 'c \<Rightarrow> bool"
    and held :: "'c \<Rightarrow> string \<Rightarrow> int \<Rightarrow> nat \<Rightarrow> bool"
    and ok :: "'c \<Rightarrow> bool"
    and cap :: nat
  assumes ok_remember: "ok c \<Longrightarrow> ok (remember k t e c)"
    and held_new: "ok c \<Longrightarrow> \<not> seen k t c \<Longrightarrow> held (remember k t e c) k e (cap - 1)"
    and held_step: "ok c \<Longrightarrow> held c k e (Suc j) \<Longrightarrow> t < e \<Longrightarrow> k' \<noteq> k \<Longrightarrow> held (remember k' t e' c) k e j"
    and held_seen: "held c k e j \<Longrightarrow> t < e \<Longrightarrow> seen k t c"
begin

fun remember_all :: "(string \<times> int \<times> int) list \<Rightarrow> 'c \<Rightarrow> 'c" where
  "remember_all [] c = c"
| "remember_all ((k, t, e) # ms) c = remember_all ms (remember k t e c)"

lemma held_run:
  "ok c \<Longrightarrow> held c k e (j + length ms) \<Longrightarrow> \<forall>(k', t, e') \<in> set ms. t < e \<and> k' \<noteq> k \<Longrightarrow>
     held (remember_all ms c) k e j"
proof (induction ms arbitrary: c)
  case (Cons m ms)
  obtain k' t e' where m: "m = (k', t, e')" by (cases m)
  have "held (remember k' t e' c) k e (j + length ms)"
    using Cons.prems held_step [of c k e "j + length ms" t k' e'] by (simp add: m)
  with Cons ok_remember show ?case by (simp add: m)
qed simp

lemma ok_run: "ok c \<Longrightarrow> ok (remember_all ms c)"
  by (induction ms c rule: remember_all.induct) (simp_all add: ok_remember)

lemma seen_after_run:
  assumes "ok c" and "\<not> seen k t c" and "length ms < cap"
    and "\<forall>(k', t', e') \<in> set ms. t' < e \<and> k' \<noteq> k" and "t'' < e"
  shows "seen k t'' (remember_all ms (remember k t e c))"
proof -
  have "held (remember k t e c) k e ((cap - 1 - length ms) + length ms)"
    using held_new [OF assms(1,2)] assms(3) by simp
  from held_run [OF ok_remember [OF assms(1)] this assms(4)] show ?thesis
    using held_seen assms(5) by blast
qed

end

subsection \<open>The common operations keep it\<close>

text \<open>The identifier is in the list, with few enough entries after it.\<close>

definition window_held :: "nat \<Rightarrow> replay_window \<Rightarrow> string \<Rightarrow> int \<Rightarrow> nat \<Rightarrow> bool" where
  "window_held cap c k e j \<longleftrightarrow>
     (\<exists>before after. c = before @ (k, e) # after \<and> k \<notin> fst ` set before \<and> k \<notin> fst ` set after \<and>
        length after + j < cap)"

lemma drop_oldest_suffix: "\<exists>before. c = before @ drop_oldest cap stop c"
proof (induction c)
  case (Cons e es)
  then obtain b where "es = b @ drop_oldest cap stop es" by blast
  then show ?case
    by (cases "length (e # es) > cap \<and> \<not> stop (fst e)") (auto intro: exI [of _ "e # b"])
qed simp

lemma drop_oldest_length: "length (drop_oldest cap (\<lambda>_. False) c) \<le> cap"
  by (induction c) auto

lemma drop_oldest_keeps:
  "length (s @ after) \<le> cap \<Longrightarrow>
     \<exists>b. drop_oldest cap stop (before @ s @ after) = b @ s @ after \<and> set b \<subseteq> set before"
proof (induction before)
  case Nil
  then show ?case by (cases "s @ after") (auto intro: exI [of _ "[]"])
next
  case (Cons e es)
  then obtain b where b: "drop_oldest cap stop (es @ s @ after) = b @ s @ after" "set b \<subseteq> set es" by blast
  show ?case
  proof (cases "length (e # es @ s @ after) > cap \<and> \<not> stop (fst e)")
    case True
    with b show ?thesis by (auto intro: exI [of _ b])
  next
    case False
    then show ?thesis by (auto intro: exI [of _ "e # es"])
  qed
qed

lemma update_append_new:
  "k \<notin> fst ` set a \<Longrightarrow> AList.update k v (a @ b) = a @ AList.update k v b"
  by (induction a) auto

lemma update_around:
  "n \<noteq> m \<Longrightarrow> \<exists>b2 a2. AList.update m v (b @ (n, e) # a) = b2 @ (n, e) # a2 \<and>
     fst ` set b2 \<subseteq> insert m (fst ` set b) \<and> fst ` set a2 \<subseteq> insert m (fst ` set a) \<and> length a2 \<le> Suc (length a)"
proof (induction b)
  case Nil
  have "fst ` set (AList.update m v a) \<subseteq> insert m (fst ` set a)" by (auto simp: dom_update)
  moreover have "length (AList.update m v a) \<le> Suc (length a)" by (simp add: length_alist_update)
  ultimately show ?case
    using Nil by (intro exI [of _ "[]"] exI [of _ "AList.update m v a"]) simp
next
  case (Cons p b)
  obtain j u where p: "p = (j, u)" by (cases p)
  show ?case
  proof (cases "j = m")
    case True
    then show ?thesis by (intro exI [of _ "(m, v) # b"] exI [of _ a]) (auto simp: p)
  next
    case False
    from Cons obtain b2 a2 where "AList.update m v (b @ (n, e) # a) = b2 @ (n, e) # a2"
      "fst ` set b2 \<subseteq> insert m (fst ` set b)" "fst ` set a2 \<subseteq> insert m (fst ` set a)" "length a2 \<le> Suc (length a)"
      by blast
    with False show ?thesis by (intro exI [of _ "p # b2"] exI [of _ a2]) (auto simp: p)
  qed
qed

lemma jsmap_ok_remember:
  assumes "jsmap_ok c"
  shows "jsmap_ok (remember_until cap stop k t e c)"
proof -
  let ?m = "map_set k e (prune_window t c)"
  have "distinct (map fst (filter P c))" for P using assms by (simp add: jsmap_ok_def distinct_map_filter)
  then have "distinct (map fst ?m)" by (simp add: prune_window_def distinct_update)
  moreover obtain b where "?m = b @ drop_oldest cap stop ?m" using drop_oldest_suffix by blast
  ultimately have "distinct (map fst (drop_oldest cap stop ?m))" by (metis distinct_append map_append)
  then show ?thesis by (simp add: remember_until_def jsmap_ok_def)
qed

lemma window_held_drop:
  assumes "k \<notin> fst ` set b" and "k \<notin> fst ` set a" and "length a + j < cap"
  shows "window_held cap (drop_oldest cap stop (b @ (k, e) # a)) k e j"
proof -
  have "length ([(k, e)] @ a) \<le> cap" using assms(3) by simp
  from drop_oldest_keeps [OF this, of stop b] obtain b' where
    b': "drop_oldest cap stop (b @ [(k, e)] @ a) = b' @ [(k, e)] @ a" "set b' \<subseteq> set b" by blast
  with assms show ?thesis unfolding window_held_def by (intro exI [of _ b'] exI [of _ a]) auto
qed

lemma window_held_new:
  assumes "k \<notin> fst ` set (prune_window t c)" and "0 < cap"
  shows "window_held cap (remember_until cap stop k t e c) k e (cap - 1)"
proof -
  have "map_set k e (prune_window t c) = prune_window t c @ [(k, e)]"
    using update_append_new [OF assms(1), of e "[]"] by simp
  with window_held_drop [OF assms(1), of "[]" "cap - 1" cap stop e] assms(2) show ?thesis
    by (simp add: remember_until_def)
qed

lemma window_held_step:
  assumes "window_held cap c n e (Suc j)" and "t < e" and "m \<noteq> n"
  shows "window_held cap (remember_until cap stop m t e' c) n e j"
proof -
  let ?P = "\<lambda>(k, expiresAt :: int). \<not> expiresAt \<le> t"
  from assms(1) obtain b a where c: "c = b @ (n, e) # a" "n \<notin> fst ` set b" "n \<notin> fst ` set a"
    "length a + Suc j < cap" unfolding window_held_def by blast
  have p: "prune_window t c = filter ?P b @ (n, e) # filter ?P a"
    using assms(2) by (simp add: prune_window_def c(1))
  obtain b2 a2 where u: "map_set m e' (filter ?P b @ (n, e) # filter ?P a) = b2 @ (n, e) # a2"
    "fst ` set b2 \<subseteq> insert m (fst ` set (filter ?P b))" "fst ` set a2 \<subseteq> insert m (fst ` set (filter ?P a))"
    "length a2 \<le> Suc (length (filter ?P a))"
    using update_around [OF assms(3) [symmetric], of e' "filter ?P b" e "filter ?P a"]
    by (elim exE conjE) (rule that; assumption)
  have len: "length a2 + j < cap"
    using u(4) c(4) length_filter_le [of ?P a] by linarith
  have gone: "n \<notin> fst ` set xs" if "fst ` set xs \<subseteq> insert m (fst ` set (filter ?P ys))" "n \<notin> fst ` set ys" for xs ys
  proof
    assume "n \<in> fst ` set xs"
    with that(1) have "n \<in> insert m (fst ` set (filter ?P ys))" by (rule subsetD)
    with assms(3) have "n \<in> fst ` set (filter ?P ys)" by simp
    then have "n \<in> fst ` set ys" using image_mono [OF filter_is_subset [of ?P ys], of fst] by (rule rev_subsetD)
    with that(2) show False by contradiction
  qed
  from window_held_drop [OF gone [OF u(2) c(2)] gone [OF u(3) c(3)] len]
  show ?thesis by (simp only: remember_until_def p u(1))
qed

lemma window_held_present: "window_held cap c k e j \<Longrightarrow> map_get c k = Some e"
  by (auto simp: window_held_def map_add_def map_of_eq_None_iff [symmetric])

lemma window_held_pruned: "window_held cap c k e j \<Longrightarrow> t < e \<Longrightarrow> map_get (prune_window t c) k \<noteq> None"
  by (auto simp: window_held_def prune_window_def map_of_eq_None_iff intro!: rev_image_eqI [of "(k, e)"])

text \<open>
  The window whose lookup prunes first, and the one whose lookup does not. The second recognises
  what it holds whatever the time.
\<close>

definition seen_pruned :: "string \<Rightarrow> int \<Rightarrow> replay_window \<Rightarrow> bool" where
  "seen_pruned k t c \<longleftrightarrow> map_get (prune_window t c) k \<noteq> None"

definition seen_plain :: "string \<Rightarrow> int \<Rightarrow> replay_window \<Rightarrow> bool" where
  "seen_plain k t c \<longleftrightarrow> map_get c k \<noteq> None"

lemma replay_guard_pruned:
  "0 < cap \<Longrightarrow> replay_guard (remember_until cap stop) seen_pruned (window_held cap) jsmap_ok cap"
proof unfold_locales
  show "window_held cap (remember_until cap stop k t e c) k e (cap - 1)"
    if "0 < cap" "\<not> seen_pruned k t c" for k t e c
    using that by (intro window_held_new) (auto simp: seen_pruned_def map_of_eq_None_iff)
  show "seen_pruned k t c" if "window_held cap c k e j" "t < e" for c k e j t
    using window_held_pruned [OF that] by (simp add: seen_pruned_def)
qed (rule jsmap_ok_remember window_held_step; assumption)+

lemma replay_guard_plain:
  "0 < cap \<Longrightarrow> replay_guard (remember_until cap stop) seen_plain (window_held cap) jsmap_ok cap"
proof unfold_locales
  show "window_held cap (remember_until cap stop k t e c) k e (cap - 1)"
    if "0 < cap" "\<not> seen_plain k t c" for k t e c
    using that by (intro window_held_new) (auto simp: seen_plain_def prune_window_def map_of_eq_None_iff)
  show "seen_plain k t c" if "window_held cap c k e j" for c k e j and t :: int
    using window_held_present [OF that] by (simp add: seen_plain_def)
qed (rule jsmap_ok_remember window_held_step; assumption)+

end
