(* ===== verification/Nonces.thy ===== *)
theory Nonces
  imports RemotePolicy ReplayWindow
begin

section \<open>Nonce windows and policy updates: \<open>src/remote/http-util.ts\<close>, \<open>src/remote/policy-update-guard.ts\<close>\<close>

text \<open>
  A nonce window is a \<open>Map\<close> from nonces to expiry times, pruned on use and bounded in size by
  dropping the oldest entries. The guard of policy updates combines it with the age of the update and
  the version of the policy. Times are milliseconds; an unreadable date is \<open>None\<close>.
\<close>

definition AGENT_NONCE_TTL_MS :: int where
  "AGENT_NONCE_TTL_MS = 300000"

definition MAX_AGENT_CONNECTION_NONCES :: nat where
  "MAX_AGENT_CONNECTION_NONCES = 4096"

type_synonym nonce_window = replay_window

definition pruneNonceWindow :: "int \<Rightarrow> nonce_window \<Rightarrow> nonce_window" where
  "pruneNonceWindow now nonces = prune_window now nonces"

definition hasSeenNonce :: "string \<Rightarrow> int \<Rightarrow> nonce_window \<Rightarrow> bool \<times> nonce_window" where
  "hasSeenNonce nonce now nonces =
     (let pruned = pruneNonceWindow now nonces in (map_get pruned nonce \<noteq> None, pruned))"

definition rememberNonce :: "string \<Rightarrow> int \<Rightarrow> nonce_window \<Rightarrow> nonce_window" where
  "rememberNonce nonce now nonces =
     drop_oldest MAX_AGENT_CONNECTION_NONCES (\<lambda>_. False)
       (map_set nonce (now + AGENT_NONCE_TTL_MS) (pruneNonceWindow now nonces))"

lemma rememberNonce_window:
  "rememberNonce nonce now = remember_until MAX_AGENT_CONNECTION_NONCES (\<lambda>_. False) nonce now (now + AGENT_NONCE_TTL_MS)"
  by (simp add: fun_eq_iff rememberNonce_def remember_until_def pruneNonceWindow_def)

lemma hasSeenNonce_window: "fst (hasSeenNonce nonce now w) = seen_pruned nonce now w"
  by (simp add: hasSeenNonce_def seen_pruned_def pruneNonceWindow_def Let_def)

interpretation nonces: replay_guard "remember_until MAX_AGENT_CONNECTION_NONCES (\<lambda>_. False)" seen_pruned
  "window_held MAX_AGENT_CONNECTION_NONCES" jsmap_ok MAX_AGENT_CONNECTION_NONCES
  by (rule replay_guard_pruned) (simp add: MAX_AGENT_CONNECTION_NONCES_def)

subsection \<open>Policy updates\<close>

definition POLICY_UPDATE_MAX_AGE_MS :: int where
  "POLICY_UPDATE_MAX_AGE_MS = AGENT_NONCE_TTL_MS"

definition POLICY_UPDATE_MAX_FUTURE_SKEW_MS :: int where
  "POLICY_UPDATE_MAX_FUTURE_SKEW_MS = 30000"

datatype policy_update_rejection = Replay | Stale | Future | VersionMismatch | NotNewer

record policy_update =
  pu_agent_id :: string
  pu_policy :: agent_policy
  pu_policy_version :: int
  pu_issued_at :: "int option"
  pu_nonce :: string

definition validatePolicyUpdate ::
    "policy_update \<Rightarrow> int \<Rightarrow> nonce_window \<Rightarrow> int \<Rightarrow> policy_update_rejection option \<times> nonce_window" where
  "validatePolicyUpdate update currentPolicyVersion seenNonces now =
     (let (seen, nonces) = hasSeenNonce (pu_nonce update) now seenNonces in
      (if seen then Some Replay
       else case pu_issued_at update of
         None \<Rightarrow> Some Stale
       | Some issuedAt \<Rightarrow>
           if now - issuedAt > POLICY_UPDATE_MAX_AGE_MS then Some Stale
           else if issuedAt - now > POLICY_UPDATE_MAX_FUTURE_SKEW_MS then Some Future
           else if pu_policy_version update \<noteq> ap_version (pu_policy update) then Some VersionMismatch
           else if pu_policy_version update \<le> currentPolicyVersion then Some NotNewer
           else None,
       nonces))"

definition rememberAcceptedPolicyUpdate :: "nonce_window \<Rightarrow> string \<Rightarrow> int \<Rightarrow> nonce_window" where
  "rememberAcceptedPolicyUpdate seenNonces nonce now = rememberNonce nonce now seenNonces"

subsection \<open>Properties\<close>

text \<open>The nonces remembered one after the other, each at its time.\<close>

fun rememberAll :: "(string \<times> int) list \<Rightarrow> nonce_window \<Rightarrow> nonce_window" where
  "rememberAll [] c = c"
| "rememberAll ((nonce, now) # rest) c = rememberAll rest (rememberNonce nonce now c)"

lemma rememberAll_window:
  "rememberAll ms c = nonces.remember_all (map (\<lambda>(k, t). (k, t, t + AGENT_NONCE_TTL_MS)) ms) c"
  by (induction ms c rule: rememberAll.induct) (simp_all add: rememberNonce_window)

lemma rememberAll_length:
  "length c \<le> MAX_AGENT_CONNECTION_NONCES \<Longrightarrow> length (rememberAll ms c) \<le> MAX_AGENT_CONNECTION_NONCES"
  by (induction ms c rule: rememberAll.induct) (simp_all add: rememberNonce_def drop_oldest_length)

text \<open>
  C35: a fresh nonce that is remembered is recognised for the five minutes of its life, while fewer than
  the window's capacity of other nonces are remembered; and the window never grows past its capacity.
\<close>

theorem nonce_remembered_for_ttl:
  assumes "jsmap_ok c" and "\<not> fst (hasSeenNonce n t c)" and "length ms < MAX_AGENT_CONNECTION_NONCES"
    and "\<forall>(m, t') \<in> set ms. t' < t + AGENT_NONCE_TTL_MS \<and> m \<noteq> n" and "t'' < t + AGENT_NONCE_TTL_MS"
  shows "fst (hasSeenNonce n t'' (rememberAll ms (rememberNonce n t c))) \<and>
    length (rememberAll ms (rememberNonce n t c)) \<le> MAX_AGENT_CONNECTION_NONCES"
proof
  have len: "length (map (\<lambda>(k, t). (k, t, t + AGENT_NONCE_TTL_MS)) ms) < MAX_AGENT_CONNECTION_NONCES"
    using assms(3) by simp
  have others: "\<forall>(k', t', e') \<in> set (map (\<lambda>(k, t). (k, t, t + AGENT_NONCE_TTL_MS)) ms).
      t' < t + AGENT_NONCE_TTL_MS \<and> k' \<noteq> n"
    using assms(4) by auto
  show "fst (hasSeenNonce n t'' (rememberAll ms (rememberNonce n t c)))"
    using nonces.seen_after_run [OF assms(1) _ len others assms(5)] assms(2)
    by (simp add: hasSeenNonce_window rememberAll_window rememberNonce_window)
  show "length (rememberAll ms (rememberNonce n t c)) \<le> MAX_AGENT_CONNECTION_NONCES"
    by (rule rememberAll_length) (simp add: rememberNonce_def drop_oldest_length)
qed

theorem nonce_remembered_for_ttl_witness:
  "fst (hasSeenNonce ''a'' 300000 (rememberAll [(''b'', 200), (''c'', 300)] (rememberNonce ''a'' 100 [])))"
  using nonce_remembered_for_ttl [of "[]" "''a''" 100 "[(''b'', 200), (''c'', 300)]" 300000]
  by (simp add: jsmap_ok_def hasSeenNonce_def pruneNonceWindow_def prune_window_def AGENT_NONCE_TTL_MS_def
      MAX_AGENT_CONNECTION_NONCES_def)

end
