(* ===== verification/Json.thy ===== *)
theory Json
  imports Prelude "HOL-Library.List_Lexorder" "HOL-Library.Char_ord"
begin

section \<open>JSON values and their canonical text: \<open>canonicalJson\<close> of \<open>src/remote/crypto.ts\<close>\<close>

text \<open>
  Signatures are made over a text of the message in which the keys of every object are sorted. A
  value is what \<open>JSON.parse\<close> returns; numbers are the safe integers the protocol uses. An object is
  the list of its entries, in order; an entry whose value is \<open>undefined\<close>, which the code filters
  out, is an absent entry.
\<close>

datatype json =
    JNull
  | JBool bool
  | JNum int
  | JStr string
  | JArr "json list"
  | JObj "(string \<times> json) list"

subsection \<open>\<open>JSON.stringify\<close>\<close>

definition hex_digit :: "nat \<Rightarrow> char" where
  "hex_digit n = (if n < 10 then char_of (48 + n) else char_of (87 + n))"

definition json_escape :: "char \<Rightarrow> string" where
  "json_escape c =
     (if c = DQUOTE then [BSLASH, DQUOTE]
      else if c = BSLASH then [BSLASH, BSLASH]
      else if c = CHR 0x08 then [BSLASH, CHR ''b'']
      else if c = CHR 0x0C then [BSLASH, CHR ''f'']
      else if c = LF then [BSLASH, CHR ''n'']
      else if c = CR then [BSLASH, CHR ''r'']
      else if c = CHR 0x09 then [BSLASH, CHR ''t'']
      else let n = (of_char c :: nat) in
        if n < 32 then [BSLASH, CHR ''u'', CHR ''0'', CHR ''0'', hex_digit (n div 16), hex_digit (n mod 16)]
        else [c])"

definition json_string :: "string \<Rightarrow> string" where
  "json_string s = [DQUOTE] @ concat (map json_escape s) @ [DQUOTE]"

fun json_atom :: "json \<Rightarrow> string" where
  "json_atom JNull = ''null''"
| "json_atom (JBool b) = (if b then ''true'' else ''false'')"
| "json_atom (JNum i) = show_int i"
| "json_atom (JStr s) = json_string s"
| "json_atom _ = []"

subsection \<open>\<open>canonicalJson\<close>\<close>

text \<open>
  JavaScript compares strings by code units and a proper prefix comes first, which is the order of
  \<open>List_Lexorder\<close> over that of \<open>Char_ord\<close>. \<open>sort\<close> is stable.
\<close>

definition sort_entries :: "(string \<times> 'a) list \<Rightarrow> (string \<times> 'a) list" where
  "sort_entries es = sort_key fst es"

definition entry_text :: "string \<times> string \<Rightarrow> string" where
  "entry_text e = json_string (fst e) @ '':'' @ snd e"

fun canonicalJson :: "json \<Rightarrow> string" where
  "canonicalJson (JArr items) = ''['' @ join '','' (map canonicalJson items) @ '']''"
| "canonicalJson (JObj entries) =
     ''{'' @ join '','' (map entry_text (sort_entries (map (\<lambda>e. (fst e, canonicalJson (snd e))) entries))) @ ''}''"
| "canonicalJson v = json_atom v"

subsection \<open>The text of a value determines the value\<close>

definition hex_val :: "char \<Rightarrow> nat" where
  "hex_val c = (let n = (of_char c :: nat) in if n < 58 then n - 48 else n - 87)"

lemma hex_val_digit [simp]: "n < 16 \<Longrightarrow> hex_val (hex_digit n) = n"
  by (simp add: hex_val_def hex_digit_def of_char_of)

definition unescape :: "string \<Rightarrow> (char \<times> string) option" where
  "unescape s =
     (case s of [] \<Rightarrow> None
      | c # r \<Rightarrow>
          if c \<noteq> BSLASH then Some (c, r)
          else case r of [] \<Rightarrow> None
            | d # t \<Rightarrow>
                if d = CHR ''u'' then
                  (case t of a # b # e # f # t' \<Rightarrow> Some (char_of (16 * hex_val e + hex_val f), t') | _ \<Rightarrow> None)
                else if d = CHR ''b'' then Some (CHR 0x08, t)
                else if d = CHR ''f'' then Some (CHR 0x0C, t)
                else if d = CHR ''n'' then Some (LF, t)
                else if d = CHR ''r'' then Some (CHR 0x0D, t)
                else if d = CHR ''t'' then Some (CHR 0x09, t)
                else Some (d, t))"

lemma unescape_escape: "unescape (json_escape c @ x) = Some (c, x)"
proof (cases "c \<in> {DQUOTE, BSLASH, CHR 0x08, CHR 0x0C, LF, CR, CHR 0x09}")
  case True
  then show ?thesis by (elim insertE emptyE) (simp_all add: json_escape_def unescape_def)
next
  case False
  then have n: "c \<noteq> DQUOTE" "c \<noteq> BSLASH" "c \<noteq> CHR 0x08" "c \<noteq> CHR 0x0C" "c \<noteq> LF" "c \<noteq> CR" "c \<noteq> CHR 0x09" by blast+
  show ?thesis
  proof (cases "(of_char c :: nat) < 32")
    case True
    then have "(of_char c :: nat) div 16 < 16" by simp
    with True n show ?thesis by (simp only: json_escape_def Let_def if_True if_False) (simp add: unescape_def)
  qed (simp only: json_escape_def Let_def if_False n, simp add: unescape_def n)
qed

lemma escape_start: "\<exists>d t. json_escape c = d # t \<and> d \<noteq> DQUOTE"
  by (simp add: json_escape_def Let_def)

lemma string_tail_inj:
  "concat (map json_escape s) @ DQUOTE # r = concat (map json_escape t) @ DQUOTE # q \<Longrightarrow> s = t \<and> r = q"
proof (induction s arbitrary: t)
  case Nil
  show ?case
  proof (cases t)
    case (Cons d t')
    with Nil escape_start [of d] show ?thesis by auto
  qed (use Nil in simp)
next
  case (Cons c s)
  show ?case
  proof (cases t)
    case Nil
    with Cons.prems escape_start [of c] show ?thesis by auto
  next
    case (Cons d t')
    have e: "json_escape c @ (concat (map json_escape s) @ DQUOTE # r) =
        json_escape d @ (concat (map json_escape t') @ DQUOTE # q)"
      using Cons.prems by (simp add: Cons)
    from arg_cong [OF e, of unescape] have "c = d"
      and "concat (map json_escape s) @ DQUOTE # r = concat (map json_escape t') @ DQUOTE # q"
      by (simp_all add: unescape_escape)
    then show ?thesis using Cons.IH [of t'] by (simp add: Cons)
  qed
qed

lemma json_string_inj: "json_string s @ r = json_string t @ q \<Longrightarrow> s = t \<and> r = q"
  by (rule string_tail_inj) (simp add: json_string_def)

text \<open>What follows a value in a text never continues a number.\<close>

definition tail_ok :: "string \<Rightarrow> bool" where
  "tail_ok r \<longleftrightarrow> (case r of [] \<Rightarrow> True | c # _ \<Rightarrow> \<not> is_digit c)"

lemma tail_ok_Cons [simp]: "tail_ok (c # r) \<longleftrightarrow> \<not> is_digit c"
  by (simp add: tail_ok_def)

lemma takeWhile_digits: "tail_ok r \<Longrightarrow> takeWhile is_digit (show_nat n @ r) = show_nat n"
  by (cases r) (simp_all add: takeWhile_append2 show_nat_digits tail_ok_def)

lemma show_nat_inj: "show_nat n @ r = show_nat m @ q \<Longrightarrow> tail_ok r \<Longrightarrow> tail_ok q \<Longrightarrow> n = m \<and> r = q"
  by (metis num_of_show same_append_eq takeWhile_digits)

lemma show_nat_hd: "is_digit (hd (show_nat n @ r))"
  by (metis hd_append2 hd_in_set show_nat_digits show_nat_nonempty)

lemma show_int_inj: "show_int i @ r = show_int j @ q \<Longrightarrow> tail_ok r \<Longrightarrow> tail_ok q \<Longrightarrow> i = j \<and> r = q"
proof -
  assume e: "show_int i @ r = show_int j @ q" and t: "tail_ok r" "tail_ok q"
  have m: "\<not> is_digit CHR ''-''" by (simp add: is_digit_def char_between_def)
  have sign: "i < 0 \<longleftrightarrow> j < 0"
  proof (rule ccontr)
    assume "\<not> (i < 0 \<longleftrightarrow> j < 0)"
    then consider "i < 0" "\<not> j < 0" | "\<not> i < 0" "j < 0" by blast
    then obtain n r1 r2 where "show_nat n @ r1 = CHR ''-'' # r2"
      using e by cases (simp_all add: show_int_def, metis+)
    with show_nat_hd [of n r1] m show False by simp
  qed
  with e have "show_nat (nat \<bar>i\<bar>) @ r = show_nat (nat \<bar>j\<bar>) @ q" by (auto simp: show_int_def split: if_splits)
  with show_nat_inj t have "nat \<bar>i\<bar> = nat \<bar>j\<bar> \<and> r = q" by blast
  with sign show ?thesis by linarith
qed

text \<open>The text without sorting.\<close>

fun plain_json :: "json \<Rightarrow> string" where
  "plain_json (JArr items) = ''['' @ join '','' (map plain_json items) @ '']''"
| "plain_json (JObj entries) =
     ''{'' @ join '','' (map (\<lambda>e. json_string (fst e) @ '':'' @ plain_json (snd e)) entries) @ ''}''"
| "plain_json v = json_atom v"

definition decodable :: "('a \<Rightarrow> string) \<Rightarrow> 'a \<Rightarrow> bool" where
  "decodable f x \<longleftrightarrow> (\<forall>y r q. f x @ r = f y @ q \<longrightarrow> tail_ok r \<longrightarrow> tail_ok q \<longrightarrow> x = y \<and> r = q)"

lemma join_items:
  "join '','' (map f (x # xs)) @ c # r = f x @ (if xs = [] then c # r else CHR '','' # join '','' (map f xs) @ c # r)"
  by (cases xs) simp_all

lemma decodable_items:
  assumes "\<forall>x \<in> set xs. decodable f x" and "\<And>y r. hd (f y @ r) \<noteq> c" and "\<And>y. f y \<noteq> []"
    and c: "\<not> is_digit c" "c \<noteq> CHR '',''"
    and e: "join '','' (map f xs) @ c # r = join '','' (map f ys) @ c # q"
  shows "xs = ys \<and> r = q"
  using assms(1) e
proof (induction xs arbitrary: ys)
  case Nil
  then show ?case
  proof (cases ys)
    case (Cons y ys')
    with Nil.prems(2) have "c # r = f y @ (if ys' = [] then c # q else CHR '','' # join '','' (map f ys') @ c # q)"
      by (simp add: join_items del: list.map(2) flip: list.map(2))
    with assms(2) [of y] show ?thesis by (metis list.sel(1))
  qed simp
next
  case (Cons x xs)
  let ?t = "\<lambda>zs p. if zs = [] then c # p else CHR '','' # join '','' (map f zs) @ c # p"
  have comma: "\<not> is_digit CHR '',''" by (simp add: is_digit_def char_between_def)
  show ?case
  proof (cases ys)
    case Nil
    with Cons.prems(2) have "f x @ ?t xs r = c # q" by (simp add: join_items del: list.map(2) flip: list.map(2))
    with assms(2) [of x] show ?thesis by (metis list.sel(1))
  next
    case (Cons y ys')
    with Cons.prems(2) have "f x @ ?t xs r = f y @ ?t ys' q" by (simp only: join_items)
    moreover have "decodable f x" using Cons.prems(1) by simp
    moreover have "tail_ok (?t xs r)" "tail_ok (?t ys' q)" using c comma by simp_all
    ultimately have "x = y" and t: "?t xs r = ?t ys' q" unfolding decodable_def by blast+
    show ?thesis
    proof (cases "xs = []")
      case True
      with t c(2) show ?thesis by (cases "ys' = []") (auto simp: \<open>x = y\<close> Cons)
    next
      case False
      with t c(2) have "ys' \<noteq> []" "join '','' (map f xs) @ c # r = join '','' (map f ys') @ c # q"
        by (auto split: if_splits)
      with Cons.IH Cons.prems(1) show ?thesis by (simp add: \<open>x = y\<close> Cons)
    qed
  qed
qed

fun json_kind :: "json \<Rightarrow> nat" where
  "json_kind JNull = 0" | "json_kind (JBool _) = 1" | "json_kind (JNum _) = 2" | "json_kind (JStr _) = 3"
| "json_kind (JArr _) = 4" | "json_kind (JObj _) = 5"

definition char_kind :: "char \<Rightarrow> nat" where
  "char_kind c =
     (if c = CHR ''n'' then 0 else if c \<in> {CHR ''t'', CHR ''f''} then 1
      else if is_digit c \<or> c = CHR ''-'' then 2 else if c = DQUOTE then 3
      else if c = CHR ''['' then 4 else if c = CHR ''{'' then 5 else 6)"

lemma digit_kind: "is_digit c \<Longrightarrow> char_kind c = 2"
  by (auto simp: char_kind_def is_digit_def char_between_def)

lemma show_int_kind: "char_kind (hd (show_int i @ r)) = 2"
proof (cases "i < 0")
  case False
  then show ?thesis unfolding show_int_def by (simp only: if_False) (rule digit_kind, rule show_nat_hd)
qed (simp add: show_int_def char_kind_def)

lemma plain_kind: "char_kind (hd (plain_json v @ r)) = json_kind v"
proof (cases v)
  case (JNum i)
  then show ?thesis by (simp add: show_int_kind)
qed (simp_all add: char_kind_def json_string_def is_digit_def char_between_def)

lemma show_int_nonempty: "show_int i \<noteq> []"
  by (simp add: show_int_def)

lemma plain_nonempty: "plain_json v \<noteq> []"
  by (cases v) (simp_all add: json_string_def show_int_nonempty)

lemma plain_not_close: "c \<in> {CHR '']'', CHR ''}'', CHR '',''} \<Longrightarrow> hd (plain_json v @ r) \<noteq> c"
proof
  assume c: "c \<in> {CHR '']'', CHR ''}'', CHR '',''}" and h: "hd (plain_json v @ r) = c"
  have "char_kind c = 6" using c
    by (elim insertE emptyE) (simp_all add: char_kind_def is_digit_def char_between_def)
  moreover have "char_kind c = json_kind v" using plain_kind [of v r] by (simp only: h)
  moreover have "json_kind v \<noteq> 6" by (cases v) simp_all
  ultimately show False by simp
qed

lemma plain_hd_not_close: "hd (plain_json v) \<noteq> CHR '']''" "hd (plain_json v) \<noteq> CHR ''}''"
  using plain_not_close [of _ v "[]"] by simp_all

lemma same_kind: "plain_json v @ r = plain_json w @ q \<Longrightarrow> json_kind v = json_kind w"
proof -
  assume e: "plain_json v @ r = plain_json w @ q"
  have "json_kind v = char_kind (hd (plain_json v @ r))" by (rule plain_kind [symmetric])
  also have "\<dots> = char_kind (hd (plain_json w @ q))" by (simp only: e)
  also have "\<dots> = json_kind w" by (rule plain_kind)
  finally show ?thesis .
qed

lemma decodable_entry:
  assumes "decodable plain_json (snd e)"
  shows "decodable (\<lambda>e. json_string (fst e) @ '':'' @ plain_json (snd e)) e"
  unfolding decodable_def
proof (intro allI impI)
  fix d r q
  assume e: "(json_string (fst e) @ '':'' @ plain_json (snd e)) @ r = (json_string (fst d) @ '':'' @ plain_json (snd d)) @ q"
    and t: "tail_ok r" "tail_ok q"
  from e have "json_string (fst e) @ ('':'' @ plain_json (snd e) @ r) = json_string (fst d) @ ('':'' @ plain_json (snd d) @ q)"
    by simp
  from json_string_inj [OF this] have k: "fst e = fst d" and "plain_json (snd e) @ r = plain_json (snd d) @ q"
    by simp_all
  with assms t have "snd e = snd d \<and> r = q" unfolding decodable_def by blast
  with k show "e = d \<and> r = q" by (simp add: prod_eq_iff)
qed

lemma close_not_digit: "\<not> is_digit CHR '']''" "\<not> is_digit CHR ''}''"
  by (simp_all add: is_digit_def char_between_def)

lemma plain_decodable: "decodable plain_json v"
proof (induction v)
  case (JNum i)
  show ?case unfolding decodable_def
  proof (intro allI impI)
    fix w r q
    assume e: "plain_json (JNum i) @ r = plain_json w @ q" and t: "tail_ok r" "tail_ok q"
    from same_kind [OF e] obtain j where w: "w = JNum j" by (cases w) simp_all
    with e have "show_int i @ r = show_int j @ q" by simp
    from show_int_inj [OF this t] w show "JNum i = w \<and> r = q" by simp
  qed
next
  case (JStr u)
  show ?case unfolding decodable_def
  proof (intro allI impI)
    fix w r q
    assume e: "plain_json (JStr u) @ r = plain_json w @ q"
    from same_kind [OF e] obtain u' where w: "w = JStr u'" by (cases w) simp_all
    with e have "json_string u @ r = json_string u' @ q" by simp
    from json_string_inj [OF this] w show "JStr u = w \<and> r = q" by simp
  qed
next
  case (JArr xs)
  show ?case unfolding decodable_def
  proof (intro allI impI)
    fix w r q
    assume e: "plain_json (JArr xs) @ r = plain_json w @ q"
    with same_kind [OF e] obtain ys where w: "w = JArr ys" by (cases w) simp_all
    with e have "join '','' (map plain_json xs) @ CHR '']'' # r = join '','' (map plain_json ys) @ CHR '']'' # q" by simp
    with JArr have "xs = ys \<and> r = q"
      by (intro decodable_items) (simp_all add: plain_hd_not_close plain_nonempty close_not_digit)
    with w show "JArr xs = w \<and> r = q" by simp
  qed
next
  case (JObj es)
  let ?f = "\<lambda>e. json_string (fst e) @ '':'' @ plain_json (snd e)"
  have d: "\<forall>e \<in> set es. decodable ?f e"
    using JObj by (intro ballI decodable_entry) (metis prod.collapse snds.intros)
  show ?case unfolding decodable_def
  proof (intro allI impI)
    fix w r q
    assume e: "plain_json (JObj es) @ r = plain_json w @ q"
    with same_kind [OF e] obtain ys where w: "w = JObj ys" by (cases w) simp_all
    with e have "join '','' (map ?f es) @ CHR ''}'' # r = join '','' (map ?f ys) @ CHR ''}'' # q" by simp
    with d have "es = ys \<and> r = q"
      by (intro decodable_items [where f = ?f]) (simp_all add: json_string_def close_not_digit)
    with w show "JObj es = w \<and> r = q" by simp
  qed
next
  case JNull
  show ?case unfolding decodable_def
  proof (intro allI impI)
    fix w r q
    assume e: "plain_json JNull @ r = plain_json w @ q"
    with same_kind [OF e] show "JNull = w \<and> r = q" by (cases w) simp_all
  qed
next
  case (JBool b)
  show ?case unfolding decodable_def
  proof (intro allI impI)
    fix w r q
    assume e: "plain_json (JBool b) @ r = plain_json w @ q"
    with same_kind [OF e] show "JBool b = w \<and> r = q" by (cases w) (simp_all split: if_splits)
  qed
qed

text \<open>Sorting the entries at every depth gives a normal form whose text is the canonical one.\<close>

fun normal_json :: "json \<Rightarrow> json" where
  "normal_json (JArr items) = JArr (map normal_json items)"
| "normal_json (JObj entries) = JObj (sort_entries (map (\<lambda>e. (fst e, normal_json (snd e))) entries))"
| "normal_json v = v"

lemma sort_entries_map:
  "sort_entries (map (\<lambda>e. (fst e, f (snd e))) es) = map (\<lambda>e. (fst e, f (snd e))) (sort_entries es)"
proof (induction es)
  case (Cons e es)
  have "insort_key fst (fst e, f (snd e)) (map (\<lambda>e. (fst e, f (snd e))) xs) =
      map (\<lambda>e. (fst e, f (snd e))) (insort_key fst e xs)" for xs
    by (induction xs) auto
  with Cons show ?case by (simp add: sort_entries_def)
qed (simp add: sort_entries_def)

lemma canonical_plain: "canonicalJson v = plain_json (normal_json v)"
proof (induction v)
  case (JArr xs)
  then show ?case by (simp cong: map_cong)
next
  case (JObj es)
  have "map (\<lambda>e. (fst e, canonicalJson (snd e))) es = map (\<lambda>e. (fst e, plain_json (snd e))) (map (\<lambda>e. (fst e, normal_json (snd e))) es)"
    using JObj by (auto simp: snds.simps)
  then have "canonicalJson (JObj es) = ''{'' @ join '','' (map entry_text (map (\<lambda>e. (fst e, plain_json (snd e)))
      (map (\<lambda>e. (fst e, normal_json (snd e))) (sort_entries es)))) @ ''}''"
    by (simp only: canonicalJson.simps sort_entries_map)
  then show ?case by (simp add: sort_entries_map entry_text_def comp_def)
qed simp_all

lemma canonical_eq_iff: "canonicalJson a = canonicalJson b \<longleftrightarrow> normal_json a = normal_json b"
proof
  assume "canonicalJson a = canonicalJson b"
  then have "plain_json (normal_json a) @ [] = plain_json (normal_json b) @ []" by (simp add: canonical_plain)
  with plain_decodable [of "normal_json a"] show "normal_json a = normal_json b"
    unfolding decodable_def tail_ok_def by (metis list.case(1))
qed (simp add: canonical_plain)

subsection \<open>Equal up to the order of keys\<close>

fun wf_json :: "json \<Rightarrow> bool" where
  "wf_json (JArr items) = list_all wf_json items"
| "wf_json (JObj entries) = (distinct (map fst entries) \<and> list_all (\<lambda>e. wf_json (snd e)) entries)"
| "wf_json _ = True"

inductive same_json :: "json \<Rightarrow> json \<Rightarrow> bool" where
  "same_json JNull JNull"
| "same_json (JBool b) (JBool b)"
| "same_json (JNum i) (JNum i)"
| "same_json (JStr s) (JStr s)"
| "list_all2 same_json xs ys \<Longrightarrow> same_json (JArr xs) (JArr ys)"
| "fst ` set es = fst ` set fs \<Longrightarrow> (\<forall>k v w. (k, v) \<in> set es \<longrightarrow> (k, w) \<in> set fs \<longrightarrow> same_json v w) \<Longrightarrow>
     same_json (JObj es) (JObj fs)"

inductive_simps same_json_simps:
  "same_json JNull w" "same_json (JBool b) w" "same_json (JNum i) w" "same_json (JStr s) w"
  "same_json (JArr xs) w" "same_json (JObj es) w"

lemma sorted_entries_eq:
  assumes "distinct (map fst es)" and "distinct (map fst fs)"
  shows "sort_entries es = sort_entries fs \<longleftrightarrow> set es = set fs"
proof
  assume "sort_entries es = sort_entries fs"
  then show "set es = set fs" by (metis set_sort sort_entries_def)
next
  assume s: "set es = set fs"
  show "sort_entries es = sort_entries fs"
    unfolding sort_entries_def
  proof (rule map_sorted_distinct_set_unique [where f = fst])
    show "inj_on fst (set (sort_key fst es) \<union> set (sort_key fst fs))"
      using assms s by (simp add: distinct_map)
  qed (use assms s in \<open>simp_all add: distinct_map\<close>)
qed

lemma map_entries_eq:
  assumes "distinct (map fst es)" and "distinct (map fst fs)"
  shows "(\<lambda>e. (fst e, f (snd e))) ` set es = (\<lambda>e. (fst e, f (snd e))) ` set fs \<longleftrightarrow>
     fst ` set es = fst ` set fs \<and> (\<forall>k v w. (k, v) \<in> set es \<longrightarrow> (k, w) \<in> set fs \<longrightarrow> f v = f w)"
    (is "?l \<longleftrightarrow> ?r")
proof
  assume l: ?l
  have "fst ` (\<lambda>e. (fst e, f (snd e))) ` set xs = fst ` set xs" for xs :: "('a \<times> 'b) list" by force
  with l have keys: "fst ` set es = fst ` set fs" by metis
  moreover have "f v = f w" if "(k, v) \<in> set es" "(k, w) \<in> set fs" for k v w
  proof -
    have "(k, f v) \<in> (\<lambda>e. (fst e, f (snd e))) ` set fs" using that(1) l by force
    then obtain w' where "(k, w') \<in> set fs" "f w' = f v" by force
    moreover from this that(2) assms(2) have "w' = w" by (metis eq_key_imp_eq_value)
    ultimately show ?thesis by simp
  qed
  ultimately show ?r by blast
next
  assume r: ?r
  have sub: "(\<lambda>e. (fst e, f (snd e))) ` set xs \<subseteq> (\<lambda>e. (fst e, f (snd e))) ` set ys"
    if "fst ` set xs \<subseteq> fst ` set ys" "\<forall>k v w. (k, v) \<in> set xs \<longrightarrow> (k, w) \<in> set ys \<longrightarrow> f v = f w" for xs ys :: "('a \<times> 'b) list"
  proof
    fix p assume "p \<in> (\<lambda>e. (fst e, f (snd e))) ` set xs"
    then obtain k v where p: "(k, v) \<in> set xs" "p = (k, f v)" by force
    with that(1) obtain w where "(k, w) \<in> set ys" by force
    with p that(2) show "p \<in> (\<lambda>e. (fst e, f (snd e))) ` set ys" by (metis (mono_tags, lifting) fst_conv rev_image_eqI snd_conv)
  qed
  show ?l
  proof
    show "(\<lambda>e. (fst e, f (snd e))) ` set es \<subseteq> (\<lambda>e. (fst e, f (snd e))) ` set fs" using r by (intro sub) auto
    show "(\<lambda>e. (fst e, f (snd e))) ` set fs \<subseteq> (\<lambda>e. (fst e, f (snd e))) ` set es" using r by (intro sub) (auto dest: sym)
  qed
qed

lemma normal_eq_same: "wf_json a \<Longrightarrow> wf_json b \<Longrightarrow> normal_json a = normal_json b \<longleftrightarrow> same_json a b"
proof (induction a arbitrary: b)
  case (JArr xs)
  show ?case
  proof (cases b)
    case b: (JArr ys)
    have "map normal_json xs = map normal_json ys \<longleftrightarrow> list_all2 same_json xs ys"
      unfolding list_eq_iff_nth_eq list_all2_conv_all_nth
      using JArr b by (auto simp: list_all_iff)
    then show ?thesis by (simp add: b same_json_simps)
  qed (simp_all add: same_json_simps)
next
  case (JObj es)
  show ?case
  proof (cases b)
    case b: (JObj fs)
    have d: "distinct (map fst es)" "distinct (map fst fs)" using JObj.prems b by auto
    let ?g = "\<lambda>e. (fst e, normal_json (snd e))"
    have d': "distinct (map fst (map ?g es))" "distinct (map fst (map ?g fs))" using d by (simp_all add: comp_def)
    have IH: "normal_json v = normal_json w \<longleftrightarrow> same_json v w" if "(k, v) \<in> set es" "(k, w) \<in> set fs" for k v w
      using JObj.IH [OF that(1)] that JObj.prems b by (force simp: list_all_iff)
    have "normal_json (JObj es) = normal_json b \<longleftrightarrow> ?g ` set es = ?g ` set fs"
      using sorted_entries_eq [OF d'] by (simp add: b)
    also have "\<dots> \<longleftrightarrow> fst ` set es = fst ` set fs \<and> (\<forall>k v w. (k, v) \<in> set es \<longrightarrow> (k, w) \<in> set fs \<longrightarrow> same_json v w)"
      using IH by (simp only: map_entries_eq [OF d]) blast
    also have "\<dots> \<longleftrightarrow> same_json (JObj es) b" by (simp add: b same_json_simps)
    finally show ?thesis .
  qed (simp_all add: same_json_simps)
next
  case JNull
  then show ?case by (cases b) (simp_all add: same_json_simps)
next
  case (JBool x)
  then show ?case by (cases b) (auto simp: same_json_simps)
next
  case (JNum x)
  then show ?case by (cases b) (auto simp: same_json_simps)
next
  case (JStr x)
  then show ?case by (cases b) (auto simp: same_json_simps)
qed

text \<open>
  C27: two messages have the same text to be signed exactly when they are the same value up to the
  order of the keys of their objects: a signature covers every field, name, string, number and
  nesting of a message, whatever separators and escapes its strings contain.
\<close>

theorem canonicalJson_faithful:
  assumes "wf_json a" and "wf_json b"
  shows "canonicalJson a = canonicalJson b \<longleftrightarrow> same_json a b"
  using canonical_eq_iff normal_eq_same [OF assms] by simp

theorem canonicalJson_faithful_witness:
  "canonicalJson (JObj [(''b'', JNum 1), (''a'', JStr ''x,y'')]) = canonicalJson (JObj [(''a'', JStr ''x,y''), (''b'', JNum 1)])"
proof -
  have "same_json (JObj [(''b'', JNum 1), (''a'', JStr ''x,y'')]) (JObj [(''a'', JStr ''x,y''), (''b'', JNum 1)])"
    by (auto simp: same_json_simps)
  with canonicalJson_faithful [of "JObj [(''b'', JNum 1), (''a'', JStr ''x,y'')]"
      "JObj [(''a'', JStr ''x,y''), (''b'', JNum 1)]"] show ?thesis by simp
qed

end
