(* ===== verification/RemoteStore.thy ===== *)
theory RemoteStore
  imports RemotePolicy Json
begin

section \<open>The control plane's database: \<open>src/remote/store.ts\<close>\<close>

text \<open>
  Each table is the list of its rows in insertion order. An \<open>INSERT\<close> that breaks a primary key or a
  unique index is refused by SQLite (\<open>UniqueViolation\<close>), and so is a session of a user that does not exist; \<open>UPDATE\<close> and \<open>DELETE\<close> act on the rows their
  \<open>WHERE\<close> clause selects. Dates are written by \<open>toISOString\<close>, in fixed width, so that comparing their
  texts is comparing the times; they are milliseconds here. Columns of JSON hold the value
  itself. Ties of \<open>ORDER BY\<close> keep insertion order. An audit event's random id and its metadata, which
  the code only stores and shows, are left out.
\<close>

subsection \<open>Rows\<close>

datatype agent_status = Pending | Online | Offline | Revoked

record agent_host_metadata =
  hm_hostname :: string
  hm_os :: string
  hm_arch :: string
  hm_platform :: string

record remote_agent =
  ra_id :: string
  ra_userId :: string
  ra_alias :: string
  ra_status :: agent_status
  ra_publicKey :: "string option"
  ra_profile :: agent_profile
  ra_policy :: agent_policy
  ra_policyVersion :: int
  ra_hostMetadata :: "agent_host_metadata option"
  ra_lastSeenAt :: "int option"
  ra_createdAt :: int
  ra_updatedAt :: int

record oauth_client =
  oc_id :: string
  oc_clientId :: string
  oc_clientName :: string
  oc_redirectUris :: "string list"
  oc_grantTypes :: "string list"
  oc_responseTypes :: "string list"
  oc_createdAt :: int

record authorization_code =
  ac_id :: string
  ac_codeHash :: string
  ac_clientId :: string
  ac_userId :: string
  ac_redirectUri :: string
  ac_codeChallenge :: string
  ac_resource :: string
  ac_scope :: string
  ac_expiresAt :: int
  ac_usedAt :: "int option"
  ac_createdAt :: int

record enrollment_token =
  et_id :: string
  et_agentId :: string
  et_userId :: string
  et_tokenHash :: string
  et_expiresAt :: int
  et_usedAt :: "int option"
  et_createdAt :: int

datatype action_status = ActPending | ActSent | ActCompleted | ActDenied | ActTimeout | ActError

record 'r action_record =
  ar_id :: string
  ar_userId :: string
  ar_agentId :: string
  ar_tool :: remote_tool
  ar_capability :: remote_capability
  ar_args :: "(string \<times> json) list"
  ar_status :: action_status
  ar_issuedAt :: int
  ar_deadline :: int
  ar_completedAt :: "int option"
  ar_result :: "'r option"
  ar_errorCode :: "remote_error_code option"

datatype severity = SevInfo | SevWarn | SevError

record audit_input =
  ae_userId :: "string option"
  ae_agentId :: "string option"
  ae_actionId :: "string option"
  ae_eventType :: string
  ae_severity :: severity

record audit_event = audit_input +
  ae_createdAt :: int

record user_row =
  us_id :: string
  us_githubId :: "string option"
  us_githubLogin :: "string option"
  us_googleId :: "string option"
  us_email :: "string option"
  us_displayName :: string
  us_provider :: string

text \<open>A user as the look-ups return it (\<open>TokenUserIdentity\<close>).\<close>

record token_user =
  tu_id :: string
  tu_githubId :: "string option"
  tu_githubLogin :: "string option"
  tu_googleId :: "string option"
  tu_email :: "string option"
  tu_displayName :: string
  tu_provider :: "string option"

record dashboard_session =
  ds_tokenHash :: string
  ds_userId :: string
  ds_expiresAt :: int

record 'r remote_store =
  rs_sessions :: "dashboard_session list"
  rs_users :: "user_row list"
  rs_clients :: "oauth_client list"
  rs_codes :: "authorization_code list"
  rs_agents :: "remote_agent list"
  rs_tokens :: "enrollment_token list"
  rs_actions :: "'r action_record list"
  rs_audit :: "audit_event list"

datatype store_error = UniqueViolation | ForeignKeyViolation | TokenUseConflict string

subsection \<open>Statements\<close>

definition insert_row :: "('a \<Rightarrow> 'a \<Rightarrow> bool) \<Rightarrow> 'a \<Rightarrow> 'a list \<Rightarrow> store_error + 'a list" where
  "insert_row clash r rows = (if list_ex (clash r) rows then Inl UniqueViolation else Inr (rows @ [r]))"

definition update_rows :: "('a \<Rightarrow> bool) \<Rightarrow> ('a \<Rightarrow> 'a) \<Rightarrow> 'a list \<Rightarrow> 'a list" where
  "update_rows where_clause f rows = map (\<lambda>r. if where_clause r then f r else r) rows"

definition changes :: "('a \<Rightarrow> bool) \<Rightarrow> 'a list \<Rightarrow> nat" where
  "changes where_clause rows = length (filter where_clause rows)"

definition delete_rows :: "('a \<Rightarrow> bool) \<Rightarrow> 'a list \<Rightarrow> 'a list" where
  "delete_rows where_clause rows = filter (\<lambda>r. \<not> where_clause r) rows"

subsection \<open>Operations\<close>

definition dbPathFromUrl :: "string \<Rightarrow> string" where
  "dbPathFromUrl databaseUrl =
     (if databaseUrl = '':memory:'' \<or> databaseUrl = ''file::memory:'' then '':memory:''
      else if prefix ''file:'' databaseUrl then drop 5 databaseUrl
      else databaseUrl)"

definition pruneExpiredTransientRecords :: "int \<Rightarrow> 'r remote_store \<Rightarrow> 'r remote_store" where
  "pruneExpiredTransientRecords now s =
     s\<lparr> rs_sessions := delete_rows (\<lambda>r. ds_expiresAt r \<le> now) (rs_sessions s),
        rs_codes := delete_rows (\<lambda>r. ac_expiresAt r \<le> now) (rs_codes s),
        rs_tokens := delete_rows (\<lambda>r. et_expiresAt r \<le> now) (rs_tokens s) \<rparr>"

definition createDashboardSession :: "string \<Rightarrow> string \<Rightarrow> int \<Rightarrow> 'r remote_store \<Rightarrow> store_error + 'r remote_store" where
  "createDashboardSession tokenHash userId expiresAt s =
     bind_res
       (insert_row (\<lambda>a b. ds_tokenHash a = ds_tokenHash b)
          \<lparr> ds_tokenHash = tokenHash, ds_userId = userId, ds_expiresAt = expiresAt \<rparr> (rs_sessions s))
       (\<lambda>rows. if list_ex (\<lambda>u. us_id u = userId) (rs_users s) then Inr (s\<lparr> rs_sessions := rows \<rparr>)
               else Inl ForeignKeyViolation)"

definition getDashboardSession :: "string \<Rightarrow> int \<Rightarrow> 'r remote_store \<Rightarrow> string option" where
  "getDashboardSession tokenHash now s =
     map_option ds_userId (find (\<lambda>r. ds_tokenHash r = tokenHash \<and> ds_expiresAt r > now) (rs_sessions s))"

definition deleteDashboardSession :: "string \<Rightarrow> 'r remote_store \<Rightarrow> 'r remote_store" where
  "deleteDashboardSession tokenHash s =
     s\<lparr> rs_sessions := delete_rows (\<lambda>r. ds_tokenHash r = tokenHash) (rs_sessions s) \<rparr>"

text \<open>
  The upsert of a user: a row with the same id is updated, and any other row with the same provider
  id breaks the unique index.
\<close>

definition upsertUser :: "string \<Rightarrow> string \<Rightarrow> string \<Rightarrow> 'r remote_store \<Rightarrow> store_error + 'r remote_store" where
  "upsertUser internalId githubId login s =
     (if list_ex (\<lambda>u. us_id u \<noteq> internalId \<and> us_githubId u = Some githubId) (rs_users s) then Inl UniqueViolation
      else if list_ex (\<lambda>u. us_id u = internalId) (rs_users s) then
        Inr (s\<lparr> rs_users := update_rows (\<lambda>u. us_id u = internalId)
               (\<lambda>u. u\<lparr> us_githubId := Some githubId, us_githubLogin := Some login, us_displayName := login \<rparr>)
               (rs_users s) \<rparr>)
      else
        Inr (s\<lparr> rs_users := rs_users s @
               [\<lparr> us_id = internalId, us_githubId = Some githubId, us_githubLogin = Some login, us_googleId = None,
                  us_email = None, us_displayName = login, us_provider = ''github'' \<rparr>] \<rparr>))"

definition upsertGoogleUser ::
    "string \<Rightarrow> string \<Rightarrow> string \<Rightarrow> string \<Rightarrow> 'r remote_store \<Rightarrow> store_error + 'r remote_store" where
  "upsertGoogleUser internalId googleId email name s =
     (if list_ex (\<lambda>u. us_id u \<noteq> internalId \<and> us_googleId u = Some googleId) (rs_users s) then Inl UniqueViolation
      else if list_ex (\<lambda>u. us_id u = internalId) (rs_users s) then
        Inr (s\<lparr> rs_users := update_rows (\<lambda>u. us_id u = internalId)
               (\<lambda>u. u\<lparr> us_googleId := Some googleId, us_email := Some email, us_displayName := name \<rparr>)
               (rs_users s) \<rparr>)
      else
        Inr (s\<lparr> rs_users := rs_users s @
               [\<lparr> us_id = internalId, us_githubId = None, us_githubLogin = None, us_googleId = Some googleId,
                  us_email = Some email, us_displayName = name, us_provider = ''google'' \<rparr>] \<rparr>))"

definition rowString :: "string option \<Rightarrow> string" where
  "rowString v = (case v of None \<Rightarrow> [] | Some s \<Rightarrow> s)"

definition optionalRowString :: "string option \<Rightarrow> string option" where
  "optionalRowString v = (if truthy v then v else None)"

definition getUserByGitHubId :: "string \<Rightarrow> 'r remote_store \<Rightarrow> token_user option" where
  "getUserByGitHubId githubId s =
     map_option (\<lambda>u. \<lparr> tu_id = us_id u, tu_githubId = Some (rowString (us_githubId u)),
         tu_githubLogin = Some (rowString (us_githubLogin u)), tu_googleId = None, tu_email = optionalRowString (us_email u),
         tu_displayName = (if us_displayName u = [] then rowString (us_githubLogin u) else us_displayName u),
         tu_provider = None \<rparr>)
       (find (\<lambda>u. us_githubId u = Some githubId) (rs_users s))"

definition getUserByGoogleId :: "string \<Rightarrow> 'r remote_store \<Rightarrow> token_user option" where
  "getUserByGoogleId googleId s =
     map_option (\<lambda>u. \<lparr> tu_id = us_id u, tu_githubId = None, tu_githubLogin = None,
         tu_googleId = Some (rowString (us_googleId u)), tu_email = optionalRowString (us_email u),
         tu_displayName = us_displayName u, tu_provider = None \<rparr>)
       (find (\<lambda>u. us_googleId u = Some googleId) (rs_users s))"

definition getUserById :: "string \<Rightarrow> 'r remote_store \<Rightarrow> token_user option" where
  "getUserById userId s =
     map_option (\<lambda>u. \<lparr> tu_id = us_id u, tu_githubId = optionalRowString (us_githubId u),
         tu_githubLogin = optionalRowString (us_githubLogin u), tu_googleId = optionalRowString (us_googleId u),
         tu_email = optionalRowString (us_email u),
         tu_displayName =
           (case List.map_filter optionalRowString [Some (us_displayName u), us_githubLogin u, us_email u] of
              [] \<Rightarrow> ''User'' | n # _ \<Rightarrow> n),
         tu_provider = Some (if us_provider u = ''google'' then ''google'' else ''github'') \<rparr>)
       (find (\<lambda>u. us_id u = userId) (rs_users s))"

definition insertClient :: "oauth_client \<Rightarrow> 'r remote_store \<Rightarrow> store_error + 'r remote_store" where
  "insertClient client s =
     bind_res (insert_row (\<lambda>a b. oc_id a = oc_id b \<or> oc_clientId a = oc_clientId b) client (rs_clients s))
       (\<lambda>rows. Inr (s\<lparr> rs_clients := rows \<rparr>))"

definition getClient :: "string \<Rightarrow> 'r remote_store \<Rightarrow> oauth_client option" where
  "getClient clientId s = find (\<lambda>c. oc_clientId c = clientId) (rs_clients s)"

definition updateClientRedirectUris :: "string \<Rightarrow> string list \<Rightarrow> 'r remote_store \<Rightarrow> 'r remote_store" where
  "updateClientRedirectUris clientId redirectUris s =
     s\<lparr> rs_clients := update_rows (\<lambda>c. oc_clientId c = clientId) (\<lambda>c. c\<lparr> oc_redirectUris := redirectUris \<rparr>)
          (rs_clients s) \<rparr>"

definition countOAuthClients :: "'r remote_store \<Rightarrow> nat" where
  "countOAuthClients s = length (rs_clients s)"

definition insertAuthorizationCode :: "authorization_code \<Rightarrow> 'r remote_store \<Rightarrow> store_error + 'r remote_store" where
  "insertAuthorizationCode code s =
     bind_res (insert_row (\<lambda>a b. ac_id a = ac_id b \<or> ac_codeHash a = ac_codeHash b) code (rs_codes s))
       (\<lambda>rows. Inr (s\<lparr> rs_codes := rows \<rparr>))"

definition getAuthorizationCodeByHash :: "string \<Rightarrow> 'r remote_store \<Rightarrow> authorization_code option" where
  "getAuthorizationCodeByHash codeHash s = find (\<lambda>c. ac_codeHash c = codeHash) (rs_codes s)"

definition markAuthorizationCodeUsed :: "string \<Rightarrow> int \<Rightarrow> 'r remote_store \<Rightarrow> store_error + 'r remote_store" where
  "markAuthorizationCodeUsed codeHash usedAt s =
     (let selected = (\<lambda>c. ac_codeHash c = codeHash \<and> ac_usedAt c = None)
      in if changes selected (rs_codes s) \<noteq> 1 then Inl (TokenUseConflict ''Authorization code already used'')
         else Inr (s\<lparr> rs_codes := update_rows selected (\<lambda>c. c\<lparr> ac_usedAt := Some usedAt \<rparr>) (rs_codes s) \<rparr>))"

definition insertAgent :: "remote_agent \<Rightarrow> 'r remote_store \<Rightarrow> store_error + 'r remote_store" where
  "insertAgent agent s =
     bind_res
       (insert_row (\<lambda>a b. ra_id a = ra_id b \<or> (ra_userId a = ra_userId b \<and> ra_alias a = ra_alias b)) agent (rs_agents s))
       (\<lambda>rows. Inr (s\<lparr> rs_agents := rows \<rparr>))"

text \<open>
  \<open>updateAgent\<close> writes every column but the id, the owner and the creation time. A rename to an alias
  the owner has already breaks the unique index.
\<close>

definition updateAgent :: "remote_agent \<Rightarrow> 'r remote_store \<Rightarrow> store_error + 'r remote_store" where
  "updateAgent agent s =
     (let rows = update_rows (\<lambda>r. ra_id r = ra_id agent)
            (\<lambda>r. agent\<lparr> ra_userId := ra_userId r, ra_createdAt := ra_createdAt r \<rparr>) (rs_agents s)
      in if distinct (map (\<lambda>r. (ra_userId r, ra_alias r)) rows) then Inr (s\<lparr> rs_agents := rows \<rparr>)
         else Inl UniqueViolation)"

definition agentFromRow :: "remote_agent \<Rightarrow> remote_agent" where
  "agentFromRow row = row\<lparr> ra_publicKey := (if truthy (ra_publicKey row) then ra_publicKey row else None) \<rparr>"

definition getAgent :: "string \<Rightarrow> 'r remote_store \<Rightarrow> remote_agent option" where
  "getAgent agentId s = map_option agentFromRow (find (\<lambda>r. ra_id r = agentId) (rs_agents s))"

definition removeRevokedAgent :: "string \<Rightarrow> string \<Rightarrow> 'r remote_store \<Rightarrow> bool \<times> 'r remote_store" where
  "removeRevokedAgent userId agentId s =
     (let selected = (\<lambda>r. ra_id r = agentId \<and> ra_userId r = userId \<and> ra_status r = Revoked)
      in if changes selected (rs_agents s) \<noteq> 1 then (False, s)
         else (True, s\<lparr> rs_agents := delete_rows selected (rs_agents s),
                        rs_tokens := delete_rows (\<lambda>t. et_userId t = userId \<and> et_agentId t = agentId) (rs_tokens s),
                        rs_actions := delete_rows (\<lambda>a. ar_userId a = userId \<and> ar_agentId a = agentId) (rs_actions s) \<rparr>))"

definition getAgentByAlias :: "string \<Rightarrow> string \<Rightarrow> 'r remote_store \<Rightarrow> remote_agent option" where
  "getAgentByAlias userId alias s =
     map_option agentFromRow (find (\<lambda>r. ra_userId r = userId \<and> ra_alias r = alias) (rs_agents s))"

definition listAgents :: "string \<Rightarrow> 'r remote_store \<Rightarrow> remote_agent list" where
  "listAgents userId s = map agentFromRow (sort_key ra_createdAt (filter (\<lambda>r. ra_userId r = userId) (rs_agents s)))"

definition insertEnrollmentToken :: "enrollment_token \<Rightarrow> 'r remote_store \<Rightarrow> store_error + 'r remote_store" where
  "insertEnrollmentToken token s =
     bind_res (insert_row (\<lambda>a b. et_id a = et_id b \<or> et_tokenHash a = et_tokenHash b) token (rs_tokens s))
       (\<lambda>rows. Inr (s\<lparr> rs_tokens := rows \<rparr>))"

definition getEnrollmentTokenByHash :: "string \<Rightarrow> 'r remote_store \<Rightarrow> enrollment_token option" where
  "getEnrollmentTokenByHash tokenHash s = find (\<lambda>t. et_tokenHash t = tokenHash) (rs_tokens s)"

definition markEnrollmentTokenUsed :: "string \<Rightarrow> int \<Rightarrow> 'r remote_store \<Rightarrow> store_error + 'r remote_store" where
  "markEnrollmentTokenUsed tokenHash usedAt s =
     (let selected = (\<lambda>t. et_tokenHash t = tokenHash \<and> et_usedAt t = None)
      in if changes selected (rs_tokens s) \<noteq> 1 then Inl (TokenUseConflict ''Enrollment token already used'')
         else Inr (s\<lparr> rs_tokens := update_rows selected (\<lambda>t. t\<lparr> et_usedAt := Some usedAt \<rparr>) (rs_tokens s) \<rparr>))"

definition insertAction :: "'r action_record \<Rightarrow> 'r remote_store \<Rightarrow> store_error + 'r remote_store" where
  "insertAction action s =
     bind_res (insert_row (\<lambda>a b. ar_id a = ar_id b) action (rs_actions s)) (\<lambda>rows. Inr (s\<lparr> rs_actions := rows \<rparr>))"

definition updateAction :: "'r action_record \<Rightarrow> 'r remote_store \<Rightarrow> 'r remote_store" where
  "updateAction action s =
     s\<lparr> rs_actions := update_rows (\<lambda>r. ar_id r = ar_id action)
          (\<lambda>r. r\<lparr> ar_status := ar_status action, ar_completedAt := ar_completedAt action,
                  ar_result := ar_result action, ar_errorCode := ar_errorCode action \<rparr>) (rs_actions s) \<rparr>"

definition insertAudit :: "audit_event \<Rightarrow> 'r remote_store \<Rightarrow> 'r remote_store" where
  "insertAudit event s = s\<lparr> rs_audit := rs_audit s @ [event] \<rparr>"

definition listAudit :: "string \<Rightarrow> string option \<Rightarrow> int \<Rightarrow> 'r remote_store \<Rightarrow> audit_event list" where
  "listAudit userId agentId limit s =
     (let safeLimit = min (max limit 1) 200;
          rows = filter (\<lambda>e. ae_userId e = Some userId \<and> (truthy agentId \<longrightarrow> ae_agentId e = agentId)) (rs_audit s)
      in take (nat safeLimit) (sort_key (\<lambda>e. - ae_createdAt e) rows))"

subsection \<open>Uniqueness of keys\<close>

named_theorems store_defs \<open>the operations on the tables\<close>

declare
  pruneExpiredTransientRecords_def [store_defs] createDashboardSession_def [store_defs]
  deleteDashboardSession_def [store_defs] upsertUser_def [store_defs] upsertGoogleUser_def [store_defs]
  insertClient_def [store_defs] updateClientRedirectUris_def [store_defs] insertAuthorizationCode_def [store_defs]
  markAuthorizationCodeUsed_def [store_defs] insertAgent_def [store_defs] updateAgent_def [store_defs]
  removeRevokedAgent_def [store_defs] insertEnrollmentToken_def [store_defs] markEnrollmentTokenUsed_def [store_defs]
  insertAction_def [store_defs] updateAction_def [store_defs] insertAudit_def [store_defs]

lemma insert_row_Inr: "insert_row clash r rows = Inr rows' \<longleftrightarrow> (\<forall>x \<in> set rows. \<not> clash r x) \<and> rows' = rows @ [r]"
  by (auto simp: insert_row_def list_ex_iff)

lemma distinct_insert_row:
  "insert_row clash r rows = Inr rows' \<Longrightarrow> (\<And>x. key r = key x \<Longrightarrow> clash r x) \<Longrightarrow>
   distinct (map key rows) \<Longrightarrow> distinct (map key rows')"
  by (auto simp: insert_row_Inr)

lemma distinct_update_rows:
  "(\<And>r. P r \<Longrightarrow> key (f r) = key r) \<Longrightarrow> distinct (map key (update_rows P f rows)) = distinct (map key rows)"
proof -
  assume k: "\<And>r. P r \<Longrightarrow> key (f r) = key r"
  have "map key (update_rows P f rows) = map key rows"
    by (simp add: update_rows_def) (use k in auto)
  then show ?thesis by simp
qed

lemma distinct_delete_rows: "distinct (map key rows) \<Longrightarrow> distinct (map key (delete_rows P rows))"
  by (simp add: delete_rows_def distinct_map_filter)

text \<open>What the schema's primary keys and unique indexes promise.\<close>

definition store_ok :: "'r remote_store \<Rightarrow> bool" where
  "store_ok s \<longleftrightarrow>
     distinct (map ra_id (rs_agents s)) \<and> distinct (map (\<lambda>r. (ra_userId r, ra_alias r)) (rs_agents s)) \<and>
     distinct (map oc_clientId (rs_clients s)) \<and> distinct (map ac_codeHash (rs_codes s)) \<and>
     distinct (map et_tokenHash (rs_tokens s)) \<and> distinct (map ar_id (rs_actions s)) \<and>
     distinct (map ds_tokenHash (rs_sessions s)) \<and> distinct (map us_id (rs_users s))"

definition empty_store :: "'r remote_store" where
  "empty_store = \<lparr> rs_sessions = [], rs_users = [], rs_clients = [], rs_codes = [], rs_agents = [], rs_tokens = [],
     rs_actions = [], rs_audit = [] \<rparr>"

lemma store_ok_empty [simp]: "store_ok empty_store"
  by (simp add: store_ok_def empty_store_def)

lemma store_ok_inserts:
  "store_ok s \<Longrightarrow> insertClient client s = Inr s' \<Longrightarrow> store_ok s'"
  "store_ok s \<Longrightarrow> insertAuthorizationCode code s = Inr s' \<Longrightarrow> store_ok s'"
  "store_ok s \<Longrightarrow> insertAgent agent s = Inr s' \<Longrightarrow> store_ok s'"
  "store_ok s \<Longrightarrow> insertEnrollmentToken token s = Inr s' \<Longrightarrow> store_ok s'"
  "store_ok s \<Longrightarrow> insertAction action s = Inr s' \<Longrightarrow> store_ok s'"
  "store_ok s \<Longrightarrow> createDashboardSession tokenHash userId expiresAt s = Inr s' \<Longrightarrow> store_ok s'"
  by (auto simp: store_ok_def store_defs bind_res_Inr insert_row_Inr image_iff split: if_splits)

lemma store_ok_upserts:
  "store_ok s \<Longrightarrow> upsertUser i g l s = Inr s' \<Longrightarrow> store_ok s'"
  "store_ok s \<Longrightarrow> upsertGoogleUser i g e n s = Inr s' \<Longrightarrow> store_ok s'"
  by (auto simp: store_ok_def upsertUser_def upsertGoogleUser_def distinct_update_rows list_ex_iff split: if_splits)

lemma store_ok_marks:
  "store_ok s \<Longrightarrow> markAuthorizationCodeUsed h t s = Inr s' \<Longrightarrow> store_ok s'"
  "store_ok s \<Longrightarrow> markEnrollmentTokenUsed h t s = Inr s' \<Longrightarrow> store_ok s'"
  by (auto simp: store_ok_def store_defs Let_def distinct_update_rows split: if_splits)

lemma store_ok_changes:
  "store_ok s \<Longrightarrow> store_ok (pruneExpiredTransientRecords now s)"
  "store_ok s \<Longrightarrow> store_ok (deleteDashboardSession h s)"
  "store_ok s \<Longrightarrow> store_ok (updateClientRedirectUris i uris s)"
  "store_ok s \<Longrightarrow> store_ok (snd (removeRevokedAgent u a s))"
  "store_ok s \<Longrightarrow> store_ok (updateAction action s)"
  "store_ok s \<Longrightarrow> store_ok (insertAudit event s)"
  by (simp_all add: store_ok_def store_defs distinct_delete_rows distinct_update_rows Let_def)

lemma store_ok_updateAgent: "store_ok s \<Longrightarrow> updateAgent agent s = Inr s' \<Longrightarrow> store_ok s'"
  by (auto simp: store_ok_def updateAgent_def Let_def distinct_update_rows split: if_splits)

lemmas store_ok_intros = store_ok_inserts store_ok_upserts store_ok_marks store_ok_changes store_ok_updateAgent

lemma find_distinct:
  "distinct (map key rows) \<Longrightarrow> find (\<lambda>r. key r = k) rows = Some x \<longleftrightarrow> x \<in> set rows \<and> key x = k"
proof (induction rows)
  case (Cons r rows)
  then show ?case by (cases "key r = k") (force simp: image_iff)+
qed simp

lemma find_update_rows:
  "(\<And>r. P r \<Longrightarrow> key (f r) = key r) \<Longrightarrow>
   find (\<lambda>r. key r = k) (update_rows P f rows) =
     map_option (\<lambda>r. if P r then f r else r) (find (\<lambda>r. key r = k) rows)"
  by (induction rows) (auto simp: update_rows_def)

lemma find_delete_rows_None:
  "find Q (delete_rows P rows) = Some x \<Longrightarrow> Q x \<and> x \<in> set rows \<and> \<not> P x"
  by (auto simp: find_Some_iff delete_rows_def) (metis nth_mem set_filter mem_Collect_eq)+

lemma changes_unique:
  assumes "distinct (map key rows)"
  shows "changes (\<lambda>r. key r = k \<and> Q r) rows = (case find (\<lambda>r. key r = k) rows of None \<Rightarrow> 0 | Some r \<Rightarrow> if Q r then 1 else 0)"
  using assms
proof (induction rows)
  case (Cons r rows)
  show ?case
  proof (cases "key r = k")
    case True
    with Cons.prems have "filter (\<lambda>x. key x = k \<and> Q x) rows = []" by (auto simp: filter_empty_conv image_iff)
    with True show ?thesis by (simp add: changes_def)
  next
    case False
    with Cons show ?thesis by (simp add: changes_def)
  qed
qed (simp add: changes_def)

lemma marked_row:
  assumes d: "distinct (map key rows)" and c: "changes (\<lambda>r. key r = k \<and> Q r) rows = 1" and f: "\<And>r. key (f r) = key r"
  shows "\<exists>r. Q r \<and> find (\<lambda>r. key r = k) (update_rows (\<lambda>r. key r = k \<and> Q r) f rows) = Some (f r)"
proof -
  from c obtain r where r: "find (\<lambda>r. key r = k) rows = Some r" "Q r"
    by (auto simp: changes_unique [OF d] split: option.splits if_splits)
  then have "key r = k" by (simp add: find_distinct [OF d])
  with r show ?thesis by (auto simp: find_update_rows f)
qed

subsection \<open>Tokens that can be used once\<close>

text \<open>
  Authorization codes and enrollment tokens have the same life: they are looked up by their hash,
  and marked used by a conditional update. A step of the program that neither issues a token with
  this hash nor clears its mark keeps it spent.
\<close>

locale single_use =
  fixes find_token :: "'s \<Rightarrow> string \<Rightarrow> 'r option"
    and used_at :: "'r \<Rightarrow> int option"
    and mark_used :: "string \<Rightarrow> int \<Rightarrow> 's \<Rightarrow> store_error + 's"
    and ok :: "'s \<Rightarrow> bool"
  assumes mark_iff: "ok s \<Longrightarrow> (\<exists>s'. mark_used h t s = Inr s') \<longleftrightarrow> (\<exists>r. find_token s h = Some r \<and> used_at r = None)"
    and mark_sets: "ok s \<Longrightarrow> mark_used h t s = Inr s' \<Longrightarrow> \<exists>r. find_token s' h = Some r \<and> used_at r = Some t"
    and mark_other: "ok s \<Longrightarrow> mark_used h t s = Inr s' \<Longrightarrow> h' \<noteq> h \<Longrightarrow> find_token s' h' = find_token s h'"
    and ok_mark: "ok s \<Longrightarrow> mark_used h t s = Inr s' \<Longrightarrow> ok s'"
begin

definition spent :: "string \<Rightarrow> 's \<Rightarrow> bool" where
  "spent h s \<longleftrightarrow> (\<forall>r. find_token s h = Some r \<longrightarrow> used_at r \<noteq> None)"

lemma spent_after_mark: "ok s \<Longrightarrow> mark_used h t s = Inr s' \<Longrightarrow> spent h s'"
  using mark_sets by (force simp: spent_def)

lemma spent_no_mark: "ok s \<Longrightarrow> spent h s \<Longrightarrow> mark_used h t s \<noteq> Inr s'"
  using mark_iff by (metis spent_def)

lemma spent_mark: "ok s \<Longrightarrow> spent h s \<Longrightarrow> mark_used h' t s = Inr s' \<Longrightarrow> spent h s'"
  using spent_no_mark [of s h t s'] mark_other [of s h' t s' h] by (cases "h' = h") (simp_all add: spent_def)

lemma spent_run:
  assumes "step\<^sup>*\<^sup>* s t" and "ok s" and "spent h s"
    and "\<And>a b. step a b \<Longrightarrow> ok a \<Longrightarrow> ok b" and "\<And>a b. step a b \<Longrightarrow> ok a \<Longrightarrow> spent h a \<Longrightarrow> spent h b"
  shows "ok t \<and> spent h t"
  using assms(1,2,3) by (induction rule: rtranclp_induct) (auto intro: assms(4,5))

end

interpretation codes: single_use "\<lambda>s h. getAuthorizationCodeByHash h s" ac_usedAt markAuthorizationCodeUsed store_ok
proof unfold_locales
  fix s s' :: "'r remote_store" and h h' t
  assume ok: "store_ok s"
  then have d: "distinct (map ac_codeHash (rs_codes s))" by (simp add: store_ok_def)
  show "(\<exists>s'. markAuthorizationCodeUsed h t s = Inr s') \<longleftrightarrow>
      (\<exists>r. getAuthorizationCodeByHash h s = Some r \<and> ac_usedAt r = None)"
    by (simp add: markAuthorizationCodeUsed_def getAuthorizationCodeByHash_def changes_unique [OF d] Let_def
        split: option.splits)
  assume m: "markAuthorizationCodeUsed h t s = Inr s'"
  show "\<exists>r. getAuthorizationCodeByHash h s' = Some r \<and> ac_usedAt r = Some t"
    using m marked_row [OF d, of h "\<lambda>r. ac_usedAt r = None" "\<lambda>r. r\<lparr> ac_usedAt := Some t \<rparr>"]
    by (auto simp: markAuthorizationCodeUsed_def getAuthorizationCodeByHash_def Let_def split: if_splits)
  show "getAuthorizationCodeByHash h' s' = getAuthorizationCodeByHash h' s" if "h' \<noteq> h"
    using m that by (auto simp: markAuthorizationCodeUsed_def getAuthorizationCodeByHash_def Let_def find_update_rows
        split: if_splits intro!: option.map_ident_strong dest!: find_Some_iff [THEN iffD1])
  show "store_ok s'" using ok m by (rule store_ok_marks)
qed

interpretation tokens: single_use "\<lambda>s h. getEnrollmentTokenByHash h s" et_usedAt markEnrollmentTokenUsed store_ok
proof unfold_locales
  fix s s' :: "'r remote_store" and h h' t
  assume ok: "store_ok s"
  then have d: "distinct (map et_tokenHash (rs_tokens s))" by (simp add: store_ok_def)
  show "(\<exists>s'. markEnrollmentTokenUsed h t s = Inr s') \<longleftrightarrow>
      (\<exists>r. getEnrollmentTokenByHash h s = Some r \<and> et_usedAt r = None)"
    by (simp add: markEnrollmentTokenUsed_def getEnrollmentTokenByHash_def changes_unique [OF d] Let_def
        split: option.splits)
  assume m: "markEnrollmentTokenUsed h t s = Inr s'"
  show "\<exists>r. getEnrollmentTokenByHash h s' = Some r \<and> et_usedAt r = Some t"
    using m marked_row [OF d, of h "\<lambda>r. et_usedAt r = None" "\<lambda>r. r\<lparr> et_usedAt := Some t \<rparr>"]
    by (auto simp: markEnrollmentTokenUsed_def getEnrollmentTokenByHash_def Let_def split: if_splits)
  show "getEnrollmentTokenByHash h' s' = getEnrollmentTokenByHash h' s" if "h' \<noteq> h"
    using m that by (auto simp: markEnrollmentTokenUsed_def getEnrollmentTokenByHash_def Let_def find_update_rows
        split: if_splits intro!: option.map_ident_strong dest!: find_Some_iff [THEN iffD1])
  show "store_ok s'" using ok m by (rule store_ok_marks)
qed

end
