(* ===== verification/AgentLifecycle.thy ===== *)
theory AgentLifecycle
  imports RemoteStore Nonces
begin

section \<open>Sockets of agents: \<open>src/remote/agent-connection-lifecycle.ts\<close>\<close>

text \<open>
  The lifecycle manager owns the accepted connections, the slots agents have claimed, the
  upgrades under way and the timers. A connection is a number. What it asks of a socket, and the
  audit events it reports, are appended to a list of effects; a timer is its armed flag and its
  firing is an operation of its own. Timestamps are milliseconds.
\<close>

type_synonym conn = nat

subsection \<open>Messages and effects\<close>

record action_request =
  rq_action_id :: string
  rq_agent_id :: string
  rq_user_id :: string
  rq_tool :: remote_tool
  rq_capability :: remote_capability
  rq_args :: "(string \<times> json) list"
  rq_policy_version :: int
  rq_issued_at :: int
  rq_deadline :: int
  rq_nonce :: string

datatype server_message =
    ErrorMessage remote_error_code string
  | ReadyMessage string agent_policy
  | ActionMessage action_request
  | PolicyMessage policy_update

datatype ws_effect =
    SendJson conn server_message
  | CloseWs conn int string
  | TerminateWs conn
  | PingWs conn
  | DestroySocket nat
  | EndUnavailable nat
  | Audit audit_input

record lifecycle_config =
  lcc_helloTimeoutMs :: "int option"
  lcc_heartbeatIntervalMs :: "int option"
  lcc_idleTimeoutMs :: "int option"
  lcc_maxConnections :: "int option"
  lcc_maxConnectionsPerAgent :: "int option"

definition DEFAULT_AGENT_IDLE_TIMEOUT_MS :: int where
  "DEFAULT_AGENT_IDLE_TIMEOUT_MS = 90000"

definition DEFAULT_MAX_AGENT_CONNECTIONS :: int where
  "DEFAULT_MAX_AGENT_CONNECTIONS = 128"

definition DEFAULT_MAX_AGENT_CONNECTIONS_PER_AGENT :: int where
  "DEFAULT_MAX_AGENT_CONNECTIONS_PER_AGENT = 2"

record managed_connection =
  mg_lastActivityAt :: int
  mg_authenticated :: bool
  mg_agentId :: "string option"
  mg_helloTimeout :: bool
  mg_terminationTimeout :: bool

record lifecycle =
  lc_config :: lifecycle_config
  lc_managed :: "(conn, managed_connection) jsmap"
  lc_claims :: "(string, conn list) jsmap"
  lc_pendingUpgrades :: "nat list"
  lc_shuttingDown :: bool
  lc_effects :: "ws_effect list"

definition newLifecycle :: "lifecycle_config \<Rightarrow> lifecycle" where
  "newLifecycle config =
     \<lparr> lc_config = config, lc_managed = [], lc_claims = [], lc_pendingUpgrades = [], lc_shuttingDown = False,
       lc_effects = [] \<rparr>"

definition lc_maxConnections :: "lifecycle \<Rightarrow> int" where
  "lc_maxConnections lc = patched (lcc_maxConnections (lc_config lc)) DEFAULT_MAX_AGENT_CONNECTIONS"

definition lc_maxConnectionsPerAgent :: "lifecycle \<Rightarrow> int" where
  "lc_maxConnectionsPerAgent lc =
     patched (lcc_maxConnectionsPerAgent (lc_config lc)) DEFAULT_MAX_AGENT_CONNECTIONS_PER_AGENT"

definition emit :: "ws_effect \<Rightarrow> lifecycle \<Rightarrow> lifecycle" where
  "emit e lc = lc\<lparr> lc_effects := lc_effects lc @ [e] \<rparr>"

definition audit_note :: "string option \<Rightarrow> string option \<Rightarrow> string \<Rightarrow> severity \<Rightarrow> audit_input" where
  "audit_note userId agentId eventType severity =
     \<lparr> ae_userId = userId, ae_agentId = agentId, ae_actionId = None, ae_eventType = eventType, ae_severity = severity \<rparr>"

subsection \<open>Operations\<close>

definition hasGlobalCapacity :: "lifecycle \<Rightarrow> bool" where
  "hasGlobalCapacity lc = (int (length (lc_managed lc) + length (lc_pendingUpgrades lc)) < lc_maxConnections lc)"

definition auditGlobalLimit :: "lifecycle \<Rightarrow> lifecycle" where
  "auditGlobalLimit lc = emit (Audit (audit_note None None ''agent_connection_limit_rejected'' SevWarn)) lc"

definition rejectRawUpgrade :: "nat \<Rightarrow> bool \<Rightarrow> bool \<Rightarrow> lifecycle \<Rightarrow> lifecycle" where
  "rejectRawUpgrade sock destroyed auditCapacity lc =
     (let lc1 = (if auditCapacity then auditGlobalLimit lc else lc)
      in if destroyed then lc1 else emit (EndUnavailable sock) lc1)"

text \<open>The socket of a refused connection is closed; the grace timer that would terminate it stands by itself.\<close>

definition rejectAcceptedConnection :: "conn \<Rightarrow> lifecycle \<Rightarrow> lifecycle" where
  "rejectAcceptedConnection c lc = emit (CloseWs c 1013 ''connection limit reached'') lc"

definition attach :: "conn \<Rightarrow> int \<Rightarrow> lifecycle \<Rightarrow> bool \<times> lifecycle" where
  "attach c now lc =
     (if lc_shuttingDown lc then (False, rejectAcceptedConnection c lc)
      else if int (length (lc_managed lc)) \<ge> lc_maxConnections lc then
        (False, rejectAcceptedConnection c (auditGlobalLimit lc))
      else
        (True, lc\<lparr> lc_managed := map_set c
            \<lparr> mg_lastActivityAt = now, mg_authenticated = False, mg_agentId = None,
              mg_helloTimeout = True, mg_terminationTimeout = False \<rparr> (lc_managed lc) \<rparr>))"

text \<open>
  \<open>ws\<close> completes the upgrade by calling back with a connection, now or later, or throws. The socket
  counts as pending until then, or until it closes.
\<close>

definition releasePending :: "nat \<Rightarrow> lifecycle \<Rightarrow> lifecycle" where
  "releasePending sock lc = lc\<lparr> lc_pendingUpgrades := removeAll sock (lc_pendingUpgrades lc) \<rparr>"

definition upgradeAccepted :: "nat \<Rightarrow> conn \<Rightarrow> int \<Rightarrow> lifecycle \<Rightarrow> lifecycle" where
  "upgradeAccepted sock c now lc = snd (attach c now (releasePending sock lc))"

definition upgradeFailed :: "nat \<Rightarrow> lifecycle \<Rightarrow> lifecycle" where
  "upgradeFailed sock lc = emit (DestroySocket sock) (releasePending sock lc)"

datatype upgrade_outcome = CallsBack conn int | CallsBackLater | Throws

definition lc_handleUpgrade :: "nat \<Rightarrow> bool \<Rightarrow> upgrade_outcome \<Rightarrow> lifecycle \<Rightarrow> lifecycle" where
  "lc_handleUpgrade sock destroyed outcome lc =
     (if lc_shuttingDown lc then rejectRawUpgrade sock destroyed False lc
      else if \<not> hasGlobalCapacity lc then rejectRawUpgrade sock destroyed True lc
      else let lc1 = lc\<lparr> lc_pendingUpgrades := List.insert sock (lc_pendingUpgrades lc) \<rparr>
        in case outcome of
             CallsBack c now \<Rightarrow> upgradeAccepted sock c now lc1
           | CallsBackLater \<Rightarrow> lc1
           | Throws \<Rightarrow> upgradeFailed sock lc1)"

definition closeConnection :: "conn \<Rightarrow> int \<Rightarrow> string \<Rightarrow> lifecycle \<Rightarrow> lifecycle" where
  "closeConnection c code reason lc =
     emit (CloseWs c code reason)
       (case map_get (lc_managed lc) c of
          None \<Rightarrow> lc
        | Some m \<Rightarrow> lc\<lparr> lc_managed := map_set c (m\<lparr> mg_terminationTimeout := True \<rparr>) (lc_managed lc) \<rparr>)"

definition reject_with :: "conn \<Rightarrow> remote_error_code \<Rightarrow> string \<Rightarrow> string \<Rightarrow> lifecycle \<Rightarrow> lifecycle" where
  "reject_with c code message reason lc =
     closeConnection c 1008 reason (emit (SendJson c (ErrorMessage code message)) lc)"

definition claims_of :: "lifecycle \<Rightarrow> string \<Rightarrow> conn list" where
  "claims_of lc agentId = (case map_get (lc_claims lc) agentId of None \<Rightarrow> [] | Some cs \<Rightarrow> cs)"

definition claim :: "conn \<Rightarrow> remote_agent \<Rightarrow> lifecycle \<Rightarrow> bool \<times> lifecycle" where
  "claim c agent lc =
     (case map_get (lc_managed lc) c of
        None \<Rightarrow> (True, lc)
      | Some m \<Rightarrow>
          if truthy (mg_agentId m) \<and> mg_agentId m \<noteq> Some (ra_id agent) then
            (False, reject_with c FORBIDDEN ''Connection is already bound to another agent'' ''agent binding mismatch'' lc)
          else let claims = claims_of lc (ra_id agent)
            in if c \<notin> set claims \<and> int (length claims) \<ge> lc_maxConnectionsPerAgent lc then
                 (False, reject_with c FORBIDDEN ''Agent connection limit reached'' ''agent connection limit reached''
                    (emit (Audit (audit_note (Some (ra_userId agent)) (Some (ra_id agent))
                            ''agent_connection_limit_rejected'' SevWarn)) lc))
               else
                 (True, lc\<lparr> lc_claims := map_set (ra_id agent) (if c \<in> set claims then claims else claims @ [c]) (lc_claims lc),
                           lc_managed := map_set c (m\<lparr> mg_agentId := Some (ra_id agent) \<rparr>) (lc_managed lc) \<rparr>))"

definition markAuthenticated :: "conn \<Rightarrow> string \<Rightarrow> lifecycle \<Rightarrow> lifecycle" where
  "markAuthenticated c agentId lc =
     (case map_get (lc_managed lc) c of
        None \<Rightarrow> lc
      | Some m \<Rightarrow> lc\<lparr> lc_managed := map_set c
            (m\<lparr> mg_authenticated := True, mg_agentId := Some agentId, mg_helloTimeout := False \<rparr>) (lc_managed lc) \<rparr>)"

definition isManaged :: "lifecycle \<Rightarrow> conn \<Rightarrow> bool" where
  "isManaged lc c = (map_get (lc_managed lc) c \<noteq> None)"

definition isAuthenticated :: "lifecycle \<Rightarrow> conn \<Rightarrow> bool" where
  "isAuthenticated lc c = (case map_get (lc_managed lc) c of None \<Rightarrow> False | Some m \<Rightarrow> mg_authenticated m)"

definition agentIdFor :: "lifecycle \<Rightarrow> conn \<Rightarrow> string option" where
  "agentIdFor lc c = (case map_get (lc_managed lc) c of None \<Rightarrow> None | Some m \<Rightarrow> mg_agentId m)"

definition known_agent :: "(string \<Rightarrow> remote_agent option) \<Rightarrow> string option \<Rightarrow> remote_agent option" where
  "known_agent lookup agentId = (if truthy agentId then lookup (the agentId) else None)"

definition heartbeat_one ::
    "(string \<Rightarrow> remote_agent option) \<Rightarrow> int \<Rightarrow> conn \<times> managed_connection \<Rightarrow> lifecycle \<Rightarrow> lifecycle" where
  "heartbeat_one lookup now entry lc =
     (if now - mg_lastActivityAt (snd entry) \<ge> patched (lcc_idleTimeoutMs (lc_config lc)) DEFAULT_AGENT_IDLE_TIMEOUT_MS then
        let agent = known_agent lookup (mg_agentId (snd entry))
        in closeConnection (fst entry) 1001 ''idle timeout''
             (emit (Audit (audit_note (map_option ra_userId agent) (map_option ra_id agent)
                      ''agent_connection_idle_timeout'' SevWarn)) lc)
      else emit (PingWs (fst entry)) lc)"

definition lc_runHeartbeat :: "(string \<Rightarrow> remote_agent option) \<Rightarrow> int \<Rightarrow> lifecycle \<Rightarrow> lifecycle" where
  "lc_runHeartbeat lookup now lc =
     (if lc_shuttingDown lc then lc else fold (heartbeat_one lookup now) (lc_managed lc) lc)"

definition lc_close :: "lifecycle \<Rightarrow> lifecycle" where
  "lc_close lc =
     (if lc_shuttingDown lc then lc
      else lc\<lparr> lc_shuttingDown := True, lc_pendingUpgrades := [], lc_managed := [], lc_claims := [],
               lc_effects := lc_effects lc @ map DestroySocket (lc_pendingUpgrades lc) @
                 map (\<lambda>e. TerminateWs (fst e)) (lc_managed lc) \<rparr>)"

definition openConnectionCount :: "lifecycle \<Rightarrow> nat" where
  "openConnectionCount lc = length (lc_managed lc)"

definition unauthenticatedConnectionCount :: "lifecycle \<Rightarrow> nat" where
  "unauthenticatedConnectionCount lc = length (filter (\<lambda>e. \<not> mg_authenticated (snd e)) (lc_managed lc))"

definition recordActivity :: "conn \<Rightarrow> int \<Rightarrow> lifecycle \<Rightarrow> lifecycle" where
  "recordActivity c now lc =
     (case map_get (lc_managed lc) c of
        None \<Rightarrow> lc
      | Some m \<Rightarrow> lc\<lparr> lc_managed := map_set c (m\<lparr> mg_lastActivityAt := now \<rparr>) (lc_managed lc) \<rparr>)"

text \<open>
  \<open>receiveMessage\<close> refreshes the activity and hands the message on, unless the connection is not
  managed; \<open>messageFailed\<close> is its \<open>catch\<close>.
\<close>

definition receiveMessage :: "conn \<Rightarrow> int \<Rightarrow> lifecycle \<Rightarrow> bool \<times> lifecycle" where
  "receiveMessage c now lc = (isManaged lc c, recordActivity c now lc)"

definition messageFailed :: "conn \<Rightarrow> lifecycle \<Rightarrow> lifecycle" where
  "messageFailed c lc = reject_with c INTERNAL_ERROR ''Agent message failed'' ''invalid agent message'' lc"

definition handleHelloTimeout :: "(string \<Rightarrow> remote_agent option) \<Rightarrow> conn \<Rightarrow> lifecycle \<Rightarrow> lifecycle" where
  "handleHelloTimeout lookup c lc =
     (case map_get (lc_managed lc) c of
        None \<Rightarrow> lc
      | Some m \<Rightarrow>
          if mg_authenticated m then lc
          else let agent = known_agent lookup (mg_agentId m)
            in reject_with c AGENT_TIMEOUT ''Agent hello deadline exceeded'' ''agent hello deadline exceeded''
                 (emit (Audit (audit_note (map_option ra_userId agent) (map_option ra_id agent)
                          ''agent_hello_timeout'' SevWarn)) lc))"

text \<open>When the grace period after a close is over the socket is terminated.\<close>

definition terminationTimeout :: "conn \<Rightarrow> lifecycle \<Rightarrow> lifecycle" where
  "terminationTimeout c lc = emit (TerminateWs c) lc"

definition releaseAgentClaim :: "string option \<Rightarrow> conn \<Rightarrow> lifecycle \<Rightarrow> lifecycle" where
  "releaseAgentClaim agentId c lc =
     (if \<not> truthy agentId then lc
      else case map_get (lc_claims lc) (the agentId) of
        None \<Rightarrow> lc
      | Some cs \<Rightarrow>
          let cs' = removeAll c cs
          in lc\<lparr> lc_claims := (if cs' = [] then map_delete (the agentId) (lc_claims lc)
                             else map_set (the agentId) cs' (lc_claims lc)) \<rparr>)"

text \<open>
  \<open>handleClose\<close> calls back into the owner for an authenticated connection. The owner's state is
  \<open>'h\<close>; its callback says whether it reported the close itself.
\<close>

definition lc_handleClose ::
    "(string \<Rightarrow> lifecycle \<times> 'h \<Rightarrow> bool \<times> lifecycle \<times> 'h) \<Rightarrow> conn \<Rightarrow> int \<Rightarrow> lifecycle \<times> 'h \<Rightarrow> lifecycle \<times> 'h" where
  "lc_handleClose onAuthenticatedClose c code st =
     (case map_get (lc_managed (fst st)) c of
        None \<Rightarrow> st
      | Some m \<Rightarrow>
          let lc1 = releaseAgentClaim (mg_agentId m) c ((fst st)\<lparr> lc_managed := map_delete c (lc_managed (fst st)) \<rparr>)
          in if lc_shuttingDown lc1 then (lc1, snd st)
             else let (reported, lc2, h2) =
                    (if mg_authenticated m \<and> truthy (mg_agentId m)
                     then onAuthenticatedClose (the (mg_agentId m)) (lc1, snd st) else (False, lc1, snd st))
               in if reported then (lc2, h2)
                  else (emit (Audit (audit_note None (mg_agentId m) ''agent_connection_closed''
                               (if code = 1000 then SevInfo else SevWarn))) lc2, h2))"

end
