(* ===== verification/Auth.thy ===== *)
theory Auth
  imports SessionAuth Json
begin

section \<open>Bearer tokens and OAuth claims: \<open>src/auth.ts\<close>, \<open>src/oauth.ts\<close>\<close>

text \<open>
  The authorization header of a request is compared with a configured token, or its JSON web token is
  verified by \<open>jose\<close> and its claims are checked. The digest and \<open>jwtVerify\<close> are arguments. A token set
  is fetched and cached by \<open>jose\<close>; the model looks only at what verification returns.
\<close>

subsection \<open>\<open>src/auth.ts\<close>\<close>

text \<open>\<open>timingSafeEqual\<close> of two digests of the same length is their equality.\<close>

definition constantTimeTokenEquals :: "(string \<Rightarrow> string) \<Rightarrow> string \<Rightarrow> string \<Rightarrow> bool" where
  "constantTimeTokenEquals sha256 provided expected =
     (if length expected = 0 then False else sha256 provided = sha256 expected)"

definition extractBearerToken :: "string option \<Rightarrow> string option" where
  "extractBearerToken authorization =
     (case authorization of
        None \<Rightarrow> None
      | Some header \<Rightarrow>
          (case split_on (\<lambda>c. c = CHR '' '') header of
             [scheme, token] \<Rightarrow> if scheme \<noteq> ''Bearer'' \<or> token = [] then None else Some token
           | _ \<Rightarrow> None))"

definition isBearerAuthorizationValid :: "(string \<Rightarrow> string) \<Rightarrow> string option \<Rightarrow> string \<Rightarrow> bool" where
  "isBearerAuthorizationValid sha256 authorization expectedToken =
     (case extractBearerToken authorization of
        None \<Rightarrow> False
      | Some providedToken \<Rightarrow> constantTimeTokenEquals sha256 providedToken expectedToken)"

subsection \<open>\<open>src/oauth.ts\<close>\<close>

record oauth_config =
  ov_issuer :: "string option"
  ov_audience :: "string option"
  ov_jwksUrl :: "string option"
  ov_requiredScopes :: "string list"
  ov_allowedAlgorithms :: "string list option"

record jwt_header =
  jh_kid :: "string option"
  jh_alg :: "string option"

definition DEFAULT_ALLOWED_ALGORITHMS :: "string list" where
  "DEFAULT_ALLOWED_ALGORITHMS = [''RS256'']"

definition audienceMatches :: "json option \<Rightarrow> string \<Rightarrow> bool" where
  "audienceMatches audience expected =
     (case audience of
        Some (JStr s) \<Rightarrow> s = expected
      | Some (JArr items) \<Rightarrow> JStr expected \<in> set items
      | _ \<Rightarrow> False)"

text \<open>\<open>s.split(/\\s+/).filter(Boolean)\<close>.\<close>

definition words_of :: "string \<Rightarrow> string list" where
  "words_of s = filter (\<lambda>w. w \<noteq> []) (split_ws False [] s)"

definition extractScopes :: "(string \<times> json) list \<Rightarrow> string list" where
  "extractScopes payload =
     (case map_of payload ''scope'' of Some (JStr s) \<Rightarrow> words_of s | _ \<Rightarrow> []) @
     (case map_of payload ''scp'' of
        Some (JStr s) \<Rightarrow> words_of s
      | Some (JArr items) \<Rightarrow> List.map_filter (\<lambda>v. case v of JStr s \<Rightarrow> Some s | _ \<Rightarrow> None) items
      | _ \<Rightarrow> [])"

definition validateClaims :: "(string \<times> json) list \<Rightarrow> oauth_config \<Rightarrow> string + unit" where
  "validateClaims payload config =
     (if map_of payload ''iss'' \<noteq> map_option JStr (ov_issuer config) then Inl ''JWT issuer mismatch''
      else if \<not> audienceMatches (map_of payload ''aud'') (case ov_audience config of None \<Rightarrow> [] | Some a \<Rightarrow> a)
      then Inl ''JWT audience mismatch''
      else if list_ex (\<lambda>required. required \<notin> set (extractScopes payload)) (ov_requiredScopes config)
      then Inl ''JWT required scope is missing''
      else Inr ())"

text \<open>
  \<open>jwt_verify token jwksUrl issuer audience algorithms\<close> is \<open>jwtVerify\<close> with the key set of the URL:
  the payload and the protected header, or the error.
\<close>

definition verifyOAuthAuthorization ::
    "(string \<Rightarrow> string \<Rightarrow> string \<Rightarrow> string \<Rightarrow> string list \<Rightarrow> string + (string \<times> json) list \<times> jwt_header) \<Rightarrow>
     string option \<Rightarrow> oauth_config \<Rightarrow> string + (string \<times> json) list" where
  "verifyOAuthAuthorization jwt_verify authorization config =
     (if \<not> truthy (ov_issuer config) \<or> \<not> truthy (ov_audience config) \<or> \<not> truthy (ov_jwksUrl config)
      then Inl ''OAuth issuer, audience, and JWKS URL are required''
      else case extractBearerToken authorization of
        None \<Rightarrow> Inl ''Missing bearer token''
      | Some token \<Rightarrow>
          let algorithms = (case ov_allowedAlgorithms config of None \<Rightarrow> DEFAULT_ALLOWED_ALGORITHMS | Some a \<Rightarrow> a)
          in bind_res
               (jwt_verify token (the (ov_jwksUrl config)) (the (ov_issuer config)) (the (ov_audience config)) algorithms)
               (\<lambda>(payload, header).
                  if \<not> truthy (jh_kid header) then Inl ''JWT kid is required''
                  else if \<not> truthy (jh_alg header) \<or> the (jh_alg header) \<notin> set algorithms
                  then Inl ''Unsupported JWT algorithm''
                  else bind_res (validateClaims payload config) (\<lambda>_. Inr payload)))"

definition isOAuthAuthorizationValid ::
    "(string \<Rightarrow> string \<Rightarrow> string \<Rightarrow> string \<Rightarrow> string list \<Rightarrow> string + (string \<times> json) list \<times> jwt_header) \<Rightarrow>
     string option \<Rightarrow> oauth_config \<Rightarrow> bool" where
  "isOAuthAuthorizationValid jwt_verify authorization config =
     (case verifyOAuthAuthorization jwt_verify authorization config of Inl _ \<Rightarrow> False | Inr _ \<Rightarrow> True)"

subsection \<open>Properties\<close>

lemma extractBearerToken_iff:
  "extractBearerToken (Some header) = Some token \<longleftrightarrow>
     header = ''Bearer '' @ token \<and> token \<noteq> [] \<and> CHR '' '' \<notin> set token"
proof
  assume "extractBearerToken (Some header) = Some token"
  then have s: "split_on (\<lambda>c. c = CHR '' '') header = [''Bearer'', token]" and t: "token \<noteq> []"
    by (auto simp: extractBearerToken_def split: list.splits if_splits)
  have "join '' '' (split_on (\<lambda>c. c = CHR '' '') header) = header" by (rule join_split_on)
  moreover have "CHR '' '' \<notin> set token"
    using split_on_parts [of token "\<lambda>c. c = CHR '' ''" header] s by auto
  ultimately show "header = ''Bearer '' @ token \<and> token \<noteq> [] \<and> CHR '' '' \<notin> set token" using s t by simp
next
  assume h: "header = ''Bearer '' @ token \<and> token \<noteq> [] \<and> CHR '' '' \<notin> set token"
  then have "split_on (\<lambda>c. c = CHR '' '') token = [token]" by (intro split_on_no_sep) auto
  with h show "extractBearerToken (Some header) = Some token" by (simp add: extractBearerToken_def)
qed

text \<open>
  With a digest that does not collide on the two tokens, a request is authorised by the bearer token
  exactly when a token is configured and the header is the word \<open>Bearer\<close>, one space and that token;
  a token with a space in it or no token at all admits nobody.
\<close>

theorem bearer_token_exact:
  assumes "inj sha256"
  shows "isBearerAuthorizationValid sha256 authorization expected \<longleftrightarrow>
     expected \<noteq> [] \<and> CHR '' '' \<notin> set expected \<and> authorization = Some (''Bearer '' @ expected)"
proof (cases "extractBearerToken authorization")
  case None
  have "authorization \<noteq> Some (''Bearer '' @ expected)" if "expected \<noteq> []" "CHR '' '' \<notin> set expected"
    using None that extractBearerToken_iff [of "''Bearer '' @ expected" expected] by auto
  with None show ?thesis by (auto simp: isBearerAuthorizationValid_def)
next
  case (Some token)
  then obtain header where a: "authorization = Some header" by (cases authorization) (auto simp: extractBearerToken_def)
  with Some have h: "header = ''Bearer '' @ token" "token \<noteq> []" "CHR '' '' \<notin> set token"
    by (simp_all add: extractBearerToken_iff)
  with Some a assms show ?thesis
    by (auto simp: isBearerAuthorizationValid_def constantTimeTokenEquals_def inj_eq)
qed

theorem bearer_token_exact_witness:
  "isBearerAuthorizationValid id (Some ''Bearer s3cret'') ''s3cret'' \<and> \<not> isBearerAuthorizationValid id (Some ''Bearer '') []"
  using bearer_token_exact [of id "Some ''Bearer s3cret''" "''s3cret''"] bearer_token_exact [of id "Some ''Bearer ''" "[]"]
  by simp

lemma validateClaims_ok:
  "ov_issuer config = Some issuer \<Longrightarrow> ov_audience config = Some audience \<Longrightarrow>
   validateClaims payload config = Inr u \<longleftrightarrow>
     map_of payload ''iss'' = Some (JStr issuer) \<and>
     (map_of payload ''aud'' = Some (JStr audience) \<or>
        (\<exists>items. map_of payload ''aud'' = Some (JArr items) \<and> JStr audience \<in> set items)) \<and>
     set (ov_requiredScopes config) \<subseteq> set (extractScopes payload)"
  by (auto simp: validateClaims_def audienceMatches_def list_ex_iff split: option.splits json.splits)

text \<open>
  An OAuth request is accepted exactly when the issuer, audience and key set are configured, the
  header carries a token that \<open>jwtVerify\<close> accepts for them, its header names a key and an allowed
  algorithm, its issuer and audience claims are the configured ones, and every required scope is
  among its \<open>scope\<close> and \<open>scp\<close> claims.
\<close>

theorem oauth_valid_iff:
  "isOAuthAuthorizationValid jwt_verify authorization config \<longleftrightarrow>
     (\<exists>issuer audience url token payload header algorithms kid alg.
        ov_issuer config = Some issuer \<and> issuer \<noteq> [] \<and> ov_audience config = Some audience \<and> audience \<noteq> [] \<and>
        ov_jwksUrl config = Some url \<and> url \<noteq> [] \<and> extractBearerToken authorization = Some token \<and>
        algorithms = (case ov_allowedAlgorithms config of None \<Rightarrow> [''RS256''] | Some a \<Rightarrow> a) \<and>
        jwt_verify token url issuer audience algorithms = Inr (payload, header) \<and>
        jh_kid header = Some kid \<and> kid \<noteq> [] \<and> jh_alg header = Some alg \<and> alg \<noteq> [] \<and> alg \<in> set algorithms \<and>
        map_of payload ''iss'' = Some (JStr issuer) \<and>
        (map_of payload ''aud'' = Some (JStr audience) \<or>
           (\<exists>items. map_of payload ''aud'' = Some (JArr items) \<and> JStr audience \<in> set items)) \<and>
        set (ov_requiredScopes config) \<subseteq> set (extractScopes payload))"
  (is "?l \<longleftrightarrow> ?r")
proof
  assume ?l
  then show ?r
    unfolding isOAuthAuthorizationValid_def verifyOAuthAuthorization_def DEFAULT_ALLOWED_ALGORITHMS_def
    by (auto simp: bind_res_Inr truthy_Some validateClaims_ok Let_def
        split: sum.splits option.splits if_splits prod.splits)
next
  assume ?r
  then show ?l
    unfolding isOAuthAuthorizationValid_def verifyOAuthAuthorization_def DEFAULT_ALLOWED_ALGORITHMS_def
    by (elim exE conjE) (simp add: validateClaims_ok [where u = "()", THEN iffD2] Let_def)
qed

end
