(* ===== verification/Envelopes.thy ===== *)
theory Envelopes
  imports AgentLifecycle Auth "HOL-Library.Monad_Syntax"
begin

section \<open>Signed messages: \<open>src/remote/schemas.ts\<close>, \<open>src/remote/crypto.ts\<close>\<close>

text \<open>
  Messages are JSON objects that \<open>zod\<close> schemas check and turn into records; they are signed over
  their canonical text without the field \<open>signature\<close>. The functions of Node's \<open>crypto\<close> and of
  \<open>jose\<close> and the date syntax of \<open>zod\<close> are arguments. A strict object has no other keys than those of
  its schema.
\<close>

subsection \<open>Names\<close>

fun capability_name :: "remote_capability \<Rightarrow> string" where
  "capability_name HostsRead = ''hosts.read''"
| "capability_name AgentsRead = ''agents.read''"
| "capability_name AgentsAdmin = ''agents.admin''"
| "capability_name SystemRead = ''system.read''"
| "capability_name LogsRead = ''logs.read''"
| "capability_name ServiceManage = ''service.manage''"
| "capability_name DockerManage = ''docker.manage''"
| "capability_name FilesRead = ''files.read''"
| "capability_name FilesWrite = ''files.write''"
| "capability_name ShellExec = ''shell.exec''"
| "capability_name SudoExec = ''sudo.exec''"
| "capability_name AgentAdmin = ''agent.admin''"
| "capability_name AuditRead = ''audit.read''"

definition REMOTE_TOOLS :: "(string \<times> remote_tool) list" where
  "REMOTE_TOOLS =
     [(''list_hosts'', ListHosts), (''list_agents'', ListAgents), (''create_enrollment_token'', CreateEnrollmentToken),
      (''get_agent_install_command'', GetAgentInstallCommand), (''get_system_status'', GetSystemStatus),
      (''tail_logs'', TailLogs), (''restart_service'', RestartService), (''docker_ps'', DockerPs),
      (''docker_logs'', DockerLogs), (''docker_restart'', DockerRestart), (''file_read'', FileRead),
      (''file_write'', FileWrite), (''run_shell'', RunShell), (''run_shell_as_root'', RunShellAsRoot),
      (''update_agent_policy'', UpdateAgentPolicy), (''revoke_agent'', RevokeAgent),
      (''get_audit_events'', GetAuditEvents)]"

definition REMOTE_ERROR_CODES :: "(string \<times> remote_error_code) list" where
  "REMOTE_ERROR_CODES =
     [(''UNAUTHORIZED'', UNAUTHORIZED), (''FORBIDDEN'', FORBIDDEN), (''INVALID_TOKEN'', INVALID_TOKEN),
      (''INVALID_SCOPE'', INVALID_SCOPE), (''INVALID_CLIENT'', INVALID_CLIENT),
      (''INVALID_REDIRECT_URI'', INVALID_REDIRECT_URI), (''PKCE_VALIDATION_FAILED'', PKCE_VALIDATION_FAILED),
      (''AGENT_NOT_FOUND'', AGENT_NOT_FOUND), (''AGENT_OFFLINE'', AGENT_OFFLINE), (''AGENT_REVOKED'', AGENT_REVOKED),
      (''AGENT_TIMEOUT'', AGENT_TIMEOUT), (''POLICY_DENIED'', POLICY_DENIED), (''CAPABILITY_DENIED'', CAPABILITY_DENIED),
      (''ACTION_EXPIRED'', ACTION_EXPIRED), (''ACTION_REPLAY_DETECTED'', ACTION_REPLAY_DETECTED),
      (''SIGNATURE_INVALID'', SIGNATURE_INVALID), (''COMMAND_TIMEOUT'', COMMAND_TIMEOUT),
      (''OUTPUT_TRUNCATED'', OUTPUT_TRUNCATED), (''UNSUPPORTED_PLATFORM'', UNSUPPORTED_PLATFORM),
      (''UNSUPPORTED_PLATFORM_OR_PRIVILEGE'', UNSUPPORTED_PLATFORM_OR_PRIVILEGE), (''INTERNAL_ERROR'', INTERNAL_ERROR)]"

definition PROFILES :: "(string \<times> agent_profile) list" where
  "PROFILES = [(''read-only'', ReadOnly), (''operations'', Operations), (''full-admin'', FullAdmin), (''custom'', Custom)]"

definition profile_name :: "agent_profile \<Rightarrow> string" where
  "profile_name p = (case find (\<lambda>e. snd e = p) PROFILES of Some e \<Rightarrow> fst e | None \<Rightarrow> [])"

definition capability_of :: "string \<Rightarrow> remote_capability option" where
  "capability_of s = find (\<lambda>c. capability_name c = s) REMOTE_CAPABILITIES"

subsection \<open>Schemas\<close>

type_synonym entries = "(string \<times> json) list"

definition isRecord :: "json \<Rightarrow> entries option" where
  "isRecord v = (case v of JObj es \<Rightarrow> Some es | _ \<Rightarrow> None)"

definition asString :: "json option \<Rightarrow> string option" where
  "asString v = (case v of Some (JStr s) \<Rightarrow> Some s | _ \<Rightarrow> None)"

definition z_string :: "nat \<Rightarrow> nat option \<Rightarrow> json \<Rightarrow> string option" where
  "z_string lo hi v =
     (case v of
        JStr s \<Rightarrow> if length s < lo then None
                  else (case hi of Some h \<Rightarrow> if h < length s then None else Some s | None \<Rightarrow> Some s)
      | _ \<Rightarrow> None)"

definition z_bool :: "json \<Rightarrow> bool option" where
  "z_bool v = (case v of JBool b \<Rightarrow> Some b | _ \<Rightarrow> None)"

definition z_int :: "json \<Rightarrow> int option" where
  "z_int v = (case v of JNum i \<Rightarrow> Some i | _ \<Rightarrow> None)"

definition z_positive :: "int option \<Rightarrow> json \<Rightarrow> int option" where
  "z_positive hi v =
     (case v of JNum i \<Rightarrow> if i \<le> 0 then None
                else (case hi of Some h \<Rightarrow> if h < i then None else Some i | None \<Rightarrow> Some i)
      | _ \<Rightarrow> None)"

definition z_enum :: "(string \<times> 'a) list \<Rightarrow> json \<Rightarrow> 'a option" where
  "z_enum names v = (case v of JStr s \<Rightarrow> map_of names s | _ \<Rightarrow> None)"

fun z_list :: "(json \<Rightarrow> 'a option) \<Rightarrow> json list \<Rightarrow> 'a list option" where
  "z_list f [] = Some []"
| "z_list f (v # vs) = (case f v of None \<Rightarrow> None | Some x \<Rightarrow> map_option (\<lambda>xs. x # xs) (z_list f vs))"

definition z_array :: "(json \<Rightarrow> 'a option) \<Rightarrow> json \<Rightarrow> 'a list option" where
  "z_array f v = (case v of JArr vs \<Rightarrow> z_list f vs | _ \<Rightarrow> None)"

definition z_strict :: "string list \<Rightarrow> json \<Rightarrow> entries option" where
  "z_strict keys v =
     (case v of JObj es \<Rightarrow> if set (map fst es) \<subseteq> set keys then Some es else None | _ \<Rightarrow> None)"

definition z_field :: "entries \<Rightarrow> string \<Rightarrow> (json \<Rightarrow> 'a option) \<Rightarrow> 'a option" where
  "z_field es k f = (case map_of es k of None \<Rightarrow> None | Some v \<Rightarrow> f v)"

definition z_optional :: "entries \<Rightarrow> string \<Rightarrow> (json \<Rightarrow> 'a option) \<Rightarrow> 'a option option" where
  "z_optional es k f = (case map_of es k of None \<Rightarrow> Some None | Some v \<Rightarrow> map_option Some (f v))"

definition z_literal :: "string \<Rightarrow> json \<Rightarrow> unit option" where
  "z_literal s v = (if v = JStr s then Some () else None)"

definition z_datetime :: "(string \<Rightarrow> bool) \<Rightarrow> json \<Rightarrow> string option" where
  "z_datetime is_iso v = (case v of JStr s \<Rightarrow> if is_iso s then Some s else None | _ \<Rightarrow> None)"

definition parseAgentHostMetadata :: "json \<Rightarrow> agent_host_metadata option" where
  "parseAgentHostMetadata v = do {
     es \<leftarrow> z_strict [''hostname'', ''os'', ''arch'', ''platform''] v;
     hostname \<leftarrow> z_field es ''hostname'' (z_string 1 (Some 255));
     os \<leftarrow> z_field es ''os'' (z_string 1 (Some 128));
     arch \<leftarrow> z_field es ''arch'' (z_string 1 (Some 64));
     platform \<leftarrow> z_field es ''platform'' (z_string 1 (Some 128));
     Some \<lparr> hm_hostname = hostname, hm_os = os, hm_arch = arch, hm_platform = platform \<rparr>
   }"

definition capabilityPolicySchema :: "json \<Rightarrow> (remote_capability \<Rightarrow> bool) option" where
  "capabilityPolicySchema v = do {
     es \<leftarrow> z_strict (map capability_name REMOTE_CAPABILITIES) v;
     (if list_all (\<lambda>c. z_field es (capability_name c) z_bool \<noteq> None) REMOTE_CAPABILITIES
      then Some (\<lambda>c. z_field es (capability_name c) z_bool = Some True) else None)
   }"

definition parseAgentPolicy :: "json \<Rightarrow> agent_policy option" where
  "parseAgentPolicy v = do {
     es \<leftarrow> z_strict [''profile'', ''capabilities'', ''allowPaths'', ''denyPaths'', ''allowServices'', ''allowContainers'',
                     ''maxOutputBytes'', ''maxActionTimeoutSeconds'', ''version''] v;
     profile \<leftarrow> z_field es ''profile'' (z_enum PROFILES);
     capabilities \<leftarrow> z_field es ''capabilities'' capabilityPolicySchema;
     allowPaths \<leftarrow> z_field es ''allowPaths'' (z_array (z_string 0 None));
     denyPaths \<leftarrow> z_field es ''denyPaths'' (z_array (z_string 0 None));
     allowServices \<leftarrow> z_field es ''allowServices'' (z_array (z_string 0 None));
     allowContainers \<leftarrow> z_field es ''allowContainers'' (z_array (z_string 0 None));
     maxOutputBytes \<leftarrow> z_field es ''maxOutputBytes'' (z_positive (Some 10000000));
     maxActionTimeoutSeconds \<leftarrow> z_field es ''maxActionTimeoutSeconds'' (z_positive (Some 3600));
     version \<leftarrow> z_field es ''version'' (z_positive None);
     Some \<lparr> ap_profile = profile, ap_capabilities = capabilities, ap_allowPaths = allowPaths, ap_denyPaths = denyPaths,
            ap_allowServices = allowServices, ap_allowContainers = allowContainers, ap_maxOutputBytes = maxOutputBytes,
            ap_maxActionTimeoutSeconds = maxActionTimeoutSeconds, ap_version = version \<rparr>
   }"

record agent_hello =
  he_agent_id :: string
  he_timestamp :: string
  he_nonce :: string
  he_capabilities :: "remote_capability list"
  he_agent_version :: string
  he_host :: agent_host_metadata

definition parseAgentHelloEnvelope :: "(string \<Rightarrow> bool) \<Rightarrow> json \<Rightarrow> agent_hello option" where
  "parseAgentHelloEnvelope is_iso v = do {
     es \<leftarrow> z_strict [''type'', ''agent_id'', ''timestamp'', ''nonce'', ''capabilities'', ''agent_version'', ''host'',
                     ''signature''] v;
     z_field es ''type'' (z_literal ''agent.hello'');
     agent_id \<leftarrow> z_field es ''agent_id'' (z_string 1 None);
     timestamp \<leftarrow> z_field es ''timestamp'' (z_datetime is_iso);
     nonce \<leftarrow> z_field es ''nonce'' (z_string 16 None);
     capabilities \<leftarrow> z_field es ''capabilities'' (z_array (z_enum (map (\<lambda>c. (capability_name c, c)) REMOTE_CAPABILITIES)));
     agent_version \<leftarrow> z_field es ''agent_version'' (z_string 1 (Some 128));
     host \<leftarrow> z_field es ''host'' parseAgentHostMetadata;
     z_field es ''signature'' (z_string 1 None);
     Some \<lparr> he_agent_id = agent_id, he_timestamp = timestamp, he_nonce = nonce, he_capabilities = capabilities,
            he_agent_version = agent_version, he_host = host \<rparr>
   }"

record action_result =
  rt_action_id :: string
  rt_agent_id :: string
  rt_nonce :: string
  rt_ok :: bool
  rt_exit_code :: "int option"
  rt_stdout :: "string option"
  rt_stderr :: "string option"
  rt_truncated :: bool
  rt_error_code :: "remote_error_code option"
  rt_message :: "string option"

definition parseActionResultEnvelope :: "(string \<Rightarrow> bool) \<Rightarrow> json \<Rightarrow> action_result option" where
  "parseActionResultEnvelope is_iso v = do {
     es \<leftarrow> z_strict [''type'', ''action_id'', ''agent_id'', ''nonce'', ''status'', ''exit_code'', ''stdout'', ''stderr'',
                     ''started_at'', ''finished_at'', ''truncated'', ''error_code'', ''message'', ''signature''] v;
     z_field es ''type'' (z_literal ''action.result'');
     action_id \<leftarrow> z_field es ''action_id'' (z_string 1 None);
     agent_id \<leftarrow> z_field es ''agent_id'' (z_string 1 None);
     nonce \<leftarrow> z_field es ''nonce'' (z_string 16 None);
     status \<leftarrow> z_field es ''status'' (z_enum [(''ok'', True), (''error'', False)]);
     exit_code \<leftarrow> z_optional es ''exit_code'' z_int;
     stdout \<leftarrow> z_optional es ''stdout'' (z_string 0 None);
     stderr \<leftarrow> z_optional es ''stderr'' (z_string 0 None);
     z_field es ''started_at'' (z_datetime is_iso);
     z_field es ''finished_at'' (z_datetime is_iso);
     truncated \<leftarrow> z_field es ''truncated'' z_bool;
     error_code \<leftarrow> z_optional es ''error_code'' (z_enum REMOTE_ERROR_CODES);
     message \<leftarrow> z_optional es ''message'' (z_string 0 None);
     z_field es ''signature'' (z_string 1 None);
     Some \<lparr> rt_action_id = action_id, rt_agent_id = agent_id, rt_nonce = nonce, rt_ok = status, rt_exit_code = exit_code,
            rt_stdout = stdout, rt_stderr = stderr, rt_truncated = truncated, rt_error_code = error_code,
            rt_message = message \<rparr>
   }"

text \<open>Dates of messages to the agent are read as milliseconds, as the guards that use them do.\<close>

definition parsePolicyUpdateEnvelope :: "(string \<Rightarrow> bool) \<Rightarrow> (string \<Rightarrow> int option) \<Rightarrow> json \<Rightarrow> policy_update option" where
  "parsePolicyUpdateEnvelope is_iso date_ms v = do {
     es \<leftarrow> z_strict [''type'', ''agent_id'', ''policy'', ''policy_version'', ''issued_at'', ''nonce'', ''signature''] v;
     z_field es ''type'' (z_literal ''policy.update'');
     agent_id \<leftarrow> z_field es ''agent_id'' (z_string 1 None);
     policy \<leftarrow> z_field es ''policy'' parseAgentPolicy;
     policy_version \<leftarrow> z_field es ''policy_version'' (z_positive None);
     issued_at \<leftarrow> z_field es ''issued_at'' (z_datetime is_iso);
     nonce \<leftarrow> z_field es ''nonce'' (z_string 16 None);
     z_field es ''signature'' (z_string 1 None);
     Some \<lparr> pu_agent_id = agent_id, pu_policy = policy, pu_policy_version = policy_version,
            pu_issued_at = date_ms issued_at, pu_nonce = nonce \<rparr>
   }"

definition parseActionRequestEnvelope :: "(string \<Rightarrow> bool) \<Rightarrow> (string \<Rightarrow> int option) \<Rightarrow> json \<Rightarrow> action_request option" where
  "parseActionRequestEnvelope is_iso date_ms v = do {
     es \<leftarrow> z_strict [''type'', ''action_id'', ''agent_id'', ''user_id'', ''tool'', ''capability'', ''args'',
                     ''policy_version'', ''issued_at'', ''deadline'', ''nonce'', ''signature''] v;
     z_field es ''type'' (z_literal ''action.request'');
     action_id \<leftarrow> z_field es ''action_id'' (z_string 1 None);
     agent_id \<leftarrow> z_field es ''agent_id'' (z_string 1 None);
     user_id \<leftarrow> z_field es ''user_id'' (z_string 1 None);
     tool \<leftarrow> z_field es ''tool'' (z_enum REMOTE_TOOLS);
     capability \<leftarrow> z_field es ''capability'' (z_enum (map (\<lambda>c. (capability_name c, c)) REMOTE_CAPABILITIES));
     args \<leftarrow> z_field es ''args'' isRecord;
     policy_version \<leftarrow> z_field es ''policy_version'' (z_positive None);
     issued_at \<leftarrow> z_field es ''issued_at'' (z_datetime is_iso);
     deadline \<leftarrow> z_field es ''deadline'' (z_datetime is_iso);
     nonce \<leftarrow> z_field es ''nonce'' (z_string 16 None);
     z_field es ''signature'' (z_string 1 None);
     issued \<leftarrow> date_ms issued_at;
     due \<leftarrow> date_ms deadline;
     Some \<lparr> rq_action_id = action_id, rq_agent_id = agent_id, rq_user_id = user_id, rq_tool = tool,
            rq_capability = capability, rq_args = args, rq_policy_version = policy_version, rq_issued_at = issued,
            rq_deadline = due, rq_nonce = nonce \<rparr>
   }"

datatype control_envelope = ActionRequest action_request | PolicyUpdate policy_update

definition parseControlPlaneEnvelope :: "(string \<Rightarrow> bool) \<Rightarrow> (string \<Rightarrow> int option) \<Rightarrow> json \<Rightarrow> control_envelope option" where
  "parseControlPlaneEnvelope is_iso date_ms v =
     (case isRecord v of
        None \<Rightarrow> None
      | Some es \<Rightarrow>
          if map_of es ''type'' = Some (JStr ''action.request'')
          then map_option ActionRequest (parseActionRequestEnvelope is_iso date_ms v)
          else if map_of es ''type'' = Some (JStr ''policy.update'')
          then map_option PolicyUpdate (parsePolicyUpdateEnvelope is_iso date_ms v)
          else None)"

subsection \<open>Signatures and secrets\<close>

definition without_signature :: "entries \<Rightarrow> entries" where
  "without_signature es = filter (\<lambda>e. fst e \<noteq> ''signature'') es"

definition signEnvelope :: "(string \<Rightarrow> string \<Rightarrow> string) \<Rightarrow> entries \<Rightarrow> string \<Rightarrow> string" where
  "signEnvelope node_sign envelope privateKey = node_sign (canonicalJson (JObj (without_signature envelope))) privateKey"

definition verifyEnvelope :: "(string \<Rightarrow> string \<Rightarrow> string \<Rightarrow> bool) \<Rightarrow> entries \<Rightarrow> string \<Rightarrow> bool" where
  "verifyEnvelope node_verify envelope publicKey =
     (case map_of envelope ''signature'' of
        Some (JStr signature) \<Rightarrow>
          if signature = [] then False
          else node_verify (canonicalJson (JObj (without_signature envelope))) publicKey signature
      | _ \<Rightarrow> False)"

definition hashSecret :: "(string \<Rightarrow> string) \<Rightarrow> string \<Rightarrow> string" where
  "hashSecret sha256Base64Url v = sha256Base64Url v"

definition safeSecretEqual :: "(string \<Rightarrow> string) \<Rightarrow> string \<Rightarrow> string \<Rightarrow> bool" where
  "safeSecretEqual sha256Base64Url provided expectedHash =
     (let providedHash = hashSecret sha256Base64Url provided
      in if length providedHash \<noteq> length expectedHash then False else providedHash = expectedHash)"

definition keyId :: "(string \<Rightarrow> string) \<Rightarrow> string \<Rightarrow> string" where
  "keyId sha256Base64Url publicKeyPem = take 24 (sha256Base64Url publicKeyPem)"

definition pkceChallenge :: "(string \<Rightarrow> string) \<Rightarrow> string \<Rightarrow> string" where
  "pkceChallenge sha256Base64Url verifier = sha256Base64Url verifier"

end
