(* ===== verification/AgentHandler.thy ===== *)
theory AgentHandler
  imports Envelopes
begin

section \<open>Messages of agents: \<open>src/remote/agent-handler.ts\<close>\<close>

text \<open>
  The handler authenticates agents by a signed hello, keeps one live connection per agent, and settles
  the promises of the actions in flight from signed results. Its state is the lifecycle manager and
  the maps it shares with the control plane; a settled promise is an entry of \<open>ah_settled\<close>. A message is
  what \<open>JSON.parse\<close> made of its text, \<open>None\<close> when that threw; a schema that rejects it throws too,
  and a throw ends in the lifecycle's \<open>catch\<close>.
\<close>

record agent_live =
  al_agent :: remote_agent
  al_connection :: conn
  al_seenNonces :: nonce_window

datatype settlement = Resolved action_result | Rejected "remote_error_code option" string

record handler =
  ah_store :: "action_result remote_store"
  ah_connections :: "(string, agent_live) jsmap"
  ah_helloNonces :: "(string, nonce_window) jsmap"
  ah_pending :: "(string, action_result action_record) jsmap"
  ah_settled :: "(string \<times> settlement) list"

type_synonym agent_state = "lifecycle \<times> handler"

text \<open>The date syntax of \<open>zod\<close>, \<open>Date.parse\<close> and \<open>crypto.verify\<close>.\<close>

record handler_env =
  hv_iso :: "string \<Rightarrow> bool"
  hv_date_ms :: "string \<Rightarrow> int option"
  hv_verify :: "string \<Rightarrow> string \<Rightarrow> string \<Rightarrow> bool"

definition on_lc :: "(lifecycle \<Rightarrow> lifecycle) \<Rightarrow> agent_state \<Rightarrow> agent_state" where
  "on_lc f st = (f (fst st), snd st)"

definition live_of :: "handler \<Rightarrow> string \<Rightarrow> agent_live option" where
  "live_of h agentId = map_get (ah_connections h) agentId"

subsection \<open>Nonces\<close>

definition prune_entry :: "int \<Rightarrow> string \<times> nonce_window \<Rightarrow> (string \<times> nonce_window) option" where
  "prune_entry now e = (let w = pruneNonceWindow now (snd e) in if w = [] then None else Some (fst e, w))"

definition cleanupEphemeralState :: "int \<Rightarrow> handler \<Rightarrow> handler" where
  "cleanupEphemeralState now h =
     h\<lparr> ah_helloNonces := List.map_filter (prune_entry now) (ah_helloNonces h),
        ah_connections := map (\<lambda>(a, live). (a, live\<lparr> al_seenNonces := pruneNonceWindow now (al_seenNonces live) \<rparr>))
                            (ah_connections h) \<rparr>"

definition isStaleHello :: "handler_env \<Rightarrow> int \<Rightarrow> agent_hello \<Rightarrow> bool" where
  "isStaleHello env now hello =
     (case hv_date_ms env (he_timestamp hello) of None \<Rightarrow> True | Some timestamp \<Rightarrow> \<bar>now - timestamp\<bar> > 300000)"

definition hello_window :: "handler \<Rightarrow> string \<Rightarrow> nonce_window" where
  "hello_window h agentId = (case map_get (ah_helloNonces h) agentId of None \<Rightarrow> [] | Some w \<Rightarrow> w)"

definition hasReplayedHello :: "remote_agent \<Rightarrow> agent_hello \<Rightarrow> int \<Rightarrow> agent_state \<Rightarrow> bool \<times> agent_state" where
  "hasReplayedHello agent hello now st =
     (let helloNonces = hello_window (snd st) (ra_id agent)
      in if map_get helloNonces (he_nonce hello) \<noteq> None then
           (True, on_lc (emit (Audit (audit_note (Some (ra_userId agent)) (Some (ra_id agent))
                      ''agent_hello_replay_detected'' SevWarn))) st)
         else
           (False, (fst st, (snd st)\<lparr> ah_helloNonces := map_set (ra_id agent)
              (map_set (he_nonce hello) (now + AGENT_NONCE_TTL_MS) helloNonces) (ah_helloNonces (snd st)) \<rparr>)))"

subsection \<open>Hello\<close>

definition rejectInvalidMessage :: "conn \<Rightarrow> string \<Rightarrow> string \<Rightarrow> agent_state \<Rightarrow> agent_state" where
  "rejectInvalidMessage c message closeReason = on_lc (reject_with c INTERNAL_ERROR message closeReason)"

definition agent_audit :: "remote_agent \<Rightarrow> string \<Rightarrow> severity \<Rightarrow> lifecycle \<Rightarrow> lifecycle" where
  "agent_audit agent eventType severity =
     emit (Audit (audit_note (Some (ra_userId agent)) (Some (ra_id agent)) eventType severity))"

definition rejectDuplicateHello :: "conn \<Rightarrow> remote_agent \<Rightarrow> string \<Rightarrow> agent_state \<Rightarrow> agent_state" where
  "rejectDuplicateHello c agent message =
     on_lc (\<lambda>lc. reject_with c ACTION_REPLAY_DETECTED message ''duplicate agent hello''
                   (agent_audit agent ''agent_duplicate_hello_rejected'' SevWarn lc))"

definition replaceExistingConnection :: "agent_live option \<Rightarrow> remote_agent \<Rightarrow> lifecycle \<Rightarrow> lifecycle" where
  "replaceExistingConnection existing agent lc =
     (case existing of
        None \<Rightarrow> lc
      | Some live \<Rightarrow>
          closeConnection (al_connection live) 1000 ''connection replaced''
            (agent_audit agent ''agent_connection_replaced'' SevInfo lc))"

definition go_online :: "int \<Rightarrow> conn \<Rightarrow> agent_hello \<Rightarrow> remote_agent \<Rightarrow> agent_live option \<Rightarrow> agent_state \<Rightarrow> agent_state" where
  "go_online now c hello agent existing st =
     (let seenNonces = rememberNonce (he_nonce hello) now [];
          h1 = (snd st)\<lparr> ah_connections := map_set (ra_id agent)
                 \<lparr> al_agent = agent, al_connection = c, al_seenNonces = seenNonces \<rparr> (ah_connections (snd st)) \<rparr>;
          lc1 = replaceExistingConnection existing agent (markAuthenticated c (ra_id agent) (fst st));
          online = agent\<lparr> ra_status := Online, ra_lastSeenAt := Some now, ra_hostMetadata := Some (he_host hello),
                          ra_updatedAt := now \<rparr>
      in case updateAgent online (ah_store h1) of
           Inl _ \<Rightarrow> (messageFailed c lc1, h1)
         | Inr s \<Rightarrow>
             (emit (SendJson c (ReadyMessage (ra_id agent) (ra_policy agent)))
                (agent_audit agent ''agent_connected'' SevInfo lc1), h1\<lparr> ah_store := s \<rparr>))"

definition handleAgentHello :: "handler_env \<Rightarrow> int \<Rightarrow> conn \<Rightarrow> entries \<Rightarrow> agent_hello \<Rightarrow> agent_state \<Rightarrow> agent_state" where
  "handleAgentHello env now c payload hello st =
     (let not_enrolled = on_lc (reject_with c AGENT_NOT_FOUND ''Agent is not enrolled'' ''agent not enrolled'') st
      in case getAgent (he_agent_id hello) (ah_store (snd st)) of
           None \<Rightarrow> not_enrolled
         | Some agent \<Rightarrow>
             if ra_status agent = Revoked \<or> \<not> truthy (ra_publicKey agent) then not_enrolled
             else case claim c agent (fst st) of
               (False, lc1) \<Rightarrow> (lc1, snd st)
             | (True, lc1) \<Rightarrow>
                 let st1 = (lc1, snd st)
                 in if \<not> verifyEnvelope (hv_verify env) payload (the (ra_publicKey agent)) then
                      on_lc (\<lambda>lc. reject_with c SIGNATURE_INVALID ''Agent signature is invalid'' ''invalid agent signature''
                               (agent_audit agent ''agent_signature_invalid'' SevWarn lc)) st1
                    else if isStaleHello env now hello then
                      on_lc (\<lambda>lc. reject_with c ACTION_EXPIRED ''Agent hello timestamp is stale'' ''stale agent hello''
                               (agent_audit agent ''agent_hello_expired'' SevWarn lc)) st1
                    else
                      let st2 = (lc1, cleanupEphemeralState now (snd st));
                          existing = live_of (snd st2) (ra_id agent)
                      in if map_option al_connection existing = Some c then
                           rejectDuplicateHello c agent ''Agent hello was already processed on this connection'' st2
                         else case hasReplayedHello agent hello now st2 of
                           (True, st3) \<Rightarrow>
                             on_lc (reject_with c ACTION_REPLAY_DETECTED ''Agent hello nonce was already used''
                                      ''replayed agent hello'') st3
                         | (False, st3) \<Rightarrow> go_online now c hello agent existing st3)"

subsection \<open>Results of actions\<close>

definition pending_audit :: "action_result action_record \<Rightarrow> string \<Rightarrow> lifecycle \<Rightarrow> lifecycle" where
  "pending_audit action eventType =
     emit (Audit \<lparr> ae_userId = Some (ar_userId action), ae_agentId = Some (ar_agentId action),
                   ae_actionId = Some (ar_id action), ae_eventType = eventType, ae_severity = SevWarn \<rparr>)"

definition settle :: "string \<Rightarrow> settlement \<Rightarrow> handler \<Rightarrow> handler" where
  "settle actionId outcome h =
     h\<lparr> ah_pending := map_delete actionId (ah_pending h), ah_settled := ah_settled h @ [(actionId, outcome)] \<rparr>"

definition rejectPendingAction ::
    "action_result action_record \<Rightarrow> string \<Rightarrow> string \<Rightarrow> settlement \<Rightarrow> agent_state \<Rightarrow> agent_state" where
  "rejectPendingAction action actionId eventType outcome st =
     (pending_audit action eventType (fst st), settle actionId outcome (snd st))"

definition set_live :: "string \<Rightarrow> agent_live \<Rightarrow> handler \<Rightarrow> handler" where
  "set_live agentId live h = h\<lparr> ah_connections := map_set agentId live (ah_connections h) \<rparr>"

definition handleActionResult :: "handler_env \<Rightarrow> int \<Rightarrow> conn \<Rightarrow> entries \<Rightarrow> action_result \<Rightarrow> agent_state \<Rightarrow> agent_state" where
  "handleActionResult env now c payload result st =
     (case map_get (ah_pending (snd st)) (rt_action_id result) of
        None \<Rightarrow> st
      | Some action \<Rightarrow>
          let publicKey = (case getAgent (rt_agent_id result) (ah_store (snd st)) of
                             None \<Rightarrow> None | Some agent \<Rightarrow> ra_publicKey agent)
          in if \<not> truthy publicKey \<or> \<not> verifyEnvelope (hv_verify env) payload (the publicKey) then
               rejectPendingAction action (rt_action_id result) ''agent_result_signature_invalid''
                 (Rejected None ''Agent result signature is invalid'') st
             else case live_of (snd st) (rt_agent_id result) of
               None \<Rightarrow>
                 rejectPendingAction action (rt_action_id result) ''agent_result_connection_invalid''
                   (Rejected (Some SIGNATURE_INVALID) ''Agent result came from an unexpected connection'') st
             | Some live \<Rightarrow>
                 if ar_agentId action \<noteq> rt_agent_id result \<or> al_connection live \<noteq> c then
                   rejectPendingAction action (rt_action_id result) ''agent_result_connection_invalid''
                     (Rejected (Some SIGNATURE_INVALID) ''Agent result came from an unexpected connection'') st
                 else
                   let (seen, window) = hasSeenNonce (rt_nonce result) now (al_seenNonces live);
                       st1 = (fst st, set_live (rt_agent_id result) (live\<lparr> al_seenNonces := window \<rparr>) (snd st))
                   in if seen then
                        rejectPendingAction action (rt_action_id result) ''agent_result_replay_detected''
                          (Rejected (Some ACTION_REPLAY_DETECTED) ''Agent result nonce was already used'') st1
                      else
                        (fst st, settle (rt_action_id result) (Resolved result)
                           (set_live (rt_agent_id result)
                              (live\<lparr> al_seenNonces := rememberNonce (rt_nonce result) now window \<rparr>) (snd st1))))"

subsection \<open>Dispatch and close\<close>

definition handleAgentMessage :: "handler_env \<Rightarrow> int \<Rightarrow> conn \<Rightarrow> json option \<Rightarrow> agent_state \<Rightarrow> agent_state" where
  "handleAgentMessage env now c message st =
     (case message of
        None \<Rightarrow> rejectInvalidMessage c ''Invalid message'' ''invalid agent message'' st
      | Some payload \<Rightarrow>
          (case isRecord payload of
             None \<Rightarrow> rejectInvalidMessage c ''Invalid message'' ''invalid agent message'' st
           | Some es \<Rightarrow>
               if map_of es ''type'' = Some (JStr ''agent.hello'') then
                 (case parseAgentHelloEnvelope (hv_iso env) payload of
                    None \<Rightarrow> on_lc (messageFailed c) st
                  | Some hello \<Rightarrow> handleAgentHello env now c es hello st)
               else if isManaged (fst st) c \<and> \<not> isAuthenticated (fst st) c then
                 on_lc (\<lambda>lc. reject_with c FORBIDDEN ''Agent hello is required before other messages'' ''agent hello required''
                          (emit (Audit (audit_note None (agentIdFor lc c) ''agent_message_before_hello'' SevWarn)) lc)) st
               else if map_of es ''type'' = Some (JStr ''action.result'') then
                 (case parseActionResultEnvelope (hv_iso env) payload of
                    None \<Rightarrow> on_lc (messageFailed c) st
                  | Some result \<Rightarrow> handleActionResult env now c es result st)
               else rejectInvalidMessage c ''Unknown message type'' ''unknown agent message'' st))"

text \<open>A text frame goes through the lifecycle's \<open>receiveMessage\<close>.\<close>

definition onText :: "handler_env \<Rightarrow> int \<Rightarrow> conn \<Rightarrow> json option \<Rightarrow> agent_state \<Rightarrow> agent_state" where
  "onText env now c message st =
     (case receiveMessage c now (fst st) of
        (False, lc1) \<Rightarrow> (lc1, snd st)
      | (True, lc1) \<Rightarrow> handleAgentMessage env now c message (lc1, snd st))"

definition handleLiveConnectionClosed :: "int \<Rightarrow> remote_agent \<Rightarrow> conn \<Rightarrow> agent_state \<Rightarrow> bool \<times> agent_state" where
  "handleLiveConnectionClosed now agent c st =
     (case live_of (snd st) (ra_id agent) of
        None \<Rightarrow> (False, st)
      | Some live \<Rightarrow>
          if al_connection live \<noteq> c then (False, st)
          else
            let h1 = (snd st)\<lparr> ah_connections := map_delete (ra_id agent) (ah_connections (snd st)) \<rparr>;
                h2 = (case getAgent (ra_id agent) (ah_store h1) of
                        None \<Rightarrow> h1
                      | Some latest \<Rightarrow>
                          if ra_status latest = Revoked then h1
                          else case updateAgent (latest\<lparr> ra_status := Offline, ra_updatedAt := now \<rparr>) (ah_store h1) of
                            Inl _ \<Rightarrow> h1
                          | Inr s \<Rightarrow> h1\<lparr> ah_store := s \<rparr>)
            in (True, agent_audit agent ''agent_disconnected'' SevInfo (fst st), h2))"

definition handleLiveConnectionClosedById :: "int \<Rightarrow> conn \<Rightarrow> string \<Rightarrow> agent_state \<Rightarrow> bool \<times> agent_state" where
  "handleLiveConnectionClosedById now c agentId st =
     (case getAgent agentId (ah_store (snd st)) of
        None \<Rightarrow> (False, st)
      | Some agent \<Rightarrow> handleLiveConnectionClosed now agent c st)"

definition onClose :: "int \<Rightarrow> conn \<Rightarrow> int \<Rightarrow> agent_state \<Rightarrow> agent_state" where
  "onClose now c code = lc_handleClose (handleLiveConnectionClosedById now c) c code"

definition isAgentOnline :: "handler \<Rightarrow> string \<Rightarrow> bool" where
  "isAgentOnline h agentId = (live_of h agentId \<noteq> None)"

definition connectedAgentCount :: "handler \<Rightarrow> nat" where
  "connectedAgentCount h = length (ah_connections h)"

end
