(* ===== verification/AgentLifecycleProps.thy ===== *)
theory AgentLifecycleProps
  imports AgentLifecycle
begin

section \<open>What the lifecycle manager keeps\<close>

text \<open>
  The invariant: connections and claims stay within their limits; a connection is bound to at most one
  agent, and the slots an agent has claimed are exactly its managed connections, so every slot is given
  back when its connection closes. Each operation keeps it.
\<close>

definition lc_ok :: "lifecycle \<Rightarrow> bool" where
  "lc_ok lc \<longleftrightarrow>
     jsmap_ok (lc_managed lc) \<and> jsmap_ok (lc_claims lc) \<and>
     int (length (lc_managed lc)) \<le> max 0 (lc_maxConnections lc) \<and>
     (\<forall>a cs. map_get (lc_claims lc) a = Some cs \<longrightarrow>
        cs \<noteq> [] \<and> distinct cs \<and> int (length cs) \<le> max 0 (lc_maxConnectionsPerAgent lc)) \<and>
     (\<forall>a c. c \<in> set (claims_of lc a) \<longleftrightarrow> agentIdFor lc c = Some a) \<and>
     (\<forall>c. agentIdFor lc c \<noteq> Some []) \<and>
     (\<forall>c. isAuthenticated lc c \<longrightarrow> agentIdFor lc c \<noteq> None) \<and>
     (lc_shuttingDown lc \<longrightarrow> lc_managed lc = [] \<and> lc_claims lc = [])"

lemma lc_ok_new: "lc_ok (newLifecycle config)"
  by (simp add: lc_ok_def newLifecycle_def claims_of_def agentIdFor_def isAuthenticated_def)

subsection \<open>Views\<close>

lemma emit_view [simp]:
  "lc_managed (emit e lc) = lc_managed lc" "lc_claims (emit e lc) = lc_claims lc" "lc_config (emit e lc) = lc_config lc"
  "lc_shuttingDown (emit e lc) = lc_shuttingDown lc" "lc_pendingUpgrades (emit e lc) = lc_pendingUpgrades lc"
  "lc_effects (emit e lc) = lc_effects lc @ [e]"
  by (simp_all add: emit_def)

lemma emit_views [simp]:
  "agentIdFor (emit e lc) = agentIdFor lc" "isAuthenticated (emit e lc) = isAuthenticated lc"
  "isManaged (emit e lc) = isManaged lc" "claims_of (emit e lc) = claims_of lc"
  "lc_maxConnections (emit e lc) = lc_maxConnections lc"
  "lc_maxConnectionsPerAgent (emit e lc) = lc_maxConnectionsPerAgent lc"
  by (simp_all add: fun_eq_iff agentIdFor_def isAuthenticated_def isManaged_def claims_of_def lc_maxConnections_def
      lc_maxConnectionsPerAgent_def)

lemma lc_ok_emit [simp]: "lc_ok (emit e lc) = lc_ok lc"
  by (simp add: lc_ok_def)

text \<open>An update of a managed connection that leaves its binding alone.\<close>

definition touch :: "conn \<Rightarrow> (managed_connection \<Rightarrow> managed_connection) \<Rightarrow> lifecycle \<Rightarrow> lifecycle" where
  "touch c f lc =
     (case map_get (lc_managed lc) c of
        None \<Rightarrow> lc
      | Some m \<Rightarrow> lc\<lparr> lc_managed := map_set c (f m) (lc_managed lc) \<rparr>)"

lemma touch_rest [simp]:
  "lc_claims (touch c f lc) = lc_claims lc" "lc_config (touch c f lc) = lc_config lc"
  "lc_shuttingDown (touch c f lc) = lc_shuttingDown lc" "lc_effects (touch c f lc) = lc_effects lc"
  "lc_pendingUpgrades (touch c f lc) = lc_pendingUpgrades lc"
  "claims_of (touch c f lc) = claims_of lc" "lc_maxConnections (touch c f lc) = lc_maxConnections lc"
  "lc_maxConnectionsPerAgent (touch c f lc) = lc_maxConnectionsPerAgent lc"
  by (simp_all add: touch_def fun_eq_iff claims_of_def lc_maxConnections_def lc_maxConnectionsPerAgent_def
      split: option.splits)

lemma touch_managed [simp]:
  "map_get (lc_managed (touch c f lc)) d = (if d = c then map_option f (map_get (lc_managed lc) c) else map_get (lc_managed lc) d)"
  by (auto simp: touch_def jsmap_simps split: option.splits)

lemma touch_isManaged [simp]: "isManaged (touch c f lc) d = isManaged lc d"
  by (auto simp: isManaged_def)

lemma touch_keys: "map fst (lc_managed (touch c f lc)) = map fst (lc_managed lc)"
proof (cases "map_get (lc_managed lc) c")
  case (Some m)
  then have "c \<in> fst ` set (lc_managed lc)" by (metis map_of_eq_None_iff option.distinct(1))
  with Some show ?thesis by (simp add: touch_def update_keys)
qed (simp add: touch_def)

lemma touch_length: "length (lc_managed (touch c f lc)) = length (lc_managed lc)"
  using arg_cong [OF touch_keys [of c f lc], of length] by simp

lemma touch_agentId: "(\<And>m. mg_agentId (f m) = mg_agentId m) \<Longrightarrow> agentIdFor (touch c f lc) d = agentIdFor lc d"
  by (auto simp: agentIdFor_def split: option.splits)

lemma touch_authenticated:
  "(\<And>m. mg_authenticated (f m) = mg_authenticated m) \<Longrightarrow> isAuthenticated (touch c f lc) d = isAuthenticated lc d"
  by (auto simp: isAuthenticated_def split: option.splits)

lemma touch_jsmap: "jsmap_ok (lc_managed lc) \<Longrightarrow> jsmap_ok (lc_managed (touch c f lc))"
  by (auto simp: touch_def split: option.splits)

lemma touch_empty: "lc_managed lc = [] \<Longrightarrow> touch c f lc = lc"
  by (simp add: touch_def)

lemma lc_ok_touch:
  assumes ok: "lc_ok lc"
    and id: "\<And>m. map_get (lc_managed lc) c = Some m \<Longrightarrow> mg_agentId (f m) = mg_agentId m"
    and au: "\<And>m. map_get (lc_managed lc) c = Some m \<Longrightarrow> mg_authenticated (f m) \<Longrightarrow> mg_agentId m \<noteq> None"
  shows "lc_ok (touch c f lc)"
proof -
  have a: "agentIdFor (touch c f lc) = agentIdFor lc"
    using id by (auto simp: fun_eq_iff agentIdFor_def split: option.splits)
  have "isAuthenticated (touch c f lc) d \<longrightarrow> agentIdFor lc d \<noteq> None" for d
    using ok au by (auto simp: lc_ok_def isAuthenticated_def agentIdFor_def split: option.splits if_splits)
  with ok a show ?thesis
    by (auto simp: lc_ok_def touch_length touch_jsmap touch_empty)
qed

lemma closeConnection_touch:
  "closeConnection c code reason lc = emit (CloseWs c code reason) (touch c (\<lambda>m. m\<lparr> mg_terminationTimeout := True \<rparr>) lc)"
  by (simp add: closeConnection_def touch_def)

lemma recordActivity_touch: "recordActivity c now = touch c (\<lambda>m. m\<lparr> mg_lastActivityAt := now \<rparr>)"
  by (simp add: fun_eq_iff recordActivity_def touch_def)

lemma markAuthenticated_touch:
  "markAuthenticated c a = touch c (\<lambda>m. m\<lparr> mg_authenticated := True, mg_agentId := Some a, mg_helloTimeout := False \<rparr>)"
  by (simp add: fun_eq_iff markAuthenticated_def touch_def)

lemma close_views [simp]:
  "agentIdFor (closeConnection c code reason lc) = agentIdFor lc"
  "isAuthenticated (closeConnection c code reason lc) = isAuthenticated lc"
  "isManaged (closeConnection c code reason lc) = isManaged lc"
  "lc_claims (closeConnection c code reason lc) = lc_claims lc"
  "claims_of (closeConnection c code reason lc) = claims_of lc"
  "lc_shuttingDown (closeConnection c code reason lc) = lc_shuttingDown lc"
  "lc_config (closeConnection c code reason lc) = lc_config lc"
  "lc_pendingUpgrades (closeConnection c code reason lc) = lc_pendingUpgrades lc"
  "lc_maxConnectionsPerAgent (closeConnection c code reason lc) = lc_maxConnectionsPerAgent lc"
  "lc_maxConnections (closeConnection c code reason lc) = lc_maxConnections lc"
  "map fst (lc_managed (closeConnection c code reason lc)) = map fst (lc_managed lc)"
  by (simp_all add: fun_eq_iff closeConnection_touch touch_agentId touch_authenticated touch_keys)

lemma lc_ok_close_connection [simp]: "lc_ok lc \<Longrightarrow> lc_ok (closeConnection c code reason lc)"
proof -
  assume ok: "lc_ok lc"
  have "mg_agentId m \<noteq> None" if "map_get (lc_managed lc) c = Some m" "mg_authenticated m" for m
  proof -
    have "isAuthenticated lc c" "agentIdFor lc c = mg_agentId m" using that by (simp_all add: isAuthenticated_def agentIdFor_def)
    with ok show ?thesis by (metis lc_ok_def)
  qed
  with ok show ?thesis by (auto simp: closeConnection_touch intro!: lc_ok_touch)
qed

lemma reject_views [simp]:
  "agentIdFor (reject_with c code message reason lc) = agentIdFor lc"
  "isAuthenticated (reject_with c code message reason lc) = isAuthenticated lc"
  "isManaged (reject_with c code message reason lc) = isManaged lc"
  "claims_of (reject_with c code message reason lc) = claims_of lc"
  "lc_ok lc \<Longrightarrow> lc_ok (reject_with c code message reason lc)"
  by (simp_all add: reject_with_def)

subsection \<open>Operations keep the invariant\<close>

lemma lc_ok_recordActivity: "lc_ok lc \<Longrightarrow> lc_ok (recordActivity c now lc)"
proof -
  assume ok: "lc_ok lc"
  have "mg_agentId m \<noteq> None" if "map_get (lc_managed lc) c = Some m" "mg_authenticated m" for m
  proof -
    have "isAuthenticated lc c" "agentIdFor lc c = mg_agentId m" using that by (simp_all add: isAuthenticated_def agentIdFor_def)
    with ok show ?thesis by (metis lc_ok_def)
  qed
  with ok show ?thesis by (auto simp: recordActivity_touch intro!: lc_ok_touch)
qed

lemma lc_ok_receiveMessage: "lc_ok lc \<Longrightarrow> lc_ok (snd (receiveMessage c now lc))"
  by (simp add: receiveMessage_def lc_ok_recordActivity)

lemma lc_ok_messageFailed [simp]: "lc_ok lc \<Longrightarrow> lc_ok (messageFailed c lc)"
  by (simp add: messageFailed_def)

lemma lc_ok_markAuthenticated: "lc_ok lc \<Longrightarrow> agentIdFor lc c = Some a \<Longrightarrow> lc_ok (markAuthenticated c a lc)"
  by (auto simp: markAuthenticated_touch agentIdFor_def intro!: lc_ok_touch split: option.splits)

lemma lc_ok_handleHelloTimeout: "lc_ok lc \<Longrightarrow> lc_ok (handleHelloTimeout lookup c lc)"
  by (auto simp: handleHelloTimeout_def Let_def split: option.splits)

lemma lc_ok_pending: "lc_ok (lc\<lparr> lc_pendingUpgrades := p \<rparr>) = lc_ok lc"
  by (simp add: lc_ok_def agentIdFor_def isAuthenticated_def claims_of_def lc_maxConnections_def
      lc_maxConnectionsPerAgent_def cong: option.case_cong)

lemma lc_ok_terminationTimeout: "lc_ok lc \<Longrightarrow> lc_ok (terminationTimeout c lc)"
  by (simp add: terminationTimeout_def)

lemma lc_ok_attach:
  assumes ok: "lc_ok lc" and fresh: "\<not> isManaged lc c"
  shows "lc_ok (snd (attach c now lc))"
proof -
  have none: "map_get (lc_managed lc) c = None" using fresh by (simp add: isManaged_def)
  show ?thesis
  proof (cases "lc_shuttingDown lc \<or> int (length (lc_managed lc)) \<ge> lc_maxConnections lc")
    case True
    with ok show ?thesis by (auto simp: attach_def rejectAcceptedConnection_def auditGlobalLimit_def)
  next
    case False
    let ?m = "\<lparr> mg_lastActivityAt = now, mg_authenticated = False, mg_agentId = None, mg_helloTimeout = True,
                mg_terminationTimeout = False \<rparr>"
    let ?lc = "lc\<lparr> lc_managed := map_set c ?m (lc_managed lc) \<rparr>"
    from False have e: "snd (attach c now lc) = ?lc" by (simp add: attach_def)
    have v: "agentIdFor ?lc = agentIdFor lc" "claims_of ?lc = claims_of lc"
      using none by (auto simp: fun_eq_iff agentIdFor_def claims_of_def jsmap_simps)
    have au: "isAuthenticated ?lc d \<longrightarrow> agentIdFor lc d \<noteq> None" for d
      using ok by (auto simp: lc_ok_def isAuthenticated_def jsmap_simps split: if_splits)
    have len: "int (length (lc_managed ?lc)) \<le> max 0 (lc_maxConnections lc)"
      using False none by (simp add: length_alist_update)
    have m: "lc_maxConnections ?lc = lc_maxConnections lc" "lc_maxConnectionsPerAgent ?lc = lc_maxConnectionsPerAgent lc"
      by (simp_all add: lc_maxConnections_def lc_maxConnectionsPerAgent_def)
    show ?thesis unfolding e lc_ok_def v m
      using ok au len False by (simp add: lc_ok_def v)
  qed
qed

lemma lc_ok_claim:
  assumes ok: "lc_ok lc" and id: "ra_id agent \<noteq> []"
  shows "lc_ok (snd (claim c agent lc))"
proof (cases "map_get (lc_managed lc) c")
  case None
  with ok show ?thesis by (simp add: claim_def)
next
  case (Some m)
  let ?a = "ra_id agent"
  have bound: "agentIdFor lc c = mg_agentId m" using Some by (simp add: agentIdFor_def)
  show ?thesis
  proof (cases "truthy (mg_agentId m) \<and> mg_agentId m \<noteq> Some ?a")
    case True
    with ok Some show ?thesis by (simp add: claim_def)
  next
    case False
    let ?cs = "claims_of lc ?a"
    have un: "mg_agentId m = None \<or> mg_agentId m = Some ?a"
      using False ok bound by (auto simp: lc_ok_def truthy_def split: option.splits)
    show ?thesis
    proof (cases "c \<notin> set ?cs \<and> int (length ?cs) \<ge> lc_maxConnectionsPerAgent lc")
      case True
      with False ok Some show ?thesis by (simp add: claim_def)
    next
      case grant: False
      let ?cs' = "if c \<in> set ?cs then ?cs else ?cs @ [c]"
      define L where "L = lc\<lparr> lc_claims := map_set ?a ?cs' (lc_claims lc),
                     lc_managed := map_set c (m\<lparr> mg_agentId := Some ?a \<rparr>) (lc_managed lc) \<rparr>"
      have e: "snd (claim c agent lc) = L" unfolding L_def by (simp only: claim_def Some option.case Let_def False grant if_False snd_conv)
      have v: "agentIdFor L d = (if d = c then Some ?a else agentIdFor lc d)" for d
        by (simp add: agentIdFor_def L_def jsmap_simps)
      have cl: "claims_of L b = (if b = ?a then ?cs' else claims_of lc b)" for b
        by (simp add: claims_of_def L_def jsmap_simps)
      have au: "isAuthenticated L d \<Longrightarrow> d = c \<or> isAuthenticated lc d" for d
        by (simp add: isAuthenticated_def L_def jsmap_simps split: if_splits)
      have m: "lc_maxConnections L = lc_maxConnections lc" "lc_maxConnectionsPerAgent L = lc_maxConnectionsPerAgent lc"
        by (simp_all add: L_def lc_maxConnections_def lc_maxConnectionsPerAgent_def)
      have cs_ok: "distinct ?cs" "int (length ?cs) \<le> max 0 (lc_maxConnectionsPerAgent lc)"
        using ok by (auto simp: lc_ok_def claims_of_def split: option.splits)
      have bind: "d \<in> set (claims_of lc b) \<longleftrightarrow> agentIdFor lc d = Some b" for b d using ok by (simp add: lc_ok_def)
      have notdown: "\<not> lc_shuttingDown lc" using ok Some by (auto simp: lc_ok_def)
      have 1: "int (length (lc_managed L)) \<le> max 0 (lc_maxConnections lc)"
        using ok Some by (simp add: L_def lc_ok_def length_alist_update)
      have 2: "cs \<noteq> [] \<and> distinct cs \<and> int (length cs) \<le> max 0 (lc_maxConnectionsPerAgent lc)"
        if "map_get (lc_claims L) b = Some cs" for b cs
      proof (cases "b = ?a")
        case True
        with that have "cs = ?cs'" by (simp add: L_def jsmap_simps)
        with cs_ok grant show ?thesis by (auto split: if_splits)
      next
        case False
        with that ok show ?thesis by (simp add: L_def lc_ok_def jsmap_simps)
      qed
      have 3: "d \<in> set (claims_of L b) \<longleftrightarrow> agentIdFor L d = Some b" for b d
        using bind [of d b] bind [of c b] un bound by (auto simp: v cl split: if_splits)
      have 4: "agentIdFor L d \<noteq> Some []" for d using ok id by (simp add: v lc_ok_def)
      have 5: "isAuthenticated L d \<longrightarrow> agentIdFor L d \<noteq> None" for d
        using ok au [of d] by (auto simp: v lc_ok_def)
      have 6: "jsmap_ok (lc_managed L) \<and> jsmap_ok (lc_claims L)" "\<not> lc_shuttingDown L"
        using ok notdown by (simp_all add: L_def lc_ok_def)
      show ?thesis unfolding e lc_ok_def m
        using 1 2 3 4 5 6 by simp
    qed
  qed
qed

lemma claim_granted:
  "claim c agent lc = (True, lc') \<Longrightarrow> isManaged lc c \<Longrightarrow> agentIdFor lc' c = Some (ra_id agent) \<and>
     (\<forall>d. d \<noteq> c \<longrightarrow> agentIdFor lc' d = agentIdFor lc d)"
  by (auto simp: claim_def isManaged_def agentIdFor_def jsmap_simps Let_def split: option.splits if_splits)

lemma claim_views: "isAuthenticated (snd (claim c agent lc)) = isAuthenticated lc" "isManaged (snd (claim c agent lc)) = isManaged lc"
  by (auto simp: fun_eq_iff claim_def Let_def isAuthenticated_def isManaged_def jsmap_simps reject_with_def
      closeConnection_touch split: option.splits)

lemma lc_ok_release:
  assumes ok: "lc_ok lc" and c: "map_get (lc_managed lc) c = Some m"
  shows "lc_ok (releaseAgentClaim (mg_agentId m) c (lc\<lparr> lc_managed := map_delete c (lc_managed lc) \<rparr>))"
proof -
  let ?lc = "lc\<lparr> lc_managed := map_delete c (lc_managed lc) \<rparr>"
  let ?r = "releaseAgentClaim (mg_agentId m) c ?lc"
  have bound: "agentIdFor lc c = mg_agentId m" using c by (simp add: agentIdFor_def)
  have bind: "d \<in> set (claims_of lc b) \<longleftrightarrow> agentIdFor lc d = Some b" for b d using ok by (simp add: lc_ok_def)
  have fields: "lc_managed ?r = map_delete c (lc_managed lc)" "lc_shuttingDown ?r = lc_shuttingDown lc"
    "lc_maxConnections ?r = lc_maxConnections lc" "lc_maxConnectionsPerAgent ?r = lc_maxConnectionsPerAgent lc"
    by (auto simp: releaseAgentClaim_def Let_def lc_maxConnections_def lc_maxConnectionsPerAgent_def split: option.splits)
  have v: "agentIdFor ?r d = (if d = c then None else agentIdFor lc d)" for d
    by (simp add: agentIdFor_def fields jsmap_simps)
  have au: "isAuthenticated ?r d \<Longrightarrow> d \<noteq> c \<and> isAuthenticated lc d" for d
    by (simp add: isAuthenticated_def fields jsmap_simps split: if_splits)
  have claims: "map_get (lc_claims ?r) b =
      (case map_get (lc_claims lc) b of None \<Rightarrow> None
       | Some cs \<Rightarrow> if mg_agentId m = Some b then (if removeAll c cs = [] then None else Some (removeAll c cs)) else Some cs)" for b
    using ok bound by (cases "mg_agentId m") (auto simp: releaseAgentClaim_def Let_def jsmap_simps lc_ok_def split: option.splits)
  have jm: "jsmap_ok (lc_claims ?r)"
    using ok by (auto simp: releaseAgentClaim_def Let_def lc_ok_def split: option.splits)
  have "claims_of ?r b = (if mg_agentId m = Some b then removeAll c (claims_of lc b) else claims_of lc b)" for b
    by (auto simp: claims_of_def claims split: option.splits)
  then have cl: "d \<in> set (claims_of ?r b) \<longleftrightarrow> d \<in> set (claims_of lc b) \<and> \<not> (mg_agentId m = Some b \<and> d = c)" for b d
    by auto
  have 1: "int (length (lc_managed ?r)) \<le> max 0 (lc_maxConnections lc)"
    using ok jsm.card_remove_le [of "lc_managed lc" c] by (simp add: lc_ok_def fields)
  have 2: "cs \<noteq> [] \<and> distinct cs \<and> int (length cs) \<le> max 0 (lc_maxConnectionsPerAgent lc)"
    if "map_get (lc_claims ?r) b = Some cs" for b cs
  proof -
    from that obtain cs0 where "map_get (lc_claims lc) b = Some cs0" "cs = cs0 \<or> cs = removeAll c cs0 \<and> cs \<noteq> []"
      by (auto simp: claims split: option.splits if_splits)
    moreover from this ok have "cs0 \<noteq> []" "distinct cs0" "int (length cs0) \<le> max 0 (lc_maxConnectionsPerAgent lc)"
      by (simp_all add: lc_ok_def)
    moreover from calculation have "length cs \<le> length cs0" by auto
    then have "int (length cs) \<le> int (length cs0)" by simp
    ultimately have "cs \<noteq> []" "distinct cs" "int (length cs) \<le> max 0 (lc_maxConnectionsPerAgent lc)"
      by (auto simp: distinct_removeAll simp del: of_nat_le_iff)
    then show ?thesis by blast
  qed
  have 3: "d \<in> set (claims_of ?r b) \<longleftrightarrow> agentIdFor ?r d = Some b" for b d
    using bind [of d b] bound by (auto simp: cl v)
  have 4: "agentIdFor ?r d \<noteq> Some []" for d using ok by (simp add: v lc_ok_def)
  have 5: "isAuthenticated ?r d \<longrightarrow> agentIdFor ?r d \<noteq> None" for d
    using ok au [of d] by (auto simp: v lc_ok_def)
  have 6: "jsmap_ok (map_delete c (lc_managed lc))" "\<not> lc_shuttingDown lc" using ok c by (auto simp: lc_ok_def)
  show ?thesis unfolding lc_ok_def fields(3,4)
  proof (intro conjI allI impI)
    show "jsmap_ok (lc_managed ?r)" using 6 by (simp add: fields)
    show "lc_managed ?r = []" if "lc_shuttingDown ?r" using 6 that by (simp add: fields)
    show "lc_claims ?r = []" if "lc_shuttingDown ?r" using 6 that by (simp add: fields)
  qed (use jm 1 2 3 4 5 in blast)+
qed

lemma lc_ok_lc_close: "lc_ok lc \<Longrightarrow> lc_ok (lc_close lc)"
  by (auto simp: lc_close_def lc_ok_def agentIdFor_def isAuthenticated_def claims_of_def lc_maxConnections_def
      lc_maxConnectionsPerAgent_def)

lemma lc_ok_heartbeat_fold: "lc_ok lc \<Longrightarrow> lc_ok (fold (heartbeat_one lookup now) es lc)"
  by (induction es arbitrary: lc) (simp_all add: heartbeat_one_def Let_def)

lemma lc_ok_runHeartbeat: "lc_ok lc \<Longrightarrow> lc_ok (lc_runHeartbeat lookup now lc)"
  by (simp add: lc_runHeartbeat_def lc_ok_heartbeat_fold)

lemma isManaged_pending [simp]: "isManaged (lc\<lparr> lc_pendingUpgrades := p \<rparr>) c = isManaged lc c"
  by (simp add: isManaged_def)

lemma lc_ok_upgradeAccepted: "lc_ok lc \<Longrightarrow> \<not> isManaged lc c \<Longrightarrow> lc_ok (upgradeAccepted sock c now lc)"
  by (simp add: upgradeAccepted_def releasePending_def lc_ok_attach lc_ok_pending)

lemma lc_ok_handleUpgrade:
  "lc_ok lc \<Longrightarrow> (\<And>c now. outcome = CallsBack c now \<Longrightarrow> \<not> isManaged lc c) \<Longrightarrow>
   lc_ok (lc_handleUpgrade sock destroyed outcome lc)"
  by (auto simp: lc_handleUpgrade_def rejectRawUpgrade_def auditGlobalLimit_def upgradeFailed_def releasePending_def
      lc_ok_pending Let_def split: upgrade_outcome.splits intro!: lc_ok_upgradeAccepted)

lemmas lc_ok_intros =
  lc_ok_recordActivity lc_ok_receiveMessage lc_ok_messageFailed lc_ok_markAuthenticated lc_ok_handleHelloTimeout
  lc_ok_terminationTimeout lc_ok_attach lc_ok_claim lc_ok_release lc_ok_lc_close lc_ok_runHeartbeat
  lc_ok_upgradeAccepted lc_ok_handleUpgrade

subsection \<open>Runs of the manager\<close>

text \<open>
  What can happen to the manager: upgrades, messages, timers, heartbeats, claims and authentications by the
  agent handler, closes and shutdown. A connection that is accepted is a new one, an agent has an id, and
  the handler authenticates a connection only for the agent that has claimed it.
\<close>

inductive lc_step :: "lifecycle \<Rightarrow> lifecycle \<Rightarrow> bool" where
  upgrade: "(\<And>c now. outcome = CallsBack c now \<Longrightarrow> \<not> isManaged lc c) \<Longrightarrow>
     lc_step lc (lc_handleUpgrade sock destroyed outcome lc)"
| accepted: "\<not> isManaged lc c \<Longrightarrow> lc_step lc (upgradeAccepted sock c now lc)"
| gone: "lc_step lc (releasePending sock lc)"
| attached: "\<not> isManaged lc c \<Longrightarrow> lc_step lc (snd (attach c now lc))"
| claimed: "ra_id agent \<noteq> [] \<Longrightarrow> lc_step lc (snd (claim c agent lc))"
| authenticated: "agentIdFor lc c = Some a \<Longrightarrow> lc_step lc (markAuthenticated c a lc)"
| message: "lc_step lc (snd (receiveMessage c now lc))"
| activity: "lc_step lc (recordActivity c now lc)"
| failed: "lc_step lc (messageFailed c lc)"
| hello_timeout: "lc_step lc (handleHelloTimeout lookup c lc)"
| grace: "lc_step lc (terminationTimeout c lc)"
| heartbeat: "lc_step lc (lc_runHeartbeat lookup now lc)"
| close_one: "lc_step lc (closeConnection c code reason lc)"
| closed: "lc_step lc (fst (lc_handleClose (\<lambda>_ st. (reported, fold emit audits (fst st), snd st)) c code (lc, ())))"
| shutdown: "lc_step lc (lc_close lc)"

lemma fold_emit [simp]: "lc_ok (fold emit es lc) = lc_ok lc" "lc_config (fold emit es lc) = lc_config lc"
  by (induction es arbitrary: lc) simp_all

lemma lc_ok_handleClose:
  assumes "lc_ok lc"
  shows "lc_ok (fst (lc_handleClose (\<lambda>_ st. (reported, fold emit audits (fst st), snd st)) c code (lc, ())))"
proof (cases "map_get (lc_managed lc) c")
  case (Some m)
  with lc_ok_release [OF assms Some] show ?thesis by (simp add: lc_handleClose_def Let_def)
qed (use assms in \<open>simp add: lc_handleClose_def\<close>)

lemma config_release [simp]: "lc_config (releaseAgentClaim a c lc) = lc_config lc"
  by (simp add: releaseAgentClaim_def Let_def split: option.splits)

lemma config_touch [simp]: "lc_config (touch c f lc) = lc_config lc"
  by (simp add: touch_def split: option.splits)

lemma config_close [simp]: "lc_config (closeConnection c code reason lc) = lc_config lc"
  by (simp add: closeConnection_touch)

lemma config_reject [simp]: "lc_config (reject_with c e msg reason lc) = lc_config lc"
  by (simp add: reject_with_def)

lemma config_attach [simp]: "lc_config (snd (attach c now lc)) = lc_config lc"
  by (simp add: attach_def rejectAcceptedConnection_def auditGlobalLimit_def)

lemma config_accepted [simp]: "lc_config (upgradeAccepted sock c now lc) = lc_config lc"
  by (simp add: upgradeAccepted_def releasePending_def)

lemma config_heartbeats [simp]: "lc_config (fold (heartbeat_one lookup now) es lc) = lc_config lc"
  by (induction es arbitrary: lc) (simp_all add: heartbeat_one_def Let_def)

lemma lc_step_config: "lc_step lc lc' \<Longrightarrow> lc_config lc' = lc_config lc"
proof (induction rule: lc_step.induct)
  case (upgrade outcome lc sock destroyed)
  show ?case
    by (simp add: lc_handleUpgrade_def rejectRawUpgrade_def auditGlobalLimit_def upgradeFailed_def releasePending_def Let_def
        split: upgrade_outcome.splits)
next
  case (closed lc reported audits c code)
  show ?case by (simp add: lc_handleClose_def Let_def split: option.splits)
qed (simp_all add: releasePending_def claim_def Let_def markAuthenticated_touch receiveMessage_def recordActivity_touch
      messageFailed_def handleHelloTimeout_def terminationTimeout_def lc_runHeartbeat_def lc_close_def split: option.splits)

lemma lc_step_ok: "lc_step lc lc' \<Longrightarrow> lc_ok lc \<Longrightarrow> lc_ok lc'"
proof (induction rule: lc_step.induct)
  case (gone lc sock)
  then show ?case by (simp add: releasePending_def lc_ok_pending)
next
  case (closed lc reported audits c code)
  then show ?case by (rule lc_ok_handleClose)
qed (simp_all add: lc_ok_intros)

interpretation lc_ts: transition_system "\<lambda>lc. lc = newLifecycle config" lc_step "\<lambda>lc. lc_ok lc \<and> lc_config lc = config"
proof unfold_locales
  fix s t
  show "lc_ok s \<and> lc_config s = config" if "s = newLifecycle config"
    using that lc_ok_new [of config] by (simp add: newLifecycle_def)
  show "lc_ok t \<and> lc_config t = config" if "lc_ok s \<and> lc_config s = config" "lc_step s t"
    using that lc_step_ok lc_step_config by blast
qed

text \<open>
  C10: whatever upgrades, messages, timers, claims, closes and shutdowns happen and in which order, the open
  connections stay within the configured maximum; an agent holds at most its configured number of
  slots, no slot twice, and its slots are exactly the open connections bound to it, so a closed
  connection always gives its slot back; an authenticated connection is bound to an agent; and after
  shutdown no connection and no slot is left.
\<close>

theorem agent_connections_bounded:
  assumes "lc_step\<^sup>*\<^sup>* (newLifecycle config) lc"
  shows "int (openConnectionCount lc) \<le> max 0 (patched (lcc_maxConnections config) DEFAULT_MAX_AGENT_CONNECTIONS) \<and>
    distinct (claims_of lc a) \<and>
    int (length (claims_of lc a)) \<le>
      max 0 (patched (lcc_maxConnectionsPerAgent config) DEFAULT_MAX_AGENT_CONNECTIONS_PER_AGENT) \<and>
    set (claims_of lc a) = {c. agentIdFor lc c = Some a} \<and>
    (isAuthenticated lc c \<longrightarrow> (\<exists>b. agentIdFor lc c = Some b)) \<and>
    (lc_shuttingDown lc \<longrightarrow> openConnectionCount lc = 0 \<and> lc_claims lc = [])"
proof -
  have ok: "lc_ok lc" and cfg: "lc_config lc = config"
    using lc_ts.inv_reachable [OF refl assms] by blast+
  have "distinct (claims_of lc a) \<and> int (length (claims_of lc a)) \<le> max 0 (lc_maxConnectionsPerAgent lc)"
    using ok by (auto simp: lc_ok_def claims_of_def split: option.splits)
  with ok show ?thesis
    by (auto simp: lc_ok_def openConnectionCount_def lc_maxConnections_def lc_maxConnectionsPerAgent_def cfg)
qed

text \<open>One connection comes in, claims its agent's slot, is authenticated and closes.\<close>

definition demo_lc_config :: lifecycle_config where
  "demo_lc_config = \<lparr> lcc_helloTimeoutMs = None, lcc_heartbeatIntervalMs = None, lcc_idleTimeoutMs = None,
     lcc_maxConnections = Some 1, lcc_maxConnectionsPerAgent = Some 1 \<rparr>"

theorem agent_connections_bounded_witness:
  "int (openConnectionCount (snd (attach 4 0 (newLifecycle demo_lc_config)))) \<le> 1 \<and>
   isManaged (snd (attach 4 0 (newLifecycle demo_lc_config))) 4"
proof -
  let ?lc = "snd (attach 4 0 (newLifecycle demo_lc_config))"
  have m: "\<not> isManaged (newLifecycle demo_lc_config) 4" by (simp add: isManaged_def newLifecycle_def)
  have r: "lc_step\<^sup>*\<^sup>* (newLifecycle demo_lc_config) ?lc" by (rule r_into_rtranclp) (rule lc_step.attached [OF m])
  from agent_connections_bounded [OF r, of "''agt''" 4] show ?thesis
    by (simp add: demo_lc_config_def isManaged_def attach_def newLifecycle_def lc_maxConnections_def patched_def)
qed

end
