(* ===== verification/AgentHandlerProps.thy ===== *)
theory AgentHandlerProps
  imports AgentHandler AgentLifecycleProps
begin

section \<open>What the agent handler guarantees\<close>

text \<open>
  Who becomes the live connection of an agent, how an action in flight is settled, and that the maps of
  the handler, the lifecycle manager and the database stay consistent.
\<close>

lemma on_lc_simps [simp]: "fst (on_lc f st) = f (fst st)" "snd (on_lc f st) = snd st"
  by (simp_all add: on_lc_def)

definition live_conn :: "handler \<Rightarrow> string \<Rightarrow> conn option" where
  "live_conn h a = map_option al_connection (live_of h a)"

lemma map_of_map_second: "map_of (map (\<lambda>(k, v). (k, f v)) m) a = map_option f (map_of m a)"
  by (induction m) auto

lemma live_of_cleanup:
  "live_of (cleanupEphemeralState now h) a =
     map_option (\<lambda>l. l\<lparr> al_seenNonces := pruneNonceWindow now (al_seenNonces l) \<rparr>) (live_of h a)"
  by (simp add: live_of_def cleanupEphemeralState_def map_of_map_second)

lemma cleanup_rest [simp]:
  "ah_store (cleanupEphemeralState now h) = ah_store h" "ah_pending (cleanupEphemeralState now h) = ah_pending h"
  "ah_settled (cleanupEphemeralState now h) = ah_settled h"
  by (simp_all add: cleanupEphemeralState_def)

lemma live_conn_cleanup [simp]: "live_conn (cleanupEphemeralState now h) a = live_conn h a"
  by (simp add: live_conn_def live_of_cleanup option.map_comp comp_def)

subsection \<open>Hello\<close>

text \<open>What the handler demands of a hello: enrolled, not revoked, signed, on time, and a nonce not seen before.\<close>

definition hello_valid :: "handler_env \<Rightarrow> int \<Rightarrow> entries \<Rightarrow> agent_hello \<Rightarrow> remote_agent \<Rightarrow> handler \<Rightarrow> bool" where
  "hello_valid env now es hello agent h \<longleftrightarrow>
     getAgent (he_agent_id hello) (ah_store h) = Some agent \<and> ra_status agent \<noteq> Revoked \<and>
     (\<exists>pk ts. ra_publicKey agent = Some pk \<and> pk \<noteq> [] \<and> verifyEnvelope (hv_verify env) es pk \<and>
        hv_date_ms env (he_timestamp hello) = Some ts \<and> \<bar>now - ts\<bar> \<le> 300000) \<and>
     map_get (hello_window (cleanupEphemeralState now h) (ra_id agent)) (he_nonce hello) = None"

definition remember_hello :: "int \<Rightarrow> remote_agent \<Rightarrow> agent_hello \<Rightarrow> handler \<Rightarrow> handler" where
  "remember_hello now agent hello h =
     h\<lparr> ah_helloNonces := map_set (ra_id agent)
          (map_set (he_nonce hello) (now + AGENT_NONCE_TTL_MS) (hello_window h (ra_id agent))) (ah_helloNonces h) \<rparr>"

lemma handleAgentHello_cases:
  obtains (refused) "snd (handleAgentHello env now c es hello st) = snd st"
    | (refused_late) "snd (handleAgentHello env now c es hello st) = cleanupEphemeralState now (snd st)"
    | (online) agent lc1 where "hello_valid env now es hello agent (snd st)"
        and "claim c agent (fst st) = (True, lc1)" and "live_conn (snd st) (ra_id agent) \<noteq> Some c"
        and "handleAgentHello env now c es hello st =
           go_online now c hello agent (live_of (cleanupEphemeralState now (snd st)) (ra_id agent))
             (lc1, remember_hello now agent hello (cleanupEphemeralState now (snd st)))"
proof (cases "getAgent (he_agent_id hello) (ah_store (snd st))")
  case None
  then show ?thesis by (intro refused) (simp add: handleAgentHello_def)
next
  case (Some agent)
  obtain granted lc1 where cl: "claim c agent (fst st) = (granted, lc1)" by (cases "claim c agent (fst st)")
  show ?thesis
  proof (cases "ra_status agent = Revoked \<or> \<not> truthy (ra_publicKey agent) \<or> \<not> granted
      \<or> \<not> verifyEnvelope (hv_verify env) es (the (ra_publicKey agent)) \<or> isStaleHello env now hello")
    case True
    with Some cl show ?thesis by (intro refused) (cases granted; auto simp: handleAgentHello_def Let_def)
  next
    case False
    let ?h = "cleanupEphemeralState now (snd st)"
    have ts: "\<exists>ts. hv_date_ms env (he_timestamp hello) = Some ts \<and> \<bar>now - ts\<bar> \<le> 300000"
      using False by (auto simp: isStaleHello_def split: option.splits)
    have dup: "map_option al_connection (live_of ?h (ra_id agent)) = live_conn (snd st) (ra_id agent)"
      using live_conn_cleanup [of now "snd st" "ra_id agent"] by (simp add: live_conn_def)
    show ?thesis
    proof (cases "live_conn (snd st) (ra_id agent) = Some c")
      case True
      with Some cl False dup show ?thesis
        by (intro refused_late) (simp add: handleAgentHello_def Let_def rejectDuplicateHello_def del: map_option_eq_Some)
    next
      case fresh: False
      show ?thesis
      proof (cases "map_get (hello_window ?h (ra_id agent)) (he_nonce hello)")
        case None
        have "hello_valid env now es hello agent (snd st)"
          using Some False ts None by (auto simp: hello_valid_def truthy_Some)
        moreover have "handleAgentHello env now c es hello st =
           go_online now c hello agent (live_of ?h (ra_id agent)) (lc1, remember_hello now agent hello ?h)"
          using Some cl False None fresh dup
          by (simp add: handleAgentHello_def Let_def hasReplayedHello_def remember_hello_def del: map_option_eq_Some)
        ultimately show ?thesis using cl False fresh by (intro online) simp_all
      next
        case (Some e)
        with \<open>getAgent _ _ = _\<close> cl False fresh dup show ?thesis
          by (intro refused_late) (simp add: handleAgentHello_def Let_def hasReplayedHello_def del: map_option_eq_Some)
      qed
    qed
  qed
qed

lemma go_online_live:
  "live_conn (snd (go_online now c hello agent existing (lc, h))) a = (if a = ra_id agent then Some c else live_conn h a)"
  by (auto simp: go_online_def Let_def live_conn_def live_of_def jsmap_simps split: sum.splits)

lemma remember_hello_rest [simp]:
  "live_conn (remember_hello now agent hello h) a = live_conn h a" "ah_store (remember_hello now agent hello h) = ah_store h"
  "ah_pending (remember_hello now agent hello h) = ah_pending h" "ah_settled (remember_hello now agent hello h) = ah_settled h"
  by (simp_all add: remember_hello_def live_conn_def live_of_def)

lemma go_online_rest [simp]:
  "ah_pending (snd (go_online now c hello agent existing st)) = ah_pending (snd st)"
  "ah_settled (snd (go_online now c hello agent existing st)) = ah_settled (snd st)"
  by (simp_all add: go_online_def Let_def split: sum.splits)

lemma settle_live [simp]: "live_conn (settle i o' h) a = live_conn h a"
  by (simp add: live_conn_def live_of_def settle_def)

lemma live_conn_Some: "live_of h a = Some l \<Longrightarrow> live_conn h a = Some (al_connection l)"
  by (simp add: live_conn_def)

lemma set_live_conn: "live_conn (set_live a l h) b = (if b = a then Some (al_connection l) else live_conn h b)"
  by (simp add: set_live_def live_conn_def live_of_def jsmap_simps)

lemma handleActionResult_live [simp]: "live_conn (snd (handleActionResult env now c es result st)) a = live_conn (snd st) a"
  by (auto simp: handleActionResult_def Let_def rejectPendingAction_def set_live_conn live_conn_Some
      split: option.splits prod.splits)

text \<open>A text message is a hello, a result or leaves the handler's maps alone.\<close>

lemma onText_cases:
  obtains (quiet) "snd (onText env now c message st) = snd st"
    | (hello) payload es hello lc1 where "message = Some payload" and "isRecord payload = Some es" and "isManaged (fst st) c"
        and "map_of es ''type'' = Some (JStr ''agent.hello'')" and "lc1 = recordActivity c now (fst st)"
        and "parseAgentHelloEnvelope (hv_iso env) payload = Some hello"
        and "onText env now c message st = handleAgentHello env now c es hello (lc1, snd st)"
    | (result) payload es result lc1 where "message = Some payload" and "isRecord payload = Some es"
        and "isAuthenticated (fst st) c" and "parseActionResultEnvelope (hv_iso env) payload = Some result"
        and "lc1 = recordActivity c now (fst st)"
        and "onText env now c message st = handleActionResult env now c es result (lc1, snd st)"
proof (cases "isManaged (fst st) c")
  case False
  then show ?thesis by (intro quiet) (simp add: onText_def receiveMessage_def)
next
  case managed: True
  let ?lc = "recordActivity c now (fst st)"
  have t: "onText env now c message st = handleAgentMessage env now c message (?lc, snd st)"
    using managed by (simp add: onText_def receiveMessage_def)
  have m: "isManaged ?lc c" "isAuthenticated ?lc c = isAuthenticated (fst st) c"
    using managed by (simp_all add: recordActivity_touch touch_authenticated)
  show ?thesis
  proof (cases message)
    case None
    with t show ?thesis by (intro quiet) (simp add: handleAgentMessage_def rejectInvalidMessage_def)
  next
    case (Some payload)
    show ?thesis
    proof (cases "isRecord payload")
      case None
      with t Some show ?thesis by (intro quiet) (simp add: handleAgentMessage_def rejectInvalidMessage_def)
    next
      case es: (Some es)
      show ?thesis
      proof (cases "map_of es ''type'' = Some (JStr ''agent.hello'')")
        case True
        show ?thesis
        proof (cases "parseAgentHelloEnvelope (hv_iso env) payload")
          case None
          with t Some es True show ?thesis by (intro quiet) (simp add: handleAgentMessage_def)
        next
          case (Some hello)
          with t \<open>message = Some payload\<close> es True managed show ?thesis
            by (intro hello [of payload es ?lc hello]) (simp_all add: handleAgentMessage_def)
        qed
      next
        case False
        show ?thesis
        proof (cases "isAuthenticated (fst st) c \<and> map_of es ''type'' = Some (JStr ''action.result'')
            \<and> parseActionResultEnvelope (hv_iso env) payload \<noteq> None")
          case True
          then obtain result where "parseActionResultEnvelope (hv_iso env) payload = Some result" by blast
          with t Some es False True m show ?thesis
            by (intro result [of payload es result ?lc]) (simp_all add: handleAgentMessage_def)
        next
          case r: False
          with t Some es False m show ?thesis
            by (intro quiet) (auto simp: handleAgentMessage_def rejectInvalidMessage_def split: option.splits)
        qed
      qed
    qed
  qed
qed

lemma getAgent_Some: "getAgent a s = Some agent \<Longrightarrow> ra_id agent = a"
  by (auto simp: getAgent_def agentFromRow_def find_Some_iff)

text \<open>
  C8: the live connection of an agent changes through a message only when the message is a hello that
  names the agent, is signed with the key the agent enrolled, is at most five minutes away from the
  server's clock and carries a nonce not remembered for the agent; the agent exists and is not revoked,
  and the connection that becomes live is the one the message came on.
\<close>

theorem live_connection_authenticated:
  assumes "live_conn (snd (onText env now c message st)) a \<noteq> live_conn (snd st) a"
  shows "live_conn (snd (onText env now c message st)) a = Some c \<and> isManaged (fst st) c \<and>
    (\<exists>payload es hello agent. message = Some payload \<and> isRecord payload = Some es \<and>
       parseAgentHelloEnvelope (hv_iso env) payload = Some hello \<and> he_agent_id hello = a \<and>
       hello_valid env now es hello agent (snd st))"
proof (cases rule: onText_cases [of env now c message st])
  case quiet
  with assms show ?thesis by simp
next
  case (hello payload es hello lc1)
  show ?thesis
  proof (cases rule: handleAgentHello_cases [of env now c es hello "(lc1, snd st)"])
    case refused
    with assms hello show ?thesis by simp
  next
    case refused_late
    with assms hello show ?thesis by simp
  next
    case (online agent lc2)
    have id: "ra_id agent = he_agent_id hello" using online(1) by (auto simp: hello_valid_def dest: getAgent_Some)
    have l: "live_conn (snd (onText env now c message st)) b = (if b = ra_id agent then Some c else live_conn (snd st) b)" for b
      using hello(7) online(4) by (simp add: go_online_live)
    with assms have "a = ra_id agent" by (auto split: if_splits)
    with l id hello online(1) show ?thesis by auto
  qed
next
  case (result payload es result lc1)
  with assms show ?thesis by simp
qed

text \<open>
  C9: a text message settles at most one action. It resolves one only with a result that names the
  action, comes from the action's own agent on that agent's live connection, is signed with the
  agent's key and carries a nonce the connection has not seen; and a settled action is not
  pending any more, so no action is settled twice.
\<close>

theorem action_settlement_exact:
  "\<exists>news. ah_settled (snd (onText env now c message st)) = ah_settled (snd st) @ news \<and>
     (news = [] \<and> ah_pending (snd (onText env now c message st)) = ah_pending (snd st) \<or>
      (\<exists>i outcome action. news = [(i, outcome)] \<and> map_get (ah_pending (snd st)) i = Some action \<and>
         ah_pending (snd (onText env now c message st)) = map_delete i (ah_pending (snd st)) \<and>
         (case outcome of
            Rejected _ _ \<Rightarrow> True
          | Resolved r \<Rightarrow> rt_action_id r = i \<and> rt_agent_id r = ar_agentId action \<and>
              live_conn (snd st) (ar_agentId action) = Some c \<and>
              (\<exists>payload es agent pk live. message = Some payload \<and> isRecord payload = Some es \<and>
                 parseActionResultEnvelope (hv_iso env) payload = Some r \<and>
                 getAgent (ar_agentId action) (ah_store (snd st)) = Some agent \<and> ra_publicKey agent = Some pk \<and>
                 verifyEnvelope (hv_verify env) es pk \<and>
                 live_of (snd st) (ar_agentId action) = Some live \<and>
                 \<not> fst (hasSeenNonce (rt_nonce r) now (al_seenNonces live))))))"
proof (cases rule: onText_cases [of env now c message st])
  case quiet
  then show ?thesis by simp
next
  case (hello payload es hello lc1)
  show ?thesis
  proof (cases rule: handleAgentHello_cases [of env now c es hello "(lc1, snd st)"])
    case (online agent lc2)
    with hello show ?thesis by simp
  qed (use hello in simp_all)
next
  case (result payload es result lc1)
  let ?st = "(lc1, snd st)"
  have msg: "message = Some payload" "isRecord payload = Some es"
    "parseActionResultEnvelope (hv_iso env) payload = Some result" using result by simp_all
  show ?thesis
  proof (cases "map_get (ah_pending (snd st)) (rt_action_id result)")
    case None
    with result show ?thesis by (simp add: handleActionResult_def)
  next
    case (Some action)
    let ?h' = "snd (handleActionResult env now c es result ?st)"
    have one: "\<exists>outcome. ah_settled ?h' = ah_settled (snd st) @ [(rt_action_id result, outcome)] \<and>
        ah_pending ?h' = map_delete (rt_action_id result) (ah_pending (snd st)) \<and>
        (case outcome of
           Rejected _ _ \<Rightarrow> True
         | Resolved r \<Rightarrow> r = result \<and> rt_agent_id r = ar_agentId action \<and>
             (\<exists>agent pk live. getAgent (rt_agent_id r) (ah_store (snd st)) = Some agent \<and> ra_publicKey agent = Some pk \<and>
                verifyEnvelope (hv_verify env) es pk \<and> live_of (snd st) (rt_agent_id r) = Some live \<and>
                al_connection live = c \<and> \<not> fst (hasSeenNonce (rt_nonce r) now (al_seenNonces live))))"
      using Some
      by (auto simp: handleActionResult_def Let_def rejectPendingAction_def settle_def set_live_def truthy_Some
          split: option.splits prod.splits)
    then obtain outcome where o: "ah_settled ?h' = ah_settled (snd st) @ [(rt_action_id result, outcome)]"
      "ah_pending ?h' = map_delete (rt_action_id result) (ah_pending (snd st))"
      "case outcome of
           Rejected _ _ \<Rightarrow> True
         | Resolved r \<Rightarrow> r = result \<and> rt_agent_id r = ar_agentId action \<and>
             (\<exists>agent pk live. getAgent (rt_agent_id r) (ah_store (snd st)) = Some agent \<and> ra_publicKey agent = Some pk \<and>
                verifyEnvelope (hv_verify env) es pk \<and> live_of (snd st) (rt_agent_id r) = Some live \<and>
                al_connection live = c \<and> \<not> fst (hasSeenNonce (rt_nonce r) now (al_seenNonces live)))"
      by blast
    have e: "snd (onText env now c message st) = ?h'" using result(6) by simp
    show ?thesis unfolding e o(1,2)
    proof (intro exI conjI disjI2)
      show "map_get (ah_pending (snd st)) (rt_action_id result) = Some action" by (rule Some)
      show "case outcome of
            Rejected _ _ \<Rightarrow> True
          | Resolved r \<Rightarrow> rt_action_id r = rt_action_id result \<and> rt_agent_id r = ar_agentId action \<and>
              live_conn (snd st) (ar_agentId action) = Some c \<and>
              (\<exists>payload es agent pk live. message = Some payload \<and> isRecord payload = Some es \<and>
                 parseActionResultEnvelope (hv_iso env) payload = Some r \<and>
                 getAgent (ar_agentId action) (ah_store (snd st)) = Some agent \<and> ra_publicKey agent = Some pk \<and>
                 verifyEnvelope (hv_verify env) es pk \<and>
                 live_of (snd st) (ar_agentId action) = Some live \<and>
                 \<not> fst (hasSeenNonce (rt_nonce r) now (al_seenNonces live)))"
        using o(3) msg by (auto simp: live_conn_def split: settlement.splits)
    qed (rule refl)+
  qed
qed

subsection \<open>A hello is accepted once while its nonce is remembered\<close>

definition hello_held :: "handler \<Rightarrow> string \<Rightarrow> string \<Rightarrow> int \<Rightarrow> bool" where
  "hello_held h a n e \<longleftrightarrow> map_get (hello_window h a) n = Some e"

lemma map_of_filter_hit: "map_of w n = Some e \<Longrightarrow> P (n, e) \<Longrightarrow> map_of (filter P w) n = Some e"
  by (induction w) (auto split: if_splits)

lemma map_of_map_filter_hit:
  assumes "\<And>k v q. f (k, v) = Some q \<Longrightarrow> fst q = k" and "map_of m a = Some w" and "f (a, w) = Some (a, w')"
  shows "map_of (List.map_filter f m) a = Some w'"
  using assms(2,3)
proof (induction m)
  case (Cons p m)
  obtain k v where p: "p = (k, v)" by (cases p)
  show ?case
  proof (cases "k = a")
    case True
    with Cons.prems show ?thesis by (simp add: p map_filter_simps)
  next
    case False
    have "fst q = k" if "f (k, v) = Some q" for q using assms(1) that by blast
    with False Cons show ?thesis by (cases "f (k, v)") (auto simp: p map_filter_simps prod_eq_iff)
  qed
qed simp

lemma held_cleanup: "hello_held h a n e \<Longrightarrow> now < e \<Longrightarrow> hello_held (cleanupEphemeralState now h) a n e"
proof -
  assume held: "hello_held h a n e" and now: "now < e"
  then obtain w where w: "map_get (ah_helloNonces h) a = Some w" "map_of w n = Some e"
    by (auto simp: hello_held_def hello_window_def split: option.splits)
  have p: "map_of (pruneNonceWindow now w) n = Some e"
    using w(2) now by (simp add: pruneNonceWindow_def prune_window_def map_of_filter_hit)
  then have "pruneNonceWindow now w \<noteq> []" by auto
  then have "prune_entry now (a, w) = Some (a, pruneNonceWindow now w)" by (simp add: prune_entry_def Let_def)
  then have "map_get (ah_helloNonces (cleanupEphemeralState now h)) a = Some (pruneNonceWindow now w)"
    using w(1) map_of_map_filter_hit [of "prune_entry now" "ah_helloNonces h" a w "pruneNonceWindow now w"]
    by (simp add: cleanupEphemeralState_def) (force simp: prune_entry_def Let_def split: if_splits)
  with p show ?thesis by (simp add: hello_held_def hello_window_def)
qed

lemma held_remember:
  "hello_held h a n e \<Longrightarrow> map_get (hello_window h (ra_id agent)) (he_nonce hello) = None \<Longrightarrow>
   hello_held (remember_hello now agent hello h) a n e"
  by (auto simp: hello_held_def hello_window_def remember_hello_def jsmap_simps split: option.splits if_splits)

lemma helloNonces_rest [simp]:
  "ah_helloNonces (snd (go_online now c hello agent existing st)) = ah_helloNonces (snd st)"
  "ah_helloNonces (snd (handleActionResult env now c es result st)) = ah_helloNonces (snd st)"
  by (auto simp: go_online_def handleActionResult_def Let_def rejectPendingAction_def settle_def set_live_def
      split: sum.splits option.splits prod.splits)

lemma held_cong: "ah_helloNonces h' = ah_helloNonces h \<Longrightarrow> hello_held h' = hello_held h"
  by (simp add: fun_eq_iff hello_held_def hello_window_def)

lemma held_text:
  assumes held: "hello_held (snd st) a n e" and now: "now < e"
  shows "hello_held (snd (onText env now c message st)) a n e"
proof (cases rule: onText_cases [of env now c message st])
  case quiet
  with held show ?thesis by simp
next
  case (hello payload es hello lc1)
  show ?thesis
  proof (cases rule: handleAgentHello_cases [of env now c es hello "(lc1, snd st)"])
    case refused
    with hello held show ?thesis by simp
  next
    case refused_late
    with hello held_cleanup [OF held now] show ?thesis by simp
  next
    case (online agent lc2)
    have "map_get (hello_window (cleanupEphemeralState now (snd st)) (ra_id agent)) (he_nonce hello) = None"
      using online(1) by (simp add: hello_valid_def)
    from held_remember [OF held_cleanup [OF held now] this] show ?thesis
      using hello(7) online(4) by (simp add: held_cong [of "snd (go_online _ _ _ _ _ _)"])
  qed
next
  case (result payload es result lc1)
  with held show ?thesis by (simp add: held_cong [of "snd (handleActionResult _ _ _ _ _ _)"])
qed

lemma held_not_valid:
  assumes "hello_held h (ra_id agent) (he_nonce hello) e" and "now < e"
  shows "\<not> hello_valid env now es hello agent h"
  using held_cleanup [OF assms] by (simp add: hello_valid_def hello_held_def)

fun run_texts :: "handler_env \<Rightarrow> (int \<times> conn \<times> json option) list \<Rightarrow> agent_state \<Rightarrow> agent_state" where
  "run_texts env [] st = st"
| "run_texts env ((now, c, message) # rest) st = run_texts env rest (onText env now c message st)"

lemma held_after_texts:
  "hello_held (snd st) a n e \<Longrightarrow> \<forall>m \<in> set ms. fst m < e \<Longrightarrow> hello_held (snd (run_texts env ms st)) a n e"
  by (induction env ms st rule: run_texts.induct) (auto simp: held_text)

lemma accepted_hello_held:
  assumes live: "live_conn (snd (onText env now c message st)) a \<noteq> live_conn (snd st) a"
    and m: "message = Some payload" and p: "parseAgentHelloEnvelope (hv_iso env) payload = Some hello"
  shows "hello_held (snd (onText env now c message st)) a (he_nonce hello) (now + AGENT_NONCE_TTL_MS)"
proof (cases rule: onText_cases [of env now c message st])
  case quiet
  with live show ?thesis by simp
next
  case (hello payload' es hello' lc1)
  with m p have same: "hello' = hello" by simp
  show ?thesis
  proof (cases rule: handleAgentHello_cases [of env now c es hello' "(lc1, snd st)"])
    case refused
    with live hello show ?thesis by simp
  next
    case refused_late
    with live hello show ?thesis by simp
  next
    case (online agent lc2)
    have "live_conn (snd (onText env now c message st)) b = (if b = ra_id agent then Some c else live_conn (snd st) b)" for b
      using hello(7) online(4) by (simp add: go_online_live)
    with live have a: "a = ra_id agent" by (auto split: if_splits)
    have "hello_held (remember_hello now agent hello h) a (he_nonce hello) (now + AGENT_NONCE_TTL_MS)" for h
      by (simp add: hello_held_def hello_window_def remember_hello_def jsmap_simps a)
    then show ?thesis
      using hello(7) online(4) same by (simp add: held_cong [of "snd (go_online _ _ _ _ _ _)"])
  qed
next
  case (result payload es result lc1)
  with live show ?thesis by simp
qed

text \<open>
  Once a hello has made a connection live, no hello with its nonce is valid for the agent for the next
  five minutes, whatever messages arrive meanwhile.
\<close>

theorem hello_single_use:
  assumes "live_conn (snd (onText env t c (Some payload) st)) a \<noteq> live_conn (snd st) a"
    and "parseAgentHelloEnvelope (hv_iso env) payload = Some hello"
    and "\<forall>m \<in> set ms. fst m < t + 300000" and "t' < t + 300000"
    and "ra_id agent = a" and "he_nonce hello' = he_nonce hello"
  shows "\<not> hello_valid env t' es hello' agent (snd (run_texts env ms (onText env t c (Some payload) st)))"
proof -
  have e: "t + AGENT_NONCE_TTL_MS = t + 300000" by (simp add: AGENT_NONCE_TTL_MS_def)
  have "hello_held (snd (onText env t c (Some payload) st)) a (he_nonce hello) (t + 300000)"
    using accepted_hello_held [OF assms(1) refl assms(2)] by (simp only: e)
  from held_after_texts [OF this assms(3)] show ?thesis
    using held_not_valid [of _ agent hello' "t + 300000" t'] assms(4,5,6) by simp
qed

text \<open>A concrete agent, connection and signed hello.\<close>

definition demo_agent :: remote_agent where
  "demo_agent = \<lparr> ra_id = ''agt_1'', ra_userId = ''u'', ra_alias = ''a'', ra_status = Offline, ra_publicKey = Some ''PK'',
     ra_profile = ReadOnly, ra_policy = createAgentPolicy ReadOnly, ra_policyVersion = 1, ra_hostMetadata = None,
     ra_lastSeenAt = None, ra_createdAt = 0, ra_updatedAt = 0 \<rparr>"

definition demo_config :: lifecycle_config where
  "demo_config = \<lparr> lcc_helloTimeoutMs = None, lcc_heartbeatIntervalMs = None, lcc_idleTimeoutMs = None,
     lcc_maxConnections = None, lcc_maxConnectionsPerAgent = None \<rparr>"

definition demo_state :: agent_state where
  "demo_state =
     (snd (attach 8 0 (snd (attach 7 0 (newLifecycle demo_config)))),
      \<lparr> ah_store = empty_store\<lparr> rs_agents := [demo_agent] \<rparr>, ah_connections = [], ah_helloNonces = [],
        ah_pending = [], ah_settled = [] \<rparr>)"

definition demo_env :: handler_env where
  "demo_env = \<lparr> hv_iso = (\<lambda>_. True), hv_date_ms = (\<lambda>s. if s = ''1970-01-01T00:05:00Z'' then Some 300000 else None), hv_verify = (\<lambda>_ _ _. True) \<rparr>"

definition demo_host :: json where
  "demo_host = JObj [(''hostname'', JStr ''h''), (''os'', JStr ''Linux''), (''arch'', JStr ''x64''), (''platform'', JStr ''linux'')]"

definition demo_hello :: json where
  "demo_hello = JObj [(''type'', JStr ''agent.hello''), (''agent_id'', JStr ''agt_1''), (''timestamp'', JStr ''1970-01-01T00:05:00Z''),
     (''nonce'', JStr ''0123456789abcdef''), (''capabilities'', JArr []), (''agent_version'', JStr ''1''),
     (''host'', demo_host), (''signature'', JStr ''sig'')]"

lemma demo_parse:
  "parseAgentHelloEnvelope (hv_iso demo_env) demo_hello =
     Some \<lparr> he_agent_id = ''agt_1'', he_timestamp = ''1970-01-01T00:05:00Z'', he_nonce = ''0123456789abcdef'', he_capabilities = [],
            he_agent_version = ''1'',
            he_host = \<lparr> hm_hostname = ''h'', hm_os = ''Linux'', hm_arch = ''x64'', hm_platform = ''linux'' \<rparr> \<rparr>"
  by code_simp

lemma demo_first_hello: "live_conn (snd (onText demo_env 0 7 (Some demo_hello) demo_state)) ''agt_1'' = Some 7"
  by code_simp

lemma demo_not_live: "live_conn (snd demo_state) a = None"
  by (simp add: demo_state_def live_conn_def live_of_def)

theorem hello_single_use_witness:
  "\<not> hello_valid demo_env 299999 []
     \<lparr> he_agent_id = ''agt_1'', he_timestamp = ''1970-01-01T00:05:00Z'', he_nonce = ''0123456789abcdef'', he_capabilities = [],
       he_agent_version = ''1'',
       he_host = \<lparr> hm_hostname = ''h'', hm_os = ''Linux'', hm_arch = ''x64'', hm_platform = ''linux'' \<rparr> \<rparr>
     demo_agent (snd (run_texts demo_env [] (onText demo_env 0 7 (Some demo_hello) demo_state)))"
proof (rule hello_single_use [of _ _ _ _ _ "''agt_1''", OF _ demo_parse])
  show "live_conn (snd (onText demo_env 0 7 (Some demo_hello) demo_state)) ''agt_1'' \<noteq> live_conn (snd demo_state) ''agt_1''"
    by (simp add: demo_first_hello demo_not_live)
qed (simp_all add: demo_agent_def)

theorem live_connection_authenticated_witness:
  "live_conn (snd (onText demo_env 0 7 (Some demo_hello) demo_state)) ''agt_1'' = Some 7 \<and> isManaged (fst demo_state) 7"
  using live_connection_authenticated [of demo_env 0 7 "Some demo_hello" demo_state "''agt_1''"]
  by (simp add: demo_first_hello demo_not_live)

text \<open>
  The nonce is remembered for five minutes from the server's clock, while a hello stays on time for five
  minutes from its own timestamp. A hello whose timestamp lies five minutes ahead is accepted, and
  the very same message is accepted again on another connection once its nonce is forgotten: the
  replayed message takes the live connection over.
\<close>

lemma hello_replayed_after_expiry:
  "live_conn (snd (onText demo_env 0 7 (Some demo_hello) demo_state)) ''agt_1'' = Some 7 \<and>
   live_conn (snd (onText demo_env 300000 8 (Some demo_hello) (onText demo_env 0 7 (Some demo_hello) demo_state))) ''agt_1'' = Some 8"
  by code_simp

end
