(* ===== verification/RemoteConfig.thy ===== *)
theory RemoteConfig
  imports RemotePolicy
begin

section \<open>Settings of the control plane: \<open>src/remote/config.ts\<close>\<close>

text \<open>
  The settings are read from environment variables, here a function from names to optional values.
  \<open>Number.parseInt\<close> reads white space, a sign and digits up to the first other character; the numbers
  it would round are those of more than fifteen digits.
\<close>

definition parseBoolean :: "string option \<Rightarrow> bool \<Rightarrow> bool" where
  "parseBoolean v fallback =
     (case v of None \<Rightarrow> fallback | Some s \<Rightarrow> to_lower s \<in> {''1'', ''true'', ''yes'', ''on''})"

definition js_parse_int :: "string \<Rightarrow> int option" where
  "js_parse_int s =
     (let t = trim_start s;
          negative = prefix ''-'' t;
          body = (if negative \<or> prefix ''+'' t then drop 1 t else t);
          digits = takeWhile is_digit body
      in if digits = [] then None else Some ((if negative then -1 else 1) * int (num_of_digits digits)))"

definition parseInteger :: "string option \<Rightarrow> int \<Rightarrow> int" where
  "parseInteger v fallback =
     (case v of None \<Rightarrow> fallback
      | Some s \<Rightarrow> (case js_parse_int s of None \<Rightarrow> fallback | Some parsed \<Rightarrow> parsed))"

definition parseBoundedInteger :: "string option \<Rightarrow> int \<Rightarrow> int \<Rightarrow> int \<Rightarrow> int" where
  "parseBoundedInteger v fallback minimum maximum =
     (let parsed = parseInteger v fallback in if parsed \<ge> minimum \<and> parsed \<le> maximum then parsed else fallback)"

definition stripTrailingSlash :: "string \<Rightarrow> string" where
  "stripTrailingSlash v = rev (dropWhile (\<lambda>c. c = CHR ''/'') (rev v))"

record remote_config =
  rc_enabled :: bool
  rc_publicBaseUrl :: string
  rc_mcpResourceUrl :: string
  rc_databaseUrl :: string
  rc_githubClientId :: "string option"
  rc_githubClientSecret :: "string option"
  rc_githubCallbackUrl :: string
  rc_googleClientId :: "string option"
  rc_googleClientSecret :: "string option"
  rc_googleCallbackUrl :: string
  rc_allowAllUsers :: bool
  rc_allowedGitHubLogins :: "string list"
  rc_allowedGitHubIds :: "string list"
  rc_allowedGoogleEmails :: "string list"
  rc_allowedGoogleSubIds :: "string list"
  rc_accessTokenTtlSeconds :: int
  rc_authCodeTtlSeconds :: int
  rc_enrollmentTokenTtlSeconds :: int
  rc_controlPlaneSigningKeyPath :: string
  rc_jwtSigningKeyPath :: string
  rc_agentWsPath :: string
  rc_agentHelloTimeoutMs :: "int option"
  rc_agentHeartbeatIntervalMs :: "int option"
  rc_agentIdleTimeoutMs :: "int option"
  rc_maxAgentConnections :: "int option"
  rc_maxAgentConnectionsPerAgent :: "int option"
  rc_maxActionTimeoutSeconds :: int
  rc_maxOutputBytes :: int
  rc_maxOAuthClients :: int

text \<open>\<open>a ?? b ?? d\<close>.\<close>

definition first_of :: "string option list \<Rightarrow> string \<Rightarrow> string" where
  "first_of vs d = (case List.map_filter id vs of [] \<Rightarrow> d | v # _ \<Rightarrow> v)"

definition either_set :: "string option \<Rightarrow> string option \<Rightarrow> string option" where
  "either_set a b = (case a of None \<Rightarrow> b | Some _ \<Rightarrow> a)"

definition loadRemoteConfig :: "(string \<Rightarrow> string option) \<Rightarrow> remote_config" where
  "loadRemoteConfig env =
     (let publicBaseUrl = stripTrailingSlash
            (first_of [env ''PUBLIC_BASE_URL'', env ''SSHAUTOMATOR_PUBLIC_BASE_URL''] ''http://localhost:3000'');
          agentHeartbeatIntervalMs = parseBoundedInteger (env ''AGENT_WS_HEARTBEAT_INTERVAL_MS'') 30000 1000 300000;
          requestedAgentIdleTimeoutMs = parseBoundedInteger (env ''AGENT_WS_IDLE_TIMEOUT_MS'') 90000 2000 900000;
          agentIdleTimeoutMs = (if requestedAgentIdleTimeoutMs \<ge> agentHeartbeatIntervalMs * 2
            then requestedAgentIdleTimeoutMs else max 90000 (agentHeartbeatIntervalMs * 2))
      in \<lparr> rc_enabled = parseBoolean (either_set (env ''SSH_MCP_REMOTE_AGENT_CONTROL_PLANE'')
             (env ''SSHAUTOMATOR_REMOTE_AGENT_CONTROL_PLANE'')) False,
           rc_publicBaseUrl = publicBaseUrl,
           rc_mcpResourceUrl = first_of [env ''MCP_RESOURCE_URL'', env ''SSHAUTOMATOR_MCP_RESOURCE_URL'']
             (publicBaseUrl @ ''/mcp''),
           rc_databaseUrl = first_of [env ''DATABASE_URL'', env ''SSHAUTOMATOR_DATABASE_URL'']
             ''file:./data/sshautomator.db'',
           rc_githubClientId = env ''GITHUB_CLIENT_ID'',
           rc_githubClientSecret = env ''GITHUB_CLIENT_SECRET'',
           rc_githubCallbackUrl = first_of [env ''GITHUB_CALLBACK_URL'', env ''SSHAUTOMATOR_GITHUB_CALLBACK_URL'']
             (publicBaseUrl @ ''/oauth/callback/github''),
           rc_googleClientId = env ''GOOGLE_CLIENT_ID'',
           rc_googleClientSecret = env ''GOOGLE_CLIENT_SECRET'',
           rc_googleCallbackUrl = first_of [env ''GOOGLE_CALLBACK_URL'', env ''SSHAUTOMATOR_GOOGLE_CALLBACK_URL'']
             (publicBaseUrl @ ''/oauth/callback/google''),
           rc_allowAllUsers = parseBoolean (env ''AUTH_ALLOW_ALL_USERS'') False,
           rc_allowedGitHubLogins = parseList (env ''AUTH_ALLOWED_GITHUB_LOGINS''),
           rc_allowedGitHubIds = parseList (env ''AUTH_ALLOWED_GITHUB_IDS''),
           rc_allowedGoogleEmails = parseList (env ''AUTH_ALLOWED_GOOGLE_EMAILS''),
           rc_allowedGoogleSubIds = parseList (env ''AUTH_ALLOWED_GOOGLE_SUB_IDS''),
           rc_accessTokenTtlSeconds = parseInteger (env ''ACCESS_TOKEN_TTL_SECONDS'') 900,
           rc_authCodeTtlSeconds = parseInteger (env ''AUTH_CODE_TTL_SECONDS'') 300,
           rc_enrollmentTokenTtlSeconds = parseInteger (env ''ENROLLMENT_TOKEN_TTL_SECONDS'') 600,
           rc_controlPlaneSigningKeyPath = first_of [env ''CONTROL_PLANE_SIGNING_KEY_PATH'']
             ''data/control-plane-ed25519.json'',
           rc_jwtSigningKeyPath = first_of [env ''JWT_SIGNING_KEY_PATH''] ''data/jwt-ed25519.json'',
           rc_agentWsPath = first_of [env ''AGENT_WS_PATH''] ''/api/agents/connect'',
           rc_agentHelloTimeoutMs = Some (parseBoundedInteger (env ''AGENT_WS_HELLO_TIMEOUT_MS'') 10000 1000 60000),
           rc_agentHeartbeatIntervalMs = Some agentHeartbeatIntervalMs,
           rc_agentIdleTimeoutMs = Some agentIdleTimeoutMs,
           rc_maxAgentConnections = Some (parseBoundedInteger (env ''AGENT_WS_MAX_CONNECTIONS'') 128 1 10000),
           rc_maxAgentConnectionsPerAgent =
             Some (parseBoundedInteger (env ''AGENT_WS_MAX_CONNECTIONS_PER_AGENT'') 2 1 16),
           rc_maxActionTimeoutSeconds = parseInteger (env ''MAX_ACTION_TIMEOUT_SECONDS'') 120,
           rc_maxOutputBytes = parseInteger (env ''MAX_OUTPUT_BYTES'') 200000,
           rc_maxOAuthClients = parseInteger (env ''OAUTH_DCR_MAX_CLIENTS'') 100 \<rparr>)"

subsection \<open>Bounds\<close>

lemma parseBoundedInteger_range:
  "minimum \<le> fallback \<Longrightarrow> fallback \<le> maximum \<Longrightarrow>
   minimum \<le> parseBoundedInteger v fallback minimum maximum \<and> parseBoundedInteger v fallback minimum maximum \<le> maximum"
  by (simp add: parseBoundedInteger_def Let_def)

lemma parseBoundedInteger_decimal:
  "minimum \<le> int n \<Longrightarrow> int n \<le> maximum \<Longrightarrow> parseBoundedInteger (Some (show_nat n)) fallback minimum maximum = int n"
proof -
  assume b: "minimum \<le> int n" "int n \<le> maximum"
  have "hd (show_nat n) \<in> set (show_nat n)" by simp
  then have h: "is_digit (hd (show_nat n))" by (rule show_nat_digits)
  then obtain c t where s: "show_nat n = c # t" "is_digit c" by (cases "show_nat n") auto
  have "\<not> is_digit CHR ''-''" "\<not> is_digit CHR ''+''" by (simp_all add: is_digit_def char_between_def)
  with s have "trim_start (show_nat n) = show_nat n" "\<not> prefix ''-'' (show_nat n)" "\<not> prefix ''+'' (show_nat n)"
    using is_digit_not_ws [OF s(2)] by (auto simp: trim_start_def)
  moreover have tw: "takeWhile is_digit (show_nat n) = show_nat n" using takeWhile_eq_all_conv show_nat_digits by blast
  ultimately have "js_parse_int (show_nat n) = Some (int n)" by (simp add: js_parse_int_def Let_def tw)
  with b show ?thesis by (simp add: parseBoundedInteger_def parseInteger_def)
qed

text \<open>
  Whatever the environment says, the timers and limits of agent connections stay in their ranges and an
  idle connection gets at least two heartbeats before it is closed; and no variable that is unset grants
  access to all users or switches the control plane on.
\<close>

theorem remote_limits_in_range:
  "\<exists>hello heartbeat idle connections per_agent.
     rc_agentHelloTimeoutMs (loadRemoteConfig env) = Some hello \<and> hello \<in> {1000..60000} \<and>
     rc_agentHeartbeatIntervalMs (loadRemoteConfig env) = Some heartbeat \<and> heartbeat \<in> {1000..300000} \<and>
     rc_agentIdleTimeoutMs (loadRemoteConfig env) = Some idle \<and> idle \<in> {2 * heartbeat..900000} \<and>
     rc_maxAgentConnections (loadRemoteConfig env) = Some connections \<and> connections \<in> {1..10000} \<and>
     rc_maxAgentConnectionsPerAgent (loadRemoteConfig env) = Some per_agent \<and> per_agent \<in> {1..16} \<and>
     (rc_allowAllUsers (loadRemoteConfig env) \<longleftrightarrow>
        (\<exists>v. env ''AUTH_ALLOW_ALL_USERS'' = Some v \<and> to_lower v \<in> {''1'', ''true'', ''yes'', ''on''}))"
proof -
  note range = parseBoundedInteger_range
  show ?thesis
    using range [of 1000 10000 60000 "env ''AGENT_WS_HELLO_TIMEOUT_MS''"]
      range [of 1000 30000 300000 "env ''AGENT_WS_HEARTBEAT_INTERVAL_MS''"]
      range [of 2000 90000 900000 "env ''AGENT_WS_IDLE_TIMEOUT_MS''"]
      range [of 1 128 10000 "env ''AGENT_WS_MAX_CONNECTIONS''"]
      range [of 1 2 16 "env ''AGENT_WS_MAX_CONNECTIONS_PER_AGENT''"]
    by (simp add: loadRemoteConfig_def Let_def parseBoolean_def max_def split: option.splits)
qed

end
