(* ===== verification/OAuthFlow.thy ===== *)
theory OAuthFlow
  imports Envelopes RemoteConfig
begin

section \<open>Authorization codes and access tokens: \<open>src/remote/oauth-handler.ts\<close>\<close>

text \<open>
  The control plane is an OAuth server for MCP clients: a client registers, sends the browser to
  \<open>authorize\<close>, the user approves, an identity provider calls back, and the client redeems a code for an access
  token with the verifier of its PKCE challenge. Random values, the clock, the digest, Node's \<open>URL\<close>
  parser, the identity provider's answer and the JWT library are arguments. A request returns
  what it sends or throws, with the new state. Pages are the fact that they are shown.
\<close>

subsection \<open>State and environment\<close>

record url_parts =
  url_protocol :: string
  url_hostname :: string

record oauth_env =
  oe_sha256 :: "string \<Rightarrow> string"
  oe_url :: "string \<Rightarrow> url_parts option"
  oe_vars :: "string \<Rightarrow> string option"

record pending_authorize =
  pz_clientId :: string
  pz_redirectUri :: string
  pz_codeChallenge :: string
  pz_resource :: string
  pz_scope :: string
  pz_state :: string
  pz_expiresAt :: int
  pz_approved :: bool

record registration_window =
  rw_count :: nat
  rw_expiresAt :: int

record oauth_state =
  os_attempts :: "(string, registration_window) jsmap"
  os_transactions :: "(string, pending_authorize) jsmap"
  os_store :: "action_result remote_store"

datatype http_throw = SafeError safe_error | StoreError store_error

definition throw_safe :: "remote_error_code \<Rightarrow> string \<Rightarrow> int \<Rightarrow> http_throw" where
  "throw_safe code message status = SafeError (safeError code message status)"

definition audit_row :: "int \<Rightarrow> audit_input \<Rightarrow> 'r remote_store \<Rightarrow> 'r remote_store" where
  "audit_row now e s = insertAudit
     \<lparr> ae_userId = ae_userId e, ae_agentId = ae_agentId e, ae_actionId = ae_actionId e, ae_eventType = ae_eventType e,
       ae_severity = ae_severity e, ae_createdAt = now \<rparr> s"

definition os_audit :: "int \<Rightarrow> string option \<Rightarrow> string \<Rightarrow> oauth_state \<Rightarrow> oauth_state" where
  "os_audit now userId eventType st =
     st\<lparr> os_store := audit_row now (audit_note userId None eventType SevInfo) (os_store st) \<rparr>"

subsection \<open>Clients and redirect URIs\<close>

definition isSafeRedirectUri :: "oauth_env \<Rightarrow> string \<Rightarrow> bool" where
  "isSafeRedirectUri env uri =
     (case oe_url env uri of
        None \<Rightarrow> False
      | Some parsed \<Rightarrow>
          if url_protocol parsed = ''https:'' then True
          else url_protocol parsed = ''http:'' \<and> url_hostname parsed \<in> {''localhost'', ''127.0.0.1'', ''::1''})"

definition newClient :: "string \<Rightarrow> string \<Rightarrow> string \<Rightarrow> string list \<Rightarrow> int \<Rightarrow> oauth_client" where
  "newClient rowId clientId clientName redirectUris now =
     \<lparr> oc_id = rowId, oc_clientId = clientId, oc_clientName = clientName, oc_redirectUris = redirectUris,
       oc_grantTypes = [''authorization_code''], oc_responseTypes = [''code''], oc_createdAt = now \<rparr>"

definition asStringArray :: "json option \<Rightarrow> string list" where
  "asStringArray v =
     (case v of Some (JArr items) \<Rightarrow> List.map_filter (\<lambda>i. case i of JStr s \<Rightarrow> Some s | _ \<Rightarrow> None) items | _ \<Rightarrow> [])"

definition handleRegister ::
    "oauth_env \<Rightarrow> remote_config \<Rightarrow> int \<Rightarrow> string \<Rightarrow> string \<Rightarrow> string \<Rightarrow> entries \<Rightarrow> oauth_state \<Rightarrow>
     (http_throw + oauth_client) \<times> oauth_state" where
  "handleRegister env config now peer rowId clientId body st =
     (let redirectUris = asStringArray (map_of body ''redirect_uris'')
      in if redirectUris = [] \<or> list_ex (\<lambda>uri. \<not> isSafeRedirectUri env uri) redirectUris then
           (Inl (throw_safe INVALID_REDIRECT_URI ''redirect_uris must contain HTTPS URLs or localhost HTTP URLs'' 400), st)
         else
           let window = (case map_get (os_attempts st) peer of
                 Some previous \<Rightarrow> if rw_expiresAt previous > now then previous
                                  else \<lparr> rw_count = 0, rw_expiresAt = now + 300000 \<rparr>
               | None \<Rightarrow> \<lparr> rw_count = 0, rw_expiresAt = now + 300000 \<rparr>)
           in if rw_count window \<ge> 20 then
                (Inl (throw_safe FORBIDDEN ''OAuth client registration rate limit reached'' 429), st)
              else
                let st1 = st\<lparr> os_attempts := map_set peer (window\<lparr> rw_count := Suc (rw_count window) \<rparr>) (os_attempts st) \<rparr>
                in if int (countOAuthClients (os_store st1)) \<ge> rc_maxOAuthClients config then
                     (Inl (throw_safe FORBIDDEN ''OAuth client registration limit reached'' 429), st1)
                   else
                     let client = newClient rowId clientId
                           (case asString (map_of body ''client_name'') of None \<Rightarrow> ''ChatGPT Connector'' | Some n \<Rightarrow> n)
                           redirectUris now
                     in case insertClient client (os_store st1) of
                          Inl e \<Rightarrow> (Inl (StoreError e), st1)
                        | Inr s \<Rightarrow> (Inr client, os_audit now None ''oauth_client_registered'' (st1\<lparr> os_store := s \<rparr>)))"

definition chatgpt_client_id :: "string \<Rightarrow> bool" where
  "chatgpt_client_id clientId \<longleftrightarrow>
     prefix ''cli_'' clientId \<and> drop 4 clientId \<noteq> [] \<and>
     list_all (\<lambda>c. is_alpha c \<or> is_digit c \<or> c = CHR ''_'' \<or> c = CHR ''-'') (drop 4 clientId)"

definition chatgpt_host :: "oauth_env \<Rightarrow> string \<Rightarrow> bool" where
  "chatgpt_host env uri \<longleftrightarrow>
     (case oe_url env uri of None \<Rightarrow> False | Some u \<Rightarrow> url_hostname u \<in> {''chatgpt.com'', ''chat.openai.com''})"

definition restoreChatGptClient ::
    "oauth_env \<Rightarrow> int \<Rightarrow> string \<Rightarrow> string \<Rightarrow> string \<Rightarrow> oauth_state \<Rightarrow> (http_throw + oauth_client option) \<times> oauth_state" where
  "restoreChatGptClient env now rowId clientId redirectUri st =
     (if \<not> chatgpt_client_id clientId \<or> \<not> isSafeRedirectUri env redirectUri then (Inr None, st)
      else if \<not> chatgpt_host env redirectUri then (Inr None, st)
      else let client = newClient rowId clientId ''Restored ChatGPT Connector'' [redirectUri] now
        in case insertClient client (os_store st) of
             Inl e \<Rightarrow> (Inl (StoreError e), st)
           | Inr s \<Rightarrow> (Inr (Some client), os_audit now None ''oauth_client_restored'' (st\<lparr> os_store := s \<rparr>)))"

definition addChatGptRedirectUri ::
    "oauth_env \<Rightarrow> int \<Rightarrow> oauth_client \<Rightarrow> string \<Rightarrow> oauth_state \<Rightarrow> oauth_client option \<times> oauth_state" where
  "addChatGptRedirectUri env now client redirectUri st =
     (if \<not> isSafeRedirectUri env redirectUri then (None, st)
      else if \<not> chatgpt_host env redirectUri then (None, st)
      else let updatedUris = oc_redirectUris client @ [redirectUri]
        in (Some (client\<lparr> oc_redirectUris := updatedUris \<rparr>),
            os_audit now None ''oauth_client_restored''
              (st\<lparr> os_store := updateClientRedirectUris (oc_clientId client) updatedUris (os_store st) \<rparr>)))"

record authorize_request =
  az_clientId :: string
  az_redirectUri :: string
  az_responseType :: string
  az_codeChallenge :: string
  az_codeChallengeMethod :: string
  az_state :: string
  az_resource :: string
  az_scope :: string

text \<open>The client of the request, restored or extended when its redirect URI is one of ChatGPT's.\<close>

definition authorize_client ::
    "oauth_env \<Rightarrow> int \<Rightarrow> string \<Rightarrow> authorize_request \<Rightarrow> oauth_state \<Rightarrow> (http_throw + oauth_client option) \<times> oauth_state" where
  "authorize_client env now rowId rq st =
     (case getClient (az_clientId rq) (os_store st) of
        None \<Rightarrow> restoreChatGptClient env now rowId (az_clientId rq) (az_redirectUri rq) st
      | Some client \<Rightarrow>
          if az_redirectUri rq \<notin> set (oc_redirectUris client) then
            (case addChatGptRedirectUri env now client (az_redirectUri rq) st of
               (None, st1) \<Rightarrow> (Inr (Some client), st1)
             | (Some extended, st1) \<Rightarrow> (Inr (Some extended), st1))
          else (Inr (Some client), st))"

definition validateAuthorizeParams ::
    "oauth_env \<Rightarrow> remote_config \<Rightarrow> int \<Rightarrow> string \<Rightarrow> authorize_request \<Rightarrow> oauth_state \<Rightarrow> (http_throw + unit) \<times> oauth_state" where
  "validateAuthorizeParams env config now rowId rq st =
     (case authorize_client env now rowId rq st of
        (Inl e, st1) \<Rightarrow> (Inl e, st1)
      | (Inr None, st1) \<Rightarrow> (Inl (throw_safe INVALID_CLIENT ''Unknown client_id'' 400), st1)
      | (Inr (Some client), st1) \<Rightarrow>
          (if az_redirectUri rq \<notin> set (oc_redirectUris client) \<or> \<not> isSafeRedirectUri env (az_redirectUri rq) then
             Inl (throw_safe INVALID_REDIRECT_URI ''redirect_uri is not registered'' 400)
           else if az_responseType rq \<noteq> ''code'' then Inl (throw_safe INVALID_CLIENT ''response_type must be code'' 400)
           else if az_codeChallenge rq = [] \<or> az_codeChallengeMethod rq \<noteq> ''S256'' then
             Inl (throw_safe PKCE_VALIDATION_FAILED ''PKCE S256 is required'' 400)
           else if az_resource rq \<noteq> rc_mcpResourceUrl config then
             Inl (throw_safe INVALID_TOKEN ''resource must match MCP resource URL'' 400)
           else case scopeList (az_scope rq) of Inl e \<Rightarrow> Inl (SafeError e) | Inr _ \<Rightarrow> Inr (), st1))"

subsection \<open>Users\<close>

record github_user =
  gh_id :: string
  gh_login :: string

record google_user =
  go_id :: string
  go_email :: string
  go_name :: string

definition isGitHubUserAllowed :: "remote_config \<Rightarrow> github_user \<Rightarrow> bool" where
  "isGitHubUserAllowed config user =
     (rc_allowAllUsers config \<or> gh_id user \<in> set (rc_allowedGitHubIds config) \<or>
      gh_login user \<in> set (rc_allowedGitHubLogins config))"

definition isGoogleUserAllowed :: "remote_config \<Rightarrow> google_user \<Rightarrow> bool" where
  "isGoogleUserAllowed config user =
     (rc_allowAllUsers config \<or> go_id user \<in> set (rc_allowedGoogleSubIds config) \<or>
      go_email user \<in> set (rc_allowedGoogleEmails config))"

definition upsertGitHubUserOf ::
    "remote_config \<Rightarrow> int \<Rightarrow> github_user \<Rightarrow> oauth_state \<Rightarrow> (http_throw + string) \<times> oauth_state" where
  "upsertGitHubUserOf config now user st =
     (if \<not> isGitHubUserAllowed config user then (Inl (throw_safe FORBIDDEN ''GitHub user is not allowed'' 400), st)
      else let internalId = (case getUserByGitHubId (gh_id user) (os_store st) of
                 Some existing \<Rightarrow> tu_id existing | None \<Rightarrow> ''github:'' @ gh_id user)
        in case upsertUser internalId (gh_id user) (gh_login user) (os_store st) of
             Inl e \<Rightarrow> (Inl (StoreError e), st)
           | Inr s \<Rightarrow> (Inr internalId, os_audit now (Some internalId) ''user_login'' (st\<lparr> os_store := s \<rparr>)))"

definition upsertGoogleUserOf ::
    "remote_config \<Rightarrow> int \<Rightarrow> google_user \<Rightarrow> oauth_state \<Rightarrow> (http_throw + string) \<times> oauth_state" where
  "upsertGoogleUserOf config now user st =
     (if \<not> isGoogleUserAllowed config user then (Inl (throw_safe FORBIDDEN ''Google user is not allowed'' 400), st)
      else let internalId = (case getUserByGoogleId (go_id user) (os_store st) of
                 Some existing \<Rightarrow> tu_id existing | None \<Rightarrow> ''google:'' @ go_id user)
        in case upsertGoogleUser internalId (go_id user) (go_email user) (go_name user) (os_store st) of
             Inl e \<Rightarrow> (Inl (StoreError e), st)
           | Inr s \<Rightarrow> (Inr internalId, os_audit now (Some internalId) ''user_login'' (st\<lparr> os_store := s \<rparr>)))"

definition allowFixtureIdentity :: "oauth_env \<Rightarrow> remote_config \<Rightarrow> bool" where
  "allowFixtureIdentity env config =
     (if oe_vars env ''NODE_ENV'' \<noteq> Some ''test'' then False
      else case oe_url env (rc_publicBaseUrl config) of
        None \<Rightarrow> False
      | Some baseUrl \<Rightarrow>
          url_protocol baseUrl = ''http:'' \<and> url_hostname baseUrl \<in> {''localhost'', ''127.0.0.1'', ''[::1]''})"

definition testGitHubUser :: "oauth_env \<Rightarrow> remote_config \<Rightarrow> github_user option" where
  "testGitHubUser env config =
     (if \<not> allowFixtureIdentity env config then None
      else let idValue = oe_vars env ''SSHAUTOMATOR_TEST_GITHUB_ID''; login = oe_vars env ''SSHAUTOMATOR_TEST_GITHUB_LOGIN''
        in if truthy idValue \<and> truthy login then Some \<lparr> gh_id = the idValue, gh_login = the login \<rparr> else None)"

definition testGoogleUser :: "oauth_env \<Rightarrow> remote_config \<Rightarrow> google_user option" where
  "testGoogleUser env config =
     (if \<not> allowFixtureIdentity env config then None
      else let idValue = oe_vars env ''SSHAUTOMATOR_TEST_GOOGLE_ID''; email = oe_vars env ''SSHAUTOMATOR_TEST_GOOGLE_EMAIL'';
               name = first_of [oe_vars env ''SSHAUTOMATOR_TEST_GOOGLE_NAME''] ''Test Google User''
        in if truthy idValue \<and> truthy email
           then Some \<lparr> go_id = the idValue, go_email = the email, go_name = name \<rparr> else None)"

subsection \<open>Authorization codes\<close>

text \<open>\<open>code\<close> is the random code and \<open>rowId\<close> the random id of its row.\<close>

definition issueAuthorizationCode ::
    "oauth_env \<Rightarrow> remote_config \<Rightarrow> int \<Rightarrow> string \<Rightarrow> string \<Rightarrow> pending_authorize \<Rightarrow> string \<Rightarrow> oauth_state \<Rightarrow>
     (http_throw + string) \<times> oauth_state" where
  "issueAuthorizationCode env config now rowId code pending userId st =
     (let row = \<lparr> ac_id = rowId, ac_codeHash = hashSecret (oe_sha256 env) code, ac_clientId = pz_clientId pending,
            ac_userId = userId, ac_redirectUri = pz_redirectUri pending, ac_codeChallenge = pz_codeChallenge pending,
            ac_resource = pz_resource pending, ac_scope = pz_scope pending,
            ac_expiresAt = now + rc_authCodeTtlSeconds config * 1000, ac_usedAt = None, ac_createdAt = now \<rparr>
      in case insertAuthorizationCode row (os_store st) of
           Inl e \<Rightarrow> (Inl (StoreError e), st)
         | Inr s \<Rightarrow> (Inr code, st\<lparr> os_store := s \<rparr>))"

text \<open>What the browser is sent: back to the client with a code, to the approval page, or to a provider.\<close>

datatype oauth_response =
    RedirectToClient string string "string option"
  | ApprovalPage string
  | RedirectToProvider string string

record oauth_randoms =
  or_clientRow :: string
  or_codeRow :: string
  or_code :: string
  or_transaction :: string

definition issue_for_user ::
    "oauth_env \<Rightarrow> remote_config \<Rightarrow> int \<Rightarrow> oauth_randoms \<Rightarrow> pending_authorize \<Rightarrow> (http_throw + string) \<times> oauth_state \<Rightarrow>
     (http_throw + oauth_response) \<times> oauth_state" where
  "issue_for_user env config now rnd pending user =
     (case user of
        (Inl e, st) \<Rightarrow> (Inl e, st)
      | (Inr userId, st) \<Rightarrow>
          (case issueAuthorizationCode env config now (or_codeRow rnd) (or_code rnd) pending userId st of
             (Inl e, st1) \<Rightarrow> (Inl e, st1)
           | (Inr code, st1) \<Rightarrow>
               (Inr (RedirectToClient (pz_redirectUri pending) code
                       (if pz_state pending = [] then None else Some (pz_state pending))), st1)))"

definition handleAuthorize ::
    "oauth_env \<Rightarrow> remote_config \<Rightarrow> int \<Rightarrow> oauth_randoms \<Rightarrow> authorize_request \<Rightarrow> oauth_state \<Rightarrow>
     (http_throw + oauth_response) \<times> oauth_state" where
  "handleAuthorize env config now rnd rq st =
     (case validateAuthorizeParams env config now (or_clientRow rnd) rq st of
        (Inl e, st1) \<Rightarrow> (Inl e, st1)
      | (Inr _, st1) \<Rightarrow>
          let pending = \<lparr> pz_clientId = az_clientId rq, pz_redirectUri = az_redirectUri rq,
                pz_codeChallenge = az_codeChallenge rq, pz_resource = az_resource rq, pz_scope = az_scope rq,
                pz_state = az_state rq, pz_expiresAt = now + rc_authCodeTtlSeconds config * 1000, pz_approved = False \<rparr>
          in case testGitHubUser env config of
               Some user \<Rightarrow> issue_for_user env config now rnd pending (upsertGitHubUserOf config now user st1)
             | None \<Rightarrow>
                 (case testGoogleUser env config of
                    Some user \<Rightarrow> issue_for_user env config now rnd pending (upsertGoogleUserOf config now user st1)
                  | None \<Rightarrow>
                      let hasGitHub = (truthy (rc_githubClientId config) \<and> truthy (rc_githubClientSecret config));
                          hasGoogle = (truthy (rc_googleClientId config) \<and> truthy (rc_googleClientSecret config))
                      in if \<not> hasGitHub \<and> \<not> hasGoogle then
                           (Inl (throw_safe FORBIDDEN ''Neither GitHub nor Google OAuth is configured'' 503), st1)
                         else
                           (Inr (ApprovalPage (or_transaction rnd)),
                            st1\<lparr> os_transactions := map_set (or_transaction rnd) pending (os_transactions st1) \<rparr>)))"

text \<open>The cookie of the transaction was set with the approval page.\<close>

definition matchingBrowser :: "string option \<Rightarrow> string \<Rightarrow> bool" where
  "matchingBrowser cookie transactionId =
     list_ex (\<lambda>part. trim part = ''ssh_mcp_oauth_tx='' @ transactionId)
       (split_on (\<lambda>c. c = CHR '';'') (case cookie of None \<Rightarrow> [] | Some c \<Rightarrow> c))"

definition transaction_live :: "int \<Rightarrow> string option \<Rightarrow> string \<Rightarrow> oauth_state \<Rightarrow> pending_authorize option" where
  "transaction_live now cookie transactionId st =
     (case map_get (os_transactions st) transactionId of
        None \<Rightarrow> None
      | Some pending \<Rightarrow>
          if pz_expiresAt pending < now \<or> \<not> matchingBrowser cookie transactionId then None else Some pending)"

definition handleApprove ::
    "remote_config \<Rightarrow> int \<Rightarrow> string option \<Rightarrow> string \<Rightarrow> string option \<Rightarrow> oauth_state \<Rightarrow>
     (http_throw + oauth_response) \<times> oauth_state" where
  "handleApprove config now cookie transactionId provider st =
     (case transaction_live now cookie transactionId st of
        None \<Rightarrow> (Inl (throw_safe INVALID_TOKEN ''OAuth transaction is missing or expired'' 403), st)
      | Some pending \<Rightarrow>
          let approve = (\<lambda>name clientId secret callback.
                if \<not> truthy clientId \<or> \<not> truthy secret then
                  (Inl (throw_safe FORBIDDEN (name @ '' OAuth is not configured'') 503), st)
                else
                  (Inr (RedirectToProvider callback transactionId),
                   st\<lparr> os_transactions := map_set transactionId (pending\<lparr> pz_approved := True \<rparr>) (os_transactions st) \<rparr>))
          in if (case provider of None \<Rightarrow> ''github'' | Some p \<Rightarrow> p) = ''google''
             then approve ''Google'' (rc_googleClientId config) (rc_googleClientSecret config) (rc_googleCallbackUrl config)
             else approve ''GitHub'' (rc_githubClientId config) (rc_githubClientSecret config) (rc_githubCallbackUrl config))"

definition consumeOAuthCallback ::
    "int \<Rightarrow> string option \<Rightarrow> string \<Rightarrow> string \<Rightarrow> oauth_state \<Rightarrow> (http_throw + string \<times> pending_authorize) \<times> oauth_state" where
  "consumeOAuthCallback now cookie code state st =
     (let pending = map_get (os_transactions st) state;
          st1 = st\<lparr> os_transactions := map_delete state (os_transactions st) \<rparr>
      in case pending of
           None \<Rightarrow> (Inl (throw_safe INVALID_TOKEN ''OAuth transaction is missing or expired'' 400), st1)
         | Some p \<Rightarrow>
             if code = [] \<or> \<not> pz_approved p \<or> pz_expiresAt p < now \<or> \<not> matchingBrowser cookie state
             then (Inl (throw_safe INVALID_TOKEN ''OAuth transaction is missing or expired'' 400), st1)
             else (Inr (code, p), st1))"

text \<open>The provider's answer to the code is \<open>fetched\<close>; other requests may run while it is awaited.\<close>

definition handleGitHubCallback ::
    "oauth_env \<Rightarrow> remote_config \<Rightarrow> int \<Rightarrow> oauth_randoms \<Rightarrow> string option \<Rightarrow> string \<Rightarrow> string \<Rightarrow>
     (string \<Rightarrow> safe_error + github_user) \<Rightarrow> oauth_state \<Rightarrow> (http_throw + oauth_response) \<times> oauth_state" where
  "handleGitHubCallback env config now rnd cookie code state fetched st =
     (case consumeOAuthCallback now cookie code state st of
        (Inl e, st1) \<Rightarrow> (Inl e, st1)
      | (Inr (providerCode, pending), st1) \<Rightarrow>
          (case fetched providerCode of
             Inl e \<Rightarrow> (Inl (SafeError e), st1)
           | Inr user \<Rightarrow> issue_for_user env config now rnd pending (upsertGitHubUserOf config now user st1)))"

definition handleGoogleCallback ::
    "oauth_env \<Rightarrow> remote_config \<Rightarrow> int \<Rightarrow> oauth_randoms \<Rightarrow> string option \<Rightarrow> string \<Rightarrow> string \<Rightarrow>
     (string \<Rightarrow> safe_error + google_user) \<Rightarrow> oauth_state \<Rightarrow> (http_throw + oauth_response) \<times> oauth_state" where
  "handleGoogleCallback env config now rnd cookie code state fetched st =
     (case consumeOAuthCallback now cookie code state st of
        (Inl e, st1) \<Rightarrow> (Inl e, st1)
      | (Inr (providerCode, pending), st1) \<Rightarrow>
          (case fetched providerCode of
             Inl e \<Rightarrow> (Inl (SafeError e), st1)
           | Inr user \<Rightarrow> issue_for_user env config now rnd pending (upsertGoogleUserOf config now user st1)))"

subsection \<open>Tokens\<close>

definition optional_entry :: "string \<Rightarrow> string option \<Rightarrow> entries" where
  "optional_entry k v = (if truthy v then [(k, JStr (the v))] else [])"

text \<open>\<open>issueAccessToken\<close>: the claims that \<open>SignJWT\<close> signs.\<close>

definition access_token_claims :: "remote_config \<Rightarrow> int \<Rightarrow> string \<Rightarrow> token_user \<Rightarrow> remote_scope list \<Rightarrow> entries" where
  "access_token_claims config now tokenId user scopes =
     (let issuedAt = now div 1000
      in [(''scope'', JStr (join '' '' (map scope_name scopes))),
          (''github_login'', JStr (case tu_githubLogin user of Some l \<Rightarrow> l | None \<Rightarrow> tu_displayName user)),
          (''github_id'', JStr (case tu_githubId user of Some i \<Rightarrow> i | None \<Rightarrow>
             (case tu_googleId user of Some i \<Rightarrow> i | None \<Rightarrow> tu_id user)))] @
         optional_entry ''google_id'' (tu_googleId user) @ optional_entry ''email'' (tu_email user) @
         optional_entry ''display_name'' (Some (tu_displayName user)) @ optional_entry ''provider'' (tu_provider user) @
         [(''iss'', JStr (rc_publicBaseUrl config)), (''sub'', JStr (tu_id user)),
          (''aud'', JStr (rc_mcpResourceUrl config)), (''jti'', JStr tokenId), (''iat'', JNum issuedAt),
          (''exp'', JNum (issuedAt + rc_accessTokenTtlSeconds config))])"

record remote_principal =
  rp_userId :: string
  rp_githubId :: string
  rp_githubLogin :: string
  rp_email :: "string option"
  rp_displayName :: "string option"
  rp_provider :: "string option"
  rp_scopes :: "remote_scope list"
  rp_capabilities :: "remote_capability list"
  rp_tokenId :: string

definition claim_text :: "json option \<Rightarrow> string" where
  "claim_text v = (case v of Some (JStr s) \<Rightarrow> s | Some (JNum i) \<Rightarrow> show_int i | Some (JBool b) \<Rightarrow> json_atom (JBool b)
     | Some JNull \<Rightarrow> ''null'' | None \<Rightarrow> ''undefined'' | Some (JArr _) \<Rightarrow> [] | Some (JObj _) \<Rightarrow> ''[object Object]'')"

text \<open>
  An identity claim that is no string is refused; so is a scope that the capability table does not have, on
  which the code's loop throws.
\<close>

definition principalFromPayload :: "entries \<Rightarrow> remote_principal option" where
  "principalFromPayload payload =
     (let words = (case asString (map_of payload ''scope'') of None \<Rightarrow> [] | Some s \<Rightarrow> scope_words s);
          scopes = List.map_filter scope_of_name words;
          bad_identity = (\<lambda>k. map_of payload k \<noteq> None \<and> asString (map_of payload k) = None)
      in if bad_identity ''github_id'' \<or> bad_identity ''github_login'' then None
         else if list_ex (\<lambda>w. scope_of_name w = None) words then None
         else Some \<lparr> rp_userId = claim_text (map_of payload ''sub''),
                rp_githubId = (case asString (map_of payload ''github_id'') of None \<Rightarrow> [] | Some i \<Rightarrow> i),
                rp_githubLogin = (case asString (map_of payload ''github_login'') of None \<Rightarrow> [] | Some l \<Rightarrow> l),
                rp_email = asString (map_of payload ''email''),
                rp_displayName = asString (map_of payload ''display_name''),
                rp_provider = (case asString (map_of payload ''provider'') of
                    None \<Rightarrow> None | Some p \<Rightarrow> if p \<in> {''google'', ''github''} then Some p else None),
                rp_scopes = scopes, rp_capabilities = capabilitiesFromScopes scopes,
                rp_tokenId = claim_text (map_of payload ''jti'') \<rparr>)"

text \<open>\<open>jwt_verify token issuer audience\<close> is \<open>jwtVerify\<close> with the server's key at the present time.\<close>

definition verifyRemoteAccessToken ::
    "(string \<Rightarrow> string \<Rightarrow> string \<Rightarrow> entries option) \<Rightarrow> string option \<Rightarrow> remote_config \<Rightarrow> remote_principal option" where
  "verifyRemoteAccessToken jwt_verify authorization config =
     (case extractBearerToken authorization of
        None \<Rightarrow> None
      | Some token \<Rightarrow>
          (case jwt_verify token (rc_publicBaseUrl config) (rc_mcpResourceUrl config) of
             None \<Rightarrow> None
           | Some payload \<Rightarrow> principalFromPayload payload))"

definition userFromId :: "string \<Rightarrow> 'r remote_store \<Rightarrow> http_throw + token_user" where
  "userFromId userId s =
     (let by_github = (if prefix ''github:'' userId then getUserByGitHubId (drop 7 userId) s else None);
          by_google = (if prefix ''google:'' userId then getUserByGoogleId (drop 7 userId) s else None)
      in case by_github of Some u \<Rightarrow> Inr u | None \<Rightarrow>
           (case by_google of Some u \<Rightarrow> Inr u | None \<Rightarrow>
             (case getUserById userId s of Some u \<Rightarrow> Inr u
              | None \<Rightarrow> Inl (throw_safe UNAUTHORIZED ''User no longer exists'' 401))))"

record token_request =
  tq_grantType :: string
  tq_clientId :: string
  tq_code :: string
  tq_redirectUri :: string
  tq_codeVerifier :: string

record token_grant =
  tg_user :: token_user
  tg_scopes :: "remote_scope list"
  tg_claims :: entries

definition handleToken ::
    "oauth_env \<Rightarrow> remote_config \<Rightarrow> int \<Rightarrow> string \<Rightarrow> token_request \<Rightarrow> oauth_state \<Rightarrow> (http_throw + token_grant) \<times> oauth_state" where
  "handleToken env config now tokenId rq st =
     (let invalid = (\<lambda>message. (Inl (throw_safe INVALID_TOKEN message 400), st))
      in if tq_grantType rq \<noteq> ''authorization_code'' then
           (Inl (throw_safe INVALID_CLIENT ''grant_type must be authorization_code'' 400), st)
         else if getClient (tq_clientId rq) (os_store st) = None then
           (Inl (throw_safe INVALID_CLIENT ''Unknown client_id'' 400), st)
         else case getAuthorizationCodeByHash (hashSecret (oe_sha256 env) (tq_code rq)) (os_store st) of
           None \<Rightarrow> invalid ''Invalid authorization code''
         | Some row \<Rightarrow>
             if ac_clientId row \<noteq> tq_clientId rq \<or> ac_redirectUri row \<noteq> tq_redirectUri rq then
               invalid ''Invalid authorization code''
             else if ac_usedAt row \<noteq> None \<or> ac_expiresAt row < now then
               invalid ''Authorization code is expired or already used''
             else if tq_codeVerifier rq = [] \<or>
                     pkceChallenge (oe_sha256 env) (tq_codeVerifier rq) \<noteq> ac_codeChallenge row then
               (Inl (throw_safe PKCE_VALIDATION_FAILED ''Invalid PKCE code_verifier'' 400), st)
             else case userFromId (ac_userId row) (os_store st) of
               Inl e \<Rightarrow> (Inl e, st)
             | Inr user \<Rightarrow>
                 (case scopeList (ac_scope row) of
                    Inl e \<Rightarrow> (Inl (SafeError e), st)
                  | Inr scopes \<Rightarrow>
                      (case markAuthorizationCodeUsed (ac_codeHash row) now (os_store st) of
                         Inl _ \<Rightarrow> invalid ''Authorization code is expired or already used''
                       | Inr s \<Rightarrow>
                           (Inr \<lparr> tg_user = user, tg_scopes = scopes,
                                  tg_claims = access_token_claims config now tokenId user scopes \<rparr>,
                            st\<lparr> os_store := s \<rparr>))))"

definition os_cleanupExpired :: "int \<Rightarrow> oauth_state \<Rightarrow> oauth_state" where
  "os_cleanupExpired now st =
     st\<lparr> os_attempts := filter (\<lambda>(_, w). \<not> rw_expiresAt w \<le> now) (os_attempts st),
         os_transactions := filter (\<lambda>(_, p). \<not> pz_expiresAt p \<le> now) (os_transactions st) \<rparr>"

end
