(* ===== verification/OAuthProps.thy ===== *)
theory OAuthProps
  imports OAuthFlow
begin

section \<open>What the OAuth server guarantees\<close>

text \<open>
  Codes are issued for approved transactions of the same browser, to safe redirect URIs, and redeemed once by
  their client with the verifier of their challenge; a token read back gives its user's identity and
  exactly the granted scopes.
\<close>

subsection \<open>The database under the operations\<close>

lemma audit_row_simps [simp]:
  "rs_codes (audit_row now e s) = rs_codes s" "rs_clients (audit_row now e s) = rs_clients s"
  "rs_users (audit_row now e s) = rs_users s" "rs_agents (audit_row now e s) = rs_agents s"
  "rs_tokens (audit_row now e s) = rs_tokens s" "rs_actions (audit_row now e s) = rs_actions s"
  by (simp_all add: audit_row_def insertAudit_def)

lemma store_ok_audit_row [simp]: "store_ok s \<Longrightarrow> store_ok (audit_row now e s)"
  by (simp add: audit_row_def store_ok_changes)

lemma os_audit_simps [simp]:
  "os_store (os_audit now u t st) = audit_row now (audit_note u None t SevInfo) (os_store st)"
  "os_transactions (os_audit now u t st) = os_transactions st" "os_attempts (os_audit now u t st) = os_attempts st"
  by (simp_all add: os_audit_def)

lemma insertClient_codes: "insertClient c s = Inr s' \<Longrightarrow> rs_codes s' = rs_codes s"
  by (auto simp: insertClient_def bind_res_Inr)

lemma upsert_codes:
  "upsertUser i g l s = Inr s' \<Longrightarrow> rs_codes s' = rs_codes s"
  "upsertGoogleUser i g e n s = Inr s' \<Longrightarrow> rs_codes s' = rs_codes s"
  by (auto simp: upsertUser_def upsertGoogleUser_def split: if_splits)

lemmas code_free = insertClient_codes upsert_codes

text \<open>A step that keeps the schema, the codes and the transactions.\<close>

definition quiet :: "oauth_state \<Rightarrow> oauth_state \<Rightarrow> bool" where
  "quiet st st' \<longleftrightarrow> (store_ok (os_store st) \<longrightarrow> store_ok (os_store st')) \<and>
     rs_codes (os_store st') = rs_codes (os_store st) \<and> os_transactions st' = os_transactions st"

lemma quiet_refl [simp]: "quiet st st"
  by (simp add: quiet_def)

lemma quiet_insertClient: "insertClient c (os_store st) = Inr s \<Longrightarrow> quiet st (os_audit now u t (st\<lparr> os_store := s \<rparr>))"
  by (simp add: quiet_def insertClient_codes) (blast intro: store_ok_audit_row store_ok_inserts)

lemma quiet_attempts: "quiet (st\<lparr> os_attempts := a \<rparr>) st' \<Longrightarrow> quiet st st'"
  by (simp add: quiet_def)

lemma quiet_attempts_set: "quiet st (st\<lparr> os_attempts := a \<rparr>)"
  by (simp add: quiet_def)

lemma handleRegister_quiet: "quiet st (snd (handleRegister env config now peer rowId clientId body st))"
proof -
  have ins: "quiet st (os_audit now u t (st1\<lparr> os_store := s \<rparr>))"
    if "insertClient c (os_store st1) = Inr s" "st1 = st\<lparr> os_attempts := a \<rparr>" for c st1 s u t a
    using quiet_insertClient [OF that(1)] that(2) by (auto intro: quiet_attempts)
  show ?thesis
    by (auto simp: handleRegister_def Let_def quiet_attempts_set split: sum.splits option.splits intro!: ins)
qed

lemma authorize_client_quiet: "quiet st (snd (authorize_client env now rowId rq st))"
proof -
  have "quiet st (os_audit now u t (st\<lparr> os_store := updateClientRedirectUris i uris (os_store st) \<rparr>))" for u t i uris
    by (simp add: quiet_def store_ok_changes) (simp add: updateClientRedirectUris_def)
  then show ?thesis
    by (auto simp: authorize_client_def restoreChatGptClient_def addChatGptRedirectUri_def Let_def
        split: sum.splits option.splits intro: quiet_insertClient)
qed

lemma validate_quiet: "quiet st (snd (validateAuthorizeParams env config now rowId rq st))"
  using authorize_client_quiet [of st env now rowId rq]
  by (auto simp: validateAuthorizeParams_def split: prod.splits sum.splits option.splits)

lemma quiet_upsert:
  "upsertUser i g l (os_store st) = Inr s \<Longrightarrow> quiet st (os_audit now u t (st\<lparr> os_store := s \<rparr>))"
  "upsertGoogleUser i g e n (os_store st) = Inr s \<Longrightarrow> quiet st (os_audit now u t (st\<lparr> os_store := s \<rparr>))"
  by (simp_all add: quiet_def upsert_codes) (blast intro: store_ok_audit_row store_ok_upserts)+

lemma upsert_quiet:
  "quiet st (snd (upsertGitHubUserOf config now user st))" "quiet st (snd (upsertGoogleUserOf config now guser st))"
  by (auto simp: upsertGitHubUserOf_def upsertGoogleUserOf_def Let_def split: sum.splits intro: quiet_upsert)

text \<open>Issuing a code appends at most its row.\<close>

definition adds_code :: "oauth_env \<Rightarrow> string \<Rightarrow> pending_authorize \<Rightarrow> oauth_state \<Rightarrow> oauth_state \<Rightarrow> bool" where
  "adds_code env code p st st' \<longleftrightarrow>
     (store_ok (os_store st) \<longrightarrow> store_ok (os_store st')) \<and> os_transactions st' = os_transactions st \<and>
     (rs_codes (os_store st') = rs_codes (os_store st) \<or>
      (\<exists>row. rs_codes (os_store st') = rs_codes (os_store st) @ [row] \<and> ac_codeHash row = hashSecret (oe_sha256 env) code \<and>
         ac_redirectUri row = pz_redirectUri p \<and> ac_codeChallenge row = pz_codeChallenge p \<and> ac_scope row = pz_scope p \<and>
         ac_clientId row = pz_clientId p \<and> ac_usedAt row = None))"

lemma quiet_adds: "quiet st st' \<Longrightarrow> adds_code env code p st st'"
  by (simp add: quiet_def adds_code_def)

lemma quiet_then_adds: "quiet st st1 \<Longrightarrow> adds_code env code p st1 st' \<Longrightarrow> adds_code env code p st st'"
  by (simp add: quiet_def adds_code_def)

lemma issue_adds: "adds_code env code p st (snd (issueAuthorizationCode env config now rowId code p userId st))"
proof -
  have "adds_code env code p st (st\<lparr> os_store := s \<rparr>)"
    if i: "insertAuthorizationCode row (os_store st) = Inr s"
      and r: "ac_codeHash row = hashSecret (oe_sha256 env) code" "ac_redirectUri row = pz_redirectUri p"
        "ac_codeChallenge row = pz_codeChallenge p" "ac_scope row = pz_scope p" "ac_clientId row = pz_clientId p"
        "ac_usedAt row = None" for row s
  proof -
    have "rs_codes s = rs_codes (os_store st) @ [row]"
      using i by (auto simp: insertAuthorizationCode_def bind_res_Inr insert_row_Inr)
    with r show ?thesis using store_ok_inserts(2) [OF _ i] by (auto simp: adds_code_def)
  qed
  then show ?thesis
    by (auto simp: issueAuthorizationCode_def Let_def quiet_adds split: sum.splits)
qed

lemma issue_for_user_adds:
  "quiet st (snd user) \<Longrightarrow> adds_code env (or_code rnd) p st (snd (issue_for_user env config now rnd p user))"
  using issue_adds [of env "or_code rnd" p "snd user" config now "or_codeRow rnd" "projr (fst user)"]
  by (auto simp: issue_for_user_def quiet_adds split: prod.splits sum.splits dest: quiet_then_adds)

subsection \<open>Requests one after the other\<close>

text \<open>
  A request, a clean-up or a pruning of the database. \<open>h\<close> is the digest of one code: the random codes
  of the run are others, which 256 random bits make true in practice.
\<close>

inductive oauth_step :: "oauth_env \<Rightarrow> remote_config \<Rightarrow> string \<Rightarrow> oauth_state \<Rightarrow> oauth_state \<Rightarrow> bool"
  for env config h where
  register: "oauth_step env config h st (snd (handleRegister env config now peer rowId clientId body st))"
| authorize: "hashSecret (oe_sha256 env) (or_code rnd) \<noteq> h \<Longrightarrow>
     oauth_step env config h st (snd (handleAuthorize env config now rnd rq st))"
| approve: "oauth_step env config h st (snd (handleApprove config now cookie transactionId provider st))"
| github: "hashSecret (oe_sha256 env) (or_code rnd) \<noteq> h \<Longrightarrow>
     oauth_step env config h st (snd (handleGitHubCallback env config now rnd cookie code state fetched st))"
| google: "hashSecret (oe_sha256 env) (or_code rnd) \<noteq> h \<Longrightarrow>
     oauth_step env config h st (snd (handleGoogleCallback env config now rnd cookie code state gfetched st))"
| token: "oauth_step env config h st (snd (handleToken env config now tokenId tq st))"
| cleanup: "oauth_step env config h st (os_cleanupExpired now st)"
| prune: "oauth_step env config h st (st\<lparr> os_store := pruneExpiredTransientRecords now (os_store st) \<rparr>)"

definition request_of :: "remote_config \<Rightarrow> int \<Rightarrow> authorize_request \<Rightarrow> pending_authorize" where
  "request_of config now rq =
     \<lparr> pz_clientId = az_clientId rq, pz_redirectUri = az_redirectUri rq, pz_codeChallenge = az_codeChallenge rq,
       pz_resource = az_resource rq, pz_scope = az_scope rq, pz_state = az_state rq,
       pz_expiresAt = now + rc_authCodeTtlSeconds config * 1000, pz_approved = False \<rparr>"

lemma handleAuthorize_cases:
  obtains (refused) "quiet st (snd (handleAuthorize env config now rnd rq st))"
    | (issued) "fst (validateAuthorizeParams env config now (or_clientRow rnd) rq st) = Inr ()"
        and "adds_code env (or_code rnd) (request_of config now rq) st (snd (handleAuthorize env config now rnd rq st))"
    | (shown) st1 where "fst (validateAuthorizeParams env config now (or_clientRow rnd) rq st) = Inr ()"
        and "quiet st st1" and "snd (handleAuthorize env config now rnd rq st) =
           st1\<lparr> os_transactions := map_set (or_transaction rnd) (request_of config now rq) (os_transactions st1) \<rparr>"
proof -
  obtain v st1 where v: "validateAuthorizeParams env config now (or_clientRow rnd) rq st = (v, st1)"
    by (cases "validateAuthorizeParams env config now (or_clientRow rnd) rq st")
  have q: "quiet st st1" using validate_quiet [of st env config now "or_clientRow rnd" rq] v by simp
  have qu: "quiet st (snd (upsertGitHubUserOf config now u st1))" "quiet st (snd (upsertGoogleUserOf config now g st1))" for u g
    using q upsert_quiet [of st1 config now] by (auto simp: quiet_def)
  show ?thesis
  proof (cases v)
    case (Inl e)
    with v q show ?thesis by (intro refused) (simp add: handleAuthorize_def)
  next
    case (Inr u)
    show ?thesis
    proof (cases "testGitHubUser env config")
      case (Some user)
      with v Inr issue_for_user_adds [OF qu(1)] show ?thesis
        by (intro issued) (simp_all add: handleAuthorize_def Let_def request_of_def)
    next
      case None
      show ?thesis
      proof (cases "testGoogleUser env config")
        case (Some user)
        with None v Inr issue_for_user_adds [OF qu(2)] show ?thesis
          by (intro issued) (simp_all add: handleAuthorize_def Let_def request_of_def)
      next
        case no_google: None
        with None v Inr q show ?thesis
          by (cases "fst (handleAuthorize env config now rnd rq st)")
            (auto simp: handleAuthorize_def Let_def request_of_def intro: refused shown [OF _ q] split: if_splits)
      qed
    qed
  qed
qed


definition consumed :: "string \<Rightarrow> oauth_state \<Rightarrow> oauth_state" where
  "consumed state st = st\<lparr> os_transactions := map_delete state (os_transactions st) \<rparr>"

definition callback_ok :: "int \<Rightarrow> string option \<Rightarrow> string \<Rightarrow> oauth_state \<Rightarrow> pending_authorize \<Rightarrow> bool" where
  "callback_ok now cookie state st p \<longleftrightarrow>
     map_get (os_transactions st) state = Some p \<and> pz_approved p \<and> now \<le> pz_expiresAt p \<and> matchingBrowser cookie state"

lemma consume_cases:
  obtains (refused) e where "consumeOAuthCallback now cookie code state st = (Inl e, consumed state st)"
    | (taken) p where "consumeOAuthCallback now cookie code state st = (Inr (code, p), consumed state st)"
        and "callback_ok now cookie state st p"
proof (cases "\<exists>p. map_get (os_transactions st) state = Some p \<and> code \<noteq> [] \<and> callback_ok now cookie state st p")
  case True
  then obtain p where "map_get (os_transactions st) state = Some p" "code \<noteq> []" "callback_ok now cookie state st p" by blast
  then show ?thesis
    by (intro taken) (auto simp: consumeOAuthCallback_def consumed_def callback_ok_def Let_def)
next
  case False
  then have "\<exists>e. consumeOAuthCallback now cookie code state st = (Inl e, consumed state st)"
    by (auto simp: consumeOAuthCallback_def consumed_def callback_ok_def Let_def not_less split: option.splits)
  then show ?thesis using refused by blast
qed

lemma handleGitHubCallback_cases:
  obtains (refused) e where "handleGitHubCallback env config now rnd cookie code state fetched st = (Inl e, consumed state st)"
    | (taken) p user where "callback_ok now cookie state st p" and "fetched code = Inr user"
        and "handleGitHubCallback env config now rnd cookie code state fetched st =
           issue_for_user env config now rnd p (upsertGitHubUserOf config now user (consumed state st))"
proof (cases rule: consume_cases [of now cookie code state st])
  case (refused e)
  then show ?thesis by (intro that(1)) (simp add: handleGitHubCallback_def)
next
  case (taken p)
  show ?thesis
  proof (cases "fetched code")
    case (Inl e)
    with taken show ?thesis by (intro that(1)) (simp add: handleGitHubCallback_def)
  next
    case (Inr user)
    with taken show ?thesis by (intro that(2)) (simp_all add: handleGitHubCallback_def)
  qed
qed

lemma handleGoogleCallback_cases:
  obtains (refused) e where "handleGoogleCallback env config now rnd cookie code state fetched st = (Inl e, consumed state st)"
    | (taken) p user where "callback_ok now cookie state st p" and "fetched code = Inr user"
        and "handleGoogleCallback env config now rnd cookie code state fetched st =
           issue_for_user env config now rnd p (upsertGoogleUserOf config now user (consumed state st))"
proof (cases rule: consume_cases [of now cookie code state st])
  case (refused e)
  then show ?thesis by (intro that(1)) (simp add: handleGoogleCallback_def)
next
  case (taken p)
  show ?thesis
  proof (cases "fetched code")
    case (Inl e)
    with taken show ?thesis by (intro that(1)) (simp add: handleGoogleCallback_def)
  next
    case (Inr user)
    with taken show ?thesis by (intro that(2)) (simp_all add: handleGoogleCallback_def)
  qed
qed

lemma handleToken_cases:
  obtains (refused) e where "handleToken env config now tokenId rq st = (Inl e, st)"
    | (granted) row user scopes s where
        "getAuthorizationCodeByHash (hashSecret (oe_sha256 env) (tq_code rq)) (os_store st) = Some row"
        and "ac_clientId row = tq_clientId rq" and "ac_redirectUri row = tq_redirectUri rq" and "ac_usedAt row = None"
        and "now \<le> ac_expiresAt row" and "tq_codeVerifier rq \<noteq> []"
        and "pkceChallenge (oe_sha256 env) (tq_codeVerifier rq) = ac_codeChallenge row"
        and "userFromId (ac_userId row) (os_store st) = Inr user" and "scopeList (ac_scope row) = Inr scopes"
        and "markAuthorizationCodeUsed (ac_codeHash row) now (os_store st) = Inr s"
        and "handleToken env config now tokenId rq st =
           (Inr \<lparr> tg_user = user, tg_scopes = scopes, tg_claims = access_token_claims config now tokenId user scopes \<rparr>,
            st\<lparr> os_store := s \<rparr>)"
proof (cases "handleToken env config now tokenId rq st")
  case (Pair r st')
  show ?thesis
  proof (cases r)
    case (Inl e)
    with Pair have "st' = st"
      by (auto simp: handleToken_def Let_def split: if_splits option.splits sum.splits)
    with Inl Pair show ?thesis by (intro refused) simp
  next
    case (Inr g)
    with Pair obtain row where row:
      "getAuthorizationCodeByHash (hashSecret (oe_sha256 env) (tq_code rq)) (os_store st) = Some row"
      by (cases "getAuthorizationCodeByHash (hashSecret (oe_sha256 env) (tq_code rq)) (os_store st)")
        (auto simp: handleToken_def Let_def split: if_splits)
    with Pair Inr obtain user where user: "userFromId (ac_userId row) (os_store st) = Inr user"
      by (cases "userFromId (ac_userId row) (os_store st)") (auto simp: handleToken_def Let_def split: if_splits)
    with Pair Inr row obtain scopes where scopes: "scopeList (ac_scope row) = Inr scopes"
      by (cases "scopeList (ac_scope row)") (auto simp: handleToken_def Let_def split: if_splits)
    with Pair Inr row user obtain s where "markAuthorizationCodeUsed (ac_codeHash row) now (os_store st) = Inr s"
      by (cases "markAuthorizationCodeUsed (ac_codeHash row) now (os_store st)") (auto simp: handleToken_def Let_def split: if_splits)
    with Pair Inr row user scopes show ?thesis
      by (intro granted [of row user scopes s]) (auto simp: handleToken_def Let_def split: if_splits)
  qed
qed

subsection \<open>A code is redeemed once\<close>

lemma code_lookup_add:
  "rs_codes s' = rs_codes s @ [row] \<Longrightarrow> ac_codeHash row \<noteq> h \<Longrightarrow>
   getAuthorizationCodeByHash h s' = getAuthorizationCodeByHash h s"
proof -
  assume c: "rs_codes s' = rs_codes s @ [row]" and h: "ac_codeHash row \<noteq> h"
  have "find (\<lambda>c. ac_codeHash c = h) (rows @ [row]) = find (\<lambda>c. ac_codeHash c = h) rows" for rows
    using h by (induction rows) simp_all
  with c show ?thesis by (simp add: getAuthorizationCodeByHash_def)
qed

definition keeps_spent :: "string \<Rightarrow> oauth_state \<Rightarrow> oauth_state \<Rightarrow> bool" where
  "keeps_spent h st st' \<longleftrightarrow>
     (store_ok (os_store st) \<longrightarrow> store_ok (os_store st') \<and> (codes.spent h (os_store st) \<longrightarrow> codes.spent h (os_store st')))"

lemma spent_cong: "rs_codes s' = rs_codes s \<Longrightarrow> codes.spent h s' = codes.spent h s"
proof -
  assume "rs_codes s' = rs_codes s"
  then have "getAuthorizationCodeByHash h s' = getAuthorizationCodeByHash h s" by (simp add: getAuthorizationCodeByHash_def)
  then show ?thesis unfolding codes.spent_def by simp
qed

lemma adds_keeps_spent:
  "adds_code env code p st st' \<Longrightarrow> hashSecret (oe_sha256 env) code \<noteq> h \<Longrightarrow> keeps_spent h st st'"
proof -
  assume a: "adds_code env code p st st'" and h: "hashSecret (oe_sha256 env) code \<noteq> h"
  have "getAuthorizationCodeByHash h (os_store st') = getAuthorizationCodeByHash h (os_store st)"
  proof (cases "rs_codes (os_store st') = rs_codes (os_store st)")
    case True
    then show ?thesis by (simp add: getAuthorizationCodeByHash_def)
  next
    case False
    with a obtain row where "rs_codes (os_store st') = rs_codes (os_store st) @ [row]"
      "ac_codeHash row = hashSecret (oe_sha256 env) code"
      by (auto simp: adds_code_def)
    with h show ?thesis using code_lookup_add by metis
  qed
  with a show ?thesis unfolding adds_code_def keeps_spent_def codes.spent_def by simp
qed

lemma quiet_keeps_spent: "quiet st st' \<Longrightarrow> keeps_spent h st st'"
  using spent_cong [of "os_store st'" "os_store st" h] by (simp add: quiet_def keeps_spent_def)

lemma keeps_spent_consumed: "keeps_spent h (consumed state st) st' = keeps_spent h st st'"
  by (simp add: keeps_spent_def consumed_def)

lemma oauth_step_keeps_spent: "oauth_step env config h st st' \<Longrightarrow> keeps_spent h st st'"
proof (induction rule: oauth_step.induct)
  case (register st now peer rowId clientId body)
  show ?case by (rule quiet_keeps_spent) (rule handleRegister_quiet)
next
  case (authorize rnd st now rq)
  show ?case
  proof (cases rule: handleAuthorize_cases [of st env config now rnd rq])
    case refused
    then show ?thesis by (rule quiet_keeps_spent)
  next
    case issued
    with authorize show ?thesis by (blast intro: adds_keeps_spent)
  next
    case (shown st1)
    then show ?thesis using quiet_keeps_spent [of st st1 h] by (simp add: keeps_spent_def)
  qed
next
  case (approve st now cookie transactionId provider)
  show ?case by (auto simp: handleApprove_def Let_def keeps_spent_def split: option.splits)
next
  case (github rnd st now cookie code state fetched)
  show ?case
  proof (cases rule: handleGitHubCallback_cases [of env config now rnd cookie code state fetched st])
    case (refused e)
    then show ?thesis by (simp add: keeps_spent_def consumed_def)
  next
    case (taken p user)
    have "adds_code env (or_code rnd) p (consumed state st) (snd (handleGitHubCallback env config now rnd cookie code state fetched st))"
      unfolding taken(3) by (rule issue_for_user_adds) (rule upsert_quiet)
    from adds_keeps_spent [OF this] github show ?thesis by (simp add: keeps_spent_consumed)
  qed
next
  case (google rnd st now cookie code state fetched)
  show ?case
  proof (cases rule: handleGoogleCallback_cases [of env config now rnd cookie code state fetched st])
    case (refused e)
    then show ?thesis by (simp add: keeps_spent_def consumed_def)
  next
    case (taken p user)
    have "adds_code env (or_code rnd) p (consumed state st) (snd (handleGoogleCallback env config now rnd cookie code state fetched st))"
      unfolding taken(3) by (rule issue_for_user_adds) (rule upsert_quiet)
    from adds_keeps_spent [OF this] google show ?thesis by (simp add: keeps_spent_consumed)
  qed
next
  case (token st now tokenId tq)
  show ?case
  proof (cases rule: handleToken_cases [of env config now tokenId tq st])
    case (refused e)
    then show ?thesis by (simp add: keeps_spent_def)
  next
    case (granted row user scopes s)
    then show ?thesis
      by (auto simp: keeps_spent_def intro: codes.ok_mark [OF _ granted(10)] codes.spent_mark [OF _ _ granted(10)])
  qed
next
  case (cleanup st now)
  show ?case by (simp add: keeps_spent_def os_cleanupExpired_def)
next
  case (prune st now)
  have "codes.spent h (pruneExpiredTransientRecords now s)" if "store_ok s" "codes.spent h s" for s :: "action_result remote_store"
  proof -
    have d: "distinct (map ac_codeHash (rs_codes s))" using that(1) by (simp add: store_ok_def)
    then have d': "distinct (map ac_codeHash (delete_rows (\<lambda>r. ac_expiresAt r \<le> now) (rs_codes s)))"
      by (rule distinct_delete_rows)
    have sel: "rs_codes (pruneExpiredTransientRecords now s) = delete_rows (\<lambda>r. ac_expiresAt r \<le> now) (rs_codes s)"
      by (simp add: pruneExpiredTransientRecords_def)
    show ?thesis
      using that(2) unfolding codes.spent_def
      unfolding getAuthorizationCodeByHash_def sel find_distinct [OF d] find_distinct [OF d'] by (simp add: delete_rows_def)
  qed
  then show ?case by (simp add: keeps_spent_def store_ok_changes)
qed

text \<open>
  C6: an authorization code is redeemed at most once: after a token was granted for it, every later token
  request with the code is refused, whatever requests and clean-ups come between, and whatever the
  client, the verifier and the clock.
\<close>

theorem authorization_code_single_use:
  assumes "store_ok (os_store st)" and "handleToken env config now tokenId rq st = (Inr g, st1)"
    and "(oauth_step env config (hashSecret (oe_sha256 env) (tq_code rq)))\<^sup>*\<^sup>* st1 st2" and "tq_code rq' = tq_code rq"
  shows "fst (handleToken env config now' tokenId' rq' st2) \<noteq> Inr g'"
proof -
  let ?h = "hashSecret (oe_sha256 env) (tq_code rq)"
  have 1: "store_ok (os_store st1) \<and> codes.spent ?h (os_store st1)"
  proof (cases rule: handleToken_cases [of env config now tokenId rq st])
    case (granted row user scopes s)
    have "ac_codeHash row = ?h"
      using granted(1) by (auto simp: getAuthorizationCodeByHash_def find_Some_iff)
    with granted(10) have m: "markAuthorizationCodeUsed ?h now (os_store st) = Inr s" by simp
    have "st1 = st\<lparr> os_store := s \<rparr>" using granted(11) assms(2) by simp
    with codes.ok_mark [OF assms(1) m] codes.spent_after_mark [OF assms(1) m] show ?thesis by simp
  qed (use assms(2) in simp)
  have "store_ok (os_store st2) \<and> codes.spent ?h (os_store st2)"
    using assms(3) 1
  proof (induction rule: rtranclp_induct)
    case (step y z)
    with oauth_step_keeps_spent [OF step(2)] show ?case by (simp add: keeps_spent_def)
  qed simp
  then have spent: "codes.spent ?h (os_store st2)" by simp
  show ?thesis
  proof (cases rule: handleToken_cases [of env config now' tokenId' rq' st2])
    case (granted row user scopes s)
    with spent assms(4) show ?thesis by (simp add: codes.spent_def)
  qed simp
qed

text \<open>
  C19: a token request succeeds exactly when the grant type is right, the client is known, the code is on
  record for that client and redirect URI, unused and not expired, the verifier's digest is the
  challenge of the authorization request, and the user still exists; the token then carries that
  user and exactly the scopes that were authorised.
\<close>

theorem token_grant_exact:
  assumes "store_ok (os_store st)"
  shows "fst (handleToken env config now tokenId rq st) = Inr g \<longleftrightarrow>
    tq_grantType rq = ''authorization_code'' \<and> getClient (tq_clientId rq) (os_store st) \<noteq> None \<and>
    (\<exists>row user scopes.
       getAuthorizationCodeByHash (hashSecret (oe_sha256 env) (tq_code rq)) (os_store st) = Some row \<and>
       ac_clientId row = tq_clientId rq \<and> ac_redirectUri row = tq_redirectUri rq \<and>
       ac_usedAt row = None \<and> now \<le> ac_expiresAt row \<and> tq_codeVerifier rq \<noteq> [] \<and>
       pkceChallenge (oe_sha256 env) (tq_codeVerifier rq) = ac_codeChallenge row \<and>
       userFromId (ac_userId row) (os_store st) = Inr user \<and> scopeList (ac_scope row) = Inr scopes \<and>
       g = \<lparr> tg_user = user, tg_scopes = scopes, tg_claims = access_token_claims config now tokenId user scopes \<rparr>)"
    (is "?l \<longleftrightarrow> ?r")
proof
  assume l: ?l
  then have "tq_grantType rq = ''authorization_code'' \<and> getClient (tq_clientId rq) (os_store st) \<noteq> None"
    by (auto simp: handleToken_def Let_def split: if_splits)
  with l show ?r by (cases rule: handleToken_cases [of env config now tokenId rq st]) auto
next
  assume ?r
  then obtain row user scopes where
    r: "tq_grantType rq = ''authorization_code''" "getClient (tq_clientId rq) (os_store st) \<noteq> None"
      "getAuthorizationCodeByHash (hashSecret (oe_sha256 env) (tq_code rq)) (os_store st) = Some row"
      "ac_clientId row = tq_clientId rq" "ac_redirectUri row = tq_redirectUri rq" "ac_usedAt row = None"
      "now \<le> ac_expiresAt row" "tq_codeVerifier rq \<noteq> []"
      "pkceChallenge (oe_sha256 env) (tq_codeVerifier rq) = ac_codeChallenge row"
      "userFromId (ac_userId row) (os_store st) = Inr user" "scopeList (ac_scope row) = Inr scopes"
      "g = \<lparr> tg_user = user, tg_scopes = scopes, tg_claims = access_token_claims config now tokenId user scopes \<rparr>"
    by blast
  have h: "ac_codeHash row = hashSecret (oe_sha256 env) (tq_code rq)"
    using r(3) by (auto simp: getAuthorizationCodeByHash_def find_Some_iff)
  have "\<exists>s. markAuthorizationCodeUsed (ac_codeHash row) now (os_store st) = Inr s"
    using codes.mark_iff [OF assms, of "ac_codeHash row" now] r(3,6) h by auto
  then obtain s where "markAuthorizationCodeUsed (ac_codeHash row) now (os_store st) = Inr s" by blast
  with r show ?l by (simp add: handleToken_def Let_def)
qed

subsection \<open>Where codes are sent\<close>

definition good_request :: "oauth_env \<Rightarrow> string \<Rightarrow> string \<Rightarrow> string \<Rightarrow> bool" where
  "good_request env redirectUri codeChallenge scope \<longleftrightarrow>
     isSafeRedirectUri env redirectUri \<and> codeChallenge \<noteq> [] \<and> (\<exists>scopes. scopeList scope = Inr scopes)"

definition oauth_ok :: "oauth_env \<Rightarrow> oauth_state \<Rightarrow> bool" where
  "oauth_ok env st \<longleftrightarrow>
     (\<forall>e \<in> set (os_transactions st). good_request env (pz_redirectUri (snd e)) (pz_codeChallenge (snd e)) (pz_scope (snd e))) \<and>
     (\<forall>row \<in> set (rs_codes (os_store st)). good_request env (ac_redirectUri row) (ac_codeChallenge row) (ac_scope row))"

lemma set_map_set: "set (map_set k v m) \<subseteq> insert (k, v) (set m)"
  by (induction m) auto

lemma set_map_delete: "set (map_delete k m) \<subseteq> set m"
  by (induction m) (auto simp: AList.delete_eq)

lemma validate_good:
  "fst (validateAuthorizeParams env config now rowId rq st) = Inr () \<Longrightarrow>
   good_request env (az_redirectUri rq) (az_codeChallenge rq) (az_scope rq)"
  by (auto simp: validateAuthorizeParams_def good_request_def split: prod.splits sum.splits option.splits if_splits)

lemma oauth_ok_quiet: "quiet st st' \<Longrightarrow> oauth_ok env st \<Longrightarrow> oauth_ok env st'"
  by (simp add: quiet_def oauth_ok_def)

lemma oauth_ok_adds:
  "adds_code env code p st st' \<Longrightarrow> oauth_ok env st \<Longrightarrow>
   good_request env (pz_redirectUri p) (pz_codeChallenge p) (pz_scope p) \<Longrightarrow> oauth_ok env st'"
  by (auto simp: adds_code_def oauth_ok_def)

lemma oauth_ok_transactions:
  "oauth_ok env st \<Longrightarrow>
   \<forall>e \<in> set t. good_request env (pz_redirectUri (snd e)) (pz_codeChallenge (snd e)) (pz_scope (snd e)) \<Longrightarrow>
   oauth_ok env (st\<lparr> os_transactions := t \<rparr>)"
  by (simp add: oauth_ok_def)

lemma oauth_ok_set:
  assumes "oauth_ok env st" and "good_request env (pz_redirectUri p) (pz_codeChallenge p) (pz_scope p)"
  shows "oauth_ok env (st\<lparr> os_transactions := map_set k p (os_transactions st) \<rparr>)"
proof (rule oauth_ok_transactions [OF assms(1)])
  show "\<forall>e \<in> set (map_set k p (os_transactions st)).
      good_request env (pz_redirectUri (snd e)) (pz_codeChallenge (snd e)) (pz_scope (snd e))"
    using set_map_set [of k p "os_transactions st"] assms by (auto simp: oauth_ok_def)
qed

lemma oauth_ok_consumed: "oauth_ok env st \<Longrightarrow> oauth_ok env (consumed state st)"
  using set_map_delete [of state "os_transactions st"] unfolding consumed_def oauth_ok_def by auto

lemma oauth_ok_pending:
  assumes "oauth_ok env st" and "map_get (os_transactions st) k = Some p"
  shows "good_request env (pz_redirectUri p) (pz_codeChallenge p) (pz_scope p)"
  using assms map_of_SomeD [OF assms(2)] by (auto simp: oauth_ok_def)

lemma mark_keeps_request:
  assumes "markAuthorizationCodeUsed h t s = Inr s'"
    and "\<forall>r \<in> set (rs_codes s). good_request env (ac_redirectUri r) (ac_codeChallenge r) (ac_scope r)"
  shows "\<forall>r \<in> set (rs_codes s'). good_request env (ac_redirectUri r) (ac_codeChallenge r) (ac_scope r)"
proof -
  let ?f = "\<lambda>c. if ac_codeHash c = h \<and> ac_usedAt c = None then c\<lparr> ac_usedAt := Some t \<rparr> else c"
  have "s\<lparr> rs_codes := map ?f (rs_codes s) \<rparr> = s'"
    using assms(1) by (simp add: markAuthorizationCodeUsed_def Let_def update_rows_def split: if_splits)
  then have "rs_codes s' = map ?f (rs_codes s)" by (rule subst) simp
  then show ?thesis using assms(2) by auto
qed

lemma oauth_ok_step: "oauth_step env config h st st' \<Longrightarrow> oauth_ok env st \<Longrightarrow> oauth_ok env st'"
proof (induction rule: oauth_step.induct)
  case (register st now peer rowId clientId body)
  then show ?case by (blast intro: oauth_ok_quiet handleRegister_quiet)
next
  case (authorize rnd st now rq)
  show ?case
  proof (cases rule: handleAuthorize_cases [of st env config now rnd rq])
    case refused
    with authorize show ?thesis by (blast intro: oauth_ok_quiet)
  next
    case issued
    with authorize show ?thesis by (intro oauth_ok_adds [OF issued(2)]) (simp_all add: validate_good request_of_def)
  next
    case (shown st1)
    with authorize have "oauth_ok env st1" by (blast intro: oauth_ok_quiet)
    then show ?thesis unfolding shown(3)
      by (rule oauth_ok_set) (use shown(1) in \<open>simp add: validate_good request_of_def\<close>)
  qed
next
  case (approve st now cookie transactionId provider)
  have "oauth_ok env (st\<lparr> os_transactions := map_set transactionId (p\<lparr> pz_approved := True \<rparr>) (os_transactions st) \<rparr>)"
    if "transaction_live now cookie transactionId st = Some p" for p
  proof (rule oauth_ok_set [OF approve])
    have "map_get (os_transactions st) transactionId = Some p"
      using that by (auto simp: transaction_live_def split: option.splits if_splits)
    from oauth_ok_pending [OF approve this]
    show "good_request env (pz_redirectUri (p\<lparr> pz_approved := True \<rparr>)) (pz_codeChallenge (p\<lparr> pz_approved := True \<rparr>))
        (pz_scope (p\<lparr> pz_approved := True \<rparr>))" by simp
  qed
  with approve show ?case by (auto simp: handleApprove_def Let_def split: option.splits)
next
  case (github rnd st now cookie code state fetched)
  show ?case
  proof (cases rule: handleGitHubCallback_cases [of env config now rnd cookie code state fetched st])
    case (refused e)
    with github show ?thesis by (simp add: oauth_ok_consumed)
  next
    case (taken p user)
    have "adds_code env (or_code rnd) p (consumed state st) (snd (handleGitHubCallback env config now rnd cookie code state fetched st))"
      unfolding taken(3) by (rule issue_for_user_adds) (rule upsert_quiet)
    then show ?thesis
    proof (rule oauth_ok_adds)
      show "oauth_ok env (consumed state st)" by (rule oauth_ok_consumed) (rule github(2))
      show "good_request env (pz_redirectUri p) (pz_codeChallenge p) (pz_scope p)"
        by (rule oauth_ok_pending [OF github(2), of state]) (use taken(1) in \<open>simp add: callback_ok_def\<close>)
    qed
  qed
next
  case (google rnd st now cookie code state fetched)
  show ?case
  proof (cases rule: handleGoogleCallback_cases [of env config now rnd cookie code state fetched st])
    case (refused e)
    with google show ?thesis by (simp add: oauth_ok_consumed)
  next
    case (taken p user)
    have "adds_code env (or_code rnd) p (consumed state st) (snd (handleGoogleCallback env config now rnd cookie code state fetched st))"
      unfolding taken(3) by (rule issue_for_user_adds) (rule upsert_quiet)
    then show ?thesis
    proof (rule oauth_ok_adds)
      show "oauth_ok env (consumed state st)" by (rule oauth_ok_consumed) (rule google(2))
      show "good_request env (pz_redirectUri p) (pz_codeChallenge p) (pz_scope p)"
        by (rule oauth_ok_pending [OF google(2), of state]) (use taken(1) in \<open>simp add: callback_ok_def\<close>)
    qed
  qed
next
  case (token st now tokenId tq)
  show ?case
  proof (cases rule: handleToken_cases [of env config now tokenId tq st])
    case (granted row user scopes s)
    have "\<forall>r \<in> set (rs_codes s). good_request env (ac_redirectUri r) (ac_codeChallenge r) (ac_scope r)"
      by (rule mark_keeps_request [OF granted(10)]) (use token in \<open>simp add: oauth_ok_def\<close>)
    with token granted(11) show ?thesis by (simp add: oauth_ok_def)
  qed (use token in simp)
next
  case (cleanup st now)
  then show ?case by (auto simp: os_cleanupExpired_def oauth_ok_def)
next
  case (prune st now)
  then show ?case by (auto simp: pruneExpiredTransientRecords_def delete_rows_def oauth_ok_def)
qed

definition oauth_init :: "oauth_state" where
  "oauth_init = \<lparr> os_attempts = [], os_transactions = [], os_store = empty_store \<rparr>"

interpretation oauth_ts: transition_system "\<lambda>st. st = oauth_init" "\<lambda>s t. \<exists>config h. oauth_step env config h s t" "oauth_ok env"
proof unfold_locales
  fix s t
  show "oauth_ok env s" if "s = oauth_init"
    using that by (simp add: oauth_ok_def oauth_init_def empty_store_def)
  show "oauth_ok env t" if "oauth_ok env s" "\<exists>config h. oauth_step env config h s t"
    using that by (blast intro: oauth_ok_step)
qed

text \<open>What a redirect URI may be, by the protocol and the host the URL parser finds in it.\<close>

definition https_or_loopback :: "oauth_env \<Rightarrow> string \<Rightarrow> bool" where
  "https_or_loopback env uri \<longleftrightarrow> (\<exists>protocol host. oe_url env uri = Some \<lparr> url_protocol = protocol, url_hostname = host \<rparr> \<and>
     (protocol = ''https:'' \<or> protocol = ''http:'' \<and> (host = ''localhost'' \<or> host = ''127.0.0.1'' \<or> host = ''::1'')))"

lemma isSafeRedirectUri_iff: "isSafeRedirectUri env uri \<longleftrightarrow> https_or_loopback env uri"
proof (cases "oe_url env uri")
  case (Some p)
  then show ?thesis by (cases p) (auto simp: isSafeRedirectUri_def https_or_loopback_def)
qed (simp add: isSafeRedirectUri_def https_or_loopback_def)

text \<open>
  C7: when a GitHub or Google callback sends the browser back to a client, after any run of requests, the
  redirect URI is an HTTPS or loopback one, its transaction had been approved in the same browser and
  had not expired, a PKCE challenge binds the code, the user is on the allow list, and the transaction
  is gone, so the same callback cannot be used again.
\<close>

theorem callback_redirect_safe:
  assumes "(\<lambda>s t. \<exists>config h. oauth_step env config h s t)\<^sup>*\<^sup>* oauth_init st"
    and "handleGitHubCallback env config now rnd cookie code state fetched st = (Inr (RedirectToClient uri c s), st') \<or>
         handleGoogleCallback env config now rnd cookie code state gfetched st = (Inr (RedirectToClient uri c s), st')"
  shows "https_or_loopback env uri \<and> matchingBrowser cookie state \<and>
    (\<exists>p. map_get (os_transactions st) state = Some p \<and> pz_approved p \<and> now \<le> pz_expiresAt p \<and>
       pz_redirectUri p = uri \<and> pz_codeChallenge p \<noteq> []) \<and>
    ((\<exists>user. fetched code = Inr user \<and> isGitHubUserAllowed config user) \<or>
     (\<exists>user. gfetched code = Inr user \<and> isGoogleUserAllowed config user)) \<and>
    map_get (os_transactions st') state = None"
proof -
  have ok: "oauth_ok env st" using oauth_ts.inv_reachable [OF refl assms(1)] .
  have core: "https_or_loopback env uri \<and> matchingBrowser cookie state \<and>
      (\<exists>p. map_get (os_transactions st) state = Some p \<and> pz_approved p \<and> now \<le> pz_expiresAt p \<and>
         pz_redirectUri p = uri \<and> pz_codeChallenge p \<noteq> []) \<and> map_get (os_transactions st') state = None"
    if cb: "callback_ok now cookie state st p" and q: "quiet (consumed state st) (snd usr)"
      and i: "issue_for_user env config now rnd p usr = (Inr (RedirectToClient uri c s), st')" for p usr
  proof -
    have p: "map_get (os_transactions st) state = Some p" using cb by (simp add: callback_ok_def)
    have "uri = pz_redirectUri p" using i by (auto simp: issue_for_user_def split: prod.splits sum.splits)
    moreover have "os_transactions st' = os_transactions (consumed state st)"
      using issue_for_user_adds [OF q, of env rnd p config now] i by (simp add: adds_code_def)
    then have "map_get (os_transactions st') state = None" by (simp add: consumed_def jsmap_simps)
    ultimately show ?thesis using cb oauth_ok_pending [OF ok p] by (auto simp: callback_ok_def good_request_def isSafeRedirectUri_iff)
  qed
  from assms(2) show ?thesis
  proof
    assume g: "handleGitHubCallback env config now rnd cookie code state fetched st = (Inr (RedirectToClient uri c s), st')"
    show ?thesis
    proof (cases rule: handleGitHubCallback_cases [of env config now rnd cookie code state fetched st])
      case (taken p user)
      have "isGitHubUserAllowed config user"
        using g taken(3) by (auto simp: issue_for_user_def upsertGitHubUserOf_def split: prod.splits sum.splits if_splits)
      with core [OF taken(1) upsert_quiet(1)] taken g show ?thesis by auto
    qed (use g in simp)
  next
    assume g: "handleGoogleCallback env config now rnd cookie code state gfetched st = (Inr (RedirectToClient uri c s), st')"
    show ?thesis
    proof (cases rule: handleGoogleCallback_cases [of env config now rnd cookie code state gfetched st])
      case (taken p user)
      have "isGoogleUserAllowed config user"
        using g taken(3) by (auto simp: issue_for_user_def upsertGoogleUserOf_def split: prod.splits sum.splits if_splits)
      with core [OF taken(1) upsert_quiet(2)] taken g show ?thesis by auto
    qed (use g in simp)
  qed
qed

subsection \<open>A run\<close>

text \<open>One client, one user, and a code that was issued for the challenge \<open>v\<close>.\<close>

definition demo_oauth_env :: oauth_env where
  "demo_oauth_env = \<lparr> oe_sha256 = (\<lambda>s. s), oe_url = (\<lambda>_. Some \<lparr> url_protocol = ''https:'', url_hostname = ''h'' \<rparr>),
     oe_vars = (\<lambda>_. None) \<rparr>"

definition demo_pending :: pending_authorize where
  "demo_pending = \<lparr> pz_clientId = ''c'', pz_redirectUri = ''https://h/'', pz_codeChallenge = ''v'', pz_resource = ''r'',
     pz_scope = ''hosts:read'', pz_state = ''s'', pz_expiresAt = 9, pz_approved = True \<rparr>"

definition demo_code_row :: authorization_code where
  "demo_code_row = \<lparr> ac_id = ''i'', ac_codeHash = ''k'', ac_clientId = ''c'', ac_userId = ''github:7'',
     ac_redirectUri = ''https://h/'', ac_codeChallenge = ''v'', ac_resource = ''r'', ac_scope = ''hosts:read'',
     ac_expiresAt = 9, ac_usedAt = None, ac_createdAt = 0 \<rparr>"

definition demo_user :: user_row where
  "demo_user = \<lparr> us_id = ''github:7'', us_githubId = Some ''7'', us_githubLogin = Some ''ada'', us_googleId = None,
     us_email = None, us_displayName = ''ada'', us_provider = ''github'' \<rparr>"

definition demo_oauth_state :: oauth_state where
  "demo_oauth_state = \<lparr> os_attempts = [], os_transactions = [],
     os_store = empty_store\<lparr> rs_users := [demo_user], rs_clients := [newClient ''i'' ''c'' ''n'' [''https://h/''] 0],
       rs_codes := [demo_code_row] \<rparr> \<rparr>"

definition demo_token_request :: token_request where
  "demo_token_request = \<lparr> tq_grantType = ''authorization_code'', tq_clientId = ''c'', tq_code = ''k'',
     tq_redirectUri = ''https://h/'', tq_codeVerifier = ''v'' \<rparr>"

lemmas demo_oauth_defs = demo_oauth_env_def demo_code_row_def demo_user_def demo_oauth_state_def demo_token_request_def
  newClient_def empty_store_def

lemma demo_store_ok: "store_ok (os_store demo_oauth_state)"
  by (simp add: store_ok_def demo_oauth_defs)

lemma demo_scopes: "scopeList ''hosts:read'' = Inr [ScHostsRead]"
  by code_simp

lemma demo_mark: "\<exists>s. markAuthorizationCodeUsed ''k'' 3 (os_store demo_oauth_state) = Inr s"
  by (simp add: markAuthorizationCodeUsed_def changes_def demo_oauth_defs)

lemma demo_user_found: "\<exists>user. userFromId ''github:7'' (os_store demo_oauth_state) = Inr user"
  by (simp add: userFromId_def getUserByGitHubId_def demo_oauth_defs)

lemma demo_grant: "\<exists>g st1. handleToken demo_oauth_env config 3 ''t'' demo_token_request demo_oauth_state = (Inr g, st1)"
proof -
  obtain user s where f: "userFromId ''github:7'' (os_store demo_oauth_state) = Inr user"
    "markAuthorizationCodeUsed ''k'' 3 (os_store demo_oauth_state) = Inr s"
    using demo_user_found demo_mark by blast
  have l: "getClient ''c'' (os_store demo_oauth_state) \<noteq> None"
    "getAuthorizationCodeByHash ''k'' (os_store demo_oauth_state) = Some demo_code_row"
    by (simp_all add: getClient_def getAuthorizationCodeByHash_def demo_oauth_defs)
  have v: "tq_grantType demo_token_request = ''authorization_code''" "tq_clientId demo_token_request = ''c''"
    "tq_code demo_token_request = ''k''" "tq_redirectUri demo_token_request = ''https://h/''"
    "tq_codeVerifier demo_token_request = ''v''" "oe_sha256 demo_oauth_env = (\<lambda>s. s)" "ac_codeHash demo_code_row = ''k''"
    "ac_clientId demo_code_row = ''c''" "ac_redirectUri demo_code_row = ''https://h/''" "ac_codeChallenge demo_code_row = ''v''"
    "ac_usedAt demo_code_row = None" "ac_expiresAt demo_code_row = 9" "ac_userId demo_code_row = ''github:7''"
    "ac_scope demo_code_row = ''hosts:read''"
    by (simp_all add: demo_token_request_def demo_oauth_env_def demo_code_row_def)
  show ?thesis
    by (simp add: handleToken_def Let_def v l f demo_scopes hashSecret_def pkceChallenge_def)
qed

theorem authorization_code_single_use_witness:
  "\<exists>g st1. handleToken demo_oauth_env (loadRemoteConfig (\<lambda>_. None)) 3 ''t'' demo_token_request demo_oauth_state = (Inr g, st1) \<and>
     fst (handleToken demo_oauth_env (loadRemoteConfig (\<lambda>_. None)) 4 ''u'' demo_token_request st1) \<noteq> Inr g"
proof -
  obtain g st1 where
    r: "handleToken demo_oauth_env (loadRemoteConfig (\<lambda>_. None)) 3 ''t'' demo_token_request demo_oauth_state = (Inr g, st1)"
    using demo_grant by blast
  from authorization_code_single_use [OF demo_store_ok r rtranclp.rtrancl_refl refl] r show ?thesis by blast
qed

theorem token_grant_exact_witness:
  "\<exists>g. tg_scopes g = [ScHostsRead] \<and>
     fst (handleToken demo_oauth_env (loadRemoteConfig (\<lambda>_. None)) 3 ''t'' demo_token_request demo_oauth_state) = Inr g"
proof -
  obtain g st1 where
    r: "handleToken demo_oauth_env (loadRemoteConfig (\<lambda>_. None)) 3 ''t'' demo_token_request demo_oauth_state = (Inr g, st1)"
    using demo_grant by blast
  have l: "getAuthorizationCodeByHash ''k'' (os_store demo_oauth_state) = Some demo_code_row"
    by (simp add: getAuthorizationCodeByHash_def demo_oauth_defs)
  have v: "tq_code demo_token_request = ''k''" "oe_sha256 demo_oauth_env = (\<lambda>s. s)" "ac_scope demo_code_row = ''hosts:read''"
    by (simp_all add: demo_token_request_def demo_oauth_env_def demo_code_row_def)
  have "tg_scopes g = [ScHostsRead]"
    using r token_grant_exact [OF demo_store_ok, of demo_oauth_env "loadRemoteConfig (\<lambda>_. None)" 3 "''t''" demo_token_request g]
    by (auto simp: v l hashSecret_def demo_scopes)
  with r show ?thesis by auto
qed

text \<open>A run from the empty server to a callback.\<close>

definition demo_oauth_config :: remote_config where
  "demo_oauth_config = (loadRemoteConfig (\<lambda>_. None))\<lparr> rc_allowAllUsers := True, rc_githubClientId := Some ''g'',
     rc_githubClientSecret := Some ''s'', rc_maxOAuthClients := 5, rc_mcpResourceUrl := ''r'', rc_authCodeTtlSeconds := 300 \<rparr>"

lemma demo_oauth_config_simps [simp]:
  "rc_allowAllUsers demo_oauth_config = True" "rc_githubClientId demo_oauth_config = Some ''g''"
  "rc_githubClientSecret demo_oauth_config = Some ''s''" "rc_maxOAuthClients demo_oauth_config = 5"
  "rc_mcpResourceUrl demo_oauth_config = ''r''" "rc_authCodeTtlSeconds demo_oauth_config = 300"
  by (simp_all add: demo_oauth_config_def)

definition demo_randoms :: oauth_randoms where
  "demo_randoms = \<lparr> or_clientRow = ''w'', or_codeRow = ''x'', or_code = ''y'', or_transaction = ''z'' \<rparr>"

definition demo_authorize :: authorize_request where
  "demo_authorize = \<lparr> az_clientId = ''c'', az_redirectUri = ''https://h/'', az_responseType = ''code'',
     az_codeChallenge = ''v'', az_codeChallengeMethod = ''S256'', az_state = ''s'', az_resource = ''r'', az_scope = ''hosts:read'' \<rparr>"

definition demo_st1 :: oauth_state where
  "demo_st1 = snd (handleRegister demo_oauth_env demo_oauth_config 0 ''p'' ''i'' ''c''
     [(''redirect_uris'', JArr [JStr ''https://h/''])] oauth_init)"

definition demo_st2 :: oauth_state where
  "demo_st2 = snd (handleAuthorize demo_oauth_env demo_oauth_config 0 demo_randoms demo_authorize demo_st1)"

definition demo_cookie :: "string option" where
  "demo_cookie = Some ''ssh_mcp_oauth_tx=z''"

definition demo_st3 :: oauth_state where
  "demo_st3 = snd (handleApprove demo_oauth_config 1 demo_cookie ''z'' None demo_st2)"

lemma demo_safe_uri: "isSafeRedirectUri demo_oauth_env uri"
  by (simp add: isSafeRedirectUri_def demo_oauth_env_def)

lemma demo_no_vars: "oe_vars demo_oauth_env v = None"
  by (simp add: demo_oauth_env_def)

lemma demo_st1_eq:
  "demo_st1 = \<lparr> os_attempts = [(''p'', \<lparr> rw_count = Suc 0, rw_expiresAt = 300000 \<rparr>)], os_transactions = [],
     os_store = audit_row 0 (audit_note None None ''oauth_client_registered'' SevInfo)
       (empty_store\<lparr> rs_clients := [newClient ''i'' ''c'' ''ChatGPT Connector'' [''https://h/''] 0] \<rparr>) \<rparr>"
  by (simp add: demo_st1_def handleRegister_def Let_def asStringArray_def demo_safe_uri oauth_init_def empty_store_def
      countOAuthClients_def insertClient_def insert_row_def asString_def map_filter_simps os_audit_def)

lemma demo_st2_eq:
  "demo_st2 = demo_st1\<lparr> os_transactions := [(''z'', (request_of demo_oauth_config 0 demo_authorize))] \<rparr>"
  by (simp add: demo_st2_def handleAuthorize_def validateAuthorizeParams_def authorize_client_def demo_authorize_def
      demo_st1_eq getClient_def newClient_def demo_safe_uri demo_scopes testGitHubUser_def testGoogleUser_def
      allowFixtureIdentity_def demo_no_vars Let_def truthy_def demo_randoms_def request_of_def)

lemma demo_browser: "matchingBrowser demo_cookie ''z''"
  by code_simp

lemma demo_st3_eq:
  "demo_st3 = demo_st2\<lparr> os_transactions := [(''z'', (request_of demo_oauth_config 0 demo_authorize)\<lparr> pz_approved := True \<rparr>)] \<rparr>"
  by (simp add: demo_st3_def handleApprove_def transaction_live_def demo_browser demo_st2_eq request_of_def Let_def truthy_def)

lemma demo_reachable: "(\<lambda>s t. \<exists>config h. oauth_step demo_oauth_env config h s t)\<^sup>*\<^sup>* oauth_init demo_st3"
proof -
  define R where "R = (\<lambda>s t. \<exists>config h. oauth_step demo_oauth_env config h s t)"
  have "R oauth_init demo_st1" unfolding demo_st1_def R_def by (blast intro: oauth_step.register)
  moreover have "R demo_st1 demo_st2"
    unfolding demo_st2_def R_def by (intro exI [of _ demo_oauth_config] exI [of _ "''q''"] oauth_step.authorize)
      (simp add: hashSecret_def demo_oauth_env_def demo_randoms_def)
  moreover have "R demo_st2 demo_st3" unfolding demo_st3_def R_def by (blast intro: oauth_step.approve)
  ultimately have "R\<^sup>*\<^sup>* oauth_init demo_st3" by (meson rtranclp.rtrancl_into_rtrancl rtranclp.rtrancl_refl)
  then show ?thesis by (simp add: R_def)
qed

definition demo_github :: "string \<Rightarrow> safe_error + github_user" where
  "demo_github code = Inr \<lparr> gh_id = ''7'', gh_login = ''ada'' \<rparr>"

lemma demo_callback:
  "\<exists>st'. handleGitHubCallback demo_oauth_env demo_oauth_config 2 demo_randoms demo_cookie ''k'' ''z'' demo_github demo_st3 =
     (Inr (RedirectToClient ''https://h/'' ''y'' (Some ''s'')), st')"
  by (simp add: handleGitHubCallback_def consumeOAuthCallback_def demo_st3_eq demo_st2_eq demo_st1_eq request_of_def
      demo_authorize_def demo_browser demo_github_def issue_for_user_def upsertGitHubUserOf_def isGitHubUserAllowed_def
      getUserByGitHubId_def upsertUser_def issueAuthorizationCode_def insertAuthorizationCode_def insert_row_def Let_def
      os_audit_def audit_row_def insertAudit_def empty_store_def demo_randoms_def)

theorem callback_redirect_safe_witness:
  "\<exists>st'. handleGitHubCallback demo_oauth_env demo_oauth_config 2 demo_randoms demo_cookie ''k'' ''z'' demo_github demo_st3 =
       (Inr (RedirectToClient ''https://h/'' ''y'' (Some ''s'')), st') \<and>
     matchingBrowser demo_cookie ''z'' \<and> map_get (os_transactions st') ''z'' = None"
proof -
  obtain st' where
    r: "handleGitHubCallback demo_oauth_env demo_oauth_config 2 demo_randoms demo_cookie ''k'' ''z'' demo_github demo_st3 =
       (Inr (RedirectToClient ''https://h/'' ''y'' (Some ''s'')), st')"
    using demo_callback by blast
  from callback_redirect_safe [OF demo_reachable disjI1 [OF r], where gfetched = "\<lambda>_. Inl (safeError FORBIDDEN [] 400)"] r
  show ?thesis by blast
qed

end
