(* ===== verification/OAuthTokens.thy ===== *)
theory OAuthTokens
  imports OAuthProps
begin

section \<open>Access tokens\<close>

text \<open>
  A token that is granted is read back as the user and the scopes it was granted for, so what a caller
  may do at the control plane is what the user authorised.
\<close>

lemma scope_name_plain: "plain_word (scope_name sc)"
  by (cases sc) (simp_all add: plain_word_def is_ws_def)

lemma scope_words_of_names: "scope_words (join '' '' (map scope_name scopes)) = map scope_name scopes"
proof (cases "scopes = []")
  case True
  then show ?thesis by (simp add: scope_words_def)
next
  case False
  have "split_ws False [] (join '' '' (map scope_name scopes)) = map scope_name scopes"
    by (rule split_ws_join) (use False scope_name_plain in auto)
  moreover have "scope_name sc \<noteq> []" for sc using scope_name_plain [of sc] by (simp add: plain_word_def)
  ultimately show ?thesis by (simp add: scope_words_def filter_id_conv)
qed

lemma scope_of_its_name [simp]: "scope_of_name (scope_name sc) = Some sc"
  by (simp add: scope_of_name_Some)

lemma map_filter_scope_names: "List.map_filter scope_of_name (map scope_name scopes) = scopes"
  by (induction scopes) (simp_all add: map_filter_simps)

lemma map_of_optional_entry: "map_of (optional_entry k v) k' = (if k' = k \<and> truthy v then Some (JStr (the v)) else None)"
  by (simp add: optional_entry_def)

lemma claims_lookup:
  "map_of (access_token_claims config now tokenId user scopes) ''scope'' = Some (JStr (join '' '' (map scope_name scopes)))"
  "map_of (access_token_claims config now tokenId user scopes) ''sub'' = Some (JStr (tu_id user))"
  "map_of (access_token_claims config now tokenId user scopes) ''jti'' = Some (JStr tokenId)"
  "map_of (access_token_claims config now tokenId user scopes) ''exp'' =
     Some (JNum (now div 1000 + rc_accessTokenTtlSeconds config))"
  "\<exists>i. map_of (access_token_claims config now tokenId user scopes) ''github_id'' = Some (JStr i)"
  "\<exists>l. map_of (access_token_claims config now tokenId user scopes) ''github_login'' = Some (JStr l)"
  by (simp_all add: access_token_claims_def Let_def map_add_def map_of_optional_entry)

lemma principal_of_claims:
  "\<exists>p. principalFromPayload (access_token_claims config now tokenId user scopes) = Some p \<and> rp_userId p = tu_id user \<and>
     rp_scopes p = scopes \<and> rp_capabilities p = capabilitiesFromScopes scopes \<and> rp_tokenId p = tokenId"
proof -
  obtain i l where "map_of (access_token_claims config now tokenId user scopes) ''github_id'' = Some (JStr i)"
    "map_of (access_token_claims config now tokenId user scopes) ''github_login'' = Some (JStr l)"
    using claims_lookup(5,6) by blast
  then show ?thesis
    by (simp add: principalFromPayload_def Let_def claims_lookup asString_def scope_words_of_names map_filter_scope_names
        claim_text_def list_ex_iff)
qed

text \<open>
  C21: a token that the token endpoint grants, presented as a bearer token and verified by the JWT library with
  the claims that were signed, authenticates exactly the user of the authorization code with exactly
  the granted scopes and the capabilities of those scopes; and it expires after the configured time.
\<close>

theorem access_token_roundtrip:
  assumes "fst (handleToken env config now tokenId rq st) = Inr g"
    and "extractBearerToken authorization = Some token"
    and "jwt_verify token (rc_publicBaseUrl config) (rc_mcpResourceUrl config) = Some (tg_claims g)"
  shows "\<exists>p. verifyRemoteAccessToken jwt_verify authorization config = Some p \<and> rp_userId p = tu_id (tg_user g) \<and>
      rp_scopes p = tg_scopes g \<and> rp_tokenId p = tokenId \<and>
      (\<forall>cap. hasCapability (rp_capabilities p) cap \<longleftrightarrow> (\<exists>sc \<in> set (tg_scopes g). cap \<in> set (SCOPE_CAPABILITY_MAP sc))) \<and>
      map_of (tg_claims g) ''exp'' = Some (JNum (now div 1000 + rc_accessTokenTtlSeconds config))"
proof -
  have g: "tg_claims g = access_token_claims config now tokenId (tg_user g) (tg_scopes g)"
    using assms(1) by (cases rule: handleToken_cases [of env config now tokenId rq st]) auto
  obtain p where p: "principalFromPayload (tg_claims g) = Some p" "rp_userId p = tu_id (tg_user g)" "rp_scopes p = tg_scopes g"
    "rp_capabilities p = capabilitiesFromScopes (tg_scopes g)" "rp_tokenId p = tokenId"
    using principal_of_claims [of config now tokenId "tg_user g" "tg_scopes g"] unfolding g by auto
  have "verifyRemoteAccessToken jwt_verify authorization config = Some p"
    using assms(2,3) p(1) by (simp add: verifyRemoteAccessToken_def)
  with p claims_lookup(4) [of config now tokenId "tg_user g" "tg_scopes g"] g show ?thesis
    by (auto simp: hasCapability_def capabilitiesFromScopes_def set_insert_all_set)
qed

theorem access_token_roundtrip_witness:
  "\<exists>g p. fst (handleToken demo_oauth_env demo_oauth_config 3 ''t'' demo_token_request demo_oauth_state) = Inr g \<and>
     verifyRemoteAccessToken (\<lambda>_ _ _. Some (tg_claims g)) (Some ''Bearer x'') demo_oauth_config = Some p \<and>
     rp_scopes p = tg_scopes g"
proof -
  obtain g st1 where r: "handleToken demo_oauth_env demo_oauth_config 3 ''t'' demo_token_request demo_oauth_state = (Inr g, st1)"
    using demo_grant by blast
  have "extractBearerToken (Some ''Bearer x'') = Some ''x''" by code_simp
  from access_token_roundtrip [OF _ this, of demo_oauth_env demo_oauth_config 3 "''t''" demo_token_request demo_oauth_state g
      "\<lambda>_ _ _. Some (tg_claims g)"] r show ?thesis by auto
qed

end
