(* ===== verification/ControlPlane.thy ===== *)
theory ControlPlane
  imports AgentHandler OAuthFlow Shell
begin

section \<open>Agents of a user: \<open>src/remote/control-plane.ts\<close>\<close>

text \<open>
  The control plane lets a user enrol agents, change their policies, revoke them and send them
  actions. Its state is that of the connections and of the agent handler, which holds the database.
  Random values, the clock, the digest and Node's reading of a public key are arguments. A call
  that waits for an agent's result is split there: \<open>dispatchAction\<close> sends the request, \<open>actionTimeout\<close> is
  its timer and \<open>finishAction\<close> what follows the settlement. The field \<open>policy\<close> of a request is given
  with the types that the code declares for it.
\<close>

subsection \<open>Environment\<close>

record control_env =
  ce_config :: remote_config
  ce_sha256 :: "string \<Rightarrow> string"
  ce_ed25519 :: "string \<Rightarrow> bool"
  ce_serverKey :: string

record control_randoms =
  cr_agentId :: string
  cr_token :: string
  cr_tokenRow :: string
  cr_actionId :: string
  cr_nonce :: string

datatype control_throw = Refused safe_error | Failed store_error | SchemaError | RangeError | DatatypeMismatch

definition refuse :: "remote_error_code \<Rightarrow> string \<Rightarrow> int \<Rightarrow> control_throw" where
  "refuse code message status = Refused (safeError code message status)"

definition cp_store :: "agent_state \<Rightarrow> action_result remote_store" where
  "cp_store st = ah_store (snd st)"

definition set_store :: "action_result remote_store \<Rightarrow> agent_state \<Rightarrow> agent_state" where
  "set_store s st = (fst st, (snd st)\<lparr> ah_store := s \<rparr>)"

definition cp_audit :: "int \<Rightarrow> audit_input \<Rightarrow> agent_state \<Rightarrow> agent_state" where
  "cp_audit now e st = set_store (audit_row now e (cp_store st)) st"

definition action_note :: "string \<Rightarrow> string \<Rightarrow> string \<Rightarrow> string \<Rightarrow> severity \<Rightarrow> audit_input" where
  "action_note userId agentId actionId eventType severity =
     \<lparr> ae_userId = Some userId, ae_agentId = Some agentId, ae_actionId = Some actionId, ae_eventType = eventType,
       ae_severity = severity \<rparr>"

text \<open>
  JavaScript's \<open>Number\<close> on a JSON value, \<open>None\<close> for \<open>NaN\<close>. Texts of numbers with a fraction, an exponent or
  another base are left out, as such numbers are of \<open>json\<close>.
\<close>

definition number_of_text :: "string \<Rightarrow> int option" where
  "number_of_text s =
     (let t = trim s;
          sign = (if prefix ''-'' t then -1 else 1);
          digits = (if prefix ''-'' t \<or> prefix ''+'' t then drop 1 t else t)
      in if t = [] then Some 0
         else if digits \<noteq> [] \<and> list_all is_digit digits then Some (sign * int (num_of_digits digits)) else None)"

fun js_number :: "json \<Rightarrow> int option" where
  "js_number (JNum i) = Some i"
| "js_number (JBool b) = Some (if b then 1 else 0)"
| "js_number JNull = Some 0"
| "js_number (JStr s) = number_of_text s"
| "js_number (JArr []) = Some 0"
| "js_number (JArr [v]) =
     (case v of JNull \<Rightarrow> Some 0 | JBool _ \<Rightarrow> None | JObj _ \<Rightarrow> None | JNum i \<Rightarrow> Some i | JStr s \<Rightarrow> number_of_text s
      | JArr _ \<Rightarrow> js_number v)"
| "js_number (JArr (_ # _ # _)) = None"
| "js_number (JObj _) = None"

text \<open>\<open>Number(v ?? d)\<close>.\<close>

definition number_or :: "json option \<Rightarrow> int \<Rightarrow> int option" where
  "number_or v d = (case v of None \<Rightarrow> Some d | Some JNull \<Rightarrow> Some d | Some x \<Rightarrow> js_number x)"

subsection \<open>Views\<close>

record agent_view =
  av_id :: string
  av_alias :: string
  av_status :: agent_status
  av_profile :: agent_profile
  av_policyVersion :: int
  av_hostMetadata :: "agent_host_metadata option"
  av_lastSeenAt :: "int option"
  av_createdAt :: int
  av_updatedAt :: int

definition sanitizeAgent :: "remote_agent \<Rightarrow> agent_view" where
  "sanitizeAgent agent =
     \<lparr> av_id = ra_id agent, av_alias = ra_alias agent, av_status = ra_status agent, av_profile = ra_profile agent,
       av_policyVersion = ra_policyVersion agent, av_hostMetadata = ra_hostMetadata agent,
       av_lastSeenAt = ra_lastSeenAt agent, av_createdAt = ra_createdAt agent, av_updatedAt = ra_updatedAt agent \<rparr>"

definition quotePosixArg :: "string \<Rightarrow> string" where
  "quotePosixArg v = SQUOTE # replace_char SQUOTE [SQUOTE, DQUOTE, SQUOTE, DQUOTE, SQUOTE] v @ [SQUOTE]"

definition quotePowerShellArg :: "string \<Rightarrow> string" where
  "quotePowerShellArg v = SQUOTE # replace_char SQUOTE [SQUOTE, SQUOTE] v @ [SQUOTE]"

record install_command =
  ic_agentId :: string
  ic_alias :: string
  ic_tokenRecoverable :: bool
  ic_npm :: string
  ic_run :: string
  ic_windows :: string
  ic_expiresInSeconds :: "int option"

definition installCommand :: "control_env \<Rightarrow> remote_agent \<Rightarrow> string option \<Rightarrow> install_command" where
  "installCommand env agent token =
     (let tokenArgument = (case token of None \<Rightarrow> ''<create-a-new-enrollment-token>'' | Some t \<Rightarrow> t);
          base = (\<lambda>quote. join '' ''
            [''npx --yes --package ssh-mcp-pro@latest ssh-mcp-pro-agent enroll'',
             ''--server '' @ quote (rc_publicBaseUrl (ce_config env)),
             ''--token '' @ quote tokenArgument,
             ''--alias '' @ quote (ra_alias agent)])
      in \<lparr> ic_agentId = ra_id agent, ic_alias = ra_alias agent, ic_tokenRecoverable = truthy token,
           ic_npm = base quotePosixArg,
           ic_run = ''npx --yes --package ssh-mcp-pro@latest ssh-mcp-pro-agent run'',
           ic_windows = base quotePowerShellArg,
           ic_expiresInSeconds = (if truthy token then Some (rc_enrollmentTokenTtlSeconds (ce_config env)) else None) \<rparr>)"

subsection \<open>Finding an agent\<close>

definition resolveAgent :: "string \<Rightarrow> string \<Rightarrow> 'r remote_store \<Rightarrow> remote_agent option" where
  "resolveAgent userId v s =
     (if v = [] then None
      else case getAgent v s of
        Some byId \<Rightarrow> if ra_userId byId = userId then Some byId else getAgentByAlias userId v s
      | None \<Rightarrow> getAgentByAlias userId v s)"

definition requireAgent :: "string \<Rightarrow> entries \<Rightarrow> 'r remote_store \<Rightarrow> control_throw + remote_agent" where
  "requireAgent userId args s =
     (case resolveAgent userId (case asString (map_of args ''agent_id_or_alias'') of None \<Rightarrow> [] | Some v \<Rightarrow> v) s of
        None \<Rightarrow> Inl (refuse AGENT_NOT_FOUND ''Agent not found'' 404)
      | Some agent \<Rightarrow> Inr agent)"

subsection \<open>Enrolment\<close>

text \<open>The profile of a new agent is one of three; any other name gives the read-only one.\<close>

definition requested_profile :: "entries \<Rightarrow> agent_profile" where
  "requested_profile args =
     (case asString (map_of args ''requested_profile'') of
        None \<Rightarrow> ReadOnly
      | Some p \<Rightarrow> if p = ''operations'' then Operations else if p = ''full-admin'' then FullAdmin else ReadOnly)"

definition createEnrollmentToken ::
    "control_env \<Rightarrow> int \<Rightarrow> control_randoms \<Rightarrow> remote_principal \<Rightarrow> entries \<Rightarrow> agent_state \<Rightarrow>
     (control_throw + install_command \<times> string) \<times> agent_state" where
  "createEnrollmentToken env now rnd caller args st =
     (if \<not> hasCapability (rp_capabilities caller) AgentsAdmin then
        (Inl (refuse INVALID_SCOPE ''agents:admin scope is required'' 403), st)
      else
        let alias = (case asString (map_of args ''alias'') of None \<Rightarrow> [] | Some a \<Rightarrow> trim a)
        in if alias = [] then (Inl (refuse FORBIDDEN ''alias is required'' 400), st)
           else
             let policy = createAgentPolicy (requested_profile args);
                 existing = getAgentByAlias (rp_userId caller) alias (cp_store st)
             in if (case existing of None \<Rightarrow> False | Some e \<Rightarrow> ra_status e \<noteq> Revoked) then
                  (Inl (refuse FORBIDDEN ''Agent alias already exists'' 400), st)
                else
                  let agent = \<lparr> ra_id = cr_agentId rnd, ra_userId = rp_userId caller, ra_alias = alias,
                        ra_status = Pending, ra_publicKey = None, ra_profile = ap_profile policy, ra_policy = policy,
                        ra_policyVersion = ap_version policy, ra_hostMetadata = None, ra_lastSeenAt = None,
                        ra_createdAt = now, ra_updatedAt = now \<rparr>;
                      token = cr_token rnd
                  in case insertAgent agent (cp_store st) of
                       Inl e \<Rightarrow> (Inl (Failed e), st)
                     | Inr s1 \<Rightarrow>
                         (case insertEnrollmentToken
                              \<lparr> et_id = cr_tokenRow rnd, et_agentId = ra_id agent, et_userId = rp_userId caller,
                                et_tokenHash = hashSecret (ce_sha256 env) token,
                                et_expiresAt = now + rc_enrollmentTokenTtlSeconds (ce_config env) * 1000,
                                et_usedAt = None, et_createdAt = now \<rparr> s1 of
                            Inl e \<Rightarrow> (Inl (Failed e), set_store s1 st)
                          | Inr s2 \<Rightarrow>
                              (Inr (installCommand env agent (Some token), token),
                               cp_audit now (audit_note (Some (rp_userId caller)) (Some (ra_id agent))
                                   ''enrollment_token_created'' SevInfo) (set_store s2 st))))"

record enroll_reply =
  er_agentId :: string
  er_alias :: string
  er_policy :: agent_policy
  er_websocketUrl :: string
  er_controlPlanePublicKey :: string

definition websocket_base :: "string \<Rightarrow> string" where
  "websocket_base url = (if prefix ''http'' url then ''ws'' @ drop 4 url else url)"

definition handleAgentEnroll ::
    "control_env \<Rightarrow> int \<Rightarrow> entries \<Rightarrow> agent_state \<Rightarrow> (control_throw + enroll_reply) \<times> agent_state" where
  "handleAgentEnroll env now body st =
     (let token = (case asString (map_of body ''token'') of None \<Rightarrow> [] | Some t \<Rightarrow> t);
          publicKey = (case asString (map_of body ''public_key'') of None \<Rightarrow> [] | Some k \<Rightarrow> k);
          host_field = (case map_of body ''host'' of Some (JObj es) \<Rightarrow> Some (JObj es) | _ \<Rightarrow> None);
          invalid = (Inl (refuse INVALID_TOKEN ''Enrollment token is expired or invalid'' 401), st)
      in case host_field of
           Some v \<Rightarrow>
             (case parseAgentHostMetadata v of
                None \<Rightarrow> (Inl SchemaError, st)
              | Some host \<Rightarrow>
                  if token = [] \<or> publicKey = [] then
                    (Inl (refuse FORBIDDEN ''token, public_key, and host are required'' 400), st)
                  else if \<not> ce_ed25519 env publicKey then
                    (Inl (refuse FORBIDDEN ''public_key must be an Ed25519 SPKI PEM public key'' 400), st)
                  else case getEnrollmentTokenByHash (hashSecret (ce_sha256 env) token) (cp_store st) of
                    None \<Rightarrow> invalid
                  | Some enrollment \<Rightarrow>
                      if et_usedAt enrollment \<noteq> None \<or> et_expiresAt enrollment < now then invalid
                      else case getAgent (et_agentId enrollment) (cp_store st) of
                        None \<Rightarrow> (Inl (refuse AGENT_NOT_FOUND ''Pending agent not found'' 404), st)
                      | Some agent \<Rightarrow>
                          if ra_status agent = Revoked then
                            (Inl (refuse AGENT_NOT_FOUND ''Pending agent not found'' 404), st)
                          else case markEnrollmentTokenUsed (et_tokenHash enrollment) now (cp_store st) of
                            Inl _ \<Rightarrow> invalid
                          | Inr s1 \<Rightarrow>
                              (case updateAgent (agent\<lparr> ra_status := Offline, ra_publicKey := Some publicKey,
                                                        ra_hostMetadata := Some host, ra_updatedAt := now \<rparr>) s1 of
                                 Inl e \<Rightarrow> (Inl (Failed e), set_store s1 st)
                               | Inr s2 \<Rightarrow>
                                   (Inr \<lparr> er_agentId = ra_id agent, er_alias = ra_alias agent, er_policy = ra_policy agent,
                                          er_websocketUrl = websocket_base (rc_publicBaseUrl (ce_config env)) @
                                            rc_agentWsPath (ce_config env),
                                          er_controlPlanePublicKey = ce_serverKey env \<rparr>,
                                    cp_audit now (audit_note (Some (ra_userId agent)) (Some (ra_id agent))
                                        ''agent_enrolled'' SevInfo) (set_store s2 st))))
         | None \<Rightarrow> (Inl (refuse FORBIDDEN ''token, public_key, and host are required'' 400), st))"

subsection \<open>Policy and revocation\<close>

definition capped_policy :: "remote_config \<Rightarrow> agent_policy_patch \<Rightarrow> int \<Rightarrow> agent_policy" where
  "capped_policy config v nextVersion =
     (let merged = mergeCustomPolicy v
      in merged\<lparr> ap_maxActionTimeoutSeconds :=
                   min (ap_maxActionTimeoutSeconds merged) (rc_maxActionTimeoutSeconds config),
                 ap_maxOutputBytes := min (ap_maxOutputBytes merged) (rc_maxOutputBytes config),
                 ap_version := nextVersion \<rparr>)"

text \<open>
  The envelope of a policy update as it is sent: the policy with its keys, the date as text, and the
  signature over the rest under the server's private key.
\<close>

definition policy_json :: "agent_policy \<Rightarrow> json" where
  "policy_json p =
     JObj [(''profile'', JStr (profile_name (ap_profile p))),
       (''capabilities'', JObj (map (\<lambda>c. (capability_name c, JBool (ap_capabilities p c))) REMOTE_CAPABILITIES)),
       (''allowPaths'', JArr (map JStr (ap_allowPaths p))), (''denyPaths'', JArr (map JStr (ap_denyPaths p))),
       (''allowServices'', JArr (map JStr (ap_allowServices p))), (''allowContainers'', JArr (map JStr (ap_allowContainers p))),
       (''maxOutputBytes'', JNum (ap_maxOutputBytes p)), (''maxActionTimeoutSeconds'', JNum (ap_maxActionTimeoutSeconds p)),
       (''version'', JNum (ap_version p))]"

definition policy_entries :: "(int \<Rightarrow> string) \<Rightarrow> policy_update \<Rightarrow> string \<Rightarrow> entries" where
  "policy_entries to_iso u signature =
     [(''type'', JStr ''policy.update''), (''agent_id'', JStr (pu_agent_id u)), (''policy'', policy_json (pu_policy u)),
      (''policy_version'', JNum (pu_policy_version u)),
      (''issued_at'', case pu_issued_at u of Some t \<Rightarrow> JStr (to_iso t) | None \<Rightarrow> JNull), (''nonce'', JStr (pu_nonce u)),
      (''signature'', JStr signature)]"

definition policy_envelope :: "(string \<Rightarrow> string \<Rightarrow> string) \<Rightarrow> string \<Rightarrow> (int \<Rightarrow> string) \<Rightarrow> policy_update \<Rightarrow> entries" where
  "policy_envelope node_sign privateKey to_iso u =
     policy_entries to_iso u (signEnvelope node_sign (policy_entries to_iso u []) privateKey)"

definition updateAgentPolicy ::
    "control_env \<Rightarrow> int \<Rightarrow> control_randoms \<Rightarrow> remote_principal \<Rightarrow> remote_agent \<Rightarrow> agent_policy_patch \<Rightarrow> agent_state \<Rightarrow>
     (control_throw + remote_agent) \<times> agent_state" where
  "updateAgentPolicy env now rnd caller agent v st =
     (if \<not> hasCapability (rp_capabilities caller) AgentsAdmin then
        (Inl (refuse INVALID_SCOPE ''agents:admin scope is required'' 403), st)
      else
        let nextVersion = ra_policyVersion agent + 1;
            policy = capped_policy (ce_config env) v nextVersion;
            updated = agent\<lparr> ra_profile := ap_profile policy, ra_policy := policy, ra_policyVersion := nextVersion,
                            ra_updatedAt := now \<rparr>
        in case updateAgent updated (cp_store st) of
             Inl e \<Rightarrow> (Inl (Failed e), st)
           | Inr s \<Rightarrow>
               let st1 = set_store s st;
                   st2 = (case live_of (snd st1) (ra_id agent) of
                       None \<Rightarrow> st1
                     | Some live \<Rightarrow>
                         on_lc (emit (SendJson (al_connection live)
                           (PolicyMessage \<lparr> pu_agent_id = ra_id agent, pu_policy = policy, pu_policy_version = nextVersion,
                                            pu_issued_at = Some now, pu_nonce = cr_nonce rnd \<rparr>))) st1)
               in (Inr updated,
                   cp_audit now (audit_note (Some (rp_userId caller)) (Some (ra_id agent)) ''policy_updated'' SevWarn)
                     st2))"

definition revokeAgent ::
    "int \<Rightarrow> remote_principal \<Rightarrow> remote_agent \<Rightarrow> agent_state \<Rightarrow> (control_throw + remote_agent) \<times> agent_state" where
  "revokeAgent now caller agent st =
     (if \<not> hasCapability (rp_capabilities caller) AgentsAdmin then
        (Inl (refuse INVALID_SCOPE ''agents:admin scope is required'' 403), st)
      else
        let updated = agent\<lparr> ra_status := Revoked, ra_updatedAt := now \<rparr>
        in case updateAgent updated (cp_store st) of
             Inl e \<Rightarrow> (Inl (Failed e), st)
           | Inr s \<Rightarrow>
               let st1 = set_store s st;
                   st2 = (case live_of (snd st1) (ra_id agent) of
                       None \<Rightarrow> st1 | Some live \<Rightarrow> on_lc (emit (CloseWs (al_connection live) 1000 [])) st1);
                   st3 = (fst st2, (snd st2)\<lparr> ah_connections := map_delete (ra_id agent) (ah_connections (snd st2)) \<rparr>)
               in (Inr updated,
                   cp_audit now (audit_note (Some (rp_userId caller)) (Some (ra_id agent)) ''agent_revoked'' SevWarn) st3))"

subsection \<open>Actions\<close>

definition MAX_TIME_MS :: int where
  "MAX_TIME_MS = 8640000000000000"

text \<open>\<open>dispatchAction\<close> up to its wait; the result is the id under which the action is pending.\<close>

definition dispatchAction ::
    "control_env \<Rightarrow> int \<Rightarrow> control_randoms \<Rightarrow> remote_principal \<Rightarrow> remote_agent \<Rightarrow> remote_tool \<Rightarrow> remote_capability \<Rightarrow>
     entries \<Rightarrow> agent_state \<Rightarrow> (control_throw + string) \<times> agent_state" where
  "dispatchAction env now rnd caller agent tool capability args st =
     (if ra_status agent = Revoked then (Inl (refuse AGENT_REVOKED ''Agent is revoked'' 410), st)
      else case live_of (snd st) (ra_id agent) of
        None \<Rightarrow> (Inl (refuse AGENT_OFFLINE ''Agent is offline'' 503), st)
      | Some live \<Rightarrow>
          (case number_or (map_of args ''timeout_seconds'') (ap_maxActionTimeoutSeconds (ra_policy agent)) of
             None \<Rightarrow> (Inl RangeError, st)
           | Some requested \<Rightarrow>
               let timeoutSeconds = min (min requested (ap_maxActionTimeoutSeconds (ra_policy agent)))
                     (rc_maxActionTimeoutSeconds (ce_config env));
                   deadline = now + timeoutSeconds * 1000;
                   actionId = cr_actionId rnd;
                   request = \<lparr> rq_action_id = actionId, rq_agent_id = ra_id agent, rq_user_id = rp_userId caller,
                     rq_tool = tool, rq_capability = capability, rq_args = args,
                     rq_policy_version = ra_policyVersion agent, rq_issued_at = now, rq_deadline = deadline,
                     rq_nonce = cr_nonce rnd \<rparr>;
                   action = \<lparr> ar_id = actionId, ar_userId = rp_userId caller, ar_agentId = ra_id agent, ar_tool = tool,
                     ar_capability = capability, ar_args = args, ar_status = ActSent, ar_issuedAt = now,
                     ar_deadline = deadline, ar_completedAt = None, ar_result = None, ar_errorCode = None \<rparr>
               in if \<bar>deadline\<bar> > MAX_TIME_MS then (Inl RangeError, st)
                  else case insertAction action (cp_store st) of
                    Inl e \<Rightarrow> (Inl (Failed e), st)
                  | Inr s \<Rightarrow>
                      let note = (\<lambda>event. cp_audit now (action_note (rp_userId caller) (ra_id agent) actionId event SevInfo));
                          st1 = note ''action_allowed'' (note ''action_requested'' (set_store s st));
                          st2 = (fst st1, (snd st1)\<lparr> ah_pending := map_set actionId action (ah_pending (snd st1)) \<rparr>)
                      in (Inr actionId, on_lc (emit (SendJson (al_connection live) (ActionMessage request))) st2)))"

definition actionTimeout :: "string \<Rightarrow> agent_state \<Rightarrow> agent_state" where
  "actionTimeout actionId st =
     (case map_get (ah_pending (snd st)) actionId of
        None \<Rightarrow> st
      | Some _ \<Rightarrow> (fst st, settle actionId (Rejected (Some AGENT_TIMEOUT) ''Agent timed out'') (snd st)))"

text \<open>\<open>action\<close> is the record that was sent.\<close>

definition finishAction ::
    "int \<Rightarrow> remote_principal \<Rightarrow> action_result action_record \<Rightarrow> settlement \<Rightarrow> agent_state \<Rightarrow>
     (control_throw + action_result) \<times> agent_state" where
  "finishAction now caller action outcome st =
     (let note = (\<lambda>event severity.
            action_note (rp_userId caller) (ar_agentId action) (ar_id action) event severity)
      in case outcome of
           Rejected thrown _ \<Rightarrow>
             let code = (case thrown of None \<Rightarrow> INTERNAL_ERROR | Some c \<Rightarrow> c);
                 done_action = action\<lparr> ar_status := (if code = AGENT_TIMEOUT then ActTimeout else ActError),
                   ar_completedAt := Some now, ar_errorCode := Some code \<rparr>
             in (Inl (refuse code (if code = AGENT_TIMEOUT then ''Agent timed out'' else ''Agent action failed'') 504),
                 cp_audit now (note ''action_denied_or_failed'' SevWarn)
                   (set_store (updateAction done_action (cp_store st)) st))
         | Resolved result \<Rightarrow>
             let done_action = action\<lparr> ar_status := (if rt_ok result then ActCompleted else ActError),
                   ar_completedAt := Some now, ar_result := Some result, ar_errorCode := rt_error_code result \<rparr>
             in (Inr result,
                 cp_audit now (if rt_ok result then note ''action_completed'' SevInfo else note ''action_denied_or_failed'' SevWarn)
                   (set_store (updateAction done_action (cp_store st)) st)))"

subsection \<open>Tools\<close>

datatype tool_reply =
    HostList "(string \<times> string \<times> agent_status \<times> agent_host_metadata option) list"
  | AgentList "agent_view list"
  | EnrollmentCreated install_command string
  | InstallCommand install_command
  | OneAgent agent_view
  | AuditEvents "audit_event list"
  | ActionPending string

definition reply_with :: "('a \<Rightarrow> tool_reply) \<Rightarrow> ('e + 'a) \<times> 's \<Rightarrow> ('e + tool_reply) \<times> 's" where
  "reply_with f r = (case r of (Inl e, s) \<Rightarrow> (Inl e, s) | (Inr x, s) \<Rightarrow> (Inr (f x), s))"

definition with_agent ::
    "remote_principal \<Rightarrow> entries \<Rightarrow> agent_state \<Rightarrow> (remote_agent \<Rightarrow> (control_throw + tool_reply) \<times> agent_state) \<Rightarrow>
     (control_throw + tool_reply) \<times> agent_state" where
  "with_agent caller args st f =
     (case requireAgent (rp_userId caller) args (cp_store st) of Inl e \<Rightarrow> (Inl e, st) | Inr agent \<Rightarrow> f agent)"

definition callRemoteTool ::
    "control_env \<Rightarrow> int \<Rightarrow> control_randoms \<Rightarrow> remote_principal \<Rightarrow> remote_tool \<Rightarrow> entries \<Rightarrow> agent_policy_patch \<Rightarrow> agent_state \<Rightarrow>
     (control_throw + tool_reply) \<times> agent_state" where
  "callRemoteTool env now rnd caller tool args policy st =
     (let capability = TOOL_CAPABILITY_MAP tool; userId = rp_userId caller
      in if \<not> hasCapability (rp_capabilities caller) capability then
           (Inl (refuse INVALID_SCOPE (''Scope does not grant '' @ capability_name capability) 403), st)
         else case tool of
           ListHosts \<Rightarrow>
             (Inr (HostList (map (\<lambda>a. (ra_id a, ra_alias a, ra_status a, ra_hostMetadata a)) (listAgents userId (cp_store st)))), st)
         | ListAgents \<Rightarrow> (Inr (AgentList (map sanitizeAgent (listAgents userId (cp_store st)))), st)
         | CreateEnrollmentToken \<Rightarrow>
             reply_with (\<lambda>(c, t). EnrollmentCreated c t) (createEnrollmentToken env now rnd caller args st)
         | GetAgentInstallCommand \<Rightarrow>
             with_agent caller args st (\<lambda>agent. (Inr (InstallCommand (installCommand env agent None)), st))
         | UpdateAgentPolicy \<Rightarrow>
             with_agent caller args st
               (\<lambda>agent. reply_with (\<lambda>a. OneAgent (sanitizeAgent a)) (updateAgentPolicy env now rnd caller agent policy st))
         | RevokeAgent \<Rightarrow>
             with_agent caller args st
               (\<lambda>agent. reply_with (\<lambda>a. OneAgent (sanitizeAgent a)) (revokeAgent now caller agent st))
         | GetAuditEvents \<Rightarrow>
             (let agentId = (case asString (map_of args ''agent_id_or_alias'') of
                    None \<Rightarrow> None
                  | Some v \<Rightarrow> if v = [] then None else map_option ra_id (resolveAgent userId v (cp_store st)))
              in case number_or (map_of args ''limit'') 50 of
                   None \<Rightarrow> (Inl DatatypeMismatch, st)
                 | Some limit \<Rightarrow> (Inr (AuditEvents (listAudit userId agentId limit (cp_store st))), st))
         | _ \<Rightarrow>
             with_agent caller args st (\<lambda>agent.
               if \<not> ap_capabilities (ra_policy agent) capability then
                 (Inl (refuse CAPABILITY_DENIED (''Agent policy does not allow '' @ capability_name capability) 403),
                  cp_audit now (audit_note (Some userId) (Some (ra_id agent)) ''action_denied'' SevWarn) st)
               else reply_with ActionPending (dispatchAction env now rnd caller agent tool capability args st)))"

subsection \<open>Requests\<close>

definition authenticate ::
    "(string \<Rightarrow> string \<Rightarrow> string \<Rightarrow> entries option) \<Rightarrow> control_env \<Rightarrow> int \<Rightarrow> string option \<Rightarrow> agent_state \<Rightarrow>
     (control_throw + remote_principal) \<times> agent_state" where
  "authenticate jwt_verify env now authorization st =
     (case verifyRemoteAccessToken jwt_verify authorization (ce_config env) of
        Some caller \<Rightarrow> (Inr caller, st)
      | None \<Rightarrow>
          (Inl (refuse UNAUTHORIZED ''Missing or invalid bearer token'' 401),
           cp_audit now (audit_note None None ''token_validation_failure'' SevWarn) st))"

datatype api_reply = Enrolled enroll_reply | Replied int tool_reply | ApiNotFound

definition replied :: "int \<Rightarrow> (control_throw + tool_reply) \<times> agent_state \<Rightarrow> (control_throw + api_reply) \<times> agent_state" where
  "replied status r = (case r of (Inl e, st) \<Rightarrow> (Inl e, st) | (Inr x, st) \<Rightarrow> (Inr (Replied status x), st))"

text \<open>The agent and the sub-resource of \<open>/api/agents/:agent\<close>, \<open>/policy\<close> and \<open>/revoke\<close>.\<close>

definition agent_route :: "string \<Rightarrow> (string \<times> string option) option" where
  "agent_route pathname =
     (case split_on (\<lambda>c. c = SLASH) pathname of
        [a, b, c, agent] \<Rightarrow> if a = [] \<and> b = ''api'' \<and> c = ''agents'' \<and> agent \<noteq> [] then Some (agent, None) else None
      | [a, b, c, agent, sub] \<Rightarrow>
          if a = [] \<and> b = ''api'' \<and> c = ''agents'' \<and> agent \<noteq> [] \<and> sub \<in> {''policy'', ''revoke''} then Some (agent, Some sub)
          else None
      | _ \<Rightarrow> None)"

text \<open>
  A request with a body waits for it. The enrolment routes read nothing before that wait, but a \<open>PATCH\<close>
  has read the agent's row by then: it is held until the body is there, and other requests and messages are
  handled in between.
\<close>

datatype route_outcome =
    RouteReplied "(control_throw + tool_reply) \<times> agent_state"
  | RouteAwaitsBody remote_agent

definition handleAgentApiRoute ::
    "int \<Rightarrow> string \<Rightarrow> string \<Rightarrow> remote_principal \<Rightarrow> agent_state \<Rightarrow> route_outcome option" where
  "handleAgentApiRoute now http_method pathname caller st =
     (case agent_route pathname of
        None \<Rightarrow> None
      | Some (v, sub) \<Rightarrow>
          (case resolveAgent (rp_userId caller) v (cp_store st) of
             None \<Rightarrow> Some (RouteReplied (Inl (refuse AGENT_NOT_FOUND ''Agent not found'' 404), st))
           | Some agent \<Rightarrow>
               if sub = None \<and> http_method = ''GET'' then
                 Some (RouteReplied (if \<not> hasCapability (rp_capabilities caller) AgentsRead then
                         (Inl (refuse INVALID_SCOPE ''agents:read scope is required'' 403), st)
                       else (Inr (OneAgent (sanitizeAgent agent)), st)))
               else if (sub = None \<or> sub = Some ''policy'') \<and> http_method = ''PATCH'' then
                 Some (RouteAwaitsBody agent)
               else if sub = Some ''revoke'' \<and> http_method = ''POST'' then
                 Some (RouteReplied (reply_with (\<lambda>a. OneAgent (sanitizeAgent a)) (revokeAgent now caller agent st)))
               else None))"

text \<open>The body of the \<open>PATCH\<close> has arrived; \<open>agent\<close> is the row that was read before the wait.\<close>

definition patch_arrived ::
    "control_env \<Rightarrow> int \<Rightarrow> control_randoms \<Rightarrow> agent_policy_patch \<Rightarrow> remote_principal \<Rightarrow> remote_agent \<Rightarrow> agent_state \<Rightarrow>
     (control_throw + api_reply) \<times> agent_state" where
  "patch_arrived env now rnd policy caller agent st =
     replied 200 (reply_with (\<lambda>a. OneAgent (sanitizeAgent a)) (updateAgentPolicy env now rnd caller agent policy st))"

datatype api_outcome =
    ApiDone "(control_throw + api_reply) \<times> agent_state"
  | ApiAwaitsPatch remote_principal remote_agent agent_state

definition handleApi ::
    "(string \<Rightarrow> string \<Rightarrow> string \<Rightarrow> entries option) \<Rightarrow> control_env \<Rightarrow> int \<Rightarrow> control_randoms \<Rightarrow> string \<Rightarrow> string \<Rightarrow>
     string option \<Rightarrow> entries \<Rightarrow> string option \<Rightarrow> agent_state \<Rightarrow> api_outcome" where
  "handleApi jwt_verify env now rnd http_method pathname authorization body limit_param st =
     (if pathname = ''/api/agents/enroll'' \<and> http_method = ''POST'' then
        ApiDone (case handleAgentEnroll env now body st of (Inl e, st1) \<Rightarrow> (Inl e, st1) | (Inr r, st1) \<Rightarrow> (Inr (Enrolled r), st1))
      else case authenticate jwt_verify env now authorization st of
        (Inl e, st1) \<Rightarrow> ApiDone (Inl e, st1)
      | (Inr caller, st1) \<Rightarrow>
          if pathname = ''/api/agents/enrollment-tokens'' \<and> http_method = ''POST'' then
            ApiDone (replied 201 (reply_with (\<lambda>(c, t). EnrollmentCreated c t) (createEnrollmentToken env now rnd caller body st1)))
          else if pathname = ''/api/agents'' \<and> http_method = ''GET'' then
            ApiDone (if \<not> hasCapability (rp_capabilities caller) AgentsRead then
               (Inl (refuse INVALID_SCOPE ''agents:read scope is required'' 403), st1)
             else (Inr (Replied 200 (AgentList (map sanitizeAgent (listAgents (rp_userId caller) (cp_store st1))))), st1))
          else case handleAgentApiRoute now http_method pathname caller st1 of
            Some (RouteReplied r) \<Rightarrow> ApiDone (replied 200 r)
          | Some (RouteAwaitsBody agent) \<Rightarrow> ApiAwaitsPatch caller agent st1
          | None \<Rightarrow>
              ApiDone (if pathname = ''/api/audit'' \<and> http_method = ''GET'' then
                (if \<not> hasCapability (rp_capabilities caller) AgentsAdmin then
                   (Inl (refuse INVALID_SCOPE ''agents:admin scope is required'' 403), st1)
                 else case number_or (map_option JStr limit_param) 50 of
                   None \<Rightarrow> (Inl DatatypeMismatch, st1)
                 | Some limit \<Rightarrow>
                     (Inr (Replied 200 (AuditEvents (listAudit (rp_userId caller) None limit (cp_store st1)))), st1))
              else (Inr ApiNotFound, st1)))"

definition cp_close :: "agent_state \<Rightarrow> agent_state" where
  "cp_close st =
     (let lc1 = lc_close (fst st); h = snd st
      in (lc1\<lparr> lc_effects := lc_effects lc1 @ map (\<lambda>e. CloseWs (al_connection (snd e)) 1000 []) (ah_connections h) \<rparr>,
          h\<lparr> ah_settled := ah_settled h @ map (\<lambda>e. (fst e, Rejected None ''Control plane shutting down'')) (ah_pending h),
             ah_pending := [], ah_connections := [], ah_helloNonces := [] \<rparr>))"

end
