(* ===== verification/ControlPlaneProps.thy ===== *)
theory ControlPlaneProps
  imports ControlPlane AgentHandlerProps
begin

section \<open>What the control plane guarantees\<close>

text \<open>
  Users are separated: no tool shows or changes what another user owns. An enrollment token is used
  once, revocation is final, a policy update is capped and newer than the last, an action is sent only
  when scope, ownership and agent policy allow it, and the install command is read as it is meant.
\<close>

subsection \<open>Views\<close>

lemma set_store_simps [simp]:
  "cp_store (set_store s st) = s" "fst (set_store s st) = fst st" "live_of (snd (set_store s st)) = live_of (snd st)"
  "ah_pending (snd (set_store s st)) = ah_pending (snd st)" "ah_settled (snd (set_store s st)) = ah_settled (snd st)"
  "ah_connections (snd (set_store s st)) = ah_connections (snd st)"
  by (simp_all add: set_store_def cp_store_def live_of_def fun_eq_iff)

lemma cp_audit_simps [simp]:
  "cp_store (cp_audit now e st) = audit_row now e (cp_store st)" "fst (cp_audit now e st) = fst st"
  "live_of (snd (cp_audit now e st)) = live_of (snd st)" "ah_pending (snd (cp_audit now e st)) = ah_pending (snd st)"
  "ah_settled (snd (cp_audit now e st)) = ah_settled (snd st)"
  by (simp_all add: cp_audit_def)

lemma on_lc_store [simp]: "cp_store (on_lc f st) = cp_store st"
  by (simp add: cp_store_def)

lemma audit_row_tables [simp]:
  "rs_agents (audit_row now e s) = rs_agents s" "rs_tokens (audit_row now e s) = rs_tokens s"
  "rs_actions (audit_row now e s) = rs_actions s" "rs_sessions (audit_row now e s) = rs_sessions s"
  "rs_codes (audit_row now e s) = rs_codes s" "rs_users (audit_row now e s) = rs_users s"
  "rs_clients (audit_row now e s) = rs_clients s"
  by (simp_all add: audit_row_def insertAudit_def)

lemma audit_row_audit: "map ae_userId (rs_audit (audit_row now e s)) = map ae_userId (rs_audit s) @ [ae_userId e]"
  by (simp add: audit_row_def insertAudit_def)

lemma store_ok_audited [simp]: "store_ok s \<Longrightarrow> store_ok (audit_row now e s)"
  by (simp add: audit_row_def store_ok_changes)

lemma audit_note_user [simp]: "ae_userId (audit_note u a t v) = u" "ae_userId (action_note c b i t v) = Some c"
  by (simp_all add: audit_note_def action_note_def)

subsection \<open>Agents of a user\<close>

lemma agentFromRow_simps [simp]:
  "ra_id (agentFromRow r) = ra_id r" "ra_userId (agentFromRow r) = ra_userId r" "ra_alias (agentFromRow r) = ra_alias r"
  "ra_status (agentFromRow r) = ra_status r" "ra_policy (agentFromRow r) = ra_policy r"
  "ra_policyVersion (agentFromRow r) = ra_policyVersion r"
  by (simp_all add: agentFromRow_def)

definition owned :: "string \<Rightarrow> string \<Rightarrow> 'r remote_store \<Rightarrow> bool" where
  "owned u a s \<longleftrightarrow> (\<exists>r \<in> set (rs_agents s). ra_id r = a \<and> ra_userId r = u)"

lemma getAgent_row: "getAgent a s = Some agent \<Longrightarrow> \<exists>r \<in> set (rs_agents s). agent = agentFromRow r \<and> ra_id r = a"
  by (auto simp: getAgent_def find_Some_iff)

lemma getAgentByAlias_row:
  "getAgentByAlias u alias s = Some agent \<Longrightarrow> \<exists>r \<in> set (rs_agents s). agent = agentFromRow r \<and> ra_userId r = u"
  by (auto simp: getAgentByAlias_def find_Some_iff)

lemma resolveAgent_row:
  "resolveAgent u v s = Some agent \<Longrightarrow> \<exists>r \<in> set (rs_agents s). agent = agentFromRow r \<and> ra_userId r = u"
  by (auto simp: resolveAgent_def split: if_splits option.splits dest!: getAgent_row getAgentByAlias_row)

lemma resolveAgent_owned: "resolveAgent u v s = Some agent \<Longrightarrow> ra_userId agent = u \<and> owned u (ra_id agent) s"
  by (drule resolveAgent_row) (auto simp: owned_def)

lemma requireAgent_owned: "requireAgent u args s = Inr agent \<Longrightarrow> ra_userId agent = u \<and> owned u (ra_id agent) s"
  by (auto simp: requireAgent_def split: option.splits dest: resolveAgent_owned)

lemma owned_unique: "store_ok s \<Longrightarrow> owned u a s \<Longrightarrow> owned v a s \<Longrightarrow> u = v"
proof -
  assume ok: "store_ok s" and "owned u a s" "owned v a s"
  then obtain r r' where r: "r \<in> set (rs_agents s)" "r' \<in> set (rs_agents s)" "ra_id r = ra_id r'"
    "ra_userId r = u" "ra_userId r' = v"
    by (auto simp: owned_def)
  have "inj_on ra_id (set (rs_agents s))" using ok by (simp add: store_ok_def distinct_map)
  from inj_onD [OF this r(3) r(1,2)] r show "u = v" by simp
qed

lemma updateAgent_rows:
  "updateAgent agent s = Inr s' \<Longrightarrow>
   s' = s\<lparr> rs_agents := map (\<lambda>r. if ra_id r = ra_id agent
              then agent\<lparr> ra_userId := ra_userId r, ra_createdAt := ra_createdAt r \<rparr> else r) (rs_agents s) \<rparr>"
  by (simp add: updateAgent_def Let_def update_rows_def split: if_splits)

lemma owned_updateAgent:
  assumes "updateAgent agent s = Inr s'"
  shows "owned u a s' = owned u a s"
proof -
  let ?key = "\<lambda>r. (ra_id r, ra_userId r)"
  have "map ?key (rs_agents s') = map ?key (rs_agents s)"
    by (subst updateAgent_rows [OF assms]) simp
  then have "set (map ?key (rs_agents s')) = set (map ?key (rs_agents s))" by simp
  moreover have "owned u a t \<longleftrightarrow> (a, u) \<in> set (map ?key (rs_agents t))" for t :: "'a remote_store"
    by (force simp: owned_def)
  ultimately show ?thesis by simp
qed

text \<open>What a user has: agents, tokens, actions, audit events and live connections.\<close>

record user_view =
  uv_agents :: "remote_agent list"
  uv_tokens :: "enrollment_token list"
  uv_actions :: "action_result action_record list"
  uv_audit :: "audit_event list"
  uv_live :: "(string \<times> agent_live option) list"

definition view_of :: "string \<Rightarrow> agent_state \<Rightarrow> user_view" where
  "view_of u st =
     (let s = cp_store st; agents = filter (\<lambda>r. ra_userId r = u) (rs_agents s)
      in \<lparr> uv_agents = agents, uv_tokens = filter (\<lambda>t. et_userId t = u) (rs_tokens s),
           uv_actions = filter (\<lambda>a. ar_userId a = u) (rs_actions s),
           uv_audit = filter (\<lambda>e. ae_userId e = Some u) (rs_audit s),
           uv_live = map (\<lambda>r. (ra_id r, live_of (snd st) (ra_id r))) agents \<rparr>)"

lemma view_of_audit [simp]: "ae_userId e \<noteq> Some u \<Longrightarrow> view_of u (cp_audit now e st) = view_of u st"
  by (simp add: view_of_def audit_row_def insertAudit_def Let_def)

lemma view_of_on_lc [simp]: "view_of u (on_lc f st) = view_of u st"
  by (simp add: view_of_def)

lemma filter_update_other:
  "(\<And>r. r \<in> set rows \<Longrightarrow> P r \<Longrightarrow> \<not> Q r \<and> \<not> Q (f r)) \<Longrightarrow> filter Q (update_rows P f rows) = filter Q rows"
  by (induction rows) (auto simp: update_rows_def)

lemma updateAgent_other:
  assumes "store_ok (cp_store st)" and "owned c (ra_id agent) (cp_store st)" and "c \<noteq> u"
    and "updateAgent agent (cp_store st) = Inr s"
  shows "view_of u (set_store s st) = view_of u st"
proof -
  have other: "ra_userId r \<noteq> u" if "r \<in> set (rs_agents (cp_store st))" "ra_id r = ra_id agent" for r
    using owned_unique [OF assms(1,2), of "ra_userId r"] that assms(3) by (auto simp: owned_def)
  have s: "s = (cp_store st)\<lparr> rs_agents := update_rows (\<lambda>r. ra_id r = ra_id agent)
      (\<lambda>r. agent\<lparr> ra_userId := ra_userId r, ra_createdAt := ra_createdAt r \<rparr>) (rs_agents (cp_store st)) \<rparr>"
    unfolding update_rows_def by (rule updateAgent_rows [OF assms(4)])
  show ?thesis unfolding s by (simp add: view_of_def Let_def filter_update_other other)
qed

lemma view_of_disconnect:
  assumes "store_ok (cp_store st)" and "owned c a (cp_store st)" and "c \<noteq> u"
  shows "view_of u (fst st, (snd st)\<lparr> ah_connections := map_delete a (ah_connections (snd st)) \<rparr>) = view_of u st"
proof -
  have "live_of ((snd st)\<lparr> ah_connections := map_delete a (ah_connections (snd st)) \<rparr>) (ra_id r) = live_of (snd st) (ra_id r)"
    if "r \<in> set (rs_agents (cp_store st))" "ra_userId r = u" for r
    using owned_unique [OF assms(1,2), of u] that assms(3) by (auto simp: owned_def live_of_def jsmap_simps)
  then show ?thesis by (simp add: view_of_def cp_store_def Let_def)
qed

subsection \<open>No tool touches what another user has\<close>

lemma view_of_sent [simp]: "view_of u (lc, (snd st)\<lparr> ah_pending := p \<rparr>) = view_of u st"
  by (simp add: view_of_def cp_store_def live_of_def Let_def)

lemma view_of_insertAgent:
  "insertAgent agent (cp_store st) = Inr s \<Longrightarrow> ra_userId agent \<noteq> u \<Longrightarrow> view_of u (set_store s st) = view_of u st"
  by (auto simp: insertAgent_def bind_res_Inr insert_row_Inr view_of_def Let_def)

lemma view_of_insertToken:
  "insertEnrollmentToken t (cp_store st) = Inr s \<Longrightarrow> et_userId t \<noteq> u \<Longrightarrow> view_of u (set_store s st) = view_of u st"
  by (auto simp: insertEnrollmentToken_def bind_res_Inr insert_row_Inr view_of_def Let_def)

lemma view_of_insertAction:
  "insertAction a (cp_store st) = Inr s \<Longrightarrow> ar_userId a \<noteq> u \<Longrightarrow> view_of u (set_store s st) = view_of u st"
  by (auto simp: insertAction_def bind_res_Inr insert_row_Inr view_of_def Let_def)

lemma set_store_twice [simp]: "set_store s (set_store t st) = set_store s st"
  by (simp add: set_store_def)

lemma createEnrollmentToken_other:
  assumes "rp_userId c \<noteq> u"
  shows "view_of u (snd (createEnrollmentToken env now rnd c args st)) = view_of u st"
proof -
  have "view_of u (set_store s2 st) = view_of u st"
    if "insertAgent a (cp_store st) = Inr s1" "insertEnrollmentToken t s1 = Inr s2"
      "ra_userId a = rp_userId c" "et_userId t = rp_userId c" for a t s1 s2
    using view_of_insertAgent [OF that(1)] view_of_insertToken [of t "set_store s1 st" s2] that assms by simp
  moreover have "view_of u (set_store s1 st) = view_of u st"
    if "insertAgent a (cp_store st) = Inr s1" "ra_userId a = rp_userId c" for a s1
    using view_of_insertAgent [OF that(1)] that(2) assms by simp
  ultimately show ?thesis
    using assms by (auto simp: createEnrollmentToken_def Let_def split: sum.splits)
qed

lemma updateAgentPolicy_other:
  assumes "store_ok (cp_store st)" and "owned (rp_userId c) (ra_id agent) (cp_store st)" and "rp_userId c \<noteq> u"
  shows "view_of u (snd (updateAgentPolicy env now rnd c agent v st)) = view_of u st"
proof -
  have "view_of u (set_store s st) = view_of u st"
    if "updateAgent a (cp_store st) = Inr s" "ra_id a = ra_id agent" for a s
    using updateAgent_other [OF assms(1) _ assms(3) that(1)] assms(2) that(2) by simp
  with assms(3) show ?thesis
    by (auto simp: updateAgentPolicy_def Let_def split: sum.splits option.splits)
qed

lemma revokeAgent_other:
  assumes "store_ok (cp_store st)" and "owned (rp_userId c) (ra_id agent) (cp_store st)" and "rp_userId c \<noteq> u"
  shows "view_of u (snd (revokeAgent now c agent st)) = view_of u st"
proof (cases "hasCapability (rp_capabilities c) AgentsAdmin")
  case True
  let ?a = "agent\<lparr> ra_status := Revoked, ra_updatedAt := now \<rparr>"
  show ?thesis
  proof (cases "updateAgent ?a (cp_store st)")
    case (Inr s)
    let ?st1 = "set_store s st"
    let ?st2 = "case live_of (snd ?st1) (ra_id agent) of
      None \<Rightarrow> ?st1 | Some live \<Rightarrow> on_lc (emit (CloseWs (al_connection live) 1000 [])) ?st1"
    have v: "view_of u ?st2 = view_of u st"
      using updateAgent_other [OF assms(1) _ assms(3) Inr] assms(2) by (simp split: option.splits)
    have ok: "store_ok (cp_store ?st2)" "owned (rp_userId c) (ra_id agent) (cp_store ?st2)"
      using store_ok_updateAgent [OF assms(1) Inr] assms(2) owned_updateAgent [OF Inr]
      by (simp_all split: option.splits)
    from view_of_disconnect [OF ok assms(3)] v True Inr assms(3) show ?thesis
      by (simp add: revokeAgent_def Let_def)
  qed (simp add: revokeAgent_def True)
qed (simp add: revokeAgent_def)

lemma dispatchAction_other:
  assumes "rp_userId c \<noteq> u"
  shows "view_of u (snd (dispatchAction env now rnd c agent tool cap args st)) = view_of u st"
proof -
  have "view_of u (set_store s st) = view_of u st"
    if "insertAction a (cp_store st) = Inr s" "ar_userId a = rp_userId c" for a s
    using view_of_insertAction [OF that(1)] that(2) assms by simp
  with assms show ?thesis
    by (auto simp: dispatchAction_def Let_def split: sum.splits option.splits)
qed

lemma snd_reply_with [simp]: "snd (reply_with f r) = snd r"
  by (simp add: reply_with_def split: prod.splits sum.splits)

lemma with_agent_other:
  assumes "\<And>agent. owned (rp_userId c) (ra_id agent) (cp_store st) \<Longrightarrow> view_of u (snd (f agent)) = view_of u st"
  shows "view_of u (snd (with_agent c args st f)) = view_of u st"
  using assms by (auto simp: with_agent_def dest: requireAgent_owned split: sum.splits)

lemma callRemoteTool_other:
  assumes "store_ok (cp_store st)" and "rp_userId c \<noteq> u"
  shows "view_of u (snd (callRemoteTool env now rnd c tool args policy st)) = view_of u st"
  using assms
  by (cases tool)
    (simp_all add: callRemoteTool_def Let_def createEnrollmentToken_other with_agent_other updateAgentPolicy_other
      revokeAgent_other dispatchAction_other split: option.splits)

text \<open>What a reply names belongs to the caller.\<close>

fun shows_only :: "string \<Rightarrow> action_result remote_store \<Rightarrow> tool_reply \<Rightarrow> bool" where
  "shows_only u s (HostList hosts) \<longleftrightarrow> (\<forall>h \<in> set hosts. owned u (fst h) s)"
| "shows_only u s (AgentList agents) \<longleftrightarrow> (\<forall>a \<in> set agents. owned u (av_id a) s)"
| "shows_only u s (EnrollmentCreated c _) \<longleftrightarrow> owned u (ic_agentId c) s"
| "shows_only u s (InstallCommand c) \<longleftrightarrow> owned u (ic_agentId c) s"
| "shows_only u s (OneAgent a) \<longleftrightarrow> owned u (av_id a) s"
| "shows_only u s (AuditEvents events) \<longleftrightarrow> (\<forall>e \<in> set events. ae_userId e = Some u)"
| "shows_only u s (ActionPending i) \<longleftrightarrow>
     (\<exists>a \<in> set (rs_actions s). ar_id a = i \<and> ar_userId a = u \<and> owned u (ar_agentId a) s)"

definition reply_owned :: "string \<Rightarrow> (control_throw + tool_reply) \<times> agent_state \<Rightarrow> bool" where
  "reply_owned u r \<longleftrightarrow> (case fst r of Inl _ \<Rightarrow> True | Inr reply \<Rightarrow> shows_only u (cp_store (snd r)) reply)"

lemma reply_owned_simps [simp]:
  "reply_owned u (Inl e, st)" "reply_owned u (Inr reply, st) = shows_only u (cp_store st) reply"
  by (simp_all add: reply_owned_def)

lemma owned_audited [simp]: "owned u a (audit_row now e s) = owned u a s"
  by (simp add: owned_def)

lemma listAgents_owned: "a \<in> set (listAgents u s) \<Longrightarrow> owned u (ra_id a) s"
  by (auto simp: listAgents_def owned_def)

lemma listAudit_owned: "e \<in> set (listAudit u agentId limit s) \<Longrightarrow> ae_userId e = Some u"
  by (auto simp: listAudit_def Let_def dest!: in_set_takeD)

lemma owned_insertAgent: "insertAgent agent s = Inr s' \<Longrightarrow> owned (ra_userId agent) (ra_id agent) s'"
  by (auto simp: insertAgent_def bind_res_Inr insert_row_Inr owned_def)

lemma owned_insertToken: "insertEnrollmentToken t s = Inr s' \<Longrightarrow> owned u a s' = owned u a s"
  by (auto simp: insertEnrollmentToken_def bind_res_Inr owned_def)

lemma owned_insertAction: "insertAction t s = Inr s' \<Longrightarrow> owned u a s' = owned u a s \<and> t \<in> set (rs_actions s')"
  by (auto simp: insertAction_def bind_res_Inr insert_row_Inr owned_def)

lemma cp_store_maps [simp]:
  "cp_store (lc, (snd st)\<lparr> ah_connections := m \<rparr>) = cp_store st" "cp_store (lc, (snd st)\<lparr> ah_pending := p \<rparr>) = cp_store st"
  by (simp_all add: cp_store_def)

lemma sanitize_id [simp]: "av_id (sanitizeAgent a) = ra_id a"
  by (simp add: sanitizeAgent_def)

lemma install_agentId [simp]: "ic_agentId (installCommand env agent token) = ra_id agent"
  by (simp add: installCommand_def Let_def)

lemma createEnrollmentToken_owned:
  "reply_owned (rp_userId c) (reply_with (\<lambda>(x, t). EnrollmentCreated x t) (createEnrollmentToken env now rnd c args st))"
  by (auto simp: createEnrollmentToken_def reply_with_def Let_def owned_insertToken dest: owned_insertAgent split: sum.splits)

lemma updateAgentPolicy_owned:
  "owned (rp_userId c) (ra_id agent) (cp_store st) \<Longrightarrow>
   reply_owned (rp_userId c) (reply_with (\<lambda>a. OneAgent (sanitizeAgent a)) (updateAgentPolicy env now rnd c agent v st))"
  by (auto simp: updateAgentPolicy_def reply_with_def Let_def owned_updateAgent split: sum.splits option.splits)

lemma revokeAgent_owned:
  "owned (rp_userId c) (ra_id agent) (cp_store st) \<Longrightarrow>
   reply_owned (rp_userId c) (reply_with (\<lambda>a. OneAgent (sanitizeAgent a)) (revokeAgent now c agent st))"
  by (auto simp: revokeAgent_def reply_with_def Let_def owned_updateAgent
      split: sum.splits option.splits)

lemma dispatchAction_owned:
  "owned (rp_userId c) (ra_id agent) (cp_store st) \<Longrightarrow>
   reply_owned (rp_userId c) (reply_with ActionPending (dispatchAction env now rnd c agent tool cap args st))"
  by (force simp: dispatchAction_def reply_with_def Let_def dest: owned_insertAction
      split: sum.splits option.splits)

lemma with_agent_owned:
  assumes "\<And>agent. owned (rp_userId c) (ra_id agent) (cp_store st) \<Longrightarrow> reply_owned (rp_userId c) (f agent)"
  shows "reply_owned (rp_userId c) (with_agent c args st f)"
  using assms by (auto simp: with_agent_def dest: requireAgent_owned split: sum.splits)

lemma callRemoteTool_owned: "reply_owned (rp_userId c) (callRemoteTool env now rnd c tool args policy st)"
  by (cases tool)
    (auto simp: callRemoteTool_def Let_def listAgents_owned listAudit_owned createEnrollmentToken_owned
      intro!: with_agent_owned updateAgentPolicy_owned revokeAgent_owned dispatchAction_owned split: option.splits)

text \<open>
  C29: users are separated. Whatever tool a user calls, with whatever arguments, the agents, tokens,
  actions, audit events and live connections of every other user are as before, and what the reply
  names, agents, audit events or the action it started, belongs to the caller.
\<close>

theorem tenant_isolation:
  assumes "store_ok (cp_store st)" and "u \<noteq> rp_userId c"
  shows "view_of u (snd (callRemoteTool env now rnd c tool args policy st)) = view_of u st \<and>
    (case fst (callRemoteTool env now rnd c tool args policy st) of
       Inl _ \<Rightarrow> True
     | Inr reply \<Rightarrow> shows_only (rp_userId c) (cp_store (snd (callRemoteTool env now rnd c tool args policy st))) reply)"
  using callRemoteTool_other [OF assms(1), of c u] callRemoteTool_owned [of c] assms(2) by (simp add: reply_owned_def)

subsection \<open>The install command\<close>

lemma quotePosixArg_shellQuote: "quotePosixArg = shellQuote"
  by (simp add: fun_eq_iff quotePosixArg_def shellQuote_def)

lemma sh_words_quoted:
  assumes "t \<noteq> []" and "\<not> sh_operator (hd t)" and "sh_words t = Some (ws, r)"
  shows "sh_words (shellQuote v @ '' '' @ t) = Some (v # ws, r)"
proof -
  obtain x xs where t: "t = x # xs" using assms(1) by (cases t) auto
  have "sh_word Plain (shellQuote v @ '' '' @ t) = Some (v, CHR '' '' # x # xs)"
    using sh_word_quote [of v "'' '' @ t"] sh_word_end [of "'' '' @ t"] by (simp add: t ends_word_def sh_operator_def)
  then show ?thesis using assms(2,3) by (intro sh_words_Cons) (simp_all add: t)
qed

lemma sh_words_quoted_last: "sh_words (shellQuote v) = Some ([v], [])"
  using sh_words_last [of "shellQuote v" v "[]"] sh_word_quote [of v "[]"] by (simp add: skip_blanks_def)

lemma not_operator_start:
  "bare_word w \<Longrightarrow> w \<noteq> [] \<Longrightarrow> \<not> sh_operator (hd (w @ t))" "\<not> sh_operator (hd (shellQuote v @ t))" "shellQuote v \<noteq> []"
  by (auto simp: bare_word_def shellQuote_def sh_operator_def)

lemma sh_words_bare_list:
  assumes "sh_words t = Some (ws, r)" and "t \<noteq> []" and "\<not> sh_operator (hd t)"
  shows "list_all (\<lambda>w. bare_word w \<and> w \<noteq> []) bs \<Longrightarrow> sh_words (concat (map (\<lambda>w. w @ '' '') bs) @ t) = Some (bs @ ws, r)"
proof (induction bs)
  case (Cons b bs)
  let ?t = "concat (map (\<lambda>w. w @ '' '') bs) @ t"
  have "?t \<noteq> []" "\<not> sh_operator (hd ?t)"
    using assms(2,3) Cons.prems not_operator_start(1) by (cases bs; simp)+
  with sh_words_bare [of b ?t "bs @ ws" r] Cons show ?case by simp
qed (use assms(1) in simp)

definition enroll_words :: "string list" where
  "enroll_words = [''npx'', ''--yes'', ''--package'', ''ssh-mcp-pro@latest'', ''ssh-mcp-pro-agent'', ''enroll'', ''--server'']"

lemma enroll_words_bare: "list_all (\<lambda>w. bare_word w \<and> w \<noteq> []) enroll_words"
  by (simp add: enroll_words_def bare_word_def sh_operator_def sh_special_def)

lemma flag_words: "bare_word ''--token''" "bare_word ''--alias''"
  by (simp_all add: bare_word_def sh_operator_def sh_special_def)

text \<open>
  A shell reads the install command as the enrolment of exactly the agent it was made for: whatever the
  alias, the token and the server address contain, each is one argument with exactly that value and
  nothing follows the command.
\<close>

theorem install_command_words:
  "sh_words (ic_npm (installCommand env agent token)) =
     Some ([''npx'', ''--yes'', ''--package'', ''ssh-mcp-pro@latest'', ''ssh-mcp-pro-agent'', ''enroll'',
            ''--server'', rc_publicBaseUrl (ce_config env),
            ''--token'', (case token of None \<Rightarrow> ''<create-a-new-enrollment-token>'' | Some t \<Rightarrow> t),
            ''--alias'', ra_alias agent], [])"
proof -
  let ?url = "rc_publicBaseUrl (ce_config env)"
  let ?tok = "case token of None \<Rightarrow> ''<create-a-new-enrollment-token>'' | Some t \<Rightarrow> t"
  let ?a = "''--alias'' @ '' '' @ shellQuote (ra_alias agent)"
  let ?t = "''--token'' @ '' '' @ shellQuote ?tok @ '' '' @ ?a"
  have 1: "sh_words ?a = Some ([''--alias'', ra_alias agent], [])"
    by (rule sh_words_bare [OF flag_words(2) _ _ sh_words_quoted_last])
      (use not_operator_start(2) [of _ "[]"] not_operator_start(3) in simp_all)
  have 2: "sh_words (shellQuote ?tok @ '' '' @ ?a) = Some ([?tok, ''--alias'', ra_alias agent], [])"
    by (rule sh_words_quoted [OF _ _ 1]) (simp_all add: sh_operator_def)
  have 3: "sh_words ?t = Some ([''--token'', ?tok, ''--alias'', ra_alias agent], [])"
    by (rule sh_words_bare [OF flag_words(1) _ _ 2]) (use not_operator_start(2,3) in simp_all)
  have 4: "sh_words (shellQuote ?url @ '' '' @ ?t) = Some ([?url, ''--token'', ?tok, ''--alias'', ra_alias agent], [])"
    by (rule sh_words_quoted [OF _ _ 3]) (simp_all add: sh_operator_def)
  have 5: "sh_words (concat (map (\<lambda>w. w @ '' '') enroll_words) @ shellQuote ?url @ '' '' @ ?t) =
      Some (enroll_words @ [?url, ''--token'', ?tok, ''--alias'', ra_alias agent], [])"
    by (rule sh_words_bare_list [OF 4 _ _ enroll_words_bare]) (use not_operator_start(2,3) in simp_all)
  have "ic_npm (installCommand env agent token) = concat (map (\<lambda>w. w @ '' '') enroll_words) @ shellQuote ?url @ '' '' @ ?t"
    by (simp add: installCommand_def Let_def quotePosixArg_shellQuote enroll_words_def)
  with 5 show ?thesis by (simp add: enroll_words_def)
qed

subsection \<open>Requests to agents\<close>

fun is_request :: "ws_effect \<Rightarrow> bool" where
  "is_request (SendJson _ (ActionMessage _)) = True"
| "is_request _ = False"

definition requests_sent :: "lifecycle \<Rightarrow> ws_effect list" where
  "requests_sent lc = filter is_request (lc_effects lc)"

lemma requests_sent_emit [simp]: "requests_sent (emit e lc) = requests_sent lc @ (if is_request e then [e] else [])"
  by (simp add: requests_sent_def emit_def)

definition sends_request ::
    "control_env \<Rightarrow> int \<Rightarrow> remote_principal \<Rightarrow> remote_tool \<Rightarrow> entries \<Rightarrow> agent_state \<Rightarrow> string \<Rightarrow> agent_state \<Rightarrow> bool" where
  "sends_request env now c tool args st i st' \<longleftrightarrow>
     (\<exists>agent live rq action.
        requireAgent (rp_userId c) args (cp_store st) = Inr agent \<and> ra_userId agent = rp_userId c \<and>
        ra_status agent \<noteq> Revoked \<and> ap_capabilities (ra_policy agent) (TOOL_CAPABILITY_MAP tool) \<and>
        live_of (snd st) (ra_id agent) = Some live \<and>
        requests_sent (fst st') = requests_sent (fst st) @ [SendJson (al_connection live) (ActionMessage rq)] \<and>
        rq_action_id rq = i \<and> rq_agent_id rq = ra_id agent \<and> rq_user_id rq = rp_userId c \<and> rq_tool rq = tool \<and>
        rq_capability rq = TOOL_CAPABILITY_MAP tool \<and> rq_args rq = args \<and>
        rq_deadline rq \<le> now + 1000 * ap_maxActionTimeoutSeconds (ra_policy agent) \<and>
        rq_deadline rq \<le> now + 1000 * rc_maxActionTimeoutSeconds (ce_config env) \<and>
        map_get (ah_pending (snd st')) i = Some action \<and> action \<in> set (rs_actions (cp_store st')) \<and>
        ar_id action = i \<and> ar_status action = ActSent \<and> ar_deadline action = rq_deadline rq)"

lemma dispatch_sends:
  assumes "dispatchAction env now rnd c agent tool (TOOL_CAPABILITY_MAP tool) args st = (Inr i, st')"
    and "requireAgent (rp_userId c) args (cp_store st) = Inr agent"
    and "ap_capabilities (ra_policy agent) (TOOL_CAPABILITY_MAP tool)"
  shows "sends_request env now c tool args st i st'"
proof -
  from assms(1) obtain live requested where
    l: "live_of (snd st) (ra_id agent) = Some live" "ra_status agent \<noteq> Revoked"
      "number_or (map_of args ''timeout_seconds'') (ap_maxActionTimeoutSeconds (ra_policy agent)) = Some requested"
    by (auto simp: dispatchAction_def split: if_splits option.splits)
  let ?t = "min (min requested (ap_maxActionTimeoutSeconds (ra_policy agent))) (rc_maxActionTimeoutSeconds (ce_config env))"
  let ?rq = "\<lparr> rq_action_id = cr_actionId rnd, rq_agent_id = ra_id agent, rq_user_id = rp_userId c, rq_tool = tool,
      rq_capability = TOOL_CAPABILITY_MAP tool, rq_args = args, rq_policy_version = ra_policyVersion agent,
      rq_issued_at = now, rq_deadline = now + ?t * 1000, rq_nonce = cr_nonce rnd \<rparr>"
  let ?act = "\<lparr> ar_id = cr_actionId rnd, ar_userId = rp_userId c, ar_agentId = ra_id agent, ar_tool = tool,
      ar_capability = TOOL_CAPABILITY_MAP tool, ar_args = args, ar_status = ActSent, ar_issuedAt = now,
      ar_deadline = now + ?t * 1000, ar_completedAt = None, ar_result = None, ar_errorCode = None \<rparr>"
  from assms(1) l obtain s where s: "insertAction ?act (cp_store st) = Inr s" and i: "i = cr_actionId rnd"
    by (auto simp: dispatchAction_def Let_def split: if_splits sum.splits)
  have st': "requests_sent (fst st') = requests_sent (fst st) @ [SendJson (al_connection live) (ActionMessage ?rq)]"
    "map_get (ah_pending (snd st')) i = Some ?act" "rs_actions (cp_store st') = rs_actions s"
    using assms(1) l s i by (auto simp: dispatchAction_def Let_def jsmap_simps split: if_splits)
  have "?act \<in> set (rs_actions (cp_store st'))" using owned_insertAction [OF s] st'(3) by simp
  moreover have "ra_userId agent = rp_userId c" using requireAgent_owned [OF assms(2)] by simp
  ultimately show ?thesis
    unfolding sends_request_def using assms(2,3) l st'(1,2) i
    by (intro exI [of _ agent] exI [of _ live] exI [of _ ?rq] exI [of _ ?act]) simp
qed

lemma dispatch_refused: "dispatchAction env now rnd c agent tool cap args st = (Inl e, st') \<Longrightarrow> fst st' = fst st"
  by (auto simp: dispatchAction_def Let_def split: if_splits option.splits sum.splits)

lemma updateAgentPolicy_requests: "requests_sent (fst (snd (updateAgentPolicy env now rnd c agent v st))) = requests_sent (fst st)"
  by (simp add: updateAgentPolicy_def Let_def split: sum.splits option.splits)

lemma revokeAgent_requests: "requests_sent (fst (snd (revokeAgent now c agent st))) = requests_sent (fst st)"
  by (simp add: revokeAgent_def Let_def split: sum.splits option.splits)

lemma createEnrollmentToken_requests: "fst (snd (createEnrollmentToken env now rnd c args st)) = fst st"
  by (simp add: createEnrollmentToken_def Let_def split: sum.splits)

definition request_outcome ::
    "control_env \<Rightarrow> int \<Rightarrow> remote_principal \<Rightarrow> remote_tool \<Rightarrow> entries \<Rightarrow> agent_state \<Rightarrow>
     (control_throw + tool_reply) \<times> agent_state \<Rightarrow> bool" where
  "request_outcome env now c tool args st r \<longleftrightarrow>
     (case fst r of
        Inr (ActionPending i) \<Rightarrow> sends_request env now c tool args st i (snd r)
      | _ \<Rightarrow> requests_sent (fst (snd r)) = requests_sent (fst st))"

lemma request_outcome_quiet:
  "requests_sent (fst (snd r)) = requests_sent (fst st) \<Longrightarrow> (\<And>i. fst r \<noteq> Inr (ActionPending i)) \<Longrightarrow>
   request_outcome env now c tool args st r"
  by (simp add: request_outcome_def split: sum.splits tool_reply.splits)

lemma reply_with_not_pending: "(\<And>x i. f x \<noteq> ActionPending i) \<Longrightarrow> fst (reply_with f r) \<noteq> Inr (ActionPending i)"
  by (auto simp: reply_with_def split: prod.splits sum.splits)

lemma agent_tool_outcome:
  "request_outcome env now c tool args st (with_agent c args st (\<lambda>agent.
     if \<not> ap_capabilities (ra_policy agent) (TOOL_CAPABILITY_MAP tool) then
       (Inl e, cp_audit now (note agent) st)
     else reply_with ActionPending (dispatchAction env now rnd c agent tool (TOOL_CAPABILITY_MAP tool) args st)))"
proof (cases "requireAgent (rp_userId c) args (cp_store st)")
  case (Inl e)
  then show ?thesis by (simp add: with_agent_def request_outcome_def)
next
  case (Inr agent)
  show ?thesis
  proof (cases "ap_capabilities (ra_policy agent) (TOOL_CAPABILITY_MAP tool)")
    case True
    obtain r st' where d: "dispatchAction env now rnd c agent tool (TOOL_CAPABILITY_MAP tool) args st = (r, st')"
      by (cases "dispatchAction env now rnd c agent tool (TOOL_CAPABILITY_MAP tool) args st")
    show ?thesis
    proof (cases r)
      case (Inl e)
      with d dispatch_refused [of env now rnd c agent tool "TOOL_CAPABILITY_MAP tool" args st e st'] Inr True show ?thesis
        by (simp add: with_agent_def request_outcome_def reply_with_def)
    next
      case sent: (Inr i)
      with d dispatch_sends [of env now rnd c agent tool args st i st'] Inr True show ?thesis
        by (simp add: with_agent_def request_outcome_def reply_with_def)
    qed
  qed (simp add: with_agent_def request_outcome_def Inr)
qed

lemma with_agent_quiet:
  "(\<And>agent. requests_sent (fst (snd (f agent))) = requests_sent (fst st)) \<Longrightarrow>
   (\<And>agent i. fst (f agent) \<noteq> Inr (ActionPending i)) \<Longrightarrow> request_outcome env now c tool args st (with_agent c args st f)"
  by (rule request_outcome_quiet) (simp_all add: with_agent_def split: sum.splits)

lemmas quiet_tools = createEnrollmentToken_requests updateAgentPolicy_requests revokeAgent_requests reply_with_not_pending

lemma enrollment_not_pending: "fst (reply_with (\<lambda>(x, t). EnrollmentCreated x t) r) \<noteq> Inr (ActionPending i)"
  by (rule reply_with_not_pending) (simp split: prod.splits)

definition local_tools :: "remote_tool set" where
  "local_tools = {ListHosts, ListAgents, CreateEnrollmentToken, GetAgentInstallCommand, UpdateAgentPolicy, RevokeAgent,
     GetAuditEvents}"

lemma callRemoteTool_agent_tool:
  "tool \<notin> local_tools \<Longrightarrow> hasCapability (rp_capabilities c) (TOOL_CAPABILITY_MAP tool) \<Longrightarrow>
   callRemoteTool env now rnd c tool args policy st = with_agent c args st (\<lambda>agent.
     if \<not> ap_capabilities (ra_policy agent) (TOOL_CAPABILITY_MAP tool) then
       (Inl (refuse CAPABILITY_DENIED (''Agent policy does not allow '' @ capability_name (TOOL_CAPABILITY_MAP tool)) 403),
        cp_audit now (audit_note (Some (rp_userId c)) (Some (ra_id agent)) ''action_denied'' SevWarn) st)
     else reply_with ActionPending (dispatchAction env now rnd c agent tool (TOOL_CAPABILITY_MAP tool) args st))"
  by (cases tool; hypsubst; simp add: callRemoteTool_def Let_def local_tools_def cong: if_cong)

lemma local_tool_outcome:
  assumes "hasCapability (rp_capabilities c) (TOOL_CAPABILITY_MAP tool)" and "tool \<in> local_tools"
  shows "requests_sent (fst (snd (callRemoteTool env now rnd c tool args policy st))) = requests_sent (fst st)"
    and "fst (callRemoteTool env now rnd c tool args policy st) \<noteq> Inr (ActionPending i)"
  using assms
  by (auto simp: local_tools_def callRemoteTool_def Let_def with_agent_def quiet_tools enrollment_not_pending
      split: sum.splits option.splits)

text \<open>
  C31: a tool call asks an agent to act only when it starts an action, and then exactly once: the caller's
  scopes grant the tool's capability, the agent is the caller's, is not revoked, is connected and its
  policy allows the capability; the request goes to its live connection, names agent, caller, tool
  and arguments as called, its deadline is within the agent's and the server's limit, and the
  action is on record as sent and waits for its result.
\<close>

theorem action_request_authorised:
  "case fst (callRemoteTool env now rnd c tool args policy st) of
     Inr (ActionPending i) \<Rightarrow>
       hasCapability (rp_capabilities c) (TOOL_CAPABILITY_MAP tool) \<and>
       sends_request env now c tool args st i (snd (callRemoteTool env now rnd c tool args policy st))
   | _ \<Rightarrow> requests_sent (fst (snd (callRemoteTool env now rnd c tool args policy st))) = requests_sent (fst st)"
proof (cases "hasCapability (rp_capabilities c) (TOOL_CAPABILITY_MAP tool)")
  case True
  let ?r = "callRemoteTool env now rnd c tool args policy st"
  have "request_outcome env now c tool args st ?r"
  proof (cases "tool \<in> local_tools")
    case l: True
    show ?thesis using local_tool_outcome [OF True l] by (rule request_outcome_quiet)
  next
    case False
    show ?thesis unfolding callRemoteTool_agent_tool [OF False True] by (rule agent_tool_outcome)
  qed
  with True show ?thesis by (simp add: request_outcome_def split: sum.splits tool_reply.splits)
qed (simp add: callRemoteTool_def)

text \<open>
  The alias of a revoked agent passes the check of the code, but its row is still there and the unique
  index refuses the new one.
\<close>

lemma revoked_alias_not_reusable:
  assumes "hasCapability (rp_capabilities c) AgentsAdmin" and "asString (map_of args ''alias'') = Some x" and "trim x \<noteq> []"
    and "getAgentByAlias (rp_userId c) (trim x) (cp_store st) = Some e" and "ra_status e = Revoked"
  shows "createEnrollmentToken env now rnd c args st = (Inl (Failed UniqueViolation), st)"
proof -
  have "\<exists>r \<in> set (rs_agents (cp_store st)). ra_userId r = rp_userId c \<and> ra_alias r = trim x"
    using assms(4) by (auto simp: getAgentByAlias_def find_Some_iff)
  then obtain r where r: "r \<in> set (rs_agents (cp_store st))" "ra_userId r = rp_userId c" "ra_alias r = trim x" by blast
  have "insertAgent agent (cp_store st) = Inl UniqueViolation"
    if "ra_userId agent = rp_userId c" "ra_alias agent = trim x" for agent
  proof -
    have "list_ex (\<lambda>b. ra_id agent = ra_id b \<or> ra_userId agent = ra_userId b \<and> ra_alias agent = ra_alias b) (rs_agents (cp_store st))"
      using r that by (auto simp: list_ex_iff intro!: bexI [of _ r])
    then show ?thesis by (simp add: insertAgent_def insert_row_def bind_res_def)
  qed
  with assms show ?thesis by (simp add: createEnrollmentToken_def Let_def)
qed

subsection \<open>Two users and an agent\<close>

definition demo_control_env :: control_env where
  "demo_control_env = \<lparr> ce_config = loadRemoteConfig (\<lambda>_. None), ce_sha256 = (\<lambda>s. s), ce_ed25519 = (\<lambda>_. True),
     ce_serverKey = ''K'' \<rparr>"

definition demo_randoms_of :: "string \<Rightarrow> control_randoms" where
  "demo_randoms_of x = \<lparr> cr_agentId = ''agt'' @ x, cr_token = ''tok'' @ x, cr_tokenRow = ''enr'' @ x, cr_actionId = ''act'' @ x,
     cr_nonce = ''nonce'' @ x \<rparr>"

definition demo_admin :: "string \<Rightarrow> remote_principal" where
  "demo_admin u = \<lparr> rp_userId = u, rp_githubId = [], rp_githubLogin = [], rp_email = None, rp_displayName = None,
     rp_provider = None, rp_scopes = REMOTE_SCOPES, rp_capabilities = REMOTE_CAPABILITIES, rp_tokenId = ''t'' \<rparr>"

definition demo_patch :: agent_policy_patch where
  "demo_patch = \<lparr> pp_profile = None, pp_capabilities = [], pp_allowPaths = None, pp_denyPaths = None, pp_allowServices = None,
     pp_allowContainers = None, pp_maxOutputBytes = None, pp_maxActionTimeoutSeconds = Some 9, pp_version = None \<rparr>"

lemma demo_admin_simps [simp]: "rp_userId (demo_admin u) = u" "hasCapability (rp_capabilities (demo_admin u)) AgentsAdmin"
  by (simp_all add: demo_admin_def hasCapability_def REMOTE_CAPABILITIES_def)

lemma demo_control_store: "cp_store demo_state = empty_store\<lparr> rs_agents := [demo_agent] \<rparr>"
  by (simp add: demo_state_def cp_store_def)

lemma demo_control_ok: "store_ok (cp_store demo_state)"
  by (simp add: demo_control_store store_ok_def empty_store_def)

theorem tenant_isolation_witness:
  "view_of ''u'' (snd (callRemoteTool demo_control_env 1 (demo_randoms_of ''1'') (demo_admin ''v'') RevokeAgent
     [(''agent_id_or_alias'', JStr ''agt_1'')] demo_patch demo_state)) = view_of ''u'' demo_state"
  using tenant_isolation [OF demo_control_ok, of "''u''" "demo_admin ''v''"] by simp

lemma demo_policy_update:
  "\<exists>updated st'. updateAgentPolicy demo_control_env 1 (demo_randoms_of ''1'') (demo_admin ''u'') demo_agent demo_patch demo_state =
     (Inr updated, st')"
  by (simp add: updateAgentPolicy_def Let_def demo_control_store updateAgent_def update_rows_def)

end
