(* ===== verification/ControlPlaneRuns.thy ===== *)
theory ControlPlaneRuns
  imports ControlPlaneProps
begin

section \<open>Runs of the control plane\<close>

text \<open>
  Tool calls, API requests, requests that wait for their body, new connections, messages of agents,
  heartbeats, closes, timeouts and clean-ups in any order. A revoked agent never comes back, unless a
  \<open>PATCH\<close> that had read its row before writes it back, and an enrollment token enrols at most once.
\<close>

subsection \<open>What is asked of an agent\<close>

fun asks :: "string \<Rightarrow> ws_effect \<Rightarrow> bool" where
  "asks a (SendJson _ (ActionMessage rq)) = (rq_agent_id rq = a)"
| "asks a _ = False"

definition asked :: "string \<Rightarrow> lifecycle \<Rightarrow> ws_effect list" where
  "asked a lc = filter (asks a) (lc_effects lc)"

lemma asked_emit [simp]: "asked a (emit e lc) = asked a lc @ (if asks a e then [e] else [])"
  by (simp add: asked_def emit_def)

lemma asked_fields [simp]:
  "asked a (lc\<lparr> lc_managed := m \<rparr>) = asked a lc" "asked a (lc\<lparr> lc_claims := cs \<rparr>) = asked a lc"
  "asked a (lc\<lparr> lc_pendingUpgrades := p \<rparr>) = asked a lc"
  by (simp_all add: asked_def)

lemma asked_touch [simp]: "asked a (touch c f lc) = asked a lc"
  by (simp add: touch_def split: option.splits)

lemma asked_ops [simp]:
  "asked a (closeConnection c code reason lc) = asked a lc" "asked a (recordActivity c now lc) = asked a lc"
  "asked a (markAuthenticated c b lc) = asked a lc"
  by (simp_all add: closeConnection_touch recordActivity_touch markAuthenticated_touch)

lemma asked_reject [simp]: "asked a (reject_with c code msg reason lc) = asked a lc" "asked a (messageFailed c lc) = asked a lc"
  by (simp_all add: reject_with_def messageFailed_def)

lemma asked_claim [simp]: "asked a (snd (claim c agent lc)) = asked a lc"
  by (simp add: claim_def Let_def split: option.splits)

lemma asked_release [simp]: "asked a (releaseAgentClaim b c lc) = asked a lc"
  by (simp add: releaseAgentClaim_def Let_def split: option.splits)

lemma asked_release_pending [simp]: "asked a (releasePending sock lc) = asked a lc"
  by (simp add: releasePending_def)

lemma asked_attach [simp]: "asked a (snd (attach c now lc)) = asked a lc"
  by (simp add: attach_def rejectAcceptedConnection_def auditGlobalLimit_def)

lemma asked_upgrade [simp]:
  "asked a (upgradeAccepted sock c now lc) = asked a lc" "asked a (upgradeFailed sock lc) = asked a lc"
  by (simp_all add: upgradeAccepted_def upgradeFailed_def)

lemma asked_handleUpgrade [simp]: "asked a (lc_handleUpgrade sock destroyed outcome lc) = asked a lc"
  by (simp add: lc_handleUpgrade_def rejectRawUpgrade_def auditGlobalLimit_def Let_def split: upgrade_outcome.splits)

lemma asked_timers [simp]:
  "asked a (handleHelloTimeout lookup c lc) = asked a lc" "asked a (terminationTimeout c lc) = asked a lc"
  by (simp_all add: handleHelloTimeout_def terminationTimeout_def Let_def split: option.splits)

lemma asked_heartbeat [simp]: "asked a (lc_runHeartbeat lookup now lc) = asked a lc"
proof -
  have "asked a (fold (heartbeat_one lookup now) es lc1) = asked a lc1" for es lc1
    by (induction es arbitrary: lc1) (simp_all add: heartbeat_one_def Let_def)
  then show ?thesis by (simp add: lc_runHeartbeat_def)
qed

lemma asked_shutdown [simp]: "asked a (fst (cp_close st)) = asked a (fst st)"
  by (simp add: cp_close_def lc_close_def asked_def Let_def filter_empty_conv)

lemma asked_agent_audit [simp]: "asked a (agent_audit agent e v lc) = asked a lc"
  by (simp add: agent_audit_def)

lemma asked_replace [simp]: "asked a (replaceExistingConnection existing agent lc) = asked a lc"
  by (simp add: replaceExistingConnection_def split: option.splits)

lemma asked_go_online [simp]: "asked a (fst (go_online now c hello agent existing st)) = asked a (fst st)"
  by (simp add: go_online_def Let_def split: sum.splits)

lemma asked_replayed [simp]: "asked a (fst (snd (hasReplayedHello agent hello now st))) = asked a (fst st)"
  by (simp add: hasReplayedHello_def Let_def)

lemma asked_hello [simp]: "asked a (fst (handleAgentHello env now c es hello st)) = asked a (fst st)"
proof (cases "getAgent (he_agent_id hello) (ah_store (snd st))")
  case (Some agent)
  obtain granted lc1 where cl: "claim c agent (fst st) = (granted, lc1)" by (cases "claim c agent (fst st)")
  then have a: "asked a lc1 = asked a (fst st)" using asked_claim [of a c agent "fst st"] by simp
  obtain seen st3 where r: "hasReplayedHello agent hello now (lc1, cleanupEphemeralState now (snd st)) = (seen, st3)"
    by (cases "hasReplayedHello agent hello now (lc1, cleanupEphemeralState now (snd st))")
  then have "asked a (fst st3) = asked a lc1"
    using asked_replayed [of a agent hello now "(lc1, cleanupEphemeralState now (snd st))"] by simp
  with Some cl r a show ?thesis
    by (simp add: handleAgentHello_def Let_def rejectDuplicateHello_def split: bool.splits)
qed (simp add: handleAgentHello_def)

lemma asked_rejectPending [simp]: "asked a (fst (rejectPendingAction action i e o' st)) = asked a (fst st)"
  by (simp add: rejectPendingAction_def pending_audit_def)

lemma asked_result [simp]: "asked a (fst (handleActionResult env now c es result st)) = asked a (fst st)"
  by (simp add: handleActionResult_def Let_def split: option.splits prod.splits)

lemma asked_onText [simp]: "asked a (fst (onText env now c message st)) = asked a (fst st)"
  by (simp add: onText_def receiveMessage_def handleAgentMessage_def rejectInvalidMessage_def split: option.splits bool.splits)

lemma asked_closed [simp]: "asked a (fst (snd (handleLiveConnectionClosedById now c i st))) = asked a (fst st)"
  by (simp add: handleLiveConnectionClosedById_def handleLiveConnectionClosed_def Let_def split: option.splits)

lemma asked_onClose [simp]: "asked a (fst (onClose now c code st)) = asked a (fst st)"
proof (cases "map_get (lc_managed (fst st)) c")
  case (Some m)
  let ?lc = "releaseAgentClaim (mg_agentId m) c ((fst st)\<lparr> lc_managed := map_delete c (lc_managed (fst st)) \<rparr>)"
  have "asked a (fst (snd (handleLiveConnectionClosedById now c (the (mg_agentId m)) (?lc, snd st)))) = asked a (fst st)" by simp
  with Some show ?thesis
    by (cases "handleLiveConnectionClosedById now c (the (mg_agentId m)) (?lc, snd st)") (auto simp: onClose_def lc_handleClose_def Let_def)
qed (simp add: onClose_def lc_handleClose_def)

subsection \<open>Steps that keep an agent revoked and a token spent\<close>

definition gone :: "string \<Rightarrow> agent_state \<Rightarrow> bool" where
  "gone a st \<longleftrightarrow>
     (\<forall>r \<in> set (rs_agents (cp_store st)). ra_id r = a \<longrightarrow> ra_status r = Revoked) \<and> live_of (snd st) a = None"

definition safe_step :: "string \<Rightarrow> string \<Rightarrow> agent_state \<Rightarrow> agent_state \<Rightarrow> bool" where
  "safe_step a h st st' \<longleftrightarrow>
     (store_ok (cp_store st) \<longrightarrow>
        store_ok (cp_store st') \<and> (tokens.spent h (cp_store st) \<longrightarrow> tokens.spent h (cp_store st')) \<and>
        (gone a st \<longrightarrow> gone a st' \<and> asked a (fst st') = asked a (fst st)))"

lemma safe_refl [simp]: "safe_step a h st st"
  by (simp add: safe_step_def)

lemma safe_trans: "safe_step a h st1 st2 \<Longrightarrow> safe_step a h st2 st3 \<Longrightarrow> safe_step a h st1 st3"
  by (simp add: safe_step_def)

lemma spent_tokens_cong: "rs_tokens s' = rs_tokens s \<Longrightarrow> tokens.spent h s' = tokens.spent h s"
  unfolding tokens.spent_def unfolding getEnrollmentTokenByHash_def by simp

lemma spent_deleted:
  assumes "rs_tokens s' = delete_rows P (rs_tokens s)" and "store_ok s" and "tokens.spent h s"
  shows "tokens.spent h s'"
proof -
  have d: "distinct (map et_tokenHash (rs_tokens s))" using assms(2) by (simp add: store_ok_def)
  then have d': "distinct (map et_tokenHash (delete_rows P (rs_tokens s)))" by (rule distinct_delete_rows)
  show ?thesis
    using assms(3) unfolding tokens.spent_def
    unfolding getEnrollmentTokenByHash_def assms(1) find_distinct [OF d] find_distinct [OF d']
    by (simp add: delete_rows_def)
qed

lemma safe_lc: "asked a lc = asked a (fst st) \<Longrightarrow> safe_step a h st (lc, snd st)"
  by (simp add: safe_step_def cp_store_def gone_def)

lemma safe_audit [simp]: "safe_step a h st (cp_audit now e st)"
  using spent_tokens_cong [of "audit_row now e (cp_store st)" "cp_store st"] by (simp add: safe_step_def gone_def)

lemma safe_on_lc: "asked a (f (fst st)) = asked a (fst st) \<Longrightarrow> safe_step a h st (on_lc f st)"
  by (simp add: safe_step_def gone_def)

lemma safe_store_kept:
  assumes "rs_agents s = rs_agents (cp_store st)" and "rs_tokens s = rs_tokens (cp_store st)"
    and "store_ok (cp_store st) \<Longrightarrow> store_ok s"
  shows "safe_step a h st (set_store s st)"
  using assms spent_tokens_cong [OF assms(2)] by (simp add: safe_step_def gone_def)

lemma safe_insertAgent:
  assumes "insertAgent agent (cp_store st) = Inr s" and "ra_id agent \<noteq> a"
  shows "safe_step a h st (set_store s st)"
proof -
  have s: "s = (cp_store st)\<lparr> rs_agents := rs_agents (cp_store st) @ [agent] \<rparr>"
    using assms(1) by (auto simp: insertAgent_def bind_res_Inr insert_row_Inr)
  have "tokens.spent h s = tokens.spent h (cp_store st)" by (rule spent_tokens_cong) (simp add: s)
  moreover have "store_ok (cp_store st) \<Longrightarrow> store_ok s" using assms(1) by (rule store_ok_inserts(3) [rotated])
  ultimately show ?thesis using assms(2) by (auto simp: safe_step_def gone_def s)
qed

lemma safe_insertToken:
  assumes "insertEnrollmentToken t (cp_store st) = Inr s" and "et_tokenHash t \<noteq> h"
  shows "safe_step a h st (set_store s st)"
proof -
  have s: "s = (cp_store st)\<lparr> rs_tokens := rs_tokens (cp_store st) @ [t] \<rparr>"
    using assms(1) by (auto simp: insertEnrollmentToken_def bind_res_Inr insert_row_Inr)
  have "find (\<lambda>x. et_tokenHash x = h) (rows @ [t]) = find (\<lambda>x. et_tokenHash x = h) rows" for rows
    using assms(2) by (induction rows) simp_all
  then have "getEnrollmentTokenByHash h s = getEnrollmentTokenByHash h (cp_store st)"
    by (simp add: getEnrollmentTokenByHash_def s)
  then have "tokens.spent h s = tokens.spent h (cp_store st)" unfolding tokens.spent_def by simp
  moreover have "store_ok (cp_store st) \<Longrightarrow> store_ok s" using assms(1) by (rule store_ok_inserts(4) [rotated])
  ultimately show ?thesis by (auto simp: safe_step_def gone_def s)
qed

text \<open>An agent's row may be written from a row that was read before, as long as the revoked agent's one is revoked.\<close>

lemma safe_write:
  assumes "updateAgent agent (cp_store st) = Inr s"
    and "gone a st \<Longrightarrow> ra_id agent = a \<Longrightarrow> ra_status agent = Revoked"
  shows "safe_step a h st (set_store s st)"
proof -
  have s: "s = (cp_store st)\<lparr> rs_agents := map (\<lambda>r. if ra_id r = ra_id agent
      then agent\<lparr> ra_userId := ra_userId r, ra_createdAt := ra_createdAt r \<rparr> else r) (rs_agents (cp_store st)) \<rparr>"
    by (rule updateAgent_rows [OF assms(1)])
  have "tokens.spent h s = tokens.spent h (cp_store st)" by (rule spent_tokens_cong) (simp add: s)
  moreover have "store_ok (cp_store st) \<Longrightarrow> store_ok s" using assms(1) by (rule store_ok_updateAgent [rotated])
  moreover have "gone a (set_store s st)" if "gone a st"
    using that assms(2) [OF that] by (auto simp: gone_def s)
  ultimately show ?thesis by (simp add: safe_step_def)
qed

lemma safe_update:
  assumes "updateAgent agent (cp_store st) = Inr s" and "r0 \<in> set (rs_agents (cp_store st))" and "ra_id agent = ra_id r0"
    and "ra_status r0 = Revoked \<Longrightarrow> ra_status agent = Revoked"
  shows "safe_step a h st (set_store s st)"
  by (rule safe_write [OF assms(1)]) (use assms(2-4) in \<open>auto simp: gone_def\<close>)

lemma safe_mark:
  assumes "markEnrollmentTokenUsed k t (cp_store st) = Inr s"
  shows "safe_step a h st (set_store s st)"
proof -
  have s: "rs_agents s = rs_agents (cp_store st)"
    using assms by (auto simp: markEnrollmentTokenUsed_def Let_def split: if_splits)
  show ?thesis
    using tokens.ok_mark [OF _ assms] tokens.spent_mark [OF _ _ assms] s by (simp add: safe_step_def gone_def)
qed

lemma safe_disconnect: "safe_step a h st (lc, (snd st)\<lparr> ah_connections := map_delete b (ah_connections (snd st)) \<rparr>)"
  if "asked a lc = asked a (fst st)"
  using that by (auto simp: safe_step_def gone_def live_of_def jsmap_simps)

lemma safe_pending: "asked a lc = asked a (fst st) \<Longrightarrow> safe_step a h st (lc, (snd st)\<lparr> ah_pending := p \<rparr>)"
  by (simp add: safe_step_def gone_def live_of_def)

subsection \<open>The operations\<close>

lemma safe_create:
  assumes "cr_agentId rnd \<noteq> a" and "hashSecret (ce_sha256 env) (cr_token rnd) \<noteq> h"
  shows "safe_step a h st (snd (createEnrollmentToken env now rnd c args st))"
proof -
  have 1: "safe_step a h st (set_store s1 st)" if "insertAgent x (cp_store st) = Inr s1" "ra_id x = cr_agentId rnd" for x s1
    using safe_insertAgent [OF that(1)] that(2) assms(1) by simp
  have 2: "safe_step a h st (set_store s2 st)"
    if i: "insertAgent x (cp_store st) = Inr s1" "ra_id x = cr_agentId rnd"
      and t: "insertEnrollmentToken t s1 = Inr s2" "et_tokenHash t = hashSecret (ce_sha256 env) (cr_token rnd)" for x s1 t s2
    using safe_trans [OF 1 [OF i] safe_insertToken [of t "set_store s1 st" s2]] t assms(2) by simp
  show ?thesis
    by (auto simp: createEnrollmentToken_def Let_def split: sum.splits intro!: safe_trans [OF _ safe_audit] intro: 1 2)
qed

lemma safe_enroll: "safe_step a h st (snd (handleAgentEnroll env now body st))"
proof -
  have 1: "safe_step a h st (set_store s1 st)" if "markEnrollmentTokenUsed k now (cp_store st) = Inr s1" for k s1
    using that by (rule safe_mark)
  have 2: "safe_step a h st (set_store s2 st)"
    if m: "markEnrollmentTokenUsed k now (cp_store st) = Inr s1" and u: "updateAgent x s1 = Inr s2"
      and g: "getAgent b (cp_store st) = Some agent" "ra_status agent \<noteq> Revoked" "ra_id x = ra_id agent" for k s1 x s2 b agent
  proof -
    obtain r0 where r0: "r0 \<in> set (rs_agents (cp_store st))" "agent = agentFromRow r0" using getAgent_row [OF g(1)] by blast
    have "rs_agents s1 = rs_agents (cp_store st)"
      using m by (auto simp: markEnrollmentTokenUsed_def Let_def split: if_splits)
    with safe_update [of x "set_store s1 st" s2 r0] u r0 g(2,3) have "safe_step a h (set_store s1 st) (set_store s2 st)" by simp
    with 1 [OF m] show ?thesis by (rule safe_trans)
  qed
  show ?thesis
    by (auto simp: handleAgentEnroll_def Let_def split: option.splits sum.splits json.splits
        intro!: safe_trans [OF _ safe_audit] intro: 1 2)
qed

definition known :: "agent_state \<Rightarrow> remote_agent \<Rightarrow> bool" where
  "known st agent \<longleftrightarrow> (\<exists>r \<in> set (rs_agents (cp_store st)). agent = agentFromRow r)"

text \<open>The row of an agent may have been read before: it is \<open>stale\<close> for a revoked agent if it is not revoked.\<close>

definition stale :: "string \<Rightarrow> remote_agent \<Rightarrow> bool" where
  "stale a agent \<longleftrightarrow> ra_id agent = a \<and> ra_status agent \<noteq> Revoked"

lemma known_not_stale: "known st agent \<Longrightarrow> gone a st \<Longrightarrow> \<not> stale a agent"
  by (auto simp: known_def gone_def stale_def)

lemma safe_policy:
  assumes "gone a st \<Longrightarrow> \<not> stale a agent"
  shows "safe_step a h st (snd (updateAgentPolicy env now rnd c agent v st))"
proof -
  have 1: "safe_step a h st (set_store s st)"
    if "updateAgent x (cp_store st) = Inr s" "ra_id x = ra_id agent" "ra_status x = ra_status agent" for x s
    by (rule safe_write [OF that(1)]) (use that(2,3) assms in \<open>auto simp: stale_def\<close>)
  have 2: "safe_step a h st (on_lc (emit e) (set_store s st))"
    if "updateAgent x (cp_store st) = Inr s" "ra_id x = ra_id agent" "ra_status x = ra_status agent" "\<not> asks a e" for x s e
    by (rule safe_trans [OF 1 [OF that(1-3)]]) (rule safe_on_lc, use that(4) in simp)
  show ?thesis
    by (auto simp: updateAgentPolicy_def Let_def split: option.splits sum.splits intro!: safe_trans [OF _ safe_audit] intro: 1 2)
qed

lemma safe_revoke:
  assumes "known st agent"
  shows "safe_step a h st (snd (revokeAgent now c agent st))"
proof (cases "hasCapability (rp_capabilities c) AgentsAdmin")
  case True
  obtain r0 where r0: "r0 \<in> set (rs_agents (cp_store st))" "agent = agentFromRow r0" using assms by (auto simp: known_def)
  let ?x = "agent\<lparr> ra_status := Revoked, ra_updatedAt := now \<rparr>"
  show ?thesis
  proof (cases "updateAgent ?x (cp_store st)")
    case (Inr s)
    let ?st1 = "set_store s st"
    let ?st2 = "case live_of (snd ?st1) (ra_id agent) of
      None \<Rightarrow> ?st1 | Some live \<Rightarrow> on_lc (emit (CloseWs (al_connection live) 1000 [])) ?st1"
    let ?st3 = "(fst ?st2, (snd ?st2)\<lparr> ah_connections := map_delete (ra_id agent) (ah_connections (snd ?st2)) \<rparr>)"
    have 1: "safe_step a h st ?st1" by (rule safe_update [OF Inr r0(1)]) (simp_all add: r0(2))
    have 2: "safe_step a h ?st1 ?st2" by (auto split: option.splits intro!: safe_on_lc)
    have 3: "safe_step a h ?st2 ?st3" by (rule safe_disconnect) simp
    have "snd (revokeAgent now c agent st) =
        cp_audit now (audit_note (Some (rp_userId c)) (Some (ra_id agent)) ''agent_revoked'' SevWarn) ?st3"
      using True Inr by (simp add: revokeAgent_def Let_def)
    then show ?thesis using safe_trans [OF safe_trans [OF safe_trans [OF 1 2] 3] safe_audit] by simp
  qed (simp add: revokeAgent_def True)
qed (simp add: revokeAgent_def)

lemma safe_request:
  "safe_step a h st (on_lc (emit (SendJson k (ActionMessage rq))) st)" if "gone a st \<Longrightarrow> rq_agent_id rq \<noteq> a"
  using that by (auto simp: safe_step_def gone_def)

lemma live_of_pending [simp]: "live_of (h\<lparr> ah_pending := p \<rparr>) = live_of h"
  by (simp add: fun_eq_iff live_of_def)

lemma safe_dispatch: "safe_step a h st (snd (dispatchAction env now rnd c agent tool cap args st))"
proof -
  have "safe_step a h st (on_lc (emit (SendJson k (ActionMessage rq)))
      (fst st, (snd (cp_audit now e2 (cp_audit now e1 (set_store s st))))\<lparr> ah_pending := p \<rparr>))"
    if i: "insertAction x (cp_store st) = Inr s" and l: "live_of (snd st) (ra_id agent) = Some live"
      and r: "rq_agent_id rq = ra_id agent" for x s k rq e1 e2 p live
  proof -
    let ?st1 = "cp_audit now e2 (cp_audit now e1 (set_store s st))"
    let ?st2 = "(fst st, (snd ?st1)\<lparr> ah_pending := p \<rparr>)"
    have s: "rs_agents s = rs_agents (cp_store st)" "rs_tokens s = rs_tokens (cp_store st)"
      using i by (auto simp: insertAction_def bind_res_Inr)
    have "safe_step a h st (set_store s st)"
      by (rule safe_store_kept [OF s]) (use i store_ok_inserts(5) in blast)
    then have 1: "safe_step a h st ?st1" by (blast intro: safe_trans safe_audit)
    have 2: "safe_step a h ?st1 ?st2" by (rule safe_pending) simp
    have 3: "safe_step a h ?st2 (on_lc (emit (SendJson k (ActionMessage rq))) ?st2)"
      by (rule safe_request) (use l r in \<open>auto simp: gone_def\<close>)
    show ?thesis by (rule safe_trans [OF safe_trans [OF 1 2] 3])
  qed
  then show ?thesis
    by (auto simp: dispatchAction_def Let_def split: option.splits sum.splits)
qed

lemma requireAgent_known: "requireAgent u args (cp_store st) = Inr agent \<Longrightarrow> known st agent"
  by (auto simp: requireAgent_def known_def split: option.splits dest: resolveAgent_row)

lemma resolveAgent_known: "resolveAgent u v (cp_store st) = Some agent \<Longrightarrow> known st agent"
  by (auto simp: known_def dest: resolveAgent_row)

lemma safe_with_agent:
  "(\<And>agent. known st agent \<Longrightarrow> safe_step a h st (snd (f agent))) \<Longrightarrow> safe_step a h st (snd (with_agent c args st f))"
  by (auto simp: with_agent_def split: sum.splits dest: requireAgent_known)

lemma safe_tool:
  assumes "cr_agentId rnd \<noteq> a" and "hashSecret (ce_sha256 env) (cr_token rnd) \<noteq> h"
  shows "safe_step a h st (snd (callRemoteTool env now rnd c tool args policy st))"
  using safe_create [OF assms]
  by (cases tool)
    (auto simp: callRemoteTool_def Let_def split: option.splits
      intro!: safe_with_agent safe_policy safe_revoke safe_dispatch dest: known_not_stale)

lemma known_audit [simp]: "known (cp_audit now e st) agent = known st agent"
  by (simp add: known_def)

lemma safe_route:
  "handleAgentApiRoute now m p c st = Some (RouteReplied r) \<Longrightarrow> safe_step a h st (snd r)"
  by (auto simp: handleAgentApiRoute_def split: option.splits if_splits prod.splits
      intro: safe_revoke [OF resolveAgent_known])

lemma held_known: "handleAgentApiRoute now m p c st = Some (RouteAwaitsBody agent) \<Longrightarrow> known st agent"
  by (auto simp: handleAgentApiRoute_def split: option.splits if_splits prod.splits intro: resolveAgent_known)

lemma safe_authenticate: "safe_step a h st (snd (authenticate jwt env now auth st))"
  by (simp add: authenticate_def split: option.splits)

lemma snd_replied [simp]: "snd (replied i r) = snd r"
  by (simp add: replied_def split: prod.splits sum.splits)

definition api_state :: "api_outcome \<Rightarrow> agent_state" where
  "api_state out = (case out of ApiDone r \<Rightarrow> snd r | ApiAwaitsPatch _ _ st \<Rightarrow> st)"

lemma api_state_simps [simp]: "api_state (ApiDone r) = snd r" "api_state (ApiAwaitsPatch c agent st) = st"
  by (simp_all add: api_state_def)

lemma safe_api:
  assumes "cr_agentId rnd \<noteq> a" and "hashSecret (ce_sha256 env) (cr_token rnd) \<noteq> h"
  shows "safe_step a h st (api_state (handleApi jwt env now rnd m p auth body limit st))"
proof (cases "p = ''/api/agents/enroll'' \<and> m = ''POST''")
  case True
  obtain r st1 where "handleAgentEnroll env now body st = (r, st1)" by (cases "handleAgentEnroll env now body st")
  with True safe_enroll [of a h st env now body] show ?thesis by (cases r) (simp_all add: handleApi_def)
next
  case enroll: False
  obtain r st1 where r: "authenticate jwt env now auth st = (r, st1)" by (cases "authenticate jwt env now auth st")
  then have 1: "safe_step a h st st1" using safe_authenticate [of a h st jwt env now auth] by simp
  show ?thesis
  proof (cases r)
    case (Inl e)
    with enroll r 1 show ?thesis by (auto simp: handleApi_def)
  next
    case (Inr c)
    have "safe_step a h st1 (api_state (handleApi jwt env now rnd m p auth body limit st))"
    proof (cases "handleAgentApiRoute now m p c st1")
      case None
      with enroll r Inr safe_create [OF assms, of st1 now c body] show ?thesis
        by (auto simp: handleApi_def split: option.splits)
    next
      case (Some q)
      with enroll r Inr safe_create [OF assms, of st1 now c body] safe_route [of now m p c st1 _ a h] show ?thesis
        by (auto simp: handleApi_def split: route_outcome.splits)
    qed
    with 1 show ?thesis by (rule safe_trans)
  qed
qed

lemma api_held_known:
  assumes "handleApi jwt env now rnd m p auth body limit st = ApiAwaitsPatch c agent st'"
  shows "known st' agent"
  using assms by (auto simp: handleApi_def split: if_splits prod.splits sum.splits option.splits route_outcome.splits intro: held_known)

text \<open>Messages: only the store and the live connections matter, and a hello of a revoked agent is refused.\<close>

lemma cp_store_pair: "cp_store (lc, h) = ah_store h"
  by (simp add: cp_store_def)

lemma live_of_remember [simp]: "live_of (remember_hello now agent hello h) = live_of h"
  by (simp add: fun_eq_iff remember_hello_def live_of_def)

lemma live_of_cleanup_None [simp]: "live_of (cleanupEphemeralState now h) a = None \<longleftrightarrow> live_of h a = None"
  by (simp add: live_of_cleanup)

lemma safe_same_store:
  assumes "ah_store h' = ah_store (snd st)" and "live_of (snd st) a = None \<Longrightarrow> live_of h' a = None"
    and "asked a lc = asked a (fst st)"
  shows "safe_step a k st (lc, h')"
  using assms by (simp add: safe_step_def gone_def cp_store_def)

lemma safe_go_online:
  assumes "getAgent b (cp_store st) = Some agent" and "ra_status agent \<noteq> Revoked"
  shows "safe_step a k st (go_online now c hello agent existing st)"
proof -
  obtain r0 where r0: "r0 \<in> set (rs_agents (cp_store st))" "agent = agentFromRow r0" using getAgent_row [OF assms(1)] by blast
  have other: "ra_id agent \<noteq> a" if "gone a st" using that r0 assms(2) by (auto simp: gone_def)
  let ?live = "\<lparr> al_agent = agent, al_connection = c, al_seenNonces = rememberNonce (he_nonce hello) now [] \<rparr>"
  let ?h1 = "(snd st)\<lparr> ah_connections := map_set (ra_id agent) ?live (ah_connections (snd st)) \<rparr>"
  let ?online = "agent\<lparr> ra_status := Online, ra_lastSeenAt := Some now, ra_hostMetadata := Some (he_host hello), ra_updatedAt := now \<rparr>"
  have 1: "safe_step a k st (lc, ?h1)" if "asked a lc = asked a (fst st)" for lc
  proof (cases "gone a st")
    case True
    with other that show ?thesis by (auto simp: safe_step_def gone_def cp_store_def live_of_def jsmap_simps)
  qed (simp add: safe_step_def cp_store_def)
  show ?thesis
  proof (cases "updateAgent ?online (ah_store (snd st))")
    case (Inl e)
    then show ?thesis using 1 by (simp add: go_online_def Let_def)
  next
    case (Inr s)
    have "safe_step a k st (set_store s st)"
      by (rule safe_update [of ?online _ _ r0]) (use Inr r0 assms(2) in \<open>simp_all add: cp_store_def\<close>)
    then have "safe_step a k st (lc, ?h1\<lparr> ah_store := s \<rparr>)" if "asked a lc = asked a (fst st)" for lc
    proof (cases "gone a st")
      case True
      with other that \<open>safe_step a k st (set_store s st)\<close> show ?thesis
        by (auto simp: safe_step_def gone_def cp_store_def live_of_def jsmap_simps set_store_def)
    next
      case False
      with \<open>safe_step a k st (set_store s st)\<close> show ?thesis by (simp add: safe_step_def cp_store_def set_store_def)
    qed
    then show ?thesis using Inr by (simp add: go_online_def Let_def)
  qed
qed

lemma safe_hello: "safe_step a k st (handleAgentHello env now c es hello st)"
proof (cases rule: handleAgentHello_cases [of env now c es hello st])
  case refused
  then show ?thesis
    using safe_lc [of a "fst (handleAgentHello env now c es hello st)" st k] by (metis asked_hello prod.collapse)
next
  case refused_late
  have "safe_step a k st (fst (handleAgentHello env now c es hello st), cleanupEphemeralState now (snd st))"
    by (rule safe_same_store) simp_all
  with refused_late show ?thesis by (metis prod.collapse)
next
  case (online agent lc1)
  let ?st1 = "(lc1, remember_hello now agent hello (cleanupEphemeralState now (snd st)))"
  have a: "asked a lc1 = asked a (fst st)" using asked_claim [of a c agent "fst st"] online(2) by simp
  have 1: "safe_step a k st ?st1" by (rule safe_same_store) (simp_all add: a)
  have "getAgent (he_agent_id hello) (cp_store ?st1) = Some agent" "ra_status agent \<noteq> Revoked"
    using online(1) by (simp_all add: hello_valid_def cp_store_def)
  from safe_trans [OF 1 safe_go_online [OF this]] online(4) show ?thesis by simp
qed

lemma live_of_settle [simp]: "live_of (settle i o' h) = live_of h"
  by (simp add: fun_eq_iff settle_def live_of_def)

lemma settle_store [simp]: "ah_store (settle i o' h) = ah_store h"
  by (simp add: settle_def)

lemma set_live_store [simp]: "ah_store (set_live b l h) = ah_store h"
  by (simp add: set_live_def)

lemma live_of_set_live: "live_of (set_live b l h) a = (if a = b then Some l else live_of h a)"
  by (simp add: set_live_def live_of_def jsmap_simps)

lemma safe_result: "safe_step a k st (handleActionResult env now c es result st)"
proof -
  have "ah_store (snd (handleActionResult env now c es result st)) = ah_store (snd st)"
    by (simp add: handleActionResult_def rejectPendingAction_def Let_def split: option.splits prod.splits)
  moreover have "live_of (snd (handleActionResult env now c es result st)) a = None" if "live_of (snd st) a = None"
    using that by (auto simp: handleActionResult_def rejectPendingAction_def Let_def live_of_set_live split: option.splits prod.splits)
  ultimately show ?thesis
    using safe_same_store [of "snd (handleActionResult env now c es result st)" st a
        "fst (handleActionResult env now c es result st)" k] by simp
qed

lemma safe_text: "safe_step a k st (onText env now c message st)"
proof (cases rule: onText_cases [of env now c message st])
  case quiet
  then show ?thesis using safe_lc [of a "fst (onText env now c message st)" st k] by (metis asked_onText prod.collapse)
next
  case (hello payload es hello lc1)
  have "safe_step a k st (lc1, snd st)" by (rule safe_lc) (simp add: hello(5))
  with safe_hello [of a k "(lc1, snd st)" env now c es hello] hello(7) show ?thesis by (auto intro: safe_trans)
next
  case (result payload es result lc1)
  have "safe_step a k st (lc1, snd st)" by (rule safe_lc) (simp add: result(5))
  with safe_result [of a k "(lc1, snd st)" env now c es result] result(6) show ?thesis by (auto intro: safe_trans)
qed

lemma safe_live_closed: "safe_step a k st (snd (handleLiveConnectionClosedById now c i st))"
proof (cases "getAgent i (ah_store (snd st))")
  case (Some agent)
  show ?thesis
  proof (cases "live_of (snd st) (ra_id agent)")
    case (Some live)
    let ?st1 = "(fst st, (snd st)\<lparr> ah_connections := map_delete (ra_id agent) (ah_connections (snd st)) \<rparr>)"
    have 1: "safe_step a k st ?st1" by (rule safe_disconnect) simp
    have 2: "safe_step a k ?st1 (set_store s ?st1)"
      if g: "getAgent b (cp_store ?st1) = Some latest" "ra_status latest \<noteq> Revoked"
        and u: "updateAgent (latest\<lparr> ra_status := Offline, ra_updatedAt := now \<rparr>) (cp_store ?st1) = Inr s" for s latest b
    proof -
      obtain r0 where r0: "r0 \<in> set (rs_agents (cp_store ?st1))" "latest = agentFromRow r0" using getAgent_row [OF g(1)] by blast
      show ?thesis by (rule safe_update [OF u r0(1)]) (use g(2) r0(2) in simp_all)
    qed
    have 3: "safe_step a k st (agent_audit agent ''agent_disconnected'' SevInfo (fst st), snd st')"
      if "safe_step a k st st'" "fst st' = fst st" for st'
      using that by (simp add: safe_step_def gone_def cp_store_def)
    have "safe_step a k st (set_store s ?st1)"
      if "getAgent b (cp_store ?st1) = Some latest" "ra_status latest \<noteq> Revoked"
        "updateAgent (latest\<lparr> ra_status := Offline, ra_updatedAt := now \<rparr>) (cp_store ?st1) = Inr s" for s latest b
      using 1 2 [OF that] by (rule safe_trans)
    from 3 [OF 1] 3 [OF this] Some \<open>getAgent i _ = _\<close> show ?thesis
      by (auto simp: handleLiveConnectionClosedById_def handleLiveConnectionClosed_def Let_def cp_store_pair set_store_def
          split: option.splits sum.splits)
  qed (simp add: handleLiveConnectionClosedById_def handleLiveConnectionClosed_def Some)
qed (simp add: handleLiveConnectionClosedById_def)

lemma safe_close: "safe_step a k st (onClose now c code st)"
proof (cases "map_get (lc_managed (fst st)) c")
  case (Some m)
  let ?lc = "releaseAgentClaim (mg_agentId m) c ((fst st)\<lparr> lc_managed := map_delete c (lc_managed (fst st)) \<rparr>)"
  have 1: "safe_step a k st (?lc, snd st)" by (rule safe_lc) simp
  obtain reported lc2 h2 where r:
    "handleLiveConnectionClosedById now c (the (mg_agentId m)) (?lc, snd st) = (reported, lc2, h2)"
    by (cases "handleLiveConnectionClosedById now c (the (mg_agentId m)) (?lc, snd st)") auto
  then have 2: "safe_step a k (?lc, snd st) (lc2, h2)"
    using safe_live_closed [of a k "(?lc, snd st)" now c "the (mg_agentId m)"] by simp
  have 3: "safe_step a k (l, h) (emit (Audit n) l, h)" for l h n
    using safe_lc [of a "emit (Audit n) l" "(l, h)" k] by simp
  have 4: "safe_step a k st (lc2, h2)" using 1 2 by (rule safe_trans)
  show ?thesis
    using Some 1 4 safe_trans [OF 1 3] safe_trans [OF 4 3] r
    by (simp add: onClose_def lc_handleClose_def Let_def)
qed (simp add: onClose_def lc_handleClose_def)

lemma safe_timeout: "safe_step a k st (actionTimeout i st)"
  using safe_same_store [of "settle i (Rejected (Some AGENT_TIMEOUT) ''Agent timed out'') (snd st)" st a "fst st" k]
  by (simp add: actionTimeout_def split: option.splits)

lemma safe_finish: "safe_step a k st (snd (finishAction now c action outcome st))"
proof -
  have "safe_step a k st (set_store (updateAction x (cp_store st)) st)" for x
    by (rule safe_store_kept) (simp_all add: updateAction_def store_ok_changes [unfolded updateAction_def])
  then show ?thesis
    by (auto simp: finishAction_def Let_def split: settlement.splits intro!: safe_trans [OF _ safe_audit])
qed

lemma safe_cleanup: "safe_step a k st (fst st, cleanupEphemeralState now (snd st))"
  by (rule safe_same_store) simp_all

lemma safe_prune: "safe_step a k st (set_store (pruneExpiredTransientRecords now (cp_store st)) st)"
proof -
  let ?s = "pruneExpiredTransientRecords now (cp_store st)"
  have "rs_tokens ?s = delete_rows (\<lambda>r. et_expiresAt r \<le> now) (rs_tokens (cp_store st))" "rs_agents ?s = rs_agents (cp_store st)"
    by (simp_all add: pruneExpiredTransientRecords_def)
  then show ?thesis
    using spent_deleted [of ?s _ "cp_store st" k] by (simp add: safe_step_def gone_def store_ok_changes)
qed

lemma safe_remove: "safe_step a k st (set_store (snd (removeRevokedAgent u b (cp_store st))) st)"
proof (cases "changes (\<lambda>r. ra_id r = b \<and> ra_userId r = u \<and> ra_status r = Revoked) (rs_agents (cp_store st)) = 1")
  case True
  let ?s = "snd (removeRevokedAgent u b (cp_store st))"
  have t: "rs_tokens ?s = delete_rows (\<lambda>t. et_userId t = u \<and> et_agentId t = b) (rs_tokens (cp_store st))"
    and "rs_agents ?s = delete_rows (\<lambda>r. ra_id r = b \<and> ra_userId r = u \<and> ra_status r = Revoked) (rs_agents (cp_store st))"
    using True by (simp_all add: removeRevokedAgent_def Let_def)
  from this(2) show ?thesis
    using spent_deleted [OF t, of k] by (simp add: safe_step_def gone_def store_ok_changes delete_rows_def)
next
  case False
  then have "snd (removeRevokedAgent u b (cp_store st)) = cp_store st" by (simp add: removeRevokedAgent_def Let_def)
  moreover have "set_store (cp_store st) st = st" by (simp add: set_store_def cp_store_def)
  ultimately show ?thesis by simp
qed

lemma safe_shutdown: "safe_step a k st (cp_close st)"
  using asked_shutdown [of a st] by (simp add: safe_step_def gone_def cp_store_def live_of_def cp_close_def Let_def)

subsection \<open>Any order\<close>

text \<open>
  The world is the state and the \<open>PATCH\<close> requests that wait for their body, each with the row it has read.
  \<open>a\<close> is the id of one agent and \<open>h\<close> the digest of one token: the random ids and tokens of the run are others,
  which 128 and 256 random bits make true in practice.
\<close>

record cp_world =
  cw_state :: agent_state
  cw_patches :: "(remote_principal \<times> remote_agent) list"

definition in_state :: "agent_state \<Rightarrow> cp_world \<Rightarrow> cp_world" where
  "in_state st w = w\<lparr> cw_state := st \<rparr>"

definition cp_lookup :: "agent_state \<Rightarrow> string \<Rightarrow> remote_agent option" where
  "cp_lookup st i = getAgent i (cp_store st)"

inductive cp_step :: "control_env \<Rightarrow> handler_env \<Rightarrow> string \<Rightarrow> string \<Rightarrow> cp_world \<Rightarrow> cp_world \<Rightarrow> bool" for env hv a h where
  tool: "cr_agentId rnd \<noteq> a \<Longrightarrow> hashSecret (ce_sha256 env) (cr_token rnd) \<noteq> h \<Longrightarrow>
     cp_step env hv a h w (in_state (snd (callRemoteTool env now rnd c tool args policy (cw_state w))) w)"
| api: "cr_agentId rnd \<noteq> a \<Longrightarrow> hashSecret (ce_sha256 env) (cr_token rnd) \<noteq> h \<Longrightarrow>
     handleApi jwt env now rnd m p auth body limit (cw_state w) = ApiDone (r, st) \<Longrightarrow>
     cp_step env hv a h w (in_state st w)"
| api_waits: "handleApi jwt env now rnd m p auth body limit (cw_state w) = ApiAwaitsPatch c agent st \<Longrightarrow>
     cp_step env hv a h w \<lparr> cw_state = st, cw_patches = cw_patches w @ [(c, agent)] \<rparr>"
| api_arrived: "(c, agent) \<in> set (cw_patches w) \<Longrightarrow>
     cp_step env hv a h w \<lparr> cw_state = snd (patch_arrived env now rnd policy c agent (cw_state w)),
                             cw_patches = remove1 (c, agent) (cw_patches w) \<rparr>"
| api_dropped: "cp_step env hv a h w (w\<lparr> cw_patches := remove1 (c, agent) (cw_patches w) \<rparr>)"
| upgrade: "cp_step env hv a h w (in_state (on_lc (lc_handleUpgrade sock destroyed outcome) (cw_state w)) w)"
| accepted: "cp_step env hv a h w (in_state (on_lc (upgradeAccepted sock c now) (cw_state w)) w)"
| unaccepted: "cp_step env hv a h w (in_state (on_lc (releasePending sock) (cw_state w)) w)"
| activity: "cp_step env hv a h w (in_state (on_lc (recordActivity c now) (cw_state w)) w)"
| heartbeat: "cp_step env hv a h w (in_state (on_lc (lc_runHeartbeat (cp_lookup (cw_state w)) now) (cw_state w)) w)"
| hello_timeout: "cp_step env hv a h w (in_state (on_lc (handleHelloTimeout (cp_lookup (cw_state w)) c) (cw_state w)) w)"
| grace: "cp_step env hv a h w (in_state (on_lc (terminationTimeout c) (cw_state w)) w)"
| message: "cp_step env hv a h w (in_state (onText hv now c message (cw_state w)) w)"
| closed: "cp_step env hv a h w (in_state (onClose now c code (cw_state w)) w)"
| timeout: "cp_step env hv a h w (in_state (actionTimeout i (cw_state w)) w)"
| finished: "cp_step env hv a h w (in_state (snd (finishAction now c action outcome (cw_state w))) w)"
| cleanup: "cp_step env hv a h w (in_state (fst (cw_state w), cleanupEphemeralState now (snd (cw_state w))) w)"
| prune: "cp_step env hv a h w (in_state (set_store (pruneExpiredTransientRecords now (cp_store (cw_state w))) (cw_state w)) w)"
| removed: "cp_step env hv a h w (in_state (set_store (snd (removeRevokedAgent u b (cp_store (cw_state w)))) (cw_state w)) w)"
| shutdown: "cp_step env hv a h w (in_state (cp_close (cw_state w)) w)"

definition none_stale :: "string \<Rightarrow> cp_world \<Rightarrow> bool" where
  "none_stale a w \<longleftrightarrow> (\<forall>(c, agent) \<in> set (cw_patches w). \<not> stale a agent)"

text \<open>A run keeps the store sound and tokens spent, whatever waits; it keeps an agent revoked if no stale row waits.\<close>

definition safe_world :: "string \<Rightarrow> string \<Rightarrow> cp_world \<Rightarrow> cp_world \<Rightarrow> bool" where
  "safe_world a h w w' \<longleftrightarrow>
     (store_ok (cp_store (cw_state w)) \<longrightarrow>
        store_ok (cp_store (cw_state w')) \<and>
        (tokens.spent h (cp_store (cw_state w)) \<longrightarrow> tokens.spent h (cp_store (cw_state w'))) \<and>
        (gone a (cw_state w) \<and> none_stale a w \<longrightarrow>
           gone a (cw_state w') \<and> none_stale a w' \<and> asked a (fst (cw_state w')) = asked a (fst (cw_state w))))"

lemma safe_world_state: "safe_step a h (cw_state w) st \<Longrightarrow> safe_world a h w (in_state st w)"
  by (simp add: safe_world_def safe_step_def none_stale_def in_state_def)

lemma set_remove1_if: "x \<in> set (remove1 y xs) \<Longrightarrow> x \<in> set xs"
  using set_remove1_subset [of y xs] by blast

lemma safe_world_waits:
  assumes "safe_step a h (cw_state w) st" and "known st agent"
  shows "safe_world a h w \<lparr> cw_state = st, cw_patches = cw_patches w @ [(c, agent)] \<rparr>"
  using assms known_not_stale [OF assms(2), of a] by (auto simp: safe_world_def safe_step_def none_stale_def)

lemma safe_world_arrived:
  assumes "(c, agent) \<in> set (cw_patches w)"
  shows "safe_world a h w \<lparr> cw_state = snd (patch_arrived env now rnd policy c agent (cw_state w)),
           cw_patches = remove1 (c, agent) (cw_patches w) \<rparr>"
proof -
  let ?st = "snd (patch_arrived env now rnd policy c agent (cw_state w))"
  have safe: "safe_step a h (cw_state w) ?st" if "\<not> stale a agent"
    using safe_policy [of a "cw_state w" agent h env now rnd c policy] that by (simp add: patch_arrived_def)
  have kept: "store_ok (cp_store (cw_state w)) \<longrightarrow> store_ok (cp_store ?st) \<and>
      (tokens.spent h (cp_store (cw_state w)) \<longrightarrow> tokens.spent h (cp_store ?st))"
    using safe_policy [of "ra_id agent @ ''x''" "cw_state w" agent h env now rnd c policy]
    by (simp add: patch_arrived_def stale_def safe_step_def)
  show ?thesis
  proof (cases "stale a agent")
    case True
    with assms kept show ?thesis by (auto simp: safe_world_def none_stale_def)
  next
    case False
    with safe show ?thesis by (auto simp: safe_world_def safe_step_def none_stale_def dest: set_remove1_if)
  qed
qed

lemma safe_world_dropped: "safe_world a h w (w\<lparr> cw_patches := remove1 (c, agent) (cw_patches w) \<rparr>)"
  by (auto simp: safe_world_def none_stale_def dest: set_remove1_if)

lemma safe_on_lc_asked: "(\<And>lc. asked a (f lc) = asked a lc) \<Longrightarrow> safe_step a h st (on_lc f st)"
  by (rule safe_on_lc)

lemma safe_api_done:
  assumes "cr_agentId rnd \<noteq> a" and "hashSecret (ce_sha256 env) (cr_token rnd) \<noteq> h"
    and "handleApi jwt env now rnd m p auth body limit st = ApiDone (r, st')"
  shows "safe_step a h st st'"
  using safe_api [OF assms(1,2), of st jwt now m p auth body limit] assms(3) by simp

lemma safe_api_waits:
  assumes "handleApi jwt env now rnd m p auth body limit st = ApiAwaitsPatch c agent st'"
  shows "safe_step a h st st'"
proof -
  from assms have "st' = snd (authenticate jwt env now auth st)"
    by (auto simp: handleApi_def split: if_splits prod.splits sum.splits option.splits route_outcome.splits)
  then show ?thesis using safe_authenticate by simp
qed

lemma cp_step_safe: "cp_step env hv a h w w' \<Longrightarrow> safe_world a h w w'"
proof (induction rule: cp_step.induct)
  case (api rnd jwt now m p auth body limit w r st)
  show ?case by (rule safe_world_state) (rule safe_api_done [OF api])
next
  case (api_waits jwt now rnd m p auth body limit w c agent st)
  show ?case by (rule safe_world_waits [OF safe_api_waits [OF api_waits] api_held_known [OF api_waits]])
next
  case (api_arrived c agent w)
  then show ?case by (rule safe_world_arrived)
next
  case api_dropped
  show ?case by (rule safe_world_dropped)
qed (rule safe_world_state; simp add: safe_on_lc_asked safe_tool safe_text safe_close safe_timeout safe_finish safe_cleanup
    safe_prune safe_remove safe_shutdown)+

lemma safe_world_trans: "safe_world a h w1 w2 \<Longrightarrow> safe_world a h w2 w3 \<Longrightarrow> safe_world a h w1 w3"
  by (simp add: safe_world_def)

lemma cp_run_safe: "(cp_step env hv a h)\<^sup>*\<^sup>* w w' \<Longrightarrow> safe_world a h w w'"
  by (induction rule: rtranclp_induct) (auto simp: safe_world_def [of _ _ w w] intro: safe_world_trans cp_step_safe)

lemma gone_after_revoke:
  assumes "revokeAgent now c agent st = (Inr updated, st1)"
  shows "gone (ra_id agent) st1"
proof -
  have cap: "hasCapability (rp_capabilities c) AgentsAdmin" using assms by (auto simp: revokeAgent_def split: if_splits)
  let ?x = "agent\<lparr> ra_status := Revoked, ra_updatedAt := now \<rparr>"
  obtain s where u: "updateAgent ?x (cp_store st) = Inr s"
    using assms cap by (cases "updateAgent ?x (cp_store st)") (simp_all add: revokeAgent_def Let_def)
  have rows: "\<forall>r \<in> set (rs_agents s). ra_id r = ra_id agent \<longrightarrow> ra_status r = Revoked"
    by (subst updateAgent_rows [OF u]) auto
  have "rs_agents (cp_store st1) = rs_agents s" "live_of (snd st1) (ra_id agent) = None"
    using assms cap u by (auto simp: revokeAgent_def Let_def live_of_def jsmap_simps cp_audit_def set_store_def cp_store_pair
        split: option.splits)
  with rows show ?thesis by (simp add: gone_def)
qed

text \<open>
  What a waiting \<open>PATCH\<close> does: the row it holds is written whole, so an agent that was revoked in between has
  the status again that it had when the request came in.
\<close>

lemma stale_patch_restores:
  assumes "hasCapability (rp_capabilities c) AgentsAdmin"
    and "\<exists>r \<in> set (rs_agents (cp_store st)). ra_id r = ra_id agent"
    and "updateAgentPolicy env now rnd c agent v st = (Inr updated, st1)"
  shows "\<exists>r \<in> set (rs_agents (cp_store st1)). ra_id r = ra_id agent \<and> ra_status r = ra_status agent"
proof -
  let ?policy = "capped_policy (ce_config env) v (ra_policyVersion agent + 1)"
  let ?x = "agent\<lparr> ra_profile := ap_profile ?policy, ra_policy := ?policy, ra_policyVersion := ra_policyVersion agent + 1,
      ra_updatedAt := now \<rparr>"
  from assms(1,3) obtain s where u: "updateAgent ?x (cp_store st) = Inr s"
    by (auto simp: updateAgentPolicy_def Let_def split: sum.splits)
  have "rs_agents (cp_store st1) = rs_agents s"
    using assms(1,3) u by (auto simp: updateAgentPolicy_def Let_def cp_audit_def set_store_def cp_store_pair on_lc_def
        split: option.splits)
  moreover from assms(2) obtain r where "r \<in> set (rs_agents (cp_store st))" "ra_id r = ra_id ?x" by auto
  then have "?x\<lparr> ra_userId := ra_userId r, ra_createdAt := ra_createdAt r \<rparr> \<in> set (rs_agents s)"
    by (subst updateAgent_rows [OF u]) (auto intro!: rev_image_eqI)
  ultimately show ?thesis by (intro bexI) simp_all
qed

text \<open>
  C30: revocation is final. After an agent was revoked, and if no \<open>PATCH\<close> of its policy that has read its row
  before waits for its body, then whatever tools are called, API requests made, connections opened, messages
  received, also valid hellos signed with the agent's key and enrolments with tokens that were not used, and
  whatever the order of bodies, heartbeats, closes, timeouts and clean-ups, the agent has no live connection,
  its row, if it is still there, stays revoked, and it is never asked to act again.
\<close>

theorem revocation_is_final:
  assumes "store_ok (cp_store st)" and "known st agent" and "revokeAgent now c agent st = (Inr updated, st1)"
    and "\<forall>(c', held) \<in> set patches. ra_id held = ra_id agent \<longrightarrow> ra_status held = Revoked"
    and "(cp_step env hv (ra_id agent) h)\<^sup>*\<^sup>* \<lparr> cw_state = st1, cw_patches = patches \<rparr> w"
  shows "live_of (snd (cw_state w)) (ra_id agent) = None \<and>
    (\<forall>r \<in> set (rs_agents (cp_store (cw_state w))). ra_id r = ra_id agent \<longrightarrow> ra_status r = Revoked) \<and>
    asked (ra_id agent) (fst (cw_state w)) = asked (ra_id agent) (fst st1)"
proof -
  have "store_ok (cp_store st1)"
    using safe_revoke [OF assms(2), of "ra_id agent" h now c] assms(1,3) by (simp add: safe_step_def)
  moreover have "none_stale (ra_id agent) \<lparr> cw_state = st1, cw_patches = patches \<rparr>"
    using assms(4) by (auto simp: none_stale_def stale_def)
  ultimately show ?thesis
    using cp_run_safe [OF assms(5)] gone_after_revoke [OF assms(3)] by (auto simp: safe_world_def gone_def)
qed

lemma updateAgent_tokens: "updateAgent agent s = Inr s' \<Longrightarrow> rs_tokens s' = rs_tokens s"
  by (auto simp: updateAgent_def Let_def split: if_splits)

lemma enroll_marks:
  assumes "handleAgentEnroll env now body st = (Inr r, st1)"
  obtains k token s where "asString (map_of body ''token'') = Some token" and "k = hashSecret (ce_sha256 env) token"
    and "markEnrollmentTokenUsed k now (cp_store st) = Inr s" and "rs_tokens (cp_store st1) = rs_tokens s"
proof -
  let ?token = "case asString (map_of body ''token'') of None \<Rightarrow> [] | Some t \<Rightarrow> t"
  let ?k = "hashSecret (ce_sha256 env) ?token"
  from assms obtain host where h: "map_of body ''host'' = Some (JObj host)"
    by (auto simp: handleAgentEnroll_def Let_def split: option.splits json.splits)
  from assms obtain row where row: "getEnrollmentTokenByHash ?k (cp_store st) = Some row"
    by (auto simp: handleAgentEnroll_def Let_def h split: option.splits if_splits)
  have k: "et_tokenHash row = ?k" using row by (auto simp: getEnrollmentTokenByHash_def find_Some_iff)
  from assms row obtain agent where agent: "getAgent (et_agentId row) (cp_store st) = Some agent"
    by (auto simp: handleAgentEnroll_def Let_def h split: option.splits if_splits)
  from assms row agent k obtain s where s: "markEnrollmentTokenUsed ?k now (cp_store st) = Inr s"
    by (auto simp: handleAgentEnroll_def Let_def h split: option.splits if_splits sum.splits)
  have t: "asString (map_of body ''token'') = Some ?token"
    using assms by (auto simp: handleAgentEnroll_def Let_def h split: option.splits if_splits)
  have "rs_tokens (cp_store st1) = rs_tokens s"
    using assms row agent k s
    by (auto simp: handleAgentEnroll_def Let_def h split: option.splits if_splits sum.splits dest: updateAgent_tokens)
  with t s show ?thesis by (intro that [of ?token ?k s]) simp_all
qed

text \<open>
  C20: an enrollment token enrols at most once: after an agent was enrolled with it, no later enrolment
  with the same token succeeds, whatever happens in between and whatever key and host it comes with.
\<close>

theorem enrollment_token_single_use:
  assumes "store_ok (cp_store st)" and "handleAgentEnroll env now body st = (Inr r, st1)"
    and "asString (map_of body ''token'') = Some token"
    and "(cp_step env hv a (hashSecret (ce_sha256 env) token))\<^sup>*\<^sup>* \<lparr> cw_state = st1, cw_patches = patches \<rparr> w"
    and "asString (map_of body' ''token'') = Some token"
  shows "fst (handleAgentEnroll env now' body' (cw_state w)) \<noteq> Inr r'"
proof
  assume later: "fst (handleAgentEnroll env now' body' (cw_state w)) = Inr r'"
  let ?h = "hashSecret (ce_sha256 env) token"
  from enroll_marks [OF assms(2)] assms(3) obtain s where
    m: "markEnrollmentTokenUsed ?h now (cp_store st) = Inr s" "rs_tokens (cp_store st1) = rs_tokens s"
    by (metis option.inject)
  have "tokens.spent ?h (cp_store st1)"
    using tokens.spent_after_mark [OF assms(1) m(1)] spent_tokens_cong [OF m(2)] by simp
  moreover have ok: "store_ok (cp_store st1)"
    using safe_enroll [of a ?h st env now body] assms(1,2) by (simp add: safe_step_def)
  ultimately have "store_ok (cp_store (cw_state w)) \<and> tokens.spent ?h (cp_store (cw_state w))"
    using cp_run_safe [OF assms(4)] by (simp add: safe_world_def)
  moreover from later obtain st3 where "handleAgentEnroll env now' body' (cw_state w) = (Inr r', st3)"
    by (cases "handleAgentEnroll env now' body' (cw_state w)") simp
  from enroll_marks [OF this] assms(5) obtain s' where "markEnrollmentTokenUsed ?h now' (cp_store (cw_state w)) = Inr s'"
    by (metis option.inject)
  ultimately show False using tokens.spent_no_mark by blast
qed

subsection \<open>Two runs\<close>

lemma demo_revoked: "\<exists>updated st1. revokeAgent 1 (demo_admin ''u'') demo_agent demo_state = (Inr updated, st1)"
  by (simp add: revokeAgent_def Let_def demo_control_store updateAgent_def update_rows_def)

lemma demo_known: "known demo_state demo_agent"
  by (simp add: known_def demo_control_store agentFromRow_def demo_agent_def truthy_def)

theorem revocation_is_final_witness:
  "\<exists>updated st1. revokeAgent 1 (demo_admin ''u'') demo_agent demo_state = (Inr updated, st1) \<and>
     live_of (snd (onText demo_env 2 7 (Some demo_hello) (on_lc (lc_handleUpgrade 3 False (CallsBack 7 2)) st1))) ''agt_1'' = None"
proof -
  obtain updated st1 where r: "revokeAgent 1 (demo_admin ''u'') demo_agent demo_state = (Inr updated, st1)"
    using demo_revoked by blast
  let ?w = "\<lparr> cw_state = st1, cw_patches = [] \<rparr>"
  let ?st2 = "on_lc (lc_handleUpgrade 3 False (CallsBack 7 2)) st1"
  have 1: "cp_step demo_control_env demo_env (ra_id demo_agent) ''h'' ?w (in_state ?st2 ?w)"
    using cp_step.upgrade [of demo_control_env demo_env "ra_id demo_agent" "''h''" ?w 3 False "CallsBack 7 2"] by simp
  have 2: "cp_step demo_control_env demo_env (ra_id demo_agent) ''h'' (in_state ?st2 ?w)
      (in_state (onText demo_env 2 7 (Some demo_hello) ?st2) ?w)"
    using cp_step.message [of demo_control_env demo_env "ra_id demo_agent" "''h''" "in_state ?st2 ?w" 2 7 "Some demo_hello"]
    by (simp add: in_state_def)
  have run: "(cp_step demo_control_env demo_env (ra_id demo_agent) ''h'')\<^sup>*\<^sup>* ?w
      (in_state (onText demo_env 2 7 (Some demo_hello) ?st2) ?w)"
    by (rule rtranclp.rtrancl_into_rtrancl [where b = "in_state ?st2 ?w"]) (rule r_into_rtranclp, rule 1, rule 2)
  from revocation_is_final [OF demo_control_ok demo_known r _ run] r
  show ?thesis by (auto simp: demo_agent_def in_state_def)
qed

definition demo_enroll_state :: agent_state where
  "demo_enroll_state = set_store ((cp_store demo_state)\<lparr> rs_tokens :=
     [\<lparr> et_id = ''e'', et_agentId = ''agt_1'', et_userId = ''u'', et_tokenHash = ''k'', et_expiresAt = 9, et_usedAt = None,
        et_createdAt = 0 \<rparr>] \<rparr>) demo_state"

definition demo_enroll_body :: entries where
  "demo_enroll_body = [(''token'', JStr ''k''), (''public_key'', JStr ''PK''), (''host'', demo_host)]"

lemma demo_enrolled: "\<exists>r st1. handleAgentEnroll demo_control_env 1 demo_enroll_body demo_enroll_state = (Inr r, st1)"
proof -
  have h: "parseAgentHostMetadata demo_host =
      Some \<lparr> hm_hostname = ''h'', hm_os = ''Linux'', hm_arch = ''x64'', hm_platform = ''linux'' \<rparr>" by code_simp
  have t: "rs_tokens (cp_store demo_enroll_state) =
      [\<lparr> et_id = ''e'', et_agentId = ''agt_1'', et_userId = ''u'', et_tokenHash = ''k'', et_expiresAt = 9, et_usedAt = None,
        et_createdAt = 0 \<rparr>]" "rs_agents (cp_store demo_enroll_state) = [demo_agent]"
    by (simp_all add: demo_enroll_state_def demo_control_store)
  have a: "getAgent ''agt_1'' (cp_store demo_enroll_state) = Some demo_agent" "ra_status demo_agent \<noteq> Revoked"
    by (simp_all add: getAgent_def t demo_agent_def agentFromRow_def truthy_def)
  obtain s1 where s1: "markEnrollmentTokenUsed ''k'' 1 (cp_store demo_enroll_state) = Inr s1" "rs_agents s1 = [demo_agent]"
    by (simp add: markEnrollmentTokenUsed_def Let_def changes_def t)
  have u: "\<exists>s2. updateAgent x s1 = Inr s2" for x by (simp add: updateAgent_def Let_def update_rows_def s1(2))
  obtain s2 where "updateAgent (demo_agent\<lparr> ra_status := Offline, ra_publicKey := Some ''PK'', ra_hostMetadata :=
      Some \<lparr> hm_hostname = ''h'', hm_os = ''Linux'', hm_arch = ''x64'', hm_platform = ''linux'' \<rparr>, ra_updatedAt := 1 \<rparr>) s1 = Inr s2"
    using u by blast
  with h a s1(1) show ?thesis
    by (simp add: handleAgentEnroll_def Let_def demo_enroll_body_def asString_def demo_host_def demo_control_env_def
        hashSecret_def getEnrollmentTokenByHash_def t(1))
qed

theorem enrollment_token_single_use_witness:
  "\<exists>r st1. handleAgentEnroll demo_control_env 1 demo_enroll_body demo_enroll_state = (Inr r, st1) \<and>
     fst (handleAgentEnroll demo_control_env 2 demo_enroll_body st1) \<noteq> Inr r"
proof -
  obtain r st1 where e: "handleAgentEnroll demo_control_env 1 demo_enroll_body demo_enroll_state = (Inr r, st1)"
    using demo_enrolled by blast
  have ok: "store_ok (cp_store demo_enroll_state)"
    by (simp add: demo_enroll_state_def demo_control_store store_ok_def empty_store_def)
  have t: "asString (map_of demo_enroll_body ''token'') = Some ''k''" by (simp add: demo_enroll_body_def asString_def)
  from enrollment_token_single_use [OF ok e t rtranclp.rtrancl_refl t, where patches = "[]"] e show ?thesis by auto
qed

end
