(* ===== verification/Effects.thy ===== *)
theory Effects
  imports Prelude
begin

section \<open>Computations that make calls\<close>

text \<open>
  Code that talks to the outside makes calls, of a type \<open>'o\<close>, and gets answers. A computation reads the
  history of calls, appends its own, and returns a value or throws; the answer to a call may depend on
  the whole history before it. \<open>wp\<close> is the weakest precondition of a computation for a condition on
  values and one on errors; its equations for the combinators are collected in \<open>io_wp\<close>, so that the
  properties of functions are computed by rewriting. \<open>guarded\<close> and \<open>keeps\<close> say that every call made
  is authorised by what went before it.
\<close>

named_theorems io_wp \<open>weakest preconditions of computations\<close>

subsection \<open>Computations\<close>

type_synonym ('o, 'e, 'a) proc = "'o list \<Rightarrow> ('e + 'a) \<times> 'o list"

definition io_ret :: "'a \<Rightarrow> ('o, 'e, 'a) proc" where
  "io_ret x t = (Inr x, t)"

definition io_throw :: "'e \<Rightarrow> ('o, 'e, 'a) proc" where
  "io_throw e t = (Inl e, t)"

definition io_bind :: "('o, 'e, 'a) proc \<Rightarrow> ('a \<Rightarrow> ('o, 'e, 'b) proc) \<Rightarrow> ('o, 'e, 'b) proc" where
  "io_bind m f t = (case m t of (Inl e, t') \<Rightarrow> (Inl e, t') | (Inr x, t') \<Rightarrow> f x t')"

definition io_catch :: "('o, 'e, 'a) proc \<Rightarrow> ('e \<Rightarrow> ('o, 'f, 'a) proc) \<Rightarrow> ('o, 'f, 'a) proc" where
  "io_catch m f t = (case m t of (Inl e, t') \<Rightarrow> f e t' | (Inr x, t') \<Rightarrow> (Inr x, t'))"

definition io_finally :: "('o, 'e, 'a) proc \<Rightarrow> ('o, 'e, unit) proc \<Rightarrow> ('o, 'e, 'a) proc" where
  "io_finally m c t = (case m t of (r, t') \<Rightarrow> (r, snd (c t')))"

definition io_rethrow :: "('e \<Rightarrow> 'f) \<Rightarrow> ('o, 'e, 'a) proc \<Rightarrow> ('o, 'f, 'a) proc" where
  "io_rethrow g m = io_catch m (\<lambda>e. io_throw (g e))"

text \<open>Two calls of a \<open>Promise.all\<close>: both are made, and the first error wins.\<close>

definition io_both :: "('o, 'e, 'a) proc \<Rightarrow> ('o, 'e, 'b) proc \<Rightarrow> ('o, 'e, 'a \<times> 'b) proc" where
  "io_both m n t =
     (case m t of (r, t1) \<Rightarrow> (case n t1 of (q, t2) \<Rightarrow>
        (case r of Inl e \<Rightarrow> Inl e | Inr x \<Rightarrow> (case q of Inl e \<Rightarrow> Inl e | Inr y \<Rightarrow> Inr (x, y)), t2)))"

text \<open>One call: it is recorded, and the answer depends on the history that ends with it.\<close>

definition io_act :: "'o \<Rightarrow> ('o list \<Rightarrow> 'e + 'a) \<Rightarrow> ('o, 'e, 'a) proc" where
  "io_act call answer t = (answer (t @ [call]), t @ [call])"

subsection \<open>Weakest preconditions\<close>

definition wp :: "('o, 'e, 'a) proc \<Rightarrow> ('a \<Rightarrow> 'o list \<Rightarrow> bool) \<Rightarrow> ('e \<Rightarrow> 'o list \<Rightarrow> bool) \<Rightarrow> 'o list \<Rightarrow> bool" where
  "wp m Q E t = (case m t of (Inl e, t') \<Rightarrow> E e t' | (Inr x, t') \<Rightarrow> Q x t')"

lemma wp_ret [io_wp]: "wp (io_ret x) Q E = Q x"
  by (simp add: fun_eq_iff wp_def io_ret_def)

lemma wp_throw [io_wp]: "wp (io_throw e) Q E = E e"
  by (simp add: fun_eq_iff wp_def io_throw_def)

lemma wp_bind [io_wp]: "wp (io_bind m f) Q E = wp m (\<lambda>x. wp (f x) Q E) E"
  by (simp add: fun_eq_iff wp_def io_bind_def split: prod.splits sum.splits)

lemma wp_catch [io_wp]: "wp (io_catch m f) Q E = wp m Q (\<lambda>e. wp (f e) Q E)"
  by (simp add: fun_eq_iff wp_def io_catch_def split: prod.splits sum.splits)

lemma wp_rethrow [io_wp]: "wp (io_rethrow g m) Q E = wp m Q (\<lambda>e. E (g e))"
  by (simp add: io_rethrow_def io_wp)

lemma wp_finally [io_wp]:
  "wp (io_finally m c) Q E = wp m (\<lambda>x. wp c (\<lambda>_. Q x) (\<lambda>_. Q x)) (\<lambda>e. wp c (\<lambda>_. E e) (\<lambda>_. E e))"
  by (simp add: fun_eq_iff wp_def io_finally_def split_beta split: sum.splits)

lemma wp_act [io_wp]:
  "wp (io_act call answer) Q E = (\<lambda>t. case answer (t @ [call]) of Inl e \<Rightarrow> E e (t @ [call]) | Inr x \<Rightarrow> Q x (t @ [call]))"
  by (simp add: fun_eq_iff wp_def io_act_def split: sum.splits)

lemma wp_both [io_wp]:
  "wp (io_both m n) Q E =
     wp m (\<lambda>x. wp n (\<lambda>y. Q (x, y)) E) (\<lambda>e. wp n (\<lambda>_. E e) (\<lambda>_. E e))"
  by (simp add: fun_eq_iff wp_def io_both_def split_beta split: sum.splits)

lemma wp_split [io_wp]: "wp (case x of (a, b) \<Rightarrow> f a b) Q E = (case x of (a, b) \<Rightarrow> wp (f a b) Q E)"
  by (cases x) simp

lemma wp_if [io_wp]: "wp (if b then m else n) Q E = (if b then wp m Q E else wp n Q E)"
  by simp

lemma wp_mono:
  assumes "wp m Q E t" and "\<And>x t'. Q x t' \<Longrightarrow> Q' x t'" and "\<And>e t'. E e t' \<Longrightarrow> E' e t'"
  shows "wp m Q' E' t"
  using assms by (auto simp: wp_def split: prod.splits sum.splits)

lemma wp_conj: "wp m Q E t \<Longrightarrow> wp m Q' E' t \<Longrightarrow> wp m (\<lambda>x t. Q x t \<and> Q' x t) (\<lambda>e t. E e t \<and> E' e t) t"
  by (auto simp: wp_def split: prod.splits sum.splits)

lemma wp_result: "wp m Q E t \<Longrightarrow> m t = (r, t') \<Longrightarrow> (case r of Inl e \<Rightarrow> E e t' | Inr x \<Rightarrow> Q x t')"
  by (auto simp: wp_def split: prod.splits sum.splits)

subsection \<open>Runs in which every call is authorised\<close>

text \<open>
  \<open>guarded ok t t'\<close>: the history grew from \<open>t\<close> to \<open>t'\<close> by calls of which each was \<open>ok\<close> after the calls
  before it.
\<close>

inductive guarded :: "('o list \<Rightarrow> 'o \<Rightarrow> bool) \<Rightarrow> 'o list \<Rightarrow> 'o list \<Rightarrow> bool"
  for ok t where
  guarded_refl: "guarded ok t t"
| guarded_call: "guarded ok t u \<Longrightarrow> ok u call \<Longrightarrow> guarded ok t (u @ [call])"

lemma guarded_trans: "guarded ok u v \<Longrightarrow> guarded ok t u \<Longrightarrow> guarded ok t v"
  by (induction rule: guarded.induct) (auto intro: guarded.intros)

lemma guarded_extends: "guarded ok t u \<Longrightarrow> \<exists>calls. u = t @ calls"
  by (induction rule: guarded.induct) auto

lemma guarded_each: "guarded ok t u \<Longrightarrow> u = t @ calls \<Longrightarrow> calls = before @ call # after \<Longrightarrow> ok (t @ before) call"
proof (induction arbitrary: calls before call after rule: guarded.induct)
  case (guarded_call u call')
  from guarded_extends [OF guarded_call.hyps(1)] obtain cs where cs: "u = t @ cs" by blast
  with guarded_call.prems have e: "cs @ [call'] = before @ call # after" by simp
  show ?case
  proof (cases after rule: rev_cases)
    case Nil
    with e cs guarded_call.hyps(2) show ?thesis by simp
  next
    case (snoc after' c)
    with e have "cs = before @ call # after'" by simp
    with guarded_call.IH cs show ?thesis by blast
  qed
qed simp

lemma guarded_mono: "guarded ok t u \<Longrightarrow> (\<And>v call. ok v call \<Longrightarrow> ok' v call) \<Longrightarrow> guarded ok' t u"
  by (induction rule: guarded.induct) (auto intro: guarded.intros)

lemma guarded_None: "guarded ok t u \<Longrightarrow> (\<And>v call. \<not> ok v call) \<Longrightarrow> u = t"
  by (induction rule: guarded.induct) auto

fun each_ok :: "('o list \<Rightarrow> 'o \<Rightarrow> bool) \<Rightarrow> 'o list \<Rightarrow> 'o list \<Rightarrow> bool" where
  "each_ok ok t [] = True"
| "each_ok ok t (c # cs) = (ok t c \<and> each_ok ok (t @ [c]) cs)"

lemma each_ok_snoc: "each_ok ok t (cs @ [c]) \<longleftrightarrow> each_ok ok t cs \<and> ok (t @ cs) c"
  by (induction cs arbitrary: t) simp_all

lemma guarded_iff [simp]: "guarded ok t (t @ cs) \<longleftrightarrow> each_ok ok t cs"
proof
  have "each_ok ok t ds" if "guarded ok t u" "u = t @ ds" for u ds
    using that
  proof (induction arbitrary: ds rule: guarded.induct)
    case (guarded_call u c)
    from guarded_extends [OF guarded_call.hyps(1)] obtain es where "u = t @ es" by blast
    with guarded_call have "ds = es @ [c]" "each_ok ok t es" "ok (t @ es) c" by simp_all
    then show ?case by (simp add: each_ok_snoc)
  qed simp
  then show "guarded ok t (t @ cs) \<Longrightarrow> each_ok ok t cs" by blast
  show "each_ok ok t cs \<Longrightarrow> guarded ok t (t @ cs)"
  proof (induction cs rule: rev_induct)
    case (snoc c cs)
    then show ?case using guarded.guarded_call [of ok t "t @ cs" c] by (simp add: each_ok_snoc)
  qed (simp add: guarded_refl)
qed

lemma guarded_self [simp]: "guarded ok t t"
  by (rule guarded_refl)

text \<open>The computation makes only authorised calls, whatever it returns.\<close>

definition keeps :: "('o list \<Rightarrow> 'o \<Rightarrow> bool) \<Rightarrow> ('o, 'e, 'a) proc \<Rightarrow> bool" where
  "keeps ok m \<longleftrightarrow> (\<forall>t. guarded ok t (snd (m t)))"

named_theorems keeps_intros \<open>computations that make only authorised calls\<close>

lemma keeps_ret [keeps_intros]: "keeps ok (io_ret x)"
  by (simp add: keeps_def io_ret_def)

lemma keeps_throw [keeps_intros]: "keeps ok (io_throw e)"
  by (simp add: keeps_def io_throw_def)

lemma keeps_act [keeps_intros]: "(\<And>t. ok t call) \<Longrightarrow> keeps ok (io_act call answer)"
  by (simp add: keeps_def io_act_def)

lemma keeps_bind [keeps_intros]:
  assumes "keeps ok m" and "\<And>x. keeps ok (f x)"
  shows "keeps ok (io_bind m f)"
  unfolding keeps_def
proof
  fix t
  obtain r u where m: "m t = (r, u)" by (cases "m t")
  with assms(1) have u: "guarded ok t u" unfolding keeps_def by (metis snd_conv)
  show "guarded ok t (snd (io_bind m f t))"
  proof (cases r)
    case (Inr x)
    from assms(2) have "guarded ok u (snd (f x u))" unfolding keeps_def by blast
    with u m Inr show ?thesis by (simp add: io_bind_def guarded_trans)
  qed (use u m in \<open>simp add: io_bind_def\<close>)
qed

lemma keeps_catch [keeps_intros]:
  assumes "keeps ok m" and "\<And>e. keeps ok (f e)"
  shows "keeps ok (io_catch m f)"
  unfolding keeps_def
proof
  fix t
  obtain r u where m: "m t = (r, u)" by (cases "m t")
  with assms(1) have u: "guarded ok t u" unfolding keeps_def by (metis snd_conv)
  show "guarded ok t (snd (io_catch m f t))"
  proof (cases r)
    case (Inl e)
    from assms(2) have "guarded ok u (snd (f e u))" unfolding keeps_def by blast
    with u m Inl show ?thesis by (simp add: io_catch_def guarded_trans)
  qed (use u m in \<open>simp add: io_catch_def\<close>)
qed

lemma keeps_rethrow [keeps_intros]: "keeps ok m \<Longrightarrow> keeps ok (io_rethrow g m)"
  by (simp add: io_rethrow_def keeps_intros)

lemma keeps_finally [keeps_intros]: "keeps ok m \<Longrightarrow> keeps ok c \<Longrightarrow> keeps ok (io_finally m c)"
  unfolding keeps_def io_finally_def by (simp add: split_beta) (blast intro: guarded_trans)

lemma keeps_both [keeps_intros]: "keeps ok m \<Longrightarrow> keeps ok n \<Longrightarrow> keeps ok (io_both m n)"
  unfolding keeps_def io_both_def by (simp add: split_beta) (blast intro: guarded_trans)

lemma keeps_if [keeps_intros]: "(b \<Longrightarrow> keeps ok m) \<Longrightarrow> (\<not> b \<Longrightarrow> keeps ok n) \<Longrightarrow> keeps ok (if b then m else n)"
  by simp

lemma keeps_split [keeps_intros]: "(\<And>a b. keeps ok (f a b)) \<Longrightarrow> keeps ok (case x of (a, b) \<Rightarrow> f a b)"
  by (cases x) simp

lemma keeps_mono: "keeps ok m \<Longrightarrow> (\<And>u c. ok u c \<Longrightarrow> ok' u c) \<Longrightarrow> keeps ok' m"
  unfolding keeps_def by (blast intro: guarded_mono)

lemma guarded_conj: "guarded ok t u \<Longrightarrow> guarded ok' t u \<Longrightarrow> guarded (\<lambda>v c. ok v c \<and> ok' v c) t u"
proof -
  assume g: "guarded ok t u" "guarded ok' t u"
  from guarded_extends [OF g(1)] obtain cs where u: "u = t @ cs" by blast
  have "each_ok ok t ds \<Longrightarrow> each_ok ok' t ds \<Longrightarrow> each_ok (\<lambda>v c. ok v c \<and> ok' v c) t ds" for t ds
    by (induction ds arbitrary: t) simp_all
  with g u show ?thesis by simp
qed

lemma keeps_conj: "keeps ok m \<Longrightarrow> keeps ok' m \<Longrightarrow> keeps (\<lambda>u c. ok u c \<and> ok' u c) m"
  unfolding keeps_def by (blast intro: guarded_conj)

lemma keeps_wp: "keeps ok m \<longleftrightarrow> (\<forall>t. wp m (\<lambda>_. guarded ok t) (\<lambda>_. guarded ok t) t)"
  unfolding keeps_def wp_def by (simp add: split_beta split: sum.splits)

lemma wp_keeps: "(\<And>t. wp m (\<lambda>_. guarded ok t) (\<lambda>_. guarded ok t) t) \<Longrightarrow> keeps ok m"
  by (simp add: keeps_wp)

end
