(* ===== verification/HostIO.thy ===== *)
theory HostIO
  imports Effects Envelopes
begin

section \<open>The host of an agent, as the agent sees it\<close>

text \<open>
  The agent calls the operating system through \<open>node:fs/promises\<close> and \<open>node:child_process\<close>. What
  a call answers depends on everything that happens on the host, so a host is a family of answers:
  each may depend on the calls made so far, and nothing relates the answers of two calls. A file
  may be replaced, a link redirected and a directory moved between any two calls of the agent.
\<close>

subsection \<open>Calls and answers\<close>

datatype open_flag = O_RDONLY | O_WRONLY | O_CREAT | O_EXCL | O_NOFOLLOW | O_DIRECTORY

datatype host_op =
    OpRealpath string
  | OpOpen string "open_flag list" "int option"
  | OpFstat nat
  | OpStat string
  | OpFread nat nat nat
  | OpChmod nat int
  | OpWrite nat string
  | OpSync nat
  | OpClose nat
  | OpRename string string
  | OpUnlink string
  | OpAccess string
  | OpSpawn string "string list" "string option" "int option"

type_synonym history = "host_op list"

record stats =
  st_isFile :: bool
  st_isDirectory :: bool
  st_dev :: int
  st_ino :: int
  st_mode :: int
  st_size :: nat

text \<open>A child process: the chunks it writes, and how it ends (a code or none, after the time limit or not).\<close>

datatype child_end = ChildClosed "int option" bool | ChildError string

record child =
  ch_stdout :: "string list"
  ch_stderr :: "string list"
  ch_end :: child_end

text \<open>
  An error code of the operating system is a letter E and a name. \<open>h_done\<close> answers the calls that
  return nothing; \<open>h_utf8\<close> decodes bytes.
\<close>

datatype failure = OsError string | Coded remote_error_code string

record host =
  h_platform :: string
  h_is_root :: bool
  h_has_nofollow :: bool
  h_has_directory :: bool
  h_realpath :: "history \<Rightarrow> string \<Rightarrow> string + string"
  h_open :: "history \<Rightarrow> string \<Rightarrow> string + nat"
  h_fstat :: "history \<Rightarrow> nat \<Rightarrow> string + stats"
  h_stat :: "history \<Rightarrow> string \<Rightarrow> string + stats"
  h_fread :: "history \<Rightarrow> nat \<Rightarrow> nat \<Rightarrow> nat \<Rightarrow> string + string"
  h_done :: "history \<Rightarrow> host_op \<Rightarrow> string option"
  h_child :: "history \<Rightarrow> child"
  h_uuid :: "history \<Rightarrow> string"
  h_utf8 :: "string \<Rightarrow> string"

subsection \<open>Computations\<close>

type_synonym ('e, 'a) io = "(host_op, 'e, 'a) proc"

text \<open>One call: the answer depends on the history before it, and the call is recorded.\<close>

definition io_call :: "host_op \<Rightarrow> (history \<Rightarrow> string + 'a) \<Rightarrow> (failure, 'a) io" where
  "io_call call answer t = (case answer t of Inl e \<Rightarrow> Inl (OsError e) | Inr x \<Rightarrow> Inr x, t @ [call])"

definition do_call :: "host \<Rightarrow> host_op \<Rightarrow> (failure, unit) io" where
  "do_call h call = io_call call (\<lambda>t. case h_done h t call of Some e \<Rightarrow> Inl e | None \<Rightarrow> Inr ())"

definition do_realpath :: "host \<Rightarrow> string \<Rightarrow> (failure, string) io" where
  "do_realpath h p = io_call (OpRealpath p) (\<lambda>t. h_realpath h t p)"

definition do_open :: "host \<Rightarrow> string \<Rightarrow> open_flag list \<Rightarrow> int option \<Rightarrow> (failure, nat) io" where
  "do_open h p flags mode = io_call (OpOpen p flags mode) (\<lambda>t. h_open h t p)"

definition do_fstat :: "host \<Rightarrow> nat \<Rightarrow> (failure, stats) io" where
  "do_fstat h fd = io_call (OpFstat fd) (\<lambda>t. h_fstat h t fd)"

definition do_stat :: "host \<Rightarrow> string \<Rightarrow> (failure, stats) io" where
  "do_stat h p = io_call (OpStat p) (\<lambda>t. h_stat h t p)"

definition do_fread :: "host \<Rightarrow> nat \<Rightarrow> nat \<Rightarrow> nat \<Rightarrow> (failure, string) io" where
  "do_fread h fd len pos = io_call (OpFread fd len pos) (\<lambda>t. h_fread h t fd len pos)"

definition fresh_uuid :: "host \<Rightarrow> ('e, string) io" where
  "fresh_uuid h t = (Inr (h_uuid h t), t)"

lemma wp_call [io_wp]:
  "wp (io_call call answer) Q E =
     (\<lambda>t. case answer t of Inl e \<Rightarrow> E (OsError e) (t @ [call]) | Inr x \<Rightarrow> Q x (t @ [call]))"
  by (simp add: fun_eq_iff wp_def io_call_def split: sum.splits)

lemma wp_fresh_uuid [io_wp]: "wp (fresh_uuid h) Q E = (\<lambda>t. Q (h_uuid h t) t)"
  by (simp add: fun_eq_iff wp_def fresh_uuid_def)

lemma keeps_call [keeps_intros]: "(\<And>t. ok t call) \<Longrightarrow> keeps ok (io_call call answer)"
  by (simp add: keeps_def io_call_def)

lemma keeps_do_call [keeps_intros]: "(\<And>t. ok t call) \<Longrightarrow> keeps ok (do_call h call)"
  by (simp add: do_call_def keeps_call)

lemma keeps_uuid [keeps_intros]: "keeps ok (fresh_uuid h)"
  by (simp add: keeps_def fresh_uuid_def)

end
