(* ===== verification/SafeFile.thy ===== *)
theory SafeFile
  imports HostIO
begin

section \<open>Authorised files: \<open>src/remote/safe-file.ts\<close>\<close>

text \<open>
  How an agent reads and writes files under a path policy on a host whose file system may change
  between any two calls. Paths are those of a POSIX host. A file is checked by the text of its path,
  by its resolved path, and again, once it is open, by the path of the open file (on Linux the
  target of \<open>/proc/self/fd/N\<close>). Writes are staged in a temporary file beside the target.
\<close>

subsection \<open>Errors\<close>

definition error_code_name :: "remote_error_code \<Rightarrow> string" where
  "error_code_name c = (case find (\<lambda>e. snd e = c) REMOTE_ERROR_CODES of Some e \<Rightarrow> fst e | None \<Rightarrow> [])"

definition codedError :: "string \<Rightarrow> remote_error_code \<Rightarrow> failure" where
  "codedError message code = Coded code message"

definition policyDenied :: "string \<Rightarrow> failure" where
  "policyDenied message = codedError message POLICY_DENIED"

definition operationFailed :: "string \<Rightarrow> failure" where
  "operationFailed message = codedError message INTERNAL_ERROR"

definition errorCode :: "failure \<Rightarrow> string" where
  "errorCode e = (case e of OsError s \<Rightarrow> CHR ''E'' # s | Coded c _ \<Rightarrow> error_code_name c)"

text \<open>\<open>if (errorCode(error) === "POLICY_DENIED") throw error; throw policyDenied(message)\<close>.\<close>

definition as_denied :: "string \<Rightarrow> failure \<Rightarrow> failure" where
  "as_denied message e = (if errorCode e = ''POLICY_DENIED'' then e else policyDenied message)"

subsection \<open>Checks\<close>

definition sameFileIdentity :: "stats \<Rightarrow> stats \<Rightarrow> bool" where
  "sameFileIdentity opened resolved \<longleftrightarrow> st_dev opened = st_dev resolved \<and> st_ino opened = st_ino resolved"

definition closeQuietly :: "host \<Rightarrow> nat option \<Rightarrow> ('e, unit) io" where
  "closeQuietly h handle =
     (case handle of
        None \<Rightarrow> io_ret ()
      | Some fd \<Rightarrow> io_catch (do_call h (OpClose fd)) (\<lambda>_. io_ret ()))"

definition assertRequestedPath :: "agent_policy \<Rightarrow> string \<Rightarrow> string \<Rightarrow> (failure, unit) io" where
  "assertRequestedPath policy requestedPath message =
     (if requestedPath = [] \<or> \<not> isPathAllowed policy requestedPath then io_throw (policyDenied message)
      else io_ret ())"

definition fd_path :: "nat \<Rightarrow> string" where
  "fd_path fd = ''/proc/self/fd/'' @ show_nat fd"

definition openedCanonicalPath :: "host \<Rightarrow> nat \<Rightarrow> string \<Rightarrow> (failure, string) io" where
  "openedCanonicalPath h handle expectedPath =
     (if h_platform h = ''linux'' then do_realpath h (fd_path handle) else do_realpath h expectedPath)"

definition checked :: "bool \<Rightarrow> string \<Rightarrow> (failure, unit) io" where
  "checked ok message = (if ok then io_ret () else io_throw (policyDenied message))"

definition verifyOpenedHandle ::
    "host \<Rightarrow> agent_policy \<Rightarrow> nat \<Rightarrow> string \<Rightarrow> (stats \<Rightarrow> bool) \<Rightarrow> string \<Rightarrow> (failure, string) io" where
  "verifyOpenedHandle h policy handle expectedPath typeMatches message =
     io_rethrow (as_denied message)
       (io_bind (openedCanonicalPath h handle expectedPath) (\<lambda>openedPath.
        io_bind (checked (isPathAllowed policy openedPath) message) (\<lambda>_.
        io_bind (io_both (do_fstat h handle) (do_stat h openedPath)) (\<lambda>(openedStats, resolvedStats).
        io_bind (checked (typeMatches openedStats \<and> sameFileIdentity openedStats resolvedStats) message) (\<lambda>_.
        io_ret openedPath)))))"

text \<open>\<open>realpath\<close> of a requested path, which must be allowed too.\<close>

definition canonical_allowed :: "host \<Rightarrow> agent_policy \<Rightarrow> string \<Rightarrow> string \<Rightarrow> (failure, string) io" where
  "canonical_allowed h policy requestedPath message =
     io_rethrow (as_denied message)
       (io_bind (do_realpath h requestedPath) (\<lambda>canonicalPath.
        io_bind (checked (isPathAllowed policy canonicalPath) message) (\<lambda>_.
        io_ret canonicalPath)))"

definition canonicalizeExisting :: "host \<Rightarrow> agent_policy \<Rightarrow> string \<Rightarrow> string \<Rightarrow> (failure, string) io" where
  "canonicalizeExisting h policy requestedPath message =
     io_bind (assertRequestedPath policy requestedPath message) (\<lambda>_.
     canonical_allowed h policy requestedPath message)"

definition no_follow :: "host \<Rightarrow> open_flag list" where
  "no_follow h = (if h_has_nofollow h then [O_NOFOLLOW] else [])"

definition directory_only :: "host \<Rightarrow> open_flag list" where
  "directory_only h = (if h_has_directory h then [O_DIRECTORY] else [])"

definition openExistingFile ::
    "host \<Rightarrow> agent_policy \<Rightarrow> string \<Rightarrow> open_flag \<Rightarrow> string \<Rightarrow> (failure, nat) io" where
  "openExistingFile h policy requestedPath flag message =
     io_bind (canonicalizeExisting h policy requestedPath message) (\<lambda>canonicalPath.
     io_bind (io_rethrow (as_denied message) (do_open h canonicalPath (flag # no_follow h) None)) (\<lambda>file.
     io_catch
       (io_bind (verifyOpenedHandle h policy file canonicalPath st_isFile message) (\<lambda>_. io_ret file))
       (\<lambda>e. io_bind (closeQuietly h (Some file)) (\<lambda>_. io_throw (as_denied message e)))))"

definition openCanonicalParent :: "host \<Rightarrow> agent_policy \<Rightarrow> string \<Rightarrow> string \<Rightarrow> (failure, string \<times> string) io" where
  "openCanonicalParent h policy requestedPath message =
     (if requestedPath \<noteq> [] \<and> last requestedPath \<in> {SLASH, BSLASH} then io_throw (policyDenied message)
      else let requestedParent = posix_dirname requestedPath; leaf = posix_basename requestedPath
        in if leaf = [] \<or> leaf = ''.'' \<or> leaf = ''..'' then io_throw (policyDenied message)
           else io_bind (assertRequestedPath policy requestedParent message) (\<lambda>_.
                io_bind (canonical_allowed h policy requestedParent message) (\<lambda>canonicalParent.
                io_ret (canonicalParent, leaf))))"

subsection \<open>Reading\<close>

definition withAuthorizedRead ::
    "host \<Rightarrow> agent_policy \<Rightarrow> string \<Rightarrow> string \<Rightarrow> string \<Rightarrow> (nat \<Rightarrow> (failure, 'a) io) \<Rightarrow> (failure, 'a) io" where
  "withAuthorizedRead h policy requestedPath denialMessage operationMessage operation =
     io_bind (openExistingFile h policy requestedPath O_RDONLY denialMessage) (\<lambda>file.
     io_finally (io_rethrow (\<lambda>_. operationFailed operationMessage) (operation file)) (closeQuietly h (Some file)))"

subsection \<open>Writing\<close>

definition OWNER_READ_WRITE :: int where
  "OWNER_READ_WRITE = 384"

text \<open>\<open>mode & 0o777\<close> of a mode, which is not negative.\<close>

definition permission_bits :: "int \<Rightarrow> int" where
  "permission_bits mode = mode mod 512"

text \<open>The first part: the real target and its mode, or the requested path when it does not exist.\<close>

definition write_target :: "host \<Rightarrow> agent_policy \<Rightarrow> string \<Rightarrow> string \<Rightarrow> (failure, string \<times> int) io" where
  "write_target h policy requestedPath denialMessage =
     io_catch
       (io_bind (do_realpath h requestedPath) (\<lambda>target.
        io_bind (openExistingFile h policy requestedPath O_WRONLY denialMessage) (\<lambda>existing.
        io_bind (io_finally (do_fstat h existing) (closeQuietly h (Some existing))) (\<lambda>st.
        io_ret (target, permission_bits (st_mode st))))))
       (\<lambda>e. if errorCode e = ''ENOENT'' then io_ret (requestedPath, OWNER_READ_WRITE)
             else io_throw (as_denied denialMessage e))"

text \<open>The variables that the \<open>finally\<close> clause reads.\<close>

record staged =
  sg_parent :: "nat option"
  sg_temporary :: "nat option"
  sg_temporaryPath :: "string option"

text \<open>An error of \<open>m\<close> leaves the variables as \<open>s\<close>.\<close>

definition staging :: "staged \<Rightarrow> (failure, 'a) io \<Rightarrow> (failure \<times> staged, 'a) io" where
  "staging s m = io_rethrow (\<lambda>e. (e, s)) m"

definition open_parent :: "host \<Rightarrow> agent_policy \<Rightarrow> string \<Rightarrow> string \<Rightarrow> (failure \<times> staged, nat option) io" where
  "open_parent h policy canonicalParent denialMessage =
     (let s0 = \<lparr> sg_parent = None, sg_temporary = None, sg_temporaryPath = None \<rparr> in
      if h_platform h = ''linux'' then
        io_bind (staging s0 (do_open h canonicalParent (O_RDONLY # directory_only h @ no_follow h) None)) (\<lambda>parent.
        io_bind (staging (s0\<lparr> sg_parent := Some parent \<rparr>)
                   (verifyOpenedHandle h policy parent canonicalParent st_isDirectory denialMessage)) (\<lambda>_.
        io_ret (Some parent)))
      else io_ret None)"

definition fill_temporary ::
    "host \<Rightarrow> agent_policy \<Rightarrow> nat \<Rightarrow> string \<Rightarrow> string \<Rightarrow> int \<Rightarrow> string \<Rightarrow> (failure, unit) io" where
  "fill_temporary h policy temporary expectedPath content mode denialMessage =
     io_bind (verifyOpenedHandle h policy temporary expectedPath st_isFile denialMessage) (\<lambda>_.
     io_bind (do_call h (OpChmod temporary mode)) (\<lambda>_.
     io_bind (do_call h (OpWrite temporary content)) (\<lambda>_.
     io_bind (do_call h (OpSync temporary)) (\<lambda>_.
     do_call h (OpClose temporary)))))"

definition write_staged ::
    "host \<Rightarrow> agent_policy \<Rightarrow> string \<Rightarrow> string \<Rightarrow> string \<Rightarrow> int \<Rightarrow> string \<Rightarrow> (failure \<times> staged, nat option) io" where
  "write_staged h policy canonicalParent leaf content mode denialMessage =
     io_bind (open_parent h policy canonicalParent denialMessage) (\<lambda>parent.
     io_bind (fresh_uuid h) (\<lambda>uuid.
       let anchor = (case parent of Some fd \<Rightarrow> fd_path fd | None \<Rightarrow> canonicalParent);
           temporaryPath = posix_join [anchor, ''.'' @ leaf @ ''.'' @ uuid @ ''.tmp''];
           s1 = \<lparr> sg_parent = parent, sg_temporary = None, sg_temporaryPath = Some temporaryPath \<rparr>
       in io_bind (staging s1 (do_open h temporaryPath ([O_WRONLY, O_CREAT, O_EXCL] @ no_follow h) (Some mode)))
            (\<lambda>temporary.
          io_bind (staging (s1\<lparr> sg_temporary := Some temporary \<rparr>)
            (fill_temporary h policy temporary (posix_join [canonicalParent, posix_basename temporaryPath])
               content mode denialMessage)) (\<lambda>_.
          io_bind (staging s1 (do_call h (OpRename temporaryPath (posix_join [anchor, leaf])))) (\<lambda>_.
          io_bind (staging (s1\<lparr> sg_temporaryPath := None \<rparr>)
             (case parent of Some fd \<Rightarrow> do_call h (OpSync fd) | None \<Rightarrow> io_ret ())) (\<lambda>_.
          io_ret parent))))))"

definition write_cleanup :: "host \<Rightarrow> staged \<Rightarrow> ('e, unit) io" where
  "write_cleanup h s =
     io_bind (closeQuietly h (sg_temporary s)) (\<lambda>_.
     io_bind (case sg_temporaryPath s of
                Some p \<Rightarrow> io_catch (do_call h (OpUnlink p)) (\<lambda>_. io_ret ())
              | None \<Rightarrow> io_ret ()) (\<lambda>_.
     closeQuietly h (sg_parent s)))"

definition writeAuthorizedFileAtomic ::
    "host \<Rightarrow> agent_policy \<Rightarrow> string \<Rightarrow> string \<Rightarrow> string \<Rightarrow> string \<Rightarrow> (failure, unit) io" where
  "writeAuthorizedFileAtomic h policy requestedPath content denialMessage operationMessage =
     io_bind (assertRequestedPath policy requestedPath denialMessage) (\<lambda>_.
     io_bind (write_target h policy requestedPath denialMessage) (\<lambda>(target, mode).
     io_bind (openCanonicalParent h policy target denialMessage) (\<lambda>(canonicalParent, leaf).
     io_catch
       (io_bind (write_staged h policy canonicalParent leaf content mode denialMessage) (\<lambda>parent.
        write_cleanup h \<lparr> sg_parent = parent, sg_temporary = None, sg_temporaryPath = None \<rparr>))
       (\<lambda>(e, s). io_bind (write_cleanup h s) (\<lambda>_.
          io_throw (if errorCode e = ''POLICY_DENIED'' then e else operationFailed operationMessage))))))"

subsection \<open>What is checked before a file is used\<close>

text \<open>
  The handle \<open>fd\<close> has been vouched for in the history \<open>u\<close>: at some moment the open file was of the
  expected kind, its real path was allowed, and that path named this very file.
\<close>

definition vouched :: "host \<Rightarrow> agent_policy \<Rightarrow> (stats \<Rightarrow> bool) \<Rightarrow> history \<Rightarrow> nat \<Rightarrow> bool" where
  "vouched h policy kind u fd \<longleftrightarrow>
     (\<exists>before after p opened resolved.
        u = before @ [OpRealpath (fd_path fd), OpFstat fd, OpStat p] @ after \<and>
        h_realpath h before (fd_path fd) = Inr p \<and> isPathAllowed policy p \<and>
        h_fstat h (before @ [OpRealpath (fd_path fd)]) fd = Inr opened \<and>
        h_stat h (before @ [OpRealpath (fd_path fd), OpFstat fd]) p = Inr resolved \<and>
        kind opened \<and> sameFileIdentity opened resolved)"

lemma vouched_later: "vouched h policy kind u fd \<Longrightarrow> vouched h policy kind (u @ v) fd"
  unfolding vouched_def by (metis append.assoc)

lemma errorCode_simps [simp]:
  "errorCode (OsError s) \<noteq> ''POLICY_DENIED''"
  "errorCode (policyDenied m) = ''POLICY_DENIED''"
  by (simp_all add: errorCode_def policyDenied_def codedError_def error_code_name_def REMOTE_ERROR_CODES_def)

lemma as_denied_simps [simp]:
  "as_denied m (OsError s) = policyDenied m"
  "as_denied m (policyDenied m') = policyDenied m'"
  by (simp_all add: as_denied_def)

text \<open>The calls that check, and change nothing.\<close>

definition looks :: "history \<Rightarrow> host_op \<Rightarrow> bool" where
  "looks u call \<longleftrightarrow> (case call of OpRealpath _ \<Rightarrow> True | OpFstat _ \<Rightarrow> True | OpStat _ \<Rightarrow> True | OpClose _ \<Rightarrow> True | _ \<Rightarrow> False)"

lemma looks_simps [simp]:
  "looks u (OpRealpath p)" "looks u (OpFstat fd)" "looks u (OpStat p)" "looks u (OpClose fd)"
  by (simp_all add: looks_def)

lemma closeQuietly_wp:
  "(\<And>t'. t' = t \<or> (\<exists>fd. handle = Some fd \<and> t' = t @ [OpClose fd]) \<Longrightarrow> Q () t') \<Longrightarrow> wp (closeQuietly h handle) Q E t"
  by (cases handle) (auto simp: closeQuietly_def io_wp do_call_def split: sum.splits option.splits)

lemma vouched_now:
  "h_realpath h t (fd_path fd) = Inr p \<Longrightarrow> isPathAllowed policy p \<Longrightarrow>
   h_fstat h (t @ [OpRealpath (fd_path fd)]) fd = Inr opened \<Longrightarrow>
   h_stat h (t @ [OpRealpath (fd_path fd), OpFstat fd]) p = Inr resolved \<Longrightarrow> kind opened \<Longrightarrow>
   sameFileIdentity opened resolved \<Longrightarrow> vouched h policy kind (t @ [OpRealpath (fd_path fd), OpFstat fd, OpStat p]) fd"
  unfolding vouched_def by (intro exI [of _ t] exI [of _ p] exI [of _ opened] exI [of _ resolved] exI [of _ "[]"]) simp

lemma verifyOpenedHandle_wp:
  assumes "h_platform h = ''linux''"
  shows "wp (verifyOpenedHandle h policy fd expectedPath kind message)
     (\<lambda>p t'. guarded looks t t' \<and> vouched h policy kind t' fd)
     (\<lambda>e t'. guarded looks t t' \<and> e = policyDenied message) t"
  using assms
  by (auto simp: verifyOpenedHandle_def openedCanonicalPath_def checked_def io_wp do_realpath_def do_fstat_def do_stat_def
      split: sum.splits intro!: vouched_now)

lemma canonical_allowed_wp:
  "wp (canonical_allowed h policy p message)
     (\<lambda>q t'. t' = t @ [OpRealpath p] \<and> h_realpath h t p = Inr q \<and> isPathAllowed policy q)
     (\<lambda>e t'. t' = t @ [OpRealpath p] \<and> e = policyDenied message) t"
  by (auto simp: canonical_allowed_def checked_def io_wp do_realpath_def split: sum.splits)

lemma canonicalizeExisting_wp:
  "wp (canonicalizeExisting h policy p message)
     (\<lambda>q t'. guarded looks t t' \<and> isPathAllowed policy p \<and> isPathAllowed policy q)
     (\<lambda>e t'. guarded looks t t' \<and> e = policyDenied message) t"
  unfolding canonicalizeExisting_def assertRequestedPath_def
  by (auto simp: io_wp intro: wp_mono [OF canonical_allowed_wp])

text \<open>Calls of the opening of an existing file: what is opened is an allowed path, and not for creation.\<close>

definition opens :: "agent_policy \<Rightarrow> history \<Rightarrow> host_op \<Rightarrow> bool" where
  "opens policy u call \<longleftrightarrow>
     looks u call \<or> (\<exists>p flags mode. call = OpOpen p flags mode \<and> isPathAllowed policy p \<and> O_CREAT \<notin> set flags)"

lemma looks_opens: "looks u call \<Longrightarrow> opens policy u call"
  by (simp add: opens_def)

lemma openExistingFile_wp:
  assumes "h_platform h = ''linux''" "flag \<noteq> O_CREAT"
  shows "wp (openExistingFile h policy p flag message)
     (\<lambda>fd t'. guarded (opens policy) t t' \<and> isPathAllowed policy p \<and> vouched h policy st_isFile t' fd)
     (\<lambda>e t'. guarded (opens policy) t t' \<and> e = policyDenied message) t"
  unfolding openExistingFile_def io_wp
proof (rule wp_mono [OF canonicalizeExisting_wp], goal_cases)
  case (1 q u)
  then have g: "guarded (opens policy) t u" by (blast intro: guarded_mono looks_opens)
  have o: "opens policy u (OpOpen q (flag # no_follow h) None)"
    using 1 assms(2) by (simp add: opens_def no_follow_def)
  note gu = guarded_call [OF g o]
  show ?case
    unfolding do_open_def io_wp
  proof (cases "h_open h u q", goal_cases)
    case (1 e)
    with gu show ?case by simp
  next
    case (2 fd)
    have "wp (verifyOpenedHandle h policy fd q st_isFile message)
       (\<lambda>_ t'. guarded (opens policy) t t' \<and> isPathAllowed policy p \<and> vouched h policy st_isFile t' fd)
       (\<lambda>e t'. wp (closeQuietly h (Some fd))
          (\<lambda>_ t'. guarded (opens policy) t t' \<and> as_denied message e = policyDenied message)
          (\<lambda>e t'. guarded (opens policy) t t' \<and> e = policyDenied message) t')
       (u @ [OpOpen q (flag # no_follow h) None])"
    proof (rule wp_mono [OF verifyOpenedHandle_wp [OF assms(1)]], goal_cases)
      case (1 x v)
      then have "guarded (opens policy) (u @ [OpOpen q (flag # no_follow h) None]) v" by (blast intro: guarded_mono looks_opens)
      with 1 gu \<open>guarded looks t u \<and> isPathAllowed policy p \<and> isPathAllowed policy q\<close> show ?case
        by (blast intro: guarded_trans)
    next
      case (2 e v)
      then have "guarded (opens policy) (u @ [OpOpen q (flag # no_follow h) None]) v" by (blast intro: guarded_mono looks_opens)
      with gu have "guarded (opens policy) t v" by (blast intro: guarded_trans)
      moreover from guarded_call [OF this, of "OpClose fd"] have "guarded (opens policy) t (v @ [OpClose fd])"
        by (simp add: opens_def)
      ultimately show ?case using 2 by (intro closeQuietly_wp) auto
    qed
    with 2 show ?case by (simp add: io_wp)
  qed
next
  case (2 e u)
  then show ?case by (blast intro: guarded_mono looks_opens)
qed

subsection \<open>Every access is authorised\<close>

text \<open>A file name in a directory: not empty, no separator, and neither of the two dots.\<close>

definition plain_leaf :: "string \<Rightarrow> bool" where
  "plain_leaf leaf \<longleftrightarrow> leaf \<notin> {[], ''.'', ''..''} \<and> SLASH \<notin> set leaf"

text \<open>The whole content has been written to the handle, synced, and the handle closed, just now.\<close>

definition filled_at :: "host \<Rightarrow> string \<Rightarrow> nat \<Rightarrow> history \<Rightarrow> bool" where
  "filled_at h content fd u \<longleftrightarrow>
     (\<exists>before. u = before @ [OpWrite fd content, OpSync fd, OpClose fd] \<and>
        h_done h before (OpWrite fd content) = None \<and>
        h_done h (before @ [OpWrite fd content]) (OpSync fd) = None \<and>
        h_done h (before @ [OpWrite fd content, OpSync fd]) (OpClose fd) = None)"

definition filled :: "host \<Rightarrow> string \<Rightarrow> history \<Rightarrow> bool" where
  "filled h content u \<longleftrightarrow> (\<exists>fd. filled_at h content fd u)"

text \<open>
  What each call of the file functions must satisfy. A file is read or written only through a handle
  that was vouched for; a path is opened only if it is allowed, or exclusively created under the
  handle of a vouched directory; a file is put in place only from a complete temporary file.
\<close>

definition file_guard :: "host \<Rightarrow> agent_policy \<Rightarrow> history \<Rightarrow> host_op \<Rightarrow> bool" where
  "file_guard h policy u call =
     (case call of
        OpFread fd _ _ \<Rightarrow> vouched h policy st_isFile u fd
      | OpChmod fd _ \<Rightarrow> vouched h policy st_isFile u fd
      | OpWrite fd _ \<Rightarrow> vouched h policy st_isFile u fd
      | OpOpen p flags _ \<Rightarrow>
          if O_CREAT \<in> set flags
          then O_EXCL \<in> set flags \<and> (\<exists>dir name. vouched h policy st_isDirectory u dir \<and> p = posix_join [fd_path dir, name])
          else isPathAllowed policy p
      | OpRename p q \<Rightarrow>
          (\<exists>dir leaf content. vouched h policy st_isDirectory u dir \<and> plain_leaf leaf \<and>
             q = posix_join [fd_path dir, leaf] \<and> filled h content u)
      | OpUnlink p \<Rightarrow> (\<exists>flags mode. OpOpen p flags mode \<in> set u \<and> O_EXCL \<in> set flags)
      | OpAccess _ \<Rightarrow> False
      | OpSpawn _ _ _ _ \<Rightarrow> False
      | _ \<Rightarrow> True)"

lemma file_guard_simps [simp]:
  "file_guard h policy u (OpRealpath p)" "file_guard h policy u (OpFstat fd)" "file_guard h policy u (OpStat p)"
  "file_guard h policy u (OpClose fd)" "file_guard h policy u (OpSync fd)"
  "file_guard h policy u (OpFread fd len pos) = vouched h policy st_isFile u fd"
  "file_guard h policy u (OpChmod fd mode) = vouched h policy st_isFile u fd"
  "file_guard h policy u (OpWrite fd content) = vouched h policy st_isFile u fd"
  by (simp_all add: file_guard_def)

lemma opens_file_guard: "opens policy u call \<Longrightarrow> file_guard h policy u call"
  by (cases call) (auto simp: opens_def looks_def file_guard_def)

lemma looks_file_guard: "looks u call \<Longrightarrow> file_guard h policy u call"
  by (blast intro: opens_file_guard looks_opens)

text \<open>An operation on an open file that only reads that file.\<close>

definition reads_only :: "nat \<Rightarrow> (failure, 'a) io \<Rightarrow> bool" where
  "reads_only fd m \<longleftrightarrow>
     keeps (\<lambda>_ call. (\<exists>len pos. call = OpFread fd len pos) \<or> call = OpFstat fd) m"

lemma reads_only_guarded:
  assumes "reads_only fd m" and "vouched h policy st_isFile t fd"
  shows "guarded (file_guard h policy) t (snd (m t))"
proof -
  have "guarded (\<lambda>_ call. (\<exists>len pos. call = OpFread fd len pos) \<or> call = OpFstat fd) t (snd (m t))"
    using assms(1) by (simp add: reads_only_def keeps_def)
  then have "guarded (file_guard h policy) t (snd (m t)) \<and> vouched h policy st_isFile (snd (m t)) fd"
  proof (induction rule: guarded.induct)
    case (guarded_call u call)
    then have "file_guard h policy u call" by auto
    with guarded_call show ?case by (blast intro: guarded.guarded_call vouched_later)
  qed (simp add: assms(2))
  then show ?thesis ..
qed

lemma withAuthorizedRead_wp:
  assumes "h_platform h = ''linux''" and "\<And>fd. reads_only fd (operation fd)"
  shows "wp (withAuthorizedRead h policy p denialMessage operationMessage operation)
     (\<lambda>_ t'. guarded (file_guard h policy) t t' \<and> isPathAllowed policy p)
     (\<lambda>e t'. guarded (file_guard h policy) t t' \<and> e \<in> {policyDenied denialMessage, operationFailed operationMessage}) t"
  unfolding withAuthorizedRead_def io_wp
proof (rule wp_mono [OF openExistingFile_wp [OF assms(1)]], simp, goal_cases)
  case (1 fd u)
  then have g: "guarded (file_guard h policy) t u" by (blast intro: guarded_mono opens_file_guard)
  obtain r v where o: "operation fd u = (r, v)" by (cases "operation fd u")
  from reads_only_guarded [OF assms(2), of h policy u fd] 1 o have "guarded (file_guard h policy) u v" by simp
  with g have gv: "guarded (file_guard h policy) t v" by (blast intro: guarded_trans)
  then have gc: "guarded (file_guard h policy) t (v @ [OpClose fd])" by (simp add: guarded_call)
  show ?case
  proof (cases r)
    case (Inl e)
    have "wp (closeQuietly h (Some fd)) (\<lambda>_ t'. guarded (file_guard h policy) t t' \<and>
        operationFailed operationMessage \<in> {policyDenied denialMessage, operationFailed operationMessage})
        (\<lambda>_ t'. guarded (file_guard h policy) t t' \<and>
        operationFailed operationMessage \<in> {policyDenied denialMessage, operationFailed operationMessage}) v"
      using gc gv by (intro closeQuietly_wp) auto
    then show ?thesis by (simp add: wp_def [of "operation fd"] o Inl)
  next
    case (Inr x)
    have "wp (closeQuietly h (Some fd)) (\<lambda>_ t'. guarded (file_guard h policy) t t' \<and> isPathAllowed policy p)
        (\<lambda>_ t'. guarded (file_guard h policy) t t' \<and> isPathAllowed policy p) v"
      using gc gv 1 by (intro closeQuietly_wp) auto
    then show ?thesis by (simp add: wp_def [of "operation fd"] o Inr)
  qed
next
  case (2 e u)
  then show ?case by (blast intro: guarded_mono opens_file_guard)
qed

subsection \<open>Writes replace a file as a whole or leave it alone\<close>

definition created :: "history \<Rightarrow> history \<Rightarrow> string \<Rightarrow> bool" where
  "created t u p \<longleftrightarrow> (\<exists>calls flags mode. u = t @ calls \<and> OpOpen p flags mode \<in> set calls \<and> O_CREAT \<in> set flags)"

definition moved :: "host \<Rightarrow> history \<Rightarrow> history \<Rightarrow> string \<Rightarrow> bool" where
  "moved h t u p \<longleftrightarrow>
     (\<exists>before q after. u = before @ OpRename p q # after \<and> length t \<le> length before \<and>
        h_done h before (OpRename p q) = None)"

definition removed :: "history \<Rightarrow> history \<Rightarrow> string \<Rightarrow> bool" where
  "removed t u p \<longleftrightarrow> OpUnlink p \<in> set (drop (length t) u)"

text \<open>Every temporary file has been put in place or removed (or its removal was tried).\<close>

definition tidy :: "host \<Rightarrow> history \<Rightarrow> history \<Rightarrow> bool" where
  "tidy h t u \<longleftrightarrow> (\<forall>p. created t u p \<longrightarrow> moved h t u p \<or> removed t u p)"

text \<open>A temporary file with the whole content was put in the place of the target.\<close>

definition installed :: "host \<Rightarrow> string \<Rightarrow> history \<Rightarrow> history \<Rightarrow> bool" where
  "installed h content t u \<longleftrightarrow>
     (\<exists>before p q after. u = before @ OpRename p q # after \<and> length t \<le> length before \<and>
        h_done h before (OpRename p q) = None \<and> filled h content before)"

text \<open>What the host has answered: the real path of a path, and the handle of an opened path.\<close>

definition resolved_as :: "host \<Rightarrow> history \<Rightarrow> string \<Rightarrow> string \<Rightarrow> bool" where
  "resolved_as h u p real \<longleftrightarrow> (\<exists>before after. u = before @ OpRealpath p # after \<and> h_realpath h before p = Inr real)"

definition opened_as :: "host \<Rightarrow> history \<Rightarrow> string \<Rightarrow> nat \<Rightarrow> bool" where
  "opened_as h u p fd \<longleftrightarrow> (\<exists>before flags mode after. u = before @ OpOpen p flags mode # after \<and> h_open h before p = Inr fd)"

lemma answered_later:
  "resolved_as h u p real \<Longrightarrow> resolved_as h (u @ v) p real" "opened_as h u p fd \<Longrightarrow> opened_as h (u @ v) p fd"
  unfolding resolved_as_def opened_as_def by fastforce+

lemma opened_guarded: "opened_as h u p fd \<Longrightarrow> guarded ok u v \<Longrightarrow> opened_as h v p fd"
  using guarded_extends answered_later(2) by blast

text \<open>
  What a path asked for stands for: the real path the host answers for it, or the path itself when it
  does not exist (then, or when its file is looked at a moment later).
\<close>

definition missing_error :: "string \<Rightarrow> bool" where
  "missing_error e \<longleftrightarrow> errorCode (OsError e) = ''ENOENT''"

definition stands_for :: "host \<Rightarrow> history \<Rightarrow> string \<Rightarrow> history \<Rightarrow> string \<Rightarrow> bool" where
  "stands_for h t p u target \<longleftrightarrow>
     (case h_realpath h t p of
        Inl e \<Rightarrow> missing_error e \<and> target = p
      | Inr actual \<Rightarrow> target = actual \<or>
          target = p \<and> (\<exists>before fd e after. u = before @ OpFstat fd # after \<and> length t \<le> length before \<and>
            h_fstat h before fd = Inl e \<and> missing_error e))"

lemma stands_later: "stands_for h t p u target \<Longrightarrow> stands_for h t p (u @ v) target"
  unfolding stands_for_def by (fastforce split: sum.splits)

text \<open>
  Where a file may be put in place, for a path asked for: under the last segment of what the path
  stands for, in the allowed real directory of that, opened and vouched for; and what is put there is the file whose handle the whole content has just
  been written to.
\<close>

definition puts_in_place ::
    "host \<Rightarrow> agent_policy \<Rightarrow> history \<Rightarrow> string \<Rightarrow> string \<Rightarrow> history \<Rightarrow> string \<Rightarrow> string \<Rightarrow> bool" where
  "puts_in_place h policy t p content u tmp q \<longleftrightarrow>
     (\<exists>fd. opened_as h u tmp fd \<and> filled_at h content fd u) \<and>
     (\<exists>target actual dir. stands_for h t p u target \<and> resolved_as h u (posix_dirname target) actual \<and> isPathAllowed policy actual \<and>
        opened_as h u actual dir \<and> vouched h policy st_isDirectory u dir \<and> q = posix_join [fd_path dir, posix_basename target])"

text \<open>The calls of a write: those of the file functions, with a condition on where a file is put in place.\<close>

definition write_guard :: "host \<Rightarrow> agent_policy \<Rightarrow> (history \<Rightarrow> string \<Rightarrow> string \<Rightarrow> bool) \<Rightarrow> history \<Rightarrow> host_op \<Rightarrow> bool" where
  "write_guard h policy R u c \<longleftrightarrow> file_guard h policy u c \<and> (\<forall>p q. c = OpRename p q \<longrightarrow> R u p q)"

lemma opens_write_guard: "opens policy u c \<Longrightarrow> write_guard h policy R u c"
  using opens_file_guard by (auto simp: write_guard_def opens_def looks_def)

lemma write_guard_simps [simp]: "write_guard h policy R u (OpSync fd)" "write_guard h policy R u (OpClose fd)"
  by (simp_all add: write_guard_def)

lemma moved_later: "moved h t u p \<Longrightarrow> moved h t (u @ v) p"
  unfolding moved_def by fastforce

lemma installed_later: "installed h content t u \<Longrightarrow> installed h content t (u @ v)"
  unfolding installed_def by fastforce

lemma created_snoc [simp]:
  "t' = t @ calls \<Longrightarrow> created t (t' @ [c]) p \<longleftrightarrow>
     created t t' p \<or> (\<exists>flags mode. c = OpOpen p flags mode \<and> O_CREAT \<in> set flags)"
  unfolding created_def by auto

text \<open>Calls that create nothing.\<close>

definition creates :: "host_op \<Rightarrow> bool" where
  "creates c \<longleftrightarrow> (\<exists>p flags mode. c = OpOpen p flags mode \<and> O_CREAT \<in> set flags)"

lemma created_guarded:
  "guarded ok u v \<Longrightarrow> (\<And>w c. ok w c \<Longrightarrow> \<not> creates c) \<Longrightarrow> u = t @ calls \<Longrightarrow> created t v p \<longleftrightarrow> created t u p"
proof (induction rule: guarded.induct)
  case (guarded_call v c)
  from guarded_extends [OF guarded_call.hyps(1)] guarded_call.prems(2) obtain cs where "v = t @ cs" by auto
  moreover have "\<not> creates c" using guarded_call.prems(1) guarded_call.hyps(2) by blast
  ultimately have "created t (v @ [c]) p \<longleftrightarrow> created t v p"
    using created_snoc [of v t cs c p] by (auto simp: creates_def)
  with guarded_call.IH [OF guarded_call.prems(1,2)] show ?case by simp
qed simp

lemma opens_creates: "opens policy u c \<Longrightarrow> \<not> creates c"
  by (auto simp: opens_def looks_def creates_def split: host_op.splits)

lemma created_none: "guarded (opens policy) t u \<Longrightarrow> \<not> created t u p"
  using created_guarded [of "opens policy" t u t "[]" p] opens_creates by (auto simp: created_def)

subsubsection \<open>The stages\<close>

lemma wp_staging [io_wp]: "wp (staging s m) Q E = wp m Q (\<lambda>e. E (e, s))"
  by (simp add: staging_def io_wp)

lemma wp_do_call [io_wp]:
  "wp (do_call h c) Q E = (\<lambda>t. case h_done h t c of None \<Rightarrow> Q () (t @ [c]) | Some e \<Rightarrow> E (OsError e) (t @ [c]))"
  by (simp add: fun_eq_iff do_call_def io_wp split: option.splits)

definition fills :: "host \<Rightarrow> agent_policy \<Rightarrow> history \<Rightarrow> host_op \<Rightarrow> bool" where
  "fills h policy u c \<longleftrightarrow>
     looks u c \<or> (\<exists>fd. vouched h policy st_isFile u fd \<and> (\<exists>x. c = OpChmod fd x \<or> (\<exists>y. c = OpWrite fd y))) \<or> (\<exists>fd. c = OpSync fd)"

lemma fills_creates: "fills h policy u c \<Longrightarrow> \<not> creates c"
  by (auto simp: fills_def looks_def creates_def split: host_op.splits)

lemma created_fills: "guarded (fills h policy) (t @ cs) w \<Longrightarrow> created t w p \<longleftrightarrow> created t (t @ cs) p"
  by (erule created_guarded) (auto dest: fills_creates)

lemma fills_write_guard: "fills h policy u c \<Longrightarrow> write_guard h policy R u c"
  by (auto simp: fills_def looks_file_guard write_guard_def looks_def)

lemma fill_temporary_wp:
  assumes "h_platform h = ''linux''"
  shows "wp (fill_temporary h policy fd expectedPath content mode message)
     (\<lambda>_ u. guarded (fills h policy) t u \<and> filled_at h content fd u)
     (\<lambda>e u. guarded (fills h policy) t u) t"
  unfolding fill_temporary_def io_wp
proof (rule wp_mono [OF verifyOpenedHandle_wp [OF assms]], goal_cases)
  case (1 p u)
  then have g: "guarded (fills h policy) t u" and v: "vouched h policy st_isFile u fd"
    by (auto intro: guarded_mono simp: fills_def)
  have "guarded (fills h policy) t (u @ [OpChmod fd mode])"
    using guarded_call [OF g] v by (simp add: fills_def)
  moreover from guarded_call [OF this, of "OpWrite fd content"] vouched_later [OF v]
  have "guarded (fills h policy) t (u @ [OpChmod fd mode, OpWrite fd content])" by (simp add: fills_def)
  moreover from guarded_call [OF this, of "OpSync fd"]
  have "guarded (fills h policy) t (u @ [OpChmod fd mode, OpWrite fd content, OpSync fd])" by (simp add: fills_def)
  moreover from guarded_call [OF this, of "OpClose fd"]
  have "guarded (fills h policy) t (u @ [OpChmod fd mode, OpWrite fd content, OpSync fd, OpClose fd])"
    by (simp add: fills_def)
  moreover have "filled_at h content fd (u @ [OpChmod fd mode, OpWrite fd content, OpSync fd, OpClose fd])"
    if "h_done h (u @ [OpChmod fd mode]) (OpWrite fd content) = None"
      "h_done h (u @ [OpChmod fd mode, OpWrite fd content]) (OpSync fd) = None"
      "h_done h (u @ [OpChmod fd mode, OpWrite fd content, OpSync fd]) (OpClose fd) = None"
    unfolding filled_at_def using that by (intro exI [of _ "u @ [OpChmod fd mode]"]) simp
  ultimately show ?case by (auto split: option.splits)
next
  case (2 e u)
  then show ?case by (auto intro: guarded_mono simp: fills_def)
qed

lemma open_parent_wp:
  assumes "h_platform h = ''linux''" and "isPathAllowed policy dir"
  shows "wp (open_parent h policy dir message)
     (\<lambda>parent u. guarded (opens policy) t u \<and> (\<exists>fd. parent = Some fd \<and> vouched h policy st_isDirectory u fd \<and> opened_as h u dir fd))
     (\<lambda>(e, s) u. guarded (opens policy) t u \<and> sg_temporary s = None \<and> sg_temporaryPath s = None) t"
proof -
  have o: "opens policy t (OpOpen dir (O_RDONLY # directory_only h @ no_follow h) None)"
    using assms(2) by (simp add: opens_def directory_only_def no_follow_def)
  then have g: "guarded (opens policy) t (t @ [OpOpen dir (O_RDONLY # directory_only h @ no_follow h) None])" by simp
  have v: "wp (verifyOpenedHandle h policy fd dir st_isDirectory message)
     (\<lambda>_ u. guarded (opens policy) t u \<and> vouched h policy st_isDirectory u fd \<and> opened_as h u dir fd)
     (\<lambda>e u. guarded (opens policy) t u) (t @ [OpOpen dir (O_RDONLY # directory_only h @ no_follow h) None])"
    if "h_open h t dir = Inr fd" for fd
  proof (rule wp_mono [OF verifyOpenedHandle_wp [OF assms(1)]], goal_cases)
    case (1 x u)
    have "opened_as h (t @ [OpOpen dir (O_RDONLY # directory_only h @ no_follow h) None]) dir fd"
      unfolding opened_as_def using that by fastforce
    with 1 have "opened_as h u dir fd" by (blast intro: opened_guarded)
    with 1 show ?case by (blast intro: guarded_trans [OF _ g] guarded_mono looks_opens)
  qed (blast intro: guarded_trans [OF _ g] guarded_mono looks_opens)
  show ?thesis
    unfolding open_parent_def using assms(1) g v
    by (auto simp: Let_def io_wp do_open_def split: sum.splits elim!: wp_mono)
qed

text \<open>What holds when the writing of the temporary file failed with the variables \<open>s\<close>.\<close>

definition pending_cleanup :: "host \<Rightarrow> history \<Rightarrow> staged \<Rightarrow> history \<Rightarrow> bool" where
  "pending_cleanup h t s u \<longleftrightarrow>
     (\<forall>p. created t u p \<longrightarrow> sg_temporaryPath s = Some p \<or> moved h t u p) \<and>
     (\<forall>p. sg_temporaryPath s = Some p \<longrightarrow> (\<exists>flags mode. OpOpen p flags mode \<in> set u \<and> O_EXCL \<in> set flags))"

definition placed :: "host \<Rightarrow> string \<Rightarrow> history \<Rightarrow> history \<Rightarrow> bool" where
  "placed h content t u \<longleftrightarrow> (\<forall>p. created t u p \<longrightarrow> moved h t u p) \<and> installed h content t u"

lemma write_staged_wp:
  assumes "h_platform h = ''linux''" and "isPathAllowed policy dir" and "plain_leaf leaf"
    and R: "\<And>w fd tmp x. (\<exists>calls. w = t @ calls) \<Longrightarrow> opened_as h w dir fd \<Longrightarrow> vouched h policy st_isDirectory w fd \<Longrightarrow>
      opened_as h w tmp x \<Longrightarrow> filled_at h content x w \<Longrightarrow> R w tmp (posix_join [fd_path fd, leaf])"
  shows "wp (write_staged h policy dir leaf content mode message)
     (\<lambda>_ u. guarded (write_guard h policy R) t u \<and> placed h content t u)
     (\<lambda>(e, s) u. guarded (write_guard h policy R) t u \<and> pending_cleanup h t s u) t"
  unfolding write_staged_def wp_bind
proof (rule wp_mono [OF open_parent_wp [OF assms(1,2)]], goal_cases)
  case (1 parent u)
  then obtain fd where fd: "parent = Some fd" "vouched h policy st_isDirectory u fd" "opened_as h u dir fd" by blast
  define tmp where "tmp = posix_join [fd_path fd, ''.'' @ leaf @ ''.'' @ h_uuid h u @ ''.tmp'']"
  define c1 where "c1 = OpOpen tmp ([O_WRONLY, O_CREAT, O_EXCL] @ no_follow h) (Some mode)"
  have gu: "guarded (write_guard h policy R) t u" using 1 by (blast intro: guarded_mono opens_write_guard)
  from guarded_extends [OF gu] obtain calls where u: "u = t @ calls" by blast
  have "write_guard h policy R u c1" using fd(2) by (auto simp: write_guard_def file_guard_def c1_def tmp_def)
  then have g1: "guarded (write_guard h policy R) t (u @ [c1])" by (rule guarded_call [OF gu])
  have c: "created t (u @ [c1]) p \<longleftrightarrow> p = tmp" for p
    using created_none [of policy t u p] 1 created_snoc [OF u, of c1 p] by (auto simp: c1_def)
  have pend: "pending_cleanup h t s w" if "\<And>p. created t w p \<Longrightarrow> p = tmp" "sg_temporaryPath s = Some tmp" "c1 \<in> set w" for s w
    using that unfolding pending_cleanup_def c1_def by (auto intro!: exI)
  note first = g1 pend [of "u @ [c1]", simplified c, simplified]
  have fill: "wp (fill_temporary h policy x (posix_join [dir, posix_basename tmp]) content mode message)
      (\<lambda>_ w. guarded (write_guard h policy R) t w \<and> filled_at h content x w \<and> opened_as h w tmp x \<and> (\<forall>p. created t w p \<longleftrightarrow> p = tmp) \<and> c1 \<in> set w \<and>
         vouched h policy st_isDirectory w fd \<and> opened_as h w dir fd)
      (\<lambda>e w. guarded (write_guard h policy R) t w \<and> (\<forall>p. created t w p \<longleftrightarrow> p = tmp) \<and> c1 \<in> set w) (u @ [c1])" if x: "h_open h u tmp = Inr x" for x
  proof (rule wp_mono [OF fill_temporary_wp [OF assms(1)]], goal_cases)
    case (1 y w)
    then have f: "guarded (fills h policy) (u @ [c1]) w" by simp
    from guarded_extends [OF f] obtain ds where w: "w = u @ c1 # ds" by auto
    have "created t w p \<longleftrightarrow> p = tmp" for p
      using created_fills [of h policy t "calls @ [c1]" w p] f c u by simp
    moreover have "guarded (write_guard h policy R) t w"
      by (rule guarded_trans [OF guarded_mono [OF f fills_write_guard] g1])
    moreover have "opened_as h w tmp x" unfolding w opened_as_def c1_def using x by blast
    ultimately show ?case using 1 w vouched_later [OF fd(2)] answered_later(2) [OF fd(3)] by simp
  next
    case (2 e w)
    from guarded_extends [OF 2] obtain ds where w: "w = u @ c1 # ds" by auto
    have "created t w p \<longleftrightarrow> p = tmp" for p
      using created_fills [of h policy t "calls @ [c1]" w p] 2 c u by simp
    moreover have "guarded (write_guard h policy R) t w"
      by (rule guarded_trans [OF guarded_mono [OF 2 fills_write_guard] g1])
    ultimately show ?case using w by simp
  qed
  have finish: "wp (staging s1 (do_call h (OpRename tmp (posix_join [fd_path fd, leaf]))))
      (\<lambda>_. wp (staging s2 (do_call h (OpSync fd)))
         (\<lambda>_ u. guarded (write_guard h policy R) t u \<and> placed h content t u)
         (\<lambda>(e, s) u. guarded (write_guard h policy R) t u \<and> pending_cleanup h t s u))
      (\<lambda>(e, s) u. guarded (write_guard h policy R) t u \<and> pending_cleanup h t s u) w"
    if w: "guarded (write_guard h policy R) t w" "filled_at h content x w" "\<forall>p. created t w p \<longleftrightarrow> p = tmp" "c1 \<in> set w"
      "vouched h policy st_isDirectory w fd" "opened_as h w dir fd" "opened_as h w tmp x" and s: "sg_temporaryPath s1 = Some tmp" "sg_temporaryPath s2 = None"
    for w s1 s2 x
  proof -
    let ?r = "OpRename tmp (posix_join [fd_path fd, leaf])"
    from guarded_extends [OF w(1)] obtain ds where e: "w = t @ ds" by blast
    have "write_guard h policy R w ?r"
      using w(2,5) assms(3) R [OF _ w(6,5,7,2)] e by (auto simp: file_guard_def write_guard_def filled_def)
    from guarded_call [OF w(1) this] have gr: "guarded (write_guard h policy R) t (w @ [?r])" .
    then have gs: "guarded (write_guard h policy R) t (w @ [?r, OpSync fd])"
      using guarded_call [OF gr, of "OpSync fd"] by simp
    have cr: "created t (w @ [?r]) p \<longleftrightarrow> p = tmp" for p using created_snoc [OF e, of ?r p] w(3) by simp
    have cs: "created t (w @ [?r, OpSync fd]) p \<longleftrightarrow> p = tmp" for p
      using created_snoc [of "w @ [?r]" t "ds @ [?r]" "OpSync fd" p] e cr by simp
    have bad: "pending_cleanup h t s1 (w @ [?r])" using cr w(4) s(1) by (intro pend) auto
    have "placed h content t (w @ [?r, OpSync fd]) \<and> pending_cleanup h t s2 (w @ [?r, OpSync fd])" if "h_done h w ?r = None"
    proof -
      have "moved h t (w @ [?r, OpSync fd]) tmp" "installed h content t (w @ [?r, OpSync fd])"
        unfolding moved_def installed_def filled_def using that e w(2) by fastforce+
      then show ?thesis using cs s(2) by (simp add: placed_def pending_cleanup_def)
    qed
    then show ?thesis using gr gs bad by (auto simp: io_wp split: option.splits)
  qed
  show ?case
    unfolding fd(1) option.case Let_def io_wp tmp_def [symmetric]
  proof (cases "h_open h u tmp", goal_cases)
    case (1 e)
    then show ?case using first by (simp add: io_wp do_open_def c1_def)
  next
    case (2 x)
    have c1: "OpOpen tmp (O_WRONLY # O_CREAT # O_EXCL # no_follow h) (Some mode) = c1" by (simp add: c1_def)
    have "wp (fill_temporary h policy x (posix_join [dir, posix_basename tmp]) content mode message)
      (\<lambda>_. wp (staging s1 (do_call h (OpRename tmp (posix_join [fd_path fd, leaf]))))
        (\<lambda>_. wp (staging s2 (do_call h (OpSync fd)))
           (\<lambda>_ u. guarded (write_guard h policy R) t u \<and> placed h content t u)
           (\<lambda>(e, s) u. guarded (write_guard h policy R) t u \<and> pending_cleanup h t s u))
        (\<lambda>(e, s) u. guarded (write_guard h policy R) t u \<and> pending_cleanup h t s u))
      (\<lambda>e u. guarded (write_guard h policy R) t u \<and> pending_cleanup h t s3 u) (u @ [c1])"
      if "sg_temporaryPath s1 = Some tmp" "sg_temporaryPath s2 = None" "sg_temporaryPath s3 = Some tmp" for s1 s2 s3
      by (rule wp_mono [OF fill [OF 2]]) (use that in \<open>blast intro: finish pend\<close>)+
    with 2 show ?case unfolding do_open_def io_wp append.simps c1 by simp
  qed
next
  case (2 es u)
  then show ?case
    by (auto simp: pending_cleanup_def created_none split: prod.splits intro: guarded_mono opens_write_guard)
qed

text \<open>An error that stops the writing is the given denial, or has another code.\<close>

definition denial :: "string \<Rightarrow> failure \<Rightarrow> bool" where
  "denial message e \<longleftrightarrow> (errorCode e = ''POLICY_DENIED'' \<longrightarrow> e = policyDenied message)"

lemma denial_simps [simp]: "denial message (OsError s)" "denial message (policyDenied message)"
  by (simp_all add: denial_def)

lemma verify_errors:
  "wp (verifyOpenedHandle h policy fd expectedPath kind message) (\<lambda>_ _. True) (\<lambda>e _. denial message e) t"
  by (auto simp: verifyOpenedHandle_def openedCanonicalPath_def checked_def io_wp do_realpath_def do_fstat_def do_stat_def
      split: sum.splits)

lemma write_staged_errors:
  "wp (write_staged h policy dir leaf content mode message) (\<lambda>_ _. True) (\<lambda>(e, _) _. denial message e) t"
proof -
  have fill: "wp (fill_temporary h policy fd p content mode message) (\<lambda>_ _. True) (\<lambda>e _. denial message e) u" for fd p u
    unfolding fill_temporary_def io_wp
    by (rule wp_mono [OF verify_errors]) (simp_all split: option.splits)
  have parent: "wp (open_parent h policy dir message) (\<lambda>_ _. True) (\<lambda>(e, _) _. denial message e) u" for u
    unfolding open_parent_def Let_def io_wp
    by (auto simp: do_open_def io_wp split: sum.splits intro: wp_mono [OF verify_errors])
  show ?thesis
    unfolding write_staged_def io_wp
    by (rule wp_mono [OF parent])
      (auto simp: do_open_def Let_def io_wp split: sum.splits option.splits intro!: wp_mono [OF fill])
qed

lemma write_cleanup_wp:
  assumes "guarded (write_guard h policy R) t u" and "pending_cleanup h t s u"
  shows "wp (write_cleanup h s) (\<lambda>_ v. guarded (write_guard h policy R) t v \<and> tidy h t v \<and> (\<exists>w. v = u @ w)) E u"
proof -
  from guarded_extends [OF assms(1)] obtain cs where u: "u = t @ cs" by blast
  have quiet: "guarded (write_guard h policy R) t (w @ v)" "created t (w @ v) p \<longleftrightarrow> created t w p"
    if "guarded (write_guard h policy R) t w" "v = [] \<or> (\<exists>fd. v = [OpClose fd])" for w v p
  proof -
    from guarded_extends [OF that(1)] obtain ds where w: "w = t @ ds" by blast
    have "guarded (write_guard h policy R) t (w @ [OpClose fd])" "created t (w @ [OpClose fd]) p \<longleftrightarrow> created t w p" for fd
      using guarded_call [OF that(1), of "OpClose fd"] created_snoc [OF w, of "OpClose fd" p] by simp_all
    with that show "guarded (write_guard h policy R) t (w @ v)" "created t (w @ v) p \<longleftrightarrow> created t w p" by auto
  qed
  show ?thesis
    unfolding write_cleanup_def io_wp
  proof (rule closeQuietly_wp)
    fix v assume v: "v = u \<or> (\<exists>fd. sg_temporary s = Some fd \<and> v = u @ [OpClose fd])"
    then obtain v' where v': "v = u @ v'" "v' = [] \<or> (\<exists>fd. v' = [OpClose fd])" by auto
    note q = quiet [OF assms(1) v'(2), folded v'(1)]
    show "wp (case sg_temporaryPath s of None \<Rightarrow> io_ret () | Some p \<Rightarrow> io_catch (do_call h (OpUnlink p)) (\<lambda>_. io_ret ()))
        (\<lambda>x. wp (closeQuietly h (sg_parent s)) (\<lambda>_ v. guarded (write_guard h policy R) t v \<and> tidy h t v \<and> (\<exists>w. v = u @ w)) E) E v"
    proof (cases "sg_temporaryPath s")
      case None
      have m: "moved h t (v @ w) p" if "created t u p" for w p
        using that assms(2) None v'(1) moved_later by (auto simp: pending_cleanup_def)
      show ?thesis unfolding None option.case io_wp
      proof (rule closeQuietly_wp)
        fix x assume "x = v \<or> (\<exists>fd. sg_parent s = Some fd \<and> x = v @ [OpClose fd])"
        then obtain x' where x': "x = v @ x'" "x' = [] \<or> (\<exists>fd. x' = [OpClose fd])" by auto
        from quiet [OF q(1) x'(2)] q(2) m v'(1) x'(1)
        show "guarded (write_guard h policy R) t x \<and> tidy h t x \<and> (\<exists>w. x = u @ w)" by (auto simp: tidy_def)
      qed
    next
      case (Some p)
      let ?w = "v @ [OpUnlink p]"
      have "write_guard h policy R v (OpUnlink p)"
        using assms(2) Some v'(1) by (fastforce simp: pending_cleanup_def file_guard_def write_guard_def)
      from guarded_call [OF q(1) this] have g: "guarded (write_guard h policy R) t ?w" .
      have c: "created t ?w x \<longleftrightarrow> created t u x" for x
        using created_snoc [of v t "cs @ v'" "OpUnlink p" x] q(2) v'(1) u by simp
      have d: "moved h t (?w @ y) x \<or> removed t (?w @ y) x" if "created t u x" for x y
      proof (cases "x = p")
        case True
        then show ?thesis using v'(1) u by (simp add: removed_def)
      next
        case False
        then have "moved h t u x" using that assms(2) Some by (auto simp: pending_cleanup_def)
        from moved_later [OF this, of "v' @ [OpUnlink p] @ y"] show ?thesis using v'(1) by simp
      qed
      have "wp (closeQuietly h (sg_parent s)) (\<lambda>_ v. guarded (write_guard h policy R) t v \<and> tidy h t v \<and> (\<exists>w. v = u @ w)) E ?w"
      proof (rule closeQuietly_wp)
        fix x assume "x = ?w \<or> (\<exists>fd. sg_parent s = Some fd \<and> x = ?w @ [OpClose fd])"
        then obtain x' where x': "x = ?w @ x'" "x' = [] \<or> (\<exists>fd. x' = [OpClose fd])" by auto
        from quiet [OF g x'(2)] c d [of _ x'] v'(1) x'(1)
        show "guarded (write_guard h policy R) t x \<and> tidy h t x \<and> (\<exists>w. x = u @ w)" by (auto simp: tidy_def)
      qed
      then show ?thesis unfolding Some option.case io_wp by (simp split: option.splits)
    qed
  qed
qed

lemma openCanonicalParent_wp:
  "wp (openCanonicalParent h policy p message)
     (\<lambda>(dir, leaf) u. guarded (opens policy) t u \<and> isPathAllowed policy dir \<and> plain_leaf leaf \<and>
        leaf = posix_basename p \<and> resolved_as h u (posix_dirname p) dir)
     (\<lambda>e u. guarded (opens policy) t u \<and> e = policyDenied message) t"
proof -
  have "SLASH \<notin> set (posix_basename p)" by (auto simp: posix_basename_def dest: set_takeWhileD)
  then show ?thesis
    unfolding openCanonicalParent_def assertRequestedPath_def
    by (auto simp: io_wp Let_def plain_leaf_def opens_def resolved_as_def intro!: wp_mono [OF canonical_allowed_wp])
qed

lemma write_target_wp:
  assumes "h_platform h = ''linux''"
  shows "wp (write_target h policy p message)
     (\<lambda>(target, _) u. guarded (opens policy) t u \<and> stands_for h t p u target)
     (\<lambda>e u. guarded (opens policy) t u \<and> e = policyDenied message) t"
proof -
  let ?E = "\<lambda>e u. if errorCode e = ''ENOENT'' then guarded (opens policy) t u \<and> stands_for h t p u p
     else guarded (opens policy) t u \<and> as_denied message e = policyDenied message"
  have start: "guarded (opens policy) t (t @ [OpRealpath p])" by (simp add: opens_def)
  have stat: "guarded (opens policy) t (u @ [OpFstat fd]) \<and> guarded (opens policy) t (u @ [OpFstat fd, OpClose fd])"
    if "guarded (opens policy) t u" for u fd
    using guarded_call [OF that, of "OpFstat fd"] guarded_call [of _ t "u @ [OpFstat fd]" "OpClose fd"]
    by (simp add: opens_def)
  have body: "wp (openExistingFile h policy p O_WRONLY message)
     (\<lambda>x. wp (do_fstat h x)
        (\<lambda>y. wp (closeQuietly h (Some x)) (\<lambda>_ u. guarded (opens policy) t u \<and> stands_for h t p u real)
           (\<lambda>(_ :: failure) u. guarded (opens policy) t u \<and> stands_for h t p u real))
        (\<lambda>e. wp (closeQuietly h (Some x)) (\<lambda>_. ?E e) (\<lambda>(_ :: failure). ?E e))) ?E (t @ [OpRealpath p])"
    if real: "h_realpath h t p = Inr real" for real
  proof (rule wp_mono [OF openExistingFile_wp [OF assms]], simp, goal_cases)
    case (1 fd u)
    then have gu: "guarded (opens policy) t u" using start by (blast intro: guarded_trans)
    note g = stat [OF gu, of fd]
    have s: "stands_for h t p v real" for v using real by (simp add: stands_for_def)
    have m: "stands_for h t p (u @ OpFstat fd # ws) p"
      if "h_fstat h u fd = Inl x" "errorCode (OsError x) = ''ENOENT''" for ws x
    proof -
      from guarded_extends [OF gu] obtain cs where "u = t @ cs" by blast
      then have "\<exists>before fd' e after. u @ OpFstat fd # ws = before @ OpFstat fd' # after \<and> length t \<le> length before \<and>
          h_fstat h before fd' = Inl e \<and> missing_error e"
        using that by (intro exI [of _ u] exI [of _ fd] exI [of _ x] exI [of _ ws]) (simp add: missing_error_def)
      then show ?thesis using real by (simp add: stands_for_def)
    qed
    have "wp (closeQuietly h (Some fd)) (\<lambda>_ v. guarded (opens policy) t v \<and> stands_for h t p v real)
        (\<lambda>(_ :: failure) v. guarded (opens policy) t v \<and> stands_for h t p v real) (u @ [OpFstat fd])"
      using g s by (intro closeQuietly_wp) auto
    moreover have "wp (closeQuietly h (Some fd)) (\<lambda>_. ?E (OsError x)) (\<lambda>(_ :: failure). ?E (OsError x)) (u @ [OpFstat fd])"
      if "h_fstat h u fd = Inl x" for x
      using g m [OF that] by (intro closeQuietly_wp) auto
    ultimately show ?case unfolding do_fstat_def io_wp by (simp split: sum.splits split del: if_split)
  next
    case (2 e u)
    then have "guarded (opens policy) t u" using start by (blast intro: guarded_trans)
    with 2 show ?case by simp
  qed
  have if_wp: "wp (if b then io_ret x else io_throw (as_denied message e))
      (\<lambda>(target, _) u. guarded (opens policy) t u \<and> stands_for h t p u target)
      (\<lambda>e u. guarded (opens policy) t u \<and> e = policyDenied message) u =
    (if b then guarded (opens policy) t u \<and> stands_for h t p u (fst x)
     else guarded (opens policy) t u \<and> as_denied message e = policyDenied message)"
    for b e u and x :: "string \<times> int"
    by (simp add: io_wp case_prod_unfold)
  have missing: "stands_for h t p u p" if "h_realpath h t p = Inl e" "errorCode (OsError e) = ''ENOENT''" for e u
    using that by (simp add: stands_for_def missing_error_def)
  show ?thesis
    unfolding write_target_def wp_catch wp_bind do_realpath_def wp_call if_wp wp_finally wp_ret
    using body missing start by (simp add: do_fstat_def split: sum.splits split del: if_split cong: if_cong)
qed

text \<open>The facts about a write hold from the beginning, as nothing was created before it.\<close>

lemma from_start:
  assumes "guarded (opens policy) t u" and "guarded ok u v"
  shows "placed h content u v \<Longrightarrow> placed h content t v" and "pending_cleanup h u s v \<Longrightarrow> pending_cleanup h t s v"
proof -
  from guarded_extends [OF assms(1)] guarded_extends [OF assms(2)] obtain cs ds where e: "u = t @ cs" "v = u @ ds" by blast
  have c: "created t v p \<Longrightarrow> created u v p" for p
    using created_none [OF assms(1), of p] e by (auto simp: created_def)
  have m: "moved h u v p \<Longrightarrow> moved h t v p" for p
    unfolding moved_def using e by fastforce
  have i: "installed h content u v \<Longrightarrow> installed h content t v"
    unfolding installed_def using e by fastforce
  show "placed h content u v \<Longrightarrow> placed h content t v" and "pending_cleanup h u s v \<Longrightarrow> pending_cleanup h t s v"
    using c m i by (auto simp: placed_def pending_cleanup_def)
qed

lemma writeAuthorizedFileAtomic_places:
  assumes "h_platform h = ''linux''"
  shows "wp (writeAuthorizedFileAtomic h policy p content denialMessage operationMessage)
     (\<lambda>_ u. guarded (write_guard h policy (puts_in_place h policy t p content)) t u \<and> tidy h t u \<and> installed h content t u)
     (\<lambda>e u. guarded (write_guard h policy (puts_in_place h policy t p content)) t u \<and> tidy h t u \<and>
        e \<in> {policyDenied denialMessage, operationFailed operationMessage}) t"
proof -
  let ?Q = "\<lambda>_ u. guarded (write_guard h policy (puts_in_place h policy t p content)) t u \<and> tidy h t u \<and> installed h content t u"
  let ?E = "\<lambda>e u. guarded (write_guard h policy (puts_in_place h policy t p content)) t u \<and> tidy h t u \<and> e \<in> {policyDenied denialMessage, operationFailed operationMessage}"
  let ?after = "\<lambda>(e, s). wp (write_cleanup h s)
       (\<lambda>_. ?E (if errorCode e = ''POLICY_DENIED'' then e else operationFailed operationMessage)) ?E"
  have quiet: "guarded (write_guard h policy (puts_in_place h policy t p content)) t u \<and> tidy h t u" if "guarded (opens policy) t u" for u
    using that by (auto simp: tidy_def created_none intro: guarded_mono opens_write_guard)
  have stage: "wp (write_staged h policy dir leaf content mode denialMessage)
     (\<lambda>parent. wp (write_cleanup h \<lparr> sg_parent = parent, sg_temporary = None, sg_temporaryPath = None \<rparr>) ?Q ?after) ?after u"
    if u: "guarded (opens policy) t u" and d: "isPathAllowed policy dir" "plain_leaf leaf"
      and r: "stands_for h t p u target" "resolved_as h u (posix_dirname target) dir" "leaf = posix_basename target"
    for u target dir leaf mode
  proof -
    have places: "puts_in_place h policy t p content w tmp (posix_join [fd_path fd, leaf])"
      if "\<exists>calls. w = u @ calls" "opened_as h w dir fd" "vouched h policy st_isDirectory w fd" "opened_as h w tmp x"
        "filled_at h content x w" for w fd tmp x
      using that r d(1) stands_later answered_later(1) unfolding puts_in_place_def by blast
    have staged: "wp (write_staged h policy dir leaf content mode denialMessage)
      (\<lambda>_ v. guarded (write_guard h policy (puts_in_place h policy t p content)) u v \<and> placed h content u v)
      (\<lambda>(e, s) v. guarded (write_guard h policy (puts_in_place h policy t p content)) u v \<and> pending_cleanup h u s v) u"
      by (rule write_staged_wp [OF assms d]) (rule places)
    show ?thesis
  proof (rule wp_mono [OF wp_conj [OF staged write_staged_errors]], goal_cases)
    case (1 parent v)
    then have g: "guarded (write_guard h policy (puts_in_place h policy t p content)) t v" using quiet [OF u] by (blast intro: guarded_trans)
    have p: "placed h content t v" by (rule from_start(1) [OF u]) (use 1 in blast)+
    then have c: "pending_cleanup h t \<lparr> sg_parent = parent, sg_temporary = None, sg_temporaryPath = None \<rparr> v"
      by (simp add: pending_cleanup_def placed_def)
    show ?case
      by (rule wp_mono [OF write_cleanup_wp [OF g c, where E = "\<lambda>_ _. False"]])
        (use p in \<open>auto simp: placed_def intro: installed_later\<close>)
  next
    case (2 es v)
    obtain e s where es: "es = (e, s)" by (cases es)
    with 2 have v: "guarded (write_guard h policy (puts_in_place h policy t p content)) u v" "pending_cleanup h u s v" "denial denialMessage e" by simp_all
    then have g: "guarded (write_guard h policy (puts_in_place h policy t p content)) t v" using quiet [OF u] by (blast intro: guarded_trans)
    show ?case unfolding es prod.case
      by (rule wp_mono [OF write_cleanup_wp [OF g from_start(2) [OF u v(1,2)], where E = "\<lambda>_ _. False"]])
        (use v(3) in \<open>auto simp: denial_def\<close>)
  qed
  qed
  have place: "wp (openCanonicalParent h policy target denialMessage)
     (\<lambda>(dir, leaf). wp (write_staged h policy dir leaf content mode denialMessage)
       (\<lambda>parent. wp (write_cleanup h \<lparr> sg_parent = parent, sg_temporary = None, sg_temporaryPath = None \<rparr>) ?Q ?after) ?after)
     ?E u" if u: "guarded (opens policy) t u" and r: "stands_for h t p u target" for u target mode
  proof (rule wp_mono [OF openCanonicalParent_wp], goal_cases)
    case (1 x v)
    obtain dir leaf where x: "x = (dir, leaf)" by (cases x)
    with 1 have v: "guarded (opens policy) t v" "isPathAllowed policy dir" "plain_leaf leaf"
      "resolved_as h v (posix_dirname target) dir" "leaf = posix_basename target" and g: "guarded (opens policy) u v"
      using u by (auto intro: guarded_trans)
    have s: "stands_for h t p v target" using guarded_extends [OF g] stands_later [OF r] by blast
    show ?case unfolding x prod.case by (rule stage [OF v(1-3) s v(4,5)])
  next
    case (2 e v)
    with u have "guarded (opens policy) t v" by (blast intro: guarded_trans)
    with 2 quiet show ?case by blast
  qed
  have target: "wp (write_target h policy p denialMessage)
     (\<lambda>(target, mode). wp (openCanonicalParent h policy target denialMessage)
        (\<lambda>(dir, leaf). wp (write_staged h policy dir leaf content mode denialMessage)
          (\<lambda>parent. wp (write_cleanup h \<lparr> sg_parent = parent, sg_temporary = None, sg_temporaryPath = None \<rparr>) ?Q ?after) ?after)
        ?E) ?E t"
    by (rule wp_mono [OF write_target_wp [OF assms]]) (use place quiet in \<open>auto\<close>)
  show ?thesis
    unfolding writeAuthorizedFileAtomic_def assertRequestedPath_def
    using target quiet [OF guarded_refl]
    by (simp add: io_wp case_prod_unfold)
qed

lemma writeAuthorizedFileAtomic_wp:
  assumes "h_platform h = ''linux''"
  shows "wp (writeAuthorizedFileAtomic h policy p content denialMessage operationMessage)
     (\<lambda>_ u. guarded (file_guard h policy) t u \<and> tidy h t u \<and> installed h content t u)
     (\<lambda>e u. guarded (file_guard h policy) t u \<and> tidy h t u \<and>
        e \<in> {policyDenied denialMessage, operationFailed operationMessage}) t"
  by (rule wp_mono [OF writeAuthorizedFileAtomic_places [OF assms]]) (auto simp: write_guard_def intro: guarded_mono)

text \<open>
  C12: a write on a Linux host, whatever else happens there between its calls. Every file it writes
  was vouched for first, and new files are created exclusively under the handle of a vouched directory.
  A file is only ever put in place under the last segment of what the path asked for stands for on that
  host (its real path, or itself when it does not exist), in the real directory of that, which is
  allowed, opened and vouched for; and it is the file into which the whole content was written, synced
  and closed just before. If the write reports success such a replacement took place; if it fails the
  error is one of its two messages and tells nothing else about the host; in both cases no temporary
  file is forgotten.
\<close>

theorem authorized_write_atomic:
  assumes "h_platform h = ''linux''"
    and "writeAuthorizedFileAtomic h policy p content denialMessage operationMessage t = (r, t')"
  shows "(\<exists>calls. t' = t @ calls \<and> each_ok (write_guard h policy (puts_in_place h policy t p content)) t calls) \<and> tidy h t t' \<and>
    (case r of Inr _ \<Rightarrow> installed h content t t'
     | Inl e \<Rightarrow> e \<in> {policyDenied denialMessage, operationFailed operationMessage})"
proof -
  note w = wp_result [OF writeAuthorizedFileAtomic_places [OF assms(1)] assms(2)]
  then have g: "guarded (write_guard h policy (puts_in_place h policy t p content)) t t'" by (cases r) simp_all
  from guarded_extends [OF this] obtain calls where "t' = t @ calls" by blast
  with g w show ?thesis by (cases r) simp_all
qed

text \<open>
  A host in which \<open>/tmp/link\<close> is a link to \<open>/tmp/real\<close>, where the directory is opened as handle 3 and
  the temporary file as handle 4, and a policy that allows \<open>/tmp\<close> but denies one file.
\<close>

definition linked_host :: host where
  "linked_host =
     (let dir = \<lparr> st_isFile = False, st_isDirectory = True, st_dev = 1, st_ino = 10, st_mode = 493, st_size = 0 \<rparr>;
          tmp = \<lparr> st_isFile = True, st_isDirectory = False, st_dev = 1, st_ino = 11, st_mode = 384, st_size = 0 \<rparr>;
          tmpPath = ''/tmp/real/.secret.u.tmp''
      in \<lparr> h_platform = ''linux'', h_is_root = False, h_has_nofollow = True, h_has_directory = True,
           h_realpath = (\<lambda>_ p. if p = ''/tmp/link'' \<or> p = fd_path 3 then Inr ''/tmp/real''
                               else if p = fd_path 4 then Inr tmpPath else Inl ''NOENT''),
           h_open = (\<lambda>_ p. if p = ''/tmp/real'' then Inr 3 else Inr 4),
           h_fstat = (\<lambda>_ fd. Inr (if fd = 3 then dir else tmp)),
           h_stat = (\<lambda>_ p. Inr (if p = ''/tmp/real'' then dir else tmp)),
           h_fread = (\<lambda>_ _ _ _. Inr []), h_done = (\<lambda>_ _. None),
           h_child = (\<lambda>_. \<lparr> ch_stdout = [], ch_stderr = [], ch_end = ChildClosed (Some 0) False \<rparr>),
           h_uuid = (\<lambda>_. ''u''), h_utf8 = (\<lambda>s. s) \<rparr>)"

definition linked_policy :: agent_policy where
  "linked_policy = (createAgentPolicy FullAdmin)\<lparr> ap_allowPaths := [''/tmp''], ap_denyPaths := [''/tmp/real/secret''] \<rparr>"

definition linked_write :: "(failure + unit) \<times> history" where
  "linked_write = writeAuthorizedFileAtomic linked_host linked_policy ''/tmp/link/secret'' ''x'' ''denied'' ''failed'' []"

lemma linked_paths:
  "fd_path 3 = ''/proc/self/fd/3''" "fd_path 4 = ''/proc/self/fd/4''"
  "isPathAllowed linked_policy ''/tmp/link/secret''" "isPathAllowed linked_policy ''/tmp/link''"
  "isPathAllowed linked_policy ''/tmp/real''" "isPathAllowed linked_policy ''/tmp/real/.secret.u.tmp''"
  "\<not> isPathAllowed linked_policy ''/tmp/real/secret''"
  "posix_dirname ''/tmp/link/secret'' = ''/tmp/link''" "posix_basename ''/tmp/link/secret'' = ''secret''"
  "posix_join [''/proc/self/fd/3'', ''.secret.u.tmp''] = ''/proc/self/fd/3/.secret.u.tmp''"
  "posix_join [''/proc/self/fd/3'', ''secret''] = ''/proc/self/fd/3/secret''"
  "posix_basename ''/proc/self/fd/3/.secret.u.tmp'' = ''.secret.u.tmp''"
  "posix_join [''/tmp/real'', ''.secret.u.tmp''] = ''/tmp/real/.secret.u.tmp''"
  by code_simp+

text \<open>The definitions, to run the functions on a given host.\<close>

lemmas io_defs = io_ret_def io_throw_def io_bind_def io_catch_def io_finally_def io_rethrow_def io_call_def do_call_def
  do_realpath_def do_open_def do_fstat_def do_stat_def do_fread_def io_both_def fresh_uuid_def

lemmas safe_file_defs = assertRequestedPath_def checked_def verifyOpenedHandle_def openedCanonicalPath_def canonical_allowed_def
  openExistingFile_def canonicalizeExisting_def openCanonicalParent_def closeQuietly_def as_denied_def staging_def open_parent_def
  fill_temporary_def write_staged_def write_cleanup_def write_target_def writeAuthorizedFileAtomic_def sameFileIdentity_def
  OWNER_READ_WRITE_def no_follow_def directory_only_def

lemma linked_write_value:
  "linked_write =
    (Inr (),
     [OpRealpath ''/tmp/link/secret'', OpRealpath ''/tmp/link'',
      OpOpen ''/tmp/real'' [O_RDONLY, O_DIRECTORY, O_NOFOLLOW] None,
      OpRealpath ''/proc/self/fd/3'', OpFstat 3, OpStat ''/tmp/real'',
      OpOpen ''/proc/self/fd/3/.secret.u.tmp'' [O_WRONLY, O_CREAT, O_EXCL, O_NOFOLLOW] (Some 384),
      OpRealpath ''/proc/self/fd/4'', OpFstat 4, OpStat ''/tmp/real/.secret.u.tmp'',
      OpChmod 4 384, OpWrite 4 ''x'', OpSync 4, OpClose 4,
      OpRename ''/proc/self/fd/3/.secret.u.tmp'' ''/proc/self/fd/3/secret'', OpSync 3, OpClose 3])"
  by (simp add: linked_write_def safe_file_defs io_defs linked_paths errorCode_def linked_host_def Let_def)

theorem authorized_write_atomic_witness:
  "installed linked_host ''x'' [] (snd linked_write) \<and> tidy linked_host [] (snd linked_write)"
  using authorized_write_atomic [of linked_host linked_policy "''/tmp/link/secret''" "''x''" "''denied''" "''failed''" "[]"
      "fst linked_write" "snd linked_write"]
  by (simp add: linked_write_def [symmetric] linked_write_value) (simp add: linked_host_def Let_def)

text \<open>
  A file that does not exist yet is checked by the requested path and by its real directory, but
  the real path of the file itself is never checked. A denied file can so be created through a
  linked directory: here \<open>/tmp/real/secret\<close> is denied, by the policy and when asked for by its own
  name, and is created all the same when it is asked for as \<open>/tmp/link/secret\<close>.
\<close>

theorem denied_file_created_through_link:
  "\<not> isPathAllowed linked_policy ''/tmp/real/secret'' \<and>
   fst (writeAuthorizedFileAtomic linked_host linked_policy ''/tmp/real/secret'' ''x'' ''denied'' ''failed'' []) =
     Inl (policyDenied ''denied'') \<and>
   fst (writeAuthorizedFileAtomic linked_host linked_policy ''/tmp/link/secret'' ''x'' ''denied'' ''failed'' []) = Inr () \<and>
   h_realpath linked_host [] (fd_path 3) = Inr ''/tmp/real'' \<and>
   OpRename (fd_path 3 @ ''/.secret.u.tmp'') (fd_path 3 @ ''/secret'') \<in> set (snd linked_write)"
proof -
  have "fst (writeAuthorizedFileAtomic linked_host linked_policy ''/tmp/real/secret'' ''x'' ''denied'' ''failed'' []) =
     Inl (policyDenied ''denied'')"
    by (simp add: safe_file_defs io_defs linked_paths)
  moreover have "h_realpath linked_host [] (fd_path 3) = Inr ''/tmp/real''"
    by (simp add: linked_host_def Let_def)
  ultimately show ?thesis
    using linked_write_value by (simp add: linked_write_def linked_paths)
qed

end
