(* ===== verification/AgentExecutor.thy ===== *)
theory AgentExecutor
  imports SafeFile ControlPlane
begin

section \<open>What an agent does for an action: \<open>src/remote/agent-executor.ts\<close>\<close>

text \<open>
  The executor checks the capability of an action, runs the command or file operation of its tool
  under the local policy, bounds the output, and puts the outcome into a signed result. Bytes are
  characters below 256; a process is the chunks it writes and its end, which the host gives.
\<close>

record exec_result =
  ex_exitCode :: int
  ex_stdout :: string
  ex_stderr :: string
  ex_truncated :: bool

subsection \<open>Arguments\<close>

definition SAFE_IDENTIFIER_PATTERN :: "string \<Rightarrow> bool" where
  "SAFE_IDENTIFIER_PATTERN v \<longleftrightarrow>
     1 \<le> length v \<and> length v \<le> 128 \<and> list_all (\<lambda>c. is_alpha c \<or> is_digit c \<or> c \<in> set ''_.@:-'') v"

definition scalarActionArgument :: "json option \<Rightarrow> (failure, string) io" where
  "scalarActionArgument v =
     (case v of
        None \<Rightarrow> io_ret []
      | Some JNull \<Rightarrow> io_ret []
      | Some (JStr s) \<Rightarrow> io_ret s
      | Some (JNum i) \<Rightarrow> io_ret (show_int i)
      | Some (JBool b) \<Rightarrow> io_ret (if b then ''true'' else ''false'')
      | Some _ \<Rightarrow> io_throw (Coded POLICY_DENIED ''Action arguments must be scalar values''))"

text \<open>Whether a value is true as a condition.\<close>

definition json_truthy :: "json option \<Rightarrow> bool" where
  "json_truthy v =
     (case v of None \<Rightarrow> False | Some JNull \<Rightarrow> False | Some (JBool b) \<Rightarrow> b | Some (JNum i) \<Rightarrow> i \<noteq> 0
      | Some (JStr s) \<Rightarrow> s \<noteq> [] | Some _ \<Rightarrow> True)"

definition assertSafeIdentifier :: "string \<Rightarrow> string \<Rightarrow> (failure, unit) io" where
  "assertSafeIdentifier v label =
     (if SAFE_IDENTIFIER_PATTERN v then io_ret ()
      else io_throw (Coded POLICY_DENIED (label @ '' contains unsupported characters'')))"

definition posixSingleQuote :: "string \<Rightarrow> string" where
  "posixSingleQuote v = SQUOTE # replace_char SQUOTE [SQUOTE, BSLASH, SQUOTE, SQUOTE] v @ [SQUOTE]"

definition POWERSHELL_ARGS :: "string list" where
  "POWERSHELL_ARGS = [''-NoLogo'', ''-NoProfile'', ''-NonInteractive'', ''-Command'']"

definition platformShell :: "host \<Rightarrow> string \<Rightarrow> string \<times> string list" where
  "platformShell h command =
     (if h_platform h = ''win32'' then (''powershell.exe'', POWERSHELL_ARGS @ [command])
      else (''/bin/sh'', [''-lc'', command]))"

definition powerShell :: "string \<Rightarrow> string list \<Rightarrow> string \<times> string list" where
  "powerShell command args = (''powershell.exe'', POWERSHELL_ARGS @ [command] @ args)"

subsection \<open>Bounded output\<close>

definition truncationMarker :: "int \<Rightarrow> string" where
  "truncationMarker maxBytes = [LF] @ ''[truncated after '' @ show_int maxBytes @ '' bytes]'' @ [LF]"

definition appendTruncationMarker :: "string \<Rightarrow> int \<Rightarrow> string \<times> bool" where
  "appendTruncationMarker buffer maxBytes =
     (if maxBytes \<le> 0 then ([], True)
      else let marker = truncationMarker maxBytes
        in if int (length marker) \<ge> maxBytes then (take (nat maxBytes) marker, True)
           else (take (nat (maxBytes - int (length marker))) buffer @ marker, True))"

definition truncateBuffer :: "string \<Rightarrow> int \<Rightarrow> string \<times> bool" where
  "truncateBuffer buffer maxBytes =
     (if int (length buffer) \<le> maxBytes then (buffer, False) else appendTruncationMarker buffer maxBytes)"

record output_accumulator =
  oa_bytes :: int
  oa_chunks :: "string list"
  oa_truncated :: bool

definition emptyOutput :: output_accumulator where
  "emptyOutput = \<lparr> oa_bytes = 0, oa_chunks = [], oa_truncated = False \<rparr>"

definition appendBoundedOutput :: "int \<Rightarrow> string \<Rightarrow> output_accumulator \<Rightarrow> output_accumulator" where
  "appendBoundedOutput maxBytes chunk acc =
     (if maxBytes \<le> 0 then acc\<lparr> oa_truncated := oa_truncated acc \<or> chunk \<noteq> [] \<rparr>
      else let remaining = maxBytes - oa_bytes acc
        in if remaining \<le> 0 then acc\<lparr> oa_truncated := True \<rparr>
           else let slice = take (nat remaining) chunk
             in acc\<lparr> oa_chunks := oa_chunks acc @ [slice], oa_bytes := oa_bytes acc + int (length slice),
                     oa_truncated := oa_truncated acc \<or> length slice \<noteq> length chunk \<rparr>)"

definition finalizeBoundedOutput :: "output_accumulator \<Rightarrow> int \<Rightarrow> string \<times> bool" where
  "finalizeBoundedOutput acc maxBytes =
     (let v = concat (oa_chunks acc)
      in if \<not> oa_truncated acc then (v, False) else appendTruncationMarker v maxBytes)"

definition collect_output :: "int \<Rightarrow> string list \<Rightarrow> string \<times> bool" where
  "collect_output maxBytes chunks = finalizeBoundedOutput (fold (appendBoundedOutput maxBytes) chunks emptyOutput) maxBytes"

text \<open>
  A process is started, and its result is taken when it closes or fails to start. When the time
  limit is reached the process group is killed, so that it closes; the host says whether it was.
\<close>

definition runCommand ::
    "host \<Rightarrow> string \<Rightarrow> string list \<Rightarrow> string option \<Rightarrow> int option \<Rightarrow> int \<Rightarrow> (failure, exec_result) io" where
  "runCommand h command args cwd timeoutSeconds maxOutputBytes =
     io_bind (io_call (OpSpawn command args cwd (map_option (\<lambda>s. s * 1000) timeoutSeconds)) (\<lambda>t. Inr (h_child h t))) (\<lambda>ch.
     io_ret (case ch_end ch of
        ChildError message \<Rightarrow> \<lparr> ex_exitCode = 127, ex_stdout = [], ex_stderr = message, ex_truncated = False \<rparr>
      | ChildClosed code timedOut \<Rightarrow>
          let out = collect_output maxOutputBytes (ch_stdout ch);
              err = collect_output maxOutputBytes (ch_stderr ch)
          in \<lparr> ex_exitCode = (if timedOut then 124 else case code of Some c \<Rightarrow> c | None \<Rightarrow> 0),
               ex_stdout = h_utf8 h (fst out), ex_stderr = h_utf8 h (fst err), ex_truncated = snd out \<or> snd err \<rparr>))"

subsection \<open>Reading files\<close>

text \<open>\<open>FileHandle.read\<close> never returns more than it was asked for.\<close>

function read_range :: "host \<Rightarrow> nat \<Rightarrow> nat \<Rightarrow> nat \<Rightarrow> string \<Rightarrow> (failure, string) io" where
  "read_range h fd len pos acc =
     (if len = 0 then io_ret acc
      else io_bind (do_fread h fd len pos) (\<lambda>bytes.
        let chunk = take len bytes
        in if chunk = [] then io_ret acc
           else read_range h fd (len - length chunk) (pos + length chunk) (acc @ chunk)))"
  by pat_completeness auto
termination
  by (relation "measure (\<lambda>(h, fd, len, pos, acc). len)") auto

declare read_range.simps [simp del]

definition readHandleRange :: "host \<Rightarrow> nat \<Rightarrow> nat \<Rightarrow> nat \<Rightarrow> (failure, string) io" where
  "readHandleRange h fd start len = read_range h fd len start []"

definition readFileBounded :: "host \<Rightarrow> int \<Rightarrow> nat \<Rightarrow> (failure, string \<times> bool) io" where
  "readFileBounded h maxBytes fd =
     (let cappedBytes = max 0 maxBytes
      in io_bind (readHandleRange h fd 0 (nat cappedBytes + 1)) (\<lambda>buffer. io_ret (truncateBuffer buffer cappedBytes)))"

definition TAIL_SCAN_CHUNK_BYTES :: nat where
  "TAIL_SCAN_CHUNK_BYTES = 65536"

definition MAX_TAIL_SCAN_BYTES :: nat where
  "MAX_TAIL_SCAN_BYTES = 8388608"

text \<open>
  The inner loop, over the bytes of a chunk from its end: \<open>Inl\<close> the offset found, or \<open>Inr\<close> the lines
  counted so far.
\<close>

fun scan_back :: "nat \<Rightarrow> nat \<Rightarrow> nat \<Rightarrow> string \<Rightarrow> nat \<Rightarrow> nat + nat" where
  "scan_back fileSize maxLines position [] included = Inr included"
| "scan_back fileSize maxLines position (c # cs) included =
     (let absoluteIndex = position + length cs
      in if c \<noteq> LF \<or> absoluteIndex = fileSize - 1 then scan_back fileSize maxLines position cs included
         else if included \<ge> maxLines then Inl (absoluteIndex + 1)
         else scan_back fileSize maxLines position cs (included + 1))"

function tail_loop :: "host \<Rightarrow> nat \<Rightarrow> nat \<Rightarrow> nat \<Rightarrow> nat \<Rightarrow> nat \<Rightarrow> nat \<Rightarrow> (failure, nat \<times> bool) io" where
  "tail_loop h fd fileSize maxLines minimumPosition position included =
     (if position \<le> minimumPosition then io_ret (minimumPosition, minimumPosition > 0)
      else let chunkSize = min TAIL_SCAN_CHUNK_BYTES (position - minimumPosition)
        in io_bind (readHandleRange h fd (position - chunkSize) chunkSize) (\<lambda>chunk.
             case scan_back fileSize maxLines (position - chunkSize) (rev chunk) included of
               Inl offset \<Rightarrow> io_ret (offset, False)
             | Inr n \<Rightarrow> tail_loop h fd fileSize maxLines minimumPosition (position - chunkSize) n))"
  by pat_completeness auto
termination
  by (relation "measure (\<lambda>(h, fd, fileSize, maxLines, minimumPosition, position, included). position)")
    (auto simp: TAIL_SCAN_CHUNK_BYTES_def)

declare tail_loop.simps [simp del]

definition findTailStart :: "host \<Rightarrow> nat \<Rightarrow> nat \<Rightarrow> nat \<Rightarrow> nat \<Rightarrow> (failure, nat \<times> bool) io" where
  "findTailStart h fd fileSize maxLines maxScanBytes =
     (if fileSize = 0 \<or> maxLines = 0 then io_ret (fileSize, False)
      else tail_loop h fd fileSize maxLines (fileSize - maxScanBytes) fileSize 1)"

definition readFileTailBounded :: "host \<Rightarrow> int \<Rightarrow> nat \<Rightarrow> nat \<Rightarrow> (failure, string \<times> bool) io" where
  "readFileTailBounded h maxBytes maxLines fd =
     (let cappedBytes = max 0 maxBytes;
          scanBytes = max TAIL_SCAN_CHUNK_BYTES (min MAX_TAIL_SCAN_BYTES (nat cappedBytes * 4 + 1))
      in io_bind (do_fstat h fd) (\<lambda>stats.
         io_bind (findTailStart h fd (st_size stats) maxLines scanBytes) (\<lambda>(offset, scanTruncated).
         io_bind (readHandleRange h fd offset (min (st_size stats - offset) (nat cappedBytes + 1))) (\<lambda>buffer.
         let bounded = truncateBuffer buffer cappedBytes
         in io_ret (if scanTruncated \<and> \<not> snd bounded then appendTruncationMarker (fst bounded) cappedBytes else bounded)))))"

definition isLogFileTarget :: "string \<Rightarrow> bool" where
  "isLogFileTarget target \<longleftrightarrow>
     SLASH \<in> set target \<or> BSLASH \<in> set target \<or>
     (case target of c # d # e # _ \<Rightarrow> is_alpha c \<and> d = CHR '':'' \<and> e \<in> {BSLASH, SLASH} | _ \<Rightarrow> False)"

subsection \<open>The tools\<close>

definition policy_error :: "string \<Rightarrow> (failure, 'a) io" where
  "policy_error message = io_throw (Coded POLICY_DENIED message)"

definition getSystemStatus :: "host \<Rightarrow> agent_policy \<Rightarrow> int option \<Rightarrow> (failure, exec_result) io" where
  "getSystemStatus h policy timeoutSeconds =
     (let command = (if h_platform h = ''win32''
            then ''Get-ComputerInfo | Select-Object CsName,OsName,OsVersion,CsTotalPhysicalMemory | ConvertTo-Json -Compress''
            else ''uname -a && uptime && df -h /'')
      in runCommand h (fst (platformShell h command)) (snd (platformShell h command)) None timeoutSeconds
           (ap_maxOutputBytes policy))"

definition file_result :: "host \<Rightarrow> string \<times> bool \<Rightarrow> exec_result" where
  "file_result h truncated =
     \<lparr> ex_exitCode = 0, ex_stdout = h_utf8 h (fst truncated), ex_stderr = [], ex_truncated = snd truncated \<rparr>"

definition tailLogs :: "host \<Rightarrow> agent_policy \<Rightarrow> string \<Rightarrow> int option \<Rightarrow> (failure, exec_result) io" where
  "tailLogs h policy target timeoutSeconds =
     (if target = [] then policy_error ''unit_or_file is required''
      else if isLogFileTarget target then
        withAuthorizedRead h policy target ''Log path is not allowed by local policy'' ''Log operation failed''
          (\<lambda>fd. io_bind (readFileTailBounded h (ap_maxOutputBytes policy) 100 fd) (\<lambda>truncated. io_ret (file_result h truncated)))
      else if h_platform h = ''win32'' then
        io_bind (assertSafeIdentifier target ''Log target'') (\<lambda>_.
          runCommand h ''powershell.exe''
            (POWERSHELL_ARGS @ [''Get-EventLog -LogName '' @ [SQUOTE] @ replace_char SQUOTE [SQUOTE, SQUOTE] target @ [SQUOTE] @
               '' -Newest 100 | ConvertTo-Json -Compress''])
            None timeoutSeconds (ap_maxOutputBytes policy))
      else
        io_bind (assertSafeIdentifier target ''Systemd unit'') (\<lambda>_.
          runCommand h ''journalctl'' [''-u'', target, ''-n'', ''100'', ''--no-pager''] None timeoutSeconds
            (ap_maxOutputBytes policy)))"

definition restartService :: "host \<Rightarrow> agent_policy \<Rightarrow> string \<Rightarrow> int option \<Rightarrow> (failure, exec_result) io" where
  "restartService h policy service timeoutSeconds =
     (if service = [] \<or> \<not> isServiceAllowed policy service then policy_error ''Service is not allowed by local policy''
      else io_bind (assertSafeIdentifier service ''Service name'') (\<lambda>_.
        let shell = (if h_platform h = ''win32'' then powerShell ''Restart-Service -Name $args[0]'' [service]
                     else (''systemctl'', [''restart'', service]))
        in runCommand h (fst shell) (snd shell) None timeoutSeconds (ap_maxOutputBytes policy)))"

text \<open>\<open>String(Math.min(lines, 500))\<close>; a number that is none is printed as \<open>NaN\<close>.\<close>

definition tail_count :: "int option \<Rightarrow> string" where
  "tail_count lines = (case lines of None \<Rightarrow> ''NaN'' | Some n \<Rightarrow> show_int (min n 500))"

definition dockerLogs :: "host \<Rightarrow> agent_policy \<Rightarrow> string \<Rightarrow> int option \<Rightarrow> int option \<Rightarrow> (failure, exec_result) io" where
  "dockerLogs h policy container lines timeoutSeconds =
     (if container = [] \<or> \<not> isContainerAllowed policy container then
        policy_error ''Container is not allowed by local policy''
      else io_bind (assertSafeIdentifier container ''Container name'') (\<lambda>_.
        runCommand h ''docker'' [''logs'', ''--tail'', tail_count lines, container] None timeoutSeconds
          (ap_maxOutputBytes policy)))"

definition dockerRestart :: "host \<Rightarrow> agent_policy \<Rightarrow> string \<Rightarrow> int option \<Rightarrow> (failure, exec_result) io" where
  "dockerRestart h policy container timeoutSeconds =
     (if container = [] \<or> \<not> isContainerAllowed policy container then
        policy_error ''Container is not allowed by local policy''
      else io_bind (assertSafeIdentifier container ''Container name'') (\<lambda>_.
        runCommand h ''docker'' [''restart'', container] None timeoutSeconds (ap_maxOutputBytes policy)))"

definition fileRead :: "host \<Rightarrow> agent_policy \<Rightarrow> string \<Rightarrow> (failure, exec_result) io" where
  "fileRead h policy filePath =
     withAuthorizedRead h policy filePath ''Path is not allowed by local policy'' ''File read failed''
       (\<lambda>fd. io_bind (readFileBounded h (ap_maxOutputBytes policy) fd) (\<lambda>truncated. io_ret (file_result h truncated)))"

definition fileWrite :: "host \<Rightarrow> agent_policy \<Rightarrow> string \<Rightarrow> string \<Rightarrow> (failure, exec_result) io" where
  "fileWrite h policy filePath content =
     io_bind (writeAuthorizedFileAtomic h policy filePath content ''Path is not allowed by local policy'' ''File write failed'')
       (\<lambda>_. io_ret \<lparr> ex_exitCode = 0, ex_stdout = ''written'', ex_stderr = [], ex_truncated = False \<rparr>)"

definition runShell ::
    "host \<Rightarrow> agent_policy \<Rightarrow> string \<Rightarrow> string option \<Rightarrow> int option \<Rightarrow> (failure, exec_result) io" where
  "runShell h policy command cwd timeoutSeconds =
     io_bind (if truthy cwd then do_call h (OpAccess (the cwd)) else io_ret ()) (\<lambda>_.
     runCommand h (fst (platformShell h command)) (snd (platformShell h command)) cwd timeoutSeconds
       (ap_maxOutputBytes policy))"

definition runShellAsRoot ::
    "host \<Rightarrow> agent_policy \<Rightarrow> string \<Rightarrow> string option \<Rightarrow> int option \<Rightarrow> (failure, exec_result) io" where
  "runShellAsRoot h policy command cwd timeoutSeconds =
     (if h_platform h = ''win32'' then
        io_throw (Coded UNSUPPORTED_PLATFORM_OR_PRIVILEGE ''Root execution requires an elevated Windows agent service'')
      else if \<not> h_is_root h then
        (let shell = platformShell h (''sudo -n /bin/sh -lc '' @ posixSingleQuote command)
         in runCommand h (fst shell) (snd shell) cwd timeoutSeconds (ap_maxOutputBytes policy))
      else runShell h policy command cwd timeoutSeconds)"

subsection \<open>Executing an action\<close>

definition tool_name :: "remote_tool \<Rightarrow> string" where
  "tool_name tool = (case find (\<lambda>e. snd e = tool) REMOTE_TOOLS of Some e \<Rightarrow> fst e | None \<Rightarrow> [])"

definition capability_denied :: "string \<Rightarrow> (failure, 'a) io" where
  "capability_denied message = io_throw (Coded CAPABILITY_DENIED message)"

definition optional_cwd :: "entries \<Rightarrow> (failure, string option) io" where
  "optional_cwd args =
     (if json_truthy (map_of args ''cwd'') then io_bind (scalarActionArgument (map_of args ''cwd'')) (\<lambda>s. io_ret (Some s))
      else io_ret None)"

text \<open>Every tool name has a capability, so the refusal of a tool without one is never reached.\<close>

definition executeAllowed :: "host \<Rightarrow> agent_policy \<Rightarrow> action_request \<Rightarrow> (failure, exec_result) io" where
  "executeAllowed h policy action =
     (let tool = rq_tool action; args = rq_args action; requiredCapability = TOOL_CAPABILITY_MAP tool in
      if rq_capability action \<noteq> requiredCapability then
        capability_denied (''Tool '' @ tool_name tool @ '' requires '' @ capability_name requiredCapability @
          '', received '' @ capability_name (rq_capability action))
      else if \<not> ap_capabilities policy requiredCapability then
        capability_denied (''Capability '' @ capability_name requiredCapability @ '' is not enabled'')
      else let timeoutSeconds = map_option (\<lambda>s. min s (ap_maxActionTimeoutSeconds policy))
             (number_or (map_of args ''timeout_seconds'') (ap_maxActionTimeoutSeconds policy))
        in case tool of
            GetSystemStatus \<Rightarrow> getSystemStatus h policy timeoutSeconds
          | TailLogs \<Rightarrow> io_bind (scalarActionArgument (map_of args ''unit_or_file'')) (\<lambda>target. tailLogs h policy target timeoutSeconds)
          | RestartService \<Rightarrow> io_bind (scalarActionArgument (map_of args ''service'')) (\<lambda>service. restartService h policy service timeoutSeconds)
          | DockerPs \<Rightarrow> runCommand h ''docker'' [''ps'', ''--format'', ''json''] None timeoutSeconds (ap_maxOutputBytes policy)
          | DockerLogs \<Rightarrow> io_bind (scalarActionArgument (map_of args ''container'')) (\<lambda>container.
              dockerLogs h policy container (number_or (map_of args ''lines'') 100) timeoutSeconds)
          | DockerRestart \<Rightarrow> io_bind (scalarActionArgument (map_of args ''container'')) (\<lambda>container. dockerRestart h policy container timeoutSeconds)
          | FileRead \<Rightarrow> io_bind (scalarActionArgument (map_of args ''path'')) (\<lambda>path. fileRead h policy path)
          | FileWrite \<Rightarrow> io_bind (scalarActionArgument (map_of args ''path'')) (\<lambda>path.
              io_bind (scalarActionArgument (map_of args ''content'')) (\<lambda>content. fileWrite h policy path content))
          | RunShell \<Rightarrow> io_bind (scalarActionArgument (map_of args ''command'')) (\<lambda>command.
              io_bind (optional_cwd args) (\<lambda>cwd. runShell h policy command cwd timeoutSeconds))
          | RunShellAsRoot \<Rightarrow> io_bind (scalarActionArgument (map_of args ''command'')) (\<lambda>command.
              io_bind (optional_cwd args) (\<lambda>cwd. runShellAsRoot h policy command cwd timeoutSeconds))
          | _ \<Rightarrow> io_throw (Coded UNSUPPORTED_PLATFORM (''Unsupported action '' @ tool_name tool)))"

end
