(* ===== verification/AgentExecutorProps.thy ===== *)
theory AgentExecutorProps
  imports AgentExecutor
begin

section \<open>Properties of the executor of an agent\<close>

text \<open>
  The output of a process is bounded while it is read, and equals the bounded whole; ranges of files
  are read completely; the last lines of a log are found from its end; and every call of the host
  that an action leads to is one its tool and the policy permit.
\<close>

subsection \<open>Bounded output\<close>

lemma appendTruncationMarker_length: "int (length (fst (appendTruncationMarker b m))) \<le> max 0 m"
  by (auto simp: appendTruncationMarker_def Let_def)

lemma truncateBuffer_length: "int (length (fst (truncateBuffer b m))) \<le> max 0 m"
  using appendTruncationMarker_length [of b m] by (auto simp: truncateBuffer_def)

text \<open>What the accumulator holds after some chunks, of which none is empty.\<close>

definition accumulated :: "int \<Rightarrow> string \<Rightarrow> output_accumulator" where
  "accumulated m s = \<lparr> oa_bytes = min m (int (length s)), oa_chunks = [take (nat m) s], oa_truncated = (m < int (length s)) \<rparr>"

lemma append_accumulated:
  assumes "0 < m" and "chunk \<noteq> []" and "oa_bytes acc = min m (int (length s))"
    and "concat (oa_chunks acc) = take (nat m) s" and "oa_truncated acc \<longleftrightarrow> m < int (length s)"
  shows "oa_bytes (appendBoundedOutput m chunk acc) = min m (int (length (s @ chunk)))"
    and "concat (oa_chunks (appendBoundedOutput m chunk acc)) = take (nat m) (s @ chunk)"
    and "oa_truncated (appendBoundedOutput m chunk acc) \<longleftrightarrow> m < int (length (s @ chunk))"
proof -
  have pos: "0 < length chunk" using assms(2) by simp
  have d: "nat m - length s = nat (m - int (length s))" by linarith
  show "oa_bytes (appendBoundedOutput m chunk acc) = min m (int (length (s @ chunk)))"
    using assms pos by (auto simp: appendBoundedOutput_def Let_def min_def)
  show "concat (oa_chunks (appendBoundedOutput m chunk acc)) = take (nat m) (s @ chunk)"
    using assms(1,3,4) d by (auto simp: appendBoundedOutput_def Let_def min_def split: if_splits)
  show "oa_truncated (appendBoundedOutput m chunk acc) \<longleftrightarrow> m < int (length (s @ chunk))"
    using assms pos by (auto simp: appendBoundedOutput_def Let_def min_def split: if_splits)
qed

lemma fold_append:
  assumes "0 < m" and "[] \<notin> set chunks" and "oa_bytes acc = min m (int (length s))"
    and "concat (oa_chunks acc) = take (nat m) s" and "oa_truncated acc \<longleftrightarrow> m < int (length s)"
  shows "concat (oa_chunks (fold (appendBoundedOutput m) chunks acc)) = take (nat m) (s @ concat chunks) \<and>
    (oa_truncated (fold (appendBoundedOutput m) chunks acc) \<longleftrightarrow> m < int (length (s @ concat chunks)))"
  using assms(2-)
proof (induction chunks arbitrary: acc s)
  case (Cons c cs)
  then have "c \<noteq> []" by auto
  note step = append_accumulated [OF assms(1) this Cons.prems(2-4)]
  from Cons.IH [of "appendBoundedOutput m c acc" "s @ c", OF _ step] Cons.prems(1) show ?case by simp
qed simp

lemma fold_append_zero:
  "oa_chunks (fold (appendBoundedOutput 0) chunks acc) = oa_chunks acc \<and>
   (oa_truncated (fold (appendBoundedOutput 0) chunks acc) \<longleftrightarrow> oa_truncated acc \<or> concat chunks \<noteq> [])"
  by (induction chunks arbitrary: acc) (auto simp: appendBoundedOutput_def)

lemma marker_take: "appendTruncationMarker (take (nat m) s) m = appendTruncationMarker s m"
  by (auto simp: appendTruncationMarker_def Let_def min_def)

text \<open>
  The output of a process, which arrives in chunks, is kept up to a limit while it arrives. What
  comes out is what bounding the whole output at its end would give: the complete output when it
  fits, and otherwise its beginning and the marker, within the limit. (A stream emits no empty chunk.)
\<close>

theorem bounded_output_exact:
  assumes "0 \<le> m" and "[] \<notin> set chunks"
  shows "collect_output m chunks = truncateBuffer (concat chunks) m \<and>
    int (length (fst (collect_output m chunks))) \<le> m"
proof -
  have "collect_output m chunks = truncateBuffer (concat chunks) m"
  proof (cases "m = 0")
    case True
    with fold_append_zero [of chunks emptyOutput] show ?thesis
      by (auto simp: collect_output_def finalizeBoundedOutput_def emptyOutput_def truncateBuffer_def
          appendTruncationMarker_def Let_def)
  next
    case False
    with assms(1) have m: "0 < m" by simp
    from fold_append [OF m assms(2), of emptyOutput "[]"] m marker_take [of m "concat chunks"] show ?thesis
      by (auto simp: collect_output_def finalizeBoundedOutput_def emptyOutput_def truncateBuffer_def Let_def)
  qed
  with truncateBuffer_length [of "concat chunks" m] assms(1) show ?thesis by simp
qed

theorem bounded_output_exact_witness:
  "collect_output 5 [''abc'', ''defg''] = truncateBuffer (concat [''abc'', ''defg'']) 5 \<and>
   int (length (fst (collect_output 5 [''abc'', ''defg'']))) \<le> 5"
  by (rule bounded_output_exact) simp_all

subsection \<open>Reading a file\<close>

text \<open>
  The handle serves the content: a read returns a part of what was asked for, from the right place,
  and nothing only at the end.
\<close>

definition serves :: "host \<Rightarrow> nat \<Rightarrow> string \<Rightarrow> bool" where
  "serves h fd content \<longleftrightarrow>
     (\<forall>t len pos. \<exists>bytes. h_fread h t fd len pos = Inr bytes \<and> prefix bytes (take len (drop pos content)) \<and>
        (bytes = [] \<longrightarrow> take len (drop pos content) = []))"

definition gives :: "(failure, 'a) io \<Rightarrow> 'a \<Rightarrow> bool" where
  "gives m x \<longleftrightarrow> (\<forall>t. \<exists>t'. m t = (Inr x, t'))"

lemma gives_ret [simp]: "gives (io_ret x) x"
  by (simp add: gives_def io_ret_def)

lemma gives_bind: "gives m x \<Longrightarrow> gives (f x) y \<Longrightarrow> gives (io_bind m f) y"
  unfolding gives_def io_bind_def by (metis (no_types, lifting) prod.case sum.case(2))

lemma read_range_gives:
  assumes "serves h fd content"
  shows "gives (read_range h fd len pos acc) (acc @ take len (drop pos content))"
proof (induction len arbitrary: pos acc rule: less_induct)
  case (less len)
  show ?case
  proof (cases "len = 0")
    case True
    then show ?thesis by (simp add: read_range.simps [of h fd 0])
  next
    case False
    show ?thesis
      unfolding gives_def
    proof
      fix t
      from assms obtain bytes where b: "h_fread h t fd len pos = Inr bytes" "prefix bytes (take len (drop pos content))"
        "bytes = [] \<longrightarrow> take len (drop pos content) = []" unfolding serves_def by blast
      then obtain rest where r: "take len (drop pos content) = bytes @ rest" by (auto simp: prefix_def)
      have len: "length bytes \<le> len" using arg_cong [OF r, of length] by simp
      then have tb: "take len bytes = bytes" by simp
      show "\<exists>t'. read_range h fd len pos acc t = (Inr (acc @ take len (drop pos content)), t')"
      proof (cases "bytes = []")
        case True
        with b False show ?thesis
          by (simp add: read_range.simps [of h fd len] io_bind_def do_fread_def io_call_def io_ret_def)
      next
        case ne: False
        have rest: "take (len - length bytes) (drop (pos + length bytes) content) = rest"
        proof -
          have "drop (length bytes) (take len (drop pos content)) = rest" using r by simp
          then show ?thesis by (simp add: drop_take add.commute)
        qed
        have "gives (read_range h fd (len - length bytes) (pos + length bytes) (acc @ bytes)) ((acc @ bytes) @ rest)"
          using less [of "len - length bytes" "pos + length bytes" "acc @ bytes"] False ne rest by simp
        then obtain t' where "read_range h fd (len - length bytes) (pos + length bytes) (acc @ bytes) (t @ [OpFread fd len pos]) =
            (Inr (acc @ bytes @ rest), t')" unfolding gives_def by fastforce
        with b False ne r tb show ?thesis
          by (simp add: read_range.simps [of h fd len pos acc] io_bind_def do_fread_def io_call_def Let_def)
      qed
    qed
  qed
qed

lemma readHandleRange_gives: "serves h fd content \<Longrightarrow> gives (readHandleRange h fd start len) (take len (drop start content))"
  using read_range_gives [of h fd content len start "[]"] by (simp add: readHandleRange_def)

subsection \<open>The last lines of a file\<close>

text \<open>The number of lines of a text; the last one may lack its line feed.\<close>

definition line_count :: "string \<Rightarrow> nat" where
  "line_count s = length (filter (\<lambda>c. c = LF) s) + (if s = [] \<or> last s = LF then 0 else 1)"

text \<open>From \<open>offset\<close> on the text is its last \<open>n\<close> lines, or all of it when it has no more.\<close>

definition starts_tail :: "string \<Rightarrow> nat \<Rightarrow> nat \<Rightarrow> bool" where
  "starts_tail content n offset \<longleftrightarrow>
     (offset = 0 \<or> (offset \<le> length content \<and> content ! (offset - 1) = LF)) \<and>
     line_count (drop offset content) = min n (line_count content)"

lemma line_count_Cons: "s \<noteq> [] \<Longrightarrow> line_count (c # s) = (if c = LF then Suc (line_count s) else line_count s)"
  by (simp add: line_count_def)

lemma line_count_single: "line_count [c] = 1"
  by (simp add: line_count_def)

lemma line_count_append_le: "s \<noteq> [] \<Longrightarrow> line_count s \<le> line_count (p @ s)"
proof (induction p)
  case (Cons c p)
  then show ?case using line_count_Cons [of "p @ s" c] by simp
qed simp

lemma scan_back_tail:
  assumes "content = before @ chunk @ after" and "c = max 1 (line_count after)" and "c \<le> n"
  shows "case scan_back (length content) n (length before) (rev chunk) c of
      Inl offset \<Rightarrow> starts_tail content n offset
    | Inr c' \<Rightarrow> c' = max 1 (line_count (chunk @ after)) \<and> c' \<le> n"
  using assms
proof (induction chunk arbitrary: after c rule: rev_induct)
  case (snoc x chunk)
  have e: "content = before @ chunk @ (x # after)" using snoc.prems(1) by simp
  have last: "length before + length chunk = length content - 1 \<longleftrightarrow> after = []" using snoc.prems(1) by simp
  consider (skip) "x \<noteq> LF \<or> after = []" | (found) "x = LF" "after \<noteq> []" "c \<ge> n" | (count) "x = LF" "after \<noteq> []" "c < n"
    by linarith
  then show ?case
  proof cases
    case skip
    then have "c = max 1 (line_count (x # after))"
      using snoc.prems(2) line_count_Cons [of after x] line_count_single [of x] by (auto simp: line_count_def)
    from snoc.IH [OF e this snoc.prems(3)] skip last show ?thesis by (auto simp: Let_def split: sum.splits)
  next
    case found
    have lc: "1 \<le> line_count after" using found(2) line_count_append_le [of "[last after]" "butlast after"]
      by (simp add: line_count_single)
    have "line_count after = n" using found(3) snoc.prems(2,3) lc by simp
    moreover have "line_count after \<le> line_count content"
      using line_count_append_le [OF found(2), of "before @ chunk @ [x]"] snoc.prems(1) by simp
    moreover have "drop (Suc (length before + length chunk)) content = after"
      "content ! (length before + length chunk) = LF"
      using snoc.prems(1) found(1) by (simp_all add: nth_append)
    ultimately have "starts_tail content n (length before + length chunk + 1)"
      using snoc.prems(1) by (simp add: starts_tail_def)
    with found last show ?thesis by (simp add: Let_def)
  next
    case count
    have lc: "1 \<le> line_count after" using count(2) line_count_append_le [of "[last after]" "butlast after"]
      by (simp add: line_count_single)
    then have "c + 1 = max 1 (line_count (x # after))" using count snoc.prems(2) line_count_Cons [of after x] by simp
    from snoc.IH [OF e this] count last show ?thesis by (auto simp: Let_def split: sum.splits)
  qed
qed simp

lemma tail_loop_gives:
  assumes "serves h fd content" and "content = before @ after" and "position = length before"
    and "c = max 1 (line_count after)" and "c \<le> n"
  shows "\<exists>offset. gives (tail_loop h fd (length content) n 0 position c) (offset, False) \<and> starts_tail content n offset"
  using assms(2-)
proof (induction position arbitrary: before after c rule: less_induct)
  case (less position)
  show ?case
  proof (cases "position = 0")
    case True
    with less.prems have "content = after" by simp
    with less.prems have "starts_tail content n 0"
      by (cases "after = []") (auto simp: starts_tail_def line_count_def max_def split: if_splits)
    with True show ?thesis by (intro exI [of _ 0]) (simp add: tail_loop.simps [of h fd _ n 0 0])
  next
    case False
    define size where "size = min TAIL_SCAN_CHUNK_BYTES position"
    define chunk where "chunk = drop (position - size) before"
    have s: "0 < size" "size \<le> position" using False by (simp_all add: size_def TAIL_SCAN_CHUNK_BYTES_def)
    have split: "content = take (position - size) before @ chunk @ after" "length (take (position - size) before) = position - size"
      using less.prems(1,2) by (simp_all add: chunk_def)
    have lc: "length chunk = size" using s less.prems(2) by (simp add: chunk_def)
    have read: "gives (readHandleRange h fd (position - size) size) chunk"
      using readHandleRange_gives [OF assms(1), of "position - size" size] split lc
      by (metis append_eq_conv_conj)
    note scan = scan_back_tail [OF split(1) less.prems(3,4), unfolded split(2)]
    have loop: "tail_loop h fd (length content) n 0 position c =
        io_bind (readHandleRange h fd (position - size) size) (\<lambda>chunk.
          case scan_back (length content) n (position - size) (rev chunk) c of
            Inl offset \<Rightarrow> io_ret (offset, False)
          | Inr n' \<Rightarrow> tail_loop h fd (length content) n 0 (position - size) n')"
      unfolding size_def using False by (simp add: tail_loop.simps [of h fd _ n 0 position] Let_def)
    show ?thesis
    proof (cases "scan_back (length content) n (position - size) (rev chunk) c")
      case (Inl offset)
      have "gives (tail_loop h fd (length content) n 0 position c) (offset, False)"
        unfolding loop by (rule gives_bind [OF read]) (simp add: Inl)
      with scan Inl show ?thesis by auto
    next
      case (Inr c')
      have c': "c' = max 1 (line_count (chunk @ after))" "c' \<le> n" using scan unfolding Inr sum.case by blast+
      have "position - size < position" using s by simp
      from less.IH [OF this split(1) split(2) [symmetric] c'] obtain offset where
        o: "gives (tail_loop h fd (length content) n 0 (position - size) c') (offset, False)" "starts_tail content n offset" by blast
      have "gives (tail_loop h fd (length content) n 0 position c) (offset, False)"
        unfolding loop by (rule gives_bind [OF read]) (simp add: Inr o(1))
      with o(2) show ?thesis by blast
    qed
  qed
qed

text \<open>
  C18: the start of the last \<open>n\<close> lines of a file is found by scanning its bytes backwards in chunks.
  On a file that does not change and is no longer than the bytes to scan, however short the single
  reads are, the scan ends and what follows the offset it finds is exactly the last \<open>n\<close> lines.
\<close>

theorem tail_start_exact:
  assumes "serves h fd content" and "length content \<le> maxScanBytes" and "0 < n"
  shows "\<exists>offset. gives (findTailStart h fd (length content) n maxScanBytes) (offset, False) \<and>
    starts_tail content n offset"
proof (cases "content = []")
  case True
  then show ?thesis by (intro exI [of _ 0]) (simp add: findTailStart_def starts_tail_def line_count_def)
next
  case False
  with assms(2,3) tail_loop_gives [OF assms(1), of content "[]" "length content" 1 n] show ?thesis
    by (auto simp: findTailStart_def line_count_def)
qed

definition serving_host :: "string \<Rightarrow> host" where
  "serving_host content = linked_host\<lparr> h_fread := (\<lambda>_ _ len pos. Inr (take len (drop pos content))) \<rparr>"

lemma serving_host_serves: "serves (serving_host content) fd content"
  by (simp add: serves_def serving_host_def)

theorem tail_start_exact_witness:
  "\<exists>offset. gives (findTailStart (serving_host (''a'' @ [LF] @ ''b'' @ [LF] @ ''c'')) 3
       (length (''a'' @ [LF] @ ''b'' @ [LF] @ ''c'')) 2 65536) (offset, False) \<and>
     starts_tail (''a'' @ [LF] @ ''b'' @ [LF] @ ''c'') 2 offset"
  by (rule tail_start_exact [OF serving_host_serves]) simp_all

subsection \<open>What an action may do\<close>

text \<open>The commands of each tool on a POSIX host.\<close>

definition permitted_command :: "agent_policy \<Rightarrow> remote_tool \<Rightarrow> string \<Rightarrow> string list \<Rightarrow> bool" where
  "permitted_command policy tool cmd args =
     (case tool of
        GetSystemStatus \<Rightarrow> cmd = ''/bin/sh'' \<and> args = [''-lc'', ''uname -a && uptime && df -h /'']
      | TailLogs \<Rightarrow> cmd = ''journalctl'' \<and>
          (\<exists>u. args = [''-u'', u, ''-n'', ''100'', ''--no-pager''] \<and> SAFE_IDENTIFIER_PATTERN u)
      | RestartService \<Rightarrow> cmd = ''systemctl'' \<and>
          (\<exists>s. args = [''restart'', s] \<and> isServiceAllowed policy s \<and> SAFE_IDENTIFIER_PATTERN s)
      | DockerPs \<Rightarrow> cmd = ''docker'' \<and> args = [''ps'', ''--format'', ''json'']
      | DockerLogs \<Rightarrow> cmd = ''docker'' \<and>
          (\<exists>n c. args = [''logs'', ''--tail'', n, c] \<and> isContainerAllowed policy c \<and> SAFE_IDENTIFIER_PATTERN c)
      | DockerRestart \<Rightarrow> cmd = ''docker'' \<and>
          (\<exists>c. args = [''restart'', c] \<and> isContainerAllowed policy c \<and> SAFE_IDENTIFIER_PATTERN c)
      | RunShell \<Rightarrow> cmd = ''/bin/sh'' \<and> (\<exists>c. args = [''-lc'', c])
      | RunShellAsRoot \<Rightarrow> cmd = ''/bin/sh'' \<and> (\<exists>c. args = [''-lc'', c])
      | _ \<Rightarrow> False)"

text \<open>Calls that change a file, or open one for that.\<close>

definition changes :: "host_op \<Rightarrow> bool" where
  "changes call =
     (case call of
        OpOpen _ flags _ \<Rightarrow> O_CREAT \<in> set flags \<or> O_WRONLY \<in> set flags
      | OpChmod _ _ \<Rightarrow> True | OpWrite _ _ \<Rightarrow> True | OpSync _ \<Rightarrow> True | OpRename _ _ \<Rightarrow> True | OpUnlink _ \<Rightarrow> True
      | _ \<Rightarrow> False)"

text \<open>
  A call is permitted to a tool if the capability of the tool is enabled, and it is one of the
  tool's commands within the time limit, or a guarded access to a file.
\<close>

definition permitted_call :: "host \<Rightarrow> agent_policy \<Rightarrow> remote_tool \<Rightarrow> history \<Rightarrow> host_op \<Rightarrow> bool" where
  "permitted_call h policy tool u call \<longleftrightarrow>
     ap_capabilities policy (TOOL_CAPABILITY_MAP tool) \<and>
     (case call of
        OpSpawn cmd args _ timeout \<Rightarrow>
          permitted_command policy tool cmd args \<and>
          (case timeout of Some ms \<Rightarrow> ms \<le> ap_maxActionTimeoutSeconds policy * 1000 | None \<Rightarrow> True)
      | OpAccess _ \<Rightarrow> tool \<in> {RunShell, RunShellAsRoot}
      | _ \<Rightarrow> file_guard h policy u call \<and> (tool = FileWrite \<or> tool \<in> {TailLogs, FileRead} \<and> \<not> changes call))"

definition in_time :: "agent_policy \<Rightarrow> int option \<Rightarrow> bool" where
  "in_time policy timeout \<longleftrightarrow> (case timeout of Some s \<Rightarrow> s \<le> ap_maxActionTimeoutSeconds policy | None \<Rightarrow> True)"

lemma permitted_file:
  "ap_capabilities policy (TOOL_CAPABILITY_MAP tool) \<Longrightarrow> file_guard h policy u call \<Longrightarrow>
   tool = FileWrite \<or> tool \<in> {TailLogs, FileRead} \<and> \<not> changes call \<Longrightarrow> permitted_call h policy tool u call"
  by (cases call) (simp_all add: permitted_call_def file_guard_def)

lemma keeps_runCommand:
  assumes "ap_capabilities policy (TOOL_CAPABILITY_MAP tool)" and "permitted_command policy tool cmd args" and "in_time policy timeout"
  shows "keeps (permitted_call h policy tool) (runCommand h cmd args cwd timeout m)"
  unfolding runCommand_def using assms
  by (intro keeps_intros) (auto simp: permitted_call_def in_time_def split: option.splits)

lemma keeps_scalar: "(\<And>s. keeps ok (f s)) \<Longrightarrow> keeps ok (io_bind (scalarActionArgument v) f)"
  by (intro keeps_bind) (auto simp: scalarActionArgument_def keeps_intros split: option.splits json.splits)

lemma keeps_safe: "(SAFE_IDENTIFIER_PATTERN v \<Longrightarrow> keeps ok m) \<Longrightarrow> keeps ok (io_bind (assertSafeIdentifier v label) (\<lambda>_. m))"
  by (auto simp: assertSafeIdentifier_def keeps_def io_bind_def io_throw_def io_ret_def)

lemma keeps_cwd: "(\<And>cwd. keeps ok (f cwd)) \<Longrightarrow> keeps ok (io_bind (optional_cwd args) f)"
  by (intro keeps_bind) (auto simp: optional_cwd_def keeps_intros intro!: keeps_scalar)

subsubsection \<open>File tools\<close>

lemma keeps_read_range: "keeps (\<lambda>_ call. (\<exists>len pos. call = OpFread fd len pos) \<or> call = OpFstat fd) (read_range h fd len pos acc)"
proof (induction len arbitrary: pos acc rule: less_induct)
  case (less len)
  then show ?case
    by (subst read_range.simps) (auto simp: do_fread_def Let_def intro!: keeps_intros)
qed

lemma keeps_tail_loop:
  "keeps (\<lambda>_ call. (\<exists>len pos. call = OpFread fd len pos) \<or> call = OpFstat fd) (tail_loop h fd fileSize n minimum position c)"
proof (induction position arbitrary: c rule: less_induct)
  case (less position)
  then show ?case
    by (subst tail_loop.simps)
      (auto simp: Let_def readHandleRange_def TAIL_SCAN_CHUNK_BYTES_def keeps_read_range split: sum.splits intro!: keeps_intros)
qed

lemma reads_bounded: "reads_only fd (io_bind (readFileBounded h m fd) (\<lambda>x. io_ret (f x)))"
  unfolding reads_only_def readFileBounded_def Let_def readHandleRange_def
  by (intro keeps_intros keeps_read_range)

lemma reads_tail: "reads_only fd (io_bind (readFileTailBounded h m n fd) (\<lambda>x. io_ret (f x)))"
  unfolding reads_only_def readFileTailBounded_def Let_def readHandleRange_def findTailStart_def do_fstat_def
  by (intro keeps_intros keeps_read_range keeps_tail_loop) simp_all

lemma keeps_withAuthorizedRead:
  assumes "\<And>fd. reads_only fd (operation fd)"
  shows "keeps (\<lambda>_ call. \<not> changes call) (withAuthorizedRead h policy p dm om operation)"
proof -
  have o: "keeps (\<lambda>_ call. \<not> changes call) (operation fd)" for fd
    using assms [of fd] unfolding reads_only_def by (rule keeps_mono) (auto simp: changes_def)
  show ?thesis
    unfolding withAuthorizedRead_def openExistingFile_def canonicalizeExisting_def assertRequestedPath_def canonical_allowed_def
      verifyOpenedHandle_def openedCanonicalPath_def checked_def closeQuietly_def do_realpath_def do_open_def do_fstat_def
      do_stat_def do_call_def option.case
    by (intro keeps_intros o) (auto simp: changes_def no_follow_def)
qed

lemma keeps_read_tool:
  assumes "h_platform h = ''linux''" and "\<And>fd. reads_only fd (operation fd)"
    and "ap_capabilities policy (TOOL_CAPABILITY_MAP tool)" and "tool \<in> {TailLogs, FileRead}"
  shows "keeps (permitted_call h policy tool) (withAuthorizedRead h policy p dm om operation)"
proof (rule keeps_mono [OF keeps_conj [OF wp_keeps keeps_withAuthorizedRead [OF assms(2)]]])
  show "wp (withAuthorizedRead h policy p dm om operation) (\<lambda>_. guarded (file_guard h policy) t) (\<lambda>_. guarded (file_guard h policy) t) t" for t
    by (rule wp_mono [OF withAuthorizedRead_wp [OF assms(1,2)]]) simp_all
  show "permitted_call h policy tool u c" if "file_guard h policy u c \<and> \<not> changes c" for u c
    using that assms(3,4) by (blast intro: permitted_file)
qed

lemma keeps_write_tool:
  assumes "h_platform h = ''linux''" and "ap_capabilities policy FilesWrite"
  shows "keeps (permitted_call h policy FileWrite) (writeAuthorizedFileAtomic h policy p content dm om)"
proof (rule keeps_mono [OF wp_keeps])
  show "wp (writeAuthorizedFileAtomic h policy p content dm om) (\<lambda>_. guarded (file_guard h policy) t) (\<lambda>_. guarded (file_guard h policy) t) t" for t
    by (rule wp_mono [OF writeAuthorizedFileAtomic_wp [OF assms(1)]]) simp_all
  show "permitted_call h policy FileWrite u c" if "file_guard h policy u c" for u c
    using that assms(2) by (intro permitted_file) simp_all
qed

subsubsection \<open>Every tool\<close>

lemma keeps_runShell:
  assumes "h_platform h = ''linux''" and "ap_capabilities policy (TOOL_CAPABILITY_MAP tool)"
    and "tool \<in> {RunShell, RunShellAsRoot}" and "in_time policy timeout"
  shows "keeps (permitted_call h policy tool) (runShell h policy c cwd timeout)"
    and "keeps (permitted_call h policy tool) (runShellAsRoot h policy c cwd timeout)"
proof -
  have shell: "platformShell h x = (''/bin/sh'', [''-lc'', x])" for x using assms(1) by (simp add: platformShell_def)
  have run: "keeps (permitted_call h policy tool) (runCommand h ''/bin/sh'' [''-lc'', x] cwd timeout m)" for x m
    using assms by (intro keeps_runCommand) (auto simp: permitted_command_def)
  have dir: "permitted_call h policy tool u (OpAccess p)" for u p
    using assms(2,3) by (simp add: permitted_call_def)
  show k: "keeps (permitted_call h policy tool) (runShell h policy c cwd timeout)"
    unfolding runShell_def shell fst_conv snd_conv by (intro keeps_intros run dir)
  show "keeps (permitted_call h policy tool) (runShellAsRoot h policy c cwd timeout)"
    unfolding runShellAsRoot_def shell Let_def fst_conv snd_conv by (intro keeps_if keeps_throw run k)
qed

lemma keeps_executeAllowed:
  assumes "h_platform h = ''linux''"
  shows "keeps (permitted_call h policy (rq_tool action)) (executeAllowed h policy action)"
proof (cases "rq_capability action = TOOL_CAPABILITY_MAP (rq_tool action) \<and> ap_capabilities policy (TOOL_CAPABILITY_MAP (rq_tool action))")
  case False
  then show ?thesis by (auto simp: executeAllowed_def Let_def capability_denied_def intro: keeps_throw)
next
  case True
  define timeout where "timeout = map_option (\<lambda>s. min s (ap_maxActionTimeoutSeconds policy))
    (number_or (map_of (rq_args action) ''timeout_seconds'') (ap_maxActionTimeoutSeconds policy))"
  have time: "in_time policy timeout" by (simp add: in_time_def timeout_def split: option.splits)
  have shell: "platformShell h c = (''/bin/sh'', [''-lc'', c])" for c using assms by (simp add: platformShell_def)
  note run = keeps_runCommand [OF conjunct2 [OF True] _ time]
  note tools = getSystemStatus_def tailLogs_def restartService_def dockerLogs_def dockerRestart_def runShellAsRoot_def
    runShell_def policy_error_def fileRead_def fileWrite_def
  show ?thesis
  proof (cases "rq_tool action")
    case FileWrite
    with True keeps_write_tool [OF assms] show ?thesis
      by (simp add: executeAllowed_def Let_def)
        (intro keeps_scalar, simp add: fileWrite_def, intro keeps_bind keeps_ret; blast)
  next
    case FileRead
    with True show ?thesis
      by (simp add: executeAllowed_def Let_def)
        (intro keeps_scalar, simp add: fileRead_def, intro keeps_read_tool [OF assms reads_bounded]; simp)
  next
    case TailLogs
    with True run show ?thesis
      by (simp add: executeAllowed_def Let_def flip: timeout_def)
        (intro keeps_scalar, simp add: tailLogs_def policy_error_def assms Let_def,
         intro conjI impI keeps_throw keeps_safe keeps_read_tool [OF assms reads_tail]; simp add: permitted_command_def)
  next
    case RestartService
    with True run show ?thesis
      by (simp add: executeAllowed_def Let_def flip: timeout_def)
        (intro keeps_scalar, simp add: restartService_def policy_error_def assms Let_def,
         intro conjI impI keeps_throw keeps_safe; simp add: permitted_command_def)
  next
    case DockerLogs
    with True run show ?thesis
      by (simp add: executeAllowed_def Let_def flip: timeout_def)
        (intro keeps_scalar, simp add: dockerLogs_def policy_error_def assms Let_def,
         intro conjI impI keeps_throw keeps_safe; simp add: permitted_command_def)
  next
    case DockerRestart
    with True run show ?thesis
      by (simp add: executeAllowed_def Let_def flip: timeout_def)
        (intro keeps_scalar, simp add: dockerRestart_def policy_error_def assms Let_def,
         intro conjI impI keeps_throw keeps_safe; simp add: permitted_command_def)
  next
    case GetSystemStatus
    with True run show ?thesis
      by (simp add: executeAllowed_def Let_def tools assms shell permitted_command_def flip: timeout_def)
  next
    case DockerPs
    with True run show ?thesis
      by (simp add: executeAllowed_def Let_def permitted_command_def flip: timeout_def)
  next
    case RunShell
    with True time keeps_runShell(1) [OF assms] show ?thesis
      by (simp add: executeAllowed_def Let_def flip: timeout_def) (intro keeps_scalar keeps_cwd, simp)
  next
    case RunShellAsRoot
    with True time keeps_runShell(2) [OF assms] show ?thesis
      by (simp add: executeAllowed_def Let_def flip: timeout_def) (intro keeps_scalar keeps_cwd, simp)
  qed (use True in \<open>simp_all add: executeAllowed_def Let_def keeps_throw\<close>)
qed

text \<open>
  C13: whatever an action asks for, and whatever happens on the (Linux) host meanwhile, every call the
  agent makes for it is permitted: the capability of the tool is enabled in the local policy and is
  the one the action names, a command is the fixed command of the tool with an allowed and
  well-formed name, within the time limit of the policy, and a file is touched only through
  handles that were vouched for, and changed only by the writing tool.
\<close>

theorem agent_action_confined:
  assumes "h_platform h = ''linux''" and "executeAllowed h policy action t = (r, t')"
  shows "\<exists>calls. t' = t @ calls \<and> each_ok (permitted_call h policy (rq_tool action)) t calls \<and>
    (rq_capability action \<noteq> TOOL_CAPABILITY_MAP (rq_tool action) \<longrightarrow> calls = [])"
proof -
  have g: "guarded (permitted_call h policy (rq_tool action)) t t'"
    using keeps_executeAllowed [OF assms(1), of policy action] assms(2) unfolding keeps_def by (metis snd_conv)
  from guarded_extends [OF this] obtain calls where c: "t' = t @ calls" by blast
  have "calls = []" if "rq_capability action \<noteq> TOOL_CAPABILITY_MAP (rq_tool action)"
    using assms(2) that c by (simp add: executeAllowed_def Let_def capability_denied_def io_throw_def)
  with g c show ?thesis by auto
qed

definition restart_action :: "string \<Rightarrow> action_request" where
  "restart_action service =
     \<lparr> rq_action_id = ''act_1'', rq_agent_id = ''agt_1'', rq_user_id = ''u'', rq_tool = RestartService,
       rq_capability = ServiceManage, rq_args = [(''service'', JStr service)], rq_policy_version = 1, rq_issued_at = 0,
       rq_deadline = 1000, rq_nonce = ''nonce'' \<rparr>"

lemmas executor_defs = executeAllowed_def Let_def restart_action_def scalarActionArgument_def restartService_def
  assertSafeIdentifier_def runCommand_def io_defs number_or_def

lemma restart_run:
  "isServiceAllowed policy s \<Longrightarrow> SAFE_IDENTIFIER_PATTERN s \<Longrightarrow> s \<noteq> [] \<Longrightarrow> ap_capabilities policy ServiceManage \<Longrightarrow>
   snd (executeAllowed linked_host policy (restart_action s) []) =
     [OpSpawn ''systemctl'' [''restart'', s] None (Some (ap_maxActionTimeoutSeconds policy * 1000))]"
  by (simp add: executor_defs) (simp add: linked_host_def Let_def)

theorem agent_action_confined_witness:
  "\<exists>calls. calls \<noteq> [] \<and> each_ok (permitted_call linked_host (createAgentPolicy FullAdmin) RestartService) [] calls"
proof -
  have a: "snd (executeAllowed linked_host (createAgentPolicy FullAdmin) (restart_action ''nginx'') []) \<noteq> []"
    by (subst restart_run) (simp_all add: isServiceAllowed_def createAgentPolicy_def REMOTE_CAPABILITIES_def
        SAFE_IDENTIFIER_PATTERN_def is_alpha_def is_upper_def is_lower_def char_between_def Let_def)
  have p: "h_platform linked_host = ''linux''" by (simp add: linked_host_def Let_def)
  from agent_action_confined [OF p, of "createAgentPolicy FullAdmin" "restart_action ''nginx''" "[]"] a
  show ?thesis by (metis append_Nil prod.collapse restart_action_def action_request.select_convs(4))
qed

text \<open>
  A well-formed name may begin with a dash. With every service allowed, a service so named is an
  option of the command: here a whole other host is named to \<open>systemctl\<close>.
\<close>

lemma service_name_is_option:
  "snd (executeAllowed linked_host (createAgentPolicy FullAdmin) (restart_action ''-Hroot@other'') []) =
     [OpSpawn ''systemctl'' [''restart'', ''-Hroot@other''] None (Some 120000)]"
  by (subst restart_run) (simp_all add: isServiceAllowed_def createAgentPolicy_def REMOTE_CAPABILITIES_def
      SAFE_IDENTIFIER_PATTERN_def is_alpha_def is_upper_def is_lower_def char_between_def Let_def)

end
