(* ===== verification/AgentRuntime.thy ===== *)
theory AgentRuntime
  imports AgentExecutorProps AgentHandler
begin

section \<open>The agent process: \<open>src/remote/agent-cli.ts\<close>, \<open>execute\<close> of \<open>src/remote/agent-executor.ts\<close>\<close>

text \<open>
  The agent enrols, connects, says hello and then obeys signed messages of its control plane: it
  installs policies and executes actions, each once. Its state is the configuration (with the
  policy), the two replay windows, what it sent, what it reported and the calls it made on the host.
  The events are reported to the activity log. An action is executed in the step of its message: the
  answers of the host are arbitrary anyway, so other messages in between would change nothing it sees
  but the moment its result is sent.
\<close>

record agent_config =
  cf_server :: string
  cf_agentId :: string
  cf_alias :: string
  cf_publicKeyPem :: string
  cf_privateKeyPem :: string
  cf_controlPlanePublicKeyPem :: string
  cf_policy :: agent_policy
  cf_websocketUrl :: string
  cf_enrolledAt :: string

datatype activity_level = LvInfo | LvOk | LvWarn | LvError

type_synonym activity = "activity_level \<times> string \<times> string"

record agent_runtime =
  rn_config :: agent_config
  rn_executorPolicy :: agent_policy
  rn_savedPolicies :: "agent_policy list"
  rn_seenActions :: replay_window
  rn_seenPolicyUpdateNonces :: nonce_window
  rn_sent :: "entries list"
  rn_activity :: "activity list"
  rn_output :: "string list"
  rn_history :: history

text \<open>
  The cryptography of Node, the date syntax and reading of dates, the text of an error of the
  operating system, and whether the configuration file can be written.
\<close>

record runtime_env =
  re_verify :: "string \<Rightarrow> string \<Rightarrow> string \<Rightarrow> bool"
  re_sign :: "string \<Rightarrow> string \<Rightarrow> string"
  re_is_iso :: "string \<Rightarrow> bool"
  re_date_ms :: "string \<Rightarrow> int option"
  re_iso :: "int \<Rightarrow> string"
  re_os_message :: "string \<Rightarrow> string"
  re_save_ok :: bool
  re_host :: host

definition event :: "activity_level \<Rightarrow> string \<Rightarrow> string \<Rightarrow> agent_runtime \<Rightarrow> agent_runtime" where
  "event level name message st = st\<lparr> rn_activity := rn_activity st @ [(level, name, message)] \<rparr>"

definition print_line :: "string \<Rightarrow> agent_runtime \<Rightarrow> agent_runtime" where
  "print_line line st = st\<lparr> rn_output := rn_output st @ [line] \<rparr>"

subsection \<open>Command line and enrolment\<close>

definition removeTrailingSlashes :: "string \<Rightarrow> string" where
  "removeTrailingSlashes v = rev (dropWhile (\<lambda>c. c = SLASH) (rev v))"

text \<open>The word after the first occurrence of the flag.\<close>

fun parseFlag :: "string list \<Rightarrow> string \<Rightarrow> string option" where
  "parseFlag [] name = None"
| "parseFlag (w # ws) name = (if w = name then (case ws of [] \<Rightarrow> None | v # _ \<Rightarrow> Some v) else parseFlag ws name)"

definition requireString :: "json option \<Rightarrow> string \<Rightarrow> string + string" where
  "requireString v name =
     (case asString v of
        Some s \<Rightarrow> if s = [] then Inl (name @ '' is required'') else Inr s
      | None \<Rightarrow> Inl (name @ '' is required''))"

definition requirePolicy :: "json option \<Rightarrow> string + agent_policy" where
  "requirePolicy v =
     (case v of
        None \<Rightarrow> Inl ''Agent policy is missing from enrollment response''
      | Some j \<Rightarrow> (case parseAgentPolicy j of
          None \<Rightarrow> Inl ''Agent policy is missing from enrollment response''
        | Some p \<Rightarrow> Inr p))"

text \<open>
  \<open>postJson\<close> is the request to the server: it gives the entries of the response or throws. The keys
  and the host name come from the host.
\<close>

definition enroll ::
    "(string \<Rightarrow> entries \<Rightarrow> string + entries) \<Rightarrow> string \<times> string \<Rightarrow> string \<Rightarrow> json \<Rightarrow> string \<Rightarrow> string \<Rightarrow>
     string list \<Rightarrow> string + agent_config" where
  "enroll postJson keyPair hostname host version now argv =
     (let server = removeTrailingSlashes (case parseFlag argv ''--server'' of Some s \<Rightarrow> s | None \<Rightarrow> []);
          token = parseFlag argv ''--token'';
          alias = (case parseFlag argv ''--alias'' of Some a \<Rightarrow> a | None \<Rightarrow> hostname)
      in if server = [] \<or> \<not> truthy token then
           Inl ''Usage: ssh-mcp-pro-agent enroll --server <url> --token <token> --alias <alias>''
         else
           bind_res (postJson (server @ ''/api/agents/enroll'')
             [(''token'', JStr (the token)), (''public_key'', JStr (fst keyPair)), (''alias'', JStr alias),
              (''agent_version'', JStr version), (''host'', host)]) (\<lambda>response.
           bind_res (requireString (map_of response ''agent_id'') ''agent_id'') (\<lambda>agentId.
           bind_res (requireString (map_of response ''alias'') ''alias'') (\<lambda>alias'.
           bind_res (requireString (map_of response ''control_plane_public_key'') ''control_plane_public_key'') (\<lambda>publicKey.
           bind_res (requirePolicy (map_of response ''policy'')) (\<lambda>policy.
           bind_res (requireString (map_of response ''websocket_url'') ''websocket_url'') (\<lambda>url.
           Inr \<lparr> cf_server = server, cf_agentId = agentId, cf_alias = alias', cf_publicKeyPem = fst keyPair,
                 cf_privateKeyPem = snd keyPair, cf_controlPlanePublicKeyPem = publicKey, cf_policy = policy,
                 cf_websocketUrl = url, cf_enrolledAt = now \<rparr>)))))))"

subsection \<open>Results of actions\<close>

text \<open>\<open>signResult\<close> puts the signature in the place of the empty one.\<close>

definition set_signature :: "string \<Rightarrow> entries \<Rightarrow> entries" where
  "set_signature s es = map (\<lambda>e. if fst e = ''signature'' then (''signature'', JStr s) else e) es"

definition signResult :: "runtime_env \<Rightarrow> string \<Rightarrow> entries \<Rightarrow> entries" where
  "signResult env privateKey result = set_signature (signEnvelope (re_sign env) result privateKey) result"

definition result_ok :: "action_request \<Rightarrow> string \<Rightarrow> string \<Rightarrow> string \<Rightarrow> exec_result \<Rightarrow> entries" where
  "result_ok action nonce startedAt finishedAt result =
     [(''type'', JStr ''action.result''), (''action_id'', JStr (rq_action_id action)), (''agent_id'', JStr (rq_agent_id action)),
      (''nonce'', JStr nonce), (''status'', JStr ''ok''), (''exit_code'', JNum (ex_exitCode result)),
      (''stdout'', JStr (ex_stdout result)), (''stderr'', JStr (ex_stderr result)), (''started_at'', JStr startedAt),
      (''finished_at'', JStr finishedAt), (''truncated'', JBool (ex_truncated result)), (''signature'', JStr [])]"

definition result_error :: "action_request \<Rightarrow> string \<Rightarrow> string \<Rightarrow> string \<Rightarrow> string \<Rightarrow> string \<Rightarrow> entries" where
  "result_error action nonce startedAt finishedAt code message =
     [(''type'', JStr ''action.result''), (''action_id'', JStr (rq_action_id action)), (''agent_id'', JStr (rq_agent_id action)),
      (''nonce'', JStr nonce), (''status'', JStr ''error''), (''started_at'', JStr startedAt),
      (''finished_at'', JStr finishedAt), (''truncated'', JBool False), (''error_code'', JStr code),
      (''message'', JStr message), (''signature'', JStr [])]"

definition failure_message :: "runtime_env \<Rightarrow> failure \<Rightarrow> string" where
  "failure_message env e = (case e of OsError s \<Rightarrow> re_os_message env s | Coded _ m \<Rightarrow> m)"

definition execute ::
    "runtime_env \<Rightarrow> agent_policy \<Rightarrow> string \<Rightarrow> string \<Rightarrow> string \<Rightarrow> string \<Rightarrow> action_request \<Rightarrow> history \<Rightarrow> entries \<times> history" where
  "execute env policy privateKey nonce startedAt finishedAt action t =
     (case executeAllowed (re_host env) policy action t of
        (Inr result, t') \<Rightarrow> (signResult env privateKey (result_ok action nonce startedAt finishedAt result), t')
      | (Inl e, t') \<Rightarrow>
          (signResult env privateKey (result_error action nonce startedAt finishedAt (errorCode e) (failure_message env e)), t'))"

subsection \<open>Messages\<close>

definition handleAgentControlMessage :: "entries \<Rightarrow> agent_runtime \<Rightarrow> bool \<times> agent_runtime" where
  "handleAgentControlMessage payload st =
     (if map_of payload ''type'' = Some (JStr ''agent.ready'') then
        (True, if map_of payload ''agent_id'' = Some (JStr (cf_agentId (rn_config st)))
               then print_line (''Agent connected: '' @ cf_agentId (rn_config st))
                      (event LvOk ''agent_ready'' ''Identity confirmed. Agent ready for requests.'' st)
               else st)
      else if map_of payload ''type'' = Some (JStr ''error'') then
        (True, event LvError ''control_plane_error'' ''Server rejected an agent message.'' st)
      else (False, st))"

fun rejection_name :: "policy_update_rejection \<Rightarrow> string" where
  "rejection_name Replay = ''replay''"
| "rejection_name Stale = ''stale''"
| "rejection_name Future = ''future''"
| "rejection_name VersionMismatch = ''version_mismatch''"
| "rejection_name NotNewer = ''not_newer''"

text \<open>The handler of a message that throws reports a failed action.\<close>

definition message_error :: "agent_runtime \<Rightarrow> agent_runtime" where
  "message_error st = event LvError ''action_failed'' ''Action processing failed; details withheld.'' st"

definition applyAgentPolicyUpdate :: "runtime_env \<Rightarrow> int \<Rightarrow> policy_update \<Rightarrow> agent_runtime \<Rightarrow> agent_runtime" where
  "applyAgentPolicyUpdate env now update st =
     (case validatePolicyUpdate update (ap_version (cf_policy (rn_config st))) (rn_seenPolicyUpdateNonces st) now of
        (Some reason, nonces) \<Rightarrow>
          event LvWarn ''policy_rejected'' (''Policy update rejected: '' @ rejection_name reason)
            (st\<lparr> rn_seenPolicyUpdateNonces := nonces \<rparr>)
      | (None, nonces) \<Rightarrow>
          if \<not> re_save_ok env then message_error (st\<lparr> rn_seenPolicyUpdateNonces := nonces \<rparr>)
          else event LvOk ''policy_updated''
            (''Policy updated: '' @ profile_name (ap_profile (pu_policy update)) @ '' v'' @ show_int (ap_version (pu_policy update)))
            (st\<lparr> rn_savedPolicies := rn_savedPolicies st @ [pu_policy update],
                 rn_seenPolicyUpdateNonces := rememberAcceptedPolicyUpdate nonces (pu_nonce update) now,
                 rn_config := (rn_config st)\<lparr> cf_policy := pu_policy update \<rparr>,
                 rn_executorPolicy := pu_policy update \<rparr>))"

definition acceptAgentAction :: "int \<Rightarrow> action_request \<Rightarrow> agent_runtime \<Rightarrow> bool \<times> agent_runtime" where
  "acceptAgentAction now action st =
     (if map_get (rn_seenActions st) (rq_action_id action) \<noteq> None then
        (False, event LvWarn ''action_replay'' ''Duplicate action ignored.'' st)
      else if rq_deadline action < now then
        (False, event LvWarn ''action_expired'' ''Expired action ignored.'' st)
      else if rq_policy_version action \<noteq> ap_version (cf_policy (rn_config st)) \<and>
              rq_policy_version action \<noteq> ap_version (cf_policy (rn_config st)) + 1 then
        (False, event LvWarn ''policy_mismatch'' ''Action policy version mismatch.'' st)
      else (True, st))"

definition MAX_SEEN_ACTIONS :: nat where
  "MAX_SEEN_ACTIONS = 10000"

definition rememberAction :: "int \<Rightarrow> string \<Rightarrow> int \<Rightarrow> replay_window \<Rightarrow> bool \<times> replay_window" where
  "rememberAction now actionId deadline seen =
     (let pruned = prune_window now seen
      in if map_get pruned actionId \<noteq> None then (False, pruned)
         else (True, drop_oldest MAX_SEEN_ACTIONS (\<lambda>oldest. oldest = []) (map_set actionId deadline pruned)))"

definition runAction :: "runtime_env \<Rightarrow> int \<Rightarrow> int \<Rightarrow> string \<Rightarrow> action_request \<Rightarrow> agent_runtime \<Rightarrow> agent_runtime" where
  "runAction env now finished nonce action st =
     (let st1 = st\<lparr> rn_seenActions := snd (rememberAction now (rq_action_id action) (rq_deadline action) (rn_seenActions st)) \<rparr>;
          st2 = event LvInfo ''action_started'' (''Request received: '' @ tool_name (rq_tool action)) st1;
          (result, t) = execute env (rn_executorPolicy st2) (cf_privateKeyPem (rn_config st2)) nonce
                          (re_iso env now) (re_iso env finished) action (rn_history st2);
          status = (case map_of result ''status'' of Some (JStr s) \<Rightarrow> s | _ \<Rightarrow> [])
      in event (if status = ''ok'' then LvOk else LvWarn) ''action_finished''
           (''Request '' @ tool_name (rq_tool action) @ '' completed: '' @ status @ '' ('' @ show_int (finished - now) @ '' ms)'')
           (st2\<lparr> rn_history := t, rn_sent := rn_sent st2 @ [result] \<rparr>))"

text \<open>A message; \<open>None\<close> is a text that is no JSON.\<close>

definition onmessage :: "runtime_env \<Rightarrow> int \<Rightarrow> int \<Rightarrow> string \<Rightarrow> json option \<Rightarrow> agent_runtime \<Rightarrow> agent_runtime" where
  "onmessage env now finished nonce raw st =
     (case raw of
        None \<Rightarrow> message_error st
      | Some payload \<Rightarrow>
          (case isRecord payload of
             None \<Rightarrow> event LvWarn ''message_rejected'' ''Malformed control-plane message ignored.'' st
           | Some es \<Rightarrow>
               (case handleAgentControlMessage es st of
                  (True, st1) \<Rightarrow> st1
                | (False, _) \<Rightarrow>
                    (case parseControlPlaneEnvelope (re_is_iso env) (re_date_ms env) payload of
                       None \<Rightarrow> event LvWarn ''message_rejected'' ''Invalid control-plane envelope ignored.'' st
                     | Some envelope \<Rightarrow>
                         if (case envelope of ActionRequest a \<Rightarrow> rq_agent_id a | PolicyUpdate u \<Rightarrow> pu_agent_id u) \<noteq> cf_agentId (rn_config st)
                         then st
                         else if \<not> verifyEnvelope (re_verify env) es (cf_controlPlanePublicKeyPem (rn_config st)) then
                           event LvWarn ''signature_rejected'' ''Unverified control-plane message ignored.'' st
                         else case envelope of
                           PolicyUpdate update \<Rightarrow> applyAgentPolicyUpdate env now update st
                         | ActionRequest action \<Rightarrow>
                             (case acceptAgentAction now action st of
                                (False, st1) \<Rightarrow> st1
                              | (True, st1) \<Rightarrow> runAction env now finished nonce action st1)))))"

subsection \<open>Starting\<close>

definition host_json :: "agent_host_metadata \<Rightarrow> json" where
  "host_json m = JObj [(''hostname'', JStr (hm_hostname m)), (''os'', JStr (hm_os m)), (''arch'', JStr (hm_arch m)),
     (''platform'', JStr (hm_platform m))]"

definition hello_message :: "agent_config \<Rightarrow> string \<Rightarrow> string \<Rightarrow> string \<Rightarrow> agent_host_metadata \<Rightarrow> entries" where
  "hello_message config timestamp nonce version host =
     [(''type'', JStr ''agent.hello''), (''agent_id'', JStr (cf_agentId config)), (''timestamp'', JStr timestamp),
      (''nonce'', JStr nonce),
      (''capabilities'', JArr (map (\<lambda>c. JStr (capability_name c)) (filter (ap_capabilities (cf_policy config)) REMOTE_CAPABILITIES))),
      (''agent_version'', JStr version), (''host'', host_json host), (''signature'', JStr [])]"

definition onopen :: "runtime_env \<Rightarrow> string \<Rightarrow> string \<Rightarrow> string \<Rightarrow> agent_host_metadata \<Rightarrow> agent_runtime \<Rightarrow> agent_runtime" where
  "onopen env timestamp nonce version host st =
     (let hello = hello_message (rn_config st) timestamp nonce version host;
          signed = set_signature (signEnvelope (re_sign env) hello (cf_privateKeyPem (rn_config st))) hello
      in event LvInfo ''transport_open'' ''Transport open. Validating agent identity.'' (st\<lparr> rn_sent := rn_sent st @ [signed] \<rparr>))"

definition runAgent :: "agent_config \<Rightarrow> agent_runtime" where
  "runAgent config =
     event LvInfo ''agent_starting'' ''Agent starting. Preparing outbound connection.''
       \<lparr> rn_config = config, rn_executorPolicy = cf_policy config, rn_savedPolicies = [], rn_seenActions = [],
         rn_seenPolicyUpdateNonces = [], rn_sent = [], rn_activity = [], rn_output = [], rn_history = [] \<rparr>"

definition agent_status :: "string \<Rightarrow> agent_config option \<Rightarrow> string list" where
  "agent_status configPath config =
     (case config of
        None \<Rightarrow> [''Agent is not enrolled.'']
      | Some c \<Rightarrow>
          [''Agent ID: '' @ cf_agentId c, ''Alias: '' @ cf_alias c, ''Server: '' @ cf_server c,
           ''Profile: '' @ profile_name (ap_profile (cf_policy c)), ''Config: '' @ configPath,
           ''Activity log: '' @ posix_join [posix_dirname configPath, ''logs'', ''agent-activity.jsonl'']])"

end
