(* ===== verification/AgentRuntimeProps.thy ===== *)
theory AgentRuntimeProps
  imports AgentRuntime
begin

section \<open>Properties of the agent process\<close>

text \<open>
  What a message can make an agent do, that the same message does it once, that the policy in force is
  well-formed whatever the control plane sends, and that the control plane can read what the agent
  answers.
\<close>

subsection \<open>One message\<close>

lemma event_simps [simp]:
  "rn_config (event l n m st) = rn_config st" "rn_executorPolicy (event l n m st) = rn_executorPolicy st"
  "rn_seenActions (event l n m st) = rn_seenActions st" "rn_sent (event l n m st) = rn_sent st"
  "rn_history (event l n m st) = rn_history st" "rn_seenPolicyUpdateNonces (event l n m st) = rn_seenPolicyUpdateNonces st"
  by (simp_all add: event_def)

lemma print_line_simps [simp]:
  "rn_config (print_line l st) = rn_config st" "rn_executorPolicy (print_line l st) = rn_executorPolicy st"
  "rn_seenActions (print_line l st) = rn_seenActions st" "rn_sent (print_line l st) = rn_sent st"
  "rn_history (print_line l st) = rn_history st"
  by (simp_all add: print_line_def)

text \<open>The parts of the state that matter for what the agent obeys.\<close>

definition same_conduct :: "agent_runtime \<Rightarrow> agent_runtime \<Rightarrow> bool" where
  "same_conduct st st' \<longleftrightarrow>
     rn_config st' = rn_config st \<and> rn_executorPolicy st' = rn_executorPolicy st \<and> rn_seenActions st' = rn_seenActions st \<and>
     rn_sent st' = rn_sent st \<and> rn_history st' = rn_history st"

lemma same_conduct_refl [simp]: "same_conduct st st" "same_conduct st (event l n m st)" "same_conduct st (message_error st)"
  by (simp_all add: same_conduct_def message_error_def)

lemma control_message_conduct: "same_conduct st (snd (handleAgentControlMessage es st))"
  by (simp add: handleAgentControlMessage_def same_conduct_def)

text \<open>A message that is a genuine order of the control plane.\<close>

definition genuine :: "runtime_env \<Rightarrow> agent_runtime \<Rightarrow> json option \<Rightarrow> control_envelope \<Rightarrow> bool" where
  "genuine env st raw envelope \<longleftrightarrow>
     (\<exists>es. raw = Some (JObj es) \<and> parseControlPlaneEnvelope (re_is_iso env) (re_date_ms env) (JObj es) = Some envelope \<and>
        verifyEnvelope (re_verify env) es (cf_controlPlanePublicKeyPem (rn_config st)) \<and>
        (case envelope of ActionRequest a \<Rightarrow> rq_agent_id a | PolicyUpdate u \<Rightarrow> pu_agent_id u) = cf_agentId (rn_config st))"

lemma genuine_unique: "genuine env st raw e \<Longrightarrow> genuine env st' raw e' \<Longrightarrow> e = e'"
  by (auto simp: genuine_def)

lemma isRecord_Some: "isRecord v = Some es \<longleftrightarrow> v = JObj es"
  by (simp add: isRecord_def split: json.splits)

lemma onmessage_cases:
  obtains (quiet) "same_conduct st (onmessage env now finished nonce raw st)"
  | (update) u where "genuine env st raw (PolicyUpdate u)"
      "onmessage env now finished nonce raw st = applyAgentPolicyUpdate env now u st"
  | (action) a where "genuine env st raw (ActionRequest a)" "fst (acceptAgentAction now a st)"
      "onmessage env now finished nonce raw st = runAction env now finished nonce a st"
proof (cases raw)
  case None
  then show ?thesis by (intro quiet) (simp add: onmessage_def)
next
  case (Some payload)
  show ?thesis
  proof (cases "isRecord payload")
    case None
    with Some show ?thesis by (intro quiet) (simp add: onmessage_def)
  next
    case es: (Some es)
    then have p: "payload = JObj es" by (simp add: isRecord_Some)
    obtain b st1 where c: "handleAgentControlMessage es st = (b, st1)" by (cases "handleAgentControlMessage es st")
    show ?thesis
    proof (cases b)
      case True
      with Some es c control_message_conduct [of st es] show ?thesis by (intro quiet) (simp add: onmessage_def)
    next
      case b: False
      show ?thesis
      proof (cases "parseControlPlaneEnvelope (re_is_iso env) (re_date_ms env) payload")
        case None
        with Some es c b show ?thesis by (intro quiet) (simp add: onmessage_def)
      next
        case e: (Some envelope)
        note start = Some es c b e p
        show ?thesis
        proof (cases "genuine env st raw envelope")
          case False
          with start have "onmessage env now finished nonce raw st \<in> {st, event LvWarn ''signature_rejected'' ''Unverified control-plane message ignored.'' st}"
            by (auto simp: onmessage_def genuine_def)
          then show ?thesis by (intro quiet) auto
        next
          case True
          show ?thesis
          proof (cases envelope)
            case (PolicyUpdate u)
            with start True show ?thesis by (intro update) (auto simp: onmessage_def genuine_def)
          next
            case (ActionRequest a)
            obtain ok st2 where k: "acceptAgentAction now a st = (ok, st2)" by (cases "acceptAgentAction now a st")
            have s: "same_conduct st st2" "ok \<Longrightarrow> st2 = st"
              using k by (auto simp: acceptAgentAction_def split: if_splits)
            have m: "onmessage env now finished nonce raw st = (if ok then runAction env now finished nonce a st2 else st2)"
              using start True ActionRequest k by (auto simp: onmessage_def genuine_def)
            show ?thesis
            proof (cases ok)
              case True
              with m s k ActionRequest \<open>genuine env st raw envelope\<close> show ?thesis by (intro action) auto
            next
              case False
              with m s show ?thesis by (intro quiet) simp
            qed
          qed
        qed
      qed
    qed
  qed
qed

lemma acceptAgentAction_iff:
  "fst (acceptAgentAction now a st) \<longleftrightarrow>
     map_get (rn_seenActions st) (rq_action_id a) = None \<and> now \<le> rq_deadline a \<and>
     rq_policy_version a \<in> {ap_version (cf_policy (rn_config st)), ap_version (cf_policy (rn_config st)) + 1}"
  by (auto simp: acceptAgentAction_def)

lemma runAction_effect:
  "rn_config (runAction env now finished nonce a st) = rn_config st"
  "rn_executorPolicy (runAction env now finished nonce a st) = rn_executorPolicy st"
  "rn_seenActions (runAction env now finished nonce a st) = snd (rememberAction now (rq_action_id a) (rq_deadline a) (rn_seenActions st))"
  "rn_sent (runAction env now finished nonce a st) = rn_sent st @
     [fst (execute env (rn_executorPolicy st) (cf_privateKeyPem (rn_config st)) nonce (re_iso env now) (re_iso env finished) a (rn_history st))]"
  "rn_history (runAction env now finished nonce a st) =
     snd (execute env (rn_executorPolicy st) (cf_privateKeyPem (rn_config st)) nonce (re_iso env now) (re_iso env finished) a (rn_history st))"
  by (simp_all add: runAction_def Let_def split_beta)

text \<open>
  An update that is new to the agent, not older than five minutes nor more than half a minute ahead of
  its clock, and of a version above the one in force; and what it means to install one.
\<close>

definition fresh_update :: "int \<Rightarrow> agent_runtime \<Rightarrow> policy_update \<Rightarrow> bool" where
  "fresh_update now st u \<longleftrightarrow>
     (\<forall>(nonce, expiresAt) \<in> set (rn_seenPolicyUpdateNonces st). nonce = pu_nonce u \<longrightarrow> expiresAt \<le> now) \<and>
     (\<exists>issuedAt. pu_issued_at u = Some issuedAt \<and> now - issuedAt \<le> 5 * 60 * 1000 \<and> issuedAt - now \<le> 30 * 1000) \<and>
     pu_policy_version u = ap_version (pu_policy u) \<and> ap_version (cf_policy (rn_config st)) < ap_version (pu_policy u)"

definition installs :: "int \<Rightarrow> agent_runtime \<Rightarrow> policy_update \<Rightarrow> agent_runtime \<Rightarrow> bool" where
  "installs now st u st' \<longleftrightarrow>
     rn_config st' = (rn_config st)\<lparr> cf_policy := pu_policy u \<rparr> \<and> rn_executorPolicy st' = pu_policy u \<and>
     rn_savedPolicies st' = rn_savedPolicies st @ [pu_policy u] \<and>
     map_get (rn_seenPolicyUpdateNonces st') (pu_nonce u) = Some (now + 5 * 60 * 1000) \<and>
     rn_seenActions st' = rn_seenActions st \<and> rn_sent st' = rn_sent st \<and> rn_history st' = rn_history st"

lemma unseen_nonce: "\<not> fst (hasSeenNonce n now w) \<longleftrightarrow> (\<forall>(k, e) \<in> set w. k = n \<longrightarrow> e \<le> now)"
  by (force simp: hasSeenNonce_def pruneNonceWindow_def prune_window_def Let_def map_of_eq_None_iff)

lemma validate_accepts:
  "fst (validatePolicyUpdate u (ap_version (cf_policy (rn_config st))) (rn_seenPolicyUpdateNonces st) now) = None \<longleftrightarrow>
     fresh_update now st u"
  using unseen_nonce [of "pu_nonce u" now "rn_seenPolicyUpdateNonces st"]
  by (auto simp: validatePolicyUpdate_def fresh_update_def POLICY_UPDATE_MAX_AGE_MS_def POLICY_UPDATE_MAX_FUTURE_SKEW_MS_def
      AGENT_NONCE_TTL_MS_def split: prod.splits option.splits)

lemma remembered_last: "map_get w n = None \<Longrightarrow> map_get (rememberNonce n now w) n = Some (now + AGENT_NONCE_TTL_MS)"
proof -
  assume "map_get w n = None"
  then have "n \<notin> fst ` set (prune_window now w)" by (force simp: prune_window_def map_of_eq_None_iff)
  then have "map_set n (now + AGENT_NONCE_TTL_MS) (prune_window now w) = prune_window now w @ [(n, now + AGENT_NONCE_TTL_MS)]"
    using update_append_new [of n "prune_window now w" "now + AGENT_NONCE_TTL_MS" "[]"] by simp
  moreover obtain b where "drop_oldest MAX_AGENT_CONNECTION_NONCES (\<lambda>_. False) (prune_window now w @ [(n, now + AGENT_NONCE_TTL_MS)] @ []) =
      b @ [(n, now + AGENT_NONCE_TTL_MS)] @ []" "set b \<subseteq> set (prune_window now w)"
    using drop_oldest_keeps [of "[(n, now + AGENT_NONCE_TTL_MS)]" "[]" MAX_AGENT_CONNECTION_NONCES "\<lambda>_. False" "prune_window now w"]
    by (auto simp: MAX_AGENT_CONNECTION_NONCES_def)
  moreover from this have "n \<notin> fst ` set b" using \<open>n \<notin> fst ` set (prune_window now w)\<close> by auto
  then have "map_get b n = None" by (simp add: map_of_eq_None_iff)
  ultimately show ?thesis by (simp add: rememberNonce_def pruneNonceWindow_def map_add_def)
qed

text \<open>An update the agent received is installed exactly when it is fresh and the configuration can be saved.\<close>

lemma update_exact:
  "fresh_update now st u \<and> re_save_ok env \<Longrightarrow> installs now st u (applyAgentPolicyUpdate env now u st)"
  "\<not> (fresh_update now st u \<and> re_save_ok env) \<Longrightarrow>
     rn_config (applyAgentPolicyUpdate env now u st) = rn_config st \<and>
     rn_executorPolicy (applyAgentPolicyUpdate env now u st) = rn_executorPolicy st \<and>
     rn_savedPolicies (applyAgentPolicyUpdate env now u st) = rn_savedPolicies st"
proof -
  obtain r w where v: "validatePolicyUpdate u (ap_version (cf_policy (rn_config st))) (rn_seenPolicyUpdateNonces st) now = (r, w)"
    by (cases "validatePolicyUpdate u (ap_version (cf_policy (rn_config st))) (rn_seenPolicyUpdateNonces st) now")
  have r: "r = None \<longleftrightarrow> fresh_update now st u" using validate_accepts [of u st now] v by simp
  have w: "w = prune_window now (rn_seenPolicyUpdateNonces st)"
    using v by (auto simp: validatePolicyUpdate_def hasSeenNonce_def pruneNonceWindow_def Let_def)
  show "installs now st u (applyAgentPolicyUpdate env now u st)" if f: "fresh_update now st u \<and> re_save_ok env"
  proof -
    have "map_get w (pu_nonce u) = None"
      using f unfolding w fresh_update_def by (force simp: prune_window_def map_of_eq_None_iff)
    from remembered_last [OF this, of now] show ?thesis
      using r f by (simp add: applyAgentPolicyUpdate_def v installs_def event_def rememberAcceptedPolicyUpdate_def AGENT_NONCE_TTL_MS_def)
  qed
  show "rn_config (applyAgentPolicyUpdate env now u st) = rn_config st \<and>
     rn_executorPolicy (applyAgentPolicyUpdate env now u st) = rn_executorPolicy st \<and>
     rn_savedPolicies (applyAgentPolicyUpdate env now u st) = rn_savedPolicies st"
    if "\<not> (fresh_update now st u \<and> re_save_ok env)"
    using r that by (cases r) (simp_all add: applyAgentPolicyUpdate_def v message_error_def event_def)
qed

lemma update_effect:
  "rn_sent (applyAgentPolicyUpdate env now u st) = rn_sent st"
  "rn_history (applyAgentPolicyUpdate env now u st) = rn_history st"
  "rn_seenActions (applyAgentPolicyUpdate env now u st) = rn_seenActions st"
  "rn_config (applyAgentPolicyUpdate env now u st) = rn_config st \<and>
     rn_executorPolicy (applyAgentPolicyUpdate env now u st) = rn_executorPolicy st \<or>
   ap_version (cf_policy (rn_config st)) < ap_version (pu_policy u) \<and>
     rn_config (applyAgentPolicyUpdate env now u st) = (rn_config st)\<lparr> cf_policy := pu_policy u \<rparr> \<and>
     rn_executorPolicy (applyAgentPolicyUpdate env now u st) = pu_policy u"
proof -
  show "rn_sent (applyAgentPolicyUpdate env now u st) = rn_sent st"
    "rn_history (applyAgentPolicyUpdate env now u st) = rn_history st"
    "rn_seenActions (applyAgentPolicyUpdate env now u st) = rn_seenActions st"
    by (simp_all add: applyAgentPolicyUpdate_def message_error_def split: option.split prod.split)
  show "rn_config (applyAgentPolicyUpdate env now u st) = rn_config st \<and>
     rn_executorPolicy (applyAgentPolicyUpdate env now u st) = rn_executorPolicy st \<or>
   ap_version (cf_policy (rn_config st)) < ap_version (pu_policy u) \<and>
     rn_config (applyAgentPolicyUpdate env now u st) = (rn_config st)\<lparr> cf_policy := pu_policy u \<rparr> \<and>
     rn_executorPolicy (applyAgentPolicyUpdate env now u st) = pu_policy u"
    using update_exact [of now st u env] by (auto simp: installs_def fresh_update_def)
qed

lemma execute_history:
  "snd (execute env policy key nonce s f a t) = snd (executeAllowed (re_host env) policy a t)"
  by (simp add: execute_def split: prod.splits sum.splits)

lemma execute_action_id: "map_of (fst (execute env policy key nonce s f a t)) ''action_id'' = Some (JStr (rq_action_id a))"
  by (simp add: execute_def signResult_def set_signature_def result_ok_def result_error_def split: prod.splits sum.splits)

text \<open>
  C11: a message makes an agent act, answer or change its configuration only if it is a well-formed
  order addressed to it and signed with the key of its control plane. An update then is fresh (its nonce
  is not remembered, it is at most five minutes old and at most half a minute ahead of the clock, and its
  policy has the version it announces, which is above the one in force), and it installs and saves that
  policy, remembers the nonce for five minutes and does nothing else; an action is one the agent has not seen, before
  its deadline and for the policy in force or the next, every call it leads to on a Linux host is
  permitted by the policy of the executor, and exactly one answer about it is sent.
\<close>

theorem agent_obeys_control_plane:
  assumes "h_platform (re_host env) = ''linux''" and "st' = onmessage env now finished nonce raw st"
    and "rn_history st' \<noteq> rn_history st \<or> rn_sent st' \<noteq> rn_sent st \<or> rn_config st' \<noteq> rn_config st"
  shows "(\<exists>u. genuine env st raw (PolicyUpdate u) \<and> fresh_update now st u \<and> installs now st u st') \<or>
    (\<exists>a calls answer. genuine env st raw (ActionRequest a) \<and> map_get (rn_seenActions st) (rq_action_id a) = None \<and>
       now \<le> rq_deadline a \<and>
       rq_policy_version a \<in> {ap_version (cf_policy (rn_config st)), ap_version (cf_policy (rn_config st)) + 1} \<and>
       rn_history st' = rn_history st @ calls \<and>
       each_ok (permitted_call (re_host env) (rn_executorPolicy st) (rq_tool a)) (rn_history st) calls \<and>
       rn_sent st' = rn_sent st @ [answer] \<and> map_of answer ''action_id'' = Some (JStr (rq_action_id a)) \<and>
       rn_config st' = rn_config st)"
proof (cases rule: onmessage_cases [of st env now finished nonce raw])
  case quiet
  with assms(2,3) show ?thesis by (auto simp: same_conduct_def)
next
  case (update u)
  with assms(2,3) update_exact [of now st u env] update_effect(1-3) [of env now u st] show ?thesis by auto
next
  case (action a)
  obtain r t' where e: "executeAllowed (re_host env) (rn_executorPolicy st) a (rn_history st) = (r, t')"
    by (cases "executeAllowed (re_host env) (rn_executorPolicy st) a (rn_history st)")
  have "guarded (permitted_call (re_host env) (rn_executorPolicy st) (rq_tool a)) (rn_history st) t'"
    using keeps_executeAllowed [OF assms(1), of "rn_executorPolicy st" a] e unfolding keeps_def by (metis snd_conv)
  moreover from guarded_extends [OF this] obtain calls where "t' = rn_history st @ calls" by blast
  ultimately show ?thesis
    using action assms(2) e by (auto simp: runAction_effect execute_history execute_action_id acceptAgentAction_iff)
qed

subsection \<open>A concrete agent\<close>

definition demo_runtime_env :: runtime_env where
  "demo_runtime_env = \<lparr> re_verify = (\<lambda>_ _ _. True), re_sign = (\<lambda>_ _. ''sig''), re_is_iso = (\<lambda>_. True),
     re_date_ms = (\<lambda>_. Some 1000), re_iso = (\<lambda>_. ''t''), re_os_message = (\<lambda>s. s), re_save_ok = True, re_host = linked_host \<rparr>"

definition demo_config :: agent_config where
  "demo_config = \<lparr> cf_server = ''https://s'', cf_agentId = ''agt_1'', cf_alias = ''a'', cf_publicKeyPem = ''pub'',
     cf_privateKeyPem = ''priv'', cf_controlPlanePublicKeyPem = ''cp'', cf_policy = createAgentPolicy Operations,
     cf_websocketUrl = ''wss://s'', cf_enrolledAt = ''t'' \<rparr>"

definition demo_order :: "string \<Rightarrow> json" where
  "demo_order actionId = JObj [(''type'', JStr ''action.request''), (''action_id'', JStr actionId), (''agent_id'', JStr ''agt_1''),
     (''user_id'', JStr ''u''), (''tool'', JStr ''docker_ps''), (''capability'', JStr ''docker.manage''), (''args'', JObj []),
     (''policy_version'', JNum 1), (''issued_at'', JStr ''t''), (''deadline'', JStr ''t''), (''nonce'', JStr ''0123456789abcdef''),
     (''signature'', JStr ''sig'')]"

definition demo_request :: "string \<Rightarrow> action_request" where
  "demo_request actionId = \<lparr> rq_action_id = actionId, rq_agent_id = ''agt_1'', rq_user_id = ''u'', rq_tool = DockerPs,
     rq_capability = DockerManage, rq_args = [], rq_policy_version = 1, rq_issued_at = 1000, rq_deadline = 1000,
     rq_nonce = ''0123456789abcdef'' \<rparr>"

lemma demo_order_parse:
  "x \<in> {''act_1'', ''act_2''} \<Longrightarrow>
   parseControlPlaneEnvelope (\<lambda>_. True) (\<lambda>_. Some 1000) (demo_order x) = Some (ActionRequest (demo_request x))"
proof -
  have "parseActionRequestEnvelope (\<lambda>_. True) (\<lambda>_. Some 1000) (demo_order ''act_1'') = Some (demo_request ''act_1'')"
    "parseActionRequestEnvelope (\<lambda>_. True) (\<lambda>_. Some 1000) (demo_order ''act_2'') = Some (demo_request ''act_2'')"
    by code_simp+
  then show "x \<in> {''act_1'', ''act_2''} \<Longrightarrow> ?thesis"
    by (auto simp: parseControlPlaneEnvelope_def isRecord_def demo_order_def)
qed

lemma demo_genuine:
  "x \<in> {''act_1'', ''act_2''} \<Longrightarrow> cf_agentId (rn_config st) = ''agt_1'' \<Longrightarrow>
   genuine demo_runtime_env st (Some (demo_order x)) (ActionRequest (demo_request x))"
  using demo_order_parse [of x]
  by (simp add: genuine_def demo_runtime_env_def demo_order_def demo_request_def verifyEnvelope_def)

lemma demo_linux: "h_platform (re_host demo_runtime_env) = ''linux''"
  by (simp add: demo_runtime_env_def linked_host_def Let_def)

lemma onmessage_action:
  assumes "genuine env st (Some (JObj es)) (ActionRequest a)" and "map_of es ''type'' = Some (JStr ''action.request'')"
  shows "onmessage env now finished nonce (Some (JObj es)) st =
     (if fst (acceptAgentAction now a st) then runAction env now finished nonce a st else snd (acceptAgentAction now a st))"
  using assms
  by (auto simp: onmessage_def isRecord_def genuine_def handleAgentControlMessage_def acceptAgentAction_def)

lemma demo_runs:
  assumes "x \<in> {''act_1'', ''act_2''}" and "rn_config st = demo_config" and "map_get (rn_seenActions st) x = None" and "now \<le> 1000"
  shows "onmessage demo_runtime_env now f n (Some (demo_order x)) st = runAction demo_runtime_env now f n (demo_request x) st"
proof -
  have g: "genuine demo_runtime_env st (Some (demo_order x)) (ActionRequest (demo_request x))"
    by (rule demo_genuine [OF assms(1)]) (simp add: assms(2) demo_config_def)
  have "fst (acceptAgentAction now (demo_request x) st)"
    using assms by (simp add: acceptAgentAction_iff demo_request_def demo_config_def createAgentPolicy_def)
  with onmessage_action [OF g [unfolded demo_order_def]] show ?thesis by (simp add: demo_order_def)
qed

lemma demo_start: "rn_config (runAgent demo_config) = demo_config" "rn_seenActions (runAgent demo_config) = []"
  "rn_sent (runAgent demo_config) = []"
  by (simp_all add: runAgent_def event_def)

theorem agent_obeys_control_plane_witness:
  "rn_sent (onmessage demo_runtime_env 5 6 ''n'' (Some (demo_order ''act_1'')) (runAgent demo_config)) \<noteq> rn_sent (runAgent demo_config) \<and>
   (\<exists>raw_order. genuine demo_runtime_env (runAgent demo_config) (Some (demo_order ''act_1'')) raw_order)"
proof -
  let ?st' = "onmessage demo_runtime_env 5 6 ''n'' (Some (demo_order ''act_1'')) (runAgent demo_config)"
  have s: "rn_sent ?st' \<noteq> rn_sent (runAgent demo_config)"
    by (simp add: demo_runs demo_start runAction_effect)
  from agent_obeys_control_plane [OF demo_linux refl, of 5 6 "''n''" "Some (demo_order ''act_1'')" "runAgent demo_config"] s
  show ?thesis by blast
qed

subsection \<open>Each action once\<close>

interpretation actions: replay_guard "remember_until MAX_SEEN_ACTIONS (\<lambda>oldest. oldest = [])" seen_plain
  "window_held MAX_SEEN_ACTIONS" jsmap_ok MAX_SEEN_ACTIONS
  by (rule replay_guard_plain) (simp add: MAX_SEEN_ACTIONS_def)

lemma rememberAction_window:
  assumes "map_get seen k = None"
  shows "snd (rememberAction now k e seen) = remember_until MAX_SEEN_ACTIONS (\<lambda>oldest. oldest = []) k now e seen"
proof -
  have "map_get (prune_window now seen) k = None"
    using assms by (auto simp: prune_window_def map_of_eq_None_iff)
  then show ?thesis by (simp add: rememberAction_def remember_until_def Let_def)
qed

lemma window_held_less: "window_held cap c k e (Suc j) \<Longrightarrow> window_held cap c k e j"
  unfolding window_held_def by (metis Suc_lessD add_Suc_right)

lemma onmessage_seen_ok: "jsmap_ok (rn_seenActions st) \<Longrightarrow> jsmap_ok (rn_seenActions (onmessage env now f n raw st))"
proof (cases rule: onmessage_cases [of st env now f n raw])
  case (action a)
  then show "jsmap_ok (rn_seenActions st) \<Longrightarrow> ?thesis"
    by (simp add: runAction_effect acceptAgentAction_iff rememberAction_window actions.ok_remember)
qed (auto simp: same_conduct_def update_effect)

lemma onmessage_keeps_held:
  assumes "jsmap_ok (rn_seenActions st)" and "window_held MAX_SEEN_ACTIONS (rn_seenActions st) k e (Suc j)" and "now < e"
  shows "window_held MAX_SEEN_ACTIONS (rn_seenActions (onmessage env now f n raw st)) k e j"
proof (cases rule: onmessage_cases [of st env now f n raw])
  case (action a)
  then have fresh: "map_get (rn_seenActions st) (rq_action_id a) = None" by (simp add: acceptAgentAction_iff)
  with window_held_present [OF assms(2)] have "rq_action_id a \<noteq> k" by auto
  with actions.held_step [OF assms(1,2,3) this] action fresh show ?thesis
    by (simp add: runAction_effect rememberAction_window)
qed (use assms window_held_less in \<open>auto simp: same_conduct_def update_effect\<close>)

fun receive_all :: "runtime_env \<Rightarrow> (int \<times> int \<times> string \<times> json option) list \<Rightarrow> agent_runtime \<Rightarrow> agent_runtime" where
  "receive_all env [] st = st"
| "receive_all env ((now, finished, nonce, raw) # rest) st = receive_all env rest (onmessage env now finished nonce raw st)"

lemma receive_all_held:
  "jsmap_ok (rn_seenActions st) \<Longrightarrow> window_held MAX_SEEN_ACTIONS (rn_seenActions st) k e (j + length ms) \<Longrightarrow>
   \<forall>m \<in> set ms. fst m < e \<Longrightarrow> window_held MAX_SEEN_ACTIONS (rn_seenActions (receive_all env ms st)) k e j"
proof (induction ms arbitrary: st)
  case (Cons m ms)
  obtain now f n raw where m: "m = (now, f, n, raw)" by (cases m)
  have "window_held MAX_SEEN_ACTIONS (rn_seenActions (onmessage env now f n raw st)) k e (j + length ms)"
    by (rule onmessage_keeps_held) (use Cons.prems m in simp_all)
  with Cons.IH [OF onmessage_seen_ok [OF Cons.prems(1)] this] Cons.prems(3) show ?case by (simp add: m)
qed simp

lemma runAction_sends: "rn_sent (runAction env now f n a st) \<noteq> rn_sent st"
  by (simp add: runAction_effect)

text \<open>
  C14: a message that made an agent execute its action never does so again: delivered once more after
  any further messages, fewer than the capacity of the window, it is neither answered nor leads to
  any call, be it before its deadline, when the action is still remembered, or after it, when it has
  expired. (At the very millisecond of the deadline it can be executed a second time, see below.)
\<close>

theorem action_message_single_use:
  assumes "jsmap_ok (rn_seenActions st)" and "genuine env st raw (ActionRequest a)"
    and "rn_sent (onmessage env now f n raw st) \<noteq> rn_sent st"
    and "sorted (map fst ms)" and "\<forall>m \<in> set ms. fst m \<le> later" and "length ms < MAX_SEEN_ACTIONS"
    and "later \<noteq> rq_deadline a"
    and "st' = receive_all env ms (onmessage env now f n raw st)"
  shows "rn_sent (onmessage env later f' n' raw st') = rn_sent st' \<and>
    rn_history (onmessage env later f' n' raw st') = rn_history st'"
proof (cases rule: onmessage_cases [of st' env later f' n' raw])
  case quiet
  then show ?thesis by (simp add: same_conduct_def)
next
  case (update u)
  then show ?thesis by (simp add: update_effect)
next
  case (action b)
  have same: "b = a" using genuine_unique [OF action(1) assms(2)] by simp
  from action(2) have fresh: "map_get (rn_seenActions st') (rq_action_id a) = None" and le: "later \<le> rq_deadline a"
    by (simp_all add: acceptAgentAction_iff same)
  with assms(7) have lt: "later < rq_deadline a" by simp
  have first: "fst (acceptAgentAction now a st)" "onmessage env now f n raw st = runAction env now f n a st"
  proof -
    have "fst (acceptAgentAction now a st) \<and> onmessage env now f n raw st = runAction env now f n a st"
    proof (cases rule: onmessage_cases [of st env now f n raw])
      case quiet
      with assms(3) show ?thesis by (simp add: same_conduct_def)
    next
      case (update u)
      with assms(3) show ?thesis by (simp add: update_effect)
    next
      case (action c)
      with genuine_unique [OF action(1) assms(2)] show ?thesis by simp
    qed
    then show "fst (acceptAgentAction now a st)" and "onmessage env now f n raw st = runAction env now f n a st" by blast+
  qed
  then have new: "map_get (rn_seenActions st) (rq_action_id a) = None" by (simp add: acceptAgentAction_iff)
  have "\<not> seen_plain (rq_action_id a) now (rn_seenActions st)" using new by (simp add: seen_plain_def)
  from actions.held_new [OF assms(1) this, of "rq_deadline a"]
  have "window_held MAX_SEEN_ACTIONS (rn_seenActions (onmessage env now f n raw st)) (rq_action_id a) (rq_deadline a)
      (MAX_SEEN_ACTIONS - 1)"
    using first(2) new by (simp add: runAction_effect rememberAction_window)
  moreover have "MAX_SEEN_ACTIONS - 1 = (MAX_SEEN_ACTIONS - 1 - length ms) + length ms" using assms(6) by simp
  ultimately have "window_held MAX_SEEN_ACTIONS (rn_seenActions st') (rq_action_id a) (rq_deadline a) (MAX_SEEN_ACTIONS - 1 - length ms)"
    unfolding assms(8) using receive_all_held [OF onmessage_seen_ok [OF assms(1)]] assms(5) lt by fastforce
  from window_held_present [OF this] fresh show ?thesis by simp
qed

theorem action_message_single_use_witness:
  "\<exists>st. rn_sent st \<noteq> [] \<and>
     rn_sent (onmessage demo_runtime_env 7 8 ''n'' (Some (demo_order ''act_1'')) st) = rn_sent st"
proof -
  let ?st = "onmessage demo_runtime_env 5 6 ''n'' (Some (demo_order ''act_1'')) (runAgent demo_config)"
  have g: "genuine demo_runtime_env (runAgent demo_config) (Some (demo_order ''act_1'')) (ActionRequest (demo_request ''act_1''))"
    by (rule demo_genuine) (simp_all add: demo_start, simp add: demo_config_def)
  have sent: "rn_sent ?st \<noteq> rn_sent (runAgent demo_config)" by (simp add: demo_runs demo_start runAction_effect)
  have ok: "jsmap_ok (rn_seenActions (runAgent demo_config))" by (simp add: demo_start jsmap_ok_def)
  have "rn_sent (onmessage demo_runtime_env 7 8 ''n'' (Some (demo_order ''act_1'')) ?st) = rn_sent ?st"
    using action_message_single_use [OF ok g sent, of "[]" 7 ?st 8 "''n''"]
    by (simp add: MAX_SEEN_ACTIONS_def demo_request_def)
  with sent show ?thesis by (intro exI [of _ ?st]) (simp add: demo_start)
qed

text \<open>
  At the millisecond of the deadline the entry of an action is pruned when another action is
  remembered, but the action has not expired yet: the same message is then executed a second time.
\<close>

lemma replay_at_deadline:
  "map (\<lambda>answer. map_of answer ''action_id'')
     (rn_sent (receive_all demo_runtime_env
        [(5, 6, ''n'', Some (demo_order ''act_1'')), (1000, 1001, ''n'', Some (demo_order ''act_2'')),
         (1000, 1001, ''n'', Some (demo_order ''act_1''))] (runAgent demo_config))) =
   [Some (JStr ''act_1''), Some (JStr ''act_2''), Some (JStr ''act_1'')]"
proof -
  define st1 where "st1 = runAction demo_runtime_env 5 6 ''n'' (demo_request ''act_1'') (runAgent demo_config)"
  define st2 where "st2 = runAction demo_runtime_env 1000 1001 ''n'' (demo_request ''act_2'') st1"
  define st3 where "st3 = runAction demo_runtime_env 1000 1001 ''n'' (demo_request ''act_1'') st2"
  have c: "rn_config st1 = demo_config" "rn_config st2 = demo_config"
    by (simp_all add: st1_def st2_def runAction_effect demo_start)
  have s1: "rn_seenActions st1 = [(''act_1'', 1000)]"
    by (simp add: st1_def runAction_effect demo_start rememberAction_def prune_window_def demo_request_def MAX_SEEN_ACTIONS_def)
  have s2: "rn_seenActions st2 = [(''act_2'', 1000)]"
    by (simp add: st2_def runAction_effect s1 rememberAction_def prune_window_def demo_request_def MAX_SEEN_ACTIONS_def)
  have "onmessage demo_runtime_env 5 6 ''n'' (Some (demo_order ''act_1'')) (runAgent demo_config) = st1"
    by (simp add: st1_def demo_runs demo_start)
  moreover have "onmessage demo_runtime_env 1000 1001 ''n'' (Some (demo_order ''act_2'')) st1 = st2"
    by (simp add: st2_def demo_runs c s1)
  moreover have "onmessage demo_runtime_env 1000 1001 ''n'' (Some (demo_order ''act_1'')) st2 = st3"
    by (simp add: st3_def demo_runs c s2)
  ultimately show ?thesis
    by (simp add: st3_def st2_def st1_def runAction_effect demo_start execute_action_id) (simp add: demo_request_def)
qed

subsection \<open>The policy in force is well-formed\<close>

text \<open>The type of a policy as its schema gives it.\<close>

definition policy_wf :: "agent_policy \<Rightarrow> bool" where
  "policy_wf p \<longleftrightarrow>
     0 < ap_maxOutputBytes p \<and> ap_maxOutputBytes p \<le> 10000000 \<and>
     0 < ap_maxActionTimeoutSeconds p \<and> ap_maxActionTimeoutSeconds p \<le> 3600 \<and> 0 < ap_version p"

lemma z_positive_Some: "z_field es k (z_positive hi) = Some i \<Longrightarrow> 0 < i \<and> (\<forall>h. hi = Some h \<longrightarrow> i \<le> h)"
  by (auto simp: z_field_def z_positive_def split: option.splits json.splits if_splits)

lemma parseAgentPolicy_wf: "parseAgentPolicy v = Some p \<Longrightarrow> policy_wf p"
  unfolding parseAgentPolicy_def bind_eq_Some_conv
  by (elim exE conjE) (drule z_positive_Some, drule z_positive_Some, drule z_positive_Some, auto simp: policy_wf_def)

lemma genuine_update_wf:
  assumes "genuine env st raw (PolicyUpdate u)"
  shows "policy_wf (pu_policy u)"
proof -
  from assms obtain v where "parsePolicyUpdateEnvelope (re_is_iso env) (re_date_ms env) v = Some u"
    by (auto simp: genuine_def parseControlPlaneEnvelope_def split: option.splits if_splits)
  then obtain es where "z_field es ''policy'' parseAgentPolicy = Some (pu_policy u)"
    unfolding parsePolicyUpdateEnvelope_def bind_eq_Some_conv by (elim exE conjE) auto
  then show ?thesis by (auto simp: z_field_def parseAgentPolicy_wf split: option.splits)
qed

lemma enroll_wf: "enroll post keys hostname host version now argv = Inr config \<Longrightarrow> policy_wf (cf_policy config)"
  by (auto simp: enroll_def Let_def bind_res_Inr requirePolicy_def parseAgentPolicy_wf split: if_splits option.splits)

text \<open>What is in force is what was enrolled or saved last, and the executor has it too.\<close>

definition policy_agreed :: "agent_config \<Rightarrow> agent_runtime \<Rightarrow> bool" where
  "policy_agreed config st \<longleftrightarrow>
     rn_executorPolicy st = cf_policy (rn_config st) \<and>
     cf_policy (rn_config st) = last (cf_policy config # rn_savedPolicies st) \<and>
     (\<forall>p \<in> set (cf_policy config # rn_savedPolicies st). policy_wf p)"

lemma saved_event [simp]: "rn_savedPolicies (event l n m st) = rn_savedPolicies st"
  by (simp add: event_def)

lemma saved_control: "rn_savedPolicies (snd (handleAgentControlMessage es st)) = rn_savedPolicies st"
  by (simp add: handleAgentControlMessage_def print_line_def)

lemma saved_action: "rn_savedPolicies (runAction env now f n a st) = rn_savedPolicies st"
  by (simp add: runAction_def Let_def split_beta)

lemma saved_update:
  "(rn_savedPolicies (applyAgentPolicyUpdate env now u st), rn_config (applyAgentPolicyUpdate env now u st),
    rn_executorPolicy (applyAgentPolicyUpdate env now u st)) \<in>
   {(rn_savedPolicies st, rn_config st, rn_executorPolicy st),
    (rn_savedPolicies st @ [pu_policy u], (rn_config st)\<lparr> cf_policy := pu_policy u \<rparr>, pu_policy u)}"
proof -
  obtain r w where v: "validatePolicyUpdate u (ap_version (cf_policy (rn_config st))) (rn_seenPolicyUpdateNonces st) now = (r, w)"
    by (cases "validatePolicyUpdate u (ap_version (cf_policy (rn_config st))) (rn_seenPolicyUpdateNonces st) now")
  show ?thesis by (cases r) (simp_all add: applyAgentPolicyUpdate_def v message_error_def)
qed

lemma accept_saved: "rn_savedPolicies (snd (acceptAgentAction now a st)) = rn_savedPolicies st"
  by (simp add: acceptAgentAction_def)

lemma onmessage_saved:
  "rn_savedPolicies (onmessage env now f n raw st) = rn_savedPolicies st \<or>
   (\<exists>u. genuine env st raw (PolicyUpdate u) \<and> onmessage env now f n raw st = applyAgentPolicyUpdate env now u st)"
proof (cases "\<exists>u. genuine env st raw (PolicyUpdate u) \<and> onmessage env now f n raw st = applyAgentPolicyUpdate env now u st")
  case False
  have "rn_savedPolicies (onmessage env now f n raw st) = rn_savedPolicies st"
    if p: "raw = Some (JObj es)" and e: "parseControlPlaneEnvelope (re_is_iso env) (re_date_ms env) (JObj es) = Some envelope" for es envelope
  proof (cases envelope)
    case (PolicyUpdate u)
    with False p e saved_control [of es st] show ?thesis
      by (auto simp: onmessage_def genuine_def isRecord_def split: prod.splits bool.splits)
  next
    case (ActionRequest a)
    with p e saved_control [of es st] accept_saved [of now a st] saved_action show ?thesis
      by (auto simp: onmessage_def isRecord_def split: prod.splits bool.splits)
  qed
  moreover have "rn_savedPolicies (onmessage env now f n raw st) = rn_savedPolicies st"
    if "\<And>es envelope. raw = Some (JObj es) \<Longrightarrow> parseControlPlaneEnvelope (re_is_iso env) (re_date_ms env) (JObj es) \<noteq> Some envelope"
    using that
    by (auto simp: onmessage_def message_error_def isRecord_Some split: option.splits prod.splits bool.splits
        dest: arg_cong [where f = "\<lambda>x. rn_savedPolicies (snd x)"] simp: saved_control)
  ultimately show ?thesis by blast
qed simp

definition agent_step :: "agent_runtime \<Rightarrow> agent_runtime \<Rightarrow> bool" where
  "agent_step st st' \<longleftrightarrow> (\<exists>env now f n raw. st' = onmessage env now f n raw st)"

lemma policy_agreed_step:
  assumes "policy_agreed config st"
  shows "policy_agreed config (onmessage env now f n raw st)"
proof (cases "\<exists>u. genuine env st raw (PolicyUpdate u) \<and> onmessage env now f n raw st = applyAgentPolicyUpdate env now u st")
  case True
  then obtain u where u: "genuine env st raw (PolicyUpdate u)" "onmessage env now f n raw st = applyAgentPolicyUpdate env now u st" by blast
  from genuine_update_wf [OF u(1)] saved_update [of env now u st] assms show ?thesis
    unfolding u(2) policy_agreed_def by auto
next
  case False
  with onmessage_saved [of env now f n raw st] have s: "rn_savedPolicies (onmessage env now f n raw st) = rn_savedPolicies st" by blast
  show ?thesis
  proof (cases rule: onmessage_cases [of st env now f n raw])
    case quiet
    with s assms show ?thesis by (simp add: policy_agreed_def same_conduct_def)
  next
    case (update u)
    with False show ?thesis by blast
  next
    case (action a)
    with s assms show ?thesis by (simp add: policy_agreed_def runAction_effect)
  qed
qed

interpretation ag_ts: transition_system "\<lambda>st. policy_wf (cf_policy config) \<and> st = runAgent config" agent_step "policy_agreed config"
  for config
proof unfold_locales
  show "policy_agreed config st" if "policy_wf (cf_policy config) \<and> st = runAgent config" for st
    using that by (simp add: policy_agreed_def runAgent_def event_def)
  show "policy_agreed config t" if "policy_agreed config s" "agent_step s t" for s t
    using that policy_agreed_step unfolding agent_step_def by blast
qed

lemma receive_all_steps: "agent_step\<^sup>*\<^sup>* st (receive_all env ms st)"
proof (induction env ms st rule: receive_all.induct)
  case (2 env now f n raw rest st)
  have "agent_step st (onmessage env now f n raw st)" unfolding agent_step_def by blast
  with 2 show ?case by (simp add: converse_rtranclp_into_rtranclp)
qed simp

text \<open>
  C17: from enrolment on, whatever messages arrive, the policy an agent enforces has the type its schema
  gives it (an output limit of 1 to ten million bytes, a time limit of 1 to 3600 seconds, a positive
  version), is the same in the configuration and in the executor, and is the one that was enrolled
  or saved to the file last.
\<close>

theorem agent_policy_well_typed:
  assumes "enroll post keys hostname host version start argv = Inr config" and "st = receive_all env ms (runAgent config)"
  shows "policy_wf (rn_executorPolicy st) \<and> rn_executorPolicy st = cf_policy (rn_config st) \<and>
    rn_executorPolicy st = last (cf_policy config # rn_savedPolicies st)"
proof -
  have "policy_agreed config st"
    unfolding assms(2) using ag_ts.inv_reachable [OF _ receive_all_steps] enroll_wf [OF assms(1)] by blast
  moreover have "last (cf_policy config # rn_savedPolicies st) \<in> set (cf_policy config # rn_savedPolicies st)"
    by (rule last_in_set) simp
  ultimately show ?thesis by (simp add: policy_agreed_def)
qed

definition demo_policy_json :: json where
  "demo_policy_json = JObj [(''profile'', JStr ''custom''),
     (''capabilities'', JObj (map (\<lambda>c. (capability_name c, JBool True)) REMOTE_CAPABILITIES)),
     (''allowPaths'', JArr []), (''denyPaths'', JArr []), (''allowServices'', JArr []), (''allowContainers'', JArr []),
     (''maxOutputBytes'', JNum 100), (''maxActionTimeoutSeconds'', JNum 60), (''version'', JNum 1)]"

definition demo_post :: "string \<Rightarrow> entries \<Rightarrow> string + entries" where
  "demo_post url payload = Inr [(''agent_id'', JStr ''agt_1''), (''alias'', JStr ''a''), (''control_plane_public_key'', JStr ''cp''),
     (''policy'', demo_policy_json), (''websocket_url'', JStr ''wss://s'')]"

lemma demo_policy_parses: "\<exists>p. parseAgentPolicy demo_policy_json = Some p"
proof -
  have "parseAgentPolicy demo_policy_json \<noteq> None"
    by (simp add: demo_policy_json_def parseAgentPolicy_def capabilityPolicySchema_def z_strict_def z_field_def z_enum_def PROFILES_def
        z_array_def z_positive_def REMOTE_CAPABILITIES_def z_bool_def) (rule exI [of _ True], rule TrueI)
  then show ?thesis by blast
qed

lemma demo_enrolls:
  "\<exists>config. enroll demo_post (''pub'', ''priv'') ''h'' JNull ''1'' ''t'' [''--server'', ''https://s/'', ''--token'', ''x''] = Inr config"
  using demo_policy_parses
  by (auto simp: enroll_def removeTrailingSlashes_def demo_post_def requireString_def asString_def requirePolicy_def)

theorem agent_policy_well_typed_witness:
  "\<exists>config. enroll demo_post (''pub'', ''priv'') ''h'' JNull ''1'' ''t'' [''--server'', ''https://s/'', ''--token'', ''x''] = Inr config \<and>
     policy_wf (rn_executorPolicy (receive_all demo_runtime_env [(5, 6, ''n'', Some (demo_order ''act_1''))] (runAgent config)))"
  using demo_enrolls agent_policy_well_typed [OF _ refl] by blast

subsection \<open>Policies only move forward\<close>

definition moved_forward :: "agent_config \<Rightarrow> agent_runtime \<Rightarrow> bool" where
  "moved_forward config st \<longleftrightarrow>
     sorted_wrt (<) (map ap_version (cf_policy config # rn_savedPolicies st)) \<and>
     cf_policy (rn_config st) = last (cf_policy config # rn_savedPolicies st)"

lemma increasing_last:
  fixes f :: "'a \<Rightarrow> int"
  shows "sorted_wrt (<) (map f (x # xs)) \<Longrightarrow> p \<in> set (x # xs) \<Longrightarrow> f p \<le> f (last (x # xs))"
proof (induction xs arbitrary: x p)
  case (Cons y ys)
  from Cons.IH [of y y] Cons.IH [of y p] Cons.prems show ?case by auto
qed simp

lemma moved_forward_step:
  assumes "moved_forward config st"
  shows "moved_forward config (onmessage env now f n raw st)"
proof (cases "\<exists>u. genuine env st raw (PolicyUpdate u) \<and> onmessage env now f n raw st = applyAgentPolicyUpdate env now u st")
  case True
  then obtain u where u: "onmessage env now f n raw st = applyAgentPolicyUpdate env now u st" by blast
  show ?thesis
  proof (cases "fresh_update now st u \<and> re_save_ok env")
    case True
    from update_exact(1) [OF this] True have i: "rn_savedPolicies (onmessage env now f n raw st) = rn_savedPolicies st @ [pu_policy u]"
      "cf_policy (rn_config (onmessage env now f n raw st)) = pu_policy u" "ap_version (cf_policy (rn_config st)) < ap_version (pu_policy u)"
      by (simp_all add: u installs_def fresh_update_def)
    have s: "sorted_wrt (<) (map ap_version (cf_policy config # rn_savedPolicies st))"
      and l: "cf_policy (rn_config st) = last (cf_policy config # rn_savedPolicies st)"
      using assms by (simp_all only: moved_forward_def)
    have "ap_version p < ap_version (pu_policy u)" if "p \<in> set (cf_policy config # rn_savedPolicies st)" for p
      using increasing_last [OF s that] i(3) unfolding l by simp
    with assms i show ?thesis by (auto simp: moved_forward_def sorted_wrt_append)
  next
    case False
    from update_exact(2) [OF this] assms show ?thesis by (simp add: moved_forward_def u)
  qed
next
  case False
  with onmessage_saved [of env now f n raw st] have s: "rn_savedPolicies (onmessage env now f n raw st) = rn_savedPolicies st" by blast
  have "rn_config (onmessage env now f n raw st) = rn_config st"
    by (cases rule: onmessage_cases [of st env now f n raw]) (use False in \<open>auto simp: same_conduct_def runAction_effect\<close>)
  with s assms show ?thesis by (simp add: moved_forward_def)
qed

interpretation ag_forward: transition_system "\<lambda>st. st = runAgent config" agent_step "moved_forward config" for config
proof unfold_locales
  show "moved_forward config st" if "st = runAgent config" for st
    using that by (simp add: moved_forward_def runAgent_def event_def)
  show "moved_forward config t" if "moved_forward config s" "agent_step s t" for s t
    using that moved_forward_step unfolding agent_step_def by blast
qed

text \<open>
  C28: however the updates of an agent's policy arrive, repeated, reordered, delayed or forged, the policies
  it starts with and installs one after the other have strictly increasing versions: none is ever
  installed twice and none rolls the agent back to an older one; and the policy in force is the last of
  them.
\<close>

theorem policy_versions_increase:
  "sorted_wrt (<) (map ap_version (cf_policy config # rn_savedPolicies (receive_all env ms (runAgent config)))) \<and>
   distinct (map ap_version (cf_policy config # rn_savedPolicies (receive_all env ms (runAgent config)))) \<and>
   cf_policy (rn_config (receive_all env ms (runAgent config))) =
     last (cf_policy config # rn_savedPolicies (receive_all env ms (runAgent config)))"
proof -
  have f: "moved_forward config (receive_all env ms (runAgent config))"
    by (rule ag_forward.inv_reachable [OF refl receive_all_steps])
  then have "sorted_wrt (<) (map ap_version (cf_policy config # rn_savedPolicies (receive_all env ms (runAgent config))))"
    by (simp only: moved_forward_def)
  then have "distinct (map ap_version (cf_policy config # rn_savedPolicies (receive_all env ms (runAgent config))))"
    unfolding strict_sorted_iff by (rule conjunct2)
  with f show ?thesis by (simp only: moved_forward_def simp_thms)
qed

subsection \<open>Answers\<close>

lemma set_signature_get:
  "map_of es ''signature'' \<noteq> None \<Longrightarrow> map_of (set_signature s es) ''signature'' = Some (JStr s)"
  "k \<noteq> ''signature'' \<Longrightarrow> map_of (set_signature s es) k = map_of es k"
  by (induction es) (auto simp: set_signature_def)

lemma set_signature_keys: "map fst (set_signature s es) = map fst es"
  by (induction es) (auto simp: set_signature_def)

lemma without_set_signature: "without_signature (set_signature s es) = without_signature es"
  by (induction es) (auto simp: set_signature_def without_signature_def)

lemma signResult_verifies:
  assumes "\<forall>text. re_sign env text priv \<noteq> [] \<and> re_verify env text pub (re_sign env text priv)"
    and "map_of es ''signature'' \<noteq> None"
  shows "verifyEnvelope (re_verify env) (signResult env priv es) pub"
  using assms by (simp add: verifyEnvelope_def signResult_def set_signature_get signEnvelope_def without_set_signature)

lemmas result_schema = parseActionResultEnvelope_def z_strict_def z_field_def z_optional_def z_literal_def z_string_def
  z_datetime_def z_enum_def z_int_def z_bool_def

lemma error_code_of_name: "z_enum REMOTE_ERROR_CODES (JStr (error_code_name c)) = Some c"
  by (cases c) (simp_all add: z_enum_def REMOTE_ERROR_CODES_def error_code_name_def)

lemma no_code_of_errno: "z_enum REMOTE_ERROR_CODES (JStr (CHR ''E'' # s)) = None"
  by (simp add: z_enum_def REMOTE_ERROR_CODES_def)

text \<open>
  C15: what an agent answers can be read by its control plane. Unless the action failed with a bare
  error of the operating system, the answer satisfies the schema of results, its signature verifies
  under the agent's key, and what is read from it is the action, the nonce and exactly the outcome
  of the execution. (The keys are a pair whose signatures verify; dates are written as the schema wants.)
\<close>

theorem agent_result_roundtrip:
  assumes "\<forall>text. re_sign env text priv \<noteq> [] \<and> re_verify env text pub (re_sign env text priv)"
    and "re_is_iso env startedAt" and "re_is_iso env finishedAt"
    and "rq_action_id action \<noteq> []" and "rq_agent_id action \<noteq> []" and "16 \<le> length nonce"
    and "executeAllowed (re_host env) policy action t = (r, t')" and "\<forall>s. r \<noteq> Inl (OsError s)"
  shows "\<exists>answer. parseActionResultEnvelope (re_is_iso env)
        (JObj (fst (execute env policy priv nonce startedAt finishedAt action t))) = Some answer \<and>
      verifyEnvelope (re_verify env) (fst (execute env policy priv nonce startedAt finishedAt action t)) pub \<and>
      rt_action_id answer = rq_action_id action \<and> rt_agent_id answer = rq_agent_id action \<and> rt_nonce answer = nonce \<and>
      (case r of
         Inr x \<Rightarrow> rt_ok answer \<and> rt_exit_code answer = Some (ex_exitCode x) \<and> rt_stdout answer = Some (ex_stdout x) \<and>
                  rt_stderr answer = Some (ex_stderr x) \<and> rt_truncated answer = ex_truncated x
       | Inl e \<Rightarrow> \<not> rt_ok answer \<and> (\<exists>c m. e = Coded c m \<and> rt_error_code answer = Some c \<and> rt_message answer = Some m))"
proof (cases r)
  case (Inr x)
  let ?es = "result_ok action nonce startedAt finishedAt x"
  have e: "fst (execute env policy priv nonce startedAt finishedAt action t) = signResult env priv ?es"
    using assms(7) Inr by (simp add: execute_def)
  have v: "verifyEnvelope (re_verify env) (signResult env priv ?es) pub"
    by (rule signResult_verifies [OF assms(1)]) (simp add: result_ok_def)
  have "parseActionResultEnvelope (re_is_iso env) (JObj (signResult env priv ?es)) =
      Some \<lparr> rt_action_id = rq_action_id action, rt_agent_id = rq_agent_id action, rt_nonce = nonce, rt_ok = True,
        rt_exit_code = Some (ex_exitCode x), rt_stdout = Some (ex_stdout x), rt_stderr = Some (ex_stderr x),
        rt_truncated = ex_truncated x, rt_error_code = None, rt_message = None \<rparr>"
    using assms(1-6) by (simp add: result_schema signResult_def set_signature_keys set_signature_def signEnvelope_def result_ok_def Suc_le_eq)
  with e v Inr show ?thesis by simp
next
  case (Inl e)
  with assms(8) obtain c m where c: "e = Coded c m" by (cases e) auto
  let ?es = "result_error action nonce startedAt finishedAt (error_code_name c) m"
  have e: "fst (execute env policy priv nonce startedAt finishedAt action t) = signResult env priv ?es"
    using assms(7) Inl c by (simp add: execute_def errorCode_def failure_message_def)
  have v: "verifyEnvelope (re_verify env) (signResult env priv ?es) pub"
    by (rule signResult_verifies [OF assms(1)]) (simp add: result_error_def)
  have "parseActionResultEnvelope (re_is_iso env) (JObj (signResult env priv ?es)) =
      Some \<lparr> rt_action_id = rq_action_id action, rt_agent_id = rq_agent_id action, rt_nonce = nonce, rt_ok = False,
        rt_exit_code = None, rt_stdout = None, rt_stderr = None, rt_truncated = False,
        rt_error_code = Some c, rt_message = Some m \<rparr>"
    using assms(1-6) error_code_of_name [of c]
    by (simp add: result_schema signResult_def set_signature_keys set_signature_def signEnvelope_def result_error_def Suc_le_eq)
  with e v Inl c show ?thesis by simp
qed

lemma demo_executes:
  "fst (executeAllowed linked_host (createAgentPolicy Operations) (demo_request x) []) =
     Inr \<lparr> ex_exitCode = 0, ex_stdout = [], ex_stderr = [], ex_truncated = False \<rparr>"
  by (simp add: executeAllowed_def demo_request_def createAgentPolicy_def runCommand_def io_defs number_or_def Let_def)
    (simp add: linked_host_def Let_def collect_output_def finalizeBoundedOutput_def emptyOutput_def)

theorem agent_result_roundtrip_witness:
  "\<exists>answer. parseActionResultEnvelope (\<lambda>_. True)
     (JObj (fst (execute demo_runtime_env (createAgentPolicy Operations) ''priv'' ''0123456789abcdef'' ''t'' ''t'' (demo_request ''act_1'') [])))
     = Some answer \<and> rt_ok answer"
proof -
  obtain r t' where e: "executeAllowed (re_host demo_runtime_env) (createAgentPolicy Operations) (demo_request ''act_1'') [] = (r, t')"
    by (cases "executeAllowed (re_host demo_runtime_env) (createAgentPolicy Operations) (demo_request ''act_1'') []")
  then have r: "r = Inr \<lparr> ex_exitCode = 0, ex_stdout = [], ex_stderr = [], ex_truncated = False \<rparr>"
    using demo_executes [of "''act_1''"] by (simp add: demo_runtime_env_def)
  have k: "\<forall>text. re_sign demo_runtime_env text ''priv'' \<noteq> [] \<and>
      re_verify demo_runtime_env text ''pub'' (re_sign demo_runtime_env text ''priv'')"
    by (simp add: demo_runtime_env_def)
  from agent_result_roundtrip [OF k _ _ _ _ _ e, of "''t''" "''t''" "''0123456789abcdef''"] r show ?thesis
    by (simp add: demo_runtime_env_def demo_request_def) blast
qed

text \<open>
  A shell action in a directory that cannot be accessed ends in a bare error of the operating
  system, whose code (\<open>ENOENT\<close> and the like) is no code of the protocol. The control plane refuses
  the agent's answer as a malformed message and closes the connection of the agent, and the action
  stays pending until its time-out: one wrong directory disconnects the agent.
\<close>

theorem missing_directory_disconnects_agent:
  assumes "rq_tool action = RunShell" and "rq_capability action = ShellExec" and "ap_capabilities policy ShellExec"
    and "map_of (rq_args action) ''command'' = Some (JStr command)" and "map_of (rq_args action) ''cwd'' = Some (JStr dir)"
    and "dir \<noteq> []" and "h_done (re_host env) t (OpAccess dir) = Some s"
    and "answer = fst (execute env policy priv nonce startedAt finishedAt action t)" and "isAuthenticated (fst st) c"
  shows "map_of answer ''error_code'' = Some (JStr (CHR ''E'' # s)) \<and>
    CloseWs c 1008 ''invalid agent message'' \<in> set (lc_effects (fst (onText henv now c (Some (JObj answer)) st))) \<and>
    ah_pending (snd (onText henv now c (Some (JObj answer)) st)) = ah_pending (snd st)"
proof -
  have e: "fst (executeAllowed (re_host env) policy action t) = Inl (OsError s)"
    using assms(1-7) by (simp add: executeAllowed_def scalarActionArgument_def optional_cwd_def json_truthy_def runShell_def io_defs)
  let ?es = "result_error action nonce startedAt finishedAt (CHR ''E'' # s) (re_os_message env s)"
  have a: "answer = signResult env priv ?es"
    using e unfolding assms(8) execute_def by (auto simp: errorCode_def failure_message_def split: prod.splits)
  have "z_optional answer ''error_code'' (z_enum REMOTE_ERROR_CODES) = None"
    by (simp add: a signResult_def set_signature_def result_error_def z_optional_def no_code_of_errno)
  then have p: "parseActionResultEnvelope iso (JObj answer) = None" for iso
    unfolding parseActionResultEnvelope_def z_strict_def by (simp add: Option.bind_eq_None_conv)
  have m: "map_of answer ''type'' = Some (JStr ''action.result'')" "map_of answer ''error_code'' = Some (JStr (CHR ''E'' # s))"
    by (simp_all add: a signResult_def set_signature_def result_error_def)
  obtain lc where r: "receiveMessage c now (fst st) = (True, lc)" and auth: "isAuthenticated lc c"
    using assms(9) by (auto simp: receiveMessage_def isManaged_def isAuthenticated_def recordActivity_def jsmap_simps split: option.splits)
  have "handleAgentMessage henv now c (Some (JObj answer)) (lc, snd st) = on_lc (messageFailed c) (lc, snd st)"
    using m(1) p auth by (simp add: handleAgentMessage_def isRecord_def)
  with r m(2) show ?thesis
    by (simp add: onText_def on_lc_def messageFailed_def reject_with_def closeConnection_def emit_def)
qed

text \<open>A host in which nothing can be accessed, and a connection that is authenticated.\<close>

definition bare_env :: runtime_env where
  "bare_env = demo_runtime_env\<lparr> re_host := linked_host\<lparr> h_done := (\<lambda>_ _. Some ''NOENT'') \<rparr> \<rparr>"

definition shell_action :: action_request where
  "shell_action = (demo_request ''act_1'')\<lparr> rq_tool := RunShell, rq_capability := ShellExec,
     rq_args := [(''command'', JStr ''ls''), (''cwd'', JStr ''/nowhere'')] \<rparr>"

definition joined_lifecycle :: lifecycle where
  "joined_lifecycle = (newLifecycle \<lparr> lcc_helloTimeoutMs = None, lcc_heartbeatIntervalMs = None, lcc_idleTimeoutMs = None,
     lcc_maxConnections = None, lcc_maxConnectionsPerAgent = None \<rparr>)\<lparr> lc_managed :=
     [(4, \<lparr> mg_lastActivityAt = 0, mg_authenticated = True, mg_agentId = Some ''agt_1'', mg_helloTimeout = False,
            mg_terminationTimeout = False \<rparr>)] \<rparr>"

theorem missing_directory_disconnects_agent_witness:
  "\<forall>henv h. CloseWs 4 1008 ''invalid agent message'' \<in> set (lc_effects (fst (onText henv 7 4
     (Some (JObj (fst (execute bare_env (createAgentPolicy FullAdmin) ''priv'' ''n'' ''t'' ''t'' shell_action []))))
     (joined_lifecycle, h))))"
proof (intro allI)
  fix henv :: handler_env and h :: handler
  have "isAuthenticated (fst (joined_lifecycle, h)) 4" by (simp add: isAuthenticated_def joined_lifecycle_def)
  from missing_directory_disconnects_agent [OF _ _ _ _ _ _ _ refl this, of shell_action "createAgentPolicy FullAdmin" "''ls''"
      "''/nowhere''" bare_env "[]" "''NOENT''"]
  show "CloseWs 4 1008 ''invalid agent message'' \<in> set (lc_effects (fst (onText henv 7 4
     (Some (JObj (fst (execute bare_env (createAgentPolicy FullAdmin) ''priv'' ''n'' ''t'' ''t'' shell_action []))))
     (joined_lifecycle, h))))"
    by (simp add: shell_action_def createAgentPolicy_def REMOTE_CAPABILITIES_def bare_env_def Let_def)
qed

end
