(* ===== verification/PolicyUpdates.thy ===== *)
theory PolicyUpdates
  imports ControlPlaneProps AgentRuntimeProps
begin

section \<open>A policy on its way from the control plane to the agent\<close>

text \<open>
  \<open>updateAgentPolicy\<close> of \<open>src/remote/control-plane.ts\<close> on the one side, \<open>onmessage\<close> of
  \<open>src/remote/agent-cli.ts\<close> on the other, and between them the envelope, its schema and its signature.
\<close>

subsection \<open>The envelope and its schema\<close>

lemma capability_names:
  "inj capability_name" "c \<in> set REMOTE_CAPABILITIES"
proof -
  have "capability_name c = capability_name d \<Longrightarrow> c = d" for c d
    by (cases c; cases d) simp_all
  then show "inj capability_name" by (rule injI)
  show "c \<in> set REMOTE_CAPABILITIES" by (cases c) (simp_all add: REMOTE_CAPABILITIES_def)
qed

lemma map_of_named: "inj f \<Longrightarrow> c \<in> set xs \<Longrightarrow> map_of (map (\<lambda>c. (f c, g c)) xs) (f c) = Some (g c)"
  by (induction xs) (auto dest: injD)

lemma parse_capabilities:
  "capabilityPolicySchema (JObj (map (\<lambda>c. (capability_name c, JBool (g c))) REMOTE_CAPABILITIES)) = Some g"
proof -
  let ?es = "map (\<lambda>c. (capability_name c, JBool (g c))) REMOTE_CAPABILITIES"
  have f: "z_field ?es (capability_name c) z_bool = Some (g c)" for c
    using map_of_named [OF capability_names, of "\<lambda>c. JBool (g c)" c] by (simp add: z_field_def z_bool_def)
  have "z_strict (map capability_name REMOTE_CAPABILITIES) (JObj ?es) = Some ?es"
    by (simp add: z_strict_def)
  then show ?thesis by (simp add: capabilityPolicySchema_def f list_all_iff)
qed

lemma parse_strings: "z_list (z_string 0 None) (map JStr xs) = Some xs"
proof (induction xs)
  case (Cons x xs)
  have "z_string 0 None (JStr x) = Some x" by (simp add: z_string_def)
  with Cons show ?case by simp
qed simp

lemma parse_profile: "z_enum PROFILES (JStr (profile_name p)) = Some p"
  by (cases p) (simp_all add: z_enum_def PROFILES_def profile_name_def)

lemma parse_policy_json: "parseAgentPolicy (policy_json p) = (if policy_wf p then Some p else None)"
proof -
  have pos: "z_positive (Some h) (JNum i) = (if 0 < i \<and> i \<le> h then Some i else None)"
    "z_positive None (JNum i) = (if 0 < i then Some i else None)" for h i
    by (simp_all add: z_positive_def)
  show ?thesis
    by (simp add: parseAgentPolicy_def policy_json_def z_strict_def z_field_def z_array_def parse_capabilities parse_strings
        parse_profile pos policy_wf_def)
qed

lemma parse_policy_entries:
  assumes "pu_agent_id u \<noteq> []" and "pu_issued_at u = Some t" and "is_iso (to_iso t)" and "date_ms (to_iso t) = Some t"
    and "16 \<le> length (pu_nonce u)" and "signature \<noteq> []" and "pu_policy_version u = ap_version (pu_policy u)"
  shows "parseControlPlaneEnvelope is_iso date_ms (JObj (policy_entries to_iso u signature)) =
    (if policy_wf (pu_policy u) then Some (PolicyUpdate u) else None)"
  using assms
  by (cases u) (auto simp: parseControlPlaneEnvelope_def isRecord_def parsePolicyUpdateEnvelope_def policy_entries_def z_strict_def
      z_field_def z_literal_def z_string_def z_datetime_def z_positive_def parse_policy_json policy_wf_def Suc_le_eq)

subsection \<open>What the agent makes of it\<close>

lemma policy_envelope_verifies:
  assumes "\<forall>text. node_sign text priv \<noteq> [] \<and> node_verify text pub (node_sign text priv)"
  shows "verifyEnvelope node_verify (policy_envelope node_sign priv to_iso u) pub"
proof -
  let ?s = "signEnvelope node_sign (policy_entries to_iso u []) priv"
  have "without_signature (policy_entries to_iso u ?s) = without_signature (policy_entries to_iso u [])"
    by (simp add: without_signature_def policy_entries_def)
  moreover have "map_of (policy_entries to_iso u ?s) ''signature'' = Some (JStr ?s)"
    by (simp add: policy_entries_def)
  moreover have "?s \<noteq> []" "node_verify (canonicalJson (JObj (without_signature (policy_entries to_iso u [])))) pub ?s"
    using assms by (simp_all add: signEnvelope_def del: canonicalJson.simps)
  ultimately show ?thesis by (simp add: verifyEnvelope_def policy_envelope_def del: canonicalJson.simps)
qed

text \<open>The pair of keys signs and verifies, and the agent reads the date \<open>t\<close> that the server writes.\<close>

definition understands ::
    "(string \<Rightarrow> string \<Rightarrow> string) \<Rightarrow> string \<Rightarrow> (int \<Rightarrow> string) \<Rightarrow> int \<Rightarrow> runtime_env \<Rightarrow> string \<Rightarrow> bool" where
  "understands node_sign priv to_iso t renv pub \<longleftrightarrow>
     (\<forall>text. node_sign text priv \<noteq> [] \<and> re_verify renv text pub (node_sign text priv)) \<and>
     re_is_iso renv (to_iso t) \<and> re_date_ms renv (to_iso t) = Some t"

lemma policy_envelope_received:
  assumes "understands node_sign priv to_iso t renv (cf_controlPlanePublicKeyPem (rn_config rt))"
    and "pu_agent_id u = cf_agentId (rn_config rt)" and "pu_agent_id u \<noteq> []" and "16 \<le> length (pu_nonce u)"
    and "pu_issued_at u = Some t" and "pu_policy_version u = ap_version (pu_policy u)"
  shows "onmessage renv later finished nonce (Some (JObj (policy_envelope node_sign priv to_iso u))) rt =
    (if policy_wf (pu_policy u) then applyAgentPolicyUpdate renv later u rt
     else event LvWarn ''message_rejected'' ''Invalid control-plane envelope ignored.'' rt)"
proof -
  let ?es = "policy_envelope node_sign priv to_iso u"
  have v: "verifyEnvelope (re_verify renv) ?es (cf_controlPlanePublicKeyPem (rn_config rt))"
    using assms(1) policy_envelope_verifies unfolding understands_def by blast
  have s: "signEnvelope node_sign (policy_entries to_iso u []) priv \<noteq> []"
    using assms(1) by (simp add: understands_def signEnvelope_def)
  have p: "parseControlPlaneEnvelope (re_is_iso renv) (re_date_ms renv) (JObj ?es) =
      (if policy_wf (pu_policy u) then Some (PolicyUpdate u) else None)"
    unfolding policy_envelope_def
    by (rule parse_policy_entries [OF assms(3,5) _ _ assms(4) s assms(6)]) (use assms(1) in \<open>simp_all add: understands_def\<close>)
  have t: "map_of ?es ''type'' = Some (JStr ''policy.update'')" by (simp add: policy_envelope_def policy_entries_def)
  show ?thesis
    using p v t assms(2) by (simp add: onmessage_def isRecord_def handleAgentControlMessage_def)
qed

text \<open>
  C22: a policy update needs the admin scope, never raises the limits over the server's, and has the next
  version. A connected agent is sent that policy, signed; and whatever state the agent is in when it
  reads the message, it installs and saves exactly that policy, provided its limits are of the range
  the agent accepts, its own policy is not newer, it does not remember the nonce, the message is at most
  five minutes old by its clock and at most half a minute ahead of it, and the file can be written.
  Otherwise its policy stays what it was. (The control plane stores and sends the policy in any case: it
  does not check that the limits of the patch are positive.)
\<close>

theorem policy_update_reaches_agent:
  assumes "updateAgentPolicy env now rnd c agent v st = (Inr updated, st')"
    and "understands node_sign priv to_iso now renv (cf_controlPlanePublicKeyPem (rn_config rt))"
    and "cf_agentId (rn_config rt) = ra_id agent" and "ra_id agent \<noteq> []" and "16 \<le> length (cr_nonce rnd)"
  shows "hasCapability (rp_capabilities c) AgentsAdmin \<and>
    ap_maxOutputBytes (ra_policy updated) \<le> rc_maxOutputBytes (ce_config env) \<and>
    ap_maxActionTimeoutSeconds (ra_policy updated) \<le> rc_maxActionTimeoutSeconds (ce_config env) \<and>
    ra_policyVersion updated = ra_policyVersion agent + 1 \<and> ap_version (ra_policy updated) = ra_policyVersion updated \<and>
    (case live_of (snd st) (ra_id agent) of
       None \<Rightarrow> lc_effects (fst st') = lc_effects (fst st)
     | Some live \<Rightarrow> \<exists>update.
         lc_effects (fst st') = lc_effects (fst st) @ [SendJson (al_connection live) (PolicyMessage update)] \<and>
         pu_policy update = ra_policy updated \<and>
         (let rt' = onmessage renv later finished nonce (Some (JObj (policy_envelope node_sign priv to_iso update))) rt in
          if policy_wf (ra_policy updated) \<and> ap_version (cf_policy (rn_config rt)) \<le> ra_policyVersion agent \<and>
             (\<forall>(n, expiresAt) \<in> set (rn_seenPolicyUpdateNonces rt). n = cr_nonce rnd \<longrightarrow> expiresAt \<le> later) \<and>
             later - now \<le> 5 * 60 * 1000 \<and> now - later \<le> 30 * 1000 \<and> re_save_ok renv
          then installs later rt update rt'
          else rn_config rt' = rn_config rt \<and> rn_executorPolicy rt' = rn_executorPolicy rt \<and>
               rn_savedPolicies rt' = rn_savedPolicies rt))"
proof -
  let ?p = "capped_policy (ce_config env) v (ra_policyVersion agent + 1)"
  let ?u = "\<lparr> pu_agent_id = ra_id agent, pu_policy = ?p, pu_policy_version = ra_policyVersion agent + 1,
              pu_issued_at = Some now, pu_nonce = cr_nonce rnd \<rparr>"
  have caps: "ap_maxOutputBytes ?p \<le> rc_maxOutputBytes (ce_config env)"
    "ap_maxActionTimeoutSeconds ?p \<le> rc_maxActionTimeoutSeconds (ce_config env)" "ap_version ?p = ra_policyVersion agent + 1"
    by (simp_all add: capped_policy_def Let_def)
  have r: "hasCapability (rp_capabilities c) AgentsAdmin" "ra_policy updated = ?p"
    "ra_policyVersion updated = ra_policyVersion agent + 1"
    "case live_of (snd st) (ra_id agent) of None \<Rightarrow> fst st' = fst st
      | Some live \<Rightarrow> fst st' = emit (SendJson (al_connection live) (PolicyMessage ?u)) (fst st)"
    using assms(1) by (auto simp: updateAgentPolicy_def Let_def split: if_splits sum.splits option.splits)
  let ?rt' = "onmessage renv later finished nonce (Some (JObj (policy_envelope node_sign priv to_iso ?u))) rt"
  have got: "?rt' = (if policy_wf ?p then applyAgentPolicyUpdate renv later ?u rt
      else event LvWarn ''message_rejected'' ''Invalid control-plane envelope ignored.'' rt)"
    using policy_envelope_received [OF assms(2), of ?u] assms(3-5) caps(3) by simp
  have fresh: "fresh_update later rt ?u \<longleftrightarrow> ap_version (cf_policy (rn_config rt)) \<le> ra_policyVersion agent \<and>
      (\<forall>(n, expiresAt) \<in> set (rn_seenPolicyUpdateNonces rt). n = cr_nonce rnd \<longrightarrow> expiresAt \<le> later) \<and>
      later - now \<le> 5 * 60 * 1000 \<and> now - later \<le> 30 * 1000"
    using caps(3) by (auto simp: fresh_update_def)
  have outcome: "if policy_wf ?p \<and> fresh_update later rt ?u \<and> re_save_ok renv then installs later rt ?u ?rt'
      else rn_config ?rt' = rn_config rt \<and> rn_executorPolicy ?rt' = rn_executorPolicy rt \<and>
           rn_savedPolicies ?rt' = rn_savedPolicies rt"
    unfolding got using update_exact [of later rt ?u renv] by auto
  show ?thesis
  proof (cases "live_of (snd st) (ra_id agent)")
    case None
    with r caps show ?thesis by simp
  next
    case (Some live)
    with r(4) have "lc_effects (fst st') = lc_effects (fst st) @ [SendJson (al_connection live) (PolicyMessage ?u)]"
      by (simp add: emit_def)
    with Some r(1-3) caps outcome [unfolded fresh] show ?thesis
      by (auto simp: Let_def conj_assoc intro!: exI [of _ ?u])
  qed
qed

text \<open>
  A connected agent of version 1 is sent a time limit of nine seconds, reads the message a second later
  and installs it.
\<close>

definition demo_live_state :: agent_state where
  "demo_live_state = (fst demo_state, (snd demo_state)\<lparr> ah_connections := [(''agt_1'',
     \<lparr> al_agent = demo_agent, al_connection = 7, al_seenNonces = [] \<rparr>)] \<rparr>)"

definition demo_update_randoms :: control_randoms where
  "demo_update_randoms = demo_randoms_of ''0123456789abcdef''"

theorem policy_update_reaches_agent_witness:
  "\<exists>updated st' update. updateAgentPolicy demo_control_env 1000 demo_update_randoms (demo_admin ''u'') demo_agent demo_patch demo_live_state =
       (Inr updated, st') \<and>
     ap_maxActionTimeoutSeconds (rn_executorPolicy (onmessage demo_runtime_env 2000 2000 ''n''
       (Some (JObj (policy_envelope (\<lambda>_ _. ''sig'') ''priv'' (\<lambda>_. ''t'') update))) (runAgent AgentRuntimeProps.demo_config))) = 9"
proof -
  let ?rt = "runAgent AgentRuntimeProps.demo_config"
  have u: "understands (\<lambda>_ _. ''sig'') ''priv'' (\<lambda>_. ''t'') 1000 demo_runtime_env (cf_controlPlanePublicKeyPem (rn_config ?rt))"
    by (simp add: understands_def demo_runtime_env_def)
  have rt: "cf_agentId (rn_config ?rt) = ra_id demo_agent" "ap_version (cf_policy (rn_config ?rt)) \<le> ra_policyVersion demo_agent"
    "rn_seenPolicyUpdateNonces ?rt = []" "re_save_ok demo_runtime_env"
    by (simp_all add: demo_start AgentRuntimeProps.demo_config_def demo_agent_def createAgentPolicy_def runAgent_def event_def
        demo_runtime_env_def)
  have live: "live_of (snd demo_live_state) (ra_id demo_agent) = Some \<lparr> al_agent = demo_agent, al_connection = 7, al_seenNonces = [] \<rparr>"
    by (simp add: demo_live_state_def live_of_def demo_agent_def)
  have rnd: "ra_id demo_agent \<noteq> []" "16 \<le> length (cr_nonce demo_update_randoms)"
    by (simp_all add: demo_agent_def demo_update_randoms_def demo_randoms_of_def)
  have store: "cp_store demo_live_state = empty_store\<lparr> rs_agents := [demo_agent] \<rparr>"
    using demo_control_store by (simp add: demo_live_state_def cp_store_def)
  obtain updated st' where p: "updateAgentPolicy demo_control_env 1000 demo_update_randoms (demo_admin ''u'') demo_agent demo_patch demo_live_state =
      (Inr updated, st')"
    by (simp add: updateAgentPolicy_def Let_def store updateAgent_def update_rows_def)
  then have pol: "ra_policy updated = capped_policy (ce_config demo_control_env) demo_patch 2"
    by (auto simp: updateAgentPolicy_def Let_def demo_agent_def split: sum.splits)
  have wf: "policy_wf (ra_policy updated)" "ap_maxActionTimeoutSeconds (ra_policy updated) = 9"
    unfolding pol by code_simp+
  from policy_update_reaches_agent [OF p u rt(1) rnd, of 2000 2000 "''n''"] live wf(1) rt(2-4)
  obtain update where "pu_policy update = ra_policy updated"
    "installs 2000 ?rt update (onmessage demo_runtime_env 2000 2000 ''n''
       (Some (JObj (policy_envelope (\<lambda>_ _. ''sig'') ''priv'' (\<lambda>_. ''t'') update))) ?rt)"
    by (auto simp: Let_def)
  then have "ap_maxActionTimeoutSeconds (rn_executorPolicy (onmessage demo_runtime_env 2000 2000 ''n''
       (Some (JObj (policy_envelope (\<lambda>_ _. ''sig'') ''priv'' (\<lambda>_. ''t'') update))) ?rt)) = 9"
    using wf(2) by (simp only: installs_def)
  with p show ?thesis by blast
qed

end
