(* ===== verification/AgentLiveness.thy ===== *)
theory AgentLiveness
  imports AgentLifecycleProps
begin

section \<open>Silent connections are closed\<close>

text \<open>
  A liveness property of the lifecycle manager, over infinite runs of its steps in which the
  heartbeat timer keeps firing and the clock advances beyond every bound.
\<close>

definition idle_timeout :: "lifecycle_config \<Rightarrow> int" where
  "idle_timeout config = patched (lcc_idleTimeoutMs config) DEFAULT_AGENT_IDLE_TIMEOUT_MS"

text \<open>The connection has shown no activity after the time \<open>a\<close>.\<close>

definition silent_since :: "conn \<Rightarrow> int \<Rightarrow> lifecycle \<Rightarrow> bool" where
  "silent_since c a lc \<longleftrightarrow> (\<forall>m. map_get (lc_managed lc) c = Some m \<longrightarrow> mg_lastActivityAt m \<le> a)"

definition asked_to_close :: "conn \<Rightarrow> lifecycle \<Rightarrow> bool" where
  "asked_to_close c lc \<longleftrightarrow> CloseWs c 1001 ''idle timeout'' \<in> set (lc_effects lc)"

lemma heartbeat_one_effects: "set (lc_effects lc) \<subseteq> set (lc_effects (heartbeat_one lookup now e lc))"
  by (auto simp: heartbeat_one_def Let_def closeConnection_touch)

lemma heartbeat_fold_effects: "set (lc_effects lc) \<subseteq> set (lc_effects (fold (heartbeat_one lookup now) es lc))"
proof (induction es arbitrary: lc)
  case (Cons e es)
  have "set (lc_effects lc) \<subseteq> set (lc_effects (heartbeat_one lookup now e lc))" by (rule heartbeat_one_effects)
  also have "\<dots> \<subseteq> set (lc_effects (fold (heartbeat_one lookup now) es (heartbeat_one lookup now e lc)))" by (rule Cons.IH)
  finally show ?case by simp
qed simp

lemma heartbeat_one_config [simp]: "lc_config (heartbeat_one lookup now e lc) = lc_config lc"
  by (simp add: heartbeat_one_def Let_def)

definition armed :: "conn \<Rightarrow> lifecycle \<Rightarrow> bool" where
  "armed c lc \<longleftrightarrow> (\<forall>m. map_get (lc_managed lc) c = Some m \<longrightarrow> mg_terminationTimeout m)"

lemma heartbeat_keeps_armed: "armed c lc \<Longrightarrow> armed c (fold (heartbeat_one lookup now) es lc)"
proof (induction es arbitrary: lc)
  case (Cons e es)
  then have "armed c (heartbeat_one lookup now e lc)"
    by (auto simp: armed_def heartbeat_one_def Let_def closeConnection_touch split: if_splits)
  from Cons.IH [OF this] show ?case by simp
qed simp

lemma heartbeat_closes_idle:
  assumes "(c, m) \<in> set es" and "now - mg_lastActivityAt m \<ge> idle_timeout (lc_config lc)"
  shows "asked_to_close c (fold (heartbeat_one lookup now) es lc) \<and> armed c (fold (heartbeat_one lookup now) es lc)"
  using assms
proof (induction es arbitrary: lc)
  case (Cons e es)
  show ?case
  proof (cases "e = (c, m)")
    case True
    with Cons.prems(2) have "asked_to_close c (heartbeat_one lookup now e lc)" "armed c (heartbeat_one lookup now e lc)"
      by (auto simp: heartbeat_one_def idle_timeout_def Let_def closeConnection_touch asked_to_close_def armed_def)
    then show ?thesis
      using heartbeat_keeps_armed heartbeat_fold_effects [of "heartbeat_one lookup now e lc" lookup now es]
      unfolding asked_to_close_def by auto
  next
    case False
    with Cons show ?thesis by simp
  qed
qed simp

text \<open>
  C16: in every infinite run of the lifecycle manager in which heartbeats keep coming, later than any
  given time, a connection that falls silent does not stay: after some time it is gone, or it has
  been asked to close for being idle (and then its termination timer is armed).
\<close>

theorem silent_connection_closed:
  assumes "\<sigma> 0 = newLifecycle config" and "\<forall>n. lc_step (\<sigma> n) (\<sigma> (Suc n))"
    and "\<forall>bound k. \<exists>n \<ge> k. \<exists>lookup now. bound \<le> now \<and> \<sigma> (Suc n) = lc_runHeartbeat lookup now (\<sigma> n)"
    and "\<forall>n \<ge> k. silent_since c a (\<sigma> n)"
  shows "\<exists>n \<ge> k. \<not> isManaged (\<sigma> n) c \<or>
    asked_to_close c (\<sigma> n) \<and> armed c (\<sigma> n)"
proof -
  have run: "lc_step\<^sup>*\<^sup>* (\<sigma> 0) (\<sigma> n)" for n
  proof (induction n)
    case (Suc n)
    with assms(2) show ?case by (meson rtranclp.rtrancl_into_rtrancl)
  qed simp
  have ok: "lc_ok (\<sigma> n)" and cfg: "lc_config (\<sigma> n) = config" for n
    using lc_ts.inv_reachable [OF assms(1) run] by blast+
  from assms(3) obtain n lookup now where n: "n \<ge> k" "a + idle_timeout config \<le> now"
    "\<sigma> (Suc n) = lc_runHeartbeat lookup now (\<sigma> n)" by blast
  show ?thesis
  proof (cases "map_get (lc_managed (\<sigma> n)) c")
    case None
    then show ?thesis using n(1) by (auto simp: isManaged_def)
  next
    case (Some m)
    then have up: "\<not> lc_shuttingDown (\<sigma> n)" using ok [of n] by (auto simp: lc_ok_def)
    have "mg_lastActivityAt m \<le> a" using assms(4) n(1) Some by (simp add: silent_since_def)
    then have "now - mg_lastActivityAt m \<ge> idle_timeout (lc_config (\<sigma> n))" using n(2) cfg by simp
    note idle = this
    from Some have mem: "(c, m) \<in> set (lc_managed (\<sigma> n))" by (rule map_of_SomeD)
    have "asked_to_close c (\<sigma> (Suc n)) \<and> armed c (\<sigma> (Suc n))"
      unfolding n(3) lc_runHeartbeat_def using up heartbeat_closes_idle [OF mem idle] by simp
    then show ?thesis using n(1) by (intro exI [of _ "Suc n"]) simp
  qed
qed

text \<open>A run in which connection 4 comes in and then only heartbeats happen, one each millisecond.\<close>

fun demo_run :: "nat \<Rightarrow> lifecycle" where
  "demo_run 0 = newLifecycle demo_lc_config"
| "demo_run (Suc n) =
     (if n = 0 then snd (attach 4 0 (demo_run n)) else lc_runHeartbeat (\<lambda>_. None) (int n) (demo_run n))"

lemma silent_heartbeats: "silent_since c a lc \<Longrightarrow> silent_since c a (fold (heartbeat_one lookup now) es lc)"
proof (induction es arbitrary: lc)
  case (Cons e es)
  then have "silent_since c a (heartbeat_one lookup now e lc)"
    by (auto simp: silent_since_def heartbeat_one_def Let_def closeConnection_touch split: if_splits)
  from Cons.IH [OF this] show ?case by simp
qed simp

lemma demo_run_silent: "silent_since 4 0 (demo_run n)"
proof (induction n)
  case 0
  show ?case by (simp add: silent_since_def newLifecycle_def)
next
  case (Suc n)
  show ?case
  proof (cases "n = 0")
    case True
    then show ?thesis
      by (simp add: silent_since_def attach_def newLifecycle_def lc_maxConnections_def demo_lc_config_def patched_def)
  next
    case False
    with Suc show ?thesis by (simp add: lc_runHeartbeat_def silent_heartbeats)
  qed
qed

theorem silent_connection_closed_witness:
  "\<exists>n. \<not> isManaged (demo_run n) 4 \<or> asked_to_close 4 (demo_run n) \<and> armed 4 (demo_run n)"
proof -
  have steps: "lc_step (demo_run n) (demo_run (Suc n))" for n
  proof (cases "n = 0")
    case True
    have "\<not> isManaged (newLifecycle demo_lc_config) 4" by (simp add: isManaged_def newLifecycle_def)
    from lc_step.attached [OF this, of 0] True show ?thesis by simp
  qed (simp add: lc_step.heartbeat)
  have fair: "\<exists>n \<ge> k. \<exists>lookup now. bound \<le> now \<and> demo_run (Suc n) = lc_runHeartbeat lookup now (demo_run n)" for bound k
    by (intro exI [of _ "Suc (max k (nat bound))"] conjI exI [of _ "\<lambda>_. None"] exI [of _ "int (Suc (max k (nat bound)))"])
      (auto simp: max_def)
  have s: "demo_run 0 = newLifecycle demo_lc_config" by simp
  from silent_connection_closed [of demo_run, OF s _ _, of 0 4 0] steps fair demo_run_silent
  show ?thesis by (simp del: demo_run.simps)
qed

end
