(* ===== verification/Metrics.thy ===== *)
theory Metrics
  imports Prelude Complex_Main
begin

section \<open>Counters: \<open>src/metrics.ts\<close>\<close>

text \<open>
  The collector is the value of its counters; \<open>startedAt\<close> and the clock of \<open>getMetrics\<close> are
  arguments. The services report to it by events (\<open>metric_event\<close>), one for each recording method
  they call, so that what they do to the counters is the fold of their events. Durations are whole
  milliseconds and the average is a rational.
\<close>

record session_counts =
  mc_created :: int
  mc_closed :: int
  mc_active :: int
  mc_errors :: int

record command_counts =
  mc_executed :: int
  mc_successful :: int
  mc_failed :: int
  mc_totalDurationMs :: int
  mc_avgDurationMs :: rat

record file_counts =
  mc_reads :: int
  mc_writes :: int
  mc_deletes :: int
  mc_bytesRead :: int
  mc_bytesWritten :: int

record transfer_counts =
  mc_uploads :: int
  mc_downloads :: int
  mc_bytesUploaded :: int
  mc_bytesDownloaded :: int

record tunnel_counts =
  mc_opened :: int
  mc_tunnelsClosed :: int
  mc_tunnelsActive :: int
  mc_tunnelErrors :: int

record policy_counts =
  mc_allowed :: int
  mc_denied :: int
  mc_explainOnly :: int

record metrics =
  me_sessions :: session_counts
  me_commands :: command_counts
  me_files :: file_counts
  me_transfers :: transfer_counts
  me_tunnels :: tunnel_counts
  me_policy :: policy_counts
  me_uptime :: int
  me_startedAt :: int

definition createEmptyMetrics :: "int \<Rightarrow> metrics" where
  "createEmptyMetrics now =
     \<lparr> me_sessions = \<lparr> mc_created = 0, mc_closed = 0, mc_active = 0, mc_errors = 0 \<rparr>,
       me_commands = \<lparr> mc_executed = 0, mc_successful = 0, mc_failed = 0, mc_totalDurationMs = 0, mc_avgDurationMs = 0 \<rparr>,
       me_files = \<lparr> mc_reads = 0, mc_writes = 0, mc_deletes = 0, mc_bytesRead = 0, mc_bytesWritten = 0 \<rparr>,
       me_transfers = \<lparr> mc_uploads = 0, mc_downloads = 0, mc_bytesUploaded = 0, mc_bytesDownloaded = 0 \<rparr>,
       me_tunnels = \<lparr> mc_opened = 0, mc_tunnelsClosed = 0, mc_tunnelsActive = 0, mc_tunnelErrors = 0 \<rparr>,
       me_policy = \<lparr> mc_allowed = 0, mc_denied = 0, mc_explainOnly = 0 \<rparr>,
       me_uptime = 0, me_startedAt = now \<rparr>"

definition recordSessionCreated :: "metrics \<Rightarrow> metrics" where
  "recordSessionCreated m = m\<lparr> me_sessions := (me_sessions m)
     \<lparr> mc_created := mc_created (me_sessions m) + 1, mc_active := mc_active (me_sessions m) + 1 \<rparr> \<rparr>"

definition recordSessionClosed :: "metrics \<Rightarrow> metrics" where
  "recordSessionClosed m = m\<lparr> me_sessions := (me_sessions m)
     \<lparr> mc_closed := mc_closed (me_sessions m) + 1, mc_active := max 0 (mc_active (me_sessions m) - 1) \<rparr> \<rparr>"

definition recordSessionError :: "metrics \<Rightarrow> metrics" where
  "recordSessionError m = m\<lparr> me_sessions := (me_sessions m)\<lparr> mc_errors := mc_errors (me_sessions m) + 1 \<rparr> \<rparr>"

definition recordCommand :: "int \<Rightarrow> bool \<Rightarrow> metrics \<Rightarrow> metrics" where
  "recordCommand durationMs success m =
     (let c = me_commands m;
          executed = mc_executed c + 1;
          total = mc_totalDurationMs c + durationMs;
          c1 = c\<lparr> mc_executed := executed, mc_totalDurationMs := total,
                  mc_avgDurationMs := of_int total / of_int executed \<rparr>
      in m\<lparr> me_commands := (if success then c1\<lparr> mc_successful := mc_successful c + 1 \<rparr>
                            else c1\<lparr> mc_failed := mc_failed c + 1 \<rparr>) \<rparr>)"

definition recordFileRead :: "int \<Rightarrow> metrics \<Rightarrow> metrics" where
  "recordFileRead bytes m = m\<lparr> me_files := (me_files m)
     \<lparr> mc_reads := mc_reads (me_files m) + 1, mc_bytesRead := mc_bytesRead (me_files m) + bytes \<rparr> \<rparr>"

definition recordFileWrite :: "int \<Rightarrow> metrics \<Rightarrow> metrics" where
  "recordFileWrite bytes m = m\<lparr> me_files := (me_files m)
     \<lparr> mc_writes := mc_writes (me_files m) + 1, mc_bytesWritten := mc_bytesWritten (me_files m) + bytes \<rparr> \<rparr>"

definition recordFileDelete :: "metrics \<Rightarrow> metrics" where
  "recordFileDelete m = m\<lparr> me_files := (me_files m)\<lparr> mc_deletes := mc_deletes (me_files m) + 1 \<rparr> \<rparr>"

datatype transfer_kind = Upload | Download

definition recordTransfer :: "transfer_kind \<Rightarrow> int \<Rightarrow> metrics \<Rightarrow> metrics" where
  "recordTransfer kind bytes m =
     (let t = me_transfers m in
      m\<lparr> me_transfers := (if kind = Upload
           then t\<lparr> mc_uploads := mc_uploads t + 1, mc_bytesUploaded := mc_bytesUploaded t + bytes \<rparr>
           else t\<lparr> mc_downloads := mc_downloads t + 1, mc_bytesDownloaded := mc_bytesDownloaded t + bytes \<rparr>) \<rparr>)"

definition recordTunnelOpened :: "metrics \<Rightarrow> metrics" where
  "recordTunnelOpened m = m\<lparr> me_tunnels := (me_tunnels m)
     \<lparr> mc_opened := mc_opened (me_tunnels m) + 1, mc_tunnelsActive := mc_tunnelsActive (me_tunnels m) + 1 \<rparr> \<rparr>"

definition recordTunnelClosed :: "metrics \<Rightarrow> metrics" where
  "recordTunnelClosed m = m\<lparr> me_tunnels := (me_tunnels m)
     \<lparr> mc_tunnelsClosed := mc_tunnelsClosed (me_tunnels m) + 1,
       mc_tunnelsActive := max 0 (mc_tunnelsActive (me_tunnels m) - 1) \<rparr> \<rparr>"

definition recordTunnelError :: "metrics \<Rightarrow> metrics" where
  "recordTunnelError m = m\<lparr> me_tunnels := (me_tunnels m)\<lparr> mc_tunnelErrors := mc_tunnelErrors (me_tunnels m) + 1 \<rparr> \<rparr>"

text \<open>\<open>explain\<close> is the mode of the decision.\<close>

definition recordPolicyDecision :: "bool \<Rightarrow> bool \<Rightarrow> metrics \<Rightarrow> metrics" where
  "recordPolicyDecision isAllowed explain m =
     (let p = me_policy m in
      if explain then m\<lparr> me_policy := p\<lparr> mc_explainOnly := mc_explainOnly p + 1 \<rparr> \<rparr>
      else if isAllowed then m\<lparr> me_policy := p\<lparr> mc_allowed := mc_allowed p + 1 \<rparr> \<rparr>
      else m\<lparr> me_policy := p\<lparr> mc_denied := mc_denied p + 1 \<rparr> \<rparr>)"

definition getMetrics :: "int \<Rightarrow> metrics \<Rightarrow> metrics" where
  "getMetrics now m = m\<lparr> me_uptime := now - me_startedAt m \<rparr>"

definition resetMetrics :: "int \<Rightarrow> metrics \<Rightarrow> metrics" where
  "resetMetrics now m = createEmptyMetrics now"

subsection \<open>Export\<close>

text \<open>\<open>toFixed(2)\<close>: the nearest hundredth, the larger of two.\<close>

definition to_fixed_2 :: "rat \<Rightarrow> string" where
  "to_fixed_2 x =
     (let n = \<lfloor>\<bar>x\<bar> * 100 + 1 / 2\<rfloor>; fraction = nat (n mod 100)
      in (if x < 0 then ''-'' else []) @ show_int (n div 100) @ ''.'' @
         (if fraction < 10 then ''0'' else []) @ show_nat fraction)"

definition gauge_line :: "string \<Rightarrow> int \<Rightarrow> string" where
  "gauge_line name v = name @ '' '' @ show_int v"

definition exportPrometheus :: "int \<Rightarrow> metrics \<Rightarrow> string" where
  "exportPrometheus now metrics =
     (let m = getMetrics now metrics in join [LF]
       [''# HELP ssh_mcp_sessions_total Total number of SSH sessions'',
        ''# TYPE ssh_mcp_sessions_total counter'',
        gauge_line ''ssh_mcp_sessions_created'' (mc_created (me_sessions m)),
        gauge_line ''ssh_mcp_sessions_closed'' (mc_closed (me_sessions m)),
        gauge_line ''ssh_mcp_sessions_errors'' (mc_errors (me_sessions m)),
        [],
        ''# HELP ssh_mcp_sessions_active Current active sessions'',
        ''# TYPE ssh_mcp_sessions_active gauge'',
        gauge_line ''ssh_mcp_sessions_active'' (mc_active (me_sessions m)),
        [],
        ''# HELP ssh_mcp_commands_total Total number of commands executed'',
        ''# TYPE ssh_mcp_commands_total counter'',
        gauge_line ''ssh_mcp_commands_executed'' (mc_executed (me_commands m)),
        gauge_line ''ssh_mcp_commands_successful'' (mc_successful (me_commands m)),
        gauge_line ''ssh_mcp_commands_failed'' (mc_failed (me_commands m)),
        [],
        ''# HELP ssh_mcp_command_duration_ms Average command duration'',
        ''# TYPE ssh_mcp_command_duration_ms gauge'',
        ''ssh_mcp_command_duration_avg_ms '' @ to_fixed_2 (mc_avgDurationMs (me_commands m)),
        [],
        ''# HELP ssh_mcp_files_total File operations'',
        ''# TYPE ssh_mcp_files_total counter'',
        gauge_line ''ssh_mcp_files_reads'' (mc_reads (me_files m)),
        gauge_line ''ssh_mcp_files_writes'' (mc_writes (me_files m)),
        gauge_line ''ssh_mcp_files_deletes'' (mc_deletes (me_files m)),
        gauge_line ''ssh_mcp_files_bytes_read'' (mc_bytesRead (me_files m)),
        gauge_line ''ssh_mcp_files_bytes_written'' (mc_bytesWritten (me_files m)),
        [],
        ''# HELP ssh_mcp_transfers_total File transfer operations'',
        ''# TYPE ssh_mcp_transfers_total counter'',
        gauge_line ''ssh_mcp_transfers_uploads'' (mc_uploads (me_transfers m)),
        gauge_line ''ssh_mcp_transfers_downloads'' (mc_downloads (me_transfers m)),
        gauge_line ''ssh_mcp_transfers_bytes_uploaded'' (mc_bytesUploaded (me_transfers m)),
        gauge_line ''ssh_mcp_transfers_bytes_downloaded'' (mc_bytesDownloaded (me_transfers m)),
        [],
        ''# HELP ssh_mcp_tunnels_total SSH tunnel lifecycle events'',
        ''# TYPE ssh_mcp_tunnels_total counter'',
        gauge_line ''ssh_mcp_tunnels_opened'' (mc_opened (me_tunnels m)),
        gauge_line ''ssh_mcp_tunnels_closed'' (mc_tunnelsClosed (me_tunnels m)),
        gauge_line ''ssh_mcp_tunnels_errors'' (mc_tunnelErrors (me_tunnels m)),
        [],
        ''# HELP ssh_mcp_tunnels_active Active SSH tunnels'',
        ''# TYPE ssh_mcp_tunnels_active gauge'',
        gauge_line ''ssh_mcp_tunnels_active'' (mc_tunnelsActive (me_tunnels m)),
        [],
        ''# HELP ssh_mcp_policy_decisions_total Policy decisions'',
        ''# TYPE ssh_mcp_policy_decisions_total counter'',
        gauge_line ''ssh_mcp_policy_allowed'' (mc_allowed (me_policy m)),
        gauge_line ''ssh_mcp_policy_denied'' (mc_denied (me_policy m)),
        gauge_line ''ssh_mcp_policy_explain_only'' (mc_explainOnly (me_policy m)),
        [],
        ''# HELP ssh_mcp_uptime_ms Server uptime in milliseconds'',
        ''# TYPE ssh_mcp_uptime_ms gauge'',
        gauge_line ''ssh_mcp_uptime_ms'' (me_uptime m)])"

subsection \<open>Events\<close>

datatype metric_event =
    SessionCreated | SessionClosed | SessionError | CommandRun int bool
  | FileRead int | FileWrite int | FileDelete | Transferred transfer_kind int
  | TunnelOpened | TunnelClosed | TunnelError | PolicyDecided bool bool

fun record_event :: "metric_event \<Rightarrow> metrics \<Rightarrow> metrics" where
  "record_event SessionCreated m = recordSessionCreated m"
| "record_event SessionClosed m = recordSessionClosed m"
| "record_event SessionError m = recordSessionError m"
| "record_event (CommandRun ms ok) m = recordCommand ms ok m"
| "record_event (FileRead n) m = recordFileRead n m"
| "record_event (FileWrite n) m = recordFileWrite n m"
| "record_event FileDelete m = recordFileDelete m"
| "record_event (Transferred k n) m = recordTransfer k n m"
| "record_event TunnelOpened m = recordTunnelOpened m"
| "record_event TunnelClosed m = recordTunnelClosed m"
| "record_event TunnelError m = recordTunnelError m"
| "record_event (PolicyDecided ok explain) m = recordPolicyDecision ok explain m"

lemmas record_defs = recordSessionCreated_def recordSessionClosed_def recordSessionError_def recordCommand_def
  recordFileRead_def recordFileWrite_def recordFileDelete_def recordTransfer_def recordTunnelOpened_def
  recordTunnelClosed_def recordTunnelError_def recordPolicyDecision_def

text \<open>
  What the counters of commands say of each other, whatever is recorded: every command succeeded or
  failed, and the average is the total over the number.
\<close>

definition commands_consistent :: "metrics \<Rightarrow> bool" where
  "commands_consistent m \<longleftrightarrow>
     (let c = me_commands m in
      0 \<le> mc_successful c \<and> 0 \<le> mc_failed c \<and> mc_executed c = mc_successful c + mc_failed c \<and>
      (mc_executed c > 0 \<longrightarrow> mc_avgDurationMs c * of_int (mc_executed c) = of_int (mc_totalDurationMs c)))"

lemma commands_consistent_event: "commands_consistent m \<Longrightarrow> commands_consistent (record_event e m)"
  by (cases e) (auto simp: record_defs commands_consistent_def Let_def)

lemma commands_consistent_run: "commands_consistent (fold record_event es (createEmptyMetrics now))"
proof -
  have "commands_consistent m \<Longrightarrow> commands_consistent (fold record_event es m)" for m
    by (induction es arbitrary: m) (simp_all add: commands_consistent_event)
  then show ?thesis by (simp add: commands_consistent_def createEmptyMetrics_def)
qed

text \<open>
  The number of active tunnels is exact as long as no more closings than openings were recorded at
  any time.
\<close>

fun tunnel_events :: "metric_event list \<Rightarrow> int" where
  "tunnel_events [] = 0"
| "tunnel_events (e # es) = (if e = TunnelOpened then 1 else if e = TunnelClosed then -1 else 0) + tunnel_events es"

lemma tunnel_events_append [simp]: "tunnel_events (es @ fs) = tunnel_events es + tunnel_events fs"
  by (induction es) simp_all

lemma active_event:
  "mc_tunnelsActive (me_tunnels (record_event e m)) =
     (if e = TunnelOpened then mc_tunnelsActive (me_tunnels m) + 1
      else if e = TunnelClosed then max 0 (mc_tunnelsActive (me_tunnels m) - 1)
      else mc_tunnelsActive (me_tunnels m))"
  by (cases e) (simp_all add: record_defs Let_def)

lemma active_tunnels_exact:
  "(\<And>n. 0 \<le> a + tunnel_events (take n es)) \<Longrightarrow> mc_tunnelsActive (me_tunnels m) = a \<Longrightarrow>
   mc_tunnelsActive (me_tunnels (fold record_event es m)) = a + tunnel_events es"
proof (induction es arbitrary: m a)
  case (Cons e es)
  let ?d = "if e = TunnelOpened then 1 else if e = TunnelClosed then -1 else 0 :: int"
  from Cons.prems(1) [of 1] have "0 \<le> a + ?d" by simp
  then have a: "mc_tunnelsActive (me_tunnels (record_event e m)) = a + ?d"
    using Cons.prems(2) by (cases e) (simp_all add: record_defs Let_def)
  have "0 \<le> (a + ?d) + tunnel_events (take n es)" for n
    using Cons.prems(1) [of "Suc n"] by simp
  from Cons.IH [OF this a] show ?case by simp
qed simp

end
