(* ===== verification/Tunnels.thy ===== *)
theory Tunnels
  imports Policy Metrics
begin

section \<open>Port forwarding: \<open>src/tunnel.ts\<close>\<close>

text \<open>
  The tunnel manager: its map of tunnels, its map of handles (what closes a tunnel), its counter and
  what it reports to the metrics. Creating and closing a tunnel await the network in the middle, so
  each is two steps, \<open>_begin\<close> up to the await and \<open>_end\<close> with the outcome; \<open>tn_step\<close> interleaves the
  steps of all operations in flight as the event loop does. Sockets and channels are not modelled,
  only that a forwarded connection that fails is reported.
\<close>

datatype tunnel_type = LocalForward | RemoteForward

record tunnel_config =
  tc_sessionId :: string
  tc_localHost :: "string option"
  tc_localPort :: int
  tc_remoteHost :: "string option"
  tc_remotePort :: "int option"

record tunnel_info =
  ti_id :: string
  ti_sessionId :: string
  ti_type :: tunnel_type
  ti_localHost :: string
  ti_localPort :: int
  ti_remoteHost :: string
  ti_remotePort :: int
  ti_createdAt :: int
  ti_active :: bool

record tunnel_manager =
  tm_tunnels :: "(string, tunnel_info) jsmap"
  tm_handles :: "(string, tunnel_type) jsmap"
  tm_counter :: nat
  tm_metrics :: "metric_event list"

definition newTunnelManager :: tunnel_manager where
  "newTunnelManager = \<lparr> tm_tunnels = [], tm_handles = [], tm_counter = 0, tm_metrics = [] \<rparr>"

definition tunnel_report :: "metric_event \<Rightarrow> tunnel_manager \<Rightarrow> tunnel_manager" where
  "tunnel_report e m = m\<lparr> tm_metrics := tm_metrics m @ [e] \<rparr>"

subsection \<open>Creating\<close>

definition or_localhost :: "string option \<Rightarrow> string" where
  "or_localhost host = (case host of None \<Rightarrow> ''localhost'' | Some h \<Rightarrow> h)"

definition target_port :: "tunnel_config \<Rightarrow> int" where
  "target_port config = (case tc_remotePort config of None \<Rightarrow> tc_localPort config | Some p \<Rightarrow> p)"

definition tunnel_action :: "tunnel_type \<Rightarrow> policy_action" where
  "tunnel_action kind = (case kind of LocalForward \<Rightarrow> TunnelLocal | RemoteForward \<Rightarrow> TunnelRemote)"

text \<open>What the policy is asked.\<close>

definition tunnel_context :: "tunnel_type \<Rightarrow> policy_mode \<Rightarrow> tunnel_config \<Rightarrow> policy_context" where
  "tunnel_context kind mode config =
     \<lparr> px_action = tunnel_action kind, px_host = Some (or_localhost (tc_remoteHost config)), px_username = None,
       px_command = None, px_path = None, px_secondaryPath = None,
       px_localBindHost = Some (or_localhost (tc_localHost config)), px_localPort = Some (tc_localPort config),
       px_remoteHost = Some (or_localhost (tc_remoteHost config)), px_remotePort = Some (target_port config),
       px_mode = Some mode, px_rawSudo = False, px_destructive = False \<rparr>"

definition tunnel_info_of :: "tunnel_type \<Rightarrow> tunnel_config \<Rightarrow> string \<Rightarrow> int \<Rightarrow> int \<Rightarrow> bool \<Rightarrow> tunnel_info" where
  "tunnel_info_of kind config i port now active =
     \<lparr> ti_id = i, ti_sessionId = tc_sessionId config, ti_type = kind, ti_localHost = or_localhost (tc_localHost config),
       ti_localPort = tc_localPort config, ti_remoteHost = or_localhost (tc_remoteHost config), ti_remotePort = port,
       ti_createdAt = now, ti_active = active \<rparr>"

datatype tunnel_start = NotStarted ssh_mcp_error | Explained tunnel_info | Starting string

text \<open>
  \<open>session\<close> is the policy mode of the session, when there is one. The first part of
  \<open>createLocalTunnel\<close> and \<open>createRemoteTunnel\<close>, to the await on the listening socket or the forward.
\<close>

definition createTunnel_begin ::
    "(policy_context \<Rightarrow> ssh_mcp_error + policy_decision) \<Rightarrow> policy_mode option \<Rightarrow> int \<Rightarrow> tunnel_type \<Rightarrow> tunnel_config \<Rightarrow>
     tunnel_manager \<Rightarrow> tunnel_start \<times> tunnel_manager" where
  "createTunnel_begin gate session now kind config m =
     (case session of
        None \<Rightarrow> (NotStarted (createConnectionError ''Session not found or expired'' None), m)
      | Some mode \<Rightarrow>
          (case gate (tunnel_context kind mode config) of
             Inl e \<Rightarrow> (NotStarted e, m)
           | Inr decision \<Rightarrow>
               if pd_mode decision = Explain then
                 (Explained (tunnel_info_of kind config (''tunnel-explain-'' @ show_int now) (target_port config) now False), m)
               else
                 (Starting (''tunnel-'' @ show_int now @ ''-'' @ show_nat (tm_counter m + 1)), m\<lparr> tm_counter := tm_counter m + 1 \<rparr>)))"

text \<open>
  The rest. \<open>outcome\<close> is the message of an error, or the port of a remote forward; a local tunnel
  whose socket cannot listen fails with the error of the socket, and only a remote one is counted.
\<close>

definition createTunnel_end ::
    "int \<Rightarrow> tunnel_type \<Rightarrow> tunnel_config \<Rightarrow> string \<Rightarrow> string + int \<Rightarrow> tunnel_manager \<Rightarrow> (thrown + tunnel_info) \<times> tunnel_manager" where
  "createTunnel_end now kind config tunnelId outcome m =
     (case outcome of
        Inl message \<Rightarrow>
          (case kind of
             LocalForward \<Rightarrow> (Inl (JSError message), m)
           | RemoteForward \<Rightarrow>
               (Inl (MCPError (createConnectionError
                  (''Remote tunnel forward failed on '' @ or_localhost (tc_remoteHost config) @ '':'' @
                   show_int (target_port config) @ '': '' @ message) None)), tunnel_report TunnelError m))
      | Inr port \<Rightarrow>
          let info = tunnel_info_of kind config tunnelId
                (case kind of LocalForward \<Rightarrow> target_port config | RemoteForward \<Rightarrow> port) now True
          in (Inr info, tunnel_report TunnelOpened
               (m\<lparr> tm_tunnels := map_set tunnelId info (tm_tunnels m),
                   tm_handles := map_set tunnelId kind (tm_handles m) \<rparr>)))"

text \<open>A connection that cannot be forwarded, by either kind of tunnel.\<close>

definition forward_failed :: "tunnel_manager \<Rightarrow> tunnel_manager" where
  "forward_failed m = tunnel_report TunnelError m"

subsection \<open>Closing and listing\<close>

text \<open>\<open>closeTunnel\<close> to the await of the handle; the result is whether there is such a tunnel.\<close>

definition closeTunnel_begin :: "string \<Rightarrow> tunnel_manager \<Rightarrow> bool \<times> tunnel_manager" where
  "closeTunnel_begin tunnelId m =
     (case map_get (tm_tunnels m) tunnelId of
        None \<Rightarrow> (False, m)
      | Some tunnel \<Rightarrow> (True, m\<lparr> tm_tunnels := map_set tunnelId (tunnel\<lparr> ti_active := False \<rparr>) (tm_tunnels m) \<rparr>))"

text \<open>
  The rest. \<open>failure\<close> is the error of the handle's close, which \<open>closeTunnel\<close> rethrows; the tunnel then
  stays in the maps, inactive.
\<close>

definition closeTunnel_end :: "string \<Rightarrow> string option \<Rightarrow> tunnel_manager \<Rightarrow> (string + bool) \<times> tunnel_manager" where
  "closeTunnel_end tunnelId failure m =
     (case failure of
        Some message \<Rightarrow> (Inl message, m)
      | None \<Rightarrow> (Inr True, tunnel_report TunnelClosed
          (m\<lparr> tm_handles := map_delete tunnelId (tm_handles m), tm_tunnels := map_delete tunnelId (tm_tunnels m) \<rparr>)))"

definition closeTunnel :: "string \<Rightarrow> string option \<Rightarrow> tunnel_manager \<Rightarrow> (string + bool) \<times> tunnel_manager" where
  "closeTunnel tunnelId failure m =
     (case closeTunnel_begin tunnelId m of (False, m1) \<Rightarrow> (Inr False, m1) | (True, m1) \<Rightarrow> closeTunnel_end tunnelId failure m1)"

definition listTunnels :: "string option \<Rightarrow> tunnel_manager \<Rightarrow> tunnel_info list" where
  "listTunnels sessionId m =
     (if truthy sessionId then filter (\<lambda>t. Some (ti_sessionId t) = sessionId) (map snd (tm_tunnels m))
      else map snd (tm_tunnels m))"

text \<open>\<open>closeSessionTunnels\<close> without interruption; the first error ends it.\<close>

fun close_each :: "(string \<Rightarrow> string option) \<Rightarrow> string list \<Rightarrow> nat \<Rightarrow> tunnel_manager \<Rightarrow> (string + nat) \<times> tunnel_manager" where
  "close_each failures [] n m = (Inr n, m)"
| "close_each failures (i # ids) n m =
     (case closeTunnel i (failures i) m of
        (Inl e, m1) \<Rightarrow> (Inl e, m1)
      | (Inr b, m1) \<Rightarrow> close_each failures ids (if b then Suc n else n) m1)"

definition closeSessionTunnels :: "(string \<Rightarrow> string option) \<Rightarrow> string \<Rightarrow> tunnel_manager \<Rightarrow> (string + nat) \<times> tunnel_manager" where
  "closeSessionTunnels failures sessionId m =
     close_each failures (map ti_id (listTunnels (Some sessionId) m)) 0 m"

subsection \<open>The service\<close>

definition local_forward_config :: "string \<Rightarrow> int \<Rightarrow> string \<Rightarrow> int \<Rightarrow> tunnel_config" where
  "local_forward_config sessionId localPort remoteHost remotePort =
     \<lparr> tc_sessionId = sessionId, tc_localHost = None, tc_localPort = localPort, tc_remoteHost = Some remoteHost,
       tc_remotePort = Some remotePort \<rparr>"

definition remote_forward_config :: "string \<Rightarrow> int \<Rightarrow> string \<Rightarrow> int \<Rightarrow> tunnel_config" where
  "remote_forward_config sessionId remotePort localHost localPort =
     \<lparr> tc_sessionId = sessionId, tc_localHost = Some localHost, tc_localPort = localPort, tc_remoteHost = Some ''localhost'',
       tc_remotePort = Some remotePort \<rparr>"

subsection \<open>Interleavings\<close>

text \<open>
  The manager, the operations that await, which are tunnels being started and being closed, and a log
  (not a part of the program) of the requests that got an identifier.
\<close>

record tunnel_world =
  tw_manager :: tunnel_manager
  tw_starting :: "(string \<times> tunnel_type \<times> tunnel_config) list"
  tw_closing :: "string list"
  tw_asked :: "(string \<times> tunnel_type \<times> tunnel_config) list"

inductive tn_step :: "(policy_context \<Rightarrow> ssh_mcp_error + policy_decision) \<Rightarrow> tunnel_world \<Rightarrow> tunnel_world \<Rightarrow> bool" for gate where
  tn_create: "createTunnel_begin gate session now kind config (tw_manager w) = (start, m) \<Longrightarrow>
     tn_step gate w (w\<lparr> tw_manager := m,
       tw_starting := (case start of Starting i \<Rightarrow> tw_starting w @ [(i, kind, config)] | _ \<Rightarrow> tw_starting w),
       tw_asked := (case start of Starting i \<Rightarrow> tw_asked w @ [(i, kind, config)] | _ \<Rightarrow> tw_asked w) \<rparr>)"
| tn_created: "tw_starting w = before @ (i, kind, config) # after \<Longrightarrow>
     tn_step gate w (w\<lparr> tw_manager := snd (createTunnel_end now kind config i outcome (tw_manager w)),
       tw_starting := before @ after \<rparr>)"
| tn_close: "closeTunnel_begin i (tw_manager w) = (found, m) \<Longrightarrow>
     tn_step gate w (w\<lparr> tw_manager := m, tw_closing := (if found then tw_closing w @ [i] else tw_closing w) \<rparr>)"
| tn_closed: "tw_closing w = before @ i # after \<Longrightarrow>
     tn_step gate w (w\<lparr> tw_manager := snd (closeTunnel_end i failure (tw_manager w)), tw_closing := before @ after \<rparr>)"
| tn_failed: "tn_step gate w (w\<lparr> tw_manager := forward_failed (tw_manager w) \<rparr>)"

definition tunnel_start_world :: tunnel_world where
  "tunnel_start_world = \<lparr> tw_manager = newTunnelManager, tw_starting = [], tw_closing = [], tw_asked = [] \<rparr>"

end
