(* ===== verification/TunnelProps.thy ===== *)
theory TunnelProps
  imports Tunnels PolicyGate
begin

section \<open>Properties of port forwarding\<close>

text \<open>
  In every interleaving of the operations the maps of the manager agree and every tunnel was
  permitted; the gauge of active tunnels is exact as long as no tunnel is closed by two calls at the
  same time, and wrong otherwise.
\<close>

subsection \<open>Identifiers\<close>

definition tunnel_id :: "int \<Rightarrow> nat \<Rightarrow> string" where
  "tunnel_id now n = ''tunnel-'' @ show_int now @ ''-'' @ show_nat n"

lemma tunnel_id_number: "takeWhile (\<lambda>c. c \<noteq> CHR ''-'') (rev (tunnel_id now n)) = rev (show_nat n)"
proof -
  have "CHR ''-'' \<notin> set (show_nat n)"
    using show_nat_digits [of "CHR ''-''" n] by (auto simp: is_digit_def char_between_def)
  then have "takeWhile (\<lambda>c. c \<noteq> CHR ''-'') (rev (show_nat n) @ r) = rev (show_nat n) @ takeWhile (\<lambda>c. c \<noteq> CHR ''-'') r" for r
    by (intro takeWhile_append2) auto
  then show ?thesis by (simp add: tunnel_id_def)
qed

lemma tunnel_id_inj: "tunnel_id now n = tunnel_id now' n' \<Longrightarrow> n = n'"
  by (metis num_of_show rev_rev_ident tunnel_id_number)

subsection \<open>The invariant\<close>

text \<open>The tunnel was asked for, and the policy let it pass for this session, hosts and ports.\<close>

definition authorised_tunnel :: "(policy_context \<Rightarrow> ssh_mcp_error + policy_decision) \<Rightarrow> tunnel_type \<Rightarrow> tunnel_config \<Rightarrow> bool" where
  "authorised_tunnel gate kind config \<longleftrightarrow>
     (\<exists>mode d. gate (tunnel_context kind mode config) = Inr d \<and> pd_mode d \<noteq> Explain)"

text \<open>
  The hosts and ports a request is about, with the defaults its interface documents, and what the
  policy has to be asked about them in enforce mode, field by field and apart from the code that asks.
\<close>

definition default_host :: "string option \<Rightarrow> string" where
  "default_host h = (if h = None then ''localhost'' else the h)"

definition default_port :: "tunnel_config \<Rightarrow> int" where
  "default_port config = (if tc_remotePort config = None then tc_localPort config else the (tc_remotePort config))"

definition tunnel_question :: "tunnel_type \<Rightarrow> tunnel_config \<Rightarrow> policy_context" where
  "tunnel_question kind config =
     \<lparr> px_action = (if kind = LocalForward then TunnelLocal else TunnelRemote),
       px_host = Some (default_host (tc_remoteHost config)), px_username = None, px_command = None, px_path = None,
       px_secondaryPath = None, px_localBindHost = Some (default_host (tc_localHost config)),
       px_localPort = Some (tc_localPort config), px_remoteHost = Some (default_host (tc_remoteHost config)),
       px_remotePort = Some (default_port config), px_mode = Some Enforce, px_rawSudo = False, px_destructive = False \<rparr>"

definition carries :: "tunnel_type \<Rightarrow> tunnel_config \<Rightarrow> tunnel_info \<Rightarrow> bool" where
  "carries kind config t \<longleftrightarrow>
     ti_type t = kind \<and> ti_sessionId t = tc_sessionId config \<and> ti_localHost t = default_host (tc_localHost config) \<and>
     ti_localPort t = tc_localPort config \<and> ti_remoteHost t = default_host (tc_remoteHost config) \<and>
     (kind = LocalForward \<longrightarrow> ti_remotePort t = default_port config)"

lemma tunnel_defaults: "or_localhost = default_host" "target_port = default_port"
  by (simp_all add: fun_eq_iff or_localhost_def default_host_def target_port_def default_port_def split: option.splits)

lemma tunnel_asked: "tunnel_context kind Enforce config = tunnel_question kind config"
  by (cases kind) (simp_all add: tunnel_context_def tunnel_question_def tunnel_action_def tunnel_defaults)

definition world_ids :: "tunnel_world \<Rightarrow> string list" where
  "world_ids w = map fst (tm_tunnels (tw_manager w)) @ map fst (tw_starting w)"

definition tunnels_ok :: "(policy_context \<Rightarrow> ssh_mcp_error + policy_decision) \<Rightarrow> tunnel_world \<Rightarrow> bool" where
  "tunnels_ok gate w \<longleftrightarrow>
     distinct (world_ids w) \<and>
     (\<forall>i \<in> set (world_ids w). \<exists>now n. i = tunnel_id now n \<and> n \<le> tm_counter (tw_manager w)) \<and>
     map fst (tm_handles (tw_manager w)) = map fst (tm_tunnels (tw_manager w)) \<and>
     set (tw_starting w) \<subseteq> set (tw_asked w) \<and>
     (\<forall>(i, kind, config) \<in> set (tw_asked w). authorised_tunnel gate kind config) \<and>
     (\<forall>(i, t) \<in> set (tm_tunnels (tw_manager w)).
        ti_id t = i \<and> (\<exists>config. (i, ti_type t, config) \<in> set (tw_asked w) \<and> carries (ti_type t) config t))"

lemma tunnels_ok_start: "tunnels_ok gate tunnel_start_world"
  by (simp add: tunnels_ok_def tunnel_start_world_def newTunnelManager_def world_ids_def)

lemma tunnel_report_simps [simp]:
  "tm_tunnels (tunnel_report e m) = tm_tunnels m" "tm_handles (tunnel_report e m) = tm_handles m"
  "tm_counter (tunnel_report e m) = tm_counter m" "tm_metrics (tunnel_report e m) = tm_metrics m @ [e]"
  by (simp_all add: tunnel_report_def)

lemma map_set_new: "k \<notin> set (map fst m) \<Longrightarrow> map_set k v m = m @ [(k, v)]"
  by (induction m) auto

lemma map_set_keys: "k \<in> set (map fst m) \<Longrightarrow> map fst (map_set k v m) = map fst m"
  by (induction m) auto

lemma map_delete_keys: "map fst (map_delete k m) = filter (\<lambda>i. i \<noteq> k) (map fst m)"
  by (induction m) (auto simp: AList.delete_eq)

lemma map_delete_mem: "x \<in> set (map_delete k m) \<Longrightarrow> x \<in> set m"
  by (simp add: AList.delete_eq)

lemma map_set_mem: "(i, t) \<in> set (map_set k v m) \<Longrightarrow> (i, t) = (k, v) \<or> (i, t) \<in> set m"
  by (induction m) (auto split: if_splits)

lemma started_world:
  assumes "tunnels_ok gate w" and "gate (tunnel_context kind mode config) = Inr d" and "pd_mode d \<noteq> Explain"
    and "m = (tw_manager w)\<lparr> tm_counter := tm_counter (tw_manager w) + 1 \<rparr>"
  shows "tunnels_ok gate (w\<lparr> tw_manager := m, tw_starting := tw_starting w @ [(tunnel_id now (tm_counter (tw_manager w) + 1), kind, config)],
    tw_asked := tw_asked w @ [(tunnel_id now (tm_counter (tw_manager w) + 1), kind, config)] \<rparr>)"
    (is "tunnels_ok gate ?w")
proof -
  let ?i = "tunnel_id now (tm_counter (tw_manager w) + 1)"
  have ids: "world_ids ?w = world_ids w @ [?i]" by (simp add: world_ids_def assms(4))
  have "?i \<notin> set (world_ids w)"
    using assms(1) unfolding tunnels_ok_def by (metis Suc_eq_plus1 Suc_n_not_le_n tunnel_id_inj)
  moreover have "\<exists>now' n. i = tunnel_id now' n \<and> n \<le> tm_counter (tw_manager w) + 1" if "i \<in> set (world_ids w @ [?i])" for i
    using assms(1) that unfolding tunnels_ok_def by (fastforce intro: le_SucI)
  moreover have "authorised_tunnel gate kind config" using assms(2,3) by (auto simp: authorised_tunnel_def)
  ultimately show ?thesis
    using assms(1) ids by (auto simp: tunnels_ok_def assms(4))
qed

lemma created_world:
  assumes "tunnels_ok gate w" and "tw_starting w = before @ (i, kind, config) # after"
  shows "tunnels_ok gate (w\<lparr> tw_manager := snd (createTunnel_end now kind config i outcome (tw_manager w)),
     tw_starting := before @ after \<rparr>)"
proof (cases outcome)
  case (Inl e)
  with assms show ?thesis by (cases kind) (auto simp: tunnels_ok_def world_ids_def createTunnel_end_def)
next
  case (Inr port)
  have new: "i \<notin> set (map fst (tm_tunnels (tw_manager w)))" "i \<notin> set (map fst (tm_handles (tw_manager w)))"
    using assms by (auto simp: tunnels_ok_def world_ids_def)
  have "(i, kind, config) \<in> set (tw_asked w)" using assms by (auto simp: tunnels_ok_def)
  with assms Inr show ?thesis
    by (auto simp: tunnels_ok_def world_ids_def createTunnel_end_def Let_def map_set_new [OF new(1)] map_set_new [OF new(2)]
        tunnel_info_of_def carries_def tunnel_defaults split: tunnel_type.splits)
qed

lemma closing_world:
  assumes "tunnels_ok gate w" and "closeTunnel_begin i (tw_manager w) = (found, m)"
  shows "tunnels_ok gate (w\<lparr> tw_manager := m, tw_closing := cs \<rparr>)"
proof (cases "map_get (tm_tunnels (tw_manager w)) i")
  case None
  with assms show ?thesis by (simp add: closeTunnel_begin_def tunnels_ok_def world_ids_def)
next
  case (Some t)
  then have k: "i \<in> set (map fst (tm_tunnels (tw_manager w)))" and t: "(i, t) \<in> set (tm_tunnels (tw_manager w))"
    by (force dest: map_of_SomeD)+
  have m: "m = (tw_manager w)\<lparr> tm_tunnels := map_set i (t\<lparr> ti_active := False \<rparr>) (tm_tunnels (tw_manager w)) \<rparr>"
    using assms(2) Some by (simp add: closeTunnel_begin_def)
  have "ti_id u = j \<and> (\<exists>config. (j, ti_type u, config) \<in> set (tw_asked w) \<and> carries (ti_type u) config u)"
    if "(j, u) \<in> set (map_set i (t\<lparr> ti_active := False \<rparr>) (tm_tunnels (tw_manager w)))" for j u
    using map_set_mem [OF that] assms(1) t by (force simp: tunnels_ok_def carries_def)
  with assms(1) show ?thesis by (auto simp: tunnels_ok_def world_ids_def m map_set_keys [OF k])
qed

lemma closed_world:
  assumes "tunnels_ok gate w"
  shows "tunnels_ok gate (w\<lparr> tw_manager := snd (closeTunnel_end i failure (tw_manager w)), tw_closing := cs \<rparr>)"
proof (cases failure)
  case None
  let ?w = "w\<lparr> tw_manager := snd (closeTunnel_end i failure (tw_manager w)), tw_closing := cs \<rparr>"
  have ids: "world_ids ?w = filter (\<lambda>j. j \<noteq> i) (map fst (tm_tunnels (tw_manager w))) @ map fst (tw_starting w)"
    by (simp add: world_ids_def closeTunnel_end_def None map_delete_keys)
  then have sub: "set (world_ids ?w) \<subseteq> set (world_ids w)" and dist: "distinct (world_ids w) \<Longrightarrow> distinct (world_ids ?w)"
    by (auto simp: world_ids_def)
  have keys: "map fst (tm_handles (tw_manager ?w)) = map fst (tm_tunnels (tw_manager ?w))"
    using assms by (simp add: tunnels_ok_def closeTunnel_end_def None map_delete_keys)
  have ts: "set (tm_tunnels (tw_manager ?w)) \<subseteq> set (tm_tunnels (tw_manager w))"
    by (auto simp: closeTunnel_end_def None dest: map_delete_mem)
  have same: "tm_counter (tw_manager ?w) = tm_counter (tw_manager w)" "tw_starting ?w = tw_starting w" "tw_asked ?w = tw_asked w"
    by (simp_all add: closeTunnel_end_def None)
  have "distinct (world_ids ?w)" using dist assms by (simp only: tunnels_ok_def)
  moreover have "\<forall>i \<in> set (world_ids ?w). \<exists>now n. i = tunnel_id now n \<and> n \<le> tm_counter (tw_manager ?w)"
    unfolding same using assms sub unfolding tunnels_ok_def by blast
  moreover have "set (tw_starting ?w) \<subseteq> set (tw_asked ?w)"
    and "\<forall>(i, kind, config) \<in> set (tw_asked ?w). authorised_tunnel gate kind config"
    unfolding same using assms unfolding tunnels_ok_def by blast+
  moreover have "\<forall>(i, t) \<in> set (tm_tunnels (tw_manager ?w)).
     ti_id t = i \<and> (\<exists>config. (i, ti_type t, config) \<in> set (tw_asked ?w) \<and> carries (ti_type t) config t)"
    unfolding same using assms ts unfolding tunnels_ok_def by blast
  ultimately show ?thesis using keys by (simp only: tunnels_ok_def simp_thms)
qed (use assms in \<open>simp add: tunnels_ok_def world_ids_def closeTunnel_end_def\<close>)

lemma tunnels_ok_step: "tn_step gate w w' \<Longrightarrow> tunnels_ok gate w \<Longrightarrow> tunnels_ok gate w'"
proof (induction rule: tn_step.induct)
  case (tn_create session now kind config w start m)
  show ?case
  proof (cases start)
    case (Starting i)
    with tn_create obtain mode d where "gate (tunnel_context kind mode config) = Inr d" "pd_mode d \<noteq> Explain"
      "i = tunnel_id now (tm_counter (tw_manager w) + 1)" "m = (tw_manager w)\<lparr> tm_counter := tm_counter (tw_manager w) + 1 \<rparr>"
      by (auto simp: createTunnel_begin_def tunnel_id_def split: option.splits sum.splits if_splits)
    from started_world [OF tn_create.prems this(1,2,4), of now] this(3) Starting show ?thesis by simp
  qed (use tn_create in \<open>auto simp: createTunnel_begin_def split: option.splits sum.splits if_splits\<close>)
next
  case (tn_created w before i kind config after now outcome)
  then show ?case by (simp add: created_world)
next
  case (tn_close i w found m)
  then show ?case using closing_world by blast
next
  case (tn_closed w before i after failure)
  then show ?case by (simp add: closed_world)
next
  case (tn_failed w)
  then show ?case by (simp add: forward_failed_def tunnels_ok_def world_ids_def)
qed

interpretation tn_ts: transition_system "\<lambda>w. w = tunnel_start_world" "tn_step gate" "tunnels_ok gate" for gate
  by unfold_locales (auto simp: tunnels_ok_start tunnels_ok_step)

context policy_gate
begin

lemma asked_tunnel_permitted: "authorised_tunnel gate kind config \<Longrightarrow> permits (tunnel_question kind config)"
  unfolding authorised_tunnel_def tunnel_asked [symmetric] using passed_permitted by (fastforce simp: tunnel_context_def)

end

subsection \<open>What is open was permitted\<close>

lemma tunnels_ok_listed:
  assumes "tunnels_ok gate w" and "(i, t) \<in> set (tm_tunnels (tw_manager w))"
  shows "ti_id t = i" and "\<exists>config. (i, ti_type t, config) \<in> set (tw_asked w) \<and> authorised_tunnel gate (ti_type t) config \<and>
    carries (ti_type t) config t"
proof -
  have ts: "\<forall>(i, t) \<in> set (tm_tunnels (tw_manager w)).
     ti_id t = i \<and> (\<exists>config. (i, ti_type t, config) \<in> set (tw_asked w) \<and> carries (ti_type t) config t)"
    using assms(1) unfolding tunnels_ok_def by (elim conjE)
  have asked: "\<forall>(i, kind, config) \<in> set (tw_asked w). authorised_tunnel gate kind config"
    using assms(1) unfolding tunnels_ok_def by (elim conjE)
  from bspec [OF ts assms(2)] have t: "ti_id t = i"
    "\<exists>config. (i, ti_type t, config) \<in> set (tw_asked w) \<and> carries (ti_type t) config t" by simp_all
  then show "ti_id t = i" by simp
  from t(2) asked show "\<exists>config. (i, ti_type t, config) \<in> set (tw_asked w) \<and> authorised_tunnel gate (ti_type t) config \<and>
    carries (ti_type t) config t" by fastforce
qed

text \<open>
  C25: whatever requests, closings, failures and sessions come in whatever order, every tunnel the
  manager lists was asked for by its session, in the request that got its identifier, and the policy
  permitted it when it was asked about exactly the bind host, the ports and the remote host of that
  request, which are those of the tunnel; its identifier is its own; and every listed tunnel has the
  handle that closes it, and only those have one. (The port a remote forward ends with is the one the
  server granted, the policy is asked about the one requested.)
\<close>

theorem listed_tunnels_permitted:
  assumes "(tn_step (engine_gate env policy))\<^sup>*\<^sup>* tunnel_start_world w"
    and "t \<in> set (listTunnels None (tw_manager w))"
  shows "distinct (map fst (tm_tunnels (tw_manager w))) \<and> map_get (tm_tunnels (tw_manager w)) (ti_id t) = Some t \<and>
    set (map fst (tm_handles (tw_manager w))) = ti_id ` set (listTunnels None (tw_manager w)) \<and>
    (\<exists>config. (ti_id t, ti_type t, config) \<in> set (tw_asked w) \<and> permitted env policy (tunnel_question (ti_type t) config) \<and>
       carries (ti_type t) config t)"
proof -
  have ok: "tunnels_ok (engine_gate env policy) w" using tn_ts.inv_reachable [OF refl assms(1)] .
  then have d: "distinct (map fst (tm_tunnels (tw_manager w)))" by (simp add: tunnels_ok_def world_ids_def)
  obtain i where i: "(i, t) \<in> set (tm_tunnels (tw_manager w))" using assms(2) by (auto simp: listTunnels_def)
  from tunnels_ok_listed [OF ok i] obtain config where c: "ti_id t = i" "carries (ti_type t) config t"
    and asked: "(i, ti_type t, config) \<in> set (tw_asked w)" "authorised_tunnel (engine_gate env policy) (ti_type t) config"
    by blast
  then have "permitted env policy (tunnel_question (ti_type t) config)" using engine.asked_tunnel_permitted by blast
  moreover have "set (map fst (tm_handles (tw_manager w))) = ti_id ` set (listTunnels None (tw_manager w))"
  proof -
    have "map fst (tm_tunnels (tw_manager w)) = map ti_id (listTunnels None (tw_manager w))"
      using tunnels_ok_listed(1) [OF ok] by (auto simp: listTunnels_def)
    moreover have "map fst (tm_handles (tw_manager w)) = map fst (tm_tunnels (tw_manager w))"
      using ok unfolding tunnels_ok_def by (elim conjE)
    ultimately show ?thesis by (simp del: set_map add: set_map [symmetric])
  qed
  moreover have "map_get (tm_tunnels (tw_manager w)) (ti_id t) = Some t" using map_of_is_SomeI [OF d i] c(1) by simp
  ultimately show ?thesis using d c asked(1) by blast
qed

subsection \<open>The gauge of active tunnels\<close>

text \<open>What a run without overlapping closes of one tunnel keeps; prefixes of the events never go below zero.\<close>

definition never_below :: "metric_event list \<Rightarrow> bool" where
  "never_below es \<longleftrightarrow> (\<forall>n. 0 \<le> tunnel_events (take n es))"

definition gauge_ok :: "(policy_context \<Rightarrow> ssh_mcp_error + policy_decision) \<Rightarrow> tunnel_world \<Rightarrow> bool" where
  "gauge_ok gate w \<longleftrightarrow>
     tunnels_ok gate w \<and> never_below (tm_metrics (tw_manager w)) \<and>
     tunnel_events (tm_metrics (tw_manager w)) = int (length (tm_tunnels (tw_manager w))) \<and>
     distinct (tw_closing w) \<and> set (tw_closing w) \<subseteq> set (map fst (tm_tunnels (tw_manager w)))"

definition serial_step :: "(policy_context \<Rightarrow> ssh_mcp_error + policy_decision) \<Rightarrow> tunnel_world \<Rightarrow> tunnel_world \<Rightarrow> bool" where
  "serial_step gate w w' \<longleftrightarrow> tn_step gate w w' \<and> distinct (tw_closing w')"

lemma never_below_snoc: "never_below es \<Longrightarrow> 0 \<le> tunnel_events (es @ [e]) \<Longrightarrow> never_below (es @ [e])"
proof (unfold never_below_def, intro allI)
  fix n
  assume "\<forall>n. 0 \<le> tunnel_events (take n es)" "0 \<le> tunnel_events (es @ [e])"
  then show "0 \<le> tunnel_events (take n (es @ [e]))" by (cases "n \<le> length es") simp_all
qed

lemma length_filter_out: "distinct ks \<Longrightarrow> i \<in> set ks \<Longrightarrow> length (filter (\<lambda>j. j \<noteq> i) ks) = length ks - 1"
  using distinct_remove1_removeAll [of ks i] length_remove1 [of i ks]
  by (auto simp: removeAll_filter_not_eq eq_commute)

lemma closeTunnel_begin_keys:
  assumes "closeTunnel_begin i m = (found, m')"
  shows "tm_metrics m' = tm_metrics m" "map fst (tm_tunnels m') = map fst (tm_tunnels m)"
    "found \<longrightarrow> i \<in> set (map fst (tm_tunnels m))"
proof -
  have "map_get (tm_tunnels m) i = Some t \<Longrightarrow> i \<in> set (map fst (tm_tunnels m))" for t
    by (force dest: map_of_SomeD)
  with assms map_set_keys [of i "tm_tunnels m"]
  show "tm_metrics m' = tm_metrics m" "map fst (tm_tunnels m') = map fst (tm_tunnels m)"
    "found \<longrightarrow> i \<in> set (map fst (tm_tunnels m))"
    by (auto simp: closeTunnel_begin_def simp del: set_map split: option.splits)
qed

lemma gauge_ok_step:
  assumes "serial_step gate w w'" and "gauge_ok gate w"
  shows "gauge_ok gate w'"
proof -
  have ok: "tunnels_ok gate w'" using assms tunnels_ok_step by (auto simp: serial_step_def gauge_ok_def)
  have step: "tn_step gate w w'" and dist: "distinct (tw_closing w')" using assms(1) by (simp_all add: serial_step_def)
  from step show ?thesis
  proof cases
    case (tn_create session now kind config start m)
    then have "tm_tunnels m = tm_tunnels (tw_manager w)" "tm_metrics m = tm_metrics (tw_manager w)"
      by (auto simp: createTunnel_begin_def split: option.splits sum.splits if_splits)
    with tn_create ok dist assms(2) show ?thesis by (simp add: gauge_ok_def)
  next
    case (tn_created before i kind config after now outcome)
    show ?thesis
    proof (cases outcome)
      case (Inl e)
      with tn_created ok dist assms(2) show ?thesis
        by (cases kind) (auto simp: gauge_ok_def createTunnel_end_def intro: never_below_snoc)
    next
      case (Inr port)
      have "i \<notin> set (map fst (tm_tunnels (tw_manager w)))"
        using assms(2) tn_created(2) by (auto simp: gauge_ok_def tunnels_ok_def world_ids_def)
      from map_set_new [OF this] Inr tn_created(1) ok dist assms(2) show ?thesis
        by (auto simp: gauge_ok_def createTunnel_end_def Let_def intro: never_below_snoc)
    qed
  next
    case (tn_close i found m)
    have m: "tm_metrics m = tm_metrics (tw_manager w)" "map fst (tm_tunnels m) = map fst (tm_tunnels (tw_manager w))"
      "found \<longrightarrow> i \<in> set (map fst (tm_tunnels (tw_manager w)))"
      using closeTunnel_begin_keys [OF tn_close(2)] .
    from m(2) have "length (tm_tunnels m) = length (tm_tunnels (tw_manager w))" by (metis length_map)
    with m tn_close(1) ok dist assms(2) show ?thesis by (auto simp: gauge_ok_def)
  next
    case (tn_closed before i after failure)
    show ?thesis
    proof (cases failure)
      case (Some e)
      with tn_closed ok dist assms(2) show ?thesis by (auto simp: gauge_ok_def closeTunnel_end_def)
    next
      case None
      let ?ks = "map fst (tm_tunnels (tw_manager w))"
      have i: "i \<in> set ?ks" "distinct ?ks" "i \<notin> set (before @ after)"
        using assms(2) tn_closed(2) by (auto simp: gauge_ok_def tunnels_ok_def world_ids_def)
      have "length (map_delete i (tm_tunnels (tw_manager w))) = length (filter (\<lambda>j. j \<noteq> i) ?ks)"
        by (metis length_map map_delete_keys)
      also have "\<dots> = length ?ks - 1" using length_filter_out [OF i(2,1)] .
      finally have "length (map_delete i (tm_tunnels (tw_manager w))) = length ?ks - 1" .
      moreover have some: "0 < length (tm_tunnels (tw_manager w))" using i(1) by (cases "tm_tunnels (tw_manager w)") auto
      ultimately have len: "int (length (map_delete i (tm_tunnels (tw_manager w)))) = int (length (tm_tunnels (tw_manager w))) - 1"
        by (simp only: length_map of_nat_diff)
      have "set (before @ after) \<subseteq> set (map fst (map_delete i (tm_tunnels (tw_manager w))))"
        using assms(2) tn_closed(2) i(3) by (auto simp: gauge_ok_def map_delete_keys)
      moreover have "never_below (tm_metrics (tw_manager w) @ [TunnelClosed])"
      proof (rule never_below_snoc)
        have "tunnel_events (tm_metrics (tw_manager w)) = int (length (tm_tunnels (tw_manager w)))"
          using assms(2) by (simp add: gauge_ok_def)
        with some show "0 \<le> tunnel_events (tm_metrics (tw_manager w) @ [TunnelClosed])" by simp
      qed (use assms(2) in \<open>simp add: gauge_ok_def\<close>)
      ultimately show ?thesis
        using None tn_closed(1) ok dist assms(2) len by (auto simp: gauge_ok_def closeTunnel_end_def)
    qed
  next
    case tn_failed
    with ok dist assms(2) show ?thesis by (auto simp: gauge_ok_def forward_failed_def intro: never_below_snoc)
  qed
qed

interpretation tn_serial: transition_system "\<lambda>w. w = tunnel_start_world" "serial_step gate" "gauge_ok gate" for gate
proof unfold_locales
  show "gauge_ok gate w" if "w = tunnel_start_world" for w
    using that tunnels_ok_start [of gate]
    by (simp add: gauge_ok_def) (simp add: tunnel_start_world_def newTunnelManager_def never_below_def)
qed (rule gauge_ok_step)

text \<open>
  In every run in which no tunnel is being closed by two calls at once, the gauge of active tunnels
  that the metrics export is the number of tunnels the manager has.
\<close>

theorem active_gauge_exact:
  assumes "(serial_step gate)\<^sup>*\<^sup>* tunnel_start_world w"
  shows "mc_tunnelsActive (me_tunnels (fold record_event (tm_metrics (tw_manager w)) (createEmptyMetrics now))) =
    int (length (tm_tunnels (tw_manager w)))"
proof -
  have "gauge_ok gate w" using tn_serial.inv_reachable [OF refl assms] .
  then show ?thesis
    using active_tunnels_exact [of 0 "tm_metrics (tw_manager w)" "createEmptyMetrics now"]
    by (simp add: gauge_ok_def never_below_def createEmptyMetrics_def)
qed

definition any_forward :: tunnel_config where
  "any_forward = local_forward_config ''s'' 8080 ''db'' 5432"

text \<open>One tunnel is opened under the demonstration policy.\<close>

definition one_tunnel :: tunnel_info where
  "one_tunnel = tunnel_info_of LocalForward any_forward (tunnel_id 5 1) 5432 6 True"

definition one_tunnel_world :: tunnel_world where
  "one_tunnel_world = \<lparr> tw_manager = \<lparr> tm_tunnels = [(tunnel_id 5 1, one_tunnel)], tm_handles = [(tunnel_id 5 1, LocalForward)],
     tm_counter = 1, tm_metrics = [TunnelOpened] \<rparr>, tw_starting = [], tw_closing = [],
     tw_asked = [(tunnel_id 5 1, LocalForward, any_forward)] \<rparr>"

lemma demo_opens:
  "(tn_step (engine_gate demo_env demo_config))\<^sup>*\<^sup>* tunnel_start_world one_tunnel_world"
  "(serial_step (engine_gate demo_env demo_config))\<^sup>*\<^sup>* tunnel_start_world one_tunnel_world"
proof -
  let ?gate = "engine_gate demo_env demo_config"
  let ?m = "newTunnelManager\<lparr> tm_counter := 1 \<rparr>"
  let ?w = "\<lparr> tw_manager = ?m, tw_starting = [(tunnel_id 5 1, LocalForward, any_forward)], tw_closing = [],
    tw_asked = [(tunnel_id 5 1, LocalForward, any_forward)] \<rparr>"
  have "permitted demo_env demo_config (tunnel_context LocalForward Enforce any_forward)"
    by (simp add: permitted_def host_permitted_def tunnel_permitted_def command_permitted_def remote_permitted_def
        lists_permit_def value_hits_def port_hits_def tunnel_context_def demo_config_def LOCAL_TRANSFER_ACTIONS_def context_paths_def tunnel_action_def)
  then obtain d where d: "?gate (tunnel_context LocalForward Enforce any_forward) = Inr d" "pd_mode d = Enforce"
    by (rule demo_gate_passes) (simp add: tunnel_context_def)
  then have "createTunnel_begin ?gate (Some Enforce) 5 LocalForward any_forward (tw_manager tunnel_start_world) =
      (Starting (tunnel_id 5 1), ?m)"
    by (simp add: createTunnel_begin_def tunnel_id_def tunnel_start_world_def newTunnelManager_def)
  from tn_create [OF this] have a: "tn_step ?gate tunnel_start_world ?w" by (simp add: tunnel_start_world_def)
  have b: "tn_step ?gate ?w one_tunnel_world"
    using tn_created [of ?w "[]" "tunnel_id 5 1" LocalForward any_forward "[]" ?gate 6 "Inr 0"]
    by (simp add: createTunnel_end_def one_tunnel_world_def one_tunnel_def newTunnelManager_def tunnel_report_def Let_def
        target_port_def any_forward_def local_forward_config_def)
  from a b show "(tn_step ?gate)\<^sup>*\<^sup>* tunnel_start_world one_tunnel_world" by auto
  from a b have "serial_step ?gate tunnel_start_world ?w" "serial_step ?gate ?w one_tunnel_world"
    by (simp_all add: serial_step_def one_tunnel_world_def)
  then show "(serial_step ?gate)\<^sup>*\<^sup>* tunnel_start_world one_tunnel_world" by auto
qed

theorem listed_tunnels_permitted_witness:
  "permitted demo_env demo_config (tunnel_question LocalForward any_forward) \<and> carries LocalForward any_forward one_tunnel"
proof -
  have t: "ti_type one_tunnel = LocalForward" by (simp add: one_tunnel_def tunnel_info_of_def)
  show ?thesis
    using listed_tunnels_permitted [OF demo_opens(1), of one_tunnel] by (simp add: one_tunnel_world_def listTunnels_def t)
qed

theorem active_gauge_exact_witness:
  "mc_tunnelsActive (me_tunnels (fold record_event [TunnelOpened] (createEmptyMetrics 0))) = 1"
  using active_gauge_exact [OF demo_opens(2), of 0] by (simp add: one_tunnel_world_def)

text \<open>
  Closing one tunnel by two calls at the same time counts it twice: two tunnels were opened, one of
  them was closed by two overlapping calls, and the gauge says that none is active while the other
  one is listed and open.
\<close>

definition open_gate :: "policy_context \<Rightarrow> ssh_mcp_error + policy_decision" where
  "open_gate ctx = Inr (allowed Enforce (px_action ctx))"

definition two_tunnels :: tunnel_manager where
  "two_tunnels = fold (\<lambda>now m. case createTunnel_begin open_gate (Some Enforce) now LocalForward any_forward m of
       (Starting i, m1) \<Rightarrow> snd (createTunnel_end now LocalForward any_forward i (Inr 0) m1) | (_, m1) \<Rightarrow> m1)
     [1, 2] newTunnelManager"

lemma two_numbers: "show_nat (Suc 0) = ''1''" "show_nat 1 = ''1''" "show_nat 2 = ''2''" "show_nat (Suc (Suc 0)) = ''2''"
  by code_simp+

lemma overlapping_closes_miscount:
  "let m1 = snd (closeTunnel_begin ''tunnel-1-1'' two_tunnels);
       m2 = snd (closeTunnel_begin ''tunnel-1-1'' m1);
       m3 = snd (closeTunnel_end ''tunnel-1-1'' None m2);
       m4 = snd (closeTunnel_end ''tunnel-1-1'' None m3)
   in map fst (tm_tunnels m4) = [''tunnel-2-2''] \<and>
      mc_tunnelsActive (me_tunnels (fold record_event (tm_metrics m4) (createEmptyMetrics now))) = 0"
  by (simp add: two_tunnels_def createTunnel_begin_def createTunnel_end_def open_gate_def allowed_def newTunnelManager_def
      show_int_def two_numbers Let_def tunnel_info_of_def closeTunnel_begin_def closeTunnel_end_def tunnel_report_def
      record_defs createEmptyMetrics_def AList.delete_eq any_forward_def local_forward_config_def)

end
