(* ===== verification/RemoteHost.thy ===== *)
theory RemoteHost
  imports Effects Metrics Policy Shell Json
begin

section \<open>What the services of a session act on\<close>

text \<open>
  The services (commands, files, packages, transfers) work on one session: they look it up, ask the
  policy engine, detect the operating system, run commands over the connection, call the SFTP
  subsystem, touch files of the server's own host, and report to the metrics. Each of these is a
  call of \<open>remote_op\<close>, and a \<open>service\<close> gives the answers, which may depend on the call and all before it:
  the session may expire, and files may change, between any two calls. The policy is a function of
  the request (its checks are in \<open>Policy\<close>); the answer is recorded by the call that asked.
\<close>

datatype remote_op =
    RSession
  | RDecide policy_context
  | RDetect
  | RExec string
  | RReadFile string
  | RWriteFile string string
  | RStat string
  | RReaddir string
  | RMkdir string
  | RRmdir string
  | RUnlink string
  | RRename string string
  | RChmod string int
  | RMetric metric_event
  | LRealpath string
  | LOpen string bool
  | LStat
  | LReadHandle
  | LClose
  | LReadFile string
  | LCreateFile string string
  | LRemove string
  | LRename string string

type_synonym rhistory = "remote_op list"

type_synonym 'a act = "(remote_op, thrown, 'a) proc"

text \<open>
  The parts of a session, of an SFTP attribute record and of a command's result that the code reads.
  \<open>fa_kind\<close> stands for the methods \<open>isFile\<close>, \<open>isDirectory\<close> and \<open>isSymbolicLink\<close> of \<open>Stats\<close>.
\<close>

record session_view =
  vw_policyMode :: policy_mode
  vw_sftp :: bool

datatype file_kind = KFile | KDirectory | KSymlink | KOther

record file_attrs =
  fa_size :: "int option"
  fa_mtime :: "int option"
  fa_mode :: "int option"
  fa_kind :: file_kind

record exec_raw =
  xr_code :: "int option"
  xr_stdout :: "string option"
  xr_stderr :: "string option"

text \<open>
  \<open>sv_exec\<close> is how a command of the connection ends, and \<open>sv_late\<close> whether a time limit passes
  first. \<open>sv_mkdir\<close> may give an SFTP status code with its error, \<open>sv_decode\<close> reads bytes in an encoding.
\<close>

record service =
  sv_session :: "rhistory \<Rightarrow> session_view option"
  sv_gate :: "policy_context \<Rightarrow> ssh_mcp_error + policy_decision"
  sv_os :: "rhistory \<Rightarrow> thrown + os_info"
  sv_exec :: "rhistory \<Rightarrow> thrown + exec_raw"
  sv_late :: "rhistory \<Rightarrow> bool"
  sv_read :: "rhistory \<Rightarrow> thrown + string"
  sv_stat :: "rhistory \<Rightarrow> thrown + file_attrs"
  sv_readdir :: "rhistory \<Rightarrow> thrown + (string \<times> file_attrs) list"
  sv_mkdir :: "rhistory \<Rightarrow> (int option \<times> thrown) option"
  sv_done :: "rhistory \<Rightarrow> thrown option"
  sv_uuid :: "rhistory \<Rightarrow> string"
  sv_decode :: "string \<Rightarrow> string \<Rightarrow> string"
  sv_elapsed :: "rhistory \<Rightarrow> int"
  sv_now :: "rhistory \<Rightarrow> int"
  sv_commandTimeoutMs :: int
  sv_maxCommandOutputBytes :: int
  sv_maxFileSize :: int
  sv_maxFileWriteBytes :: int
  sv_maxTransferBytes :: int

definition lookup_session :: "service \<Rightarrow> session_view option act" where
  "lookup_session v = io_act RSession (\<lambda>t. Inr (sv_session v t))"

definition decide :: "service \<Rightarrow> policy_context \<Rightarrow> policy_decision act" where
  "decide v ctx = io_act (RDecide ctx) (\<lambda>_. case sv_gate v ctx of Inl e \<Rightarrow> Inl (MCPError e) | Inr d \<Rightarrow> Inr d)"

definition detect :: "service \<Rightarrow> os_info act" where
  "detect v = io_act RDetect (sv_os v)"

definition exec_ssh :: "service \<Rightarrow> string \<Rightarrow> exec_raw act" where
  "exec_ssh v command = io_act (RExec command) (sv_exec v)"

definition simple_call :: "service \<Rightarrow> remote_op \<Rightarrow> unit act" where
  "simple_call v call = io_act call (\<lambda>t. case sv_done v t of Some e \<Rightarrow> Inl e | None \<Rightarrow> Inr ())"

definition report :: "metric_event \<Rightarrow> unit act" where
  "report e = io_act (RMetric e) (\<lambda>_. Inr ())"

text \<open>What depends on the moment only: identifiers and clocks.\<close>

definition observe :: "(rhistory \<Rightarrow> 'a) \<Rightarrow> 'a act" where
  "observe f t = (Inr (f t), t)"

lemma wp_observe [io_wp]: "wp (observe f) Q E = (\<lambda>t. Q (f t) t)"
  by (simp add: fun_eq_iff wp_def observe_def)

lemma keeps_observe [keeps_intros]: "keeps ok (observe f)"
  by (simp add: keeps_def observe_def)

definition of_res :: "'e + 'a \<Rightarrow> ('o, 'e, 'a) proc" where
  "of_res r t = (r, t)"

lemma wp_of_res [io_wp]: "wp (of_res r) Q E = (\<lambda>t. case r of Inl e \<Rightarrow> E e t | Inr x \<Rightarrow> Q x t)"
  by (simp add: fun_eq_iff wp_def of_res_def split: sum.splits)

lemma keeps_of_res [keeps_intros]: "keeps ok (of_res r)"
  by (simp add: keeps_def of_res_def)

lemmas remote_call_defs = lookup_session_def decide_def detect_def exec_ssh_def simple_call_def report_def

text \<open>\<open>v ?? d\<close>.\<close>

definition or_default :: "'a \<Rightarrow> 'a option \<Rightarrow> 'a" where
  "or_default d v = (case v of None \<Rightarrow> d | Some x \<Rightarrow> x)"

lemma or_default_values [simp]: "or_default d None = d" "or_default d (Some x) = x"
  by (simp_all add: or_default_def)

text \<open>\<open>String(error)\<close>.\<close>

definition thrown_text :: "thrown \<Rightarrow> string" where
  "thrown_text e =
     (case e of MCPError m \<Rightarrow> ''SSHMCPError: '' @ err_message m | JSError m \<Rightarrow> ''Error: '' @ m | Thrown s \<Rightarrow> s)"

definition session_missing :: "string \<Rightarrow> thrown" where
  "session_missing sessionId = JSError (''Session '' @ sessionId @ '' not found or expired'')"

text \<open>\<open>getSession\<close> and the guard that every operation begins with.\<close>

definition require_session :: "service \<Rightarrow> string \<Rightarrow> session_view act" where
  "require_session v sessionId =
     io_bind (lookup_session v) (\<lambda>s. case s of None \<Rightarrow> io_throw (session_missing sessionId) | Some x \<Rightarrow> io_ret x)"

definition base_context :: "policy_action \<Rightarrow> policy_mode \<Rightarrow> policy_context" where
  "base_context action mode =
     \<lparr> px_action = action, px_host = None, px_username = None, px_command = None, px_path = None,
       px_secondaryPath = None, px_localBindHost = None, px_localPort = None, px_remoteHost = None,
       px_remotePort = None, px_mode = Some mode, px_rawSudo = False, px_destructive = False \<rparr>"

text \<open>\<open>catch (error) { throw wrapError(error, code, hint) }\<close>.\<close>

definition wrapping :: "error_code \<Rightarrow> string \<Rightarrow> 'a act \<Rightarrow> 'a act" where
  "wrapping code hint m = io_rethrow (\<lambda>e. MCPError (wrapError e code (Some hint))) m"

subsection \<open>Bytes\<close>

text \<open>\<open>Buffer.byteLength(text, "utf8")\<close> of Latin-1 text.\<close>

definition char_bytes :: "char \<Rightarrow> int" where
  "char_bytes c = (if (of_char c :: nat) < 128 then 1 else 2)"

definition byteLength :: "string \<Rightarrow> int" where
  "byteLength s = sum_list (map char_bytes s)"

lemma byteLength_simps [simp]:
  "byteLength [] = 0" "byteLength (c # s) = char_bytes c + byteLength s" "byteLength (s @ r) = byteLength s + byteLength r"
  by (simp_all add: byteLength_def)

lemma char_bytes_bounds: "1 \<le> char_bytes c" "char_bytes c \<le> 2"
  by (simp_all add: char_bytes_def)

lemma byteLength_nonneg [simp]: "0 \<le> byteLength s"
  by (induction s) (simp_all add: char_bytes_def)

text \<open>The longest beginning of a text that fits the budget, the loops of \<open>truncateText\<close> and \<open>appendBounded\<close>.\<close>

fun take_bytes :: "int \<Rightarrow> string \<Rightarrow> string" where
  "take_bytes budget [] = []"
| "take_bytes budget (c # s) = (if char_bytes c > budget then [] else c # take_bytes (budget - char_bytes c) s)"

lemma take_bytes_bound: "0 \<le> budget \<Longrightarrow> byteLength (take_bytes budget s) \<le> budget"
proof (induction s arbitrary: budget)
  case (Cons c s)
  show ?case using Cons.IH [of "budget - char_bytes c"] Cons.prems by auto
qed simp

lemma take_bytes_prefix: "prefix (take_bytes budget s) s"
  by (induction s arbitrary: budget) simp_all

lemma take_bytes_all: "byteLength s \<le> budget \<Longrightarrow> take_bytes budget s = s"
proof (induction s arbitrary: budget)
  case (Cons c s)
  with byteLength_nonneg [of s] have "char_bytes c \<le> budget" by (simp del: byteLength_nonneg)
  then show ?case using Cons by simp
qed simp

lemma take_bytes_maximal: "take_bytes budget (s @ c # r) = s \<Longrightarrow> budget < byteLength s + char_bytes c"
proof (induction s arbitrary: budget)
  case (Cons d s)
  then have "take_bytes (budget - char_bytes d) (s @ c # r) = s" by (simp split: if_splits)
  from Cons.IH [OF this] show ?case by simp
qed (simp split: if_splits)

subsection \<open>\<open>JSON.stringify(value, null, 2)\<close>\<close>

definition indent :: "nat \<Rightarrow> string" where
  "indent n = replicate n (CHR '' '')"

fun pretty :: "nat \<Rightarrow> json \<Rightarrow> string" where
  "pretty n (JArr items) =
     (if items = [] then ''[]''
      else ''['' @ [LF] @ join (CHR '','' # [LF]) (map (\<lambda>v. indent (n + 2) @ pretty (n + 2) v) items) @ [LF] @ indent n @ '']'')"
| "pretty n (JObj entries) =
     (if entries = [] then ''{}''
      else ''{'' @ [LF] @
        join (CHR '','' # [LF]) (map (\<lambda>e. indent (n + 2) @ json_string (fst e) @ '': '' @ pretty (n + 2) (snd e)) entries) @
        [LF] @ indent n @ ''}'')"
| "pretty n v = json_atom v"

fun action_name :: "policy_action \<Rightarrow> string" where
  "action_name SshOpen = ''ssh.open''"
| "action_name ProcExec = ''proc.exec''"
| "action_name ProcSudo = ''proc.sudo''"
| "action_name FsRead = ''fs.read''"
| "action_name FsStat = ''fs.stat''"
| "action_name FsList = ''fs.list''"
| "action_name FsWrite = ''fs.write''"
| "action_name FsRemove = ''fs.remove''"
| "action_name FsMkdir = ''fs.mkdir''"
| "action_name FsRename = ''fs.rename''"
| "action_name EnsurePackage = ''ensure.package''"
| "action_name EnsureService = ''ensure.service''"
| "action_name EnsureLines = ''ensure.lines''"
| "action_name PatchApply = ''patch.apply''"
| "action_name TransferUpload = ''transfer.upload''"
| "action_name TransferDownload = ''transfer.download''"
| "action_name TransferLocalRead = ''transfer.local.read''"
| "action_name TransferLocalWrite = ''transfer.local.write''"
| "action_name TransferLocalCreate = ''transfer.local.create''"
| "action_name TransferLocalOverwrite = ''transfer.local.overwrite''"
| "action_name TunnelLocal = ''tunnel.local''"
| "action_name TunnelRemote = ''tunnel.remote''"

definition risk_name :: "risk_level \<Rightarrow> string" where
  "risk_name r = (case r of Low \<Rightarrow> ''low'' | Medium \<Rightarrow> ''medium'' | High \<Rightarrow> ''high'' | Critical \<Rightarrow> ''critical'')"

definition optional_entry :: "string \<Rightarrow> ('a \<Rightarrow> json) \<Rightarrow> 'a option \<Rightarrow> (string \<times> json) list" where
  "optional_entry name f v = (case v of None \<Rightarrow> [] | Some x \<Rightarrow> [(name, f x)])"

definition decision_json :: "policy_decision \<Rightarrow> json" where
  "decision_json d = JObj ([(''mode'', JStr (case pd_mode d of Enforce \<Rightarrow> ''enforce'' | Explain \<Rightarrow> ''explain'')),
      (''action'', JStr (action_name (pd_action d)))] @
     optional_entry ''reason'' JStr (pd_reason d) @ optional_entry ''hint'' JStr (pd_hint d) @
     optional_entry ''riskLevel'' (\<lambda>r. JStr (risk_name r)) (pd_riskLevel d) @
     [(''allowed'', JBool (pd_allowed d))])"

end
