(* ===== verification/Detect.thy ===== *)
theory Detect
  imports RemoteHost
begin

section \<open>Detection of the operating system: \<open>src/detect.ts\<close>\<close>

text \<open>
  What is known of a host is found out by running commands on it. A command that fails counts as one
  that exits with 1, so the detection itself cannot fail, and its result is a function of the exit
  codes and outputs.
\<close>

record safe_result =
  sx_code :: int
  sx_stdout :: string
  sx_stderr :: string

definition safeExec :: "service \<Rightarrow> string \<Rightarrow> safe_result act" where
  "safeExec v command =
     io_catch
       (io_bind (exec_ssh v command) (\<lambda>r.
        io_ret \<lparr> sx_code = or_default 0 (xr_code r), sx_stdout = or_default [] (xr_stdout r), sx_stderr = or_default [] (xr_stderr r) \<rparr>))
       (\<lambda>e. io_ret \<lparr> sx_code = 1, sx_stdout = [], sx_stderr = thrown_text e \<rparr>)"

subsection \<open>Reading outputs\<close>

definition normalizeWindowsPath :: "string \<Rightarrow> string option" where
  "normalizeWindowsPath path =
     (if path = [] then None else Some (replace_char BSLASH ''/'' (replace_double_backslash path)))"

definition parseKeyValueLine :: "string \<Rightarrow> (string \<times> string) option" where
  "parseKeyValueLine line =
     (if CHR ''='' \<notin> set line then None
      else Some (takeWhile (\<lambda>c. c \<noteq> CHR ''='') line,
        trim (replace_char DQUOTE [] (tl (dropWhile (\<lambda>c. c \<noteq> CHR ''='') line)))))"

text \<open>Later lines with the same key win.\<close>

definition release_field :: "string list \<Rightarrow> string \<Rightarrow> string option" where
  "release_field lines key = map_of (rev (List.map_filter parseKeyValueLine lines)) key"

definition readReleaseFields :: "string \<Rightarrow> string \<Rightarrow> string \<Rightarrow> bool \<Rightarrow> string \<times> string" where
  "readReleaseFields stdout distroKey versionKey lowerDistro =
     (let lines = split_on (\<lambda>c. c = LF) stdout in
      (case release_field lines distroKey of None \<Rightarrow> ''unknown'' | Some d \<Rightarrow> if lowerDistro then to_lower d else d,
       case release_field lines versionKey of None \<Rightarrow> ''unknown'' | Some d \<Rightarrow> d))"

text \<open>
  The scan for digits, a dot and digits. The loop skips a run of digits that is not followed by a dot
  and a digit; so does the recursion.
\<close>

lemma dropWhile_shorter: "p c \<Longrightarrow> length (dropWhile p (c # cs)) < length (c # cs)"
  using length_dropWhile_le [of p cs] by simp

function firstDottedVersion :: "string \<Rightarrow> string option" where
  "firstDottedVersion [] = None"
| "firstDottedVersion (c # cs) =
     (if \<not> is_digit c then firstDottedVersion cs
      else let major = takeWhile is_digit (c # cs); rest = dropWhile is_digit (c # cs)
        in if prefix ''.'' rest \<and> tl rest \<noteq> [] \<and> is_digit (hd (tl rest))
           then Some (major @ ''.'' @ takeWhile is_digit (tl rest))
           else firstDottedVersion rest)"
  by pat_completeness auto

termination
  by (relation "measure length") (use dropWhile_shorter [of is_digit] in auto)

declare firstDottedVersion.simps [simp del]

definition parseLinuxRelease :: "string \<Rightarrow> string \<Rightarrow> (string \<times> string) option" where
  "parseLinuxRelease command stdout =
     (if command = ''cat /etc/os-release'' then Some (readReleaseFields stdout ''ID'' ''VERSION_ID'' False)
      else if command = ''cat /etc/lsb-release'' then Some (readReleaseFields stdout ''DISTRIB_ID'' ''DISTRIB_RELEASE'' True)
      else let output = to_lower stdout in
        if str_includes output ''red hat'' \<or> str_includes output ''rhel'' \<or> str_includes output ''centos'' then
          Some (''rhel'', or_default ''unknown'' (firstDottedVersion stdout))
        else if str_includes output ''debian'' then Some (''debian'', trim stdout)
        else None)"

subsection \<open>Asking the host\<close>

definition detectArchitecture :: "service \<Rightarrow> string act" where
  \<open>detectArchitecture v =
     io_bind (safeExec v ''uname -m'') (\<lambda>archResult.
     let arch = trim (sx_stdout archResult) in
     io_bind (if arch = [] then
                io_bind (safeExec v ''powershell -NoLogo -NoProfile -Command "$env:PROCESSOR_ARCHITECTURE"'') (\<lambda>winArch.
                io_ret (trim (sx_stdout winArch)))
              else io_ret arch) (\<lambda>arch'.
     io_ret (if arch' = [] then ''unknown'' else arch')))\<close>

definition detectPlatform :: "service \<Rightarrow> (platform \<times> string) act" where
  "detectPlatform v =
     io_bind (safeExec v ''uname -s'') (\<lambda>unameResult.
     let uname = to_lower (trim (sx_stdout unameResult)) in
     if str_includes uname ''linux'' then io_ret (Linux, ''unknown'')
     else if str_includes uname ''darwin'' then io_ret (Darwin, ''unknown'')
     else if str_includes uname ''windows'' then io_ret (Windows, ''unknown'')
     else
       io_bind (safeExec v ''cmd /c ver'') (\<lambda>winCheck.
       if sx_code winCheck = 0 \<and> sx_stdout winCheck \<noteq> [] then io_ret (Windows, trim (sx_stdout winCheck))
       else
         io_bind (safeExec v ''sw_vers -productName'') (\<lambda>macCheck.
         if sx_code macCheck = 0 \<and> str_includes (to_lower (sx_stdout macCheck)) ''mac'' then io_ret (Darwin, ''unknown'')
         else io_ret (UnknownPlatform, ''unknown''))))"

definition detectWindows :: "service \<Rightarrow> string \<Rightarrow> string \<Rightarrow> os_info act" where
  \<open>detectWindows v arch version =
     io_bind (safeExec v ''echo $env:SHELL'') (\<lambda>psShell.
     let shell = trim (sx_stdout psShell) in
     io_bind (safeExec v ''powershell -NoLogo -NoProfile -Command "$env:TEMP"'') (\<lambda>temp.
     let tempDir = or_default ''C:/Windows/Temp'' (normalizeWindowsPath (trim (sx_stdout temp))) in
     io_bind (safeExec v ''powershell -NoLogo -NoProfile -Command "Get-Command winget -ErrorAction SilentlyContinue"'') (\<lambda>wingetCheck.
     io_bind (if sx_code wingetCheck = 0 \<and> str_includes (to_lower (sx_stdout wingetCheck)) ''winget'' then io_ret ''winget''
              else io_bind (safeExec v ''choco -v'') (\<lambda>chocoCheck.
                   io_ret (if sx_code chocoCheck = 0 then ''choco'' else ''unknown''))) (\<lambda>packageManager.
     io_ret \<lparr> os_platform = Windows, os_distro = ''windows'', os_version = version, os_arch = arch,
       os_shell = (if shell \<noteq> [] then shell else ''powershell''), os_packageManager = packageManager,
       os_init = ''windows-service'', os_defaultShell = Some PowerShell, os_tempDir = Some tempDir \<rparr>))))\<close>

definition RELEASE_COMMANDS :: "string list" where
  "RELEASE_COMMANDS = [''cat /etc/os-release'', ''cat /etc/lsb-release'', ''cat /etc/redhat-release'', ''cat /etc/debian_version'']"

fun detect_release :: "service \<Rightarrow> string list \<Rightarrow> (string \<times> string) act" where
  "detect_release v [] = io_ret (''unknown'', ''unknown'')"
| "detect_release v (command # commands) =
     io_bind (safeExec v command) (\<lambda>result.
     if sx_code result \<noteq> 0 \<or> trim (sx_stdout result) = [] then detect_release v commands
     else case parseLinuxRelease command (sx_stdout result) of
            Some parsed \<Rightarrow> io_ret parsed
          | None \<Rightarrow> detect_release v commands)"

definition detectLinuxDistro :: "service \<Rightarrow> (string \<times> string) act" where
  "detectLinuxDistro v = detect_release v RELEASE_COMMANDS"

text \<open>The first command of the list that succeeds names the result.\<close>

fun first_success :: "service \<Rightarrow> (string \<times> string) list \<Rightarrow> string act" where
  "first_success v [] = io_ret ''unknown''"
| "first_success v ((command, name) # rest) =
     io_bind (safeExec v command) (\<lambda>result. if sx_code result = 0 then io_ret name else first_success v rest)"

definition LINUX_PACKAGE_MANAGERS :: "(string \<times> string) list" where
  "LINUX_PACKAGE_MANAGERS =
     [(''command -v apt-get || which apt-get'', ''apt''), (''command -v dnf || which dnf'', ''dnf''),
      (''command -v yum || which yum'', ''yum''), (''command -v pacman || which pacman'', ''pacman''),
      (''command -v apk || which apk'', ''apk''), (''command -v zypper || which zypper'', ''zypper'')]"

definition detectPackageManager :: "service \<Rightarrow> platform \<Rightarrow> string act" where
  "detectPackageManager v platform =
     (if platform = Linux then first_success v LINUX_PACKAGE_MANAGERS
      else if platform = Darwin then first_success v [(''command -v brew || which brew'', ''brew'')]
      else io_ret ''unknown'')"

definition detectInitSystem :: "service \<Rightarrow> platform \<Rightarrow> string act" where
  "detectInitSystem v platform =
     (if platform = Linux then
        io_bind (safeExec v ''command -v systemctl || which systemctl'') (\<lambda>systemctlResult.
        io_bind (safeExec v ''command -v service || which service'') (\<lambda>serviceResult.
        io_ret (if sx_code systemctlResult = 0 then ''systemd''
                else if sx_code serviceResult = 0 then ''service'' else ''unknown'')))
      else io_ret (if platform = Darwin then ''launchd'' else ''unknown''))"

definition detect_mac :: "service \<Rightarrow> (string \<times> string) act" where
  "detect_mac v =
     io_bind (safeExec v ''sw_vers -productName'') (\<lambda>productName.
     io_bind (safeExec v ''sw_vers -productVersion'') (\<lambda>productVersion.
     let name = trim (sx_stdout productName); version = trim (sx_stdout productVersion)
     in io_ret (if name \<noteq> [] then name else ''macos'', if version \<noteq> [] then version else ''unknown'')))"

text \<open>The surrounding \<open>catch\<close> is not reached: \<open>safeExec\<close> does not throw.\<close>

definition detectOS :: "service \<Rightarrow> os_info act" where
  "detectOS v =
     io_bind (detectArchitecture v) (\<lambda>arch.
     io_bind (detectPlatform v) (\<lambda>(platform, initialVersion).
     if platform = Windows then detectWindows v arch initialVersion
     else
       io_bind (safeExec v ''echo $SHELL'') (\<lambda>shellResult.
       let shell = last (split_on (\<lambda>c. c = SLASH) (trim (sx_stdout shellResult))) in
       io_bind (if platform = Linux then detectLinuxDistro v
                else if platform = Darwin then detect_mac v
                else io_ret (''unknown'', initialVersion)) (\<lambda>(distro, version).
       io_bind (detectPackageManager v platform) (\<lambda>packageManager.
       io_bind (detectInitSystem v platform) (\<lambda>init.
       io_ret \<lparr> os_platform = platform, os_distro = distro, os_version = version, os_arch = arch, os_shell = shell,
         os_packageManager = packageManager, os_init = init,
         os_defaultShell = Some (if platform = Darwin then (if str_includes shell ''zsh'' then Sh else Bash)
                                 else if str_includes shell ''bash'' then Bash else Sh),
         os_tempDir = (if platform = Darwin \<or> platform = Linux then Some ''/tmp'' else None) \<rparr>))))))"

end
