(* ===== verification/FsService.thy ===== *)
theory FsService
  imports RemoteHost
begin

section \<open>Files of a session: \<open>src/fs-sftp.ts\<close>, \<open>src/fs-stat.ts\<close> and \<open>src/fs-tools.ts\<close>\<close>

text \<open>
  Reading, writing, listing and removing files on the host of a session, over SFTP or, where the
  session has none, by shell commands. Every operation looks the session up, asks the policy and
  wraps its errors; mutating ones stop there in explain mode. A number that a text should give and
  does not (\<open>NaN\<close>) is \<open>None\<close>. The recursive removal follows what the server lists, so it takes a
  bound on the depth; \<open>None\<close> as an error is that the bound was reached.
\<close>

subsection \<open>Numbers in texts\<close>

text \<open>
  \<open>Number(text)\<close> and \<open>parseInt(text, 8)\<close>, for texts without fractions and exponents, which none of the
  commands below prints.
\<close>

definition unsigned_number :: "string \<Rightarrow> int option" where
  "unsigned_number s = (if s \<noteq> [] \<and> list_all is_digit s then Some (int (num_of_digits s)) else None)"

definition js_number :: "string \<Rightarrow> int option" where
  "js_number text =
     (case trim text of
        [] \<Rightarrow> Some 0
      | c # s \<Rightarrow>
          if c = CHR ''-'' then map_option uminus (unsigned_number s)
          else if c = CHR ''+'' then unsigned_number s
          else unsigned_number (c # s))"

definition is_octal :: "char \<Rightarrow> bool" where
  "is_octal c \<longleftrightarrow> char_between CHR ''0'' CHR ''7'' c"

definition octal_value :: "string \<Rightarrow> int" where
  "octal_value s = foldl (\<lambda>n c. 8 * n + int (digit_val c)) 0 s"

definition parse_octal :: "string \<Rightarrow> int option" where
  "parse_octal text =
     (let s = trim_start text;
          negative = (case s of c # _ \<Rightarrow> c = CHR ''-'' | [] \<Rightarrow> False);
          body = (case s of c # r \<Rightarrow> if c = CHR ''-'' \<or> c = CHR ''+'' then r else s | [] \<Rightarrow> []);
          digits = takeWhile is_octal body
      in if digits = [] then None else Some (if negative then - octal_value digits else octal_value digits))"

fun show_octal_nat :: "nat \<Rightarrow> string" where
  "show_octal_nat n = (if n < 8 then [char_of (48 + n)] else show_octal_nat (n div 8) @ [char_of (48 + n mod 8)])"

declare show_octal_nat.simps [simp del]

definition show_octal :: "int \<Rightarrow> string" where
  "show_octal i = (if i < 0 then CHR ''-'' # show_octal_nat (nat (- i)) else show_octal_nat (nat i))"

text \<open>\<open>text.split(/\r?\n/)\<close>.\<close>

definition strip_cr :: "string \<Rightarrow> string" where
  "strip_cr s = (if s \<noteq> [] \<and> last s = CR then butlast s else s)"

definition split_crlf :: "string \<Rightarrow> string list" where
  "split_crlf text = (let parts = split_on (\<lambda>c. c = LF) text in map strip_cr (butlast parts) @ [last parts])"

subsection \<open>SFTP\<close>

definition hasSftp :: "session_view \<Rightarrow> bool" where
  "hasSftp session = vw_sftp session"

definition sftpReadFile :: "service \<Rightarrow> string \<Rightarrow> string act" where
  "sftpReadFile v path = io_act (RReadFile path) (sv_read v)"

definition sftpWriteFile :: "service \<Rightarrow> string \<Rightarrow> string \<Rightarrow> unit act" where
  "sftpWriteFile v path data = simple_call v (RWriteFile path data)"

definition sftpStat :: "service \<Rightarrow> string \<Rightarrow> file_attrs act" where
  "sftpStat v path = io_act (RStat path) (sv_stat v)"

definition sftpReaddir :: "service \<Rightarrow> string \<Rightarrow> (string \<times> file_attrs) list act" where
  "sftpReaddir v path = io_act (RReaddir path) (sv_readdir v)"

definition sftpMkdir :: "service \<Rightarrow> string \<Rightarrow> (remote_op, int option \<times> thrown, unit) proc" where
  "sftpMkdir v path = io_act (RMkdir path) (\<lambda>t. case sv_mkdir v t of Some e \<Rightarrow> Inl e | None \<Rightarrow> Inr ())"

definition sftpRmdir :: "service \<Rightarrow> string \<Rightarrow> unit act" where
  "sftpRmdir v path = simple_call v (RRmdir path)"

definition sftpUnlink :: "service \<Rightarrow> string \<Rightarrow> unit act" where
  "sftpUnlink v path = simple_call v (RUnlink path)"

definition sftpRename :: "service \<Rightarrow> string \<Rightarrow> string \<Rightarrow> unit act" where
  "sftpRename v oldPath newPath = simple_call v (RRename oldPath newPath)"

definition sftpChmod :: "service \<Rightarrow> string \<Rightarrow> int \<Rightarrow> unit act" where
  "sftpChmod v path mode = simple_call v (RChmod path mode)"

text \<open>Error 4 of \<open>mkdir\<close> (a general failure, such as a directory made meanwhile) is ignored.\<close>

definition ensure_directory :: "service \<Rightarrow> string \<Rightarrow> unit act" where
  "ensure_directory v path =
     io_catch (io_bind (sftpStat v path) (\<lambda>_. io_ret ()))
       (\<lambda>_. io_catch (sftpMkdir v path) (\<lambda>(code, e). if code = Some 4 then io_ret () else io_throw e))"

fun mkdir_parts :: "service \<Rightarrow> string \<Rightarrow> string list \<Rightarrow> unit act" where
  "mkdir_parts v currentPath [] = io_ret ()"
| "mkdir_parts v currentPath (part # parts) =
     (let next = (if currentPath = [] then ''/'' @ part else currentPath @ ''/'' @ part)
      in io_bind (ensure_directory v next) (\<lambda>_. mkdir_parts v next parts))"

definition sftpMkdirRecursive :: "service \<Rightarrow> string \<Rightarrow> unit act" where
  "sftpMkdirRecursive v dirPath =
     mkdir_parts v (if prefix ''/'' dirPath then [] else ''.'') (filter (\<lambda>p. p \<noteq> []) (split_on (\<lambda>c. c = SLASH) dirPath))"

text \<open>\<open>mode & 0o170000\<close>: the type is the four bits above the twelve of the permissions.\<close>

definition mode_type :: "int \<Rightarrow> int" where
  "mode_type mode = mode div 4096 mod 16"

definition is_dir_mode :: "int \<Rightarrow> bool" where
  "is_dir_mode mode \<longleftrightarrow> mode_type mode = 4"

type_synonym 'a bounded_act = "(remote_op, thrown option, 'a) proc"

definition lift_act :: "'a act \<Rightarrow> 'a bounded_act" where
  "lift_act m = io_rethrow Some m"

fun for_each :: "('x \<Rightarrow> ('o, 'e, unit) proc) \<Rightarrow> 'x list \<Rightarrow> ('o, 'e, unit) proc" where
  "for_each f [] = io_ret ()"
| "for_each f (x # xs) = io_bind (f x) (\<lambda>_. for_each f xs)"

fun sftpRmdirRecursive :: "nat \<Rightarrow> service \<Rightarrow> string \<Rightarrow> unit bounded_act" where
  "sftpRmdirRecursive 0 v dirPath = io_throw None"
| "sftpRmdirRecursive (Suc depth) v dirPath =
     io_bind (lift_act (sftpReaddir v dirPath)) (\<lambda>entries.
     io_bind (for_each (\<lambda>(filename, attrs).
         let entryPath = dirPath @ ''/'' @ filename in
         if is_dir_mode (or_default 0 (fa_mode attrs)) then sftpRmdirRecursive depth v entryPath
         else lift_act (sftpUnlink v entryPath)) entries) (\<lambda>_.
     lift_act (sftpRmdir v dirPath)))"

subsection \<open>Shell fall-back\<close>

definition fs_shellQuote :: "string \<Rightarrow> string" where
  "fs_shellQuote v = [SQUOTE] @ replace_char SQUOTE [SQUOTE, DQUOTE, SQUOTE, DQUOTE, SQUOTE] v @ [SQUOTE]"

definition tempPathFor :: "string \<Rightarrow> string \<Rightarrow> string" where
  "tempPathFor uuid targetPath =
     (let normalizedPath = replace_char BSLASH ''/'' targetPath;
          directory = rev (dropWhile (\<lambda>c. c \<noteq> SLASH) (rev normalizedPath));
          baseName = rev (takeWhile (\<lambda>c. c \<noteq> SLASH) (rev normalizedPath));
          safeBaseName = (if length baseName > 0 then baseName else ''write'')
      in directory @ ''.'' @ safeBaseName @ ''.'' @ uuid @ ''.tmp'')"

definition fallback_error :: "exec_raw \<Rightarrow> thrown" where
  "fallback_error result = JSError
     (if truthy (xr_stderr result) then the (xr_stderr result)
      else if truthy (xr_stdout result) then the (xr_stdout result)
      else ''Remote command failed with code '' @ (case xr_code result of None \<Rightarrow> ''null'' | Some c \<Rightarrow> show_int c))"

definition execFallback :: "service \<Rightarrow> string \<Rightarrow> string \<Rightarrow> string act" where
  "execFallback v sessionId command =
     io_bind (require_session v sessionId) (\<lambda>_.
     io_bind (detect v) (\<lambda>os.
     io_bind (of_res (buildRemoteCommand command os None None)) (\<lambda>shellCommand.
     io_bind (exec_ssh v shellCommand) (\<lambda>result.
     if or_default 0 (xr_code result) \<noteq> 0 then io_throw (fallback_error result)
     else io_ret (or_default [] (xr_stdout result))))))"

subsection \<open>Attributes of a file\<close>

definition PORTABLE_STAT_FIELDS_COMMAND :: string where
  \<open>PORTABLE_STAT_FIELDS_COMMAND =
     ''type=other; '' @
     ''if [ -L "$target" ]; '' @
     ''then type=symlink; '' @
     ''elif [ -d "$target" ]; '' @
     ''then type=directory; '' @
     ''elif [ -f "$target" ]; '' @
     ''then type=file; '' @
     ''fi; '' @
     ''size=$( (stat -c %s "$target" 2>/dev/null || stat -f %z "$target" 2>/dev/null || wc -c < "$target" 2>/dev/null) | tr -d " " | head -n 1); '' @
     ''mtime=$( (stat -c %Y "$target" 2>/dev/null || stat -f %m "$target" 2>/dev/null || echo 0) | head -n 1); '' @
     ''mode=$( (stat -c %a "$target" 2>/dev/null || stat -f %Lp "$target" 2>/dev/null || echo 0) | head -n 1)''\<close>

definition PORTABLE_STAT_COMMAND :: string where
  \<open>PORTABLE_STAT_COMMAND = PORTABLE_STAT_FIELDS_COMMAND @
     ''; printf "%s'' @ [BSLASH] @ ''t%s'' @ [BSLASH] @ ''t%s'' @ [BSLASH] @ ''t%s" "$type" "${size:-0}" "${mtime:-0}" "${mode:-0}"''\<close>

record file_stat_info =
  fi_size :: "int option"
  fi_mtime :: "int option"
  fi_mode :: "int option"
  fi_type :: string

text \<open>A field of a line that is not there has its default.\<close>

definition field :: "nat \<Rightarrow> string \<Rightarrow> string list \<Rightarrow> string" where
  "field n d cells = (if n < length cells then cells ! n else d)"

definition seconds_ms :: "int option \<Rightarrow> int option" where
  "seconds_ms = map_option (\<lambda>s. s * 1000)"

definition parse_stat_output :: "string \<Rightarrow> file_stat_info" where
  "parse_stat_output output =
     (let cells = split_on (\<lambda>c. c = CHR 0x09) (trim output)
      in \<lparr> fi_size = js_number (field 1 ''0'' cells), fi_mtime = seconds_ms (js_number (field 2 ''0'' cells)),
           fi_mode = parse_octal (field 3 ''0'' cells), fi_type = field 0 ''other'' cells \<rparr>)"

definition mode_kind :: "int \<Rightarrow> file_kind option" where
  "mode_kind mode =
     (if mode_type mode = 8 then Some KFile
      else if mode_type mode = 4 then Some KDirectory
      else if mode_type mode = 10 then Some KSymlink
      else None)"

fun kind_name :: "file_kind \<Rightarrow> string" where
  "kind_name KFile = ''file''"
| "kind_name KDirectory = ''directory''"
| "kind_name KSymlink = ''symlink''"
| "kind_name KOther = ''other''"

definition mtime_ms :: "int \<Rightarrow> int option \<Rightarrow> int" where
  "mtime_ms now mtime = (case mtime of Some s \<Rightarrow> s * 1000 | None \<Rightarrow> now)"

definition stat_of_attrs :: "int \<Rightarrow> file_attrs \<Rightarrow> file_stat_info" where
  "stat_of_attrs now stats =
     (let mode = or_default 0 (fa_mode stats)
      in \<lparr> fi_size = Some (or_default 0 (fa_size stats)), fi_mtime = Some (mtime_ms now (fa_mtime stats)),
           fi_mode = Some mode, fi_type = kind_name (or_default (fa_kind stats) (mode_kind mode)) \<rparr>)"

definition statFileInternal :: "service \<Rightarrow> string \<Rightarrow> string \<Rightarrow> file_stat_info act" where
  "statFileInternal v sessionId path =
     io_bind (require_session v sessionId) (\<lambda>session.
     if \<not> hasSftp session then
       io_bind (execFallback v sessionId (''target='' @ fs_shellQuote path @ ''; '' @ PORTABLE_STAT_COMMAND)) (\<lambda>output.
       io_ret (parse_stat_output output))
     else
       io_bind (sftpStat v path) (\<lambda>stats. observe (\<lambda>t. stat_of_attrs (sv_now v t) stats)))"

subsection \<open>Operations\<close>

definition path_context :: "policy_action \<Rightarrow> session_view \<Rightarrow> string \<Rightarrow> policy_context" where
  "path_context action session path = (base_context action (vw_policyMode session))\<lparr> px_path := Some path \<rparr>"

definition getFileSizeInternal :: "service \<Rightarrow> string \<Rightarrow> string \<Rightarrow> int option act" where
  "getFileSizeInternal v sessionId path = io_bind (statFileInternal v sessionId path) (\<lambda>s. io_ret (fi_size s))"

definition exceeds :: "int option \<Rightarrow> int \<Rightarrow> bool" where
  "exceeds n limit = (case n of None \<Rightarrow> False | Some i \<Rightarrow> i > limit)"

definition readFile :: "service \<Rightarrow> string \<Rightarrow> string \<Rightarrow> string \<Rightarrow> int option \<Rightarrow> string act" where
  "readFile v sessionId path encoding maxBytes =
     io_bind (require_session v sessionId) (\<lambda>session.
     wrapping EFS (''Failed to read file '' @ path @ ''. Check if the file exists and is readable.'')
       (io_bind (decide v (path_context FsRead session path)) (\<lambda>_.
        let effectiveMaxBytes = or_default (sv_maxFileSize v) maxBytes in
        io_bind (getFileSizeInternal v sessionId path) (\<lambda>fileSize.
        if exceeds fileSize effectiveMaxBytes then
          io_throw (MCPError (createLimitError
            (''File '' @ path @ '' is '' @ show_int (the fileSize) @ '' bytes, which exceeds the '' @
             show_int effectiveMaxBytes @ '' byte read limit'')
            (Some ''Use file_download for large files or raise SSH_MCP_MAX_FILE_SIZE intentionally.'')))
        else if \<not> hasSftp session then
          io_bind (execFallback v sessionId (''cat '' @ fs_shellQuote path)) (\<lambda>data.
          io_bind (report (FileRead (byteLength data))) (\<lambda>_. io_ret data))
        else
          io_bind (sftpReadFile v path) (\<lambda>data.
          io_bind (report (FileRead (int (length data)))) (\<lambda>_. io_ret (sv_decode v encoding data)))))))"

definition write_over_shell :: "service \<Rightarrow> string \<Rightarrow> string \<Rightarrow> string \<Rightarrow> int option \<Rightarrow> bool act" where
  "write_over_shell v sessionId path data mode =
     io_bind (observe (\<lambda>t. tempPathFor (sv_uuid v t) path)) (\<lambda>tempPath.
     let chmodCommand = (case mode of None \<Rightarrow> [] | Some m \<Rightarrow> ''chmod '' @ show_octal m @ '' '' @ fs_shellQuote tempPath @ [LF]) in
     io_bind (execFallback v sessionId
       (''printf %s '' @ fs_shellQuote data @ '' > '' @ fs_shellQuote tempPath @ [LF] @ chmodCommand @
        ''mv '' @ fs_shellQuote tempPath @ '' '' @ fs_shellQuote path)) (\<lambda>_.
     io_bind (report (FileWrite (byteLength data))) (\<lambda>_. io_ret True)))"

text \<open>A failure of the clean-up is swallowed.\<close>

definition write_over_sftp :: "service \<Rightarrow> string \<Rightarrow> string \<Rightarrow> int option \<Rightarrow> bool act" where
  "write_over_sftp v path data mode =
     io_bind (observe (\<lambda>t. tempPathFor (sv_uuid v t) path)) (\<lambda>tempPath.
     io_catch
       (io_bind (sftpWriteFile v tempPath data) (\<lambda>_.
        io_bind (case mode of None \<Rightarrow> io_ret () | Some m \<Rightarrow> sftpChmod v tempPath m) (\<lambda>_.
        io_bind (sftpRename v tempPath path) (\<lambda>_.
        io_bind (report (FileWrite (byteLength data))) (\<lambda>_. io_ret True)))))
       (\<lambda>writeError. io_bind (io_catch (sftpUnlink v tempPath) (\<lambda>_. io_ret ())) (\<lambda>_. io_throw writeError)))"

definition writeFile :: "service \<Rightarrow> string \<Rightarrow> string \<Rightarrow> string \<Rightarrow> int option \<Rightarrow> bool act" where
  "writeFile v sessionId path data mode =
     io_bind (require_session v sessionId) (\<lambda>session.
     wrapping EFS (''Failed to write file '' @ path @ ''. Check directory permissions and disk space.'')
       (io_bind (decide v (path_context FsWrite session path)) (\<lambda>decision.
        if pd_mode decision = Explain then io_ret True
        else if byteLength data > sv_maxFileWriteBytes v then
          io_throw (MCPError (createLimitError
            (''Write payload is '' @ show_int (byteLength data) @ '' bytes, which exceeds the '' @
             show_int (sv_maxFileWriteBytes v) @ '' byte write limit'')
            (Some ''Use file_upload for large files or raise SSH_MCP_MAX_FILE_WRITE_BYTES intentionally.'')))
        else if \<not> hasSftp session then write_over_shell v sessionId path data mode
        else write_over_sftp v path data mode)))"

definition statFile :: "service \<Rightarrow> string \<Rightarrow> string \<Rightarrow> file_stat_info act" where
  "statFile v sessionId path =
     io_bind (require_session v sessionId) (\<lambda>session.
     wrapping EFS (''Failed to get stats for '' @ path @ ''. Check if the path exists.'')
       (io_bind (decide v (path_context FsStat session path)) (\<lambda>_. statFileInternal v sessionId path)))"

record dir_entry =
  de_name :: string
  de_type :: string
  de_size :: "int option"
  de_mtime :: "int option"
  de_mode :: "int option"

record dir_list_result =
  dl_entries :: "dir_entry list"
  dl_nextToken :: "string option"

definition paginate :: "dir_entry list \<Rightarrow> nat option \<Rightarrow> nat \<Rightarrow> dir_list_result" where
  "paginate entries page limit =
     (case page of
        None \<Rightarrow> \<lparr> dl_entries = entries, dl_nextToken = None \<rparr>
      | Some p \<Rightarrow>
          let startIndex = p * limit; endIndex = startIndex + limit
          in \<lparr> dl_entries = take limit (drop startIndex entries),
               dl_nextToken = (if endIndex < length entries then Some (show_nat (p + 1)) else None) \<rparr>)"

definition LIST_COMMAND :: "string \<Rightarrow> string" where
  \<open>LIST_COMMAND path = ''dir='' @ fs_shellQuote path @
     ''; for item in "$dir"/* "$dir"/.[!.]* "$dir"/..?*; do [ -e "$item" ] || continue; '' @
     ''name=$(basename "$item"); target="$item"; '' @ PORTABLE_STAT_FIELDS_COMMAND @
     ''; printf "%s'' @ [BSLASH] @ ''t%s'' @ [BSLASH] @ ''t%s'' @ [BSLASH] @ ''t%s'' @ [BSLASH] @ ''n'' @
     ''" "$name" "$type" "${size:-0}" "${mtime:-0}"; done''\<close>

definition parse_list_line :: "string \<Rightarrow> dir_entry" where
  "parse_list_line line =
     (let cells = split_on (\<lambda>c. c = CHR 0x09) line
      in \<lparr> de_name = field 0 [] cells, de_type = field 1 ''other'' cells, de_size = js_number (field 2 ''0'' cells),
           de_mtime = seconds_ms (js_number (field 3 ''0'' cells)), de_mode = None \<rparr>)"

definition entry_of_attrs :: "int \<Rightarrow> string \<times> file_attrs \<Rightarrow> dir_entry" where
  "entry_of_attrs now item =
     (let attrs = snd item in
      \<lparr> de_name = fst item, de_type = kind_name (or_default KOther (mode_kind (or_default 0 (fa_mode attrs)))),
        de_size = fa_size attrs, de_mtime = Some (mtime_ms now (fa_mtime attrs)), de_mode = fa_mode attrs \<rparr>)"

definition listDirectory :: "service \<Rightarrow> string \<Rightarrow> string \<Rightarrow> nat option \<Rightarrow> nat \<Rightarrow> dir_list_result act" where
  "listDirectory v sessionId path page limit =
     io_bind (require_session v sessionId) (\<lambda>session.
     wrapping EFS (''Failed to list directory '' @ path @ ''. Check if the directory exists and is readable.'')
       (io_bind (decide v (path_context FsList session path)) (\<lambda>_.
        if \<not> hasSftp session then
          io_bind (execFallback v sessionId (LIST_COMMAND path)) (\<lambda>output.
          io_ret (paginate (map parse_list_line (filter (\<lambda>l. l \<noteq> []) (split_crlf output))) page limit))
        else
          io_bind (sftpReaddir v path) (\<lambda>fileList.
          observe (\<lambda>t. paginate (map (entry_of_attrs (sv_now v t)) fileList) page limit)))))"

definition makeDirectories :: "service \<Rightarrow> string \<Rightarrow> string \<Rightarrow> bool act" where
  "makeDirectories v sessionId path =
     io_bind (require_session v sessionId) (\<lambda>session.
     wrapping EFS (''Failed to create directories '' @ path @ ''. Check parent directory permissions.'')
       (io_bind (decide v (path_context FsMkdir session path)) (\<lambda>decision.
        if pd_mode decision = Explain then io_ret True
        else if \<not> hasSftp session then
          io_bind (execFallback v sessionId (''mkdir -p '' @ fs_shellQuote path)) (\<lambda>_. io_ret True)
        else io_bind (sftpMkdirRecursive v path) (\<lambda>_. io_ret True))))"

definition removeRecursive :: "nat \<Rightarrow> service \<Rightarrow> string \<Rightarrow> string \<Rightarrow> bool bounded_act" where
  "removeRecursive depth v sessionId path =
     io_bind (lift_act (require_session v sessionId)) (\<lambda>session.
     io_rethrow (map_option (\<lambda>e. MCPError (wrapError e EFS
         (Some (''Failed to remove '' @ path @ ''. Check if the path exists and you have write permissions.'')))))
       (io_bind (lift_act (decide v ((path_context FsRemove session path)\<lparr> px_destructive := True \<rparr>))) (\<lambda>decision.
        if pd_mode decision = Explain then io_ret True
        else if \<not> hasSftp session then
          io_bind (lift_act (execFallback v sessionId (''rm -rf '' @ fs_shellQuote path))) (\<lambda>_. io_ret True)
        else
          io_bind (lift_act (sftpStat v path)) (\<lambda>stats.
          io_bind (if is_dir_mode (or_default 0 (fa_mode stats)) then sftpRmdirRecursive depth v path
                   else lift_act (sftpUnlink v path)) (\<lambda>_.
          io_bind (lift_act (report FileDelete)) (\<lambda>_. io_ret True))))))"

definition renameFile :: "service \<Rightarrow> string \<Rightarrow> string \<Rightarrow> string \<Rightarrow> bool act" where
  "renameFile v sessionId from_path to_path =
     io_bind (require_session v sessionId) (\<lambda>session.
     wrapping EFS (''Failed to rename '' @ from_path @ '' to '' @ to_path @
         ''. Check if the source exists and destination is writable.'')
       (io_bind (decide v ((path_context FsRename session from_path)\<lparr> px_secondaryPath := Some to_path \<rparr>)) (\<lambda>decision.
        if pd_mode decision = Explain then io_ret True
        else if \<not> hasSftp session then
          io_bind (execFallback v sessionId (''mv '' @ fs_shellQuote from_path @ '' '' @ fs_shellQuote to_path)) (\<lambda>_. io_ret True)
        else io_bind (sftpRename v from_path to_path) (\<lambda>_. io_ret True))))"

definition stat_test :: "service \<Rightarrow> string \<Rightarrow> string \<Rightarrow> (file_stat_info \<Rightarrow> bool) \<Rightarrow> bool act" where
  "stat_test v sessionId path test =
     io_catch (io_bind (statFile v sessionId path) (\<lambda>s. io_ret (test s))) (\<lambda>_. io_ret False)"

definition pathExists :: "service \<Rightarrow> string \<Rightarrow> string \<Rightarrow> bool act" where
  "pathExists v sessionId path = stat_test v sessionId path (\<lambda>_. True)"

definition getFileSize :: "service \<Rightarrow> string \<Rightarrow> string \<Rightarrow> int option act" where
  "getFileSize v sessionId path = io_bind (statFile v sessionId path) (\<lambda>s. io_ret (fi_size s))"

definition isDirectory :: "service \<Rightarrow> string \<Rightarrow> string \<Rightarrow> bool act" where
  "isDirectory v sessionId path = stat_test v sessionId path (\<lambda>s. fi_type s = ''directory'')"

definition isFile :: "service \<Rightarrow> string \<Rightarrow> string \<Rightarrow> bool act" where
  "isFile v sessionId path = stat_test v sessionId path (\<lambda>s. fi_type s = ''file'')"

end
