(* ===== verification/FsProps.thy ===== *)
theory FsProps
  imports FsService PolicyGate
begin

section \<open>Properties of the file operations\<close>

text \<open>
  Nothing is done to the host of a session that the policy does not permit for the path that was
  asked for. Sessions are in enforce mode (the session manager stores no other, see
  \<open>stored_sessions_enforce\<close>).
\<close>

subsection \<open>Calls that reach the host\<close>

definition reaches_host :: "remote_op \<Rightarrow> bool" where
  "reaches_host c \<longleftrightarrow> \<not> (case c of RSession \<Rightarrow> True | RDecide _ \<Rightarrow> True | RDetect \<Rightarrow> True | RMetric _ \<Rightarrow> True | _ \<Rightarrow> False)"

lemma reaches_host_simps [simp]:
  "\<not> reaches_host RSession" "\<not> reaches_host (RDecide ctx)" "\<not> reaches_host RDetect" "\<not> reaches_host (RMetric e)"
  by (simp_all add: reaches_host_def)

definition enforcing :: "service \<Rightarrow> bool" where
  "enforcing v \<longleftrightarrow> (\<forall>t s. sv_session v t = Some s \<longrightarrow> vw_policyMode s = Enforce)"

text \<open>The computation calls the host only as \<open>P\<close> allows.\<close>

definition reaches_only :: "(remote_op \<Rightarrow> bool) \<Rightarrow> (remote_op, 'e, 'a) proc \<Rightarrow> bool" where
  "reaches_only P m \<longleftrightarrow> keeps (\<lambda>_ c. reaches_host c \<longrightarrow> P c) m"

named_theorems reaches \<open>computations that call the host only in allowed ways\<close>

lemma reaches_basic [reaches]:
  "reaches_only P (io_ret x)" "reaches_only P (io_throw e)" "reaches_only P (of_res r)" "reaches_only P (observe f)"
  by (simp_all add: reaches_only_def keeps_intros)

lemma reaches_act [reaches]: "(reaches_host c \<Longrightarrow> P c) \<Longrightarrow> reaches_only P (io_act c answer)"
  by (simp add: reaches_only_def keeps_intros)

lemma reaches_bind [reaches]: "reaches_only P m \<Longrightarrow> (\<And>x. reaches_only P (f x)) \<Longrightarrow> reaches_only P (io_bind m f)"
  by (simp add: reaches_only_def keeps_intros)

lemma reaches_catch [reaches]: "reaches_only P m \<Longrightarrow> (\<And>e. reaches_only P (f e)) \<Longrightarrow> reaches_only P (io_catch m f)"
  by (simp add: reaches_only_def keeps_intros)

lemma reaches_rethrow [reaches]: "reaches_only P m \<Longrightarrow> reaches_only P (io_rethrow g m)"
  by (simp add: reaches_only_def keeps_intros)

lemma reaches_finally [reaches]: "reaches_only P m \<Longrightarrow> reaches_only P c \<Longrightarrow> reaches_only P (io_finally m c)"
  by (simp add: reaches_only_def keeps_intros)

lemma reaches_if [reaches]: "(b \<Longrightarrow> reaches_only P m) \<Longrightarrow> (\<not> b \<Longrightarrow> reaches_only P n) \<Longrightarrow> reaches_only P (if b then m else n)"
  by simp

lemma reaches_split [reaches]: "(\<And>a b. reaches_only P (f a b)) \<Longrightarrow> reaches_only P (case x of (a, b) \<Rightarrow> f a b)"
  by (cases x) simp

lemma reaches_option [reaches]:
  "reaches_only P m \<Longrightarrow> (\<And>x. reaches_only P (f x)) \<Longrightarrow> reaches_only P (case v of None \<Rightarrow> m | Some x \<Rightarrow> f x)"
  by (cases v) simp_all

lemma reaches_wrapping [reaches]: "reaches_only P m \<Longrightarrow> reaches_only P (wrapping code hint m)"
  by (simp add: wrapping_def reaches)

lemma reaches_lift [reaches]: "reaches_only P m \<Longrightarrow> reaches_only P (lift_act m)"
  by (simp add: lift_act_def reaches)

lemma reaches_for_each [reaches]: "(\<And>x. reaches_only P (f x)) \<Longrightarrow> reaches_only P (for_each f xs)"
  by (induction xs) (simp_all add: reaches)

lemma reaches_quiet [reaches]:
  "reaches_only P (lookup_session v)" "reaches_only P (decide v ctx)" "reaches_only P (detect v)" "reaches_only P (report e)"
  by (auto simp: remote_call_defs intro!: reaches_act)

lemma reaches_require [reaches]: "reaches_only P (require_session v sid)"
  unfolding require_session_def by (intro reaches)

lemma reaches_exec_ssh [reaches]: "P (RExec command) \<Longrightarrow> reaches_only P (exec_ssh v command)"
  by (simp add: exec_ssh_def reaches)

lemma reaches_simple [reaches]: "P c \<Longrightarrow> reaches_only P (simple_call v c)"
  by (simp add: simple_call_def reaches)

lemma reaches_mono: "reaches_only P m \<Longrightarrow> (\<And>c. P c \<Longrightarrow> Q c) \<Longrightarrow> reaches_only Q m"
  unfolding reaches_only_def by (erule keeps_mono) blast

lemma keeps_bind_result:
  assumes "keeps ok m" and "\<And>t x t'. m t = (Inr x, t') \<Longrightarrow> keeps ok (f x)"
  shows "keeps ok (io_bind m f)"
  unfolding keeps_def
proof
  fix t
  obtain r u where m: "m t = (r, u)" by (cases "m t")
  with assms(1) have u: "guarded ok t u" unfolding keeps_def by (metis snd_conv)
  show "guarded ok t (snd (io_bind m f t))"
  proof (cases r)
    case (Inr x)
    from assms(2) [of t x u] m Inr have "guarded ok u (snd (f x u))" unfolding keeps_def by blast
    with u m Inr show ?thesis by (simp add: io_bind_def guarded_trans)
  qed (use u m in \<open>simp add: io_bind_def\<close>)
qed

lemma reaches_bind_result:
  "reaches_only P m \<Longrightarrow> (\<And>t x t'. m t = (Inr x, t') \<Longrightarrow> reaches_only P (f x)) \<Longrightarrow> reaches_only P (io_bind m f)"
  unfolding reaches_only_def by (rule keeps_bind_result)

lemma require_session_result: "require_session v sid t = (Inr s, t') \<Longrightarrow> \<exists>u. sv_session v u = Some s"
  by (auto simp: require_session_def lookup_session_def io_bind_def io_act_def io_throw_def io_ret_def split: option.splits)

lemma reaches_session:
  assumes "enforcing v" and "\<And>s. vw_policyMode s = Enforce \<Longrightarrow> reaches_only P (f s)"
  shows "reaches_only P (io_bind (require_session v sid) f)"
proof (rule reaches_bind_result)
  show "reaches_only P (require_session v sid)" by (rule reaches_require)
  show "reaches_only P (f s)" if "require_session v sid t = (Inr s, t')" for t s t'
    using require_session_result [OF that] assms unfolding enforcing_def by blast
qed

lemma lift_act_result: "lift_act m t = (Inr x, t') \<Longrightarrow> m t = (Inr x, t')"
  by (auto simp: lift_act_def io_rethrow_def io_catch_def io_throw_def split: prod.splits sum.splits)

lemma reaches_session_lifted:
  assumes "enforcing v" and "\<And>s. vw_policyMode s = Enforce \<Longrightarrow> reaches_only P (f s)"
  shows "reaches_only P (io_bind (lift_act (require_session v sid)) f)"
proof (rule reaches_bind_result)
  show "reaches_only P (f s)" if "lift_act (require_session v sid) t = (Inr s, t')" for t s t'
    using require_session_result [OF lift_act_result [OF that]] assms unfolding enforcing_def by blast
qed (intro reaches)

lemma reaches_each: "reaches_only P m \<Longrightarrow> m t = (r, t') \<Longrightarrow> \<exists>calls. t' = t @ calls \<and> (\<forall>c \<in> set calls. reaches_host c \<longrightarrow> P c)"
proof -
  assume "reaches_only P m" "m t = (r, t')"
  then have g: "guarded (\<lambda>_ c. reaches_host c \<longrightarrow> P c) t t'" unfolding reaches_only_def keeps_def by (metis snd_conv)
  from guarded_extends [OF g] obtain calls where c: "t' = t @ calls" by blast
  have "each_ok (\<lambda>_ c. Q c) u cs \<Longrightarrow> \<forall>c \<in> set cs. Q c" for Q u cs
    by (induction cs arbitrary: u) auto
  with g c show ?thesis by auto
qed

subsection \<open>The gate\<close>

context policy_gate
begin

lemma reaches_decide:
  assumes "sv_gate v = gate" and "px_mode ctx = Some Enforce"
    and "\<And>d. permits ctx \<Longrightarrow> pd_mode d = Enforce \<Longrightarrow> reaches_only P (f d)"
  shows "reaches_only P (io_bind (decide v ctx) f)"
proof (rule reaches_bind_result)
  show "reaches_only P (decide v ctx)" by (rule reaches)
  show "reaches_only P (f d)" if "decide v ctx t = (Inr d, t')" for t d t'
  proof -
    have "gate ctx = Inr d" using that assms(1) by (auto simp: decide_def io_act_def split: sum.splits)
    then show ?thesis using assms(2,3) enforced mode_kept by blast
  qed
qed

end

context policy_gate
begin

lemma reaches_decide_lifted:
  assumes "sv_gate v = gate" and "px_mode ctx = Some Enforce"
    and "\<And>d. permits ctx \<Longrightarrow> pd_mode d = Enforce \<Longrightarrow> reaches_only P (f d)"
  shows "reaches_only P (io_bind (lift_act (decide v ctx)) f)"
proof (rule reaches_bind_result)
  show "reaches_only P (f d)" if "lift_act (decide v ctx) t = (Inr d, t')" for t d t'
  proof -
    have "gate ctx = Inr d"
      using lift_act_result [OF that] assms(1) by (auto simp: decide_def io_act_def split: sum.splits)
    then show ?thesis using assms(2,3) enforced mode_kept by blast
  qed
qed (intro reaches)

end

subsection \<open>Requests\<close>

datatype fs_request =
    FsReadFile string string "int option"
  | FsWriteFile string string "int option"
  | FsStatFile string
  | FsListDirectory string "nat option" nat
  | FsMakeDirectories string
  | FsRemovePath string
  | FsRenameFile string string

text \<open>The result of a request does not matter here.\<close>

definition discard :: "'a act \<Rightarrow> unit bounded_act" where
  "discard m = io_bind (lift_act m) (\<lambda>_. io_ret ())"

fun fs_run :: "nat \<Rightarrow> service \<Rightarrow> string \<Rightarrow> fs_request \<Rightarrow> unit bounded_act" where
  "fs_run depth v sid (FsReadFile p enc n) = discard (readFile v sid p enc n)"
| "fs_run depth v sid (FsWriteFile p data mode) = discard (writeFile v sid p data mode)"
| "fs_run depth v sid (FsStatFile p) = discard (statFile v sid p)"
| "fs_run depth v sid (FsListDirectory p page limit) = discard (listDirectory v sid p page limit)"
| "fs_run depth v sid (FsMakeDirectories p) = discard (makeDirectories v sid p)"
| "fs_run depth v sid (FsRemovePath p) = io_bind (removeRecursive depth v sid p) (\<lambda>_. io_ret ())"
| "fs_run depth v sid (FsRenameFile p q) = discard (renameFile v sid p q)"

definition enforced_path :: "policy_action \<Rightarrow> string \<Rightarrow> policy_context" where
  "enforced_path action p = (base_context action Enforce)\<lparr> px_path := Some p \<rparr>"

text \<open>What the policy has to permit.\<close>

fun fs_context :: "fs_request \<Rightarrow> policy_context" where
  "fs_context (FsReadFile p enc n) = enforced_path FsRead p"
| "fs_context (FsWriteFile p data mode) = enforced_path FsWrite p"
| "fs_context (FsStatFile p) = enforced_path FsStat p"
| "fs_context (FsListDirectory p page limit) = enforced_path FsList p"
| "fs_context (FsMakeDirectories p) = enforced_path FsMkdir p"
| "fs_context (FsRemovePath p) = (enforced_path FsRemove p)\<lparr> px_destructive := True \<rparr>"
| "fs_context (FsRenameFile p q) = (enforced_path FsRename p)\<lparr> px_secondaryPath := Some q \<rparr>"

definition stat_script :: "string \<Rightarrow> string" where
  "stat_script p = ''target='' @ fs_shellQuote p @ ''; '' @ PORTABLE_STAT_COMMAND"

definition write_script :: "string \<Rightarrow> string \<Rightarrow> string \<Rightarrow> int option \<Rightarrow> string" where
  "write_script temp p data mode =
     ''printf %s '' @ fs_shellQuote data @ '' > '' @ fs_shellQuote temp @ [LF] @
     (case mode of None \<Rightarrow> [] | Some m \<Rightarrow> ''chmod '' @ show_octal m @ '' '' @ fs_shellQuote temp @ [LF]) @
     ''mv '' @ fs_shellQuote temp @ '' '' @ fs_shellQuote p"

text \<open>The scripts a request may run where there is no SFTP, as a shell is given them.\<close>

fun fs_scripts :: "fs_request \<Rightarrow> string set" where
  "fs_scripts (FsReadFile p enc n) = {stat_script p, ''cat '' @ fs_shellQuote p}"
| "fs_scripts (FsWriteFile p data mode) = {write_script (tempPathFor uuid p) p data mode | uuid. True}"
| "fs_scripts (FsStatFile p) = {stat_script p}"
| "fs_scripts (FsListDirectory p page limit) = {LIST_COMMAND p}"
| "fs_scripts (FsMakeDirectories p) = {''mkdir -p '' @ fs_shellQuote p}"
| "fs_scripts (FsRemovePath p) = {''rm -rf '' @ fs_shellQuote p}"
| "fs_scripts (FsRenameFile p q) = {''mv '' @ fs_shellQuote p @ '' '' @ fs_shellQuote q}"

fun mkdir_paths :: "string \<Rightarrow> string list \<Rightarrow> string list" where
  "mkdir_paths current [] = []"
| "mkdir_paths current (part # parts) =
     (let next = (if current = [] then ''/'' @ part else current @ ''/'' @ part) in next # mkdir_paths next parts)"

text \<open>The SFTP calls a request may make.\<close>

fun fs_sftp :: "fs_request \<Rightarrow> remote_op \<Rightarrow> bool" where
  "fs_sftp (FsReadFile p enc n) c \<longleftrightarrow> c = RStat p \<or> c = RReadFile p"
| "fs_sftp (FsWriteFile p data mode) c \<longleftrightarrow>
     (\<exists>uuid. c = RWriteFile (tempPathFor uuid p) data \<or> (\<exists>m. mode = Some m \<and> c = RChmod (tempPathFor uuid p) m) \<or>
        c = RRename (tempPathFor uuid p) p \<or> c = RUnlink (tempPathFor uuid p))"
| "fs_sftp (FsStatFile p) c \<longleftrightarrow> c = RStat p"
| "fs_sftp (FsListDirectory p page limit) c \<longleftrightarrow> c = RReaddir p"
| "fs_sftp (FsMakeDirectories p) c \<longleftrightarrow>
     (\<exists>q \<in> set (mkdir_paths (if prefix ''/'' p then [] else ''.'') (filter (\<lambda>s. s \<noteq> []) (split_on (\<lambda>c. c = SLASH) p))).
        c = RStat q \<or> c = RMkdir q)"
| "fs_sftp (FsRemovePath p) c \<longleftrightarrow>
     c = RStat p \<or> (\<exists>q. (q = p \<or> prefix (p @ ''/'') q) \<and> (c = RReaddir q \<or> c = RUnlink q \<or> c = RRmdir q))"
| "fs_sftp (FsRenameFile p q) c \<longleftrightarrow> c = RRename p q"

definition fs_reach :: "fs_request \<Rightarrow> remote_op \<Rightarrow> bool" where
  "fs_reach req c \<longleftrightarrow>
     fs_sftp req c \<or> (\<exists>script \<in> fs_scripts req. \<exists>os cmd. c = RExec cmd \<and> buildRemoteCommand script os None None = Inr cmd)"

lemma reaches_execFallback: "script \<in> fs_scripts req \<Longrightarrow> reaches_only (fs_reach req) (execFallback v sid script)"
  unfolding execFallback_def
proof (rule reaches_bind [OF reaches_require], rule reaches_bind [OF reaches_quiet(3)])
  fix os
  assume script: "script \<in> fs_scripts req"
  show "reaches_only (fs_reach req)
      (io_bind (of_res (buildRemoteCommand script os None None)) (\<lambda>cmd. io_bind (exec_ssh v cmd) (\<lambda>result.
         if or_default 0 (xr_code result) \<noteq> 0 then io_throw (fallback_error result)
         else io_ret (or_default [] (xr_stdout result)))))"
  proof (rule reaches_bind_result)
    show "reaches_only (fs_reach req)
        (io_bind (exec_ssh v cmd) (\<lambda>result. if or_default 0 (xr_code result) \<noteq> 0 then io_throw (fallback_error result)
           else io_ret (or_default [] (xr_stdout result))))"
      if "of_res (buildRemoteCommand script os None None) t = (Inr cmd, t')" for t cmd t'
      using that script by (intro reaches) (auto simp: of_res_def fs_reach_def)
  qed (rule reaches)
qed

subsection \<open>The bodies of the operations\<close>

lemma sftp_reach: "fs_sftp req c \<Longrightarrow> fs_reach req c"
  by (simp add: fs_reach_def)

lemma reaches_sftp [reaches]:
  "fs_reach req (RReadFile p) \<Longrightarrow> reaches_only (fs_reach req) (sftpReadFile v p)"
  "fs_reach req (RWriteFile p d) \<Longrightarrow> reaches_only (fs_reach req) (sftpWriteFile v p d)"
  "fs_reach req (RStat p) \<Longrightarrow> reaches_only (fs_reach req) (sftpStat v p)"
  "fs_reach req (RReaddir p) \<Longrightarrow> reaches_only (fs_reach req) (sftpReaddir v p)"
  "fs_reach req (RMkdir p) \<Longrightarrow> reaches_only (fs_reach req) (sftpMkdir v p)"
  "fs_reach req (RRmdir p) \<Longrightarrow> reaches_only (fs_reach req) (sftpRmdir v p)"
  "fs_reach req (RUnlink p) \<Longrightarrow> reaches_only (fs_reach req) (sftpUnlink v p)"
  "fs_reach req (RRename p q) \<Longrightarrow> reaches_only (fs_reach req) (sftpRename v p q)"
  "fs_reach req (RChmod p m) \<Longrightarrow> reaches_only (fs_reach req) (sftpChmod v p m)"
  by (auto simp: sftpReadFile_def sftpWriteFile_def sftpStat_def sftpReaddir_def sftpMkdir_def sftpRmdir_def
      sftpUnlink_def sftpRename_def sftpChmod_def simple_call_def intro!: reaches_act)

lemma reaches_stat:
  "stat_script p \<in> fs_scripts req \<Longrightarrow> fs_sftp req (RStat p) \<Longrightarrow> reaches_only (fs_reach req) (statFileInternal v sid p)"
  unfolding statFileInternal_def stat_script_def by (intro reaches reaches_execFallback sftp_reach)

lemma reaches_write_shell:
  "reaches_only (fs_reach (FsWriteFile p data mode)) (write_over_shell v sid p data mode)"
  unfolding write_over_shell_def Let_def
proof (rule reaches_bind_result [OF reaches_basic(4)])
  fix t temp t'
  assume "observe (\<lambda>t. tempPathFor (sv_uuid v t) p) t = (Inr temp, t')"
  then have "temp = tempPathFor (sv_uuid v t) p" by (auto simp: observe_def)
  then show "reaches_only (fs_reach (FsWriteFile p data mode))
      (io_bind (execFallback v sid (''printf %s '' @ fs_shellQuote data @ '' > '' @ fs_shellQuote temp @ [LF] @
          (case mode of None \<Rightarrow> [] | Some m \<Rightarrow> ''chmod '' @ show_octal m @ '' '' @ fs_shellQuote temp @ [LF]) @
          ''mv '' @ fs_shellQuote temp @ '' '' @ fs_shellQuote p))
        (\<lambda>_. io_bind (report (FileWrite (byteLength data))) (\<lambda>_. io_ret True)))"
    by (intro reaches reaches_execFallback) (auto simp: write_script_def)
qed

lemma reaches_write_sftp:
  "reaches_only (fs_reach (FsWriteFile p data mode)) (write_over_sftp v p data mode)"
  unfolding write_over_sftp_def
proof (rule reaches_bind_result [OF reaches_basic(4)])
  fix t temp t'
  assume "observe (\<lambda>t. tempPathFor (sv_uuid v t) p) t = (Inr temp, t')"
  then have temp: "temp = tempPathFor (sv_uuid v t) p" by (auto simp: observe_def)
  show "reaches_only (fs_reach (FsWriteFile p data mode))
     (io_catch
       (io_bind (sftpWriteFile v temp data) (\<lambda>_.
        io_bind (case mode of None \<Rightarrow> io_ret () | Some m \<Rightarrow> sftpChmod v temp m) (\<lambda>_.
        io_bind (sftpRename v temp p) (\<lambda>_.
        io_bind (report (FileWrite (byteLength data))) (\<lambda>_. io_ret True)))))
       (\<lambda>writeError. io_bind (io_catch (sftpUnlink v temp) (\<lambda>_. io_ret ())) (\<lambda>_. io_throw writeError)))"
    unfolding temp by (cases mode) (auto intro!: reaches sftp_reach)
qed

lemma reaches_ensure_directory:
  "fs_reach req (RStat p) \<Longrightarrow> fs_reach req (RMkdir p) \<Longrightarrow> reaches_only (fs_reach req) (ensure_directory v p)"
  unfolding ensure_directory_def by (intro reaches)

lemma reaches_mkdir_parts:
  "(\<And>q. q \<in> set (mkdir_paths current parts) \<Longrightarrow> fs_reach req (RStat q) \<and> fs_reach req (RMkdir q)) \<Longrightarrow>
   reaches_only (fs_reach req) (mkdir_parts v current parts)"
  by (induction parts arbitrary: current) (auto simp: Let_def intro!: reaches reaches_ensure_directory)

lemma reaches_rmdir:
  assumes "q = p \<or> prefix (p @ ''/'') q"
  shows "reaches_only (fs_reach (FsRemovePath p)) (sftpRmdirRecursive depth v q)"
  using assms
proof (induction depth arbitrary: q)
  case (Suc depth)
  have below: "prefix (p @ ''/'') (q @ ''/'' @ f)" for f
    using Suc.prems by (auto simp: prefix_def)
  have unlink: "fs_reach (FsRemovePath p) (RUnlink (q @ ''/'' @ f))" for f
    using below [of f] by (simp add: fs_reach_def del: append_Cons append_Nil)
  have "fs_reach (FsRemovePath p) (RReaddir q)" "fs_reach (FsRemovePath p) (RRmdir q)"
    using Suc.prems by (auto simp: fs_reach_def)
  then show ?case
    unfolding sftpRmdirRecursive.simps Let_def by (intro reaches Suc.IH disjI2 below unlink)
qed (simp add: reaches)

subsection \<open>Every operation is gated\<close>

context policy_gate
begin

lemma reaches_granted: "permits ctx \<Longrightarrow> reaches_only Q m \<Longrightarrow> reaches_only (\<lambda>c. permits ctx \<and> Q c) m"
  by (erule reaches_mono) simp

lemma reaches_op:
  assumes "sv_gate v = gate" and "enforcing v" and "px_mode (fs_context req) = Some Enforce"
    and "\<And>s. vw_policyMode s = Enforce \<Longrightarrow> ctx s = fs_context req"
    and "\<And>s d. pd_mode d = Enforce \<Longrightarrow> reaches_only (fs_reach req) (f s d)"
  shows "reaches_only (\<lambda>c. permits (fs_context req) \<and> fs_reach req c)
     (io_bind (require_session v sid) (\<lambda>s. wrapping EFS hint (io_bind (decide v (ctx s)) (f s))))"
proof (rule reaches_session [OF assms(2)])
  fix s :: session_view
  assume s: "vw_policyMode s = Enforce"
  show "reaches_only (\<lambda>c. permits (fs_context req) \<and> fs_reach req c) (wrapping EFS hint (io_bind (decide v (ctx s)) (f s)))"
    unfolding assms(4) [OF s]
    by (intro reaches_wrapping reaches_decide [OF assms(1,3)] reaches_granted assms(5))
qed

lemma reaches_discard: "reaches_only P m \<Longrightarrow> reaches_only P (discard m)"
  unfolding discard_def by (intro reaches)

lemmas context_defs = enforced_path_def path_context_def base_context_def

lemma fs_request_gated:
  assumes g: "sv_gate v = gate" and e: "enforcing v"
  shows "reaches_only (\<lambda>c. permits (fs_context req) \<and> fs_reach req c) (fs_run depth v sid req)"
proof (cases req)
  case (FsReadFile p enc n)
  show ?thesis
    unfolding FsReadFile fs_run.simps readFile_def getFileSizeInternal_def Let_def
    by (intro reaches_discard reaches_op [OF g e] reaches reaches_stat reaches_execFallback sftp_reach)
      (simp_all add: context_defs)
next
  case (FsWriteFile p data mode)
  show ?thesis
    unfolding FsWriteFile fs_run.simps writeFile_def
    by (intro reaches_discard reaches_op [OF g e] reaches reaches_write_shell reaches_write_sftp) (simp_all add: context_defs)
next
  case (FsStatFile p)
  show ?thesis
    unfolding FsStatFile fs_run.simps statFile_def
    by (intro reaches_discard reaches_op [OF g e] reaches_stat) (simp_all add: context_defs)
next
  case (FsListDirectory p page limit)
  show ?thesis
    unfolding FsListDirectory fs_run.simps listDirectory_def
    by (intro reaches_discard reaches_op [OF g e] reaches reaches_execFallback sftp_reach) (simp_all add: context_defs)
next
  case (FsMakeDirectories p)
  show ?thesis
    unfolding FsMakeDirectories fs_run.simps makeDirectories_def sftpMkdirRecursive_def
    by (intro reaches_discard reaches_op [OF g e] reaches reaches_execFallback reaches_mkdir_parts)
      (auto simp: context_defs fs_reach_def)
next
  case (FsRenameFile p q)
  show ?thesis
    unfolding FsRenameFile fs_run.simps renameFile_def
    by (intro reaches_discard reaches_op [OF g e] reaches reaches_execFallback sftp_reach) (simp_all add: context_defs)
next
  case (FsRemovePath p)
  have ctx: "vw_policyMode s = Enforce \<Longrightarrow> (path_context FsRemove s p)\<lparr> px_destructive := True \<rparr> = fs_context (FsRemovePath p)" for s
    by (simp add: context_defs)
  show ?thesis
    unfolding FsRemovePath fs_run.simps removeRecursive_def
  proof (rule reaches_bind [OF reaches_session_lifted [OF e]], rule reaches_rethrow)
    fix s :: session_view
    assume s: "vw_policyMode s = Enforce"
    show "reaches_only (\<lambda>c. permits (fs_context (FsRemovePath p)) \<and> fs_reach (FsRemovePath p) c)
       (io_bind (lift_act (decide v ((path_context FsRemove s p)\<lparr> px_destructive := True \<rparr>))) (\<lambda>decision.
        if pd_mode decision = Explain then io_ret True
        else if \<not> hasSftp s then
          io_bind (lift_act (execFallback v sid (''rm -rf '' @ fs_shellQuote p))) (\<lambda>_. io_ret True)
        else
          io_bind (lift_act (sftpStat v p)) (\<lambda>stats.
          io_bind (if is_dir_mode (or_default 0 (fa_mode stats)) then sftpRmdirRecursive depth v p
                   else lift_act (sftpUnlink v p)) (\<lambda>_.
          io_bind (lift_act (report FileDelete)) (\<lambda>_. io_ret True)))))"
      unfolding ctx [OF s]
      by (intro reaches_decide_lifted [OF g] reaches_granted reaches reaches_execFallback reaches_rmdir)
        (auto simp: context_defs fs_reach_def)
  qed (rule reaches)
qed

end

text \<open>
  C5: whatever a file operation is asked for and whatever happens on the host meanwhile, it calls the
  host only if the policy permits the operation on the path that was asked for, and then only with
  that path: its temporary sibling, its parents or what is below it, over SFTP, or one of the fixed
  scripts with the path quoted where there is no SFTP. A request that is not permitted does not reach
  the host at all.
\<close>

theorem file_calls_permitted:
  assumes "sv_gate v = engine_gate env policy" and "enforcing v" and "fs_run depth v sid req t = (r, t')"
  shows "\<exists>calls. t' = t @ calls \<and>
    (\<forall>c \<in> set calls. reaches_host c \<longrightarrow> permitted env policy (fs_context req) \<and> fs_reach req c)"
  by (rule reaches_each [OF engine.fs_request_gated [OF assms(1,2)] assms(3)])

text \<open>A service on which everything is a file, under the demonstration policy.\<close>

definition file_mode :: file_attrs where
  "file_mode = \<lparr> fa_size = Some 4, fa_mtime = Some 0, fa_mode = Some 33188, fa_kind = KFile \<rparr>"

definition directory_mode :: file_attrs where
  "directory_mode = \<lparr> fa_size = Some 0, fa_mtime = Some 0, fa_mode = Some 16877, fa_kind = KDirectory \<rparr>"

definition demo_os :: os_info where
  "demo_os = \<lparr> os_platform = Linux, os_distro = ''debian'', os_version = ''12'', os_arch = ''x86_64'', os_shell = ''bash'',
     os_packageManager = ''apt'', os_init = ''systemd'', os_defaultShell = Some Bash, os_tempDir = Some ''/tmp'' \<rparr>"

definition demo_service :: service where
  "demo_service = \<lparr> sv_session = (\<lambda>_. Some \<lparr> vw_policyMode = Enforce, vw_sftp = True \<rparr>),
     sv_gate = engine_gate demo_env demo_config, sv_os = (\<lambda>_. Inr demo_os),
     sv_exec = (\<lambda>_. Inr \<lparr> xr_code = Some 0, xr_stdout = None, xr_stderr = None \<rparr>), sv_late = (\<lambda>_. False),
     sv_read = (\<lambda>_. Inr ''text''), sv_stat = (\<lambda>_. Inr file_mode), sv_readdir = (\<lambda>_. Inr []), sv_mkdir = (\<lambda>_. None),
     sv_done = (\<lambda>_. None), sv_uuid = (\<lambda>_. ''u''), sv_decode = (\<lambda>_ s. s), sv_elapsed = (\<lambda>_. 1), sv_now = (\<lambda>_. 0),
     sv_commandTimeoutMs = 1000, sv_maxCommandOutputBytes = 1000, sv_maxFileSize = 1000, sv_maxFileWriteBytes = 1000,
     sv_maxTransferBytes = 1000 \<rparr>"

lemma demo_service_gate: "sv_gate demo_service = engine_gate demo_env demo_config" "enforcing demo_service"
  by (simp_all add: demo_service_def enforcing_def)

lemma etc_not_permitted: "\<not> permitted demo_env demo_config (fs_context (FsReadFile ''/etc/passwd'' enc n))"
proof -
  have "\<not> remote_permitted demo_config (enforced_path FsRead ''/etc/passwd'')"
    unfolding remote_permitted_def demo_config_def enforced_path_def base_context_def by code_simp
  then show ?thesis by (simp add: permitted_def enforced_path_def base_context_def LOCAL_TRANSFER_ACTIONS_def)
qed

theorem file_calls_permitted_witness:
  "filter reaches_host (snd (fs_run 1 demo_service ''s'' (FsReadFile ''/etc/passwd'' ''utf8'' None) [])) = []"
  using file_calls_permitted [OF demo_service_gate surjective_pairing, of 1 "''s''" "FsReadFile ''/etc/passwd'' ''utf8'' None" "[]"]
    etc_not_permitted by (auto simp: filter_empty_conv)

subsection \<open>Writing\<close>

text \<open>
  Over SFTP the target is touched by the rename only, after all the data went to the temporary file;
  when anything fails the last call removes the temporary file.
\<close>

lemma write_over_sftp_outcome:
  assumes "write_over_sftp v p data mode t = (r, t')" and "temp = tempPathFor (sv_uuid v t) p"
  shows "case r of
      Inr _ \<Rightarrow> t' = t @ [RWriteFile temp data] @ (case mode of None \<Rightarrow> [] | Some m \<Rightarrow> [RChmod temp m]) @
                [RRename temp p, RMetric (FileWrite (byteLength data))]
    | Inl e \<Rightarrow> \<exists>calls. t' = t @ calls @ [RUnlink temp] \<and>
                 calls \<in> {[RWriteFile temp data]} \<union> (\<lambda>m. [RWriteFile temp data, RChmod temp m]) ` set_option mode \<union>
                   {[RWriteFile temp data] @ (case mode of None \<Rightarrow> [] | Some m \<Rightarrow> [RChmod temp m]) @ [RRename temp p]}"
proof -
  have "wp (write_over_sftp v p data mode)
     (\<lambda>_ t'. t' = t @ [RWriteFile temp data] @ (case mode of None \<Rightarrow> [] | Some m \<Rightarrow> [RChmod temp m]) @
                [RRename temp p, RMetric (FileWrite (byteLength data))])
     (\<lambda>e t'. \<exists>calls. t' = t @ calls @ [RUnlink temp] \<and>
                 calls \<in> {[RWriteFile temp data]} \<union> (\<lambda>m. [RWriteFile temp data, RChmod temp m]) ` set_option mode \<union>
                   {[RWriteFile temp data] @ (case mode of None \<Rightarrow> [] | Some m \<Rightarrow> [RChmod temp m]) @ [RRename temp p]}) t"
    unfolding assms(2)
    by (cases mode) (auto simp: write_over_sftp_def sftpWriteFile_def sftpChmod_def sftpRename_def sftpUnlink_def simple_call_def
        report_def io_wp split: option.splits sum.splits)
  from wp_result [OF this assms(1)] show ?thesis by simp
qed

subsection \<open>Listing\<close>

text \<open>The pages of a listing, one after the other, are the listing; a page has a successor as long as entries are left.\<close>

lemma pages_cover_listing:
  "concat (map (\<lambda>p. dl_entries (paginate es (Some p) limit)) [0..<n]) = take (n * limit) es"
proof (induction n)
  case (Suc n)
  moreover have "take (Suc n * limit) es = take (n * limit) es @ take limit (drop (n * limit) es)"
    using take_add [of "n * limit" limit es] by (simp add: add.commute)
  ultimately show ?case by (simp add: paginate_def Let_def del: mult_Suc)
qed simp

lemma page_has_next: "dl_nextToken (paginate es (Some p) limit) \<noteq> None \<longleftrightarrow> Suc p * limit < length es"
  by (simp add: paginate_def Let_def add.commute)

subsection \<open>Removing\<close>

text \<open>No directory is nested deeper than \<open>n\<close> below \<open>p\<close>, whenever the server lists it.\<close>

fun nested_within :: "service \<Rightarrow> nat \<Rightarrow> string \<Rightarrow> bool" where
  "nested_within v 0 p = False"
| "nested_within v (Suc n) p =
     (\<forall>h es. sv_readdir v (h @ [RReaddir p]) = Inr es \<longrightarrow>
        (\<forall>e \<in> set es. is_dir_mode (or_default 0 (fa_mode (snd e))) \<longrightarrow> nested_within v n (p @ ''/'' @ fst e)))"

definition in_bounds :: "(remote_op, thrown option, 'a) proc \<Rightarrow> bool" where
  "in_bounds m \<longleftrightarrow> (\<forall>t. fst (m t) \<noteq> Inl None)"

lemma in_bounds_simps [simp]: "in_bounds (io_ret x)" "in_bounds (lift_act m)"
  by (auto simp: in_bounds_def io_ret_def lift_act_def io_rethrow_def io_catch_def io_throw_def split: prod.splits sum.splits)

lemma in_bounds_bind:
  assumes "in_bounds m" and "\<And>t x t'. m t = (Inr x, t') \<Longrightarrow> in_bounds (f x)"
  shows "in_bounds (io_bind m f)"
  unfolding in_bounds_def
proof
  fix t
  obtain r u where m: "m t = (r, u)" by (cases "m t")
  show "fst (io_bind m f t) \<noteq> Inl None"
  proof (cases r)
    case (Inl e)
    moreover have "fst (m t) \<noteq> Inl None" using assms(1) by (simp add: in_bounds_def)
    ultimately show ?thesis using m by (simp add: io_bind_def)
  next
    case (Inr x)
    then have "in_bounds (f x)" using m assms(2) by simp
    with m Inr show ?thesis by (simp add: io_bind_def in_bounds_def)
  qed
qed

lemma in_bounds_rethrow:
  assumes "in_bounds m"
  shows "in_bounds (io_rethrow (map_option g) m)"
  unfolding in_bounds_def
proof
  fix t
  obtain r u where m: "m t = (r, u)" by (cases "m t")
  moreover have "fst (m t) \<noteq> Inl None" using assms by (simp add: in_bounds_def)
  ultimately show "fst (io_rethrow (map_option g) m t) \<noteq> Inl None"
    by (cases r) (auto simp: io_rethrow_def io_catch_def io_throw_def)
qed

lemma in_bounds_for_each: "(\<And>x. x \<in> set xs \<Longrightarrow> in_bounds (f x)) \<Longrightarrow> in_bounds (for_each f xs)"
  by (induction xs) (auto intro: in_bounds_bind)

lemma rmdir_in_bounds: "nested_within v n p \<Longrightarrow> n \<le> depth \<Longrightarrow> in_bounds (sftpRmdirRecursive depth v p)"
proof (induction depth arbitrary: n p)
  case (Suc depth)
  then obtain m where n: "n = Suc m" by (cases n) auto
  have entry: "in_bounds (case x of (filename, attrs) \<Rightarrow>
        if is_dir_mode (or_default 0 (fa_mode attrs)) then sftpRmdirRecursive depth v (p @ ''/'' @ filename)
        else lift_act (sftpUnlink v (p @ ''/'' @ filename)))"
    if "sv_readdir v (h @ [RReaddir p]) = Inr es" "x \<in> set es" for h es x
    using Suc.IH [of m] Suc.prems that by (cases x) (force simp: n)
  show ?case
    unfolding sftpRmdirRecursive.simps Let_def
  proof (rule in_bounds_bind)
    fix t es t'
    assume "lift_act (sftpReaddir v p) t = (Inr es, t')"
    then have "sv_readdir v (t @ [RReaddir p]) = Inr es"
      by (auto dest!: lift_act_result simp: sftpReaddir_def io_act_def)
    with entry show "in_bounds (io_bind (for_each (\<lambda>(filename, attrs).
          if is_dir_mode (or_default 0 (fa_mode attrs)) then sftpRmdirRecursive depth v (p @ ''/'' @ filename)
          else lift_act (sftpUnlink v (p @ ''/'' @ filename))) es) (\<lambda>_. lift_act (sftpRmdir v p)))"
      by (intro in_bounds_bind in_bounds_for_each) auto
  qed simp
qed simp

text \<open>
  C39: the recursive removal over SFTP ends: if the server never lists directories nested deeper than
  \<open>n\<close>, a bound of \<open>n\<close> on the recursion is never reached, so the code's recursion without bound returns
  with success or an error of the host.
\<close>

theorem removal_terminates:
  assumes "nested_within v n p" and "n \<le> depth"
  shows "fst (removeRecursive depth v sid p t) \<noteq> Inl None"
proof -
  have "in_bounds (if is_dir_mode m then sftpRmdirRecursive depth v p else lift_act (sftpUnlink v p))" for m
    using rmdir_in_bounds [OF assms] by simp
  then have "in_bounds (removeRecursive depth v sid p)"
    unfolding removeRecursive_def by (auto intro!: in_bounds_bind in_bounds_rethrow)
  then show ?thesis by (simp add: in_bounds_def)
qed

theorem removal_terminates_witness:
  "fst (removeRecursive 5 demo_service ''s'' ''/tmp/x'' []) \<noteq> Inl None"
proof (rule removal_terminates)
  show "nested_within demo_service 1 ''/tmp/x''" by (simp add: demo_service_def)
qed simp

end
