(* ===== verification/ProcessService.thy ===== *)
theory ProcessService
  imports RemoteHost
begin

section \<open>Commands: \<open>src/process.ts\<close> and \<open>src/streaming.ts\<close>\<close>

text \<open>
  Commands on the host of a session, with and without sudo and with streamed output. Every
  operation looks the session up, asks the policy, detects the system, builds the command line and
  runs it within a time limit; in explain mode it stops after the policy. Log lines are left out.
\<close>

record exec_result =
  er_code :: int
  er_stdout :: string
  er_stderr :: string
  er_durationMs :: int

definition truncation_marker :: "int \<Rightarrow> string" where
  "truncation_marker maxBytes =
     [LF] @ ''[ssh-mcp-pro: output truncated after '' @ show_int maxBytes @ '' bytes]'' @ [LF]"

definition truncateText :: "string \<Rightarrow> int \<Rightarrow> string" where
  "truncateText v maxBytes =
     (if byteLength v \<le> maxBytes then v
      else let marker = truncation_marker maxBytes;
               budget = max 0 (maxBytes - byteLength marker)
        in take_bytes budget v @ marker)"

text \<open>The race against the time limit: the command may go on, its outcome is no longer read.\<close>

definition execWithTimeout :: "service \<Rightarrow> string \<Rightarrow> int \<Rightarrow> string \<Rightarrow> exec_raw act" where
  "execWithTimeout v command timeoutMs label =
     io_act (RExec command) (\<lambda>t.
       if sv_late v t then
         Inl (MCPError (createTimeoutError (label @ '' timed out after '' @ show_int timeoutMs @ ''ms'')
           (Some ''Increase timeout or optimize the command'')))
       else sv_exec v t)"

definition isSudoAuthenticationFailure :: "exec_raw \<Rightarrow> bool" where
  "isSudoAuthenticationFailure result \<longleftrightarrow>
     or_default 0 (xr_code result) \<noteq> 0 \<and> truthy (xr_stderr result) \<and>
     (let stderrLower = to_lower (the (xr_stderr result))
      in str_includes stderrLower ''password'' \<or> str_includes stderrLower ''authentication'' \<or>
         str_includes stderrLower ''sorry'')"

definition command_result :: "service \<Rightarrow> exec_raw \<Rightarrow> exec_result act" where
  "command_result v result = observe (\<lambda>t.
     \<lparr> er_code = or_default 0 (xr_code result),
       er_stdout = truncateText (or_default [] (xr_stdout result)) (sv_maxCommandOutputBytes v),
       er_stderr = truncateText (or_default [] (xr_stderr result)) (sv_maxCommandOutputBytes v),
       er_durationMs = sv_elapsed v t \<rparr>)"

definition is_timeout :: "thrown \<Rightarrow> bool" where
  "is_timeout e = (case e of MCPError m \<Rightarrow> err_code m = ETIMEOUT | _ \<Rightarrow> False)"

definition explained :: "json \<Rightarrow> exec_result" where
  "explained v = \<lparr> er_code = 0, er_stdout = pretty 0 v, er_stderr = [], er_durationMs = 0 \<rparr>"

subsection \<open>\<open>execCommand\<close>\<close>

text \<open>The body of the \<open>try\<close>: build, run, bound the output, and read a time-out from the exit code.\<close>

definition run_bounded :: "service \<Rightarrow> os_info \<Rightarrow> string \<Rightarrow> int \<Rightarrow> string option \<Rightarrow> env_record option \<Rightarrow> exec_result act" where
  "run_bounded v os command effectiveTimeoutMs cwd env =
     io_bind (of_res (buildRemoteCommandWithTimeout command os effectiveTimeoutMs cwd env)) (\<lambda>shellCommand.
     io_bind (execWithTimeout v shellCommand effectiveTimeoutMs ''Command'') (\<lambda>result.
     io_bind (command_result v result) (\<lambda>execResult.
     if er_code execResult \<in> {124, 137, 143} then
       io_throw (MCPError (createTimeoutError
         (''Command timed out after '' @ show_int effectiveTimeoutMs @ ''ms and remote termination was requested'')
         (Some ''Increase timeout or optimize the command'')))
     else io_ret execResult)))"

definition execCommand ::
    "service \<Rightarrow> string \<Rightarrow> string \<Rightarrow> string option \<Rightarrow> env_record option \<Rightarrow> int option \<Rightarrow> exec_result act" where
  "execCommand v sessionId command cwd env timeoutMs =
     io_bind (require_session v sessionId) (\<lambda>session.
     io_bind (decide v ((base_context ProcExec (vw_policyMode session))\<lparr> px_command := Some command \<rparr>)) (\<lambda>decision.
     if pd_mode decision = Explain then
       io_ret (explained (JObj [(''wouldExecute'', JBool True), (''command'', JStr command), (''policy'', decision_json decision)]))
     else
       io_bind (detect v) (\<lambda>os.
       io_rethrow (\<lambda>e. if is_timeout e then e
                        else MCPError (wrapError e ECONN (Some ''Failed to execute command on remote system'')))
         (run_bounded v os command (or_default (sv_commandTimeoutMs v) timeoutMs) cwd env))))"

subsection \<open>\<open>execSudo\<close>\<close>

record sudo_policy_options =
  sp_policyAction :: "policy_action option"
  sp_rawSudo :: "bool option"
  sp_path :: "string option"
  sp_destructive :: "bool option"

definition no_sudo_options :: sudo_policy_options where
  "no_sudo_options = \<lparr> sp_policyAction = None, sp_rawSudo = None, sp_path = None, sp_destructive = None \<rparr>"

definition sudo_context :: "policy_mode \<Rightarrow> string \<Rightarrow> sudo_policy_options \<Rightarrow> policy_context" where
  "sudo_context mode command options =
     (base_context (or_default ProcSudo (sp_policyAction options)) mode)
       \<lparr> px_command := Some command, px_rawSudo := or_default True (sp_rawSudo options),
         px_path := (if truthy (sp_path options) then sp_path options else None),
         px_destructive := or_default False (sp_destructive options) \<rparr>"

text \<open>An error is kept as it is when it is a time-out or an \<open>Error\<close> whose message mentions sudo.\<close>

definition sudo_error :: "thrown \<Rightarrow> thrown" where
  "sudo_error e =
     (if is_timeout e then e
      else if (case e of MCPError m \<Rightarrow> str_includes (err_message m) ''sudo''
               | JSError m \<Rightarrow> str_includes m ''sudo'' | Thrown _ \<Rightarrow> False) then e
      else MCPError (wrapError e ENOSUDO (Some ''Failed to execute sudo command on remote system'')))"

definition run_sudo :: "service \<Rightarrow> os_info \<Rightarrow> string \<Rightarrow> string option \<Rightarrow> string option \<Rightarrow> int \<Rightarrow> exec_result act" where
  "run_sudo v os command password cwd effectiveTimeoutMs =
     (if password \<noteq> None then
        io_throw (MCPError (createSudoError ''Password-based sudo through MCP inputs is disabled''
          (Some ''Configure a restricted NOPASSWD sudoers allowlist for approved commands.'')))
      else
        io_bind (of_res (buildSudoCommand command os cwd)) (\<lambda>fullCommand.
        io_bind (execWithTimeout v fullCommand effectiveTimeoutMs ''Sudo command'') (\<lambda>result.
        if isSudoAuthenticationFailure result then
          io_throw (MCPError (createSudoError ''Sudo authentication failed''
            (Some ''Configure a restricted NOPASSWD sudoers profile for approved commands.'')))
        else command_result v result)))"

definition execSudo ::
    "service \<Rightarrow> string \<Rightarrow> string \<Rightarrow> string option \<Rightarrow> string option \<Rightarrow> int option \<Rightarrow> sudo_policy_options \<Rightarrow> exec_result act" where
  "execSudo v sessionId command password cwd timeoutMs options =
     io_bind (require_session v sessionId) (\<lambda>session.
     io_bind (decide v (sudo_context (vw_policyMode session) command options)) (\<lambda>decision.
     if pd_mode decision = Explain then
       io_ret (explained (JObj [(''wouldExecute'', JBool True), (''command'', JStr command), (''sudo'', JBool True),
         (''policy'', decision_json decision)]))
     else
       io_bind (detect v) (\<lambda>os.
       if os_platform os = Windows then
         io_throw (MCPError (createSudoError ''Sudo is not supported on Windows hosts''
           (Some ''Use an elevated session instead of sudo commands'')))
       else io_rethrow sudo_error (run_sudo v os command password cwd (or_default (sv_commandTimeoutMs v) timeoutMs)))))"

subsection \<open>Derived operations\<close>

definition commandExists :: "service \<Rightarrow> string \<Rightarrow> string \<Rightarrow> bool act" where
  "commandExists v sessionId command =
     io_catch
       (io_bind (execCommand v sessionId (''which '' @ command) None None None) (\<lambda>r. io_ret (er_code r = 0)))
       (\<lambda>_. io_ret False)"

fun first_available :: "service \<Rightarrow> string \<Rightarrow> string list \<Rightarrow> string act" where
  "first_available v sessionId [] = io_ret ''sh''"
| "first_available v sessionId (shell # shells) =
     io_bind (commandExists v sessionId shell) (\<lambda>found.
     if found then io_ret shell else first_available v sessionId shells)"

definition getAvailableShell :: "service \<Rightarrow> string \<Rightarrow> string act" where
  "getAvailableShell v sessionId = first_available v sessionId [''bash'', ''zsh'', ''sh'']"

definition shell_line :: "string \<Rightarrow> string option \<Rightarrow> env_record option \<Rightarrow> string" where
  "shell_line command cwd env =
     (let withEnv = (case env of
            Some (e # es) \<Rightarrow> join '' '' (map (\<lambda>(k, x). k @ ''='' @ json_string x) (e # es)) @ '' '' @ command
          | _ \<Rightarrow> command)
      in if truthy cwd then ''cd '' @ json_string (the cwd) @ '' && '' @ withEnv else withEnv)"

definition execWithShell :: "service \<Rightarrow> string \<Rightarrow> string \<Rightarrow> string option \<Rightarrow> env_record option \<Rightarrow> exec_result act" where
  "execWithShell v sessionId command cwd env =
     io_bind (getAvailableShell v sessionId) (\<lambda>shell.
     execCommand v sessionId (shell @ '' -lc '' @ json_string (shell_line command cwd env)) None None None)"

subsection \<open>Streaming\<close>

datatype chunk_type = ChStdout | ChStderr | ChExit | ChTruncated

record stream_chunk =
  sc_type :: chunk_type
  sc_data :: "string option"
  sc_code :: "int option"

text \<open>Time stamps of chunks are left out.\<close>

record stream_state =
  ss_chunks :: "stream_chunk list"
  ss_stdout :: string
  ss_stderr :: string
  ss_truncated :: bool

definition appendBounded :: "string \<Rightarrow> string \<Rightarrow> int \<Rightarrow> string \<times> bool" where
  "appendBounded current data maxBytes =
     (let remaining = maxBytes - byteLength current in
      if remaining \<le> 0 then (current, data \<noteq> [])
      else if byteLength data \<le> remaining then (current @ data, False)
      else (current @ take_bytes remaining data, True))"

text \<open>The two callbacks; \<open>onErr\<close> selects the one of the error stream.\<close>

definition stream_data :: "int \<Rightarrow> nat \<Rightarrow> bool \<Rightarrow> string \<Rightarrow> stream_state \<Rightarrow> stream_state" where
  "stream_data maxBytes maxChunks onErr data st =
     (let (text, cut) = appendBounded (if onErr then ss_stderr st else ss_stdout st) data maxBytes;
          st1 = (if onErr then st\<lparr> ss_stderr := text \<rparr> else st\<lparr> ss_stdout := text \<rparr>);
          full = length (ss_chunks st) \<ge> maxChunks;
          st2 = st1\<lparr> ss_truncated := ss_truncated st \<or> cut \<or> full \<rparr>
      in if \<not> full \<and> \<not> cut then
           st2\<lparr> ss_chunks := ss_chunks st @ [\<lparr> sc_type = if onErr then ChStderr else ChStdout, sc_data = Some data, sc_code = None \<rparr>] \<rparr>
         else st2)"

definition stream_end :: "int option \<Rightarrow> stream_state \<Rightarrow> stream_chunk list" where
  "stream_end code st =
     ss_chunks st @
     (if ss_truncated st then [\<lparr> sc_type = ChTruncated, sc_data = Some ''Output exceeded configured streaming limits'', sc_code = None \<rparr>] else []) @
     [\<lparr> sc_type = ChExit, sc_data = None, sc_code = Some (or_default 0 code) \<rparr>]"

definition empty_stream :: stream_state where
  "empty_stream = \<lparr> ss_chunks = [], ss_stdout = [], ss_stderr = [], ss_truncated = False \<rparr>"

text \<open>The stream a command produced: its data, in the order of the callbacks, and how it ended.\<close>

definition collect_stream :: "int \<Rightarrow> nat \<Rightarrow> (bool \<times> string) list \<Rightarrow> stream_state" where
  "collect_stream maxBytes maxChunks data = fold (\<lambda>(onErr, d). stream_data maxBytes maxChunks onErr d) data empty_stream"

record stream_result =
  sr_code :: int
  sr_chunks :: "stream_chunk list"
  sr_stdout :: string
  sr_stderr :: string
  sr_durationMs :: int
  sr_truncated :: bool

definition stream_result_of :: "service \<Rightarrow> nat \<Rightarrow> (bool \<times> string) list \<Rightarrow> exec_raw \<Rightarrow> stream_result act" where
  "stream_result_of v maxChunks data result = observe (\<lambda>t.
     let st = collect_stream (sv_maxCommandOutputBytes v) maxChunks data in
     \<lparr> sr_code = or_default 0 (xr_code result), sr_chunks = stream_end (xr_code result) st, sr_stdout = ss_stdout st,
       sr_stderr = ss_stderr st, sr_durationMs = sv_elapsed v t, sr_truncated = ss_truncated st \<rparr>)"

definition stream_timeout :: "int \<Rightarrow> thrown" where
  "stream_timeout timeoutMs = MCPError (createTimeoutError
     (''Streaming command timed out after '' @ show_int timeoutMs @ ''ms'')
     (Some ''Increase timeout or use a shorter streaming command.''))"

definition execWithStreaming ::
    "service \<Rightarrow> nat \<Rightarrow> (rhistory \<Rightarrow> (bool \<times> string) list) \<Rightarrow> string \<Rightarrow> string \<Rightarrow> string option \<Rightarrow>
     env_record option \<Rightarrow> int option \<Rightarrow> stream_result act" where
  "execWithStreaming v maxChunks streamed sessionId command cwd env timeoutMs =
     io_bind (require_session v sessionId) (\<lambda>session.
     io_bind (decide v ((base_context ProcExec (vw_policyMode session))\<lparr> px_command := Some command \<rparr>)) (\<lambda>decision.
     if pd_mode decision = Explain then
       io_ret \<lparr> sr_code = 0, sr_chunks = [],
         sr_stdout = pretty 0 (JObj [(''wouldExecute'', JBool True), (''command'', JStr command), (''policy'', decision_json decision)]),
         sr_stderr = [], sr_durationMs = 0, sr_truncated = False \<rparr>
     else
       io_bind (detect v) (\<lambda>os.
       io_bind (of_res (buildRemoteCommand command os cwd env)) (\<lambda>shellCommand.
       io_bind (observe streamed) (\<lambda>data.
       io_bind (io_act (RExec shellCommand) (\<lambda>t.
           if sv_late v t then Inl (stream_timeout (or_default (sv_commandTimeoutMs v) timeoutMs)) else sv_exec v t)) (\<lambda>result.
       stream_result_of v maxChunks data result))))))"

definition formatStreamOutput :: "stream_chunk list \<Rightarrow> string" where
  "formatStreamOutput chunks =
     concat (List.map_filter (\<lambda>c. if sc_type c \<noteq> ChExit \<and> sc_type c \<noteq> ChTruncated \<and> truthy (sc_data c)
                                then sc_data c else None) chunks)"

end
