(* ===== verification/ProcessProps.thy ===== *)
theory ProcessProps
  imports FsProps ProcessService
begin

section \<open>Properties of commands\<close>

text \<open>
  Running a command, running it by sudo and streaming it ask the policy for the command first; nothing
  else reaches the host. A command that returns has a bounded output and was not timed out.
\<close>

subsection \<open>Requests\<close>

datatype proc_request =
    ProcCommand string "string option" "env_record option" "int option"
  | ProcElevated string "string option" "string option" "int option" sudo_policy_options
  | ProcStream string "string option" "env_record option" "int option"

fun proc_run :: "service \<Rightarrow> nat \<Rightarrow> (rhistory \<Rightarrow> (bool \<times> string) list) \<Rightarrow> string \<Rightarrow> proc_request \<Rightarrow> unit act" where
  "proc_run v maxChunks streamed sid (ProcCommand command cwd env limit) =
     io_bind (execCommand v sid command cwd env limit) (\<lambda>_. io_ret ())"
| "proc_run v maxChunks streamed sid (ProcElevated command password cwd limit options) =
     io_bind (execSudo v sid command password cwd limit options) (\<lambda>_. io_ret ())"
| "proc_run v maxChunks streamed sid (ProcStream command cwd env limit) =
     io_bind (execWithStreaming v maxChunks streamed sid command cwd env limit) (\<lambda>_. io_ret ())"

text \<open>
  What the policy has to be asked in enforce mode, field by field and apart from the code that asks: the
  action, the command as it will be run, the path it is about, whether it is an arbitrary elevated
  command, and whether it destroys something.
\<close>

definition command_question :: "policy_action \<Rightarrow> string \<Rightarrow> string option \<Rightarrow> bool \<Rightarrow> bool \<Rightarrow> policy_context" where
  "command_question action command path raw destructive =
     \<lparr> px_action = action, px_host = None, px_username = None, px_command = Some command, px_path = path,
       px_secondaryPath = None, px_localBindHost = None, px_localPort = None, px_remoteHost = None,
       px_remotePort = None, px_mode = Some Enforce, px_rawSudo = raw, px_destructive = destructive \<rparr>"

text \<open>An elevated command is raw, and harmless, unless its caller says otherwise; an empty path is none.\<close>

fun proc_context :: "proc_request \<Rightarrow> policy_context" where
  "proc_context (ProcCommand command cwd env limit) = command_question ProcExec command None False False"
| "proc_context (ProcElevated command password cwd limit options) =
     command_question (case sp_policyAction options of None \<Rightarrow> ProcSudo | Some action \<Rightarrow> action) command
       (if sp_path options = Some [] then None else sp_path options)
       (sp_rawSudo options \<noteq> Some False) (sp_destructive options = Some True)"
| "proc_context (ProcStream command cwd env limit) = command_question ProcExec command None False False"

text \<open>The command lines a request may run, on a host detected as \<open>os\<close>.\<close>

fun proc_line :: "service \<Rightarrow> proc_request \<Rightarrow> os_info \<Rightarrow> string \<Rightarrow> bool" where
  "proc_line v (ProcCommand command cwd env limit) os line \<longleftrightarrow>
     buildRemoteCommandWithTimeout command os (or_default (sv_commandTimeoutMs v) limit) cwd env = Inr line"
| "proc_line v (ProcElevated command password cwd limit options) os line \<longleftrightarrow>
     password = None \<and> os_platform os \<noteq> Windows \<and> buildSudoCommand command os cwd = Inr line"
| "proc_line v (ProcStream command cwd env limit) os line \<longleftrightarrow> buildRemoteCommand command os cwd env = Inr line"

definition proc_reach :: "service \<Rightarrow> proc_request \<Rightarrow> remote_op \<Rightarrow> bool" where
  "proc_reach v req c \<longleftrightarrow> (\<exists>os line h. c = RExec line \<and> sv_os v h = Inr os \<and> proc_line v req os line)"

subsection \<open>Where the lines come from\<close>

lemma reaches_built: "(\<And>x. r = Inr x \<Longrightarrow> reaches_only P (f x)) \<Longrightarrow> reaches_only P (io_bind (of_res r) f)"
  by (rule reaches_bind_result) (auto simp: of_res_def intro: reaches)

lemma reaches_detected: "(\<And>os h. sv_os v h = Inr os \<Longrightarrow> reaches_only P (f os)) \<Longrightarrow> reaches_only P (io_bind (detect v) f)"
  by (rule reaches_bind_result) (auto simp: detect_def io_act_def intro: reaches reaches_act)

lemma reaches_execWithTimeout [reaches]: "P (RExec line) \<Longrightarrow> reaches_only P (execWithTimeout v line limit label)"
  unfolding execWithTimeout_def by (rule reaches_act)

lemma reaches_command_result [reaches]: "reaches_only P (command_result v r)" "reaches_only P (stream_result_of v n data r)"
  unfolding command_result_def stream_result_of_def by (rule reaches)+

lemma reaches_run_bounded:
  "sv_os v h = Inr os \<Longrightarrow>
   reaches_only (proc_reach v (ProcCommand command cwd env limit))
     (run_bounded v os command (or_default (sv_commandTimeoutMs v) limit) cwd env)"
  unfolding run_bounded_def by (intro reaches_built reaches) (auto simp: proc_reach_def)

lemma reaches_run_sudo:
  "sv_os v h = Inr os \<Longrightarrow> os_platform os \<noteq> Windows \<Longrightarrow>
   reaches_only (proc_reach v (ProcElevated command password cwd limit options)) (run_sudo v os command password cwd n)"
  unfolding run_sudo_def by (intro reaches_built reaches) (auto simp: proc_reach_def)

lemma command_asked:
  "(base_context ProcExec Enforce)\<lparr> px_command := Some command \<rparr> = command_question ProcExec command None False False"
  by (simp add: base_context_def command_question_def)

lemma sudo_asked:
  "sudo_context Enforce command options = proc_context (ProcElevated command password cwd limit options)"
  by (cases "sp_policyAction options"; cases "sp_rawSudo options"; cases "sp_path options"; cases "sp_destructive options")
    (simp_all add: sudo_context_def base_context_def command_question_def truthy_def)

context policy_gate
begin

lemma reaches_gated:
  assumes "sv_gate v = gate" and "enforcing v" and "px_mode ctx0 = Some Enforce"
    and "\<And>s. vw_policyMode s = Enforce \<Longrightarrow> ctx s = ctx0" and "\<And>s d. reaches_only P (f s d)"
  shows "reaches_only (\<lambda>c. permits ctx0 \<and> P c) (io_bind (require_session v sid) (\<lambda>s. io_bind (decide v (ctx s)) (f s)))"
proof (rule reaches_session [OF assms(2)])
  show "reaches_only (\<lambda>c. permits ctx0 \<and> P c) (io_bind (decide v (ctx s)) (f s))" if "vw_policyMode s = Enforce" for s
    unfolding assms(4) [OF that] by (intro reaches_decide [OF assms(1,3)] reaches_granted assms(5))
qed

lemma command_gated:
  assumes "sv_gate v = gate" and "enforcing v"
  shows "reaches_only (\<lambda>c. permits (proc_context (ProcCommand command cwd env limit)) \<and> proc_reach v (ProcCommand command cwd env limit) c)
    (execCommand v sid command cwd env limit)"
  unfolding execCommand_def
  by (intro reaches_gated [OF assms] reaches_detected reaches reaches_run_bounded)
    (simp_all add: command_asked command_question_def)

lemma sudo_gated:
  assumes "sv_gate v = gate" and "enforcing v"
  shows "reaches_only (\<lambda>c. permits (proc_context (ProcElevated command password cwd limit options)) \<and>
      proc_reach v (ProcElevated command password cwd limit options) c)
    (execSudo v sid command password cwd limit options)"
proof -
  have mode: "px_mode (proc_context (ProcElevated command password cwd limit options)) = Some Enforce"
    by (simp add: command_question_def)
  show ?thesis
    unfolding execSudo_def
    by (intro reaches_gated [OF assms mode] reaches_detected reaches reaches_run_sudo)
      (simp_all add: sudo_asked [of command options password cwd limit] del: proc_context.simps)
qed

lemma stream_gated:
  assumes "sv_gate v = gate" and "enforcing v"
  shows "reaches_only (\<lambda>c. permits (proc_context (ProcStream command cwd env limit)) \<and> proc_reach v (ProcStream command cwd env limit) c)
    (execWithStreaming v maxChunks streamed sid command cwd env limit)"
  unfolding execWithStreaming_def
  by (intro reaches_gated [OF assms] reaches_detected reaches_built reaches)
    (auto simp: command_asked command_question_def proc_reach_def)

lemma proc_request_gated:
  assumes "sv_gate v = gate" and "enforcing v"
  shows "reaches_only (\<lambda>c. permits (proc_context req) \<and> proc_reach v req c) (proc_run v maxChunks streamed sid req)"
  by (cases req) (simp_all add: reaches_bind reaches_basic command_gated [OF assms] sudo_gated [OF assms] stream_gated [OF assms]
      del: proc_context.simps)

end

text \<open>
  C4: whatever command is asked for, plain, elevated or streamed, and whatever happens meanwhile, the
  host is reached only if the policy permits the command in the way it is to be run (the command itself,
  its action, its path, and whether it is raw or destructive, all of them in the question), and then only
  by command lines built from it for the operating system that was detected; an elevated command with a
  password, or for a Windows host, does not run at all.
\<close>

theorem commands_permitted:
  assumes "sv_gate v = engine_gate env policy" and "enforcing v" and "proc_run v maxChunks streamed sid req t = (r, t')"
  shows "\<exists>calls. t' = t @ calls \<and>
    (\<forall>c \<in> set calls. reaches_host c \<longrightarrow> permitted env policy (proc_context req) \<and> proc_reach v req c)"
  by (rule reaches_each [OF engine.proc_request_gated [OF assms(1,2)] assms(3)])

theorem commands_permitted_witness:
  "filter reaches_host (snd (proc_run demo_service 10 (\<lambda>_. []) ''s'' (ProcElevated ''id'' None None None no_sudo_options) [])) = []"
proof -
  have "\<not> permitted demo_env demo_config (proc_context (ProcElevated ''id'' None None None no_sudo_options))"
    by (simp add: permitted_def command_question_def no_sudo_options_def demo_config_def)
  then show ?thesis
    using commands_permitted [OF demo_service_gate surjective_pairing, of 10 "\<lambda>_. []" "''s''"
        "ProcElevated ''id'' None None None no_sudo_options" "[]"] by (auto simp: filter_empty_conv)
qed

subsection \<open>Output\<close>

lemma truncateText_bound: "byteLength (truncateText s n) \<le> max n (byteLength (truncation_marker n))"
  using take_bytes_bound [of "max 0 (n - byteLength (truncation_marker n))" s] by (auto simp: truncateText_def Let_def)

lemma truncateText_same: "byteLength s \<le> n \<Longrightarrow> truncateText s n = s"
  by (simp add: truncateText_def)

text \<open>A command that returns in enforce mode ran once; a result stands for an exit in time.\<close>

lemma run_bounded_returns:
  "wp (run_bounded v os command limit cwd env)
     (\<lambda>r t'. \<exists>line. t' = t @ [RExec line] \<and> buildRemoteCommandWithTimeout command os limit cwd env = Inr line \<and>
        er_code r \<notin> {124, 137, 143} \<and>
        byteLength (er_stdout r) \<le> max (sv_maxCommandOutputBytes v) (byteLength (truncation_marker (sv_maxCommandOutputBytes v))) \<and>
        byteLength (er_stderr r) \<le> max (sv_maxCommandOutputBytes v) (byteLength (truncation_marker (sv_maxCommandOutputBytes v))))
     (\<lambda>e t'. t' = t \<or> (\<exists>line. t' = t @ [RExec line])) t"
  by (auto simp: run_bounded_def execWithTimeout_def command_result_def io_wp truncateText_bound split: sum.splits)

text \<open>The stream keeps each side within the limit, and at most the configured number of data chunks.\<close>

lemma appendBounded_bound: "byteLength s \<le> n \<Longrightarrow> byteLength (fst (appendBounded s d n)) \<le> n"
  using take_bytes_bound [of "n - byteLength s" d] by (auto simp: appendBounded_def Let_def)

definition stream_bounded :: "int \<Rightarrow> nat \<Rightarrow> stream_state \<Rightarrow> bool" where
  "stream_bounded maxBytes maxChunks st \<longleftrightarrow>
     byteLength (ss_stdout st) \<le> maxBytes \<and> byteLength (ss_stderr st) \<le> maxBytes \<and> length (ss_chunks st) \<le> maxChunks"

lemma stream_data_bounded: "stream_bounded n k st \<Longrightarrow> stream_bounded n k (stream_data n k onErr d st)"
  using appendBounded_bound [of "ss_stdout st" n d] appendBounded_bound [of "ss_stderr st" n d]
  by (auto simp: stream_bounded_def stream_data_def Let_def split: prod.splits)

lemma collect_stream_bounded:
  assumes "0 \<le> n"
  shows "stream_bounded n k (collect_stream n k data)"
proof -
  have "stream_bounded n k st \<Longrightarrow> stream_bounded n k (fold (\<lambda>(onErr, d). stream_data n k onErr d) data st)" for st
    by (induction data arbitrary: st) (auto intro: stream_data_bounded)
  moreover have "stream_bounded n k empty_stream" using assms by (simp add: stream_bounded_def empty_stream_def)
  ultimately show ?thesis by (simp add: collect_stream_def)
qed

text \<open>
  As long as nothing was cut, the chunks say what was collected: the data of the chunks of a side,
  one after the other, is the text of that side.
\<close>

definition chunk_text :: "chunk_type \<Rightarrow> stream_chunk list \<Rightarrow> string" where
  "chunk_text k chunks = concat (map (\<lambda>c. or_default [] (sc_data c)) (filter (\<lambda>c. sc_type c = k) chunks))"

lemma collect_stream_snoc:
  "collect_stream n k (xs @ [(onErr, d)]) = stream_data n k onErr d (collect_stream n k xs)"
  by (simp add: collect_stream_def)

lemma stream_data_uncut:
  assumes "\<not> ss_truncated (stream_data n k onErr d st)"
  shows "\<not> ss_truncated st \<and>
    ss_chunks (stream_data n k onErr d st) =
      ss_chunks st @ [\<lparr> sc_type = if onErr then ChStderr else ChStdout, sc_data = Some d, sc_code = None \<rparr>] \<and>
    ss_stdout (stream_data n k onErr d st) = (if onErr then ss_stdout st else ss_stdout st @ d) \<and>
    ss_stderr (stream_data n k onErr d st) = (if onErr then ss_stderr st @ d else ss_stderr st)"
  using assms by (cases onErr) (auto simp: stream_data_def appendBounded_def Let_def split: if_splits)

lemma stream_faithful:
  "\<not> ss_truncated (collect_stream n k data) \<Longrightarrow>
     chunk_text ChStdout (ss_chunks (collect_stream n k data)) = ss_stdout (collect_stream n k data) \<and>
     chunk_text ChStderr (ss_chunks (collect_stream n k data)) = ss_stderr (collect_stream n k data) \<and>
     ss_stdout (collect_stream n k data) = concat (map snd (filter (\<lambda>(onErr, d). \<not> onErr) data)) \<and>
     ss_stderr (collect_stream n k data) = concat (map snd (filter (\<lambda>(onErr, d). onErr) data))"
proof (induction data rule: rev_induct)
  case Nil
  show ?case by (simp add: collect_stream_def empty_stream_def chunk_text_def)
next
  case (snoc x xs)
  obtain onErr d where x: "x = (onErr, d)" by (cases x)
  from stream_data_uncut [OF snoc.prems [unfolded x collect_stream_snoc]] snoc.IH show ?case
    unfolding x collect_stream_snoc by (cases onErr) (simp_all add: chunk_text_def)
qed

end
