(* ===== verification/TransferService.thy ===== *)
theory TransferService
  imports FsService
begin

section \<open>Transfers: \<open>src/transfer.ts\<close>\<close>

text \<open>
  Files copied between the server's own host and the host of a session. Both ends may change at any
  time; local paths are resolved (\<open>realpath\<close>) and then checked by the policy, and after the copy the
  two sides are compared by their digests. The progress callback and log lines are left out.
\<close>

text \<open>
  The server's host: answers to local calls, and whether it has the flag \<open>O_NOFOLLOW\<close>, with which a file
  is opened that is read for an upload. An error has a message and may be \<open>ENOENT\<close>.
\<close>

record local_error =
  le_missing :: bool
  le_message :: string

record local_host =
  lh_cwd :: string
  lh_nofollow :: bool
  lh_realpath :: "rhistory \<Rightarrow> local_error + string"
  lh_stat :: "rhistory \<Rightarrow> local_error + (bool \<times> int)"
  lh_read :: "rhistory \<Rightarrow> local_error + string"
  lh_done :: "rhistory \<Rightarrow> local_error option"

definition local_thrown :: "local_error \<Rightarrow> thrown" where
  "local_thrown e = JSError (le_message e)"

definition local_call :: "remote_op \<Rightarrow> (rhistory \<Rightarrow> local_error + 'a) \<Rightarrow> 'a act" where
  "local_call call answer = io_rethrow local_thrown (io_act call answer)"

definition local_done :: "local_host \<Rightarrow> remote_op \<Rightarrow> unit act" where
  "local_done l call = local_call call (\<lambda>t. case lh_done l t of Some e \<Rightarrow> Inl e | None \<Rightarrow> Inr ())"

definition fs_error :: "string \<Rightarrow> string option \<Rightarrow> thrown" where
  "fs_error message hint = MCPError (createFilesystemError message hint)"

definition validateLocalPathInput :: "string \<Rightarrow> thrown + unit" where
  "validateLocalPathInput localPath =
     (if trim localPath = [] then Inl (fs_error ''Local path must not be empty'' None)
      else if NUL \<in> set localPath then Inl (fs_error ''Local path contains NUL byte'' None)
      else Inr ())"

definition resolveAbsoluteLocalPath :: "local_host \<Rightarrow> string \<Rightarrow> thrown + string" where
  "resolveAbsoluteLocalPath l localPath =
     bind_res (validateLocalPathInput localPath) (\<lambda>_. Inr (posix_resolve (lh_cwd l) localPath))"

definition resolveLocalReadPath :: "local_host \<Rightarrow> string \<Rightarrow> string act" where
  "resolveLocalReadPath l localPath =
     io_bind (of_res (resolveAbsoluteLocalPath l localPath)) (\<lambda>absolutePath.
     io_rethrow (\<lambda>e. fs_error (''Local path '' @ localPath @ '' could not be resolved for reading'') (Some (le_message e)))
       (io_act (LRealpath absolutePath) (lh_realpath l)))"

record local_write_path =
  lw_absolutePath :: string
  lw_canonicalPath :: string
  lw_parentCanonicalPath :: string
  lw_action :: policy_action

definition resolveLocalWritePath :: "local_host \<Rightarrow> string \<Rightarrow> local_write_path act" where
  "resolveLocalWritePath l localPath =
     io_bind (of_res (resolveAbsoluteLocalPath l localPath)) (\<lambda>absolutePath.
     let parentPath = posix_dirname absolutePath in
     io_bind (io_rethrow (\<lambda>e. fs_error (''Local parent directory '' @ parentPath @ '' could not be resolved for writing'') (Some (le_message e)))
         (io_act (LRealpath parentPath) (lh_realpath l))) (\<lambda>parentCanonicalPath.
     io_catch
       (io_bind (io_act (LRealpath absolutePath) (lh_realpath l)) (\<lambda>targetCanonicalPath.
        io_ret \<lparr> lw_absolutePath = absolutePath, lw_canonicalPath = targetCanonicalPath,
                 lw_parentCanonicalPath = parentCanonicalPath, lw_action = TransferLocalOverwrite \<rparr>))
       (\<lambda>e. if \<not> le_missing e then
               io_throw (fs_error (''Local path '' @ localPath @ '' could not be resolved for writing'') (Some (le_message e)))
             else io_ret \<lparr> lw_absolutePath = absolutePath,
                 lw_canonicalPath = posix_join [parentCanonicalPath, posix_basename absolutePath],
                 lw_parentCanonicalPath = parentCanonicalPath, lw_action = TransferLocalCreate \<rparr>)))"

definition local_read_context :: "policy_mode \<Rightarrow> string \<Rightarrow> policy_context" where
  "local_read_context mode canonicalPath = (base_context TransferLocalRead mode)\<lparr> px_path := Some canonicalPath \<rparr>"

definition authorizeLocalReadPath :: "service \<Rightarrow> local_host \<Rightarrow> string \<Rightarrow> policy_mode \<Rightarrow> string act" where
  "authorizeLocalReadPath v l localPath mode =
     io_bind (resolveLocalReadPath l localPath) (\<lambda>canonicalPath.
     io_bind (decide v (local_read_context mode canonicalPath)) (\<lambda>_. io_ret canonicalPath))"

definition transfer_limit_error :: "int \<Rightarrow> thrown" where
  "transfer_limit_error limit = fs_error (''Transfer exceeds maxTransferBytes ('' @ show_int limit @ '')'')
     (Some ''Use a smaller file or raise SSH_MCP_MAX_TRANSFER_BYTES intentionally.'')"

text \<open>An error that is not one of ours is replaced, with its message as the hint.\<close>

definition keep_ours :: "(thrown \<Rightarrow> thrown) \<Rightarrow> thrown \<Rightarrow> thrown" where
  "keep_ours f e = (case e of MCPError _ \<Rightarrow> e | _ \<Rightarrow> f e)"

definition message_of :: "thrown \<Rightarrow> string option" where
  "message_of e = (case e of MCPError m \<Rightarrow> Some (err_message m) | JSError m \<Rightarrow> Some m | Thrown _ \<Rightarrow> None)"

definition read_handle :: "local_host \<Rightarrow> string \<Rightarrow> int \<Rightarrow> (string \<times> int) act" where
  "read_handle l canonicalLocalPath maxTransferBytes =
     io_bind (local_call LStat (lh_stat l)) (\<lambda>(regular, fileSize).
     if \<not> regular then io_throw (fs_error (''Local path '' @ canonicalLocalPath @ '' is not a regular file'') None)
     else if fileSize > maxTransferBytes then io_throw (transfer_limit_error maxTransferBytes)
     else
       io_bind (local_call LReadHandle (lh_read l)) (\<lambda>content.
       if int (length content) \<noteq> fileSize then
         io_throw (fs_error (''Local file '' @ canonicalLocalPath @ '' changed while it was read'')
           (Some ''Retry the upload after the file is stable.''))
       else io_ret (content, fileSize)))"

definition readStableLocalFile :: "local_host \<Rightarrow> string \<Rightarrow> int \<Rightarrow> (string \<times> int) act" where
  "readStableLocalFile l canonicalLocalPath maxTransferBytes =
     (let translate = keep_ours (\<lambda>e. fs_error (''Local path '' @ canonicalLocalPath @ '' could not be read for upload'') (message_of e))
      in io_bind (io_rethrow translate (local_done l (LOpen canonicalLocalPath (lh_nofollow l)))) (\<lambda>_.
         io_bind (io_catch (io_rethrow translate (read_handle l canonicalLocalPath maxTransferBytes))
                    (\<lambda>e. io_bind (local_done l LClose) (\<lambda>_. io_throw e))) (\<lambda>r.
         io_bind (local_done l LClose) (\<lambda>_. io_ret r))))"

definition authorizeLocalWritePath :: "service \<Rightarrow> local_host \<Rightarrow> string \<Rightarrow> policy_mode \<Rightarrow> local_write_path act" where
  "authorizeLocalWritePath v l localPath mode =
     io_bind (resolveLocalWritePath l localPath) (\<lambda>resolved.
     io_bind (decide v ((base_context (lw_action resolved) mode)
         \<lparr> px_path := Some (lw_canonicalPath resolved), px_secondaryPath := Some (lw_parentCanonicalPath resolved) \<rparr>)) (\<lambda>_.
     io_ret resolved))"

record transfer_result =
  tr_success :: bool
  tr_filename :: string
  tr_size :: int
  tr_durationMs :: int
  tr_averageSpeed :: rat
  tr_sha256 :: string
  tr_verified :: bool

definition explained_transfer :: "string \<Rightarrow> transfer_result" where
  "explained_transfer filename =
     \<lparr> tr_success = True, tr_filename = filename, tr_size = 0, tr_durationMs = 0, tr_averageSpeed = 0, tr_sha256 = [],
       tr_verified = False \<rparr>"

text \<open>\<open>totalSize / ((durationMs || 1) / 1000)\<close>.\<close>

definition transfer_done :: "string \<Rightarrow> int \<Rightarrow> string \<Rightarrow> int \<Rightarrow> transfer_result" where
  "transfer_done filename totalSize digest durationMs =
     \<lparr> tr_success = True, tr_filename = filename, tr_size = totalSize, tr_durationMs = durationMs,
       tr_averageSpeed = of_int totalSize / (of_int (if durationMs = 0 then 1 else durationMs) / 1000),
       tr_sha256 = digest, tr_verified = True \<rparr>"

definition transfer_session :: "service \<Rightarrow> session_view act" where
  "transfer_session v =
     io_bind (lookup_session v) (\<lambda>s.
     case s of
       None \<Rightarrow> io_throw (fs_error ''Session not found or expired'' None)
     | Some session \<Rightarrow>
         if \<not> vw_sftp session then io_throw (fs_error ''SFTP subsystem is unavailable for this session'' None)
         else io_ret session)"

definition transfer_mismatch :: "string \<Rightarrow> string \<Rightarrow> thrown" where
  "transfer_mismatch remotePath hint = fs_error (''Transfer verification failed for '' @ remotePath) (Some hint)"

definition upload_verified ::
    "service \<Rightarrow> local_host \<Rightarrow> (string \<Rightarrow> string) \<Rightarrow> string \<Rightarrow> string \<Rightarrow> string \<Rightarrow> transfer_result act" where
  "upload_verified v l sha256 canonicalLocalPath filename remotePath =
     io_bind (readStableLocalFile l canonicalLocalPath (sv_maxTransferBytes v)) (\<lambda>(fileContent, totalSize).
     io_bind (sftpWriteFile v remotePath fileContent) (\<lambda>_.
     io_bind (sftpReadFile v remotePath) (\<lambda>remoteContent.
     if sha256 fileContent \<noteq> sha256 remoteContent then
       io_throw (transfer_mismatch remotePath ''Remote SHA-256 does not match the local file after upload'')
     else
       io_bind (report (Transferred Upload totalSize)) (\<lambda>_.
       observe (\<lambda>t. transfer_done filename totalSize (sha256 fileContent) (sv_elapsed v t))))))"

definition uploadFileWithProgress ::
    "service \<Rightarrow> local_host \<Rightarrow> (string \<Rightarrow> string) \<Rightarrow> string \<Rightarrow> string \<Rightarrow> transfer_result act" where
  "uploadFileWithProgress v l sha256 localPath remotePath =
     io_bind (transfer_session v) (\<lambda>session.
     io_bind (decide v (path_context TransferUpload session remotePath)) (\<lambda>decision.
     if pd_mode decision = Explain then io_ret (explained_transfer (posix_basename localPath))
     else
       io_bind (authorizeLocalReadPath v l localPath (vw_policyMode session)) (\<lambda>canonicalLocalPath.
       io_rethrow (keep_ours (\<lambda>e. fs_error (''Failed to upload '' @ localPath @ '': '' @ thrown_text e) None))
         (upload_verified v l sha256 canonicalLocalPath (posix_basename canonicalLocalPath) remotePath))))"

text \<open>
  The download goes to a temporary name beside the target, is read back and compared, and takes the
  place of the target when the target has been authorised once more.
\<close>

definition download_verified ::
    "service \<Rightarrow> local_host \<Rightarrow> (string \<Rightarrow> string) \<Rightarrow> policy_mode \<Rightarrow> string \<Rightarrow> string \<Rightarrow> transfer_result act" where
  "download_verified v l sha256 mode remotePath localPath =
     io_bind (authorizeLocalWritePath v l localPath mode) (\<lambda>targetPath.
     io_bind (sftpStat v remotePath) (\<lambda>stats.
     let totalSize = or_default 0 (fa_size stats) in
     if totalSize > sv_maxTransferBytes v then io_throw (transfer_limit_error (sv_maxTransferBytes v))
     else
       io_bind (sftpReadFile v remotePath) (\<lambda>data.
       io_bind (observe (\<lambda>t. lw_absolutePath targetPath @ ''.tmp.'' @ show_int (sv_now v t))) (\<lambda>tempLocalPath.
       io_bind (authorizeLocalWritePath v l tempLocalPath mode) (\<lambda>tempPath.
       io_bind (local_done l (LCreateFile (lw_absolutePath tempPath) data)) (\<lambda>_.
       io_bind (authorizeLocalReadPath v l (lw_absolutePath tempPath) mode) (\<lambda>tempReadPath.
       io_bind (local_call (LReadFile tempReadPath) (lh_read l)) (\<lambda>localData.
       if sha256 data \<noteq> sha256 localData then
         io_bind (local_done l (LRemove (lw_absolutePath tempPath))) (\<lambda>_.
         io_throw (transfer_mismatch remotePath ''Local SHA-256 does not match the remote file after download''))
       else
         io_bind (authorizeLocalWritePath v l localPath mode) (\<lambda>finalTargetPath.
         io_bind (local_done l (LRename (lw_absolutePath tempPath) (lw_absolutePath finalTargetPath))) (\<lambda>_.
         io_bind (report (Transferred Download totalSize)) (\<lambda>_.
         observe (\<lambda>t. transfer_done (posix_basename remotePath) totalSize (sha256 data) (sv_elapsed v t)))))))))))))"

definition downloadFileWithProgress ::
    "service \<Rightarrow> local_host \<Rightarrow> (string \<Rightarrow> string) \<Rightarrow> string \<Rightarrow> string \<Rightarrow> transfer_result act" where
  "downloadFileWithProgress v l sha256 remotePath localPath =
     io_bind (transfer_session v) (\<lambda>session.
     io_bind (decide v (path_context TransferDownload session remotePath)) (\<lambda>decision.
     if pd_mode decision = Explain then io_ret (explained_transfer (posix_basename remotePath))
     else
       io_rethrow (keep_ours (\<lambda>e. fs_error (''Failed to download '' @ remotePath @ '': '' @ thrown_text e) None))
         (download_verified v l sha256 (vw_policyMode session) remotePath localPath)))"

subsection \<open>Formatting\<close>

text \<open>Numbers of bytes per second and of seconds are rationals, as the code divides.\<close>

definition to_fixed_0 :: "rat \<Rightarrow> string" where
  "to_fixed_0 x = (if x < 0 then ''-'' else []) @ show_int \<lfloor>\<bar>x\<bar> + 1 / 2\<rfloor>"

definition formatSpeed :: "rat \<Rightarrow> string" where
  "formatSpeed bytesPerSecond =
     (if bytesPerSecond \<ge> 1024 * 1024 then to_fixed_2 (bytesPerSecond / (1024 * 1024)) @ '' MB/s''
      else if bytesPerSecond \<ge> 1024 then to_fixed_2 (bytesPerSecond / 1024) @ '' KB/s''
      else to_fixed_0 bytesPerSecond @ '' B/s'')"

definition formatSize :: "int \<Rightarrow> string" where
  "formatSize bytes =
     (if bytes \<ge> 1024 * 1024 * 1024 then to_fixed_2 (of_int bytes / (1024 * 1024 * 1024)) @ '' GB''
      else if bytes \<ge> 1024 * 1024 then to_fixed_2 (of_int bytes / (1024 * 1024)) @ '' MB''
      else if bytes \<ge> 1024 then to_fixed_2 (of_int bytes / 1024) @ '' KB''
      else show_int bytes @ '' B'')"

text \<open>Seconds that are not negative.\<close>

definition rat_mod :: "rat \<Rightarrow> int \<Rightarrow> rat" where
  "rat_mod x n = x - of_int (n * \<lfloor>x / of_int n\<rfloor>)"

definition formatETA :: "rat \<Rightarrow> string" where
  "formatETA seconds =
     (if seconds < 60 then show_int \<lceil>seconds\<rceil> @ ''s''
      else if seconds < 3600 then
        show_int \<lfloor>seconds / 60\<rfloor> @ ''m '' @ show_int \<lceil>rat_mod seconds 60\<rceil> @ ''s''
      else show_int \<lfloor>seconds / 3600\<rfloor> @ ''h '' @ show_int \<lfloor>rat_mod seconds 3600 / 60\<rfloor> @ ''m'')"

end
