(* ===== verification/TransferProps.thy ===== *)
theory TransferProps
  imports FsProps TransferService
begin

section \<open>Properties of transfers\<close>

text \<open>
  What a transfer that succeeds has done, call by call: what was authorised, what was read, written
  and compared, and in which order.
\<close>

named_theorems returns \<open>when a computation returns a value\<close>

lemma bind_returns [returns]:
  "io_bind m f t = (Inr x, t') \<longleftrightarrow> (\<exists>y u. m t = (Inr y, u) \<and> f y u = (Inr x, t'))"
  by (auto simp: io_bind_def split: prod.splits sum.splits)

lemma rethrow_returns [returns]: "io_rethrow g m t = (Inr x, t') \<longleftrightarrow> m t = (Inr x, t')"
  by (auto simp: io_rethrow_def io_catch_def io_throw_def split: prod.splits sum.splits)

lemma act_returns [returns]: "io_act c answer t = (Inr x, t') \<longleftrightarrow> t' = t @ [c] \<and> answer t' = Inr x"
  by (auto simp: io_act_def)

lemma ret_returns [returns]: "io_ret y t = (Inr x, t') \<longleftrightarrow> t' = t \<and> x = y"
  by (auto simp: io_ret_def)

lemma throw_returns [returns]: "io_throw e t \<noteq> (Inr x, t')"
  by (simp add: io_throw_def)

lemma of_res_returns [returns]: "of_res r t = (Inr x, t') \<longleftrightarrow> t' = t \<and> r = Inr x"
  by (auto simp: of_res_def)

lemma observe_returns [returns]: "observe f t = (Inr x, t') \<longleftrightarrow> t' = t \<and> x = f t"
  by (auto simp: observe_def)

lemma catch_returns:
  "io_catch m f t = (Inr x, t') \<longleftrightarrow> m t = (Inr x, t') \<or> (\<exists>e u. m t = (Inl e, u) \<and> f e u = (Inr x, t'))"
  by (auto simp: io_catch_def split: prod.splits sum.splits)

lemma bind_fails: "io_bind m f t = (Inl e, t') \<longleftrightarrow> m t = (Inl e, t') \<or> (\<exists>y u. m t = (Inr y, u) \<and> f y u = (Inl e, t'))"
  by (auto simp: io_bind_def split: prod.splits sum.splits)

lemma catch_throws_returns [returns]:
  "io_catch m (\<lambda>e. io_bind c (\<lambda>_. io_throw (g e))) t = (Inr x, t') \<longleftrightarrow> m t = (Inr x, t')"
  by (simp add: catch_returns returns)

lemma decide_returns [returns]: "decide v ctx t = (Inr d, t') \<longleftrightarrow> t' = t @ [RDecide ctx] \<and> sv_gate v ctx = Inr d"
  by (auto simp: decide_def returns split: sum.splits)

lemma simple_returns [returns]:
  "simple_call v c t = (Inr x, t') \<longleftrightarrow> t' = t @ [c] \<and> sv_done v t' = None"
  "report e t = (Inr x, t') \<longleftrightarrow> t' = t @ [RMetric e]"
  "local_done l c t = (Inr x, t') \<longleftrightarrow> t' = t @ [c] \<and> lh_done l t' = None"
  by (auto simp: simple_call_def report_def local_done_def local_call_def returns split: option.splits)

lemma transfer_session_returns [returns]:
  "transfer_session v t = (Inr s, t') \<longleftrightarrow> t' = t @ [RSession] \<and> sv_session v t' = Some s \<and> vw_sftp s"
  by (auto simp: transfer_session_def lookup_session_def returns split: option.splits if_splits)

lemma sftp_returns [returns]:
  "sftpWriteFile v p d t = (Inr x, t') \<longleftrightarrow> t' = t @ [RWriteFile p d] \<and> sv_done v t' = None"
  "sftpReadFile v p t = (Inr d', t') \<longleftrightarrow> t' = t @ [RReadFile p] \<and> sv_read v t' = Inr d'"
  "sftpStat v p t = (Inr a, t') \<longleftrightarrow> t' = t @ [RStat p] \<and> sv_stat v t' = Inr a"
  by (auto simp: sftpWriteFile_def sftpReadFile_def sftpStat_def returns)

subsection \<open>Local paths\<close>

definition local_absolute :: "local_host \<Rightarrow> string \<Rightarrow> string" where
  "local_absolute l p = posix_resolve (lh_cwd l) p"

lemma resolve_absolute_Inr: "resolveAbsoluteLocalPath l p = Inr a \<Longrightarrow> a = local_absolute l p"
  by (auto simp: resolveAbsoluteLocalPath_def bind_res_def local_absolute_def split: sum.splits)

lemma authorize_read_returns:
  assumes "authorizeLocalReadPath v l p mode t = (Inr canonical, t')"
  shows "t' = t @ [LRealpath (local_absolute l p), RDecide (local_read_context mode canonical)] \<and>
    lh_realpath l (t @ [LRealpath (local_absolute l p)]) = Inr canonical \<and>
    (\<exists>d. sv_gate v (local_read_context mode canonical) = Inr d)"
  using assms by (auto simp: authorizeLocalReadPath_def resolveLocalReadPath_def returns dest: resolve_absolute_Inr)

definition local_write_context :: "policy_mode \<Rightarrow> local_write_path \<Rightarrow> policy_context" where
  "local_write_context mode w =
     \<lparr> px_action = lw_action w, px_host = None, px_username = None, px_command = None,
       px_path = Some (lw_canonicalPath w), px_secondaryPath = Some (lw_parentCanonicalPath w),
       px_localBindHost = None, px_localPort = None, px_remoteHost = None, px_remotePort = None,
       px_mode = Some mode, px_rawSudo = False, px_destructive = False \<rparr>"

lemma local_write_asked:
  "(base_context (lw_action w) mode)\<lparr> px_path := Some (lw_canonicalPath w), px_secondaryPath := Some (lw_parentCanonicalPath w) \<rparr> =
     local_write_context mode w"
  by (simp add: base_context_def local_write_context_def)

text \<open>
  What the host answered, after the calls \<open>h\<close>, for a path to be written: the real path of its directory,
  and its own real path, when it exists, or else its last segment in that directory.
\<close>

definition resolved_write :: "local_host \<Rightarrow> rhistory \<Rightarrow> string \<Rightarrow> local_write_path \<Rightarrow> bool" where
  "resolved_write l h p w \<longleftrightarrow>
     (let path = local_absolute l p; calls = [LRealpath (posix_dirname path)] in
      lw_absolutePath w = path \<and>
      lh_realpath l (h @ calls) = Inr (lw_parentCanonicalPath w) \<and>
      (case lh_realpath l (h @ calls @ [LRealpath path]) of
         Inr actual \<Rightarrow> lw_canonicalPath w = actual \<and> lw_action w = TransferLocalOverwrite
       | Inl e \<Rightarrow> le_missing e \<and> lw_canonicalPath w = posix_join [lw_parentCanonicalPath w, posix_basename path] \<and>
                  lw_action w = TransferLocalCreate))"

definition write_calls :: "policy_mode \<Rightarrow> local_write_path \<Rightarrow> rhistory" where
  "write_calls mode w =
     [LRealpath (posix_dirname (lw_absolutePath w)), LRealpath (lw_absolutePath w), RDecide (local_write_context mode w)]"

lemma authorize_write_returns:
  assumes "authorizeLocalWritePath v l p mode t = (Inr w, t')"
  shows "t' = t @ write_calls mode w \<and> resolved_write l t p w \<and> (\<exists>d. sv_gate v (local_write_context mode w) = Inr d)"
  using assms
  by (auto simp: authorizeLocalWritePath_def resolveLocalWritePath_def local_write_asked write_calls_def Let_def
      resolved_write_def returns catch_returns bind_fails io_act_def io_ret_def dest: resolve_absolute_Inr split: if_splits)

lemma read_stable_returns:
  assumes "readStableLocalFile l p n t = (Inr (content, len), t')"
  shows "t' = t @ [LOpen p (lh_nofollow l), LStat, LReadHandle, LClose] \<and> len = int (length content) \<and> len \<le> n \<and>
    lh_read l (t @ [LOpen p (lh_nofollow l), LStat, LReadHandle]) = Inr content"
  using assms
  by (auto simp: readStableLocalFile_def read_handle_def local_call_def Let_def returns split: if_splits prod.splits)

lemma local_read_enforced: "local_read_context Enforce q = enforced_path TransferLocalRead q"
  by (simp add: enforced_path_def local_read_context_def)

lemma enforced_gate:
  assumes "sv_gate v = engine_gate env policy"
  shows "sv_gate v (enforced_path a p) = Inr d \<Longrightarrow> permitted env policy (enforced_path a p)"
    and "sv_gate v (enforced_path a p) = Inr d \<Longrightarrow> pd_mode d = Enforce"
    and "\<exists>d. sv_gate v (local_write_context Enforce w) = Inr d \<Longrightarrow> permitted env policy (local_write_context Enforce w)"
    and "\<exists>d. sv_gate v (enforced_path a p) = Inr d \<Longrightarrow> permitted env policy (enforced_path a p)"
  using engine.enforced [of env policy] engine.mode_kept [of env policy]
  unfolding assms enforced_path_def local_write_context_def base_context_def by auto

subsection \<open>Uploads\<close>

text \<open>
  C23: an upload that succeeds did exactly this: with the policy's permission for the remote path and
  for the real path of the local file, which is what \<open>realpath\<close> had just answered for the path asked for
  and no other, it opened that real path (not following a link, where the platform can do so), read all of it within the limit, wrote it
  to the remote path, and read back from the remote path a text of the same digest, which is the
  digest reported.
\<close>

theorem upload_exact:
  assumes "sv_gate v = engine_gate env policy" and "enforcing v"
    and "uploadFileWithProgress v l sha256 localPath remotePath t = (Inr r, t')"
  shows "\<exists>canonical content remote u.
    permitted env policy (enforced_path TransferUpload remotePath) \<and>
    permitted env policy (enforced_path TransferLocalRead canonical) \<and>
    lh_realpath l (t @ [RSession, RDecide (enforced_path TransferUpload remotePath), LRealpath (local_absolute l localPath)]) =
      Inr canonical \<and>
    u = t @ [RSession, RDecide (enforced_path TransferUpload remotePath), LRealpath (local_absolute l localPath),
             RDecide (enforced_path TransferLocalRead canonical), LOpen canonical (lh_nofollow l), LStat, LReadHandle] \<and>
    lh_read l u = Inr content \<and> int (length content) \<le> sv_maxTransferBytes v \<and>
    sv_read v (u @ [LClose, RWriteFile remotePath content, RReadFile remotePath]) = Inr remote \<and>
    sha256 remote = sha256 content \<and>
    t' = u @ [LClose, RWriteFile remotePath content, RReadFile remotePath, RMetric (Transferred Upload (int (length content)))] \<and>
    r = transfer_done (posix_basename canonical) (int (length content)) (sha256 content) (sv_elapsed v t')"
proof -
  obtain s d where s: "sv_session v (t @ [RSession]) = Some s" "sv_gate v (path_context TransferUpload s remotePath) = Inr d"
    and rest: "(if pd_mode d = Explain then io_ret (explained_transfer (posix_basename localPath))
      else io_bind (authorizeLocalReadPath v l localPath (vw_policyMode s)) (\<lambda>canonicalLocalPath.
        io_rethrow (keep_ours (\<lambda>e. fs_error (''Failed to upload '' @ localPath @ '': '' @ thrown_text e) None))
         (upload_verified v l sha256 canonicalLocalPath (posix_basename canonicalLocalPath) remotePath)))
      (t @ [RSession, RDecide (path_context TransferUpload s remotePath)]) = (Inr r, t')"
    using assms(3) unfolding uploadFileWithProgress_def by (auto simp: returns simp del: if_split)
  have mode: "vw_policyMode s = Enforce" using assms(2) s(1) unfolding enforcing_def by blast
  have ctx: "path_context TransferUpload s remotePath = enforced_path TransferUpload remotePath"
    by (simp add: path_context_def enforced_path_def mode)
  note gates = enforced_gate [OF assms(1)]
  let ?u0 = "t @ [RSession, RDecide (enforced_path TransferUpload remotePath)]"
  have up: "permitted env policy (enforced_path TransferUpload remotePath)" "pd_mode d = Enforce"
    using s(2) gates(1,2) unfolding ctx by blast+
  from rest up(2) obtain canonical u2 where c: "authorizeLocalReadPath v l localPath Enforce ?u0 = (Inr canonical, u2)"
    "upload_verified v l sha256 canonical (posix_basename canonical) remotePath u2 = (Inr r, t')"
    by (auto simp: returns mode ctx)
  note a = authorize_read_returns [OF c(1), unfolded local_read_enforced]
  have canonical: "permitted env policy (enforced_path TransferLocalRead canonical)" using a gates(4) by blast
  from c(2) obtain content len u3 where f: "readStableLocalFile l canonical (sv_maxTransferBytes v) u2 = (Inr (content, len), u3)"
    by (auto simp: upload_verified_def returns)
  note g = read_stable_returns [OF f]
  from c(2) f obtain remote where "sv_read v (u3 @ [RWriteFile remotePath content, RReadFile remotePath]) = Inr remote"
    "sha256 remote = sha256 content"
    "t' = u3 @ [RWriteFile remotePath content, RReadFile remotePath, RMetric (Transferred Upload len)]"
    "r = transfer_done (posix_basename canonical) len (sha256 content) (sv_elapsed v t')"
    by (auto simp: upload_verified_def returns split: if_splits)
  then show ?thesis
    by (intro exI [of _ canonical] exI [of _ content] exI [of _ remote] exI [of _ "u2 @ [LOpen canonical (lh_nofollow l), LStat, LReadHandle]"])
      (use a g canonical up(1) in simp)
qed

subsection \<open>Downloads\<close>

lemma download_verified_returns:
  assumes "download_verified v l sha256 mode remotePath localPath t = (Inr r, t')"
  obtains target t1 stats data temp t2 tempReal t3 copy final t4 where
    "authorizeLocalWritePath v l localPath mode t = (Inr target, t1)"
    "sv_stat v (t1 @ [RStat remotePath]) = Inr stats" "or_default 0 (fa_size stats) \<le> sv_maxTransferBytes v"
    "sv_read v (t1 @ [RStat remotePath, RReadFile remotePath]) = Inr data"
    "authorizeLocalWritePath v l (lw_absolutePath target @ ''.tmp.'' @ show_int (sv_now v (t1 @ [RStat remotePath, RReadFile remotePath])))
       mode (t1 @ [RStat remotePath, RReadFile remotePath]) = (Inr temp, t2)"
    "authorizeLocalReadPath v l (lw_absolutePath temp) mode (t2 @ [LCreateFile (lw_absolutePath temp) data]) = (Inr tempReal, t3)"
    "lh_read l (t3 @ [LReadFile tempReal]) = Inr copy" "sha256 data = sha256 copy"
    "authorizeLocalWritePath v l localPath mode (t3 @ [LReadFile tempReal]) = (Inr final, t4)"
    "t' = t4 @ [LRename (lw_absolutePath temp) (lw_absolutePath final), RMetric (Transferred Download (or_default 0 (fa_size stats)))]"
    "r = transfer_done (posix_basename remotePath) (or_default 0 (fa_size stats)) (sha256 copy) (sv_elapsed v t')"
  using assms
  by (auto simp: download_verified_def Let_def returns local_call_def split: if_splits)

text \<open>
  C24: a download that succeeds did exactly this: with the policy's permission for the remote path it
  read the data, wrote it to a new file with a temporary name, read that file back with the same
  digest, and renamed it to the target; the target, the temporary name and the target again were each
  resolved, by the answers of \<open>realpath\<close> for them and for the directory they lie in (\<open>resolved_write\<close>),
  and what came out was permitted, as the creation or the replacement it is, directly before they were
  used; so was the real path from which the copy was read.
\<close>

theorem download_exact:
  assumes "sv_gate v = engine_gate env policy" and "enforcing v"
    and "downloadFileWithProgress v l sha256 remotePath localPath t = (Inr r, t')"
  shows "\<exists>target temp final tempReal data copy size u1 u2.
    permitted env policy (enforced_path TransferDownload remotePath) \<and>
    permitted env policy (local_write_context Enforce target) \<and>
    permitted env policy (local_write_context Enforce temp) \<and>
    permitted env policy (enforced_path TransferLocalRead tempReal) \<and>
    permitted env policy (local_write_context Enforce final) \<and>
    resolved_write l (t @ [RSession, RDecide (enforced_path TransferDownload remotePath)]) localPath target \<and>
    resolved_write l u1 (lw_absolutePath target @ ''.tmp.'' @ show_int (sv_now v u1)) temp \<and>
    lh_realpath l (u1 @ write_calls Enforce temp @
      [LCreateFile (lw_absolutePath temp) data, LRealpath (local_absolute l (lw_absolutePath temp))]) = Inr tempReal \<and>
    resolved_write l u2 localPath final \<and>
    u1 = t @ [RSession, RDecide (enforced_path TransferDownload remotePath)] @ write_calls Enforce target @
             [RStat remotePath, RReadFile remotePath] \<and>
    sv_read v u1 = Inr data \<and> size \<le> sv_maxTransferBytes v \<and>
    u2 = u1 @ write_calls Enforce temp @
             [LCreateFile (lw_absolutePath temp) data, LRealpath (local_absolute l (lw_absolutePath temp)),
              RDecide (enforced_path TransferLocalRead tempReal), LReadFile tempReal] \<and>
    lh_read l u2 = Inr copy \<and> sha256 copy = sha256 data \<and>
    t' = u2 @ write_calls Enforce final @
             [LRename (lw_absolutePath temp) (lw_absolutePath final), RMetric (Transferred Download size)] \<and>
    r = transfer_done (posix_basename remotePath) size (sha256 data) (sv_elapsed v t')"
proof -
  obtain s d where s: "sv_session v (t @ [RSession]) = Some s" "sv_gate v (path_context TransferDownload s remotePath) = Inr d"
    and rest: "(if pd_mode d = Explain then io_ret (explained_transfer (posix_basename remotePath))
      else io_rethrow (keep_ours (\<lambda>e. fs_error (''Failed to download '' @ remotePath @ '': '' @ thrown_text e) None))
         (download_verified v l sha256 (vw_policyMode s) remotePath localPath))
      (t @ [RSession, RDecide (path_context TransferDownload s remotePath)]) = (Inr r, t')"
    using assms(3) unfolding downloadFileWithProgress_def by (auto simp: returns simp del: if_split)
  have mode: "vw_policyMode s = Enforce" using assms(2) s(1) unfolding enforcing_def by blast
  have ctx: "path_context TransferDownload s remotePath = enforced_path TransferDownload remotePath"
    by (simp add: path_context_def enforced_path_def mode)
  note gates = enforced_gate [OF assms(1)]
  let ?u0 = "t @ [RSession, RDecide (enforced_path TransferDownload remotePath)]"
  have down: "permitted env policy (enforced_path TransferDownload remotePath)" "pd_mode d = Enforce"
    using s(2) gates(1,2) unfolding ctx by blast+
  have "download_verified v l sha256 Enforce remotePath localPath ?u0 = (Inr r, t')"
    using rest down(2) by (simp add: returns mode ctx)
  then obtain target t1 stats data temp t2 tempReal t3 copy final t4 where c:
    "authorizeLocalWritePath v l localPath Enforce ?u0 = (Inr target, t1)"
    "sv_stat v (t1 @ [RStat remotePath]) = Inr stats" "or_default 0 (fa_size stats) \<le> sv_maxTransferBytes v"
    "sv_read v (t1 @ [RStat remotePath, RReadFile remotePath]) = Inr data"
    "authorizeLocalWritePath v l (lw_absolutePath target @ ''.tmp.'' @ show_int (sv_now v (t1 @ [RStat remotePath, RReadFile remotePath])))
       Enforce (t1 @ [RStat remotePath, RReadFile remotePath]) = (Inr temp, t2)"
    "authorizeLocalReadPath v l (lw_absolutePath temp) Enforce (t2 @ [LCreateFile (lw_absolutePath temp) data]) = (Inr tempReal, t3)"
    "lh_read l (t3 @ [LReadFile tempReal]) = Inr copy" "sha256 data = sha256 copy"
    "authorizeLocalWritePath v l localPath Enforce (t3 @ [LReadFile tempReal]) = (Inr final, t4)"
    "t' = t4 @ [LRename (lw_absolutePath temp) (lw_absolutePath final), RMetric (Transferred Download (or_default 0 (fa_size stats)))]"
    "r = transfer_done (posix_basename remotePath) (or_default 0 (fa_size stats)) (sha256 copy) (sv_elapsed v t')"
    by (rule download_verified_returns)
  note w = authorize_write_returns [OF c(1)] authorize_write_returns [OF c(5)] authorize_write_returns [OF c(9)]
  note rd = authorize_read_returns [OF c(6)]
  have p: "permitted env policy (local_write_context Enforce target)" "permitted env policy (local_write_context Enforce temp)"
    "permitted env policy (local_write_context Enforce final)" "permitted env policy (enforced_path TransferLocalRead tempReal)"
    using w rd gates(3,4) unfolding local_read_enforced by blast+
  let ?u1 = "t1 @ [RStat remotePath, RReadFile remotePath]" and ?u2 = "t3 @ [LReadFile tempReal]"
  have resolved: "resolved_write l ?u0 localPath target"
    "resolved_write l ?u1 (lw_absolutePath target @ ''.tmp.'' @ show_int (sv_now v ?u1)) temp"
    "resolved_write l ?u2 localPath final"
    using w by blast+
  have u1: "?u1 = t @ [RSession, RDecide (enforced_path TransferDownload remotePath)] @ write_calls Enforce target @
      [RStat remotePath, RReadFile remotePath]"
    using w(1) by simp
  have t2: "t2 = ?u1 @ write_calls Enforce temp" using w(2) by blast
  have t3: "t3 = t2 @ [LCreateFile (lw_absolutePath temp) data, LRealpath (local_absolute l (lw_absolutePath temp)),
      RDecide (enforced_path TransferLocalRead tempReal)]"
    using rd by (simp add: local_read_enforced)
  then have u2: "?u2 = ?u1 @ write_calls Enforce temp @
             [LCreateFile (lw_absolutePath temp) data, LRealpath (local_absolute l (lw_absolutePath temp)),
              RDecide (enforced_path TransferLocalRead tempReal), LReadFile tempReal]"
    using t2 by simp
  have real: "lh_realpath l (?u1 @ write_calls Enforce temp @
      [LCreateFile (lw_absolutePath temp) data, LRealpath (local_absolute l (lw_absolutePath temp))]) = Inr tempReal"
    using rd unfolding t2 by simp
  have ends: "t' = ?u2 @ write_calls Enforce final @
      [LRename (lw_absolutePath temp) (lw_absolutePath final), RMetric (Transferred Download (or_default 0 (fa_size stats)))]"
    using w(3) c(10) by simp
  have r: "r = transfer_done (posix_basename remotePath) (or_default 0 (fa_size stats)) (sha256 data) (sv_elapsed v t')"
    using c(8,11) by simp
  show ?thesis
    by (intro exI [of _ target] exI [of _ temp] exI [of _ final] exI [of _ tempReal] exI [of _ data] exI [of _ copy]
        exI [of _ "or_default 0 (fa_size stats)"] exI [of _ ?u1] exI [of _ ?u2] conjI)
      (fact down(1) p resolved real u1 c(3,4,7) c(8) [symmetric] u2 ends r)+
qed

subsection \<open>A concrete transfer\<close>

definition demo_local :: local_host where
  "demo_local = \<lparr> lh_cwd = ''/srv'', lh_nofollow = True, lh_realpath = (\<lambda>t. case last t of LRealpath p \<Rightarrow> Inr p | _ \<Rightarrow> Inr []),
     lh_stat = (\<lambda>_. Inr (True, 4)), lh_read = (\<lambda>_. Inr ''text''), lh_done = (\<lambda>_. None) \<rparr>"

definition passes :: "policy_context \<Rightarrow> bool" where
  "passes ctx = (case engine_gate demo_env demo_config ctx of Inl _ \<Rightarrow> False | Inr d \<Rightarrow> pd_mode d = Enforce)"

lemma passes_Inr: "passes ctx \<Longrightarrow> \<exists>d. engine_gate demo_env demo_config ctx = Inr d \<and> pd_mode d = Enforce"
  by (simp add: passes_def split: sum.splits)

definition demo_write :: "string \<Rightarrow> string \<Rightarrow> local_write_path" where
  "demo_write p parent =
     \<lparr> lw_absolutePath = p, lw_canonicalPath = p, lw_parentCanonicalPath = parent, lw_action = TransferLocalOverwrite \<rparr>"

lemma demo_passes:
  "passes (enforced_path TransferUpload ''/tmp/b'')" "passes (enforced_path TransferLocalRead ''/tmp/a'')"
  "passes (enforced_path TransferDownload ''/tmp/b'')" "passes (enforced_path TransferLocalRead ''/tmp/a.tmp.0'')"
  "passes (local_write_context Enforce (demo_write ''/tmp/a'' ''/tmp''))"
  "passes (local_write_context Enforce (demo_write ''/tmp/a.tmp.0'' ''/tmp''))"
  by code_simp+

lemma demo_resolved:
  "resolveAbsoluteLocalPath demo_local ''/tmp/a'' = Inr ''/tmp/a''"
  "resolveAbsoluteLocalPath demo_local ''/tmp/a.tmp.0'' = Inr ''/tmp/a.tmp.0''"
  "posix_dirname ''/tmp/a'' = ''/tmp''" "posix_dirname ''/tmp/a.tmp.0'' = ''/tmp''" "show_int 0 = ''0''"
  by code_simp+

lemma demo_answers:
  "lh_realpath demo_local (t @ [LRealpath p]) = Inr p" "lh_stat demo_local t = Inr (True, 4)"
  "lh_read demo_local t = Inr ''text''" "lh_done demo_local t = None"
  "sv_read demo_service t = Inr ''text''" "sv_stat demo_service t = Inr file_mode" "sv_done demo_service t = None"
  "sv_maxTransferBytes demo_service = 1000" "sv_now demo_service t = 0" "fa_size file_mode = Some 4"
  by (simp_all add: demo_local_def demo_service_def file_mode_def)

lemma demo_realpath_empty [simp]: "lh_realpath demo_local [LRealpath p] = Inr p"
  using demo_answers(1) [of "[]" p] by simp

lemma demo_realpath_Cons [simp]: "lh_realpath demo_local (a # t @ [LRealpath p]) = Inr p"
  using demo_answers(1) [of "a # t" p] by simp

lemma demo_decide:
  assumes "passes ctx"
  shows "\<exists>d. decide demo_service ctx t = (Inr d, t @ [RDecide ctx]) \<and> pd_mode d = Enforce"
  using passes_Inr [OF assms] by (auto simp: decide_def io_act_def demo_service_def)

lemma demo_session: "transfer_session demo_service t = (Inr \<lparr> vw_policyMode = Enforce, vw_sftp = True \<rparr>, t @ [RSession])"
  by (simp add: transfer_session_def lookup_session_def io_bind_def io_act_def io_ret_def demo_service_def)

lemma demo_read:
  assumes "passes (enforced_path TransferLocalRead p)" and "resolveAbsoluteLocalPath demo_local p = Inr p"
  shows "authorizeLocalReadPath demo_service demo_local p Enforce t =
    (Inr p, t @ [LRealpath p, RDecide (enforced_path TransferLocalRead p)])"
  using demo_decide [OF assms(1), of "t @ [LRealpath p]"]
  by (auto simp: authorizeLocalReadPath_def resolveLocalReadPath_def assms(2) local_read_enforced io_bind_def io_act_def
      io_rethrow_def io_catch_def io_ret_def of_res_def demo_answers)

lemma demo_write_path:
  assumes "passes (local_write_context Enforce (demo_write p parent))" and "resolveAbsoluteLocalPath demo_local p = Inr p"
    and "posix_dirname p = parent"
  shows "authorizeLocalWritePath demo_service demo_local p Enforce t =
    (Inr (demo_write p parent), t @ write_calls Enforce (demo_write p parent))"
proof -
  have "resolveLocalWritePath demo_local p t = (Inr (demo_write p parent), t @ [LRealpath parent, LRealpath p])"
    by (simp add: resolveLocalWritePath_def assms(2,3) io_bind_def io_act_def io_rethrow_def io_catch_def io_ret_def of_res_def
        demo_answers demo_write_def)
  moreover have "lw_absolutePath (demo_write p parent) = p" by (simp add: demo_write_def)
  ultimately show ?thesis
    using demo_decide [OF assms(1), of "t @ [LRealpath parent, LRealpath p]"]
    by (auto simp: authorizeLocalWritePath_def io_bind_def io_ret_def write_calls_def assms(3) local_write_asked)
qed

lemma demo_upload:
  "\<exists>r t'. uploadFileWithProgress demo_service demo_local (\<lambda>s. s) ''/tmp/a'' ''/tmp/b'' [] = (Inr r, t')"
proof -
  have ctx: "path_context TransferUpload \<lparr> vw_policyMode = Enforce, vw_sftp = True \<rparr> ''/tmp/b'' = enforced_path TransferUpload ''/tmp/b''"
    by (simp add: path_context_def enforced_path_def)
  obtain d where "decide demo_service (enforced_path TransferUpload ''/tmp/b'') [RSession] =
      (Inr d, [RSession, RDecide (enforced_path TransferUpload ''/tmp/b'')])" "pd_mode d = Enforce"
    using demo_decide [OF demo_passes(1), of "[RSession]"] by auto
  then show ?thesis
    by (simp add: uploadFileWithProgress_def demo_session ctx demo_read [OF demo_passes(2) demo_resolved(1)]
        upload_verified_def readStableLocalFile_def read_handle_def local_done_def local_call_def sftpWriteFile_def
        sftpReadFile_def simple_call_def report_def observe_def io_bind_def io_act_def io_rethrow_def io_catch_def io_ret_def
        demo_answers Let_def)
qed

lemma demo_download:
  "\<exists>r t'. downloadFileWithProgress demo_service demo_local (\<lambda>s. s) ''/tmp/b'' ''/tmp/a'' [] = (Inr r, t')"
proof -
  have ctx: "path_context TransferDownload \<lparr> vw_policyMode = Enforce, vw_sftp = True \<rparr> ''/tmp/b'' = enforced_path TransferDownload ''/tmp/b''"
    by (simp add: path_context_def enforced_path_def)
  obtain d where "decide demo_service (enforced_path TransferDownload ''/tmp/b'') [RSession] =
      (Inr d, [RSession, RDecide (enforced_path TransferDownload ''/tmp/b'')])" "pd_mode d = Enforce"
    using demo_decide [OF demo_passes(3), of "[RSession]"] by auto
  moreover have "lw_absolutePath (demo_write p parent) = p" for p parent by (simp add: demo_write_def)
  ultimately show ?thesis
    using demo_resolved(5)
    by (simp add: downloadFileWithProgress_def demo_session ctx demo_read [OF demo_passes(4) demo_resolved(2)]
        demo_write_path [OF demo_passes(5) demo_resolved(1,3)] demo_write_path [OF demo_passes(6) demo_resolved(2,4)]
        download_verified_def local_done_def local_call_def sftpStat_def
        sftpReadFile_def report_def observe_def io_bind_def io_act_def io_rethrow_def io_catch_def io_ret_def
        demo_answers Let_def)
qed

theorem upload_exact_witness:
  "permitted demo_env demo_config (enforced_path TransferUpload ''/tmp/b'') \<and>
     permitted demo_env demo_config (enforced_path TransferLocalRead ''/tmp/a'')"
proof -
  from demo_upload obtain r t' where
    "uploadFileWithProgress demo_service demo_local (\<lambda>s. s) ''/tmp/a'' ''/tmp/b'' [] = (Inr r, t')" by blast
  from upload_exact [OF demo_service_gate this] obtain canonical where
    c: "permitted demo_env demo_config (enforced_path TransferUpload ''/tmp/b'')"
      "permitted demo_env demo_config (enforced_path TransferLocalRead canonical)"
      "lh_realpath demo_local ([] @ [RSession, RDecide (enforced_path TransferUpload ''/tmp/b''),
         LRealpath (local_absolute demo_local ''/tmp/a'')]) = Inr canonical"
    by blast
  have "canonical = ''/tmp/a''"
    using c(3) demo_answers(1) [of "[RSession, RDecide (enforced_path TransferUpload ''/tmp/b'')]" "''/tmp/a''"]
    by (simp add: resolve_absolute_Inr [OF demo_resolved(1), symmetric])
  with c show ?thesis by simp
qed

theorem download_exact_witness:
  "permitted demo_env demo_config (enforced_path TransferDownload ''/tmp/b'') \<and>
     permitted demo_env demo_config (local_write_context Enforce (demo_write ''/tmp/a'' ''/tmp''))"
proof -
  from demo_download obtain r t' where
    "downloadFileWithProgress demo_service demo_local (\<lambda>s. s) ''/tmp/b'' ''/tmp/a'' [] = (Inr r, t')" by blast
  from download_exact [OF demo_service_gate this] obtain target where
    p: "permitted demo_env demo_config (enforced_path TransferDownload ''/tmp/b'')"
       "permitted demo_env demo_config (local_write_context Enforce target)"
    and w: "resolved_write demo_local [RSession, RDecide (enforced_path TransferDownload ''/tmp/b'')] ''/tmp/a'' target"
    unfolding append.simps by (elim exE conjE) (rule that)
  have "target = demo_write ''/tmp/a'' ''/tmp''"
    using w demo_answers(1) [of "[RSession, RDecide (enforced_path TransferDownload ''/tmp/b'')]" "''/tmp''"]
      demo_answers(1) [of "[RSession, RDecide (enforced_path TransferDownload ''/tmp/b''), LRealpath ''/tmp'']" "''/tmp/a''"]
    by (cases target) (simp add: resolved_write_def demo_write_def demo_resolved Let_def
      resolve_absolute_Inr [OF demo_resolved(1), symmetric])
  with p show ?thesis by simp
qed

end
