(* ===== verification/EnsureService.thy ===== *)
theory EnsureService
  imports ProcessService FsService
begin

section \<open>Desired states: \<open>src/ensure-pkg.ts\<close>, \<open>src/ensure-package-service.ts\<close>, \<open>src/ensure.ts\<close>\<close>

text \<open>
  Packages, services, lines of files and patches. The services are built from the commands of
  \<open>ProcessService\<close> and the file operations of \<open>FsService\<close>; names that go into a command line are
  checked first, paths are quoted. Log lines are left out.
\<close>

subsection \<open>Package commands\<close>

definition SUPPORTED_PACKAGE_MANAGERS :: "string list" where
  "SUPPORTED_PACKAGE_MANAGERS =
     [''apt'', ''dnf'', ''yum'', ''pacman'', ''apk'', ''zypper'', ''brew'', ''winget'', ''choco'']"

definition SUPPORTED_PACKAGE_MANAGERS_HINT :: string where
  "SUPPORTED_PACKAGE_MANAGERS_HINT = ''Supported package managers: '' @ join '', '' SUPPORTED_PACKAGE_MANAGERS"

definition is_alnum :: "char \<Rightarrow> bool" where
  "is_alnum c \<longleftrightarrow> is_alpha c \<or> is_digit c"

definition package_char :: "char \<Rightarrow> bool" where
  "package_char c \<longleftrightarrow> is_alnum c \<or> c \<in> {CHR ''.'', CHR ''_'', CHR ''+'', CHR ''-''}"

definition dangerous_char :: "char \<Rightarrow> bool" where
  "dangerous_char c \<longleftrightarrow> c \<in> {CHR '';'', CHR ''&'', CHR ''|'', CHR ''`'', CHR ''$'', CHR ''('', CHR '')'', CHR ''{'', CHR ''}'',
     CHR ''['', CHR '']'', CHR ''<'', CHR ''>'', BSLASH, DQUOTE, SQUOTE, LF, CR}"

definition sanitizePackageName :: "string \<Rightarrow> thrown + string" where
  "sanitizePackageName name =
     (if \<not> (name \<noteq> [] \<and> is_alnum (hd name) \<and> list_all package_char (tl name)) then
        Inl (MCPError (createBadRequestError (''Invalid package name: '' @ name)
          (Some ''Package names must start with alphanumeric and contain only letters, numbers, dots, dashes, underscores, or plus signs'')))
      else if list_ex dangerous_char name then
        Inl (MCPError (createBadRequestError ''Package name contains potentially dangerous characters''
          (Some ''Remove any shell special characters from the package name'')))
      else Inr name)"

definition regexp_special :: "char \<Rightarrow> bool" where
  "regexp_special c \<longleftrightarrow> c \<in> {BSLASH, CHR ''^'', CHR ''$'', CHR ''.'', CHR ''*'', CHR ''+'', CHR ''?'', CHR ''('', CHR '')'',
     CHR ''['', CHR '']'', CHR ''{'', CHR ''}'', CHR ''|''}"

definition escapeRegExp :: "string \<Rightarrow> string" where
  "escapeRegExp v = concat (map (\<lambda>c. if regexp_special c then [BSLASH, c] else [c]) v)"

definition unsupported_manager :: "string \<Rightarrow> thrown" where
  "unsupported_manager pm = MCPError (createPackageManagerError (''Unsupported package manager: '' @ pm) None)"

definition getRemoveCommand :: "string \<Rightarrow> string \<Rightarrow> thrown + string" where
  "getRemoveCommand pm p =
     (if pm = ''apt'' then Inr (''apt-get remove -y '' @ p)
      else if pm = ''dnf'' then Inr (''dnf remove -y '' @ p)
      else if pm = ''yum'' then Inr (''yum remove -y '' @ p)
      else if pm = ''pacman'' then Inr (''pacman -R --noconfirm '' @ p)
      else if pm = ''apk'' then Inr (''apk del '' @ p)
      else if pm = ''zypper'' then Inr (''zypper remove -y '' @ p)
      else if pm = ''brew'' then Inr (''brew uninstall '' @ p)
      else if pm = ''winget'' then
        Inr (''winget uninstall --id '' @ p @ '' --exact --silent --accept-source-agreements --disable-interactivity'')
      else if pm = ''choco'' then Inr (''choco uninstall '' @ p @ '' -y --no-progress'')
      else Inl (unsupported_manager pm))"

definition getInstallCommand :: "string \<Rightarrow> string \<Rightarrow> thrown + string" where
  "getInstallCommand pm p =
     (if pm = ''apt'' then Inr (''apt-get update && apt-get install -y '' @ p)
      else if pm = ''dnf'' then Inr (''dnf install -y '' @ p)
      else if pm = ''yum'' then Inr (''yum install -y '' @ p)
      else if pm = ''pacman'' then Inr (''pacman -S --noconfirm '' @ p)
      else if pm = ''apk'' then Inr (''apk add '' @ p)
      else if pm = ''zypper'' then Inr (''zypper install -y '' @ p)
      else if pm = ''brew'' then Inr (''brew install '' @ p)
      else if pm = ''winget'' then
        Inr (''winget install --id '' @ p @
             '' --exact --silent --accept-source-agreements --accept-package-agreements --disable-interactivity'')
      else if pm = ''choco'' then Inr (''choco install '' @ p @ '' -y --no-progress'')
      else Inl (unsupported_manager pm))"

definition getPackageCheckCommand :: "string \<Rightarrow> string \<Rightarrow> string option" where
  "getPackageCheckCommand pm p =
     (if pm = ''apt'' then Some (''dpkg -l '' @ p @ '' | grep -q '' @ [SQUOTE] @ ''^ii'' @ [SQUOTE])
      else if pm = ''dnf'' \<or> pm = ''yum'' then Some (pm @ '' list installed '' @ p)
      else if pm = ''pacman'' then Some (''pacman -Q '' @ p)
      else if pm = ''apk'' then Some (''apk info -e '' @ p)
      else if pm = ''zypper'' then Some (''zypper se -i '' @ p)
      else if pm = ''brew'' then Some (''brew list --versions '' @ p)
      else if pm = ''winget'' then
        Some (''$idPattern = '' @ powerShellQuote (''(^|'' @ [BSLASH] @ ''s)'' @ escapeRegExp p @ ''('' @ [BSLASH] @ ''s|$)'') @
              ''; $package = winget list --id '' @ powerShellQuote p @
              '' --exact --disable-interactivity; if ($LASTEXITCODE -eq 0 -and ($package -match $idPattern)) { exit 0 } exit 1'')
      else if pm = ''choco'' then
        Some (''$package = choco list --exact '' @ powerShellQuote p @
              '' --limit-output; if ($LASTEXITCODE -eq 0 -and ($package -like '' @ powerShellQuote (p @ ''|*'') @
              '')) { exit 0 } exit 1'')
      else None)"

definition usesDirectPackageCommand :: "string \<Rightarrow> bool" where
  "usesDirectPackageCommand pm \<longleftrightarrow> pm = ''brew'' \<or> pm = ''winget'' \<or> pm = ''choco''"

subsection \<open>Packages\<close>

datatype desired = Present | Absent

record package_result =
  pr_ok :: bool
  pr_pm :: string
  pr_code :: int
  pr_stdout :: string
  pr_stderr :: string

definition checkPackageInstalled :: "service \<Rightarrow> string \<Rightarrow> string \<Rightarrow> string \<Rightarrow> bool act" where
  "checkPackageInstalled v sessionId packageName pm =
     (case getPackageCheckCommand pm packageName of
        None \<Rightarrow> io_ret False
      | Some checkCommand \<Rightarrow>
          io_catch (io_bind (execCommand v sessionId checkCommand None None None) (\<lambda>r. io_ret (er_code r = 0)))
            (\<lambda>_. io_ret False))"

definition package_result_of :: "string \<Rightarrow> exec_result \<Rightarrow> package_result" where
  "package_result_of pm r =
     \<lparr> pr_ok = er_code r = 0, pr_pm = pm, pr_code = er_code r, pr_stdout = er_stdout r, pr_stderr = er_stderr r \<rparr>"

text \<open>\<open>destructive\<close> is set for a removal only.\<close>

definition run_package_command :: "service \<Rightarrow> string \<Rightarrow> string \<Rightarrow> bool option \<Rightarrow> string \<Rightarrow> package_result act" where
  "run_package_command v sessionId pm destructive command =
     io_bind (if usesDirectPackageCommand pm then execCommand v sessionId command None None None
              else execSudo v sessionId command None None None
                \<lparr> sp_policyAction = Some EnsurePackage, sp_rawSudo = Some False, sp_path = None, sp_destructive = destructive \<rparr>)
       (\<lambda>r. io_ret (package_result_of pm r))"

definition already :: "string \<Rightarrow> string \<Rightarrow> string \<Rightarrow> package_result" where
  "already pm packageName text =
     \<lparr> pr_ok = True, pr_pm = pm, pr_code = 0, pr_stdout = ''Package '' @ packageName @ text, pr_stderr = [] \<rparr>"

definition ensurePackage :: "service \<Rightarrow> string \<Rightarrow> string \<Rightarrow> desired \<Rightarrow> package_result act" where
  "ensurePackage v sessionId packageName state =
     io_bind (of_res (sanitizePackageName packageName)) (\<lambda>safePackageName.
     io_bind (require_session v sessionId) (\<lambda>_.
     io_bind (detect v) (\<lambda>os.
     let pm = os_packageManager os in
     if pm = ''unknown'' then
       io_throw (MCPError (createPackageManagerError ''No supported package manager found'' (Some SUPPORTED_PACKAGE_MANAGERS_HINT)))
     else
       io_bind (checkPackageInstalled v sessionId safePackageName pm) (\<lambda>isInstalled.
       if state = Absent then
         if \<not> isInstalled then io_ret (already pm safePackageName '' is not installed'')
         else io_bind (of_res (getRemoveCommand pm safePackageName)) (run_package_command v sessionId pm (Some True))
       else
         if isInstalled then io_ret (already pm safePackageName '' is already installed'')
         else io_bind (of_res (getInstallCommand pm safePackageName)) (run_package_command v sessionId pm None)))))"

subsection \<open>Services\<close>

datatype service_state = Started | Stopped | Restarted | Enabled | Disabled

definition service_char :: "char \<Rightarrow> bool" where
  "service_char c \<longleftrightarrow> is_alnum c \<or> c \<in> {CHR ''_'', CHR ''.'', CHR ''@'', CHR '':'', CHR ''-''}"

definition sanitizeServiceName :: "string \<Rightarrow> thrown + string" where
  "sanitizeServiceName name =
     (if \<not> (name \<noteq> [] \<and> is_alnum (hd name) \<and> list_all service_char (tl name)) then
        Inl (MCPError (createBadRequestError (''Invalid service name: '' @ name)
          (Some ''Service names must contain only letters, numbers, dots, dashes, underscores, colons, @, or path-safe instance names'')))
      else Inr name)"

fun service_command :: "bool \<Rightarrow> service_state \<Rightarrow> string \<Rightarrow> string" where
  "service_command True Started s = ''systemctl start '' @ s"
| "service_command True Stopped s = ''systemctl stop '' @ s"
| "service_command True Restarted s = ''systemctl restart '' @ s"
| "service_command True Enabled s = ''systemctl enable '' @ s"
| "service_command True Disabled s = ''systemctl disable '' @ s"
| "service_command False Started s = ''service '' @ s @ '' start''"
| "service_command False Stopped s = ''service '' @ s @ '' stop''"
| "service_command False Restarted s = ''service '' @ s @ '' restart''"
| "service_command False Enabled s = ''chkconfig '' @ s @ '' on || update-rc.d '' @ s @ '' enable''"
| "service_command False Disabled s = ''chkconfig '' @ s @ '' off || update-rc.d '' @ s @ '' disable''"

definition ensureService :: "service \<Rightarrow> string \<Rightarrow> string \<Rightarrow> service_state \<Rightarrow> bool act" where
  "ensureService v sessionId serviceName state =
     io_bind (of_res (sanitizeServiceName serviceName)) (\<lambda>safeServiceName.
     io_bind (require_session v sessionId) (\<lambda>_.
     io_bind (detect v) (\<lambda>os.
     if os_init os = ''launchd'' then
       io_throw (MCPError (createSudoError ''launchd services are not managed by this tool''
         (Some ''Use launchctl directly on macOS hosts'')))
     else if os_init os = ''windows-service'' then
       io_throw (MCPError (createSudoError ''Windows services are not managed by this tool''
         (Some ''Use sc.exe or PowerShell to manage Windows services'')))
     else if os_init os = ''unknown'' then
       io_throw (MCPError (createSudoError ''No supported init system found''
         (Some ''Supported init systems: systemd, service'')))
     else
       io_bind (execSudo v sessionId (service_command (os_init os = ''systemd'') state safeServiceName) None None None
           \<lparr> sp_policyAction = Some EnsureService, sp_rawSudo = Some False, sp_path = None,
             sp_destructive = Some (state \<in> {Stopped, Restarted, Disabled}) \<rparr>) (\<lambda>result.
       io_ret (er_code result = 0)))))"

subsection \<open>Lines of a file\<close>

text \<open>\<open>error.message\<close>, or the code of an error without one.\<close>

fun error_code_text :: "error_code \<Rightarrow> string" where
  "error_code_text EAUTH = ''EAUTH''"
| "error_code_text ECONN = ''ECONN''"
| "error_code_text ETIMEOUT = ''ETIMEOUT''"
| "error_code_text ENOSUDO = ''ENOSUDO''"
| "error_code_text EPMGR = ''EPMGR''"
| "error_code_text EFS = ''EFS''"
| "error_code_text EPATCH = ''EPATCH''"
| "error_code_text EBADREQ = ''EBADREQ''"
| "error_code_text EPOLICY = ''EPOLICY''"
| "error_code_text EHOSTKEY = ''EHOSTKEY''"
| "error_code_text ELIMIT = ''ELIMIT''"
| "error_code_text EUNSUPPORTED = ''EUNSUPPORTED''"

definition describeError :: "thrown \<Rightarrow> string" where
  "describeError e =
     (case e of
        MCPError m \<Rightarrow> if err_message m = [] then error_code_text (err_code m) else err_message m
      | JSError m \<Rightarrow> if m = [] then ''unknown error'' else m
      | Thrown _ \<Rightarrow> ''unknown error'')"

text \<open>
  The alternation between word boundaries, ignoring case; \<open>permission denied\<close> is covered by
  \<open>permission\<close>. The words begin and end with word characters, so a boundary is the absence of a word
  character beside them. (The file operations wrap their errors, so no system code is left to see.)
\<close>

fun word_at :: "bool \<Rightarrow> string \<Rightarrow> string \<Rightarrow> bool" where
  "word_at afterWord w [] = False"
| "word_at afterWord w (c # cs) =
     ((\<not> afterWord \<and> prefix w (c # cs) \<and>
        (case drop (length w) (c # cs) of [] \<Rightarrow> True | d # _ \<Rightarrow> \<not> is_word_char d)) \<or>
      word_at (is_word_char c) w cs)"

definition PERMISSION_WORDS :: "string list" where
  "PERMISSION_WORDS = [''eacces'', ''eperm'', ''permission'', ''permission denied'', ''access denied'', ''operation not permitted'']"

definition isPermissionError :: "thrown \<Rightarrow> bool" where
  "isPermissionError e \<longleftrightarrow> list_ex (\<lambda>w. word_at False w (to_lower (describeError e))) PERMISSION_WORDS"

definition ensure_removeTrailingSlashes :: "string \<Rightarrow> string" where
  "ensure_removeTrailingSlashes s = rev (dropWhile (\<lambda>c. c = SLASH) (rev s))"

definition move_by_sudo :: "service \<Rightarrow> string \<Rightarrow> string \<Rightarrow> string \<Rightarrow> bool \<Rightarrow> unit act" where
  "move_by_sudo v sessionId tempFile filePath destructive =
     io_bind (execSudo v sessionId (''mv '' @ fs_shellQuote tempFile @ '' '' @ fs_shellQuote filePath) None None None
         \<lparr> sp_policyAction = Some EnsureLines, sp_rawSudo = Some False, sp_path = Some filePath,
           sp_destructive = Some destructive \<rparr>) (\<lambda>moveResult.
     if er_code moveResult \<noteq> 0 then
       io_throw (MCPError (createFilesystemError (''Failed to move temporary file to '' @ filePath)
         (Some ''Check file permissions and sudo access'')))
     else io_ret ())"

definition writeFileWithPrivilegeFallback :: "service \<Rightarrow> string \<Rightarrow> os_info \<Rightarrow> string \<Rightarrow> string \<Rightarrow> bool \<Rightarrow> unit act" where
  "writeFileWithPrivilegeFallback v sessionId os filePath content destructive =
     io_catch (io_bind (writeFile v sessionId filePath content None) (\<lambda>_. io_ret ()))
       (\<lambda>directWriteError.
          if \<not> isPermissionError directWriteError then io_throw directWriteError
          else
            io_bind (observe (\<lambda>t. ensure_removeTrailingSlashes (resolveRemoteTempDir os) @ ''/ssh-mcp-'' @ sv_uuid v t @ ''.tmp'')) (\<lambda>tempFile.
            io_bind (io_rethrow (\<lambda>tempWriteError. MCPError (createFilesystemError
                  (''Failed to stage temporary file for '' @ filePath)
                  (Some (''Direct write failed with '' @ describeError directWriteError @ ''; temporary write failed with '' @
                    describeError tempWriteError))))
                (writeFile v sessionId tempFile content None)) (\<lambda>_.
            move_by_sudo v sessionId tempFile filePath destructive)))"

definition read_lines :: "string \<Rightarrow> string list" where
  "read_lines text = split_on (\<lambda>c. c = LF) text"

text \<open>The result is the number of lines added, or minus the number removed.\<close>

definition remove_lines :: "string list \<Rightarrow> string \<Rightarrow> string" where
  "remove_lines lines fileContent = join [LF] (filter (\<lambda>l. l \<notin> set lines) (read_lines fileContent))"

definition missing_lines :: "string list \<Rightarrow> string \<Rightarrow> string list" where
  "missing_lines lines fileContent = filter (\<lambda>l. l \<notin> set (read_lines fileContent)) lines"

definition add_lines :: "bool \<Rightarrow> string list \<Rightarrow> string \<Rightarrow> string" where
  "add_lines fileExists lines fileContent =
     (if fileExists then fileContent @ [LF] @ join [LF] (missing_lines lines fileContent)
      else join [LF] (missing_lines lines fileContent))"

definition ensure_absent :: "service \<Rightarrow> string \<Rightarrow> os_info \<Rightarrow> string \<Rightarrow> string list \<Rightarrow> string \<Rightarrow> int act" where
  "ensure_absent v sessionId os filePath lines fileContent =
     (let existingLines = read_lines fileContent;
          filteredLines = filter (\<lambda>l. l \<notin> set lines) existingLines
      in if length filteredLines = length existingLines then io_ret 0
         else io_bind (writeFileWithPrivilegeFallback v sessionId os filePath (remove_lines lines fileContent) True) (\<lambda>_.
              io_ret (- (int (length existingLines) - int (length filteredLines)))))"

definition ensure_present :: "service \<Rightarrow> string \<Rightarrow> os_info \<Rightarrow> string \<Rightarrow> string list \<Rightarrow> bool \<Rightarrow> string \<Rightarrow> int act" where
  "ensure_present v sessionId os filePath lines fileExists fileContent =
     (let missingLines = missing_lines lines fileContent
      in if length missingLines = 0 then io_ret 0
         else io_bind (writeFileWithPrivilegeFallback v sessionId os filePath (add_lines fileExists lines fileContent) True) (\<lambda>_.
              io_ret (int (length missingLines))))"

definition ensureLinesInFile :: "service \<Rightarrow> string \<Rightarrow> string \<Rightarrow> string list \<Rightarrow> bool \<Rightarrow> desired \<Rightarrow> int act" where
  "ensureLinesInFile v sessionId filePath lines createIfMissing state =
     io_bind (detect v) (\<lambda>os.
     io_bind (pathExists v sessionId filePath) (\<lambda>fileExists.
     if fileExists then
       io_bind (readFile v sessionId filePath ''utf8'' None) (\<lambda>fileContent.
       if state = Absent then ensure_absent v sessionId os filePath lines fileContent
       else ensure_present v sessionId os filePath lines True fileContent)
     else if state = Absent then io_ret 0
     else if \<not> createIfMissing then
       io_throw (MCPError (createFilesystemError
         (''File '' @ filePath @ '' does not exist and createIfMissing is false'') None))
     else ensure_present v sessionId os filePath lines False []))"

subsection \<open>Patches\<close>

text \<open>The result is \<open>ok\<close>, which is also \<open>changed\<close>.\<close>

definition patch_command :: "string \<Rightarrow> string \<Rightarrow> string" where
  "patch_command filePath tempPatchFile = ''patch -p0 '' @ fs_shellQuote filePath @ '' < '' @ fs_shellQuote tempPatchFile"

definition patch_dry_run :: "string \<Rightarrow> string \<Rightarrow> string" where
  "patch_dry_run filePath tempPatchFile = ''patch --dry-run -p0 '' @ fs_shellQuote filePath @ '' < '' @ fs_shellQuote tempPatchFile"

definition patch_cleanup :: "os_info \<Rightarrow> string \<Rightarrow> string" where
  "patch_cleanup os tempPatchFile =
     (if os_platform os = Windows
      then ''Remove-Item -Path '' @ fs_shellQuote tempPatchFile @ '' -Force -ErrorAction SilentlyContinue''
      else ''rm -f '' @ fs_shellQuote tempPatchFile)"

definition try_patch :: "service \<Rightarrow> string \<Rightarrow> string \<Rightarrow> string \<Rightarrow> bool act" where
  "try_patch v sessionId filePath tempPatchFile =
     io_bind (execCommand v sessionId (patch_dry_run filePath tempPatchFile) None None None) (\<lambda>testResult.
     if er_code testResult \<noteq> 0 then
       io_throw (MCPError (createPatchError ''Patch would fail to apply'' (Some (''Patch test failed: '' @ er_stderr testResult))))
     else
       io_bind (execCommand v sessionId (patch_command filePath tempPatchFile) None None None) (\<lambda>directResult.
       io_bind (if er_code directResult = 0 then io_ret directResult
                else execSudo v sessionId (patch_command filePath tempPatchFile) None None None
                  \<lparr> sp_policyAction = Some PatchApply, sp_rawSudo = Some False, sp_path = Some filePath,
                    sp_destructive = Some True \<rparr>) (\<lambda>result.
       io_ret (er_code result = 0))))"

definition applyPatch :: "service \<Rightarrow> string \<Rightarrow> string \<Rightarrow> string \<Rightarrow> bool act" where
  "applyPatch v sessionId filePath diff =
     io_bind (detect v) (\<lambda>os.
     io_bind (commandExists v sessionId ''patch'') (\<lambda>hasPatch.
     if \<not> hasPatch then
       io_throw (MCPError (createPatchError ''patch command not found on remote system''
         (Some ''Install patch utility or apply changes manually'')))
     else
       io_bind (observe (\<lambda>t. ensure_removeTrailingSlashes (resolveRemoteTempDir os) @ ''/ssh-mcp-patch-'' @ sv_uuid v t @ ''.patch'')) (\<lambda>tempPatchFile.
       io_bind (writeFile v sessionId tempPatchFile diff None) (\<lambda>_.
       io_finally (try_patch v sessionId filePath tempPatchFile)
         (io_catch (io_bind (execCommand v sessionId (patch_cleanup os tempPatchFile) None None None) (\<lambda>_. io_ret ()))
            (\<lambda>_. io_ret ()))))))"

end
