(* ===== verification/EnsureProps.thy ===== *)
theory EnsureProps
  imports ProcessProps EnsureService
begin

section \<open>Properties of desired states\<close>

text \<open>
  The command lines for services and packages, read as a shell reads them: a name that passed the
  check is one word, and what \<open>sudo\<close> is given is the first simple command of the line only. And the
  texts that lines of files are added to or removed from.
\<close>

subsection \<open>Reading command lines\<close>

lemma bare_hd: "bare_word w \<Longrightarrow> w \<noteq> [] \<Longrightarrow> \<not> sh_operator (hd w)"
  by (cases w) (auto simp: bare_word_def)

text \<open>Words that need no quoting, and what stands behind an operator.\<close>

lemma sh_words_join:
  assumes "ws \<noteq> []" and "\<forall>w \<in> set ws. bare_word w \<and> w \<noteq> []"
    and "rest = [] \<or> (\<exists>c r. rest = '' '' @ c # r \<and> sh_operator c \<and> c \<noteq> CHR '' '')"
  shows "sh_words (join '' '' ws @ rest) = Some (ws, skip_blanks rest)"
  using assms(1,2)
proof (induction ws rule: induct_list012)
  case (2 w)
  have "ends_word rest" using assms(3) by (auto simp: ends_word_def sh_operator_def)
  then have "sh_word Plain (w @ rest) = Some (w, rest)" using 2 sh_word_bare [of w rest] by (simp add: sh_word_end)
  moreover have "skip_blanks rest = [] \<or> sh_operator (hd (skip_blanks rest))"
    using assms(3) by (auto simp: skip_blanks_def)
  ultimately show ?case using sh_words_last by simp
next
  case (3 x y zs)
  have "\<not> sh_operator (hd (join '' '' (y # zs) @ rest))" "join '' '' (y # zs) @ rest \<noteq> []"
    using "3.prems" bare_hd [of y] by (cases zs; cases y; simp)+
  from sh_words_bare [OF _ this(2,1)] "3.IH"(2) "3.prems" show ?case by simp
qed simp

definition sudo_reading :: "os_info \<Rightarrow> string \<Rightarrow> string list \<Rightarrow> string \<Rightarrow> bool" where
  "sudo_reading os line ws rest \<longleftrightarrow>
     (\<exists>script. sh_words line = Some ([posix_shell_name os, ''-lc'', script], []) \<and>
        sh_words script = Some (''sudo'' # ''-n'' # ws, rest))"

lemma sudo_line_words:
  assumes "buildSudoCommand (join '' '' ws @ tail) os None = Inr line" and "ws \<noteq> []" and "\<forall>w \<in> set ws. bare_word w \<and> w \<noteq> []"
    and "tail = [] \<or> (\<exists>c r. tail = '' '' @ c # r \<and> sh_operator c \<and> c \<noteq> CHR '' '')"
  shows "sudo_reading os line ws (skip_blanks tail)"
proof -
  let ?script = "sudo_script (join '' '' ws @ tail) None"
  have line: "buildPosixCommand ?script None None (posix_shell_name os) = Inr line"
    using assms(1) by (simp add: buildSudoCommand_def split: if_splits)
  have "bare_word (posix_shell_name os)" by (simp add: posix_shell_name_def bare_words)
  from posix_command_words [OF line this]
  have "sh_words line = Some ([posix_shell_name os, ''-lc'', ?script], [])" by (simp add: posix_script_def env_entries_def)
  moreover have "?script = join '' '' (''sudo'' # ''-n'' # ws) @ tail"
    using assms(2) by (cases ws) (simp_all add: sudo_script_def)
  moreover have "sh_words (join '' '' (''sudo'' # ''-n'' # ws) @ tail) = Some (''sudo'' # ''-n'' # ws, skip_blanks tail)"
    using assms(3) by (intro sh_words_join [OF _ _ assms(4)]) (simp_all add: bare_words)
  ultimately show ?thesis by (simp add: sudo_reading_def)
qed

subsection \<open>Names\<close>

lemma special_chars:
  assumes "sh_operator c \<or> sh_special c \<or> c = SQUOTE \<or> c = DQUOTE"
  shows "\<not> is_alnum c \<and> \<not> service_char c \<and> \<not> package_char c"
  using assms
  by (auto simp: sh_operator_def sh_special_def service_char_def package_char_def is_alnum_def is_alpha_def is_upper_def
      is_lower_def is_digit_def char_between_def)

lemma name_char_bare: "is_alnum c \<or> service_char c \<or> package_char c \<Longrightarrow> bare_word [c]"
  using special_chars [of c] by (auto simp: bare_word_def)

lemma bare_word_Cons: "bare_word (c # w) \<longleftrightarrow> bare_word [c] \<and> bare_word w"
  by (auto simp: bare_word_def)

lemma chars_bare: "(\<And>c. p c \<Longrightarrow> bare_word [c]) \<Longrightarrow> list_all p w \<Longrightarrow> bare_word w"
proof (induction w)
  case (Cons c w)
  then show ?case by (subst bare_word_Cons) simp
qed (simp add: bare_words)

text \<open>A name that is accepted is taken as it is, is one word for a shell, and is no option.\<close>

lemma service_name_safe:
  assumes "sanitizeServiceName name = Inr s"
  shows "s = name \<and> bare_word name \<and> name \<noteq> [] \<and> is_alnum (hd name)"
proof -
  have n: "s = name" "name \<noteq> []" "is_alnum (hd name)" "list_all service_char (tl name)"
    using assms by (auto simp: sanitizeServiceName_def split: if_splits)
  have "bare_word [hd name]" using name_char_bare n(3) by simp
  moreover have "bare_word (tl name)" by (rule chars_bare [OF _ n(4)]) (simp add: name_char_bare)
  ultimately have "bare_word (hd name # tl name)" by (subst bare_word_Cons) simp
  with n show ?thesis by simp
qed

lemma package_name_safe:
  assumes "sanitizePackageName name = Inr p"
  shows "p = name \<and> bare_word name \<and> name \<noteq> [] \<and> is_alnum (hd name)"
proof -
  have n: "p = name" "name \<noteq> []" "is_alnum (hd name)" "list_all package_char (tl name)"
    using assms by (auto simp: sanitizePackageName_def split: if_splits)
  have "bare_word [hd name]" using name_char_bare n(3) by simp
  moreover have "bare_word (tl name)" by (rule chars_bare [OF _ n(4)]) (simp add: name_char_bare)
  ultimately have "bare_word (hd name # tl name)" by (subst bare_word_Cons) simp
  with n show ?thesis by simp
qed

subsection \<open>Services\<close>

fun service_words :: "bool \<Rightarrow> service_state \<Rightarrow> string \<Rightarrow> string list \<times> string" where
  "service_words True Started s = ([''systemctl'', ''start'', s], [])"
| "service_words True Stopped s = ([''systemctl'', ''stop'', s], [])"
| "service_words True Restarted s = ([''systemctl'', ''restart'', s], [])"
| "service_words True Enabled s = ([''systemctl'', ''enable'', s], [])"
| "service_words True Disabled s = ([''systemctl'', ''disable'', s], [])"
| "service_words False Started s = ([''service'', s, ''start''], [])"
| "service_words False Stopped s = ([''service'', s, ''stop''], [])"
| "service_words False Restarted s = ([''service'', s, ''restart''], [])"
| "service_words False Enabled s = ([''chkconfig'', s, ''on''], ''|| update-rc.d '' @ s @ '' enable'')"
| "service_words False Disabled s = ([''chkconfig'', s, ''off''], ''|| update-rc.d '' @ s @ '' disable'')"

definition after_words :: "string \<Rightarrow> string" where
  "after_words rest = (if rest = [] then [] else '' '' @ rest)"

lemma service_command_join: "service_command b st s = join '' '' (fst (service_words b st s)) @ after_words (snd (service_words b st s))"
  by (cases b; cases st) (simp_all add: after_words_def)

lemma service_words_bare:
  "bare_word s \<Longrightarrow> s \<noteq> [] \<Longrightarrow> fst (service_words b st s) \<noteq> [] \<and> (\<forall>w \<in> set (fst (service_words b st s)). bare_word w \<and> w \<noteq> [])"
  by (cases b; cases st) (simp_all add: bare_word_def sh_operator_def sh_special_def)

lemma service_words_rest:
  "after_words (snd (service_words b st s)) = [] \<or>
     (\<exists>c r. after_words (snd (service_words b st s)) = '' '' @ c # r \<and> sh_operator c \<and> c \<noteq> CHR '' '')"
  "skip_blanks (after_words (snd (service_words b st s))) = snd (service_words b st s)"
  by (cases b; cases st; simp add: after_words_def sh_operator_def skip_blanks_def)+

definition service_options :: "service_state \<Rightarrow> sudo_policy_options" where
  "service_options state =
     \<lparr> sp_policyAction = Some EnsureService, sp_rawSudo = Some False, sp_path = None,
       sp_destructive = Some (state \<in> {Stopped, Restarted, Disabled}) \<rparr>"

text \<open>
  What the policy has to be asked: about the command of these words, as a change of a service that is
  not an arbitrary elevated command, and that destroys something when it stops, restarts or disables.
\<close>

definition service_question :: "bool \<Rightarrow> service_state \<Rightarrow> string \<Rightarrow> policy_context" where
  "service_question systemd state name =
     command_question EnsureService
       (join '' '' (fst (service_words systemd state name)) @ after_words (snd (service_words systemd state name)))
       None False (state = Stopped \<or> state = Restarted \<or> state = Disabled)"

text \<open>The init system is the one found on the host when the change was asked for, and one that is known.\<close>

definition service_reach :: "service \<Rightarrow> (policy_context \<Rightarrow> bool) \<Rightarrow> service_state \<Rightarrow> string \<Rightarrow> remote_op \<Rightarrow> bool" where
  "service_reach v permits state name c \<longleftrightarrow>
     (\<exists>h found systemd os line. sv_os v h = Inr found \<and> systemd = (os_init found = ''systemd'') \<and>
        os_init found \<noteq> ''launchd'' \<and> os_init found \<noteq> ''windows-service'' \<and> os_init found \<noteq> ''unknown'' \<and>
        permits (service_question systemd state name) \<and> c = RExec line \<and>
        sudo_reading os line (fst (service_words systemd state name)) (snd (service_words systemd state name)))"

lemma service_asked:
  "proc_context (ProcElevated (service_command systemd state name) password cwd limit (service_options state)) =
     service_question systemd state name"
  by (cases state) (simp_all add: service_options_def service_question_def service_command_join)

context policy_gate
begin

lemma service_gated:
  assumes "sv_gate v = gate" and "enforcing v"
  shows "reaches_only (service_reach v permits state name) (ensureService v sid name state)"
proof -
  have run: "reaches_only (service_reach v permits state name)
      (execSudo v sid (service_command (os_init found = ''systemd'') state s) None None None (service_options state))"
    if "sanitizeServiceName name = Inr s" and found: "sv_os v h = Inr found" "os_init found \<noteq> ''launchd''"
      "os_init found \<noteq> ''windows-service''" "os_init found \<noteq> ''unknown''" for s h found
  proof (rule reaches_mono [OF sudo_gated [OF assms]])
    fix c
    let ?b = "os_init found = ''systemd''"
    assume c: "permits (proc_context (ProcElevated (service_command ?b state s) None None None (service_options state))) \<and>
      proc_reach v (ProcElevated (service_command ?b state s) None None None (service_options state)) c"
    note n = service_name_safe [OF that(1)]
    from c obtain os line where line: "c = RExec line" "buildSudoCommand (service_command ?b state name) os None = Inr line"
      using n by (auto simp: proc_reach_def)
    note w = service_words_bare [of name ?b state]
    have "sudo_reading os line (fst (service_words ?b state name)) (snd (service_words ?b state name))"
      using sudo_line_words [OF line(2) [unfolded service_command_join], OF _ _ service_words_rest(1)] w n
      by (simp add: service_words_rest(2))
    moreover have "permits (service_question ?b state name)" using c n unfolding service_asked by simp
    ultimately show "service_reach v permits state name c" using line(1) found unfolding service_reach_def by blast
  qed
  show ?thesis
    unfolding ensureService_def service_options_def [symmetric] by (intro reaches_built reaches_detected reaches run) auto
qed

end

text \<open>
  C26: a change of a service reaches the host only as a command that the policy permits as such a change
  (asked about that very command, with the destructive ones marked), and that a shell reads as \<open>sudo -n\<close>
  with the fixed words for the init system found on the host and the state, and the name as one word,
  whatever name was asked for.
\<close>

theorem service_change_exact:
  assumes "sv_gate v = engine_gate env policy" and "enforcing v" and "ensureService v sid name state t = (r, t')"
  shows "\<exists>calls. t' = t @ calls \<and> (\<forall>c \<in> set calls. reaches_host c \<longrightarrow> service_reach v (permitted env policy) state name c)"
  by (rule reaches_each [OF engine.service_gated [OF assms(1,2)] assms(3)])

theorem service_change_exact_witness:
  "list_all (service_reach demo_service (permitted demo_env demo_config) Enabled ''ssh'')
     (filter reaches_host (snd (ensureService demo_service ''s'' ''ssh'' Enabled [])))"
  using service_change_exact [OF demo_service_gate surjective_pairing, of "''s''" "''ssh''" Enabled "[]"]
  by (auto simp: list_all_iff)

subsection \<open>Packages\<close>

definition package_options :: "bool option \<Rightarrow> sudo_policy_options" where
  "package_options destructive =
     \<lparr> sp_policyAction = Some EnsurePackage, sp_rawSudo = Some False, sp_path = None, sp_destructive = destructive \<rparr>"

definition apt_check :: "service \<Rightarrow> string \<Rightarrow> remote_op \<Rightarrow> bool" where
  "apt_check v name c \<longleftrightarrow>
     (\<exists>check os line. getPackageCheckCommand ''apt'' name = Some check \<and> c = RExec line \<and>
        buildRemoteCommandWithTimeout check os (sv_commandTimeoutMs v) None None = Inr line)"

definition apt_elevates_update :: "string \<Rightarrow> remote_op \<Rightarrow> bool" where
  "apt_elevates_update name c \<longleftrightarrow>
     (\<exists>os line. c = RExec line \<and> sudo_reading os line [''apt-get'', ''update''] (''&& apt-get install -y '' @ name))"

lemma bind_of_res: "io_bind (of_res (Inr x)) f = f x"
  by (simp add: fun_eq_iff io_bind_def of_res_def)

lemma reaches_proc_sudo:
  "reaches_only (proc_reach v (ProcElevated command password cwd limit options)) (execSudo v sid command password cwd limit options)"
  unfolding execSudo_def by (intro reaches reaches_detected reaches_run_sudo)

lemma apt_install_reaches:
  assumes "\<forall>h os. sv_os v h = Inr os \<longrightarrow> os_packageManager os = ''apt''"
  shows "reaches_only (\<lambda>c. apt_check v name c \<or> apt_elevates_update name c) (ensurePackage v sid name Present)"
proof -
  let ?P = "\<lambda>c. apt_check v name c \<or> apt_elevates_update name c"
  have check: "reaches_only ?P (checkPackageInstalled v sid name ''apt'')"
  proof -
    obtain check where check: "getPackageCheckCommand ''apt'' name = Some check" by (simp add: getPackageCheckCommand_def)
    have "reaches_only ?P (execCommand v sid check None None None)"
      unfolding execCommand_def
      by (intro reaches reaches_detected reaches_mono [OF reaches_run_bounded])
        (auto simp: proc_reach_def apt_check_def check)
    then show ?thesis by (simp add: checkPackageInstalled_def check reaches)
  qed
  have install: "reaches_only ?P (run_package_command v sid ''apt'' None (''apt-get update && apt-get install -y '' @ name))"
  proof -
    let ?ws = "[''apt-get'', ''update'']"
    have e: "''apt-get update && apt-get install -y '' @ name = join '' '' ?ws @ ('' && apt-get install -y '' @ name)" by simp
    have ws: "\<forall>w \<in> set ?ws. bare_word w \<and> w \<noteq> []" by (simp add: bare_word_def sh_operator_def sh_special_def)
    have tail: "'' && apt-get install -y '' @ name = [] \<or>
        (\<exists>c r. '' && apt-get install -y '' @ name = '' '' @ c # r \<and> sh_operator c \<and> c \<noteq> CHR '' '')"
      by (simp add: sh_operator_def)
    have "reaches_only ?P (execSudo v sid (''apt-get update && apt-get install -y '' @ name) None None None (package_options None))"
    proof (rule reaches_mono [OF reaches_proc_sudo])
      fix c
      assume "proc_reach v (ProcElevated (''apt-get update && apt-get install -y '' @ name) None None None (package_options None)) c"
      then obtain os line where line: "c = RExec line"
        "buildSudoCommand (''apt-get update && apt-get install -y '' @ name) os None = Inr line"
        by (auto simp: proc_reach_def)
      from sudo_line_words [OF line(2) [unfolded e] _ ws tail] line(1) show "?P c"
        by (auto simp: apt_elevates_update_def skip_blanks_def)
    qed
    then show ?thesis
      by (simp add: run_package_command_def usesDirectPackageCommand_def package_options_def [symmetric] reaches)
  qed
  show ?thesis
    unfolding ensurePackage_def Let_def
  proof (intro reaches_built reaches_bind [OF reaches_require] reaches_detected)
    fix p os h
    assume p: "sanitizePackageName name = Inr p" and os: "sv_os v h = Inr os"
    have pm: "os_packageManager os = ''apt''" "p = name" using assms os package_name_safe [OF p] by simp_all
    have cmd: "getInstallCommand ''apt'' name = Inr (''apt-get update && apt-get install -y '' @ name)"
      by (simp add: getInstallCommand_def)
    show "reaches_only ?P
        (if os_packageManager os = ''unknown'' then
           io_throw (MCPError (createPackageManagerError ''No supported package manager found'' (Some SUPPORTED_PACKAGE_MANAGERS_HINT)))
         else io_bind (checkPackageInstalled v sid p (os_packageManager os)) (\<lambda>isInstalled.
           if Present = Absent then
             if \<not> isInstalled then io_ret (already (os_packageManager os) p '' is not installed'')
             else io_bind (of_res (getRemoveCommand (os_packageManager os) p)) (run_package_command v sid (os_packageManager os) (Some True))
           else if isInstalled then io_ret (already (os_packageManager os) p '' is already installed'')
           else io_bind (of_res (getInstallCommand (os_packageManager os) p)) (run_package_command v sid (os_packageManager os) None)))"
      unfolding pm cmd bind_of_res by simp (intro reaches check install)
  qed
qed

text \<open>
  C40: the installation of a package with apt runs without \<open>sudo\<close>: of \<open>sudo -n apt-get update && apt-get
  install -y NAME\<close> a shell gives \<open>sudo\<close> the update only. Whatever happens, \<open>ensurePackage\<close> runs no other
  line on such a host than the check and this one, so it cannot install anything as an unprivileged
  user.
\<close>

theorem apt_install_not_elevated:
  assumes "\<forall>h os. sv_os v h = Inr os \<longrightarrow> os_packageManager os = ''apt''"
    and "ensurePackage v sid name Present t = (r, t')"
  shows "\<exists>calls. t' = t @ calls \<and>
    (\<forall>c \<in> set calls. reaches_host c \<longrightarrow> apt_check v name c \<or> apt_elevates_update name c)"
  by (rule reaches_each [OF apt_install_reaches [OF assms(1)] assms(2)])

theorem apt_install_not_elevated_witness:
  "list_all (\<lambda>c. apt_check demo_service ''curl'' c \<or> apt_elevates_update ''curl'' c)
     (filter reaches_host (snd (ensurePackage demo_service ''s'' ''curl'' Present [])))"
proof -
  have "\<forall>h os. sv_os demo_service h = Inr os \<longrightarrow> os_packageManager os = ''apt''" by (simp add: demo_service_def demo_os_def)
  from apt_install_not_elevated [OF this surjective_pairing, of "''s''" "''curl''" "[]"] show ?thesis by (auto simp: list_all_iff)
qed

subsection \<open>Lines\<close>

lemma split_on_append: "p c \<Longrightarrow> split_on p (xs @ c # ys) = split_on p xs @ split_on p ys"
  by (induction xs) (auto split: list.splits)

lemma read_lines_append: "read_lines (s @ LF # r) = read_lines s @ read_lines r"
  by (simp add: read_lines_def split_on_append)

lemma read_lines_join: "\<forall>l \<in> set ls. LF \<notin> set l \<Longrightarrow> ls \<noteq> [] \<Longrightarrow> read_lines (join [LF] ls) = ls"
  unfolding read_lines_def by (rule split_on_join) auto

lemma missing_none: "missing_lines ls c = [] \<longleftrightarrow> set ls \<subseteq> set (read_lines c)"
  by (auto simp: missing_lines_def filter_empty_conv)

text \<open>
  Asked again, the lines are all there: a second run changes nothing. This needs lines without line
  breaks, and for a new file lines that are not blank.
\<close>

lemma ensured_lines_stay:
  assumes "\<forall>l \<in> set lines. LF \<notin> set l" and "fileExists \<or> content = [] \<and> [] \<notin> set lines"
  shows "missing_lines lines (add_lines fileExists lines content) = []"
proof -
  let ?m = "missing_lines lines content"
  have m: "\<forall>l \<in> set ?m. LF \<notin> set l" using assms(1) by (simp add: missing_lines_def)
  have all: "l \<in> set ?m \<or> l \<in> set (read_lines content)" if "l \<in> set lines" for l
    using that by (auto simp: missing_lines_def)
  have added: "set ?m \<subseteq> set (read_lines (join [LF] ?m))" using read_lines_join [OF m] by (cases "?m = []") auto
  show ?thesis
  proof (cases fileExists)
    case True
    with all added show ?thesis unfolding missing_none by (auto simp: add_lines_def read_lines_append)
  next
    case False
    with assms(2) have "content = []" "[] \<notin> set lines" by simp_all
    with all have "set lines \<subseteq> set ?m" by (auto simp: read_lines_def)
    with added False show ?thesis unfolding missing_none by (auto simp: add_lines_def)
  qed
qed

lemma existing_lines_stay: "prefix (read_lines content) (read_lines (add_lines True lines content))"
  by (simp add: add_lines_def read_lines_append)

lemma line_with_break_never_found: "l \<in> set lines \<Longrightarrow> LF \<in> set l \<Longrightarrow> l \<in> set (missing_lines lines content)"
  by (auto simp: missing_lines_def read_lines_def dest: split_on_parts)

lemma removed_lines_gone:
  assumes "filter (\<lambda>l. l \<notin> set lines) (read_lines content) \<noteq> []"
  shows "read_lines (remove_lines lines content) = filter (\<lambda>l. l \<notin> set lines) (read_lines content)"
  unfolding remove_lines_def
  by (rule read_lines_join [OF _ assms]) (auto simp: read_lines_def dest: split_on_parts)

end
