(* ===== verification/Spec2Isabelle.thy ===== *)
theory Spec2Isabelle
  imports SafetyProps PolicyProps HttpRateLimit Retry HttpSessions SessionManagerProps Shell Nonces
    AgentHandlerProps OAuthTokens ControlPlaneRuns AgentRuntimeProps PolicyUpdates AgentLiveness
    TunnelProps Detect FsProps ProcessProps TransferProps EnsureProps
begin

text \<open>
  A verification development for ssh-mcp-pro, an MCP server that lets a language model work on
  remote hosts over SSH, and its remote control plane, through which agents on other hosts take
  signed actions.

  The parts and how they interact. A tool call passes a rate limit (\<open>RateLimiter\<close>), the policy
  engine (\<open>Policy\<close>, which normalises paths with \<open>Paths\<close> and consults the safety table \<open>Safety\<close>) and
  the session manager (\<open>SessionManager\<close>), which verifies host keys and builds credentials with
  \<open>SessionAuth\<close> and asks the policy before it connects; its command is put into shell syntax by
  \<open>Shell\<close>. The operations on a session (commands in \<open>ProcessService\<close>, files in \<open>FsService\<close>, copies in
  \<open>TransferService\<close>, packages, services and lines in \<open>EnsureService\<close>, forwards in \<open>Tunnels\<close>) look the
  session up, ask the policy in its mode, and then act on the remote host (\<open>RemoteHost\<close>), whose operating
  system \<open>Detect\<close> finds out; they report to \<open>Metrics\<close>. Over HTTP, connections are kept in a registry (\<open>HttpSessions\<close>). The control plane grants
  OAuth scopes, which give capabilities (\<open>RemotePolicy\<close>); agents enforce a path policy and guard
  themselves against replayed and stale messages (\<open>Nonces\<close>, on the windows of \<open>ReplayWindow\<close>). At
  the other end of its web socket an agent (\<open>AgentRuntime\<close>) obeys the signed orders of its control
  plane: it executes them with \<open>AgentExecutor\<close>, which touches files through \<open>SafeFile\<close> only, and all
  of this acts on a host (\<open>HostIO\<close>) that may change between any two calls.

  Theories, in the order of the code:
  \<^item> \<open>Prelude\<close>: JavaScript strings and maps (insertion order), results, transition systems.
  \<^item> \<open>Errors\<close>: \<open>src/errors.ts\<close> and the error class of \<open>src/types.ts\<close>.
  \<^item> \<open>Paths\<close>: \<open>path.posix\<close> of Node and the path functions of \<open>src/policy.ts\<close>.
  \<^item> \<open>Regex\<close>: the fixed regular expressions, matched with backtracking order and declaratively.
  \<^item> \<open>Safety\<close>, \<open>SafetyProps\<close>: \<open>src/safety.ts\<close>.
  \<^item> \<open>Policy\<close>, \<open>PolicyProps\<close>: \<open>src/policy.ts\<close> and its specification \<open>permitted\<close>.
  \<^item> \<open>RateLimiter\<close>, \<open>HttpRateLimit\<close>: \<open>src/rate-limiter.ts\<close>, \<open>src/http-rate-limit.ts\<close>.
  \<^item> \<open>Retry\<close>: \<open>src/retry.ts\<close>.
  \<^item> \<open>HttpSessions\<close>: \<open>src/http-session-registry.ts\<close> and its use in \<open>src/http-server-runtime.ts\<close>.
  \<^item> \<open>SessionAuth\<close>: \<open>src/session-auth.ts\<close>; \<open>SessionManager\<close>, \<open>SessionManagerProps\<close>: \<open>src/session.ts\<close>.
  \<^item> \<open>PolicyGate\<close>: the engine behind \<open>assertAllowed\<close>, as its clients see it.
  \<^item> \<open>Shell\<close>: \<open>src/shell.ts\<close> and a reader of POSIX shell words.
  \<^item> \<open>Metrics\<close>: \<open>src/metrics.ts\<close>, the counters as functions of the events reported.
  \<^item> \<open>Effects\<close>: computations that make calls, their weakest preconditions, and runs in which every call is
    authorised; \<open>RemoteHost\<close>: the calls of the services and the answers they get.
  \<^item> \<open>ProcessService\<close>: \<open>src/process.ts\<close>, \<open>src/streaming.ts\<close>; \<open>ProcessProps\<close>: what reaches the host is
    permitted and built from the command asked for; outputs are bounded, uncut streams are faithful.
  \<^item> \<open>FsService\<close>: \<open>src/fs-sftp.ts\<close>, \<open>src/fs-stat.ts\<close>, \<open>src/fs-tools.ts\<close>; \<open>FsProps\<close>: which calls each file
    operation makes and that they are permitted, what a write leaves behind, paging, removal.
  \<^item> \<open>Detect\<close>: \<open>src/detect.ts\<close>.
  \<^item> \<open>EnsureService\<close>: \<open>src/ensure-pkg.ts\<close>, \<open>src/ensure-package-service.ts\<close>, \<open>src/ensure.ts\<close>;
    \<open>EnsureProps\<close>: the command lines as a shell reads them, lines of files.
  \<^item> \<open>TransferService\<close>: \<open>src/transfer.ts\<close>; \<open>TransferProps\<close>: what a transfer that succeeded has done.
  \<^item> \<open>Tunnels\<close>, \<open>TunnelProps\<close>: \<open>src/tunnel.ts\<close> and its runs.
  \<^item> \<open>Auth\<close>: \<open>src/auth.ts\<close>, \<open>src/oauth.ts\<close>.
  \<^item> \<open>RemotePolicy\<close>: \<open>src/remote/types.ts\<close>, \<open>scopes.ts\<close>, \<open>policy.ts\<close>, \<open>util.ts\<close>.
  \<^item> \<open>ReplayWindow\<close>, \<open>Nonces\<close>: the nonce functions of \<open>src/remote/http-util.ts\<close> and
    \<open>src/remote/policy-update-guard.ts\<close>.
  \<^item> \<open>Json\<close>, \<open>Envelopes\<close>: canonical JSON, signatures and schemas, \<open>src/remote/crypto.ts\<close>,
    \<open>src/remote/schemas.ts\<close>.
  \<^item> \<open>RemoteConfig\<close>: \<open>src/remote/config.ts\<close>.
  \<^item> \<open>RemoteStore\<close>: the tables of \<open>src/remote/store.ts\<close>, as lists of rows with their keys.
  \<^item> \<open>AgentLifecycle\<close>, \<open>AgentLifecycleProps\<close>: \<open>src/remote/agent-connection-lifecycle.ts\<close>, the slots of
    connections and their timers, as a transition system.
  \<^item> \<open>AgentHandler\<close>, \<open>AgentHandlerProps\<close>: \<open>src/remote/agent-handler.ts\<close>, the control plane's end of
    an agent's web socket: hellos, results, time-outs, closes.
  \<^item> \<open>OAuthFlow\<close>, \<open>OAuthProps\<close>, \<open>OAuthTokens\<close>: \<open>src/remote/oauth-handler.ts\<close>, the authorisation server.
  \<^item> \<open>ControlPlane\<close>, \<open>ControlPlaneProps\<close>, \<open>ControlPlaneRuns\<close>: \<open>src/remote/control-plane.ts\<close>, the
    operations for users and agents, then its properties of one call and of runs of calls. The requests
    that wait for their bodies are part of the state of a run: a \<open>PATCH\<close> of a policy holds the agent's row
    that it read before the wait and writes it back after it, so it can bring a revoked agent back.
  \<^item> \<open>HostIO\<close>: the calls of an agent on its host, with their failures.
  \<^item> \<open>SafeFile\<close>: \<open>src/remote/safe-file.ts\<close>, the reading and atomic writing of authorised files.
  \<^item> \<open>AgentExecutor\<close>, \<open>AgentExecutorProps\<close>: \<open>src/remote/agent-executor.ts\<close>, the tools of an agent.
  \<^item> \<open>AgentRuntime\<close>, \<open>AgentRuntimeProps\<close>: \<open>src/remote/agent-cli.ts\<close>, enrolment and the messages of an
    agent; \<open>AgentLiveness\<close>: what happens to silent connections in infinite runs. \<open>PolicyUpdates\<close> takes a
    policy from \<open>updateAgentPolicy\<close> of the control plane as a signed envelope to \<open>onmessage\<close> of the agent.

  Conventions. Strings are lists of 8-bit characters, so the statements are about Latin-1 text;
  numbers are unbounded integers (the code's counters and millisecond times stay far below
  \<open>2 ^ 53\<close>) and rationals where the code divides. A \<open>Map\<close> is an association list in insertion
  order. Clocks, random values, file reads, digests, signatures, name look-ups and third-party
  calls are arguments; what the code relies on of them is a named hypothesis. Errors are values.
  An operation that awaits is split at the await where its interleavings matter
  (\<open>SessionManager\<close>, \<open>Tunnels\<close>, \<open>AgentHandler\<close>, \<open>ControlPlane\<close>: an action is dispatched in one step and
  settled in another, a \<open>PATCH\<close> reads the agent before its body arrives), and otherwise modelled as the run without interruption. The answer of the host to a call
  is an arbitrary function of all the calls before it, so that between two calls anything may have
  happened there; statements about calls say what was known of the host when a call was made. For
  agents they are for Linux, where an open file has a path under \<open>/proc/self/fd\<close>. The same holds of the
  services of a session (\<open>RemoteHost\<close>): sessions may expire and files may change between two calls.
  The outputs of \<open>stat\<close> that the services read are taken to be integers. Recursions are structural or have
  a measure; the one exception is the removal of directories, whose recursion follows what the server
  lists and has no bound in the code. It has a depth bound as an argument, and running into it is a
  result of its own, which \<open>FsProps\<close> shows not to happen when the bound is at least the depth of what
  the server lists.

  What is permitted is stated with requests to the policy that are written out field by field beside the
  properties (\<open>command_question\<close>, \<open>service_question\<close>, \<open>tunnel_question\<close>, the contexts of files and transfers),
  not with the functions of the code that build them; in the same way \<open>open_question\<close> and
  \<open>host_key_acceptable\<close> say which host keys a session may accept, \<open>stands_for\<close> which file on the host an
  authorised write is for, and \<open>fresh_update\<close> and \<open>installs\<close> which policy updates an agent takes. A limit on
  requests holds between two resets of a key. The policy engine is built and asked with one \<open>realpath\<close> and one
  working directory: that links or the directory change between the two is not modelled.

  Interfaces are locales interpreted on the model: \<open>keyed_store\<close> (maps), \<open>transition_system\<close>
  (registry, manager, connection, tunnel, OAuth, control-plane and agent invariants), \<open>usage_source\<close> (limiter to
  headers), \<open>policy_gate\<close> (the engine to the session manager, the tunnels and the commands, files, services
  and packages of a session), \<open>replay_guard\<close> (replay windows of
  connections, policy updates and actions), \<open>single_use\<close>
  (authorisation codes and enrolment tokens: what is spent stays spent).

  Not modelled: the MCP tools, prompts and resources (declarations for the SDK around the operations
  that are modelled), the HTTP server and its routing, the reading of the server's configuration and of
  \<open>~/.ssh/config\<close>, the web dashboard, framing of web sockets, logs and telemetry, process start-up and
  the command line, and the bodies of third-party libraries.
\<close>

end
